(* ===== verification/Acs_Prelude.thy ===== *)
theory Acs_Prelude
  imports Main "HOL-Library.AList" "HOL-Library.Sublist" "HOL-Library.Char_ord"
    "HOL-Library.List_Lexorder" "HOL-Library.Product_Lexorder"
begin

text \<open>
  Shared vocabulary of the development: the parts of Python that the server's source uses.

  Strings are \<^typ>\<open>string\<close>, lists of characters with code points below 256; the predicates
  on characters below follow Python on that range (so a superscript two is \<open>isdigit\<close> but not
  a decimal digit). A \<open>dict\<close> is an association list in insertion order: \<^const>\<open>map_of\<close> reads
  it, \<^const>\<open>AList.update\<close> overwrites a key in place or appends it, \<^const>\<open>AList.delete\<close> pops
  it. An optional string is truthy when it is present and not empty. Exceptions are values of
  a sum type, on the left. Time and randomness are arguments.
\<close>

named_theorems py_str \<open>unfolding rules of the string operations\<close>
named_theorems guard_simps \<open>equations of the operations' guards\<close>

section \<open>Characters\<close>

definition code_of :: "char \<Rightarrow> nat" where
  "code_of c = of_char c"

definition is_decimal :: "char \<Rightarrow> bool" where
  "is_decimal c \<longleftrightarrow> 48 \<le> code_of c \<and> code_of c \<le> 57"

definition py_isdigit_char :: "char \<Rightarrow> bool" where
  "py_isdigit_char c \<longleftrightarrow> is_decimal c \<or> code_of c \<in> {178, 179, 185}"

definition py_isalpha_char :: "char \<Rightarrow> bool" where
  "py_isalpha_char c \<longleftrightarrow> (let n = code_of c in
     (65 \<le> n \<and> n \<le> 90) \<or> (97 \<le> n \<and> n \<le> 122) \<or> n \<in> {170, 181, 186} \<or>
     (192 \<le> n \<and> n \<le> 214) \<or> (216 \<le> n \<and> n \<le> 246) \<or> 248 \<le> n)"

definition py_isalnum_char :: "char \<Rightarrow> bool" where
  "py_isalnum_char c \<longleftrightarrow>
     py_isalpha_char c \<or> py_isdigit_char c \<or> code_of c \<in> {188, 189, 190}"

definition py_isspace_char :: "char \<Rightarrow> bool" where
  "py_isspace_char c \<longleftrightarrow> (let n = code_of c in
     (9 \<le> n \<and> n \<le> 13) \<or> (28 \<le> n \<and> n \<le> 32) \<or> n = 133 \<or> n = 160)"

definition is_ascii :: "char \<Rightarrow> bool" where
  "is_ascii c \<longleftrightarrow> code_of c < 128"

definition py_lower_char :: "char \<Rightarrow> char" where
  "py_lower_char c = (let n = code_of c in
     if (65 \<le> n \<and> n \<le> 90) \<or> (192 \<le> n \<and> n \<le> 222 \<and> n \<noteq> 215) then char_of (n + 32) else c)"

abbreviation newline :: char where
  "newline \<equiv> CHR 0x0A"

section \<open>String operations\<close>

definition py_isdigit :: "string \<Rightarrow> bool" where
  "py_isdigit s \<longleftrightarrow> s \<noteq> [] \<and> list_all py_isdigit_char s"

definition py_isalnum :: "string \<Rightarrow> bool" where
  "py_isalnum s \<longleftrightarrow> s \<noteq> [] \<and> list_all py_isalnum_char s"

definition py_isspace :: "string \<Rightarrow> bool" where
  "py_isspace s \<longleftrightarrow> s \<noteq> [] \<and> list_all py_isspace_char s"

definition py_lower :: "string \<Rightarrow> string" where
  "py_lower s = map py_lower_char s"

definition strip_by :: "(char \<Rightarrow> bool) \<Rightarrow> string \<Rightarrow> string" where
  "strip_by P s = rev (dropWhile P (rev (dropWhile P s)))"

definition py_strip :: "string \<Rightarrow> string" where
  "py_strip s = strip_by py_isspace_char s"

definition py_lstrip_chars :: "string \<Rightarrow> string \<Rightarrow> string" where
  "py_lstrip_chars cs s = dropWhile (\<lambda>c. c \<in> set cs) s"

definition py_rstrip_chars :: "string \<Rightarrow> string \<Rightarrow> string" where
  "py_rstrip_chars cs s = rev (dropWhile (\<lambda>c. c \<in> set cs) (rev s))"

definition py_startswith :: "string \<Rightarrow> string \<Rightarrow> bool" where
  "py_startswith s p \<longleftrightarrow> take (length p) s = p"

fun py_split :: "char \<Rightarrow> string \<Rightarrow> string list" where
  "py_split c [] = [[]]"
| "py_split c (x # xs) =
     (if x = c then [] # py_split c xs
      else (case py_split c xs of [] \<Rightarrow> [[x]] | w # ws \<Rightarrow> (x # w) # ws))"

fun py_join :: "string \<Rightarrow> string list \<Rightarrow> string" where
  "py_join sep [] = []"
| "py_join sep [w] = w"
| "py_join sep (w # v # ws) = w @ sep @ py_join sep (v # ws)"

text \<open>\<open>s.partition(c)\<close> as the text before the first \<open>c\<close>, whether \<open>c\<close> occurs, and the rest;
  \<open>s.split(c, 1)[0]\<close> is its first component.\<close>

definition py_partition :: "char \<Rightarrow> string \<Rightarrow> string \<times> bool \<times> string" where
  "py_partition c s =
     (takeWhile (\<lambda>x. x \<noteq> c) s, c \<in> set s, drop 1 (dropWhile (\<lambda>x. x \<noteq> c) s))"

definition py_before :: "char \<Rightarrow> string \<Rightarrow> string" where
  "py_before c s = takeWhile (\<lambda>x. x \<noteq> c) s"

text \<open>\<open>s.rpartition(c)\<close>: split at the last \<open>c\<close>; without one the head is empty.\<close>

definition py_rpartition :: "char \<Rightarrow> string \<Rightarrow> string \<times> bool \<times> string" where
  "py_rpartition c s =
     (if c \<in> set s
      then (rev (drop 1 (dropWhile (\<lambda>x. x \<noteq> c) (rev s))), True,
            rev (takeWhile (\<lambda>x. x \<noteq> c) (rev s)))
      else ([], False, s))"

text \<open>A pattern \<open>^X$\<close> used with \<open>match\<close>: the dollar also matches before one final newline.\<close>

definition re_line :: "(string \<Rightarrow> bool) \<Rightarrow> string \<Rightarrow> bool" where
  "re_line X s \<longleftrightarrow> X s \<or> (s \<noteq> [] \<and> last s = newline \<and> X (butlast s))"

definition contains :: "string \<Rightarrow> string \<Rightarrow> bool" where
  "contains needle s \<longleftrightarrow> sublist needle s"

lemmas py_defs = code_of_def is_decimal_def py_isdigit_char_def py_isalpha_char_def
  py_isalnum_char_def py_isspace_char_def is_ascii_def py_lower_char_def
  py_isdigit_def py_isalnum_def py_lower_def strip_by_def py_strip_def
  py_lstrip_chars_def py_rstrip_chars_def py_startswith_def py_partition_def py_before_def
  py_rpartition_def re_line_def

section \<open>Decimal numerals\<close>

definition digit_char :: "nat \<Rightarrow> char" where
  "digit_char n = char_of (48 + n)"

fun str_of_nat :: "nat \<Rightarrow> string" where
  "str_of_nat n =
     (if n < 10 then [digit_char n] else str_of_nat (n div 10) @ [digit_char (n mod 10)])"

declare str_of_nat.simps [simp del]

definition str_of_int :: "int \<Rightarrow> string" where
  "str_of_int i = (if i < 0 then ''-'' @ str_of_nat (nat (- i)) else str_of_nat (nat i))"

definition int_max_str_digits :: nat where
  "int_max_str_digits = 4300"

fun scan_digits :: "bool \<Rightarrow> nat \<Rightarrow> string \<Rightarrow> nat option" where
  "scan_digits after_digit a [] = (if after_digit then Some a else None)"
| "scan_digits after_digit a (c # cs) =
     (if is_decimal c then scan_digits True (10 * a + (code_of c - 48)) cs
      else if c = CHR ''_'' \<and> after_digit then scan_digits False a cs
      else None)"

definition py_nat :: "string \<Rightarrow> nat option" where
  "py_nat s =
     (if int_max_str_digits < length (filter is_decimal s) then None else scan_digits False 0 s)"

text \<open>\<open>int(s)\<close>: surrounding white space, a sign, digits with single underscores between them,
  and at most 4300 digits; \<^const>\<open>None\<close> is the \<open>ValueError\<close>.\<close>

definition py_int :: "string \<Rightarrow> int option" where
  "py_int s = (case py_strip s of
     [] \<Rightarrow> None
   | c # cs \<Rightarrow>
       if c = CHR ''-'' then map_option (\<lambda>n. - int n) (py_nat cs)
       else if c = CHR ''+'' then map_option int (py_nat cs)
       else map_option int (py_nat (c # cs)))"

section \<open>Truthiness and dictionaries\<close>

definition str_or :: "string \<Rightarrow> string \<Rightarrow> string" where
  "str_or a b = (if a \<noteq> [] then a else b)"

definition opt_or :: "string option \<Rightarrow> string \<Rightarrow> string" where
  "opt_or a b = (case a of Some (c # cs) \<Rightarrow> c # cs | _ \<Rightarrow> b)"

definition truthy :: "string option \<Rightarrow> bool" where
  "truthy s \<longleftrightarrow> s \<noteq> None \<and> s \<noteq> Some []"

type_synonym ('k, 'v) dict = "('k \<times> 'v) list"

definition dict_get :: "('k, 'v) dict \<Rightarrow> 'k \<Rightarrow> 'v option" where
  "dict_get d k = map_of d k"

definition dict_get_or :: "('k, 'v) dict \<Rightarrow> 'k \<Rightarrow> 'v \<Rightarrow> 'v" where
  "dict_get_or d k v = (case map_of d k of None \<Rightarrow> v | Some w \<Rightarrow> w)"

definition dict_put :: "'k \<Rightarrow> 'v \<Rightarrow> ('k, 'v) dict \<Rightarrow> ('k, 'v) dict" where
  "dict_put k v d = AList.update k v d"

definition dict_pop :: "'k \<Rightarrow> ('k, 'v) dict \<Rightarrow> ('k, 'v) dict" where
  "dict_pop k d = AList.delete k d"

text \<open>Sequencing of steps that may raise: the first error ends the computation.\<close>

definition bind_err :: "'e + 'a \<Rightarrow> ('a \<Rightarrow> 'e + 'b) \<Rightarrow> 'e + 'b" where
  "bind_err x f = (case x of Inl e \<Rightarrow> Inl e | Inr a \<Rightarrow> f a)"

text \<open>The same with a state that is kept when a step raises.\<close>

definition bind_step :: "('e + 'a) \<times> 's \<Rightarrow> ('a \<Rightarrow> 's \<Rightarrow> ('e + 'b) \<times> 's) \<Rightarrow> ('e + 'b) \<times> 's" where
  "bind_step x f = (case x of (Inl e, s) \<Rightarrow> (Inl e, s) | (Inr a, s) \<Rightarrow> f a s)"

text \<open>\<open>at or now()\<close> on an optional number: absent and zero both mean the clock.\<close>

definition time_or :: "int option \<Rightarrow> int \<Rightarrow> int" where
  "time_or at clock = (case at of None \<Rightarrow> clock | Some t \<Rightarrow> if t = 0 then clock else t)"

text \<open>\<open>hmac.compare_digest\<close> on two strings raises \<open>TypeError\<close> (\<^const>\<open>None\<close>) unless both are
  ASCII.\<close>

definition compare_digest :: "string \<Rightarrow> string \<Rightarrow> bool option" where
  "compare_digest a b =
     (if list_all is_ascii a \<and> list_all is_ascii b then Some (a = b) else None)"

text \<open>\<open>s.encode()\<close>: UTF-8, one byte below 128 and two below 256, bytes as characters.\<close>

definition utf8 :: "string \<Rightarrow> string" where
  "utf8 s = concat (map (\<lambda>c. let n = code_of c in
     if n < 128 then [c] else [char_of (192 + n div 64), char_of (128 + n mod 64)]) s)"

text \<open>\<open>s.strip(chars)\<close> and the dictionary comprehension \<open>{f(k): v for k, v in d.items()}\<close>,
  where a later key overwrites an equal earlier one.\<close>

definition py_strip_chars :: "string \<Rightarrow> string \<Rightarrow> string" where
  "py_strip_chars cs s = strip_by (\<lambda>c. c \<in> set cs) s"

definition dict_rekey :: "('k \<Rightarrow> 'k) \<Rightarrow> ('k, 'v) dict \<Rightarrow> ('k, 'v) dict" where
  "dict_rekey f d = fold (\<lambda>(k, v) out. dict_put (f k) v out) d []"

section \<open>Lemmas\<close>

lemma dict_get_put [simp]: "dict_get (dict_put k v d) k' = (if k' = k then Some v else dict_get d k')"
  by (simp add: dict_get_def dict_put_def update_conv')

lemma dict_get_pop [simp]: "dict_get (dict_pop k d) k' = (if k' = k then None else dict_get d k')"
  by (simp add: dict_get_def dict_pop_def delete_conv')

lemma dict_get_Nil [simp]: "dict_get [] k = None"
  by (simp add: dict_get_def)

lemma dict_keys_put: "fst ` set (dict_put k v d) = insert k (fst ` set d)"
  by (simp add: dict_put_def dom_update)

lemma dict_put_distinct: "distinct (map fst d) \<Longrightarrow> distinct (map fst (dict_put k v d))"
  by (simp add: dict_put_def distinct_update)

lemma dict_pop_distinct: "distinct (map fst d) \<Longrightarrow> distinct (map fst (dict_pop k d))"
  by (simp add: dict_pop_def distinct_delete)

lemma bind_err_simps [simp]:
  "bind_err (Inl e) f = Inl e"
  "bind_err (Inr a) f = f a"
  by (simp_all add: bind_err_def)

lemma bind_err_Inr: "bind_err x f = Inr b \<longleftrightarrow> (\<exists>a. x = Inr a \<and> f a = Inr b)"
  by (cases x) simp_all

lemma case_InrD: "(case x of Inl e \<Rightarrow> False | Inr a \<Rightarrow> P a) \<Longrightarrow> \<exists>a. x = Inr a \<and> P a"
  by (cases x) simp_all

lemma bind_err_cong [fundef_cong]:
  "x = y \<Longrightarrow> (\<And>a. y = Inr a \<Longrightarrow> f a = g a) \<Longrightarrow> bind_err x f = bind_err y g"
  by (cases y) simp_all

lemma bind_step_simps [simp]:
  "bind_step (Inl e, s) f = (Inl e, s)"
  "bind_step (Inr a, s) f = f a s"
  by (simp_all add: bind_step_def)

lemma bind_step_Inr: "bind_step x f = (Inr b, t) \<longleftrightarrow> (\<exists>a s. x = (Inr a, s) \<and> f a s = (Inr b, t))"
  by (cases x; cases "fst x") (auto simp: bind_step_def)

lemma bind_step_cong [fundef_cong]:
  assumes "x = y" "\<And>a s. y = (Inr a, s) \<Longrightarrow> f a s = g a s"
  shows "bind_step x f = bind_step y g"
  using assms by (auto simp: bind_step_def split: prod.split sum.split)

lemma time_or_simps [simp]:
  "time_or None clock = clock"
  "t \<noteq> 0 \<Longrightarrow> time_or (Some t) clock = t"
  by (simp_all add: time_or_def)

lemma truthy_iff: "truthy s \<longleftrightarrow> (\<exists>c cs. s = Some (c # cs))"
  by (cases s; auto simp: truthy_def neq_Nil_conv)

lemma opt_or_Some [simp]: "opt_or (Some (c # cs)) b = c # cs"
  by (simp add: opt_or_def)

lemma opt_or_None [simp]: "opt_or None b = b"
  by (simp add: opt_or_def)

lemma is_decimal_isdigit [simp]: "is_decimal c \<Longrightarrow> py_isdigit_char c"
  by (simp add: py_isdigit_char_def)

lemma digit_char_code: "n < 10 \<Longrightarrow> code_of (digit_char n) = 48 + n"
  by (simp add: digit_char_def code_of_def)

lemma digit_char_decimal: "n < 10 \<Longrightarrow> is_decimal (digit_char n)"
  by (simp add: is_decimal_def digit_char_code)

lemma str_of_nat_decimal: "list_all is_decimal (str_of_nat n)"
proof (induction n rule: str_of_nat.induct)
  case (1 n)
  then show ?case
    by (subst str_of_nat.simps) (auto simp: digit_char_decimal)
qed

lemma str_of_nat_not_Nil [simp]: "str_of_nat n \<noteq> []"
  by (subst str_of_nat.simps) simp

lemma scan_digits_run:
  "list_all is_decimal xs \<Longrightarrow>
   scan_digits True a (xs @ ys) = scan_digits True (foldl (\<lambda>n c. 10 * n + (code_of c - 48)) a xs) ys"
  by (induction xs arbitrary: a) auto

lemma scan_digits_append:
  "list_all is_decimal xs \<Longrightarrow> xs \<noteq> [] \<Longrightarrow>
   scan_digits b a (xs @ ys) =
     scan_digits True (foldl (\<lambda>n c. 10 * n + (code_of c - 48)) a xs) ys"
  by (cases xs) (auto simp: scan_digits_run)

lemma foldl_str_of_nat: "foldl (\<lambda>n c. 10 * n + (code_of c - 48)) 0 (str_of_nat n) = n"
proof (induction n rule: str_of_nat.induct)
  case (1 n)
  show ?case
  proof (cases "n < 10")
    case True
    then show ?thesis by (subst str_of_nat.simps) (simp add: digit_char_code)
  next
    case False
    then show ?thesis
      by (subst str_of_nat.simps) (simp add: 1 digit_char_code)
  qed
qed

lemma filter_decimal_str_of_nat: "filter is_decimal (str_of_nat n) = str_of_nat n"
  using str_of_nat_decimal by (simp add: filter_id_conv list_all_iff)

lemma py_nat_str_of_nat: "length (str_of_nat n) \<le> int_max_str_digits \<Longrightarrow> py_nat (str_of_nat n) = Some n"
  using scan_digits_append [OF str_of_nat_decimal str_of_nat_not_Nil, of False 0 n "[]"]
  by (simp add: py_nat_def filter_decimal_str_of_nat foldl_str_of_nat)

lemma py_startswith_iff: "py_startswith s p \<longleftrightarrow> (\<exists>r. s = p @ r)"
  by (metis append_eq_conv_conj py_startswith_def)

lemma py_startswith_append [simp]: "py_startswith (p @ r) p"
  by (auto simp: py_startswith_iff)

lemma dropWhile_hd_id: "s \<noteq> [] \<Longrightarrow> \<not> P (hd s) \<Longrightarrow> dropWhile P s = s"
  by (cases s) auto

lemma strip_by_id: "s \<noteq> [] \<Longrightarrow> \<not> P (hd s) \<Longrightarrow> \<not> P (last s) \<Longrightarrow> strip_by P s = s"
  by (simp add: strip_by_def dropWhile_hd_id hd_rev)

lemma py_split_not_Nil [simp]: "py_split c s \<noteq> []"
  by (cases s) (auto split: list.splits)

lemma py_join_split: "py_join [c] (py_split c s) = s"
proof (induction s)
  case Nil
  then show ?case by simp
next
  case (Cons x xs)
  obtain w ws where ws: "py_split c xs = w # ws"
    using py_split_not_Nil [of c xs] by (auto simp: neq_Nil_conv simp del: py_split_not_Nil)
  with Cons.IH show ?case
    by (cases ws) auto
qed

lemma py_before_append: "c \<notin> set p \<Longrightarrow> py_before c (p @ c # r) = p"
  by (induction p) (auto simp: py_before_def)

lemma py_before_id: "c \<notin> set p \<Longrightarrow> py_before c p = p"
  by (induction p) (auto simp: py_before_def)

lemma compare_digest_refl: "list_all is_ascii a \<Longrightarrow> compare_digest a a = Some True"
  by (simp add: compare_digest_def)

lemma compare_digest_True: "compare_digest a b = Some True \<Longrightarrow> a = b"
  by (simp add: compare_digest_def split: if_splits)

lemma decimal_not_space: "is_decimal c \<Longrightarrow> \<not> py_isspace_char c"
  by (auto simp: is_decimal_def py_isspace_char_def Let_def)

lemma find_append: "List.find P (xs @ ys) = (case List.find P xs of None \<Rightarrow> List.find P ys | Some x \<Rightarrow> Some x)"
  by (induction xs) simp_all

lemma code_of_less: "code_of c < 256"
  by (simp add: code_of_def)

lemma code_of_char_of: "n < 256 \<Longrightarrow> code_of (char_of n) = n"
  by (simp add: code_of_def)

lemma utf8_Nil [simp]: "utf8 [] = []"
  by (simp add: utf8_def)

lemma utf8_Cons: "utf8 (c # s) =
    (if code_of c < 128 then [c] else [char_of (192 + code_of c div 64), char_of (128 + code_of c mod 64)]) @ utf8 s"
  by (simp add: utf8_def Let_def)

end
