(* ===== verification/Models.thy ===== *)
theory Models
  imports Acs_Prelude
begin

text \<open>
  \<^verbatim>\<open>src/src/acs/domain/models.py\<close>: the records both planes persist, their small predicates,
  and their conversion to and from stored items.

  An item is a dictionary of attribute values. A stored number is an integer: what
  DynamoDB returns as \<open>Decimal\<close> is converted back before \<open>from_item\<close> sees it. Building a
  record without an argument that has no default raises \<open>TypeError\<close>, here
  \<open>MissingArgument\<close>; an attribute whose type is not the field's is \<open>BadAttribute\<close>.
\<close>

section \<open>Records\<close>

record Subscriber =
  sub_imsi :: string
  sub_msisdn :: string
  sub_entitled :: bool
  sub_provisioning_version :: int
  sub_forced_vers :: "int option"
  sub_rcs_profile :: string
  sub_imei_allowlist :: "string list"
  sub_overrides :: "(string, string) dict"
  sub_dm_password :: string
  sub_volte_enabled :: bool
  sub_created_at :: int
  sub_updated_at :: int

record OtpChallenge =
  oc_msisdn :: string
  oc_otp_hash :: string
  oc_imsi :: string
  oc_created_at :: int
  oc_expires_at :: int
  oc_attempts :: int
  oc_sms_port :: "int option"
  oc_consumed :: bool
  oc_challenge_id :: string

record TokenRecord =
  tr_token_hash :: string
  tr_imsi :: string
  tr_imei :: "string option"
  tr_issued_at :: int
  tr_expires_at :: int
  tr_revoked :: bool

record Device =
  dev_device_id :: string
  dev_imsi :: string
  dev_manufacturer :: string
  dev_model :: string
  dev_sw_version :: string
  dev_client_vendor :: string
  dev_client_version :: string
  dev_dm_client_version :: string
  dev_last_seen_at :: int
  dev_mo_values :: "(string, string) dict"

record DmSession =
  ds_session_id :: string
  ds_device_id :: string
  ds_wire_session_id :: string
  ds_imsi :: string
  ds_phase :: string
  ds_last_msg_id :: int
  ds_server_cmd_id :: int
  ds_authenticated :: bool
  ds_nonce :: string
  ds_pending :: "(string, string) dict list"
  ds_reported_failures :: int
  ds_expires_at :: int

record DmPendingPackage =
  dp_session_id :: string
  dp_phase :: string
  dp_entries :: "string list list"
  dp_messages :: int
  dp_expires_at :: int

record SmsMessage =
  sm_msisdn :: string
  sm_body :: string
  sm_sms_port :: "int option"
  sm_sent_at :: int
  sm_provider :: string
  sm_binary :: bool

section \<open>Predicates\<close>

definition imei_allowed :: "Subscriber \<Rightarrow> string option \<Rightarrow> bool" where
  "imei_allowed s imei \<longleftrightarrow>
     sub_imei_allowlist s = [] \<or>
     (case imei of None \<Rightarrow> False | Some i \<Rightarrow> i \<in> set (sub_imei_allowlist s))"

definition otp_expired :: "OtpChallenge \<Rightarrow> int option \<Rightarrow> int \<Rightarrow> bool" where
  "otp_expired c at clock \<longleftrightarrow> time_or at clock \<ge> oc_expires_at c"

definition token_expired :: "TokenRecord \<Rightarrow> int option \<Rightarrow> int \<Rightarrow> bool" where
  "token_expired r at clock \<longleftrightarrow> time_or at clock \<ge> tr_expires_at r"

definition same_issue :: "OtpChallenge \<Rightarrow> OtpChallenge \<Rightarrow> bool" where
  "same_issue self other \<longleftrightarrow>
     (if oc_challenge_id self \<noteq> [] \<and> oc_challenge_id other \<noteq> []
      then oc_challenge_id self = oc_challenge_id other
      else oc_otp_hash self = oc_otp_hash other \<and> oc_created_at self = oc_created_at other)"

section \<open>Stored items\<close>

datatype item_value = VNone | VStr string | VInt int | VBool bool | VStrs "string list"
  | VDict "(string, string) dict" | VRows "string list list" | VDicts "(string, string) dict list" | VInts "int list"

type_synonym item = "(string, item_value) dict"

datatype model_error = MissingArgument string | BadAttribute string

fun opt_value :: "('a \<Rightarrow> item_value) \<Rightarrow> 'a option \<Rightarrow> item_value" where
  "opt_value f None = VNone"
| "opt_value f (Some x) = f x"

definition subscriber_to_item :: "Subscriber \<Rightarrow> item" where
  "subscriber_to_item s = [
     (''imsi'', VStr (sub_imsi s)), (''msisdn'', VStr (sub_msisdn s)),
     (''entitled'', VBool (sub_entitled s)),
     (''provisioning_version'', VInt (sub_provisioning_version s)),
     (''forced_vers'', opt_value VInt (sub_forced_vers s)),
     (''rcs_profile'', VStr (sub_rcs_profile s)),
     (''imei_allowlist'', VStrs (sub_imei_allowlist s)),
     (''overrides'', VDict (sub_overrides s)), (''dm_password'', VStr (sub_dm_password s)),
     (''volte_enabled'', VBool (sub_volte_enabled s)),
     (''created_at'', VInt (sub_created_at s)), (''updated_at'', VInt (sub_updated_at s))]"

definition otp_to_item :: "OtpChallenge \<Rightarrow> item" where
  "otp_to_item c = [
     (''msisdn'', VStr (oc_msisdn c)), (''otp_hash'', VStr (oc_otp_hash c)),
     (''imsi'', VStr (oc_imsi c)), (''created_at'', VInt (oc_created_at c)),
     (''expires_at'', VInt (oc_expires_at c)), (''attempts'', VInt (oc_attempts c)),
     (''sms_port'', opt_value VInt (oc_sms_port c)), (''consumed'', VBool (oc_consumed c)),
     (''challenge_id'', VStr (oc_challenge_id c))]"

definition token_to_item :: "TokenRecord \<Rightarrow> item" where
  "token_to_item r = [
     (''token_hash'', VStr (tr_token_hash r)), (''imsi'', VStr (tr_imsi r)),
     (''imei'', opt_value VStr (tr_imei r)), (''issued_at'', VInt (tr_issued_at r)),
     (''expires_at'', VInt (tr_expires_at r)), (''revoked'', VBool (tr_revoked r))]"

definition device_to_item :: "Device \<Rightarrow> item" where
  "device_to_item d = [
     (''device_id'', VStr (dev_device_id d)), (''imsi'', VStr (dev_imsi d)),
     (''manufacturer'', VStr (dev_manufacturer d)), (''model'', VStr (dev_model d)),
     (''sw_version'', VStr (dev_sw_version d)), (''client_vendor'', VStr (dev_client_vendor d)),
     (''client_version'', VStr (dev_client_version d)),
     (''dm_client_version'', VStr (dev_dm_client_version d)),
     (''last_seen_at'', VInt (dev_last_seen_at d)), (''mo_values'', VDict (dev_mo_values d))]"

definition session_to_item :: "DmSession \<Rightarrow> item" where
  "session_to_item s = [
     (''session_id'', VStr (ds_session_id s)), (''device_id'', VStr (ds_device_id s)),
     (''wire_session_id'', VStr (ds_wire_session_id s)), (''imsi'', VStr (ds_imsi s)),
     (''phase'', VStr (ds_phase s)), (''last_msg_id'', VInt (ds_last_msg_id s)),
     (''server_cmd_id'', VInt (ds_server_cmd_id s)),
     (''authenticated'', VBool (ds_authenticated s)), (''nonce'', VStr (ds_nonce s)),
     (''pending'', VDicts (ds_pending s)), (''reported_failures'', VInt (ds_reported_failures s)),
     (''expires_at'', VInt (ds_expires_at s))]"

definition pending_to_item :: "DmPendingPackage \<Rightarrow> item" where
  "pending_to_item p = [
     (''session_id'', VStr (dp_session_id p)), (''phase'', VStr (dp_phase p)),
     (''entries'', VRows (dp_entries p)), (''messages'', VInt (dp_messages p)),
     (''expires_at'', VInt (dp_expires_at p))]"

text \<open>One constructor argument of \<open>cls(**kwargs)\<close>: absent gives the default or a
  \<open>TypeError\<close>; \<open>int_arg\<close> includes the \<open>int()\<close> coercion of the numeric fields.\<close>

definition arg :: "(item_value \<Rightarrow> 'a option) \<Rightarrow> item \<Rightarrow> string \<Rightarrow> 'a option \<Rightarrow> model_error + 'a" where
  "arg get item key dflt = (case dict_get item key of
     None \<Rightarrow> (case dflt of None \<Rightarrow> Inl (MissingArgument key) | Some d \<Rightarrow> Inr d)
   | Some v \<Rightarrow> (case get v of None \<Rightarrow> Inl (BadAttribute key) | Some x \<Rightarrow> Inr x))"

fun get_str :: "item_value \<Rightarrow> string option" where
  "get_str (VStr s) = Some s" | "get_str _ = None"

fun get_bool :: "item_value \<Rightarrow> bool option" where
  "get_bool (VBool b) = Some b" | "get_bool _ = None"

fun get_int :: "item_value \<Rightarrow> int option" where
  "get_int (VInt i) = Some i"
| "get_int (VBool b) = Some (if b then 1 else 0)"
| "get_int (VStr s) = py_int s"
| "get_int _ = None"

fun get_opt :: "(item_value \<Rightarrow> 'a option) \<Rightarrow> item_value \<Rightarrow> 'a option option" where
  "get_opt g VNone = Some None"
| "get_opt g v = map_option Some (g v)"

fun get_strs :: "item_value \<Rightarrow> string list option" where
  "get_strs (VStrs l) = Some l" | "get_strs _ = None"

fun get_dict :: "item_value \<Rightarrow> (string, string) dict option" where
  "get_dict (VDict d) = Some d" | "get_dict _ = None"

fun get_rows :: "item_value \<Rightarrow> string list list option" where
  "get_rows (VRows r) = Some r" | "get_rows _ = None"

fun get_dicts :: "item_value \<Rightarrow> (string, string) dict list option" where
  "get_dicts (VDicts r) = Some r" | "get_dicts _ = None"

definition subscriber_from_item :: "int \<Rightarrow> item \<Rightarrow> model_error + Subscriber" where
  "subscriber_from_item now item =
     bind_err (arg get_str item ''imsi'' None) (\<lambda>imsi.
     bind_err (arg get_str item ''msisdn'' None) (\<lambda>msisdn.
     bind_err (arg get_bool item ''entitled'' (Some True)) (\<lambda>entitled.
     bind_err (arg get_int item ''provisioning_version'' (Some 1)) (\<lambda>version.
     bind_err (arg (get_opt get_int) item ''forced_vers'' (Some None)) (\<lambda>forced.
     bind_err (arg get_str item ''rcs_profile'' (Some [])) (\<lambda>profile.
     bind_err (arg get_strs item ''imei_allowlist'' (Some [])) (\<lambda>allow.
     bind_err (arg get_dict item ''overrides'' (Some [])) (\<lambda>overrides.
     bind_err (arg get_str item ''dm_password'' (Some [])) (\<lambda>password.
     bind_err (arg get_bool item ''volte_enabled'' (Some True)) (\<lambda>volte.
     bind_err (arg get_int item ''created_at'' (Some now)) (\<lambda>created.
     bind_err (arg get_int item ''updated_at'' (Some now)) (\<lambda>updated.
     Inr \<lparr>sub_imsi = imsi, sub_msisdn = msisdn, sub_entitled = entitled,
          sub_provisioning_version = version, sub_forced_vers = forced,
          sub_rcs_profile = profile, sub_imei_allowlist = allow, sub_overrides = overrides,
          sub_dm_password = password, sub_volte_enabled = volte, sub_created_at = created,
          sub_updated_at = updated\<rparr>))))))))))))"

definition otp_from_item :: "item \<Rightarrow> model_error + OtpChallenge" where
  "otp_from_item item =
     bind_err (arg get_str item ''msisdn'' None) (\<lambda>msisdn.
     bind_err (arg get_str item ''otp_hash'' None) (\<lambda>otp_hash.
     bind_err (arg get_str item ''imsi'' None) (\<lambda>imsi.
     bind_err (arg get_int item ''created_at'' None) (\<lambda>created_at.
     bind_err (arg get_int item ''expires_at'' None) (\<lambda>expires_at.
     bind_err (arg get_int item ''attempts'' (Some 0)) (\<lambda>attempts.
     bind_err (arg (get_opt get_int) item ''sms_port'' (Some None)) (\<lambda>sms_port.
     bind_err (arg get_bool item ''consumed'' (Some False)) (\<lambda>consumed.
     bind_err (arg get_str item ''challenge_id'' (Some [])) (\<lambda>challenge_id.
     Inr \<lparr>oc_msisdn = msisdn, oc_otp_hash = otp_hash, oc_imsi = imsi,
          oc_created_at = created_at, oc_expires_at = expires_at, oc_attempts = attempts,
          oc_sms_port = sms_port, oc_consumed = consumed, oc_challenge_id = challenge_id\<rparr>)))))))))"

definition token_from_item :: "item \<Rightarrow> model_error + TokenRecord" where
  "token_from_item item =
     bind_err (arg get_str item ''token_hash'' None) (\<lambda>token_hash.
     bind_err (arg get_str item ''imsi'' None) (\<lambda>imsi.
     bind_err (arg (get_opt get_str) item ''imei'' None) (\<lambda>imei.
     bind_err (arg get_int item ''issued_at'' None) (\<lambda>issued_at.
     bind_err (arg get_int item ''expires_at'' None) (\<lambda>expires_at.
     bind_err (arg get_bool item ''revoked'' (Some False)) (\<lambda>revoked.
     Inr \<lparr>tr_token_hash = token_hash, tr_imsi = imsi, tr_imei = imei,
          tr_issued_at = issued_at, tr_expires_at = expires_at, tr_revoked = revoked\<rparr>))))))"

definition device_from_item :: "int \<Rightarrow> item \<Rightarrow> model_error + Device" where
  "device_from_item now item =
     bind_err (arg get_str item ''device_id'' None) (\<lambda>device_id.
     bind_err (arg get_str item ''imsi'' (Some [])) (\<lambda>imsi.
     bind_err (arg get_str item ''manufacturer'' (Some [])) (\<lambda>manufacturer.
     bind_err (arg get_str item ''model'' (Some [])) (\<lambda>model.
     bind_err (arg get_str item ''sw_version'' (Some [])) (\<lambda>sw_version.
     bind_err (arg get_str item ''client_vendor'' (Some [])) (\<lambda>client_vendor.
     bind_err (arg get_str item ''client_version'' (Some [])) (\<lambda>client_version.
     bind_err (arg get_str item ''dm_client_version'' (Some [])) (\<lambda>dm_client_version.
     bind_err (arg get_int item ''last_seen_at'' (Some now)) (\<lambda>last_seen_at.
     bind_err (arg get_dict item ''mo_values'' (Some [])) (\<lambda>mo_values.
     Inr \<lparr>dev_device_id = device_id, dev_imsi = imsi, dev_manufacturer = manufacturer,
          dev_model = model, dev_sw_version = sw_version, dev_client_vendor = client_vendor,
          dev_client_version = client_version, dev_dm_client_version = dm_client_version,
          dev_last_seen_at = last_seen_at, dev_mo_values = mo_values\<rparr>))))))))))"

definition session_from_item :: "item \<Rightarrow> model_error + DmSession" where
  "session_from_item item =
     bind_err (arg get_str item ''session_id'' None) (\<lambda>session_id.
     bind_err (arg get_str item ''device_id'' None) (\<lambda>device_id.
     bind_err (arg get_str item ''wire_session_id'' (Some [])) (\<lambda>wire.
     bind_err (arg get_str item ''imsi'' (Some [])) (\<lambda>imsi.
     bind_err (arg get_str item ''phase'' (Some ''init'')) (\<lambda>phase.
     bind_err (arg get_int item ''last_msg_id'' (Some 0)) (\<lambda>last_msg_id.
     bind_err (arg get_int item ''server_cmd_id'' (Some 0)) (\<lambda>server_cmd_id.
     bind_err (arg get_bool item ''authenticated'' (Some False)) (\<lambda>authenticated.
     bind_err (arg get_str item ''nonce'' (Some [])) (\<lambda>nonce.
     bind_err (arg get_dicts item ''pending'' (Some [])) (\<lambda>pending.
     bind_err (arg get_int item ''reported_failures'' (Some 0)) (\<lambda>failures.
     bind_err (arg get_int item ''expires_at'' (Some 0)) (\<lambda>expires_at.
     Inr \<lparr>ds_session_id = session_id, ds_device_id = device_id, ds_wire_session_id = wire,
          ds_imsi = imsi, ds_phase = phase, ds_last_msg_id = last_msg_id,
          ds_server_cmd_id = server_cmd_id, ds_authenticated = authenticated, ds_nonce = nonce,
          ds_pending = pending, ds_reported_failures = failures,
          ds_expires_at = expires_at\<rparr>))))))))))))"

definition pending_from_item :: "item \<Rightarrow> model_error + DmPendingPackage" where
  "pending_from_item item =
     bind_err (arg get_str item ''session_id'' None) (\<lambda>session_id.
     bind_err (arg get_str item ''phase'' None) (\<lambda>phase.
     bind_err (arg get_rows item ''entries'' (Some [])) (\<lambda>entries.
     bind_err (arg get_int item ''messages'' (Some 1)) (\<lambda>messages.
     bind_err (arg get_int item ''expires_at'' (Some 0)) (\<lambda>expires_at.
     Inr \<lparr>dp_session_id = session_id, dp_phase = phase, dp_entries = entries,
          dp_messages = messages, dp_expires_at = expires_at\<rparr>)))))"

fun get_ints :: "item_value \<Rightarrow> int list option" where
  "get_ints (VInts l) = Some l" | "get_ints _ = None"

section \<open>Lemmas\<close>

lemma same_issue_refl [simp]: "same_issue c c"
  by (simp add: same_issue_def)

lemma same_issue_attempts [simp]: "same_issue (c\<lparr>oc_attempts := n\<rparr>) d = same_issue c d"
  by (simp add: same_issue_def)

lemma otp_expired_attempts [simp]: "otp_expired (c\<lparr>oc_attempts := n\<rparr>) at clock = otp_expired c at clock"
  by (simp add: otp_expired_def)

end
