(* ===== verification/Store_Base.thy ===== *)
theory Store_Base
  imports Models
begin

text \<open>
  \<^verbatim>\<open>src/src/acs/store/base.py\<close>: the persistence port. The protocol class is a set of
  interfaces, one locale per group of operations that a client relies on; every operation
  takes the store and returns its result with the store afterwards.

  \<open>otp_store\<close> is what \<^verbatim>\<open>auth/otp.py\<close> needs of the challenge operations: reading is keyed by
  MSISDN, \<open>replace_otp\<close> is a compare-and-swap on the stored challenge, \<open>issue_otp\<close> either
  refuses and stores nothing or stores exactly the challenge. \<open>token_store\<close> is what
  \<^verbatim>\<open>auth/token.py\<close> needs, \<open>dm_store\<close> what \<^verbatim>\<open>protocol/omadm/session.py\<close> needs.
\<close>

section \<open>Refusals\<close>

datatype refuse_reason = Cooldown | DailyQuota

record OtpIssueRefused =
  refused_reason :: refuse_reason
  refused_retry_after :: int

text \<open>When the stored challenge counts as unchanged since it was read: same attempt count,
  and the same id, or the same code and creation time for one stored without an id. The memory
  store tests this and the DynamoDB store puts it on its conditional writes.\<close>

definition unchanged :: "OtpChallenge \<Rightarrow> OtpChallenge \<Rightarrow> bool" where
  "unchanged current expected \<longleftrightarrow>
     (if oc_attempts current \<noteq> oc_attempts expected then False
      else if oc_challenge_id expected \<noteq> []
      then oc_challenge_id current = oc_challenge_id expected
      else (oc_otp_hash current, oc_created_at current)
         = (oc_otp_hash expected, oc_created_at expected))"

section \<open>Interfaces\<close>

locale otp_store =
  fixes get_chal :: "'s \<Rightarrow> string \<Rightarrow> OtpChallenge option"
    and issue_chal :: "int \<Rightarrow> OtpChallenge \<Rightarrow> int \<Rightarrow> int \<Rightarrow> int \<Rightarrow> 's \<Rightarrow> OtpIssueRefused option \<times> 's"
    and replace_chal :: "OtpChallenge \<Rightarrow> OtpChallenge option \<Rightarrow> 's \<Rightarrow> bool \<times> 's"
    and keyed :: "'s \<Rightarrow> bool"
  assumes get_keyed: "keyed s \<Longrightarrow> get_chal s m = Some c \<Longrightarrow> oc_msisdn c = m"
    and replace_result: "fst (replace_chal e r s) \<longleftrightarrow>
      (\<exists>c. get_chal s (oc_msisdn e) = Some c \<and> unchanged c e)"
    and replace_get: "get_chal (snd (replace_chal e r s)) m =
      (if fst (replace_chal e r s) \<and> m = oc_msisdn e then r else get_chal s m)"
    and replace_keyed: "keyed s \<Longrightarrow> (\<And>c. r = Some c \<Longrightarrow> oc_msisdn c = oc_msisdn e) \<Longrightarrow>
      keyed (snd (replace_chal e r s))"
    and issue_get: "get_chal (snd (issue_chal clock c cooldown cap now s)) m =
      (if fst (issue_chal clock c cooldown cap now s) = None \<and> m = oc_msisdn c then Some c
       else get_chal s m)"
    and issue_keyed: "keyed s \<Longrightarrow> keyed (snd (issue_chal clock c cooldown cap now s))"

locale token_store =
  fixes get_tok :: "'s \<Rightarrow> string \<Rightarrow> TokenRecord option"
    and put_tok :: "TokenRecord \<Rightarrow> 's \<Rightarrow> 's"
    and revoke_tok :: "string \<Rightarrow> 's \<Rightarrow> 's"
    and revoke_imsi :: "string \<Rightarrow> 's \<Rightarrow> int \<times> 's"
  assumes get_put_tok: "get_tok (put_tok r s) h = (if h = tr_token_hash r then Some r else get_tok s h)"
    and get_revoke_tok: "get_tok (revoke_tok h s) h' =
      (if h' = h then map_option (\<lambda>r. r\<lparr>tr_revoked := True\<rparr>) (get_tok s h') else get_tok s h')"
    and get_revoke_imsi: "get_tok (snd (revoke_imsi i s)) h =
      map_option (\<lambda>r. if tr_imsi r = i then r\<lparr>tr_revoked := True\<rparr> else r) (get_tok s h)"

locale dm_store =
  fixes get_sess :: "int \<Rightarrow> string \<Rightarrow> 's \<Rightarrow> DmSession option \<times> 's"
    and put_sess :: "DmSession \<Rightarrow> 's \<Rightarrow> 's"
    and del_sess :: "string \<Rightarrow> 's \<Rightarrow> 's"
    and get_pend :: "int \<Rightarrow> string \<Rightarrow> 's \<Rightarrow> DmPendingPackage option \<times> 's"
    and put_pend :: "DmPendingPackage \<Rightarrow> 's \<Rightarrow> 's"
    and del_pend :: "string \<Rightarrow> 's \<Rightarrow> 's"
  assumes get_put_sess: "fst (get_sess clock i (put_sess d s)) =
      (if i = ds_session_id d
       then (if ds_expires_at d \<noteq> 0 \<and> ds_expires_at d < clock then None else Some d)
       else fst (get_sess clock i s))"
    and get_del_sess: "fst (get_sess clock i (del_sess j s)) =
      (if i = j then None else fst (get_sess clock i s))"
    and get_put_pend: "fst (get_pend clock i (put_pend p s)) =
      (if i = dp_session_id p
       then (if dp_expires_at p \<noteq> 0 \<and> dp_expires_at p < clock then None else Some p)
       else fst (get_pend clock i s))"
    and get_del_pend: "fst (get_pend clock i (del_pend j s)) =
      (if i = j then None else fst (get_pend clock i s))"
    and sess_pend_apart: "fst (get_pend clock i (put_sess d s)) = fst (get_pend clock i s)"
      "fst (get_pend clock i (del_sess j s)) = fst (get_pend clock i s)"
      "fst (get_sess clock i (put_pend p s)) = fst (get_sess clock i s)"
      "fst (get_sess clock i (del_pend j s)) = fst (get_sess clock i s)"

section \<open>Consequences of the interfaces\<close>

lemma unchanged_refl [simp]: "unchanged c c"
  by (simp add: unchanged_def)

lemma unchanged_attempts: "unchanged c e \<Longrightarrow> oc_attempts c = oc_attempts e"
  by (simp add: unchanged_def split: if_splits)

lemma unchanged_id: "unchanged c e \<Longrightarrow> oc_challenge_id e \<noteq> [] \<Longrightarrow>
  oc_challenge_id c = oc_challenge_id e"
  by (simp add: unchanged_def split: if_splits)

context otp_store
begin

lemma replace_read:
  "get_chal s (oc_msisdn c) = Some c \<Longrightarrow> fst (replace_chal c r s)"
  by (auto simp: replace_result)

lemma replace_get_read:
  "get_chal s m = Some c \<Longrightarrow> keyed s \<Longrightarrow>
   get_chal (snd (replace_chal c r s)) m' = (if m' = m then r else get_chal s m')"
  using get_keyed [of s m c] by (auto simp: replace_get replace_result)

lemma replace_removed:
  "get_chal s m = Some c \<Longrightarrow> keyed s \<Longrightarrow> get_chal (snd (replace_chal c None s)) m = None"
  by (simp add: replace_get_read)

lemma replace_twice:
  assumes "fst (replace_chal e None s)"
  shows "\<not> fst (replace_chal e r (snd (replace_chal e None s)))"
  using assms by (simp add: replace_result replace_get)

end

end
