(* ===== verification/Memory_Store.thy ===== *)
theory Memory_Store
  imports Store_Base
begin

text \<open>
  \<^verbatim>\<open>src/src/acs/store/memory.py\<close>: the dictionary-backed store. One record holds its
  dictionaries; each method is one function, whole, because every method holds the store's
  lock for its whole body. The clock that \<open>expired\<close> and the session reads consult is an
  argument. Values are copied; the one caller that assigns to an object the store returned
  (the console's update form) writes the assignment out as a step of its own.
\<close>

section \<open>The store\<close>

record MemoryStore =
  st_subscribers :: "(string, Subscriber) dict"
  st_msisdn_index :: "(string, string) dict"
  st_otp :: "(string, OtpChallenge) dict"
  st_otp_sends :: "(string, int list) dict"
  st_tokens :: "(string, TokenRecord) dict"
  st_devices :: "(string, Device) dict"
  st_dm_sessions :: "(string, DmSession) dict"
  st_dm_pending :: "(string, DmPendingPackage) dict"
  st_sms :: "SmsMessage list"

definition empty_store :: MemoryStore where
  "empty_store = \<lparr>st_subscribers = [], st_msisdn_index = [], st_otp = [], st_otp_sends = [],
     st_tokens = [], st_devices = [], st_dm_sessions = [], st_dm_pending = [], st_sms = []\<rparr>"

text \<open>The slice \<open>xs[:limit]\<close>; a negative limit drops from the end.\<close>

definition py_upto :: "int \<Rightarrow> 'a list \<Rightarrow> 'a list" where
  "py_upto limit xs =
     (if 0 \<le> limit then take (nat limit) xs else take (length xs - nat (- limit)) xs)"

section \<open>Subscribers\<close>

definition get_subscriber :: "MemoryStore \<Rightarrow> string \<Rightarrow> Subscriber option" where
  "get_subscriber s imsi = dict_get (st_subscribers s) imsi"

definition get_subscriber_by_msisdn :: "MemoryStore \<Rightarrow> string \<Rightarrow> Subscriber option" where
  "get_subscriber_by_msisdn s msisdn = (case dict_get (st_msisdn_index s) msisdn of
     None \<Rightarrow> None
   | Some imsi \<Rightarrow> if imsi \<noteq> [] then dict_get (st_subscribers s) imsi else None)"

definition put_subscriber :: "Subscriber \<Rightarrow> MemoryStore \<Rightarrow> MemoryStore" where
  "put_subscriber sub s =
     (let index = (case dict_get (st_subscribers s) (sub_imsi sub) of
            None \<Rightarrow> st_msisdn_index s
          | Some previous \<Rightarrow>
              if sub_msisdn previous \<noteq> sub_msisdn sub
              then dict_pop (sub_msisdn previous) (st_msisdn_index s)
              else st_msisdn_index s)
      in s\<lparr>st_subscribers := dict_put (sub_imsi sub) sub (st_subscribers s),
           st_msisdn_index := dict_put (sub_msisdn sub) (sub_imsi sub) index\<rparr>)"

definition delete_subscriber :: "string \<Rightarrow> MemoryStore \<Rightarrow> MemoryStore" where
  "delete_subscriber imsi s = (case dict_get (st_subscribers s) imsi of
     None \<Rightarrow> s
   | Some sub \<Rightarrow> s\<lparr>st_subscribers := dict_pop imsi (st_subscribers s),
        st_msisdn_index := dict_pop (sub_msisdn sub) (st_msisdn_index s)\<rparr>)"

definition list_subscribers :: "MemoryStore \<Rightarrow> int \<Rightarrow> Subscriber list" where
  "list_subscribers s limit = py_upto limit (map snd (st_subscribers s))"

section \<open>One-time passwords\<close>

definition get_otp :: "MemoryStore \<Rightarrow> string \<Rightarrow> OtpChallenge option" where
  "get_otp s msisdn = dict_get (st_otp s) msisdn"

definition recent_sends :: "MemoryStore \<Rightarrow> string \<Rightarrow> int \<Rightarrow> int list" where
  "recent_sends s msisdn now =
     filter (\<lambda>t. t \<ge> now - 86400) (dict_get_or (st_otp_sends s) msisdn [])"

definition issue_otp :: "int \<Rightarrow> OtpChallenge \<Rightarrow> int \<Rightarrow> int \<Rightarrow> int \<Rightarrow> MemoryStore \<Rightarrow>
    OtpIssueRefused option \<times> MemoryStore" where
  "issue_otp clock challenge cooldown_seconds max_sends_per_day now s =
     (let existing = dict_get (st_otp s) (oc_msisdn challenge);
          sends = recent_sends s (oc_msisdn challenge) now;
          rest = (if int (length sends) \<ge> max_sends_per_day
            then (Some \<lparr>refused_reason = DailyQuota, refused_retry_after = 3600\<rparr>, s)
            else (None, s\<lparr>
              st_otp_sends := dict_put (oc_msisdn challenge) (sends @ [now]) (st_otp_sends s),
              st_otp := dict_put (oc_msisdn challenge) challenge (st_otp s)\<rparr>))
      in case existing of
           None \<Rightarrow> rest
         | Some c \<Rightarrow>
             if \<not> oc_consumed c \<and> \<not> otp_expired c (Some now) clock \<and>
                now - oc_created_at c < cooldown_seconds
             then (Some \<lparr>refused_reason = Cooldown,
                    refused_retry_after = cooldown_seconds - (now - oc_created_at c)\<rparr>, s)
             else rest)"

definition replace_otp :: "OtpChallenge \<Rightarrow> OtpChallenge option \<Rightarrow> MemoryStore \<Rightarrow>
    bool \<times> MemoryStore" where
  "replace_otp expected replacement s = (case dict_get (st_otp s) (oc_msisdn expected) of
     None \<Rightarrow> (False, s)
   | Some current \<Rightarrow>
       if \<not> unchanged current expected then (False, s)
       else (True, s\<lparr>st_otp := (case replacement of
          None \<Rightarrow> dict_pop (oc_msisdn expected) (st_otp s)
        | Some r \<Rightarrow> dict_put (oc_msisdn expected) r (st_otp s))\<rparr>))"

section \<open>Tokens\<close>

definition put_token :: "TokenRecord \<Rightarrow> MemoryStore \<Rightarrow> MemoryStore" where
  "put_token r s = s\<lparr>st_tokens := dict_put (tr_token_hash r) r (st_tokens s)\<rparr>"

definition get_token :: "MemoryStore \<Rightarrow> string \<Rightarrow> TokenRecord option" where
  "get_token s h = dict_get (st_tokens s) h"

definition revoke_token :: "string \<Rightarrow> MemoryStore \<Rightarrow> MemoryStore" where
  "revoke_token h s = (case dict_get (st_tokens s) h of
     None \<Rightarrow> s
   | Some r \<Rightarrow> s\<lparr>st_tokens := dict_put h (r\<lparr>tr_revoked := True\<rparr>) (st_tokens s)\<rparr>)"

definition revoke_tokens_for_imsi :: "string \<Rightarrow> MemoryStore \<Rightarrow> int \<times> MemoryStore" where
  "revoke_tokens_for_imsi imsi s =
     (int (length (filter (\<lambda>(h, r). tr_imsi r = imsi \<and> \<not> tr_revoked r) (st_tokens s))),
      s\<lparr>st_tokens := map (\<lambda>(h, r).
          (h, if tr_imsi r = imsi \<and> \<not> tr_revoked r then r\<lparr>tr_revoked := True\<rparr> else r))
        (st_tokens s)\<rparr>)"

section \<open>Devices\<close>

definition put_device :: "Device \<Rightarrow> MemoryStore \<Rightarrow> MemoryStore" where
  "put_device d s = s\<lparr>st_devices := dict_put (dev_device_id d) d (st_devices s)\<rparr>"

definition get_device :: "MemoryStore \<Rightarrow> string \<Rightarrow> Device option" where
  "get_device s i = dict_get (st_devices s) i"

definition list_devices :: "MemoryStore \<Rightarrow> int \<Rightarrow> Device list" where
  "list_devices s limit = py_upto limit (map snd (st_devices s))"

section \<open>Device-management sessions\<close>

definition put_dm_session :: "DmSession \<Rightarrow> MemoryStore \<Rightarrow> MemoryStore" where
  "put_dm_session d s = s\<lparr>st_dm_sessions := dict_put (ds_session_id d) d (st_dm_sessions s)\<rparr>"

definition get_dm_session :: "int \<Rightarrow> string \<Rightarrow> MemoryStore \<Rightarrow> DmSession option \<times> MemoryStore" where
  "get_dm_session clock i s = (case dict_get (st_dm_sessions s) i of
     None \<Rightarrow> (None, s)
   | Some d \<Rightarrow>
       if ds_expires_at d \<noteq> 0 \<and> ds_expires_at d < clock
       then (None, s\<lparr>st_dm_sessions := dict_pop i (st_dm_sessions s)\<rparr>)
       else (Some d, s))"

definition delete_dm_session :: "string \<Rightarrow> MemoryStore \<Rightarrow> MemoryStore" where
  "delete_dm_session i s = s\<lparr>st_dm_sessions := dict_pop i (st_dm_sessions s)\<rparr>"

definition put_dm_pending :: "DmPendingPackage \<Rightarrow> MemoryStore \<Rightarrow> MemoryStore" where
  "put_dm_pending p s = s\<lparr>st_dm_pending := dict_put (dp_session_id p) p (st_dm_pending s)\<rparr>"

definition get_dm_pending :: "int \<Rightarrow> string \<Rightarrow> MemoryStore \<Rightarrow>
    DmPendingPackage option \<times> MemoryStore" where
  "get_dm_pending clock i s = (case dict_get (st_dm_pending s) i of
     None \<Rightarrow> (None, s)
   | Some p \<Rightarrow>
       if dp_expires_at p \<noteq> 0 \<and> dp_expires_at p < clock
       then (None, s\<lparr>st_dm_pending := dict_pop i (st_dm_pending s)\<rparr>)
       else (Some p, s))"

definition delete_dm_pending :: "string \<Rightarrow> MemoryStore \<Rightarrow> MemoryStore" where
  "delete_dm_pending i s = s\<lparr>st_dm_pending := dict_pop i (st_dm_pending s)\<rparr>"

section \<open>Outbox\<close>

definition record_sms :: "SmsMessage \<Rightarrow> MemoryStore \<Rightarrow> MemoryStore" where
  "record_sms m s =
     s\<lparr>st_sms := drop (length (st_sms s @ [m]) - 500) (st_sms s @ [m])\<rparr>"

definition list_sms :: "MemoryStore \<Rightarrow> string option \<Rightarrow> int \<Rightarrow> SmsMessage list" where
  "list_sms s msisdn limit =
     py_upto limit (rev (filter (\<lambda>m. msisdn = None \<or> msisdn = Some (sm_msisdn m)) (st_sms s)))"

section \<open>The store provides the interfaces\<close>

lemmas otp_ops = get_otp_def issue_otp_def replace_otp_def

definition otp_keyed :: "MemoryStore \<Rightarrow> bool" where
  "otp_keyed s \<longleftrightarrow> list_all (\<lambda>(m, c). oc_msisdn c = m) (st_otp s)"

lemma otp_keyed_get: "otp_keyed s \<Longrightarrow> get_otp s m = Some c \<Longrightarrow> oc_msisdn c = m"
  by (auto simp: otp_keyed_def get_otp_def dict_get_def list_all_iff dest!: map_of_SomeD)

lemma list_all_dict_put:
  "list_all P d \<Longrightarrow> P (k, v) \<Longrightarrow> list_all P (dict_put k v d)"
  by (induction d) (auto simp: dict_put_def)

lemma list_all_dict_pop: "list_all P d \<Longrightarrow> list_all P (dict_pop k d)"
  by (simp add: dict_pop_def list_all_iff AList.delete_eq)

lemma issue_otp_cases:
  obtains (refused) r where "issue_otp clock c cooldown cap now s = (Some r, s)"
  | (stored) "issue_otp clock c cooldown cap now s =
      (None, s\<lparr>st_otp_sends := dict_put (oc_msisdn c) (recent_sends s (oc_msisdn c) now @ [now])
                 (st_otp_sends s),
              st_otp := dict_put (oc_msisdn c) c (st_otp s)\<rparr>)"
    and "int (length (recent_sends s (oc_msisdn c) now)) < cap"
    and "\<And>e. get_otp s (oc_msisdn c) = Some e \<Longrightarrow>
      oc_consumed e \<or> otp_expired e (Some now) clock \<or> cooldown \<le> now - oc_created_at e"
  unfolding issue_otp_def get_otp_def Let_def
  by (cases "dict_get (st_otp s) (oc_msisdn c)") (fastforce split: if_splits)+

interpretation memory_otp: otp_store get_otp issue_otp replace_otp otp_keyed
proof unfold_locales
  fix s m c assume "otp_keyed s" "get_otp s m = Some c"
  then show "oc_msisdn c = m" by (rule otp_keyed_get)
next
  fix e r s
  show "fst (replace_otp e r s) \<longleftrightarrow> (\<exists>c. get_otp s (oc_msisdn e) = Some c \<and> unchanged c e)"
    by (auto simp: otp_ops split: option.splits)
next
  fix e r s m
  show "get_otp (snd (replace_otp e r s)) m =
      (if fst (replace_otp e r s) \<and> m = oc_msisdn e then r else get_otp s m)"
    by (auto simp: otp_ops split: option.splits)
next
  fix s and r :: "OtpChallenge option" and e :: OtpChallenge
  assume k: "otp_keyed s" and r: "\<And>c. r = Some c \<Longrightarrow> oc_msisdn c = oc_msisdn e"
  have "otp_keyed (s\<lparr>st_otp := dict_pop (oc_msisdn e) (st_otp s)\<rparr>)"
    using k by (simp add: otp_keyed_def list_all_dict_pop)
  moreover have "otp_keyed (s\<lparr>st_otp := dict_put (oc_msisdn e) c (st_otp s)\<rparr>)" if "r = Some c" for c
    using k r [OF that] by (simp add: otp_keyed_def list_all_dict_put)
  ultimately show "otp_keyed (snd (replace_otp e r s))"
    using k by (cases r) (simp_all add: replace_otp_def split: option.split)
next
  fix clock c cooldown cap now s m
  show "get_otp (snd (issue_otp clock c cooldown cap now s)) m =
      (if fst (issue_otp clock c cooldown cap now s) = None \<and> m = oc_msisdn c then Some c
       else get_otp s m)"
    by (cases rule: issue_otp_cases [of clock c cooldown cap now s]) (auto simp: get_otp_def)
next
  fix clock c cooldown cap now s
  assume "otp_keyed s"
  then show "otp_keyed (snd (issue_otp clock c cooldown cap now s))"
    by (cases rule: issue_otp_cases [of clock c cooldown cap now s])
      (auto simp: otp_keyed_def list_all_dict_put)
qed

lemma map_of_map_values: "map_of (map (\<lambda>(k, v). (k, f v)) d) k = map_option f (map_of d k)"
  by (induction d) auto

interpretation memory_token: token_store get_token put_token revoke_token revoke_tokens_for_imsi
proof unfold_locales
  fix r s h
  show "get_token (put_token r s) h = (if h = tr_token_hash r then Some r else get_token s h)"
    by (simp add: get_token_def put_token_def)
next
  fix h s h'
  show "get_token (revoke_token h s) h' =
      (if h' = h then map_option (\<lambda>r. r\<lparr>tr_revoked := True\<rparr>) (get_token s h')
       else get_token s h')"
    by (auto simp: get_token_def revoke_token_def split: option.split)
next
  fix i s h
  have "map_option (\<lambda>r. if tr_imsi r = i \<and> \<not> tr_revoked r then r\<lparr>tr_revoked := True\<rparr> else r) x
      = map_option (\<lambda>r. if tr_imsi r = i then r\<lparr>tr_revoked := True\<rparr> else r) x" for x
    by (cases x) auto
  then show "get_token (snd (revoke_tokens_for_imsi i s)) h =
      map_option (\<lambda>r. if tr_imsi r = i then r\<lparr>tr_revoked := True\<rparr> else r) (get_token s h)"
    by (simp add: get_token_def revoke_tokens_for_imsi_def dict_get_def map_of_map_values)
qed

interpretation memory_dm: dm_store get_dm_session put_dm_session delete_dm_session
  get_dm_pending put_dm_pending delete_dm_pending
  by unfold_locales
    (auto simp: get_dm_session_def put_dm_session_def delete_dm_session_def get_dm_pending_def
      put_dm_pending_def delete_dm_pending_def split: option.split)

section \<open>The MSISDN index\<close>

definition index_ok :: "MemoryStore \<Rightarrow> bool" where
  "index_ok s \<longleftrightarrow>
     (\<forall>imsi sub. get_subscriber s imsi = Some sub \<longrightarrow>
        sub_imsi sub = imsi \<and> imsi \<noteq> [] \<and> dict_get (st_msisdn_index s) (sub_msisdn sub) = Some imsi) \<and>
     (\<forall>m imsi. dict_get (st_msisdn_index s) m = Some imsi \<longrightarrow>
        (\<exists>sub. get_subscriber s imsi = Some sub \<and> sub_msisdn sub = m))"

lemma index_okD:
  assumes "index_ok s"
  shows "get_subscriber s imsi = Some sub \<Longrightarrow> sub_imsi sub = imsi \<and> imsi \<noteq> [] \<and>
      dict_get (st_msisdn_index s) (sub_msisdn sub) = Some imsi"
    and "dict_get (st_msisdn_index s) m = Some imsi \<Longrightarrow>
      \<exists>sub. get_subscriber s imsi = Some sub \<and> sub_msisdn sub = m"
  using assms by (auto simp: index_ok_def)

lemma index_ok_lookup:
  assumes "index_ok s"
  shows "get_subscriber_by_msisdn s m = Some sub \<longleftrightarrow>
    get_subscriber s (sub_imsi sub) = Some sub \<and> sub_msisdn sub = m"
proof
  assume "get_subscriber_by_msisdn s m = Some sub"
  then obtain imsi where i: "dict_get (st_msisdn_index s) m = Some imsi"
      "get_subscriber s imsi = Some sub"
    by (auto simp: get_subscriber_by_msisdn_def get_subscriber_def split: option.splits if_splits)
  with index_okD [OF assms] show "get_subscriber s (sub_imsi sub) = Some sub \<and> sub_msisdn sub = m"
    by fastforce
next
  assume a: "get_subscriber s (sub_imsi sub) = Some sub \<and> sub_msisdn sub = m"
  with index_okD(1) [OF assms, of "sub_imsi sub" sub]
  have "dict_get (st_msisdn_index s) m = Some (sub_imsi sub)" "sub_imsi sub \<noteq> []" by auto
  with a show "get_subscriber_by_msisdn s m = Some sub"
    by (simp add: get_subscriber_by_msisdn_def get_subscriber_def)
qed

text \<open>Nobody but the subscriber itself holds the number.\<close>

definition msisdn_free_for :: "MemoryStore \<Rightarrow> Subscriber \<Rightarrow> bool" where
  "msisdn_free_for s sub \<longleftrightarrow>
     (case get_subscriber_by_msisdn s (sub_msisdn sub) of
        None \<Rightarrow> True | Some holder \<Rightarrow> sub_imsi holder = sub_imsi sub)"

lemma get_subscriber_put: "get_subscriber (put_subscriber sub s) imsi =
    (if imsi = sub_imsi sub then Some sub else get_subscriber s imsi)"
  by (simp add: put_subscriber_def get_subscriber_def Let_def)

lemma get_subscriber_delete: "get_subscriber (delete_subscriber imsi s) imsi' =
    (if imsi' = imsi then None else get_subscriber s imsi')"
  by (auto simp: delete_subscriber_def get_subscriber_def split: option.split)

lemma index_put: "dict_get (st_msisdn_index (put_subscriber sub s)) m =
   (if m = sub_msisdn sub then Some (sub_imsi sub)
    else if \<exists>p. get_subscriber s (sub_imsi sub) = Some p \<and> sub_msisdn p = m then None
    else dict_get (st_msisdn_index s) m)"
  by (auto simp: put_subscriber_def get_subscriber_def Let_def split: option.split)

lemma index_delete: "dict_get (st_msisdn_index (delete_subscriber imsi s)) m =
   (if \<exists>p. get_subscriber s imsi = Some p \<and> sub_msisdn p = m then None
    else dict_get (st_msisdn_index s) m)"
  by (auto simp: delete_subscriber_def get_subscriber_def split: option.split)

lemma index_ok_inj:
  assumes "index_ok s" and "get_subscriber s i = Some x" and "get_subscriber s j = Some y"
    and "sub_msisdn x = sub_msisdn y"
  shows "i = j"
  using index_okD(1) [OF assms(1,2)] index_okD(1) [OF assms(1,3)] assms(4) by simp

lemma index_okI:
  assumes "\<And>imsi sub. get_subscriber s imsi = Some sub \<Longrightarrow>
      sub_imsi sub = imsi \<and> imsi \<noteq> [] \<and> dict_get (st_msisdn_index s) (sub_msisdn sub) = Some imsi"
    and "\<And>m imsi. dict_get (st_msisdn_index s) m = Some imsi \<Longrightarrow>
      \<exists>sub. get_subscriber s imsi = Some sub \<and> sub_msisdn sub = m"
  shows "index_ok s"
  using assms by (simp add: index_ok_def)

lemma put_subscriber_index_ok:
  assumes ok: "index_ok s" and free: "msisdn_free_for s sub" and ne: "sub_imsi sub \<noteq> []"
  shows "index_ok (put_subscriber sub s)"
proof (rule index_okI)
  have other: "sub_msisdn x \<noteq> sub_msisdn sub"
    if x: "get_subscriber s i = Some x" and i: "i \<noteq> sub_imsi sub" for i x
  proof
    assume "sub_msisdn x = sub_msisdn sub"
    with x index_okD(1) [OF ok x] have "get_subscriber_by_msisdn s (sub_msisdn sub) = Some x"
      by (simp add: index_ok_lookup [OF ok])
    with free i index_okD(1) [OF ok x] show False by (simp add: msisdn_free_for_def)
  qed
  fix i x assume x: "get_subscriber (put_subscriber sub s) i = Some x"
  show "sub_imsi x = i \<and> i \<noteq> [] \<and>
      dict_get (st_msisdn_index (put_subscriber sub s)) (sub_msisdn x) = Some i"
  proof (cases "i = sub_imsi sub")
    case True
    with x ne show ?thesis by (simp add: get_subscriber_put index_put)
  next
    case False
    with x have g: "get_subscriber s i = Some x" by (simp add: get_subscriber_put)
    then have "\<not> (\<exists>p. get_subscriber s (sub_imsi sub) = Some p \<and> sub_msisdn p = sub_msisdn x)"
      using False index_ok_inj [OF ok g, of "sub_imsi sub"] by metis
    with g other [OF g False] index_okD(1) [OF ok g] show ?thesis
      by (simp add: index_put)
  qed
next
  fix m i assume "dict_get (st_msisdn_index (put_subscriber sub s)) m = Some i"
  then show "\<exists>x. get_subscriber (put_subscriber sub s) i = Some x \<and> sub_msisdn x = m"
    using index_okD(2) [OF ok, of m i]
    by (auto simp: get_subscriber_put index_put split: if_splits)
qed

lemma delete_subscriber_index_ok:
  assumes ok: "index_ok s"
  shows "index_ok (delete_subscriber imsi s)"
proof (rule index_okI)
  fix i x assume "get_subscriber (delete_subscriber imsi s) i = Some x"
  then have g: "get_subscriber s i = Some x" and ne: "i \<noteq> imsi"
    by (simp_all add: get_subscriber_delete split: if_splits)
  have "\<not> (\<exists>p. get_subscriber s imsi = Some p \<and> sub_msisdn p = sub_msisdn x)"
    using ne index_ok_inj [OF ok g, of imsi] by metis
  with index_okD(1) [OF ok g] show "sub_imsi x = i \<and> i \<noteq> [] \<and>
      dict_get (st_msisdn_index (delete_subscriber imsi s)) (sub_msisdn x) = Some i"
    by (simp add: index_delete)
next
  fix m i assume "dict_get (st_msisdn_index (delete_subscriber imsi s)) m = Some i"
  then show "\<exists>x. get_subscriber (delete_subscriber imsi s) i = Some x \<and> sub_msisdn x = m"
    using index_okD(2) [OF ok, of m i]
    by (auto simp: get_subscriber_delete index_delete split: if_splits)
qed

text \<open>
  The MSISDN index stays exact. As long as a subscriber is stored under a number nobody else
  holds, storing and deleting keep this: looking a number up returns a subscriber exactly when
  that subscriber is the stored record of its IMSI and carries that number. So a renumbered
  subscriber is no longer found under the old number, and a deleted one under none.
\<close>

theorem msisdn_index_exact:
  assumes "index_ok s" and "msisdn_free_for s sub" and "sub_imsi sub \<noteq> []"
  shows "index_ok (put_subscriber sub s) \<and> index_ok (delete_subscriber imsi s) \<and>
    (get_subscriber_by_msisdn (put_subscriber sub s) m = Some found \<longleftrightarrow>
       get_subscriber (put_subscriber sub s) (sub_imsi found) = Some found \<and> sub_msisdn found = m) \<and>
    (get_subscriber_by_msisdn (delete_subscriber imsi s) m = Some found \<longleftrightarrow>
       sub_imsi found \<noteq> imsi \<and> get_subscriber s (sub_imsi found) = Some found \<and>
       sub_msisdn found = m)"
  using put_subscriber_index_ok [OF assms] delete_subscriber_index_ok [OF assms(1)]
  by (auto simp: index_ok_lookup get_subscriber_delete)

definition demo_subscriber :: "string \<Rightarrow> string \<Rightarrow> Subscriber" where
  "demo_subscriber imsi msisdn = \<lparr>sub_imsi = imsi, sub_msisdn = msisdn, sub_entitled = True,
     sub_provisioning_version = 1, sub_forced_vers = None, sub_rcs_profile = ''UP_2.4'',
     sub_imei_allowlist = [], sub_overrides = [], sub_dm_password = [], sub_volte_enabled = True,
     sub_created_at = 1, sub_updated_at = 1\<rparr>"

lemma demo_store_index_ok:
  "index_ok (put_subscriber (demo_subscriber ''45005'' ''+8210'') empty_store)"
  by (rule put_subscriber_index_ok)
    (auto simp: index_ok_def get_subscriber_def empty_store_def msisdn_free_for_def
      get_subscriber_by_msisdn_def demo_subscriber_def)

theorem msisdn_index_exact_witness:
  "let s = put_subscriber (demo_subscriber ''45005'' ''+8210'') empty_store;
       t = put_subscriber (demo_subscriber ''45005'' ''+8211'') s
   in index_ok t \<and> get_subscriber_by_msisdn t ''+8211'' = Some (demo_subscriber ''45005'' ''+8211'') \<and>
      get_subscriber_by_msisdn t ''+8210'' = None"
proof -
  let ?s = "put_subscriber (demo_subscriber ''45005'' ''+8210'') empty_store"
  let ?n = "demo_subscriber ''45005'' ''+8211''"
  have free: "msisdn_free_for ?s ?n" by code_simp
  have ne: "sub_imsi ?n \<noteq> []" by (simp add: demo_subscriber_def)
  note exact = msisdn_index_exact [OF demo_store_index_ok free ne]
  have "get_subscriber_by_msisdn (put_subscriber ?n ?s) ''+8210'' = None"
    by (simp add: get_subscriber_by_msisdn_def index_put get_subscriber_put demo_subscriber_def)
  moreover have "get_subscriber_by_msisdn (put_subscriber ?n ?s) ''+8211'' = Some ?n"
    using exact [of "[]" "''+8211''" ?n] by (simp add: get_subscriber_put demo_subscriber_def)
  ultimately show ?thesis
    using exact [of "[]"] by (auto simp: Let_def)
qed

end
