(* ===== verification/Otp.thy ===== *)
theory Otp
  imports Memory_Store
begin

text \<open>
  \<^verbatim>\<open>src/src/acs/auth/otp.py\<close>: creating, verifying and discarding SMS one-time passwords.

  The functions take the store's operations as arguments, as the source takes any \<open>Store\<close>.
  \<open>sha\<close> is \<open>hashlib.sha256(...).hexdigest()\<close>; hex digests are ASCII, so the constant-time
  comparison of two of them is equality. \<open>draws\<close> are the results of \<open>secrets.randbelow(10)\<close>,
  \<open>challenge_id\<close> that of \<open>secrets.token_hex(8)\<close>, \<open>clock\<close> that of \<open>int(time.time())\<close>. The
  verification loop makes at most \<open>VERIFY_ROUNDS\<close> rounds, the bound of the source.
\<close>

section \<open>Definitions\<close>

record OtpPolicy =
  pol_length :: int
  pol_ttl_seconds :: int
  pol_max_attempts :: int
  pol_resend_cooldown_seconds :: int
  pol_max_sends_per_day :: int

datatype OtpOutcome = VERIFIED | NO_CHALLENGE | EXPIRED | MISMATCH | EXHAUSTED | CONSUMED

definition generate_otp :: "(nat \<Rightarrow> nat) \<Rightarrow> int \<Rightarrow> string" where
  "generate_otp draws len = concat (map (\<lambda>i. str_of_nat (draws i)) [0..<nat len])"

definition hash_otp :: "(string \<Rightarrow> string) \<Rightarrow> string \<Rightarrow> string \<Rightarrow> string" where
  "hash_otp sha msisdn otp = sha (msisdn @ '':'' @ otp)"

record SendBlocked =
  blocked_reason :: refuse_reason
  blocked_retry_after :: int

definition new_challenge :: "(string \<Rightarrow> string) \<Rightarrow> string \<Rightarrow> string \<Rightarrow> string \<Rightarrow> string \<Rightarrow> OtpPolicy \<Rightarrow>
    int option \<Rightarrow> int \<Rightarrow> OtpChallenge" where
  "new_challenge sha otp challenge_id msisdn imsi policy sms_port current =
     \<lparr>oc_msisdn = msisdn, oc_otp_hash = hash_otp sha msisdn otp, oc_imsi = imsi,
      oc_created_at = current, oc_expires_at = current + pol_ttl_seconds policy,
      oc_attempts = 0, oc_sms_port = sms_port, oc_consumed = False,
      oc_challenge_id = challenge_id\<rparr>"

definition create_challenge ::
  "(int \<Rightarrow> OtpChallenge \<Rightarrow> int \<Rightarrow> int \<Rightarrow> int \<Rightarrow> 's \<Rightarrow> OtpIssueRefused option \<times> 's) \<Rightarrow>
   (string \<Rightarrow> string) \<Rightarrow> (nat \<Rightarrow> nat) \<Rightarrow> string \<Rightarrow> int \<Rightarrow> string \<Rightarrow> string \<Rightarrow> OtpPolicy \<Rightarrow>
   int option \<Rightarrow> int option \<Rightarrow> 's \<Rightarrow> (SendBlocked + OtpChallenge \<times> string) \<times> 's" where
  "create_challenge issue sha draws challenge_id clock msisdn imsi policy sms_port now s =
     (let current = time_or now clock;
          otp = generate_otp draws (pol_length policy);
          challenge = new_challenge sha otp challenge_id msisdn imsi policy sms_port current
      in case issue clock challenge (pol_resend_cooldown_seconds policy)
                (pol_max_sends_per_day policy) current s of
           (Some refused, s') \<Rightarrow>
             (Inl \<lparr>blocked_reason = refused_reason refused,
                   blocked_retry_after = refused_retry_after refused\<rparr>, s')
         | (None, s') \<Rightarrow> (Inr (challenge, otp), s'))"

definition VERIFY_ROUNDS :: nat where
  "VERIFY_ROUNDS = 5"

text \<open>What one round decides from the challenge it read: answer at once, remove the
  challenge and answer whatever happens, or swap it and answer only if the swap succeeded.\<close>

datatype verify_action =
  Answer OtpOutcome
| Remove OtpChallenge OtpOutcome
| Swap OtpChallenge OtpOutcome "OtpChallenge option"

definition verify_decide :: "(string \<Rightarrow> string) \<Rightarrow> int \<Rightarrow> string \<Rightarrow> string \<Rightarrow> OtpPolicy \<Rightarrow> int \<Rightarrow>
    OtpChallenge option \<Rightarrow> verify_action" where
  "verify_decide sha clock msisdn otp policy current read = (case read of
     None \<Rightarrow> Answer NO_CHALLENGE
   | Some challenge \<Rightarrow>
       if oc_consumed challenge then Answer CONSUMED
       else if otp_expired challenge (Some current) clock then Remove challenge EXPIRED
       else if oc_attempts challenge \<ge> pol_max_attempts policy then Remove challenge EXHAUSTED
       else
         (let attempts = oc_attempts challenge + 1
          in if oc_otp_hash challenge = hash_otp sha msisdn otp then Swap challenge VERIFIED None
             else if attempts \<ge> pol_max_attempts policy then Swap challenge EXHAUSTED None
             else Swap challenge MISMATCH (Some (challenge\<lparr>oc_attempts := attempts\<rparr>))))"

fun verify_rounds ::
  "nat \<Rightarrow> ('s \<Rightarrow> string \<Rightarrow> OtpChallenge option) \<Rightarrow>
   (OtpChallenge \<Rightarrow> OtpChallenge option \<Rightarrow> 's \<Rightarrow> bool \<times> 's) \<Rightarrow>
   (string \<Rightarrow> string) \<Rightarrow> int \<Rightarrow> string \<Rightarrow> string \<Rightarrow> OtpPolicy \<Rightarrow> int \<Rightarrow> 's \<Rightarrow> OtpOutcome \<times> 's" where
  "verify_rounds 0 get replace sha clock msisdn otp policy current s = (MISMATCH, s)"
| "verify_rounds (Suc n) get replace sha clock msisdn otp policy current s =
     (case verify_decide sha clock msisdn otp policy current (get s msisdn) of
        Answer outcome \<Rightarrow> (outcome, s)
      | Remove challenge outcome \<Rightarrow> (outcome, snd (replace challenge None s))
      | Swap challenge outcome replacement \<Rightarrow>
          (case replace challenge replacement s of
             (True, s') \<Rightarrow> (outcome, s')
           | (False, s') \<Rightarrow>
               verify_rounds n get replace sha clock msisdn otp policy current s'))"

definition verify_challenge ::
  "('s \<Rightarrow> string \<Rightarrow> OtpChallenge option) \<Rightarrow>
   (OtpChallenge \<Rightarrow> OtpChallenge option \<Rightarrow> 's \<Rightarrow> bool \<times> 's) \<Rightarrow>
   (string \<Rightarrow> string) \<Rightarrow> int \<Rightarrow> string \<Rightarrow> string \<Rightarrow> OtpPolicy \<Rightarrow> int option \<Rightarrow> 's \<Rightarrow>
   OtpOutcome \<times> 's" where
  "verify_challenge get replace sha clock msisdn otp policy now s =
     verify_rounds VERIFY_ROUNDS get replace sha clock msisdn otp policy (time_or now clock) s"

fun discard_rounds ::
  "nat \<Rightarrow> ('s \<Rightarrow> string \<Rightarrow> OtpChallenge option) \<Rightarrow>
   (OtpChallenge \<Rightarrow> OtpChallenge option \<Rightarrow> 's \<Rightarrow> bool \<times> 's) \<Rightarrow> OtpChallenge \<Rightarrow> 's \<Rightarrow> bool \<times> 's" where
  "discard_rounds 0 get replace challenge s = (False, s)"
| "discard_rounds (Suc n) get replace challenge s =
     (case get s (oc_msisdn challenge) of
        None \<Rightarrow> (False, s)
      | Some current \<Rightarrow>
          if \<not> same_issue current challenge then (False, s)
          else (case replace current None s of
                  (True, s') \<Rightarrow> (True, s')
                | (False, s') \<Rightarrow> discard_rounds n get replace challenge s'))"

definition discard_challenge ::
  "('s \<Rightarrow> string \<Rightarrow> OtpChallenge option) \<Rightarrow>
   (OtpChallenge \<Rightarrow> OtpChallenge option \<Rightarrow> 's \<Rightarrow> bool \<times> 's) \<Rightarrow> OtpChallenge \<Rightarrow> 's \<Rightarrow> bool \<times> 's" where
  "discard_challenge get replace challenge s =
     discard_rounds VERIFY_ROUNDS get replace challenge s"

section \<open>Any store that keeps the interface\<close>

lemma case_swap_result:
  "fst p \<Longrightarrow> (case p of (True, x) \<Rightarrow> f x | (False, x) \<Rightarrow> g x) = f (snd p)"
  "\<not> fst p \<Longrightarrow> (case p of (True, x) \<Rightarrow> f x | (False, x) \<Rightarrow> g x) = g (snd p)"
  by (cases p; simp)+

text \<open>What a verification that runs alone must return and leave behind, as a table.\<close>

definition verify_spec :: "(string \<Rightarrow> string) \<Rightarrow> string \<Rightarrow> string \<Rightarrow> OtpPolicy \<Rightarrow> int \<Rightarrow> int \<Rightarrow>
    OtpChallenge option \<Rightarrow> OtpOutcome \<times> OtpChallenge option" where
  "verify_spec sha msisdn otp policy current clock read = (case read of
     None \<Rightarrow> (NO_CHALLENGE, None)
   | Some c \<Rightarrow>
       if oc_consumed c then (CONSUMED, Some c)
       else if otp_expired c (Some current) clock then (EXPIRED, None)
       else if pol_max_attempts policy \<le> oc_attempts c then (EXHAUSTED, None)
       else if oc_otp_hash c = hash_otp sha msisdn otp then (VERIFIED, None)
       else if pol_max_attempts policy \<le> oc_attempts c + 1 then (EXHAUSTED, None)
       else (MISMATCH, Some (c\<lparr>oc_attempts := oc_attempts c + 1\<rparr>)))"

context otp_store
begin

lemma verify_round_alone:
  assumes "keyed s"
  shows "fst (verify_rounds (Suc n) get_chal replace_chal sha clock m otp policy current s)
       = fst (verify_spec sha m otp policy current clock (get_chal s m)) \<and>
     get_chal (snd (verify_rounds (Suc n) get_chal replace_chal sha clock m otp policy current s)) m'
       = (if m' = m then snd (verify_spec sha m otp policy current clock (get_chal s m))
          else get_chal s m')"
proof (cases "get_chal s m")
  case None
  then show ?thesis by (simp add: verify_decide_def verify_spec_def)
next
  case (Some c)
  have m: "oc_msisdn c = m" using assms Some by (rule get_keyed)
  have ok: "fst (replace_chal c r s)" for r
    using Some m by (simp add: replace_read)
  have get: "get_chal (snd (replace_chal c r s)) m' = (if m' = m then r else get_chal s m')" for r m'
    using Some assms by (rule replace_get_read)
  show ?thesis
    by (simp add: Some verify_decide_def verify_spec_def Let_def case_swap_result(1) [OF ok] get)
qed

lemma discard_round_alone:
  fixes n :: nat
  assumes "keyed s" and "oc_msisdn c = m"
  defines "r \<equiv> discard_rounds (Suc n) get_chal replace_chal c s"
  shows "fst r \<longleftrightarrow> (\<exists>d. get_chal s m = Some d \<and> same_issue d c)"
    and "get_chal (snd r) m' = (if fst r \<and> m' = m then None else get_chal s m')"
proof -
  have ok: "fst (replace_chal d None s)" if "get_chal s m = Some d" for d
    using that assms get_keyed [of s m d] replace_read [of s d] by simp
  show "fst r \<longleftrightarrow> (\<exists>d. get_chal s m = Some d \<and> same_issue d c)"
    using ok by (auto simp: r_def assms(2) case_swap_result split: option.split)
  show "get_chal (snd r) m' = (if fst r \<and> m' = m then None else get_chal s m')"
    using ok replace_get_read [of s m _ None, OF _ assms(1)]
    by (auto simp: r_def assms(2) case_swap_result split: option.split)
qed

lemma verify_rounds_keyed:
  "keyed s \<Longrightarrow> keyed (snd (verify_rounds n get_chal replace_chal sha clock m otp policy current s))"
proof (induction n arbitrary: s)
  case 0
  then show ?case by simp
next
  case (Suc n)
  have step: "keyed (snd (replace_chal c r s))" if "r = None \<or> r = Some (c\<lparr>oc_attempts := a\<rparr>)" for c r a
    using Suc.prems that by (intro replace_keyed) auto
  have pres: "keyed (snd (replace_chal c r s))"
    if "verify_decide sha clock m otp policy current (get_chal s m) = Swap c q r" for c q r
    using that by (auto simp: verify_decide_def Let_def split: option.splits if_splits intro!: step)
  show ?case
    using Suc.prems Suc.IH step [of None] pres
    by (fastforce split: verify_action.split prod.split bool.split)
qed

lemma verify_wrong_code_safe:
  assumes "keyed s" and "get_chal s m = Some c" and "oc_otp_hash c \<noteq> hash_otp sha m otp"
  shows "fst (verify_rounds (Suc n) get_chal replace_chal sha clock m otp policy current s) \<noteq> VERIFIED"
proof -
  have "fst (verify_spec sha m otp policy current clock (get_chal s m)) \<noteq> VERIFIED"
    using assms(2,3) by (simp add: verify_spec_def)
  with verify_round_alone [OF assms(1), of n sha clock m otp policy current] show ?thesis by metis
qed

end

section \<open>Properties on the memory store\<close>

lemma VERIFY_ROUNDS_Suc: "VERIFY_ROUNDS = Suc 4"
  by (simp add: VERIFY_ROUNDS_def)

lemma verify_alone:
  assumes "otp_keyed s"
  shows "fst (verify_challenge get_otp replace_otp sha clock m otp policy now s)
       = fst (verify_spec sha m otp policy (time_or now clock) clock (get_otp s m)) \<and>
     get_otp (snd (verify_challenge get_otp replace_otp sha clock m otp policy now s)) m'
       = (if m' = m
          then snd (verify_spec sha m otp policy (time_or now clock) clock (get_otp s m))
          else get_otp s m')"
  unfolding verify_challenge_def VERIFY_ROUNDS_Suc
  using memory_otp.verify_round_alone [OF assms] .

lemma verify_keyed:
  "otp_keyed s \<Longrightarrow>
   otp_keyed (snd (verify_challenge get_otp replace_otp sha clock m otp policy now s))"
  unfolding verify_challenge_def by (rule memory_otp.verify_rounds_keyed)

text \<open>
  C6. The outcome table of \<open>verify_challenge\<close>, run without interference: no challenge, consumed,
  expired, attempts exhausted, right code, last wrong code, wrong code. The challenge is gone
  after a right code, after the last wrong one and after expiry; a wrong code costs exactly one
  attempt; and no other MSISDN's challenge changes.
\<close>

theorem verify_challenge_outcome:
  assumes "otp_keyed s"
  shows "fst (verify_challenge get_otp replace_otp sha clock m otp policy now s)
       = fst (verify_spec sha m otp policy (time_or now clock) clock (get_otp s m)) \<and>
     get_otp (snd (verify_challenge get_otp replace_otp sha clock m otp policy now s)) m'
       = (if m' = m
          then snd (verify_spec sha m otp policy (time_or now clock) clock (get_otp s m))
          else get_otp s m')"
  using assms by (rule verify_alone)

definition demo_policy :: OtpPolicy where
  "demo_policy = \<lparr>pol_length = 6, pol_ttl_seconds = 300, pol_max_attempts = 3,
     pol_resend_cooldown_seconds = 60, pol_max_sends_per_day = 10\<rparr>"

definition demo_challenge :: OtpChallenge where
  "demo_challenge = new_challenge (\<lambda>x. x) ''123456'' ''c1'' ''+82'' ''45005'' demo_policy None 1000"

definition demo_otp_store :: MemoryStore where
  "demo_otp_store = empty_store\<lparr>st_otp := [(''+82'', demo_challenge)]\<rparr>"

lemmas demo_otp_defs = demo_policy_def demo_challenge_def demo_otp_store_def new_challenge_def
  empty_store_def hash_otp_def get_otp_def dict_get_def otp_expired_def

lemma demo_otp_keyed: "otp_keyed demo_otp_store"
  by (simp add: otp_keyed_def demo_otp_defs)

theorem verify_challenge_outcome_witness:
  "fst (verify_challenge get_otp replace_otp (\<lambda>x. x) 1100 ''+82'' ''123456'' demo_policy (Some 1100)
      demo_otp_store) = VERIFIED \<and>
   get_otp (snd (verify_challenge get_otp replace_otp (\<lambda>x. x) 1100 ''+82'' ''123456'' demo_policy
      (Some 1100) demo_otp_store)) ''+82'' = None \<and>
   fst (verify_challenge get_otp replace_otp (\<lambda>x. x) 1100 ''+82'' ''000000'' demo_policy (Some 1100)
      demo_otp_store) = MISMATCH"
  using verify_challenge_outcome [OF demo_otp_keyed, of "\<lambda>x. x" 1100 "''+82''" "''123456''"
      demo_policy "Some 1100" "''+82''"]
    verify_challenge_outcome [OF demo_otp_keyed, of "\<lambda>x. x" 1100 "''+82''" "''000000''"
      demo_policy "Some 1100" "''+82''"]
  by (simp add: verify_spec_def demo_otp_defs)

text \<open>
  C7. The life of a code. If \<open>create_challenge\<close> stores a challenge and the subscriber sends the
  code back before it expires, the verification succeeds; the same code sent again finds no
  challenge; and any text whose digest differs is never accepted.
\<close>

theorem otp_round_trip:
  assumes "otp_keyed s" and "0 < pol_max_attempts policy"
    and "create_challenge issue_otp sha draws cid clock m imsi policy port now s = (Inr (c, otp), s')"
    and "0 < later" and "later < time_or now clock + pol_ttl_seconds policy"
    and "verify_challenge get_otp replace_otp sha clock' m otp policy (Some later) s' = (first, s'')"
    and "verify_challenge get_otp replace_otp sha clock'' m otp policy again s'' = (second, s3)"
    and "sha (m @ '':'' @ guess) \<noteq> sha (m @ '':'' @ otp)"
  shows "first = VERIFIED \<and> second = NO_CHALLENGE \<and>
    fst (verify_challenge get_otp replace_otp sha clock' m guess policy (Some later) s') \<noteq> VERIFIED"
proof -
  let ?c = "new_challenge sha otp cid m imsi policy port (time_or now clock)"
  have otp: "otp = generate_otp draws (pol_length policy)"
      and st: "issue_otp clock ?c (pol_resend_cooldown_seconds policy)
        (pol_max_sends_per_day policy) (time_or now clock) s = (None, s')"
    using assms(3) by (auto simp: create_challenge_def Let_def split: prod.splits option.splits)
  have c: "get_otp s' m = Some ?c" and k: "otp_keyed s'"
    using memory_otp.issue_get [of clock ?c "pol_resend_cooldown_seconds policy"
        "pol_max_sends_per_day policy" "time_or now clock" s m]
      memory_otp.issue_keyed [OF assms(1), of clock ?c "pol_resend_cooldown_seconds policy"
        "pol_max_sends_per_day policy" "time_or now clock"]
    by (simp_all add: st) (simp add: new_challenge_def)
  have spec: "verify_spec sha m x policy later clock' (Some ?c) =
      (if sha (m @ '':'' @ otp) = sha (m @ '':'' @ x) then (VERIFIED, None)
       else if pol_max_attempts policy \<le> 1 then (EXHAUSTED, None)
       else (MISMATCH, Some (?c\<lparr>oc_attempts := 1\<rparr>)))" for x
    using assms(2,4,5) by (simp add: verify_spec_def new_challenge_def hash_otp_def otp_expired_def)
  have run: "fst (verify_challenge get_otp replace_otp sha clock' m x policy (Some later) s')
      = fst (verify_spec sha m x policy later clock' (Some ?c))"
    "get_otp (snd (verify_challenge get_otp replace_otp sha clock' m x policy (Some later) s')) m
      = snd (verify_spec sha m x policy later clock' (Some ?c))" for x
    using verify_alone [OF k, of sha clock' m x policy "Some later" m] assms(4) by (simp_all add: c)
  have "first = VERIFIED" "get_otp s'' m = None"
    using run [of otp] by (simp_all add: assms(6) spec)
  moreover have "otp_keyed s''"
    using verify_keyed [OF k, of sha clock' m otp policy "Some later"] by (simp add: assms(6))
  ultimately have "second = NO_CHALLENGE"
    using verify_alone [of s'' sha clock'' m otp policy again m]
    by (simp add: assms(7) verify_spec_def)
  moreover have "fst (verify_challenge get_otp replace_otp sha clock' m guess policy (Some later) s')
      \<noteq> VERIFIED"
    using run(1) [of guess] assms(8) by (simp add: spec)
  ultimately show ?thesis using \<open>first = VERIFIED\<close> by simp
qed

theorem otp_round_trip_witness:
  "\<exists>c otp s'. create_challenge issue_otp (\<lambda>x. x) (\<lambda>i. i) ''c1'' 1000 ''+82'' ''45005'' demo_policy None
       None empty_store = (Inr (c, otp), s') \<and> otp = ''012345'' \<and>
     fst (verify_challenge get_otp replace_otp (\<lambda>x. x) 1100 ''+82'' otp demo_policy (Some 1100) s')
       = VERIFIED"
proof -
  let ?cr = "create_challenge issue_otp (\<lambda>x. x) (\<lambda>i. i) ''c1'' 1000 ''+82'' ''45005'' demo_policy None
       None empty_store"
  let ?c = "new_challenge (\<lambda>x. x) ''012345'' ''c1'' ''+82'' ''45005'' demo_policy None 1000"
  let ?s = "empty_store\<lparr>st_otp_sends := [(''+82'', [1000])], st_otp := [(''+82'', ?c)]\<rparr>"
  let ?v = "verify_challenge get_otp replace_otp (\<lambda>x. x) 1100 ''+82'' ''012345'' demo_policy (Some 1100)"
  have cr: "?cr = (Inr (?c, ''012345''), ?s)" by code_simp
  have "fst (?v ?s) = VERIFIED \<and> fst (?v (snd (?v ?s))) = NO_CHALLENGE \<and> fst (?v ?s) = VERIFIED"
    using otp_round_trip [OF _ _ cr, of 1100 1100 "fst (?v ?s)" "snd (?v ?s)" 1100 "Some 1100"
        "fst (?v (snd (?v ?s)))" "snd (?v (snd (?v ?s)))" "''9''"]
    by (simp add: otp_keyed_def empty_store_def demo_policy_def)
  with cr show ?thesis by blast
qed

text \<open>
  \<open>discard_challenge\<close>, called when the SMS of a challenge could not be sent, deletes the stored
  challenge only if it is still the one that was issued (whatever attempts it has had since):
  a newer challenge for the same MSISDN, with another id, survives, and so does every other
  MSISDN's. It reports whether it deleted.
\<close>

theorem discard_challenge_exact:
  assumes "otp_keyed s"
  shows "(fst (discard_challenge get_otp replace_otp c s) \<longleftrightarrow>
       (\<exists>d. get_otp s (oc_msisdn c) = Some d \<and> same_issue d c)) \<and>
     get_otp (snd (discard_challenge get_otp replace_otp c s)) m =
       (if m = oc_msisdn c \<and> (\<exists>d. get_otp s m = Some d \<and> same_issue d c) then None
        else get_otp s m)"
  using memory_otp.discard_round_alone(1) [OF assms refl, where n = 4 and c = c]
    memory_otp.discard_round_alone(2) [OF assms refl, where n = 4 and c = c and m' = m]
  by (auto simp: discard_challenge_def VERIFY_ROUNDS_Suc simp del: discard_rounds.simps)

theorem discard_challenge_exact_witness:
  "fst (discard_challenge get_otp replace_otp demo_challenge
      (demo_otp_store\<lparr>st_otp := [(''+82'', demo_challenge\<lparr>oc_attempts := 2\<rparr>)]\<rparr>)) \<and>
   \<not> fst (discard_challenge get_otp replace_otp (demo_challenge\<lparr>oc_challenge_id := ''c0''\<rparr>)
      demo_otp_store) \<and>
   get_otp (snd (discard_challenge get_otp replace_otp (demo_challenge\<lparr>oc_challenge_id := ''c0''\<rparr>)
      demo_otp_store)) ''+82'' = Some demo_challenge"
proof -
  have k: "otp_keyed (demo_otp_store\<lparr>st_otp := [(''+82'', demo_challenge\<lparr>oc_attempts := 2\<rparr>)]\<rparr>)"
    by (simp add: otp_keyed_def demo_otp_defs)
  show ?thesis
    using discard_challenge_exact [OF k, of demo_challenge]
      discard_challenge_exact [OF demo_otp_keyed, of "demo_challenge\<lparr>oc_challenge_id := ''c0''\<rparr>" "''+82''"]
    by (simp add: demo_otp_defs same_issue_def)
qed

end
