(* ===== verification/Otp_Concurrency.thy ===== *)
theory Otp_Concurrency
  imports Otp
begin

text \<open>
  Concurrent requests on one challenge store. \<open>verify_challenge\<close> and \<open>discard_challenge\<close> read
  and write the store in separate atomic operations, and other requests run in between, in the
  same process or in another task. A world is the store and the point every request has
  reached; one step performs one atomic store operation of one request, or issues a challenge.
  The decisions are those of \<open>verify_decide\<close> and \<open>same_issue\<close>; the step relation is over any
  store operations, and the lemmas hold for every store with the \<open>otp_store\<close> interface.

  A challenge id is \<open>secrets.token_hex(8)\<close>: the step that issues one takes an id not used
  before. The second half bounds the number of messages sent over any sequence of the atomic
  operations.
\<close>

section \<open>Requests in flight\<close>

datatype request =
  NotStarted
| VerifyLoop string string int nat
| VerifyRemove OtpChallenge OtpOutcome
| VerifySwap string string int nat OtpChallenge OtpOutcome "OtpChallenge option"
| Decided string OtpOutcome
| Returned OtpOutcome
| DiscardLoop OtpChallenge nat
| DiscardSwap OtpChallenge nat OtpChallenge
| Discarded bool

record 's world =
  w_store :: 's
  w_req :: "nat \<Rightarrow> request"
  w_issued :: "OtpChallenge list"

definition at_request :: "nat \<Rightarrow> request \<Rightarrow> 's world \<Rightarrow> 's world" where
  "at_request p q w = w\<lparr>w_req := (w_req w)(p := q)\<rparr>"

text \<open>\<open>Decided i o\<close> is a request whose guess against the challenge with id \<open>i\<close> was counted:
  its swap succeeded and it returns \<open>o\<close>. \<open>Returned\<close> is every other answer.\<close>

inductive otp_step ::
  "('s \<Rightarrow> string \<Rightarrow> OtpChallenge option) \<Rightarrow>
   (int \<Rightarrow> OtpChallenge \<Rightarrow> int \<Rightarrow> int \<Rightarrow> int \<Rightarrow> 's \<Rightarrow> OtpIssueRefused option \<times> 's) \<Rightarrow>
   (OtpChallenge \<Rightarrow> OtpChallenge option \<Rightarrow> 's \<Rightarrow> bool \<times> 's) \<Rightarrow>
   (string \<Rightarrow> string) \<Rightarrow> OtpPolicy \<Rightarrow> 's world \<Rightarrow> 's world \<Rightarrow> bool"
  for get issue replace sha policy where
  issue: "oc_challenge_id c \<noteq> [] \<Longrightarrow> oc_challenge_id c \<notin> oc_challenge_id ` set (w_issued w) \<Longrightarrow>
    oc_attempts c = 0 \<Longrightarrow>
    otp_step get issue replace sha policy w
      (w\<lparr>w_store := snd (issue clock c cooldown cap now (w_store w)), w_issued := c # w_issued w\<rparr>)"
| start_verify: "w_req w p = NotStarted \<Longrightarrow>
    otp_step get issue replace sha policy w (at_request p (VerifyLoop m otp now VERIFY_ROUNDS) w)"
| out_of_rounds: "w_req w p = VerifyLoop m otp now 0 \<Longrightarrow>
    otp_step get issue replace sha policy w (at_request p (Returned MISMATCH) w)"
| read_answer: "w_req w p = VerifyLoop m otp now (Suc n) \<Longrightarrow>
    verify_decide sha clock m otp policy now (get (w_store w) m) = Answer q \<Longrightarrow>
    otp_step get issue replace sha policy w (at_request p (Returned q) w)"
| read_remove: "w_req w p = VerifyLoop m otp now (Suc n) \<Longrightarrow>
    verify_decide sha clock m otp policy now (get (w_store w) m) = Remove c q \<Longrightarrow>
    otp_step get issue replace sha policy w (at_request p (VerifyRemove c q) w)"
| read_swap: "w_req w p = VerifyLoop m otp now (Suc n) \<Longrightarrow>
    verify_decide sha clock m otp policy now (get (w_store w) m) = Swap c q r \<Longrightarrow>
    otp_step get issue replace sha policy w (at_request p (VerifySwap m otp now n c q r) w)"
| remove: "w_req w p = VerifyRemove c q \<Longrightarrow> replace c None (w_store w) = (b, s') \<Longrightarrow>
    otp_step get issue replace sha policy w (at_request p (Returned q) (w\<lparr>w_store := s'\<rparr>))"
| swap_won: "w_req w p = VerifySwap m otp now n c q r \<Longrightarrow> replace c r (w_store w) = (True, s') \<Longrightarrow>
    otp_step get issue replace sha policy w
      (at_request p (Decided (oc_challenge_id c) q) (w\<lparr>w_store := s'\<rparr>))"
| swap_lost: "w_req w p = VerifySwap m otp now n c q r \<Longrightarrow> replace c r (w_store w) = (False, s') \<Longrightarrow>
    otp_step get issue replace sha policy w
      (at_request p (VerifyLoop m otp now n) (w\<lparr>w_store := s'\<rparr>))"
| start_discard: "w_req w p = NotStarted \<Longrightarrow> c \<in> set (w_issued w) \<Longrightarrow>
    otp_step get issue replace sha policy w (at_request p (DiscardLoop c VERIFY_ROUNDS) w)"
| discard_stop: "w_req w p = DiscardLoop c n \<Longrightarrow>
    n = 0 \<or> get (w_store w) (oc_msisdn c) = None \<or>
      (\<exists>d. get (w_store w) (oc_msisdn c) = Some d \<and> \<not> same_issue d c) \<Longrightarrow>
    otp_step get issue replace sha policy w (at_request p (Discarded False) w)"
| discard_read: "w_req w p = DiscardLoop c (Suc n) \<Longrightarrow>
    get (w_store w) (oc_msisdn c) = Some d \<Longrightarrow> same_issue d c \<Longrightarrow>
    otp_step get issue replace sha policy w (at_request p (DiscardSwap c n d) w)"
| discard_swap: "w_req w p = DiscardSwap c n d \<Longrightarrow> replace d None (w_store w) = (b, s') \<Longrightarrow>
    otp_step get issue replace sha policy w
      (at_request p (if b then Discarded True else DiscardLoop c n) (w\<lparr>w_store := s'\<rparr>))"

definition initial_world :: "'s \<Rightarrow> 's world" where
  "initial_world s = \<lparr>w_store = s, w_req = (\<lambda>p. NotStarted), w_issued = []\<rparr>"

text \<open>The requests whose guess against challenge \<open>i\<close> was counted.\<close>

definition counted :: "'s world \<Rightarrow> string \<Rightarrow> nat set" where
  "counted w i = {p. \<exists>q. w_req w p = Decided i q}"

section \<open>The invariant\<close>

fun held :: "request \<Rightarrow> OtpChallenge option" where
  "held (VerifyRemove c q) = Some c"
| "held (VerifySwap m otp now n c q r) = Some c"
| "held (DiscardSwap c n d) = Some d"
| "held _ = None"

fun swap_ok :: "OtpPolicy \<Rightarrow> request \<Rightarrow> bool" where
  "swap_ok policy (VerifySwap m otp now n c q r) \<longleftrightarrow>
     oc_attempts c < pol_max_attempts policy \<and>
     (r = None \<and> q \<noteq> MISMATCH \<or> q = MISMATCH \<and> r = Some (c\<lparr>oc_attempts := oc_attempts c + 1\<rparr>))"
| "swap_ok policy _ \<longleftrightarrow> True"

definition derived :: "'s world \<Rightarrow> OtpChallenge \<Rightarrow> bool" where
  "derived w c \<longleftrightarrow> (\<exists>d \<in> set (w_issued w). c = d\<lparr>oc_attempts := oc_attempts c\<rparr>)"

definition ids_inv :: "('s \<Rightarrow> string \<Rightarrow> OtpChallenge option) \<Rightarrow> ('s \<Rightarrow> bool) \<Rightarrow> OtpPolicy \<Rightarrow>
    's world \<Rightarrow> bool" where
  "ids_inv get keyed policy w \<longleftrightarrow>
     keyed (w_store w) \<and> distinct (map oc_challenge_id (w_issued w)) \<and>
     (\<forall>c \<in> set (w_issued w). oc_challenge_id c \<noteq> []) \<and>
     (\<forall>m c. get (w_store w) m = Some c \<longrightarrow> derived w c) \<and>
     (\<forall>p c. held (w_req w p) = Some c \<longrightarrow> derived w c) \<and>
     (\<forall>p. swap_ok policy (w_req w p)) \<and>
     (\<forall>p i q. w_req w p = Decided i q \<longrightarrow> i \<in> oc_challenge_id ` set (w_issued w))"

definition count_inv :: "('s \<Rightarrow> string \<Rightarrow> OtpChallenge option) \<Rightarrow> OtpPolicy \<Rightarrow> 's world \<Rightarrow> bool" where
  "count_inv get policy w \<longleftrightarrow>
     (\<forall>i. finite (counted w i) \<and> card (counted w i) \<le> nat (pol_max_attempts policy)) \<and>
     (\<forall>m c. get (w_store w) m = Some c \<longrightarrow>
        int (card (counted w (oc_challenge_id c))) = oc_attempts c \<and>
        (\<forall>p q. w_req w p = Decided (oc_challenge_id c) q \<longrightarrow> q = MISMATCH)) \<and>
     (\<forall>i p p'. w_req w p = Decided i VERIFIED \<longrightarrow> w_req w p' = Decided i VERIFIED \<longrightarrow> p = p')"

definition otp_inv :: "('s \<Rightarrow> string \<Rightarrow> OtpChallenge option) \<Rightarrow> ('s \<Rightarrow> bool) \<Rightarrow> OtpPolicy \<Rightarrow>
    's world \<Rightarrow> bool" where
  "otp_inv get keyed policy w \<longleftrightarrow> ids_inv get keyed policy w \<and> count_inv get policy w"

lemma count_invI:
  assumes "\<And>i. finite (counted w i) \<and> card (counted w i) \<le> nat (pol_max_attempts policy)"
    and "\<And>m c. get (w_store w) m = Some c \<Longrightarrow>
        int (card (counted w (oc_challenge_id c))) = oc_attempts c \<and>
        (\<forall>p q. w_req w p = Decided (oc_challenge_id c) q \<longrightarrow> q = MISMATCH)"
    and "\<And>i p p'. w_req w p = Decided i VERIFIED \<Longrightarrow> w_req w p' = Decided i VERIFIED \<Longrightarrow> p = p'"
  shows "count_inv get policy w"
  using assms unfolding count_inv_def by blast

lemma at_request_simps [simp]:
  "w_store (at_request p q w) = w_store w"
  "w_issued (at_request p q w) = w_issued w"
  "w_req (at_request p q w) = (w_req w)(p := q)"
  "derived (at_request p q w) c = derived w c"
  by (simp_all add: at_request_def derived_def)

lemma derived_store [simp]: "derived (w\<lparr>w_store := s\<rparr>) c = derived w c"
  by (simp add: derived_def)

lemma derived_attempts:
  assumes "derived w c" shows "derived w (c\<lparr>oc_attempts := a\<rparr>)"
proof -
  obtain d b where d: "d \<in> set (w_issued w)" "c = d\<lparr>oc_attempts := b\<rparr>"
    using assms by (auto simp: derived_def)
  then have "c\<lparr>oc_attempts := a\<rparr> = d\<lparr>oc_attempts := a\<rparr>" by simp
  with d(1) show ?thesis by (auto simp: derived_def)
qed

lemma derived_issue: "derived w c \<Longrightarrow> derived (w\<lparr>w_store := s, w_issued := d # w_issued w\<rparr>) c"
  by (auto simp: derived_def)

lemma derived_same:
  assumes "ids_inv get keyed policy w" and "derived w c" and "derived w d"
    and "oc_challenge_id c = oc_challenge_id d"
  shows "d = c\<lparr>oc_attempts := oc_attempts d\<rparr>"
proof -
  obtain x y where x: "x \<in> set (w_issued w)" "c = x\<lparr>oc_attempts := oc_attempts c\<rparr>"
    and y: "y \<in> set (w_issued w)" "d = y\<lparr>oc_attempts := oc_attempts d\<rparr>"
    using assms(2,3) by (auto simp: derived_def)
  have "oc_challenge_id x = oc_challenge_id y"
    using assms(4) x(2) y(2) by (metis OtpChallenge.select_convs(9) OtpChallenge.surjective
        OtpChallenge.update_convs(6))
  then have "x = y"
    using assms(1) x(1) y(1) by (auto simp: ids_inv_def distinct_map inj_on_def)
  then show ?thesis
    using x(2) y(2) by (metis OtpChallenge.surjective OtpChallenge.update_convs(6))
qed

lemma ids_inv_at:
  assumes "ids_inv get keyed policy w" and "\<And>c. held q = Some c \<Longrightarrow> derived w c"
    and "swap_ok policy q" and "\<And>i r. q = Decided i r \<Longrightarrow> i \<in> oc_challenge_id ` set (w_issued w)"
  shows "ids_inv get keyed policy (at_request p q w)"
  using assms by (simp add: ids_inv_def) blast

lemma ids_inv_store:
  assumes "ids_inv get keyed policy w" and "keyed s"
    and "\<And>m c. get s m = Some c \<Longrightarrow> derived w c"
  shows "ids_inv get keyed policy (w\<lparr>w_store := s\<rparr>)"
  using assms by (simp add: ids_inv_def)

lemma count_inv_mono:
  assumes "count_inv get policy w"
    and "\<And>p i q. w_req w' p = Decided i q \<longleftrightarrow> w_req w p = Decided i q"
    and "\<And>m c. get (w_store w') m = Some c \<Longrightarrow> get (w_store w) m = Some c \<or>
      oc_attempts c = 0 \<and> (\<forall>p q. w_req w p \<noteq> Decided (oc_challenge_id c) q)"
  shows "count_inv get policy w'"
proof -
  have counted: "counted w' i = counted w i" for i
    by (simp add: counted_def assms(2))
  have none: "counted w i = {}" if "\<forall>p q. w_req w p \<noteq> Decided i q" for i
    using that by (simp add: counted_def)
  show ?thesis
    unfolding count_inv_def counted assms(2)
    using assms(1) assms(3) none by (simp add: count_inv_def) (metis card.empty of_nat_0)
qed

lemma decide_swap:
  assumes "verify_decide sha clock m otp policy now x = Swap c q r"
  shows "x = Some c \<and> swap_ok policy (VerifySwap m otp now n c q r)"
  using assms by (auto simp: verify_decide_def Let_def split: option.splits if_splits)

lemma decide_remove:
  "verify_decide sha clock m otp policy now x = Remove c q \<Longrightarrow> x = Some c"
  by (auto simp: verify_decide_def Let_def split: option.splits if_splits)

lemma ids_invD:
  assumes "ids_inv get keyed policy w"
  shows "keyed (w_store w)" and "get (w_store w) m = Some c \<Longrightarrow> derived w c"
    and "held (w_req w p) = Some c \<Longrightarrow> derived w c" and "swap_ok policy (w_req w p)"
    and "derived w c \<Longrightarrow> oc_challenge_id c \<noteq> []"
    and "derived w c \<Longrightarrow> oc_challenge_id c \<in> oc_challenge_id ` set (w_issued w)"
    and "w_req w p = Decided i q \<Longrightarrow> i \<in> oc_challenge_id ` set (w_issued w)"
proof -
  have id: "\<exists>d \<in> set (w_issued w). oc_challenge_id c = oc_challenge_id d" if "derived w c"
    using that unfolding derived_def
    by (metis OtpChallenge.select_convs(9) OtpChallenge.surjective OtpChallenge.update_convs(6))
  show "derived w c \<Longrightarrow> oc_challenge_id c \<noteq> []"
    using id assms by (auto simp: ids_inv_def)
  show "derived w c \<Longrightarrow> oc_challenge_id c \<in> oc_challenge_id ` set (w_issued w)"
    using id by auto
  show "w_req w p = Decided i q \<Longrightarrow> i \<in> oc_challenge_id ` set (w_issued w)"
    using assms unfolding ids_inv_def by blast
qed (use assms in \<open>auto simp: ids_inv_def\<close>)

context otp_store
begin

lemma replace_derived:
  assumes "ids_inv get_chal keyed policy w" and "replace_chal c r (w_store w) = (b, s')"
    and "derived w c" and "r = None \<or> r = Some (c\<lparr>oc_attempts := a\<rparr>)"
  shows "ids_inv get_chal keyed policy (w\<lparr>w_store := s'\<rparr>)"
proof (rule ids_inv_store [OF assms(1)])
  have s': "s' = snd (replace_chal c r (w_store w))" by (simp add: assms(2))
  show "keyed s'"
    unfolding s' using ids_invD(1) [OF assms(1)] assms(4) by (intro replace_keyed) auto
  fix m d assume "get_chal s' m = Some d"
  then have "r = Some d \<or> get_chal (w_store w) m = Some d"
    by (simp add: s' replace_get split: if_splits)
  with assms(3,4) show "derived w d"
    using ids_invD(2) [OF assms(1)] derived_attempts by auto
qed

lemma replace_only_removes:
  assumes "replace_chal c None s = (b, s')" and "get_chal s' m = Some d"
  shows "get_chal s m = Some d"
  using assms replace_get [of c None s m] by (cases "b \<and> m = oc_msisdn c") auto

lemma replace_failed:
  assumes "replace_chal c r s = (False, s')" shows "get_chal s' m = get_chal s m"
  using assms replace_get [of c r s m] by simp

text \<open>A swap that succeeds found exactly the challenge it had read.\<close>

lemma swap_found:
  assumes inv: "ids_inv get_chal keyed policy w" and "derived w c"
    and "replace_chal c r (w_store w) = (True, s')"
  shows "get_chal (w_store w) (oc_msisdn c) = Some c"
proof -
  obtain d where d: "get_chal (w_store w) (oc_msisdn c) = Some d" "unchanged d c"
    using assms(3) replace_result [of c r "w_store w"] by auto
  have id: "oc_challenge_id c = oc_challenge_id d" and at: "oc_attempts d = oc_attempts c"
    using unchanged_id [OF d(2) ids_invD(5) [OF inv assms(2)]] unchanged_attempts [OF d(2)] by auto
  have "d = c\<lparr>oc_attempts := oc_attempts d\<rparr>"
    by (rule derived_same [OF inv assms(2) ids_invD(2) [OF inv d(1)] id])
  with d(1) at show ?thesis by simp
qed

lemma stored_once:
  assumes inv: "ids_inv get_chal keyed policy w" and "get_chal (w_store w) m = Some c"
    and "get_chal (w_store w) m' = Some d" and "oc_challenge_id c = oc_challenge_id d"
  shows "m' = m"
proof -
  have "d = c\<lparr>oc_attempts := oc_attempts d\<rparr>"
    using derived_same [OF inv ids_invD(2) [OF inv assms(2)] ids_invD(2) [OF inv assms(3)] assms(4)] .
  moreover have "oc_msisdn (c\<lparr>oc_attempts := oc_attempts d\<rparr>) = oc_msisdn c" by simp
  ultimately have "oc_msisdn d = oc_msisdn c" by simp
  then show ?thesis
    using get_keyed [OF ids_invD(1) [OF inv]] assms(2,3) by simp
qed

lemma count_inv_swap_won:
  assumes inv: "ids_inv get_chal keyed policy w" and cnt: "count_inv get_chal policy w"
    and req: "w_req w p = VerifySwap m otp now n c q r"
    and rep: "replace_chal c r (w_store w) = (True, s')"
  shows "count_inv get_chal policy
    (at_request p (Decided (oc_challenge_id c) q) (w\<lparr>w_store := s'\<rparr>))" (is "count_inv _ _ ?w")
proof -
  let ?i = "oc_challenge_id c"
  have der: "derived w c" using ids_invD(3) [OF inv, of p c] req by simp
  note found = swap_found [OF inv der rep]
  have ok: "oc_attempts c < pol_max_attempts policy"
      "r = None \<and> q \<noteq> MISMATCH \<or> q = MISMATCH \<and> r = Some (c\<lparr>oc_attempts := oc_attempts c + 1\<rparr>)"
    using ids_invD(4) [OF inv, of p] req by auto
  have old: "int (card (counted w ?i)) = oc_attempts c" "finite (counted w j)"
      "card (counted w j) \<le> nat (pol_max_attempts policy)"
      "w_req w x = Decided ?i y \<Longrightarrow> y = MISMATCH" for j x y
    using cnt found by (auto simp: count_inv_def)
  have new: "counted ?w j = (if j = ?i then insert p (counted w j) else counted w j)" for j
    using req by (auto simp: counted_def)
  have fresh: "p \<notin> counted w ?i" using req by (simp add: counted_def)
  have bound: "finite (counted ?w j) \<and> card (counted ?w j) \<le> nat (pol_max_attempts policy)" for j
  proof (cases "j = ?i")
    case True
    have "int (card (insert p (counted w ?i))) \<le> pol_max_attempts policy"
      using old(1) old(2) [of ?i] fresh ok(1) by simp
    with True old(2) [of ?i] show ?thesis by (simp add: new)
  next
    case False
    with old(2,3) [of j] show ?thesis by (simp add: new)
  qed
  have get: "get_chal s' m' = (if m' = oc_msisdn c then r else get_chal (w_store w) m')" for m'
    using replace_get [of c r "w_store w" m'] by (simp add: rep)
  have more: "int (card (counted ?w ?i)) = oc_attempts c + 1"
    using old(1) old(2) [of ?i] fresh by (simp add: new)
  have stored: "int (card (counted ?w (oc_challenge_id d))) = oc_attempts d \<and>
      (\<forall>x y. w_req ?w x = Decided (oc_challenge_id d) y \<longrightarrow> y = MISMATCH)"
    if "get_chal (w_store ?w) m' = Some d" for m' d
  proof (cases "m' = oc_msisdn c")
    have d: "get_chal s' m' = Some d" using that by simp
    case True
    with d ok(2) have "q = MISMATCH" "d = c\<lparr>oc_attempts := oc_attempts c + 1\<rparr>"
      by (auto simp: get)
    with old(4) more show ?thesis by (auto split: if_splits)
  next
    have d: "get_chal s' m' = Some d" using that by simp
    case False
    with d have g: "get_chal (w_store w) m' = Some d" by (simp add: get)
    then have "oc_challenge_id d \<noteq> ?i" using stored_once [OF inv found g] False by auto
    moreover from cnt g have "int (card (counted w (oc_challenge_id d))) = oc_attempts d"
        "\<And>x y. w_req w x = Decided (oc_challenge_id d) y \<Longrightarrow> y = MISMATCH"
      by (auto simp: count_inv_def)
    ultimately show ?thesis by (simp add: new)
  qed
  have unique: "x = x'" if "w_req ?w x = Decided j VERIFIED" "w_req ?w x' = Decided j VERIFIED" for j x x'
  proof -
    have none: "w_req w y \<noteq> Decided ?i VERIFIED" for y using old(4) [of y VERIFIED] by auto
    have "w_req w y = Decided j VERIFIED \<Longrightarrow> w_req w y' = Decided j VERIFIED \<Longrightarrow> y = y'" for y y'
      using cnt by (simp add: count_inv_def)
    with that none show ?thesis by (simp split: if_splits)
  qed
  show ?thesis
    using count_invI [OF bound stored unique] .
qed

lemma issue_inv:
  fixes clock cooldown cap now :: int
  assumes inv: "ids_inv get_chal keyed policy w" and cnt: "count_inv get_chal policy w"
    and c: "oc_challenge_id c \<noteq> []" "oc_challenge_id c \<notin> oc_challenge_id ` set (w_issued w)"
      "oc_attempts c = 0"
  defines "w' \<equiv> w\<lparr>w_store := snd (issue_chal clock c cooldown cap now (w_store w)),
      w_issued := c # w_issued w\<rparr>"
  shows "otp_inv get_chal keyed policy w'"
  unfolding otp_inv_def
proof
  have get: "d = c \<or> get_chal (w_store w) m = Some d" if "get_chal (w_store w') m = Some d" for m d
    using that by (simp add: w'_def issue_get split: if_splits)
  have der: "derived w d \<Longrightarrow> derived w' d" "derived w' c" for d
    unfolding w'_def using c(3) by (auto simp: derived_issue) (simp add: derived_def)
  have keyed: "keyed (w_store w')"
    using issue_keyed [OF ids_invD(1) [OF inv]] by (simp add: w'_def)
  have stored: "get_chal (w_store w') m = Some d \<Longrightarrow> derived w' d" for m d
    using get [of m d] der ids_invD(2) [OF inv] by blast
  have holds: "held (w_req w' p) = Some d \<Longrightarrow> derived w' d" for p d
    using ids_invD(3) [OF inv, of p d] der(1) by (simp add: w'_def)
  have dec: "w_req w' p = Decided i q \<Longrightarrow> i \<in> oc_challenge_id ` set (w_issued w')" for p i q
    using ids_invD(7) [OF inv, of p i q] by (simp add: w'_def)
  have "distinct (map oc_challenge_id (w_issued w'))" "\<forall>d \<in> set (w_issued w'). oc_challenge_id d \<noteq> []"
      "\<forall>p. swap_ok policy (w_req w' p)"
    using inv c(1,2) by (auto simp: w'_def ids_inv_def)
  with keyed stored holds dec show "ids_inv get_chal keyed policy w'"
    unfolding ids_inv_def by blast
  have "w_req w p \<noteq> Decided (oc_challenge_id c) q" for p q
    using ids_invD(7) [OF inv] c(2) by blast
  then show "count_inv get_chal policy w'"
    using get c(3) by (intro count_inv_mono [OF cnt]) (auto simp: w'_def)
qed

lemma quiet_step_inv:
  assumes inv: "otp_inv get_chal keyed policy w"
    and "\<And>i r. w_req w p \<noteq> Decided i r" and "\<And>i r. q \<noteq> Decided i r"
    and "\<And>c. held q = Some c \<Longrightarrow> derived w c" and "swap_ok policy q"
  shows "otp_inv get_chal keyed policy (at_request p q w)"
  unfolding otp_inv_def
proof
  from inv have ids: "ids_inv get_chal keyed policy w" and cnt: "count_inv get_chal policy w"
    by (simp_all add: otp_inv_def)
  show "ids_inv get_chal keyed policy (at_request p q w)"
    by (rule ids_inv_at [OF ids assms(4,5)]) (simp_all add: assms(3))
  show "count_inv get_chal policy (at_request p q w)"
    using assms(2,3) by (intro count_inv_mono [OF cnt]) auto
qed

lemma removal_inv:
  assumes inv: "otp_inv get_chal keyed policy w"
    and "replace_chal c None (w_store w) = (b, s')" and "derived w c"
  shows "otp_inv get_chal keyed policy (w\<lparr>w_store := s'\<rparr>)"
  unfolding otp_inv_def
proof
  from inv have ids: "ids_inv get_chal keyed policy w" and cnt: "count_inv get_chal policy w"
    by (simp_all add: otp_inv_def)
  show "ids_inv get_chal keyed policy (w\<lparr>w_store := s'\<rparr>)"
    by (rule replace_derived [OF ids assms(2,3)]) simp
  show "count_inv get_chal policy (w\<lparr>w_store := s'\<rparr>)"
    using replace_only_removes [OF assms(2)] by (intro count_inv_mono [OF cnt]) auto
qed

lemma swap_inv:
  assumes inv: "otp_inv get_chal keyed policy w"
    and req: "w_req w p = VerifySwap m otp now n c q r"
    and rep: "replace_chal c r (w_store w) = (b, s')"
  shows "ids_inv get_chal keyed policy (w\<lparr>w_store := s'\<rparr>)" and "derived w c"
    and "\<not> b \<Longrightarrow> count_inv get_chal policy (w\<lparr>w_store := s'\<rparr>)"
proof -
  from inv have ids: "ids_inv get_chal keyed policy w" and cnt: "count_inv get_chal policy w"
    by (simp_all add: otp_inv_def)
  show der: "derived w c" using ids_invD(3) [OF ids, of p c] req by simp
  have "r = None \<or> r = Some (c\<lparr>oc_attempts := oc_attempts c + 1\<rparr>)"
    using ids_invD(4) [OF ids, of p] req by auto
  then show "ids_inv get_chal keyed policy (w\<lparr>w_store := s'\<rparr>)"
    by (rule replace_derived [OF ids rep der])
  assume "\<not> b"
  then have "get_chal s' x = get_chal (w_store w) x" for x
    using rep replace_failed [of c r "w_store w" s'] by simp
  then show "count_inv get_chal policy (w\<lparr>w_store := s'\<rparr>)"
    by (intro count_inv_mono [OF cnt]) auto
qed

lemma otp_step_inv:
  assumes "otp_step get_chal issue_chal replace_chal sha policy w w'"
    and both: "otp_inv get_chal keyed policy w"
  shows "otp_inv get_chal keyed policy w'"
  using assms(1)
proof cases
  case (issue c clock cooldown cap now)
  then show ?thesis using issue_inv both by (simp add: otp_inv_def)
next
  case (read_remove p m otp now n clock c q)
  moreover have "derived w c"
    using decide_remove [OF read_remove(3)] both ids_invD(2) by (auto simp: otp_inv_def)
  ultimately show ?thesis by (auto intro!: quiet_step_inv [OF both])
next
  case (read_swap p m otp now n clock c q r)
  moreover have "derived w c" "swap_ok policy (VerifySwap m otp now n c q r)"
    using decide_swap [OF read_swap(3)] both ids_invD(2) by (auto simp: otp_inv_def)
  ultimately show ?thesis by (auto intro!: quiet_step_inv [OF both])
next
  case (remove p c q b s')
  have "derived w c" using both ids_invD(3) [of _ _ _ w p c] remove(2) by (auto simp: otp_inv_def)
  then have "otp_inv get_chal keyed policy (w\<lparr>w_store := s'\<rparr>)"
    by (rule removal_inv [OF both remove(3)])
  with remove(1,2) show ?thesis by (auto intro!: quiet_step_inv)
next
  case (swap_won p m otp now n c q r s')
  note swap = swap_inv [OF both swap_won(2,3)]
  have "oc_challenge_id c \<in> oc_challenge_id ` set (w_issued w)"
    using both swap(2) ids_invD(6) by (auto simp: otp_inv_def)
  then have "ids_inv get_chal keyed policy w'"
    unfolding swap_won(1) by (intro ids_inv_at [OF swap(1)]) auto
  with count_inv_swap_won swap_won both show ?thesis by (simp add: otp_inv_def)
next
  case (swap_lost p m otp now n c q r s')
  note swap = swap_inv [OF both swap_lost(2,3)]
  then have "otp_inv get_chal keyed policy (w\<lparr>w_store := s'\<rparr>)" by (simp add: otp_inv_def)
  with swap_lost(1,2) show ?thesis by (auto intro!: quiet_step_inv)
next
  case (discard_read p c n d)
  moreover have "derived w d"
    using discard_read(3) both ids_invD(2) by (auto simp: otp_inv_def)
  ultimately show ?thesis by (auto intro!: quiet_step_inv [OF both])
next
  case (discard_swap p c n d b s')
  have "derived w d" using both ids_invD(3) [of _ _ _ w p d] discard_swap(2) by (auto simp: otp_inv_def)
  then have "otp_inv get_chal keyed policy (w\<lparr>w_store := s'\<rparr>)"
    by (rule removal_inv [OF both discard_swap(3)])
  with discard_swap(1,2) show ?thesis by (auto intro!: quiet_step_inv)
qed (auto intro!: quiet_step_inv [OF both])

lemma initial_inv:
  assumes "keyed s" and "\<And>m. get_chal s m = None"
  shows "otp_inv get_chal keyed policy (initial_world s)"
  using assms by (simp add: otp_inv_def ids_inv_def count_inv_def initial_world_def counted_def)

lemma reachable_inv:
  assumes "(otp_step get_chal issue_chal replace_chal sha policy)\<^sup>*\<^sup>* (initial_world s) w"
    and "keyed s" and "\<And>m. get_chal s m = None"
  shows "otp_inv get_chal keyed policy w"
  using assms(1)
proof (induction rule: rtranclp_induct)
  case base
  show ?case by (rule initial_inv [OF assms(2,3)])
next
  case (step y z)
  then show ?case using otp_step_inv by blast
qed

end

section \<open>One-time use under concurrency\<close>

text \<open>
  C1. Under every interleaving of verifications, discards and new challenges on one store, each
  challenge is accepted at most once (two requests that both returned "verified" for it are the
  same request), and the number of guesses that were counted against it never exceeds the
  configured maximum, however many requests race.
\<close>

theorem otp_single_use_concurrent:
  assumes "(otp_step get_otp issue_otp replace_otp sha policy)\<^sup>*\<^sup>* (initial_world empty_store) w"
  shows "(w_req w p = Decided cid VERIFIED \<longrightarrow> w_req w p' = Decided cid VERIFIED \<longrightarrow> p = p') \<and>
    finite (counted w cid) \<and> card (counted w cid) \<le> nat (pol_max_attempts policy)"
proof -
  have "count_inv get_otp policy w"
    using memory_otp.reachable_inv [OF assms]
    by (simp add: otp_inv_def otp_keyed_def empty_store_def get_otp_def)
  then show ?thesis unfolding count_inv_def by blast
qed

lemma demo_world_reachable:
  "\<exists>w. (otp_step get_otp issue_otp replace_otp (\<lambda>x. x) demo_policy)\<^sup>*\<^sup>* (initial_world empty_store) w \<and>
     w_req w 0 = Decided ''c1'' VERIFIED"
proof -
  let ?step = "otp_step get_otp issue_otp replace_otp (\<lambda>x. x) demo_policy"
  let ?s = "snd (issue_otp 1000 demo_challenge 60 10 1000 empty_store)"
  let ?a = "initial_world empty_store"
  let ?b = "?a\<lparr>w_store := ?s, w_issued := demo_challenge # w_issued ?a\<rparr>"
  let ?c = "at_request 0 (VerifyLoop ''+82'' ''123456'' 1100 VERIFY_ROUNDS) ?b"
  let ?d = "at_request 0 (VerifySwap ''+82'' ''123456'' 1100 4 demo_challenge VERIFIED None) ?c"
  have get: "get_otp ?s ''+82'' = Some demo_challenge"
    by code_simp
  have "?step ?a (?a\<lparr>w_store := snd (issue_otp 1000 demo_challenge 60 10 1000 (w_store ?a)),
      w_issued := demo_challenge # w_issued ?a\<rparr>)"
    by (rule otp_step.issue) (simp_all add: demo_challenge_def new_challenge_def initial_world_def)
  moreover have "w_store ?a = empty_store" by (simp add: initial_world_def)
  ultimately have s1: "?step ?a ?b" by simp
  have s2: "?step ?b ?c"
    by (rule otp_step.start_verify) (simp add: initial_world_def)
  have dec: "verify_decide (\<lambda>x. x) 1100 ''+82'' ''123456'' demo_policy 1100 (Some demo_challenge)
      = Swap demo_challenge VERIFIED None"
    by code_simp
  have s3: "?step ?c ?d"
    by (rule otp_step.read_swap [where clock = 1100]) (simp_all add: VERIFY_ROUNDS_Suc get dec)
  have "oc_msisdn demo_challenge = ''+82''" by (simp add: demo_challenge_def new_challenge_def)
  with get have won: "fst (replace_otp demo_challenge None ?s)"
    by (intro memory_otp.replace_read) simp
  then obtain t where rep: "replace_otp demo_challenge None ?s = (True, t)"
    by (cases "replace_otp demo_challenge None ?s") simp
  let ?e = "at_request 0 (Decided (oc_challenge_id demo_challenge) VERIFIED) (?d\<lparr>w_store := t\<rparr>)"
  have s4: "?step ?d ?e"
    by (rule otp_step.swap_won) (use rep in simp_all)
  have "?step\<^sup>*\<^sup>* ?a ?e"
    using s1 s2 s3 s4 by (meson rtranclp.rtrancl_into_rtrancl rtranclp.rtrancl_refl)
  moreover have "w_req ?e 0 = Decided ''c1'' VERIFIED"
    by (simp add: demo_challenge_def new_challenge_def)
  ultimately show ?thesis by blast
qed

theorem otp_single_use_concurrent_witness:
  "\<exists>w. w_req w 0 = Decided ''c1'' VERIFIED \<and> w_req w (Suc 0) \<noteq> Decided ''c1'' VERIFIED \<and>
     (otp_step get_otp issue_otp replace_otp (\<lambda>x. x) demo_policy)\<^sup>*\<^sup>* (initial_world empty_store) w \<and>
     card (counted w ''c1'') \<le> 3"
proof -
  obtain w where w: "(otp_step get_otp issue_otp replace_otp (\<lambda>x. x) demo_policy)\<^sup>*\<^sup>*
      (initial_world empty_store) w" "w_req w 0 = Decided ''c1'' VERIFIED"
    using demo_world_reachable by blast
  from otp_single_use_concurrent [OF w(1), of 0 "''c1''" "Suc 0"] w show ?thesis
    by (auto simp: demo_policy_def)
qed

section \<open>The daily cap\<close>

text \<open>The atomic operations on challenges in some order, by any requests; the log records the
  number and the time of every challenge that was stored, each of which sends one message.\<close>

datatype otp_event =
  IssueAt int OtpChallenge int
| ReplaceWith OtpChallenge "OtpChallenge option"

definition event_time_ok :: "int \<Rightarrow> otp_event \<Rightarrow> bool" where
  "event_time_ok t ev \<longleftrightarrow> (case ev of IssueAt clock c now \<Rightarrow> t \<le> now | ReplaceWith e r \<Rightarrow> True)"

definition event_time :: "int \<Rightarrow> otp_event \<Rightarrow> int" where
  "event_time t ev = (case ev of IssueAt clock c now \<Rightarrow> now | ReplaceWith e r \<Rightarrow> t)"

definition apply_event :: "int \<Rightarrow> int \<Rightarrow> otp_event \<Rightarrow>
    MemoryStore \<times> (string \<times> int) list \<Rightarrow> MemoryStore \<times> (string \<times> int) list" where
  "apply_event cooldown cap ev = (\<lambda>(s, log). (case ev of
     IssueAt clock c now \<Rightarrow>
       (case issue_otp clock c cooldown cap now s of
          (None, s') \<Rightarrow> (s', log @ [(oc_msisdn c, now)])
        | (Some _, s') \<Rightarrow> (s', log))
   | ReplaceWith e r \<Rightarrow> (snd (replace_otp e r s), log)))"

fun run_events :: "int \<Rightarrow> int \<Rightarrow> otp_event list \<Rightarrow>
    MemoryStore \<times> (string \<times> int) list \<Rightarrow> MemoryStore \<times> (string \<times> int) list" where
  "run_events cooldown cap [] st = st"
| "run_events cooldown cap (ev # evs) st = run_events cooldown cap evs (apply_event cooldown cap ev st)"

fun times_ok :: "int \<Rightarrow> otp_event list \<Rightarrow> bool" where
  "times_ok t [] \<longleftrightarrow> True"
| "times_ok t (ev # evs) \<longleftrightarrow> event_time_ok t ev \<and> times_ok (event_time t ev) evs"

definition sent_to :: "string \<Rightarrow> (string \<times> int) list \<Rightarrow> int list" where
  "sent_to m log = map snd (filter (\<lambda>(n, t). n = m) log)"

definition in_window :: "int \<Rightarrow> int list \<Rightarrow> int list" where
  "in_window t ts = filter (\<lambda>u. t - 86400 \<le> u \<and> u \<le> t) ts"

definition sends_inv :: "int \<Rightarrow> int \<Rightarrow> MemoryStore \<times> (string \<times> int) list \<Rightarrow> bool" where
  "sends_inv cap t st \<longleftrightarrow> (\<forall>m.
     (\<forall>u \<in> set (sent_to m (snd st)). u \<le> t) \<and>
     filter (\<lambda>u. t - 86400 \<le> u) (dict_get_or (st_otp_sends (fst st)) m [])
       = filter (\<lambda>u. t - 86400 \<le> u) (sent_to m (snd st)) \<and>
     (\<forall>x. length (in_window x (sent_to m (snd st))) \<le> nat cap))"

lemma dict_get_or_put: "dict_get_or (dict_put k v d) k' x = (if k' = k then v else dict_get_or d k' x)"
  by (simp add: dict_get_or_def dict_put_def update_conv')

lemma filter_later:
  assumes "filter (\<lambda>u. t - 86400 \<le> u) xs = filter (\<lambda>u. t - 86400 \<le> u) ys" and "t \<le> (t' :: int)"
  shows "filter (\<lambda>u. t' - 86400 \<le> u) xs = filter (\<lambda>u. t' - 86400 \<le> u) ys"
proof -
  have "filter (\<lambda>u. t' - 86400 \<le> u) zs = filter (\<lambda>u. t' - 86400 \<le> u) (filter (\<lambda>u. t - 86400 \<le> u) zs)" for zs
    using assms(2) by (induction zs) auto
  with assms(1) show ?thesis by metis
qed

lemma sends_inv_later:
  assumes "sends_inv cap t st" and "t \<le> t'" shows "sends_inv cap t' st"
  using assms filter_later [OF _ assms(2)] unfolding sends_inv_def by (meson order_trans)

lemma window_append:
  assumes "\<forall>u \<in> set ts. u \<le> now" and "length (filter (\<lambda>u. now - 86400 \<le> u) ts) < nat cap"
    and "\<And>x. length (in_window x ts) \<le> nat cap"
  shows "length (in_window x (ts @ [now])) \<le> nat cap"
proof (cases "now \<le> x")
  case True
  then have "in_window x ts = filter (\<lambda>u. x - 86400 \<le> u) (filter (\<lambda>u. now - 86400 \<le> u) ts)"
    unfolding in_window_def filter_filter using assms(1) by (intro filter_cong) auto
  then have "length (in_window x ts) \<le> length (filter (\<lambda>u. now - 86400 \<le> u) ts)"
    by (metis length_filter_le)
  moreover have "length (in_window x (ts @ [now])) \<le> Suc (length (in_window x ts))"
    by (simp add: in_window_def)
  ultimately show ?thesis using assms(2) by linarith
next
  case False
  then have "in_window x (ts @ [now]) = in_window x ts" by (simp add: in_window_def)
  with assms(3) show ?thesis by simp
qed

lemma sends_inv_issue:
  assumes "sends_inv cap t (s, log)" and "t \<le> now"
  shows "sends_inv cap now (apply_event cooldown cap (IssueAt clock c now) (s, log))"
proof (cases rule: issue_otp_cases [of clock c cooldown cap now s])
  case (refused r)
  with sends_inv_later [OF assms] show ?thesis by (simp add: apply_event_def)
next
  case stored
  have inv: "sends_inv cap now (s, log)" by (rule sends_inv_later [OF assms])
  let ?m = "oc_msisdn c"
  have rec: "recent_sends s ?m now = filter (\<lambda>u. now - 86400 \<le> u) (sent_to ?m log)"
    using inv by (simp add: sends_inv_def recent_sends_def)
  have old: "\<forall>u \<in> set (sent_to m log). u \<le> now" "\<And>x. length (in_window x (sent_to m log)) \<le> nat cap" for m
    using inv by (auto simp: sends_inv_def)
  have win: "length (in_window x (sent_to ?m log @ [now])) \<le> nat cap" for x
    using old stored(2) rec by (intro window_append) auto
  have sent: "sent_to m (log @ [(?m, now)]) = (if m = ?m then sent_to m log @ [now] else sent_to m log)" for m
    by (simp add: sent_to_def)
  show ?thesis
    using inv win old rec
    by (simp add: sends_inv_def apply_event_def stored(1) sent dict_get_or_put)
qed

lemma sends_inv_event:
  assumes "sends_inv cap t st" and "event_time_ok t ev"
  shows "sends_inv cap (event_time t ev) (apply_event cooldown cap ev st)"
proof (cases ev)
  case (IssueAt clock c now)
  with assms sends_inv_issue [of cap t "fst st" "snd st" now] show ?thesis
    by (simp add: event_time_def event_time_ok_def)
next
  case (ReplaceWith e r)
  have "st_otp_sends (snd (replace_otp e r s)) = st_otp_sends s" for s
    by (simp add: replace_otp_def split: option.split)
  with ReplaceWith assms(1) show ?thesis
    by (cases st) (simp add: sends_inv_def apply_event_def event_time_def)
qed

lemma sends_inv_run:
  "sends_inv cap t st \<Longrightarrow> times_ok t evs \<Longrightarrow> \<exists>t'. sends_inv cap t' (run_events cooldown cap evs st)"
proof (induction evs arbitrary: t st)
  case Nil
  then show ?case by auto
next
  case (Cons ev evs)
  then show ?case using sends_inv_event by fastforce
qed

text \<open>
  C5. The daily cap holds in every 24-hour window. Over any sequence of atomic challenge
  operations whose issue times do not go backwards, from an empty store, the number of
  challenges stored (and so messages sent) for one MSISDN within any 24 hours is at most
  \<open>max_sends_per_day\<close>; consuming, expiring or discarding challenges in between resets nothing.
\<close>

theorem daily_cap_any_window:
  assumes "times_ok t evs"
  shows "length (in_window x (sent_to m (snd (run_events cooldown cap evs (empty_store, [])))))
    \<le> nat cap"
proof -
  have "sends_inv cap t (empty_store, [])"
    by (simp add: sends_inv_def empty_store_def sent_to_def dict_get_or_def in_window_def)
  with sends_inv_run [OF _ assms, of cap "(empty_store, [])" cooldown] show ?thesis
    unfolding sends_inv_def by blast
qed

theorem daily_cap_any_window_witness:
  "let ev = (\<lambda>now. IssueAt now (demo_challenge\<lparr>oc_created_at := now\<rparr>) now);
       log = snd (run_events 60 2 [ev 1000, ev 1030, ev 1100, ev 1200] (empty_store, []))
   in log = [(''+82'', 1000), (''+82'', 1100)] \<and> length (in_window 1200 (sent_to ''+82'' log)) \<le> 2"
proof -
  let ?ev = "\<lambda>now. IssueAt now (demo_challenge\<lparr>oc_created_at := now\<rparr>) now"
  have "times_ok 0 [?ev 1000, ?ev 1030, ?ev 1100, ?ev 1200]"
    by (simp add: event_time_def event_time_ok_def)
  from daily_cap_any_window [OF this, of 1200 "''+82''" 60 2] show ?thesis
    unfolding Let_def by (intro conjI) (code_simp, simp)
qed

text \<open>
  The resend cooldown. While an unconsumed, unexpired challenge younger than the cooldown is
  stored, \<open>create_challenge\<close> stores nothing and sends nothing: it raises \<open>SendBlocked\<close> with the
  seconds left until the cooldown ends, a positive number.
\<close>

theorem create_challenge_rate_limited:
  assumes "get_otp s m = Some e"
    and "\<not> oc_consumed e" and "\<not> otp_expired e (Some (time_or now clock)) clock"
    and "time_or now clock - oc_created_at e < pol_resend_cooldown_seconds policy"
  shows "\<exists>wait. create_challenge issue_otp sha draws cid clock m imsi policy port now s
      = (Inl \<lparr>blocked_reason = Cooldown, blocked_retry_after = wait\<rparr>, s) \<and>
    0 < wait \<and> wait = pol_resend_cooldown_seconds policy - (time_or now clock - oc_created_at e)"
  using assms
  by (simp add: create_challenge_def issue_otp_def Let_def new_challenge_def get_otp_def)

theorem create_challenge_rate_limited_witness:
  "\<exists>wait. create_challenge issue_otp (\<lambda>x. x) (\<lambda>i. 7) ''c2'' 1030 ''+82'' ''45005'' demo_policy None None
      demo_otp_store = (Inl \<lparr>blocked_reason = Cooldown, blocked_retry_after = wait\<rparr>, demo_otp_store) \<and>
    wait = 30"
  using create_challenge_rate_limited [of demo_otp_store "''+82''" demo_challenge None 1030 demo_policy
      "\<lambda>x. x" "\<lambda>i. 7" "''c2''" "''45005''" None]
  by (simp add: demo_otp_defs)

end
