(* ===== verification/Omacp_Document.thy ===== *)
theory Omacp_Document
  imports Acs_Prelude "HOL-Library.Multiset"
begin

text \<open>
  \<^verbatim>\<open>src/src/acs/protocol/omacp/document.py\<close> and \<^verbatim>\<open>writer.py\<close>: the OMA-CP document, its
  element tree and the structural validation. The source mutates the tree through references;
  here \<open>add_at\<close> is the composition it uses, following \<open>child\<close> down a path (creating what is
  missing) and appending one parameter. The element tree is what \<open>to_element\<close> hands to lxml and
  what \<open>parse\<close> returns; serialising and parsing bytes is lxml's.
\<close>

section \<open>Documents\<close>

record Parm =
  pm_name :: string
  pm_value :: string

datatype Characteristic =
  Characteristic (ch_type: string) (ch_parms: "Parm list") (ch_children: "Characteristic list")

definition new_characteristic :: "string \<Rightarrow> Characteristic" where
  "new_characteristic t = Characteristic t [] []"

definition parm :: "string \<Rightarrow> string \<Rightarrow> Parm" where
  "parm n v = \<lparr>pm_name = n, pm_value = v\<rparr>"

definition add_parm :: "string \<Rightarrow> string \<Rightarrow> Characteristic \<Rightarrow> Characteristic" where
  "add_parm n v c = Characteristic (ch_type c) (ch_parms c @ [parm n v]) (ch_children c)"

definition find_parm :: "Characteristic \<Rightarrow> string \<Rightarrow> Parm option" where
  "find_parm c n = List.find (\<lambda>p. pm_name p = n) (ch_parms c)"

text \<open>Replace the first element that satisfies \<open>P\<close>, or append a new one.\<close>

fun update_first :: "('a \<Rightarrow> bool) \<Rightarrow> ('a \<Rightarrow> 'a) \<Rightarrow> 'a \<Rightarrow> 'a list \<Rightarrow> 'a list" where
  "update_first P f new [] = [f new]"
| "update_first P f new (x # xs) = (if P x then f x # xs else x # update_first P f new xs)"

primrec add_at :: "string list \<Rightarrow> string \<Rightarrow> string \<Rightarrow> Characteristic \<Rightarrow> Characteristic" where
  "add_at [] n v c = add_parm n v c"
| "add_at (seg # segs) n v c =
     Characteristic (ch_type c) (ch_parms c)
       (update_first (\<lambda>k. ch_type k = seg) (add_at segs n v) (new_characteristic seg) (ch_children c))"

fun walk :: "string \<Rightarrow> Characteristic \<Rightarrow> (string \<times> Parm) list" where
  "walk pre (Characteristic t ps cs) =
     (let here = (if pre \<noteq> [] then pre @ ''/'' @ t else t)
      in map (\<lambda>p. (here, p)) ps @ concat (map (walk here) cs))"

fun parm_count :: "Characteristic \<Rightarrow> nat" where
  "parm_count (Characteristic t ps cs) = length ps + sum_list (map parm_count cs)"

record ProvisioningDoc =
  doc_version :: string
  doc_characteristics :: "Characteristic list"

definition empty_doc :: ProvisioningDoc where
  "empty_doc = \<lparr>doc_version = ''1.1'', doc_characteristics = []\<rparr>"

definition doc_add :: "Characteristic \<Rightarrow> ProvisioningDoc \<Rightarrow> ProvisioningDoc" where
  "doc_add c d = d\<lparr>doc_characteristics := doc_characteristics d @ [c]\<rparr>"

definition is_application :: "string \<Rightarrow> Characteristic \<Rightarrow> bool" where
  "is_application app_id c \<longleftrightarrow> ch_type c = ''APPLICATION'' \<and>
     (case find_parm c ''AppID'' of None \<Rightarrow> False | Some p \<Rightarrow> pm_value p = app_id)"

definition doc_application :: "ProvisioningDoc \<Rightarrow> string \<Rightarrow> Characteristic option" where
  "doc_application d app_id = List.find (is_application app_id) (doc_characteristics d)"

definition doc_parm_count :: "ProvisioningDoc \<Rightarrow> nat" where
  "doc_parm_count d = sum_list (map parm_count (doc_characteristics d))"

definition doc_paths :: "ProvisioningDoc \<Rightarrow> string list" where
  "doc_paths d = concat (map (\<lambda>c. map (\<lambda>(path, p). path @ ''/'' @ pm_name p) (walk [] c))
     (doc_characteristics d))"

section \<open>Element trees\<close>

datatype element = Element (el_tag: string) (el_attrs: "(string, string) dict") (el_children: "element list")

fun characteristic_element :: "Characteristic \<Rightarrow> element" where
  "characteristic_element (Characteristic t ps cs) =
     Element ''characteristic'' [(''type'', t)]
       (map (\<lambda>p. Element ''parm'' [(''name'', pm_name p), (''value'', pm_value p)] []) ps @
        map characteristic_element cs)"

definition to_element :: "ProvisioningDoc \<Rightarrow> element" where
  "to_element d = Element ''wap-provisioningdoc'' [(''version'', doc_version d)]
     (map characteristic_element (doc_characteristics d))"

datatype validation_issue =
  WrongRoot string
| WrongVersion "string option"
| CharacteristicWithoutType
| ParmWithoutName
| ParmWithoutValue "string option"
| ParmNotEmpty "string option"
| UnexpectedElement string
| VersMissing

definition element_issues :: "element \<Rightarrow> validation_issue list" where
  "element_issues e =
     (if el_tag e = ''characteristic''
      then (if \<not> truthy (dict_get (el_attrs e) ''type'') then [CharacteristicWithoutType] else [])
      else if el_tag e = ''parm''
      then (if dict_get (el_attrs e) ''name'' = None then [ParmWithoutName] else []) @
           (if dict_get (el_attrs e) ''value'' = None
            then [ParmWithoutValue (dict_get (el_attrs e) ''name'')] else []) @
           (if el_children e \<noteq> [] then [ParmNotEmpty (dict_get (el_attrs e) ''name'')] else [])
      else [UnexpectedElement (el_tag e)])"

text \<open>\<open>iter()\<close> below the root: every descendant, in document order.\<close>

fun tree_issues :: "element \<Rightarrow> validation_issue list" where
  "tree_issues (Element tag attrs children) =
     element_issues (Element tag attrs children) @ concat (map tree_issues children)"

definition validate_structure :: "element \<Rightarrow> validation_issue list" where
  "validate_structure root =
     (if el_tag root \<noteq> ''wap-provisioningdoc'' then [WrongRoot (el_tag root)] else []) @
     (if dict_get (el_attrs root) ''version'' \<noteq> Some ''1.1''
      then [WrongVersion (dict_get (el_attrs root) ''version'')] else []) @
     concat (map tree_issues (el_children root)) @
     (if \<not> list_ex (\<lambda>e. el_tag e = ''characteristic'' \<and>
          dict_get (el_attrs e) ''type'' = Some ''VERS'') (el_children root)
      then [VersMissing] else [])"

section \<open>Lemmas\<close>

fun types_ok :: "Characteristic \<Rightarrow> bool" where
  "types_ok (Characteristic t ps cs) \<longleftrightarrow> t \<noteq> [] \<and> list_all types_ok cs"

lemma ch_type_add_at [simp]: "ch_type (add_at segs n v c) = ch_type c"
  by (cases segs) (simp_all add: add_parm_def)

lemma update_first_set:
  "x \<in> set (update_first P f new xs) \<Longrightarrow> x = f new \<or> (\<exists>y \<in> set xs. x = f y \<and> P y) \<or> x \<in> set xs"
  by (induction xs) (auto split: if_splits)

lemma types_ok_iff: "types_ok c \<longleftrightarrow> ch_type c \<noteq> [] \<and> list_all types_ok (ch_children c)"
  by (cases c) simp

lemma types_ok_add_at:
  "types_ok c \<Longrightarrow> list_all (\<lambda>s. s \<noteq> []) segs \<Longrightarrow> types_ok (add_at segs n v c)"
proof (induction segs arbitrary: c)
  case Nil
  then show ?case by (simp add: add_parm_def types_ok_iff [of c])
next
  case (Cons seg segs)
  have new: "types_ok (add_at segs n v (new_characteristic seg))"
    using Cons.prems by (intro Cons.IH) (simp_all add: new_characteristic_def)
  have child: "types_ok (add_at segs n v k)" if "k \<in> set (ch_children c)" for k
    using Cons.prems that by (intro Cons.IH) (simp_all add: types_ok_iff [of c] list_all_iff)
  have old: "types_ok k" if "k \<in> set (ch_children c)" for k
    using Cons.prems(1) that by (simp add: types_ok_iff [of c] list_all_iff)
  have "list_all types_ok (update_first (\<lambda>k. ch_type k = seg) (add_at segs n v)
      (new_characteristic seg) (ch_children c))"
    unfolding list_all_iff using new child old by (auto dest!: update_first_set)
  then show ?case using Cons.prems(1) by (simp add: types_ok_iff [of c])
qed

lemma tree_issues_characteristic:
  "types_ok c \<Longrightarrow> tree_issues (characteristic_element c) = []"
proof (induction c)
  case (Characteristic t ps cs)
  then have "\<And>k. k \<in> set cs \<Longrightarrow> tree_issues (characteristic_element k) = []"
    by (simp add: list_all_iff)
  moreover have "t \<noteq> []" using Characteristic.prems by simp
  ultimately show ?case
    by (simp add: element_issues_def dict_get_def truthy_def comp_def)
qed

lemma validate_structure_to_element:
  assumes "doc_version d = ''1.1''" and "list_all types_ok (doc_characteristics d)"
    and "c \<in> set (doc_characteristics d)" and "ch_type c = ''VERS''"
  shows "validate_structure (to_element d) = []"
proof -
  have "tree_issues (characteristic_element k) = []" if "k \<in> set (doc_characteristics d)" for k
    using assms(2) that by (intro tree_issues_characteristic) (simp add: list_all_iff)
  moreover have "el_tag (characteristic_element c) = ''characteristic'' \<and>
      dict_get (el_attrs (characteristic_element c)) ''type'' = Some ''VERS''"
    using assms(4) by (cases c) (simp add: dict_get_def)
  ultimately show ?thesis
    using assms(1,3) by (auto simp: validate_structure_def to_element_def dict_get_def list_ex_iff)
qed

text \<open>The parameters of a document with the types on the way to them.\<close>

fun leaves :: "Characteristic \<Rightarrow> (string list \<times> Parm) multiset" where
  "leaves (Characteristic t ps cs) =
     mset (map (\<lambda>p. ([t], p)) ps) +
     sum_mset (mset (map (\<lambda>c. image_mset (\<lambda>(path, p). (t # path, p)) (leaves c)) cs))"

lemma leaves_sel: "leaves c = mset (map (\<lambda>p. ([ch_type c], p)) (ch_parms c)) +
    sum_mset (mset (map (\<lambda>k. image_mset (\<lambda>(path, p). (ch_type c # path, p)) (leaves k)) (ch_children c)))"
  by (cases c) simp

lemma sum_update_first:
  assumes "\<And>x. g (f x) = g x + h" and "g new = {#}"
  shows "sum_mset (mset (map g (update_first P f new xs))) = sum_mset (mset (map g xs)) + h"
  using assms by (induction xs) simp_all

lemma leaves_add_at: "leaves (add_at segs n v c) = leaves c + {# (ch_type c # segs, parm n v) #}"
proof (induction segs arbitrary: c)
  case Nil
  show ?case by (simp add: add_parm_def leaves_sel [of c])
next
  case (Cons seg segs)
  let ?g = "\<lambda>k. image_mset (\<lambda>(path, p). (ch_type c # path, p)) (leaves k)"
  let ?u = "update_first (\<lambda>k. ch_type k = seg) (add_at segs n v) (new_characteristic seg)"
  have "sum_mset (mset (map ?g (?u cs)))
      = sum_mset (mset (map ?g cs)) + {# (ch_type c # seg # segs, parm n v) #}" for cs
  proof (induction cs)
    case Nil
    show ?case by (simp add: Cons.IH) (simp add: new_characteristic_def)
  next
    case (Cons k cs)
    then show ?case using \<open>\<And>c. leaves (add_at segs n v c) = _\<close> by simp
  qed
  then show ?case by (simp add: leaves_sel [of c])
qed

end
