(* ===== verification/Omacp_Catalog.thy ===== *)
theory Omacp_Catalog
  imports Acs_Prelude
begin

text \<open>
  \<^verbatim>\<open>src/src/acs/protocol/omacp/catalog.py\<close>: catalogue entries, their validation and the overlay of
  a profile on the base catalogue. Reading and parsing the YAML files is PyYAML's: \<open>load_catalog\<close>
  takes the entries of \<^verbatim>\<open>base.yaml\<close> and, if the profile has a file, those of the overlay, as
  dictionaries of scalars and lists of scalars. Floating-point scalars do not occur.
\<close>

section \<open>Definitions\<close>

datatype yaml = YNull | YBool bool | YInt int | YStr string | YList "yaml list"

datatype CatalogError =
  MissingKey string
| NotText string
| InvalidPath string
| EmptyParm string
| UnknownType string
| EnumWithoutValues string
| BadBoolDefault string
| BadIntDefault string
| NoEntries
| DuplicateEntry string

record CatalogEntry =
  ce_path :: string
  ce_parm :: string
  ce_type :: string
  ce_default :: string
  ce_values :: "string list"
  ce_verified :: bool
  ce_required :: bool
  ce_profiles :: "string list"
  ce_unit :: string
  ce_spec :: string
  ce_doc :: string

definition entry_key :: "CatalogEntry \<Rightarrow> string" where
  "entry_key e = ce_path e @ ''/'' @ ce_parm e"

definition application_prefix :: string where
  "application_prefix = ''APPLICATION:''"

definition entry_app_id :: "CatalogEntry \<Rightarrow> string option" where
  "entry_app_id e = (let head = py_before CHR ''/'' (ce_path e)
     in if py_startswith head application_prefix
        then Some (drop (length application_prefix) head) else None)"

definition applies_to :: "CatalogEntry \<Rightarrow> string \<Rightarrow> bool" where
  "applies_to e profile \<longleftrightarrow> ce_profiles e = [] \<or> profile \<in> set (ce_profiles e)"

definition for_profile :: "CatalogEntry list \<Rightarrow> string \<Rightarrow> CatalogEntry list" where
  "for_profile entries profile = filter (\<lambda>e. applies_to e profile) entries"

definition verified_count :: "CatalogEntry list \<Rightarrow> nat" where
  "verified_count entries = length (filter ce_verified entries)"

definition catalog_app_ids :: "CatalogEntry list \<Rightarrow> string list" where
  "catalog_app_ids entries = fold (\<lambda>e seen. case entry_app_id e of
     Some a \<Rightarrow> if a \<noteq> [] \<and> a \<notin> set seen then seen @ [a] else seen | None \<Rightarrow> seen) entries []"

definition VALID_TYPES :: "string list" where
  "VALID_TYPES = [''chr'', ''int'', ''bool01'', ''enum'']"

definition path_char :: "char \<Rightarrow> bool" where
  "path_char c \<longleftrightarrow> (let n = code_of c in (65 \<le> n \<and> n \<le> 90) \<or> (97 \<le> n \<and> n \<le> 122) \<or> is_decimal c \<or>
     c \<in> {CHR ''_'', CHR '':'', CHR ''-'', CHR ''.''})"

definition path_segments_ok :: "string \<Rightarrow> bool" where
  "path_segments_ok s \<longleftrightarrow> list_all (\<lambda>seg. seg \<noteq> [] \<and> list_all path_char seg) (py_split CHR ''/'' s)"

definition PATH_RE :: "string \<Rightarrow> bool" where
  "PATH_RE s \<longleftrightarrow> re_line path_segments_ok s"

definition placeholder_char :: "char \<Rightarrow> bool" where
  "placeholder_char c \<longleftrightarrow> 97 \<le> code_of c \<and> code_of c \<le> 122 \<or> c = CHR ''_''"

text \<open>Whether \<^verbatim>\<open>\{([a-z_]+)\}\<close> matches somewhere.\<close>

fun has_placeholder :: "string \<Rightarrow> bool" where
  "has_placeholder [] = False"
| "has_placeholder (c # cs) =
     ((c = CHR ''{'' \<and> takeWhile placeholder_char cs \<noteq> [] \<and>
       py_startswith (dropWhile placeholder_char cs) ''}'') \<or> has_placeholder cs)"

definition yaml_text :: "string \<Rightarrow> yaml \<Rightarrow> CatalogError + string" where
  "yaml_text key v = (case v of
     YNull \<Rightarrow> Inr ''None''
   | YBool b \<Rightarrow> Inr (if b then ''True'' else ''False'')
   | YInt i \<Rightarrow> Inr (str_of_int i)
   | YStr s \<Rightarrow> Inr s
   | YList _ \<Rightarrow> Inl (NotText key))"

fun yaml_texts :: "string \<Rightarrow> yaml list \<Rightarrow> CatalogError + string list" where
  "yaml_texts key [] = Inr []"
| "yaml_texts key (v # vs) =
     bind_err (yaml_text key v) (\<lambda>s. bind_err (yaml_texts key vs) (\<lambda>ss. Inr (s # ss)))"

fun yaml_truthy :: "yaml \<Rightarrow> bool" where
  "yaml_truthy YNull = False"
| "yaml_truthy (YBool b) = b"
| "yaml_truthy (YInt i) = (i \<noteq> 0)"
| "yaml_truthy (YStr s) = (s \<noteq> [])"
| "yaml_truthy (YList l) = (l \<noteq> [])"

type_synonym raw_entry = "(string, yaml) dict"

definition required_text :: "raw_entry \<Rightarrow> string \<Rightarrow> CatalogError + string" where
  "required_text raw key = (case dict_get raw key of
     None \<Rightarrow> Inl (MissingKey key)
   | Some v \<Rightarrow> bind_err (yaml_text key v) (\<lambda>s. Inr (py_strip s)))"

definition optional_texts :: "raw_entry \<Rightarrow> string \<Rightarrow> CatalogError + string list" where
  "optional_texts raw key = (case dict_get raw key of
     Some (YList (v # vs)) \<Rightarrow> yaml_texts key (v # vs)
   | Some (YStr (c # cs)) \<Rightarrow> Inr (map (\<lambda>x. [x]) (c # cs))
   | Some v \<Rightarrow> if yaml_truthy v then Inl (NotText key) else Inr []
   | None \<Rightarrow> Inr [])"

definition default_text :: "raw_entry \<Rightarrow> CatalogError + string" where
  "default_text raw = (case dict_get raw ''default'' of
     None \<Rightarrow> Inr []
   | Some YNull \<Rightarrow> Inr []
   | Some v \<Rightarrow> yaml_text ''default'' v)"

definition plain_text :: "raw_entry \<Rightarrow> string \<Rightarrow> CatalogError + string" where
  "plain_text raw key = (case dict_get raw key of None \<Rightarrow> Inr [] | Some v \<Rightarrow> yaml_text key v)"

definition coerce_entry :: "raw_entry \<Rightarrow> CatalogError + CatalogEntry" where
  "coerce_entry raw =
     bind_err (required_text raw ''path'') (\<lambda>path.
     bind_err (required_text raw ''parm'') (\<lambda>parm.
     if \<not> PATH_RE path then Inl (InvalidPath path)
     else if parm = [] then Inl (EmptyParm path)
     else
       bind_err (case dict_get raw ''type'' of None \<Rightarrow> Inr ''chr'' | Some v \<Rightarrow> yaml_text ''type'' v) (\<lambda>parm_type.
       if parm_type \<notin> set VALID_TYPES then Inl (UnknownType parm_type)
       else
         bind_err (default_text raw) (\<lambda>dflt.
         bind_err (optional_texts raw ''values'') (\<lambda>vals.
         if parm_type = ''enum'' \<and> vals = [] then Inl (EnumWithoutValues (path @ ''/'' @ parm))
         else if parm_type = ''bool01'' \<and> dflt \<noteq> [] \<and> dflt \<notin> {''0'', ''1''}
         then Inl (BadBoolDefault (path @ ''/'' @ parm))
         else if parm_type = ''int'' \<and> dflt \<noteq> [] \<and> \<not> has_placeholder dflt \<and> py_int dflt = None
         then Inl (BadIntDefault (path @ ''/'' @ parm))
         else
           bind_err (plain_text raw ''unit'') (\<lambda>unit.
           bind_err (plain_text raw ''spec'') (\<lambda>spec.
           bind_err (optional_texts raw ''profiles'') (\<lambda>profiles.
           bind_err (plain_text raw ''doc'') (\<lambda>doc.
           Inr \<lparr>ce_path = path, ce_parm = parm, ce_type = parm_type, ce_default = dflt,
                ce_values = vals,
                ce_verified = (case dict_get raw ''verified'' of None \<Rightarrow> False | Some v \<Rightarrow> yaml_truthy v),
                ce_required = (case dict_get raw ''required'' of None \<Rightarrow> False | Some v \<Rightarrow> yaml_truthy v),
                ce_profiles = profiles, ce_unit = unit, ce_spec = spec, ce_doc = doc\<rparr>)))))))))"

fun load_base :: "raw_entry list \<Rightarrow> (string, CatalogEntry) dict \<Rightarrow> string list \<Rightarrow>
    CatalogError + (string, CatalogEntry) dict \<times> string list" where
  "load_base [] merged order = Inr (merged, order)"
| "load_base (raw # raws) merged order =
     bind_err (coerce_entry raw) (\<lambda>entry.
       if dict_get merged (entry_key entry) \<noteq> None then Inl (DuplicateEntry (entry_key entry))
       else load_base raws (dict_put (entry_key entry) entry merged) (order @ [entry_key entry]))"

definition raw_key :: "raw_entry \<Rightarrow> CatalogError + string" where
  "raw_key raw =
     bind_err (case dict_get raw ''path'' of None \<Rightarrow> Inr ''None'' | Some v \<Rightarrow> yaml_text ''path'' v) (\<lambda>p.
     bind_err (case dict_get raw ''parm'' of None \<Rightarrow> Inr ''None'' | Some v \<Rightarrow> yaml_text ''parm'' v) (\<lambda>q.
     Inr (p @ ''/'' @ q)))"

fun load_overlay :: "raw_entry list \<Rightarrow> (string, CatalogEntry) dict \<Rightarrow> string list \<Rightarrow>
    CatalogError + (string, CatalogEntry) dict \<times> string list" where
  "load_overlay [] merged order = Inr (merged, order)"
| "load_overlay (raw # raws) merged order =
     bind_err (raw_key raw) (\<lambda>key.
       if (case dict_get raw ''remove'' of None \<Rightarrow> False | Some v \<Rightarrow> yaml_truthy v)
       then load_overlay raws (dict_pop key merged) (remove1 key order)
       else bind_err (coerce_entry raw) (\<lambda>entry.
         load_overlay raws (dict_put (entry_key entry) entry merged)
           (if dict_get merged (entry_key entry) = None then order @ [entry_key entry] else order)))"

definition load_catalog :: "string \<Rightarrow> raw_entry list \<Rightarrow> raw_entry list option \<Rightarrow>
    CatalogError + CatalogEntry list" where
  "load_catalog profile base overlay =
     (if base = [] then Inl NoEntries
      else
        bind_err (load_base base [] []) (\<lambda>(merged, order).
        bind_err (case overlay of
            Some raws \<Rightarrow> if profile \<noteq> [] then load_overlay raws merged order else Inr (merged, order)
          | None \<Rightarrow> Inr (merged, order)) (\<lambda>(merged, order).
        Inr (map (\<lambda>k. the (dict_get merged k)) order))))"

section \<open>Lemmas\<close>

definition entry_ok :: "CatalogEntry \<Rightarrow> bool" where
  "entry_ok e \<longleftrightarrow> PATH_RE (ce_path e) \<and> ce_parm e \<noteq> [] \<and> ce_type e \<in> set VALID_TYPES \<and>
     (ce_type e = ''bool01'' \<longrightarrow> ce_default e \<in> {[], ''0'', ''1''})"

lemma coerce_entry_ok: "coerce_entry raw = Inr e \<Longrightarrow> entry_ok e"
  by (auto simp: coerce_entry_def bind_err_Inr entry_ok_def split: if_splits)

text \<open>The loader's invariant: the order lists the keys of the merged entries once each, and an
  entry is stored under its own key and is valid.\<close>

definition merged_ok :: "(string, CatalogEntry) dict \<Rightarrow> string list \<Rightarrow> bool" where
  "merged_ok merged order \<longleftrightarrow> distinct order \<and> (\<forall>k. k \<in> set order \<longleftrightarrow> dict_get merged k \<noteq> None) \<and>
     (\<forall>k e. dict_get merged k = Some e \<longrightarrow> entry_key e = k \<and> entry_ok e)"

lemma merged_ok_put:
  assumes "merged_ok merged order" and "entry_ok e"
  shows "merged_ok (dict_put (entry_key e) e merged)
    (if dict_get merged (entry_key e) = None then order @ [entry_key e] else order)"
  using assms by (auto simp: merged_ok_def)

lemma merged_ok_pop:
  assumes "merged_ok merged order" shows "merged_ok (dict_pop k merged) (remove1 k order)"
  using assms by (auto simp: merged_ok_def)

lemma load_base_ok:
  "load_base raws merged order = Inr (m, r) \<Longrightarrow> merged_ok merged order \<Longrightarrow> merged_ok m r"
proof (induction raws arbitrary: merged order)
  case Nil
  then show ?case by simp
next
  case (Cons raw raws)
  from Cons.prems(1) obtain e where e: "coerce_entry raw = Inr e" "dict_get merged (entry_key e) = None"
      "load_base raws (dict_put (entry_key e) e merged) (order @ [entry_key e]) = Inr (m, r)"
    by (auto simp: bind_err_Inr split: if_splits)
  with merged_ok_put [OF Cons.prems(2) coerce_entry_ok [OF e(1)]] Cons.IH show ?case by simp
qed

lemma load_overlay_ok:
  "load_overlay raws merged order = Inr (m, r) \<Longrightarrow> merged_ok merged order \<Longrightarrow> merged_ok m r"
proof (induction raws arbitrary: merged order)
  case Nil
  then show ?case by simp
next
  case (Cons raw raws)
  let ?rm = "case dict_get raw ''remove'' of None \<Rightarrow> False | Some v \<Rightarrow> yaml_truthy v"
  from Cons.prems(1) obtain key where key: "raw_key raw = Inr key" by (auto simp: bind_err_Inr)
  show ?case
  proof (cases ?rm)
    case True
    with Cons.prems(1) key have "load_overlay raws (dict_pop key merged) (remove1 key order) = Inr (m, r)"
      by simp
    with Cons.IH merged_ok_pop [OF Cons.prems(2)] show ?thesis by blast
  next
    case False
    with Cons.prems(1) key obtain e where e: "coerce_entry raw = Inr e"
        "load_overlay raws (dict_put (entry_key e) e merged)
          (if dict_get merged (entry_key e) = None then order @ [entry_key e] else order) = Inr (m, r)"
      by (auto simp: bind_err_Inr)
    with Cons.IH merged_ok_put [OF Cons.prems(2) coerce_entry_ok [OF e(1)]] show ?thesis by blast
  qed
qed

lemma merged_ok_entries:
  assumes "merged_ok merged order"
  shows "list_all entry_ok (map (\<lambda>k. the (dict_get merged k)) order) \<and>
    distinct (map entry_key (map (\<lambda>k. the (dict_get merged k)) order))"
proof -
  have key: "entry_key (the (dict_get merged k)) = k \<and> entry_ok (the (dict_get merged k))"
    if "k \<in> set order" for k
    using assms that unfolding merged_ok_def by (metis option.collapse)
  then have "map entry_key (map (\<lambda>k. the (dict_get merged k)) order) = order"
    by (simp add: map_idI)
  with key assms show ?thesis by (auto simp: list_all_iff merged_ok_def)
qed

text \<open>
  A catalogue that loads is sound, whatever the base and overlay files contain: every entry has
  a valid characteristic path, a name, a known type and, for a flag, a default of 0 or 1; and no
  two entries declare the same parameter, so overlaying replaced or removed and never duplicated.
\<close>

theorem load_catalog_sound:
  assumes "load_catalog profile base overlay = Inr entries"
  shows "list_all entry_ok entries \<and> distinct (map entry_key entries)"
proof -
  obtain m r where base: "load_base base [] [] = Inr (m, r)"
    using assms by (auto simp: load_catalog_def bind_err_Inr split: if_splits)
  have ok: "merged_ok m r"
    using load_base_ok [OF base] by (simp add: merged_ok_def)
  obtain m' r' where "merged_ok m' r'" "entries = map (\<lambda>k. the (dict_get m' k)) r'"
  proof (cases "overlay = None \<or> profile = []")
    case True
    with assms base ok that show ?thesis
      by (cases overlay) (auto simp: load_catalog_def split: if_splits)
  next
    case False
    with assms base that load_overlay_ok [OF _ ok] show ?thesis
      by (auto simp: load_catalog_def bind_err_Inr split: if_splits) metis
  qed
  with merged_ok_entries show ?thesis by blast
qed

definition demo_raw :: "string \<Rightarrow> string \<Rightarrow> string \<Rightarrow> string \<Rightarrow> raw_entry" where
  "demo_raw path name type dflt = [(''path'', YStr path), (''parm'', YStr name), (''type'', YStr type),
     (''default'', YStr dflt)]"

theorem load_catalog_sound_witness:
  "\<exists>entries. load_catalog ''UP_2.4'' [demo_raw ''APPLICATION:ap2002/SERVICES'' ''ChatAuth'' ''bool01'' ''1'']
     (Some [demo_raw ''APPLICATION:ap2002/SERVICES'' ''ChatAuth'' ''bool01'' ''0'']) = Inr entries \<and>
     map ce_default entries = [''0''] \<and> list_all entry_ok entries"
proof -
  let ?c = "load_catalog ''UP_2.4'' [demo_raw ''APPLICATION:ap2002/SERVICES'' ''ChatAuth'' ''bool01'' ''1'']
     (Some [demo_raw ''APPLICATION:ap2002/SERVICES'' ''ChatAuth'' ''bool01'' ''0''])"
  have "case ?c of Inl _ \<Rightarrow> False | Inr es \<Rightarrow> map ce_default es = [''0'']" by code_simp
  from case_InrD [OF this] obtain es where es: "?c = Inr es \<and> map ce_default es = [''0'']" ..
  with load_catalog_sound [OF conjunct1 [OF es]] show ?thesis by (intro exI [of _ es]) simp
qed

end
