(* ===== verification/Ims_Identity.thy ===== *)
theory Ims_Identity
  imports Acs_Prelude
begin

text \<open>
  \<^verbatim>\<open>src/src/acs/protocol/identity.py\<close>: the IMS identities derived from an IMSI, shared by the
  two planes.
\<close>

section \<open>Definitions\<close>

definition THREE_DIGIT_MNC_MCC :: "string set" where
  "THREE_DIGIT_MNC_MCC = {''302'', ''310'', ''311'', ''312'', ''313'', ''314'', ''315'', ''316'',
     ''334'', ''338'', ''342'', ''344'', ''346'', ''348'', ''365'', ''374'', ''708'', ''722'',
     ''732''}"

record ImsIdentity =
  ii_imsi :: string
  ii_mcc :: string
  ii_mnc :: string
  ii_ims_domain :: string
  ii_impi :: string
  ii_impu :: string
  ii_acs_fqdn :: string

definition as_context :: "ImsIdentity \<Rightarrow> (string, string) dict" where
  "as_context i = [(''imsi'', ii_imsi i), (''mcc'', ii_mcc i), (''mnc'', ii_mnc i),
     (''ims_domain'', ii_ims_domain i), (''impi'', ii_impi i), (''impu'', ii_impu i),
     (''acs_fqdn'', ii_acs_fqdn i)]"

datatype imsi_error = ImsiTooShort

text \<open>\<open>str.zfill\<close> for a text without a sign.\<close>

definition zfill :: "nat \<Rightarrow> string \<Rightarrow> string" where
  "zfill w s = replicate (w - length s) CHR ''0'' @ s"

definition split_imsi :: "string \<Rightarrow> nat option \<Rightarrow> imsi_error + (string \<times> string)" where
  "split_imsi imsi mnc_length =
     (if length imsi < 5 \<or> \<not> py_isdigit imsi then Inl ImsiTooShort
      else
        (let mcc = take 3 imsi;
             len = (if mnc_length = Some 2 \<or> mnc_length = Some 3 then the mnc_length
                    else if mcc \<in> THREE_DIGIT_MNC_MCC then 3 else 2);
             mnc = take len (drop 3 imsi)
         in Inr (mcc, zfill 3 mnc)))"

definition derive_identity ::
  "string \<Rightarrow> string option \<Rightarrow> nat option \<Rightarrow> imsi_error + ImsIdentity" where
  "derive_identity imsi msisdn mnc_length = (case split_imsi imsi mnc_length of
     Inl e \<Rightarrow> Inl e
   | Inr (mcc, mnc) \<Rightarrow>
       (let ims_domain = ''ims.mnc'' @ mnc @ ''.mcc'' @ mcc @ ''.3gppnetwork.org'';
            impi = imsi @ ''@'' @ ims_domain;
            impu = (if truthy msisdn then ''sip:'' @ the msisdn @ ''@'' @ ims_domain
                    else ''sip:'' @ impi);
            acs_fqdn = ''config.rcs.mnc'' @ mnc @ ''.mcc'' @ mcc @ ''.pub.3gppnetwork.org''
        in Inr \<lparr>ii_imsi = imsi, ii_mcc = mcc, ii_mnc = mnc, ii_ims_domain = ims_domain,
                ii_impi = impi, ii_impu = impu, ii_acs_fqdn = acs_fqdn\<rparr>))"

section \<open>Lemmas\<close>

lemma split_imsi_Inr:
  assumes "split_imsi imsi n = Inr (mcc, mnc)"
  shows "mcc = take 3 imsi \<and> length mcc = 3 \<and> length mnc = 3 \<and>
     (\<exists>k \<in> {2, 3}. mnc = zfill 3 (take k (drop 3 imsi))) \<and> py_isdigit imsi \<and> 5 \<le> length imsi"
  using assms by (auto simp: split_imsi_def Let_def zfill_def split: if_splits)

lemma derive_identity_total:
  "5 \<le> length imsi \<Longrightarrow> py_isdigit imsi \<Longrightarrow> \<exists>i. derive_identity imsi m n = Inr i"
  by (simp add: derive_identity_def split_imsi_def Let_def)

lemma derive_identity_error:
  "derive_identity imsi m n = Inl e \<longleftrightarrow>
   e = ImsiTooShort \<and> (length imsi < 5 \<or> \<not> py_isdigit imsi)"
  by (cases e) (simp add: derive_identity_def split_imsi_def Let_def)

lemma isdigit_no_at: "py_isdigit s \<Longrightarrow> CHR ''@'' \<notin> set s"
  by (auto simp: py_isdigit_def list_all_iff py_isdigit_char_def is_decimal_def code_of_def)

lemma derive_identity_impi:
  assumes "derive_identity imsi m n = Inr i"
  shows "ii_imsi i = imsi \<and> py_before CHR ''@'' (ii_impi i) = imsi"
proof -
  obtain mcc mnc where "split_imsi imsi n = Inr (mcc, mnc)"
    using assms by (auto simp: derive_identity_def split: sum.splits)
  with assms isdigit_no_at [of imsi] split_imsi_Inr [of imsi n mcc mnc] show ?thesis
    by (auto simp: derive_identity_def Let_def py_before_append)
qed

text \<open>
  From every IMSI of at least five digits the server derives a complete IMS identity: the
  MCC is the first three digits, the MNC the next two or three padded to three, and the
  private identity splits at its at-sign back into the IMSI, which is how the GBA step finds
  the subscriber a bootstrapped key belongs to. Any other string is refused.
\<close>

theorem derive_identity_recovers_imsi:
  "(case derive_identity imsi msisdn mnc_length of
      Inl _ \<Rightarrow> \<not> (5 \<le> length imsi \<and> py_isdigit imsi)
    | Inr i \<Rightarrow> 5 \<le> length imsi \<and> py_isdigit imsi \<and>
        ii_mcc i = take 3 imsi \<and> length (ii_mnc i) = 3 \<and>
        (\<exists>k. (k = 2 \<or> k = 3) \<and> ii_mnc i = zfill 3 (take k (drop 3 imsi))) \<and>
        py_before CHR ''@'' (ii_impi i) = imsi)"
proof (cases "split_imsi imsi mnc_length")
  case (Inl e)
  then show ?thesis
    by (auto simp: derive_identity_def split_imsi_def Let_def split: if_splits)
next
  case (Inr p)
  obtain mcc mnc where p: "p = (mcc, mnc)" by (cases p)
  obtain i where i: "derive_identity imsi msisdn mnc_length = Inr i"
    "ii_mcc i = mcc" "ii_mnc i = mnc"
    using Inr by (simp add: derive_identity_def p Let_def)
  with split_imsi_Inr [of imsi mnc_length mcc mnc] derive_identity_impi [OF i(1)] Inr
  show ?thesis by (auto simp: p)
qed

end
