(* ===== verification/Pii.thy ===== *)
theory Pii
  imports Acs_Prelude
begin

text \<open>
  \<^verbatim>\<open>src/src/acs/security/pii.py\<close>: redaction of subscriber identifiers for the logs and the
  normalisation of phone numbers to E.164. The keyed digest of \<open>hash_id\<close> (HMAC-SHA256, hex)
  is the parameter \<open>hmac\<close>. A logged value that is not a string is carried unchanged.
\<close>

section \<open>Definitions\<close>

datatype 'a log_value = LogStr string | LogOther 'a

datatype pii_error = PiiSecretMissing

definition SENSITIVE_KEYS :: "string set" where
  "SENSITIVE_KEYS = {''imsi'', ''imei'', ''imeisv'', ''msisdn'', ''device'', ''device_id'',
     ''devid'', ''session'', ''session_id'', ''otp'', ''token'', ''password'', ''userpwd'',
     ''authorization'', ''cred'', ''secret''}"

definition mask_tail :: "string option \<Rightarrow> nat \<Rightarrow> string" where
  "mask_tail value keep = (case value of
     None \<Rightarrow> []
   | Some v \<Rightarrow>
       if v = [] then []
       else if length v \<le> keep then replicate (length v) CHR ''*''
       else replicate (length v - keep) CHR ''*'' @ drop (length v - keep) v)"

definition hash_id ::
  "(string \<Rightarrow> string \<Rightarrow> string) \<Rightarrow> string option \<Rightarrow> string \<Rightarrow> pii_error + string" where
  "hash_id hmac value secret = (case value of
     None \<Rightarrow> Inr []
   | Some v \<Rightarrow>
       if v = [] then Inr []
       else if secret = [] then Inl PiiSecretMissing
       else Inr (take 16 (hmac secret v)))"

definition redact ::
  "(string \<Rightarrow> string \<Rightarrow> string) \<Rightarrow> string option \<Rightarrow> string \<Rightarrow> string \<Rightarrow> pii_error + string" where
  "redact hmac value mode secret = (case value of
     None \<Rightarrow> Inr []
   | Some v \<Rightarrow>
       if mode = ''none'' then Inr v
       else if mode = ''hash'' then hash_id hmac (Some v) secret
       else Inr (mask_tail (Some v) 4))"

fun redact_items ::
  "(string \<Rightarrow> string \<Rightarrow> string) \<Rightarrow> string \<Rightarrow> string \<Rightarrow> (string, 'a log_value) dict \<Rightarrow>
   (string, 'a log_value) dict \<Rightarrow> pii_error + (string, 'a log_value) dict" where
  "redact_items hmac mode secret out [] = Inr out"
| "redact_items hmac mode secret out ((key, value) # rest) =
     (case value of
        LogStr s \<Rightarrow>
          if py_lower key \<in> SENSITIVE_KEYS
          then (case redact hmac (Some s) mode secret of
                  Inl e \<Rightarrow> Inl e
                | Inr r \<Rightarrow> redact_items hmac mode secret (dict_put key (LogStr r) out) rest)
          else redact_items hmac mode secret (dict_put key value out) rest
      | LogOther x \<Rightarrow> redact_items hmac mode secret (dict_put key value out) rest)"

definition redact_mapping ::
  "(string \<Rightarrow> string \<Rightarrow> string) \<Rightarrow> (string, 'a log_value) dict \<Rightarrow> string \<Rightarrow> string \<Rightarrow>
   pii_error + (string, 'a log_value) dict" where
  "redact_mapping hmac data mode secret = redact_items hmac mode secret [] data"

text \<open>The pattern \<^verbatim>\<open>^\+?\d{6,15}$\<close>.\<close>

definition msisdn_digits :: "string \<Rightarrow> bool" where
  "msisdn_digits s \<longleftrightarrow>
     (let d = (if py_startswith s ''+'' then drop 1 s else s)
      in list_all is_decimal d \<and> 6 \<le> length d \<and> length d \<le> 15)"

definition MSISDN_RE :: "string \<Rightarrow> bool" where
  "MSISDN_RE s \<longleftrightarrow> re_line msisdn_digits s"

definition normalise_msisdn :: "string option \<Rightarrow> string \<Rightarrow> string \<Rightarrow> string option" where
  "normalise_msisdn raw default_country_code national_trunk_prefix = (case raw of
     None \<Rightarrow> None
   | Some r \<Rightarrow>
       (let cleaned = filter (\<lambda>c. c \<noteq> CHR ''-'')
              (map (\<lambda>c. if c = CHR '' '' then CHR ''+'' else c) (py_strip r));
            had_plus = py_startswith cleaned ''+'';
            digits0 = filter py_isdigit_char cleaned
        in if digits0 = [] then None
           else
             (let digits =
                (if \<not> had_plus \<and> default_country_code \<noteq> [] \<and> national_trunk_prefix \<noteq> [] \<and>
                    py_startswith digits0 national_trunk_prefix \<and>
                    \<not> py_startswith digits0 default_country_code
                 then default_country_code @ drop (length national_trunk_prefix) digits0
                 else digits0);
                candidate = CHR ''+'' # digits
              in if \<not> MSISDN_RE candidate then None
                 else if py_startswith digits ''0'' then None
                 else Some candidate)))"

text \<open>E.164 as the normalisation promises it: a plus, then 6 to 15 decimal digits that do not
  begin with zero.\<close>

definition e164 :: "string \<Rightarrow> bool" where
  "e164 m \<longleftrightarrow> (\<exists>d ds. m = CHR ''+'' # d # ds \<and> list_all is_decimal (d # ds) \<and>
     d \<noteq> CHR ''0'' \<and> 6 \<le> length (d # ds) \<and> length (d # ds) \<le> 15)"

section \<open>Masking\<close>

lemma mask_tail_length: "length (mask_tail (Some v) keep) = length v"
  by (auto simp: mask_tail_def)

lemma mask_tail_cong:
  assumes "length v = length w" and "drop (length v - keep) v = drop (length w - keep) w"
  shows "mask_tail (Some v) keep = mask_tail (Some w) keep"
  using assms by (auto simp: mask_tail_def)

lemma redact_mask: "mode \<noteq> ''none'' \<Longrightarrow> mode \<noteq> ''hash'' \<Longrightarrow>
   redact hmac (Some v) mode secret = Inr (mask_tail (Some v) 4)"
  by (simp add: redact_def)

text \<open>Two log records that agree except on the hidden part of their sensitive values.\<close>

definition same_visible :: "(string \<times> 'a log_value) \<Rightarrow> (string \<times> 'a log_value) \<Rightarrow> bool" where
  "same_visible p q \<longleftrightarrow> p = q \<or>
     (fst p = fst q \<and> py_lower (fst p) \<in> SENSITIVE_KEYS \<and>
      (\<exists>v w. snd p = LogStr v \<and> snd q = LogStr w \<and> length v = length w \<and>
         drop (length v - 4) v = drop (length w - 4) w))"

lemma redact_items_same_visible:
  assumes "list_all2 same_visible data data'" and "mode \<noteq> ''none''" and "mode \<noteq> ''hash''"
  shows "redact_items hmac mode secret out data = redact_items hmac mode secret out data'"
  using assms(1)
proof (induction arbitrary: out rule: list_all2_induct)
  case Nil
  then show ?case by simp
next
  case (Cons p data q data')
  obtain key x y where pq: "p = (key, x)" "q = (key, y)"
    using Cons.hyps(1) by (cases p; cases q) (auto simp: same_visible_def)
  show ?case
  proof (cases "x = y")
    case True
    with Cons.IH show ?thesis by (cases y) (simp_all add: pq split: sum.split)
  next
    case False
    with Cons.hyps(1) have key: "py_lower key \<in> SENSITIVE_KEYS"
        and "\<exists>v w. x = LogStr v \<and> y = LogStr w \<and> length v = length w \<and>
          drop (length v - 4) v = drop (length w - 4) w"
      by (simp_all add: same_visible_def pq)
    then obtain v w where vw: "x = LogStr v" "y = LogStr w" "length v = length w"
        "drop (length v - 4) v = drop (length w - 4) w"
      by blast
    have "mask_tail (Some v) 4 = mask_tail (Some w) 4"
      using vw(3,4) by (rule mask_tail_cong)
    with Cons.IH key show ?thesis
      by (simp add: pq vw(1,2) redact_mask [OF assms(2,3)])
  qed
qed

text \<open>
  In mask mode the log formatter hides the identifiers: two records that differ only in
  the characters of sensitive string values before the last four (same keys, same lengths,
  same last four characters) are logged as the same record, so nothing else about those
  characters reaches a log line.
\<close>

theorem redact_mapping_hides_identifiers:
  assumes "list_all2 same_visible data data'" and "mode \<noteq> ''none''" and "mode \<noteq> ''hash''"
  shows "redact_mapping hmac data mode secret = redact_mapping hmac data' mode secret"
  using redact_items_same_visible [OF assms] by (simp add: redact_mapping_def)

theorem redact_mapping_hides_identifiers_witness:
  "redact_mapping (\<lambda>k v. v) [(''IMSI'', LogStr ''450051234567890''), (''n'', LogOther (1 :: nat))]
      ''mask'' []
   = redact_mapping (\<lambda>k v. v) [(''IMSI'', LogStr ''001019999997890''), (''n'', LogOther 1)]
      ''mask'' [] \<and>
   redact_mapping (\<lambda>k v. v) [(''IMSI'', LogStr ''450051234567890''), (''n'', LogOther (1 :: nat))]
      ''mask'' [] = Inr [(''IMSI'', LogStr ''***********7890''), (''n'', LogOther 1)]"
proof -
  let ?d = "[(''IMSI'', LogStr ''450051234567890''), (''n'', LogOther (1 :: nat))]"
  let ?e = "[(''IMSI'', LogStr ''001019999997890''), (''n'', LogOther (1 :: nat))]"
  have "py_lower ''IMSI'' \<in> SENSITIVE_KEYS" by code_simp
  then have "list_all2 same_visible ?d ?e" by (simp add: same_visible_def)
  then have "redact_mapping (\<lambda>k v. v) ?d ''mask'' [] = redact_mapping (\<lambda>k v. v) ?e ''mask'' []"
    by (rule redact_mapping_hides_identifiers) simp_all
  moreover have "redact_mapping (\<lambda>k v. v) ?d ''mask'' []
      = Inr [(''IMSI'', LogStr ''***********7890''), (''n'', LogOther 1)]"
    by code_simp
  ultimately show ?thesis by simp
qed

section \<open>Phone numbers\<close>

lemma MSISDN_RE_digits:
  assumes "MSISDN_RE (CHR ''+'' # digits)" and "list_all (\<lambda>c. c \<noteq> newline) digits"
  shows "list_all is_decimal digits \<and> 6 \<le> length digits \<and> length digits \<le> 15"
proof -
  have nl: "last (CHR ''+'' # digits) \<noteq> newline"
    using assms(2) by (cases "digits = []") (auto simp: list_all_iff)
  with assms(1) have "msisdn_digits (CHR ''+'' # digits)"
    unfolding MSISDN_RE_def re_line_def by blast
  then show ?thesis
    by (simp add: msisdn_digits_def py_startswith_def)
qed

lemma isdigit_not_newline: "py_isdigit_char c \<Longrightarrow> c \<noteq> newline"
  by (auto simp: py_isdigit_char_def is_decimal_def code_of_def)

lemma guarded_Some:
  "(if e then None else if \<not> a then None else if b then None else Some c) = Some m \<Longrightarrow>
   a \<and> \<not> b \<and> m = c"
  by (auto split: if_splits)

lemma list_all_if_append_drop:
  "list_all P a \<Longrightarrow> list_all P b \<Longrightarrow> list_all P (if c then a @ drop n b else b)"
  by (auto simp: list_all_iff dest: in_set_dropD)

lemma normalise_msisdn_Some:
  assumes "normalise_msisdn raw cc trunk = Some m" and "list_all is_decimal cc"
  obtains digits where "m = CHR ''+'' # digits" and "list_all is_decimal digits"
    and "6 \<le> length digits" and "length digits \<le> 15" and "\<not> py_startswith digits ''0''"
proof -
  from assms(1) obtain r where raw: "raw = Some r"
    by (cases raw) (simp_all add: normalise_msisdn_def)
  let ?cl = "filter (\<lambda>c. c \<noteq> CHR ''-'')
    (map (\<lambda>c. if c = CHR '' '' then CHR ''+'' else c) (py_strip r))"
  let ?base = "filter py_isdigit_char ?cl"
  let ?d = "if \<not> py_startswith ?cl ''+'' \<and> cc \<noteq> [] \<and> trunk \<noteq> [] \<and> py_startswith ?base trunk \<and>
    \<not> py_startswith ?base cc then cc @ drop (length trunk) ?base else ?base"
  have m: "MSISDN_RE (CHR ''+'' # ?d) \<and> \<not> py_startswith ?d ''0'' \<and> m = CHR ''+'' # ?d"
    using assms(1) unfolding raw normalise_msisdn_def Let_def option.case by (rule guarded_Some)
  have d0: "list_all py_isdigit_char ?base" by (simp add: list_all_iff)
  have "list_all py_isdigit_char cc"
    using assms(2) by (auto simp: list_all_iff)
  from this d0 have "list_all py_isdigit_char ?d" by (rule list_all_if_append_drop)
  then have "list_all (\<lambda>c. c \<noteq> newline) ?d"
    using isdigit_not_newline unfolding list_all_iff by blast
  with m that show ?thesis using MSISDN_RE_digits by blast
qed

lemma normalise_msisdn_e164:
  assumes "normalise_msisdn raw cc trunk = Some m" and "list_all is_decimal cc"
  shows "e164 m"
proof -
  from assms obtain digits where "m = CHR ''+'' # digits" "list_all is_decimal digits"
    "6 \<le> length digits" "length digits \<le> 15" "\<not> py_startswith digits ''0''"
    by (rule normalise_msisdn_Some)
  then show ?thesis
    by (cases digits) (auto simp: e164_def py_startswith_def)
qed

lemma decimal_facts:
  assumes "is_decimal c"
  shows "c \<noteq> CHR '' ''" "c \<noteq> CHR ''-''" "c \<noteq> CHR ''+''" "\<not> py_isspace_char c" "py_isdigit_char c"
  using assms by (auto simp: is_decimal_def code_of_def py_isspace_char_def py_isdigit_char_def)

lemma filter_map_decimal:
  assumes "list_all is_decimal ds"
  shows "filter (\<lambda>c. c \<noteq> CHR ''-'') (map (\<lambda>c. if c = CHR '' '' then CHR ''+'' else c) ds) = ds"
    and "filter py_isdigit_char ds = ds"
  using assms decimal_facts by (induction ds) auto

lemma e164_strip:
  assumes "e164 m" shows "py_strip m = m"
proof -
  obtain d ds where m: "m = CHR ''+'' # d # ds" "list_all is_decimal (d # ds)"
    using assms by (auto simp: e164_def)
  have "\<not> py_isspace_char (last m)"
    using m decimal_facts(4) by (auto simp: list_all_iff)
  moreover have "\<not> py_isspace_char (hd m)"
    by (simp add: m py_isspace_char_def code_of_def)
  ultimately show ?thesis
    unfolding py_strip_def by (intro strip_by_id) (simp_all add: m)
qed

lemma normalise_e164:
  assumes "e164 m" shows "normalise_msisdn (Some m) cc trunk = Some m"
proof -
  obtain d ds where m: "m = CHR ''+'' # d # ds" "list_all is_decimal (d # ds)" "d \<noteq> CHR ''0''"
      "6 \<le> length (d # ds)" "length (d # ds) \<le> 15"
    using assms by (auto simp: e164_def)
  have clean: "filter (\<lambda>c. c \<noteq> CHR ''-'') (map (\<lambda>c. if c = CHR '' '' then CHR ''+'' else c) m) = m"
    using filter_map_decimal(1) [OF m(2)] by (simp add: m(1))
  have dig: "filter py_isdigit_char m = d # ds"
    using filter_map_decimal(2) [OF m(2)]
    by (simp add: m(1) py_isdigit_char_def is_decimal_def code_of_def)
  have re: "MSISDN_RE (CHR ''+'' # d # ds)"
    using m by (simp add: MSISDN_RE_def re_line_def msisdn_digits_def py_startswith_def)
  have plus: "py_startswith (CHR ''+'' # d # ds) ''+''" and zero: "\<not> py_startswith (d # ds) ''0''"
    using m(3) by (simp_all add: py_startswith_def m(1))
  show ?thesis
    unfolding normalise_msisdn_def option.case Let_def e164_strip [OF assms] clean dig
    by (simp add: plus zero re m(1))
qed

text \<open>
  A number that \<open>normalise_msisdn\<close> accepts is E.164: a plus and 6 to 15 decimal digits,
  the first not zero, whatever the spelling it arrived in (for a country code made of
  digits); and normalising it again, under any country settings, returns it unchanged. The
  provisioning flow, the admin API and the console therefore agree on the key of a subscriber.
\<close>

theorem normalise_msisdn_canonical:
  assumes "normalise_msisdn raw cc trunk = Some m" and "list_all is_decimal cc"
  shows "e164 m \<and> normalise_msisdn (Some m) cc' trunk' = Some m"
  using normalise_msisdn_e164 [OF assms] normalise_e164 by blast

theorem normalise_msisdn_canonical_witness:
  "normalise_msisdn (Some '' 010-1234-5678 '') ''82'' ''0'' = Some ''+821012345678'' \<and>
   e164 ''+821012345678'' \<and>
   normalise_msisdn (Some ''+821012345678'') ''1'' ''0'' = Some ''+821012345678''"
proof -
  have n: "normalise_msisdn (Some '' 010-1234-5678 '') ''82'' ''0'' = Some ''+821012345678''"
    by code_simp
  moreover have "list_all is_decimal ''82''" by code_simp
  ultimately show ?thesis
    using normalise_msisdn_canonical [OF n, of "''1''" "''0''"] by simp
qed

end
