(* ===== verification/Request.thy ===== *)
theory Request
  imports Pii
begin

text \<open>
  \<^verbatim>\<open>src/src/acs/protocol/request.py\<close>: parsing and validating the RCC.14 configuration query.
  The query maps each wire parameter to the values supplied for it, in order. The only
  exception of the parser is \<open>MalformedRequest\<close>; its message is kept as a constructor with the
  values the message quotes.
\<close>

section \<open>Definitions\<close>

definition DIGITS :: "string \<Rightarrow> bool" where
  "DIGITS s \<longleftrightarrow> re_line (\<lambda>d. d \<noteq> [] \<and> list_all is_decimal d) s"

definition PARAMETER_ALIASES :: "(string, string) dict" where
  "PARAMETER_ALIASES = [
     (''vers'', ''vers''), (''IMSI'', ''imsi''), (''imsi'', ''imsi''), (''IMEI'', ''imei''),
     (''imei'', ''imei''), (''IMEISV'', ''imeisv''), (''msisdn'', ''msisdn''),
     (''MSISDN'', ''msisdn''), (''token'', ''token''), (''OTP'', ''otp''), (''otp'', ''otp''),
     (''SMS_port'', ''sms_port''), (''sms_port'', ''sms_port''), (''SMS_format'', ''sms_format''),
     (''default_sms_app'', ''default_sms_app''), (''default_vvm_app'', ''default_vvm_app''),
     (''terminal_vendor'', ''terminal_vendor''), (''terminal_model'', ''terminal_model''),
     (''terminal_sw_version'', ''terminal_sw_version''), (''client_vendor'', ''client_vendor''),
     (''client_version'', ''client_version''), (''rcs_version'', ''rcs_version''),
     (''rcs_profile'', ''rcs_profile''), (''rcs_state'', ''rcs_state''),
     (''provisioning_version'', ''provisioning_version''), (''device_type'', ''device_type''),
     (''device_id'', ''device_id''), (''friendly_device_name'', ''friendly_device_name''),
     (''alias'', ''alias'')]"

definition FIELD_MAX_LENGTH :: "(string, nat) dict" where
  "FIELD_MAX_LENGTH = [
     (''imsi'', 15), (''imei'', 16), (''imeisv'', 16), (''msisdn'', 20), (''token'', 256),
     (''otp'', 16), (''terminal_vendor'', 8), (''terminal_model'', 32),
     (''terminal_sw_version'', 32), (''client_vendor'', 8), (''client_version'', 32),
     (''rcs_version'', 16), (''rcs_profile'', 32), (''device_type'', 16), (''device_id'', 64),
     (''friendly_device_name'', 64), (''alias'', 64)]"

definition SINGLE_VALUE_ONLY :: "string list" where
  "SINGLE_VALUE_ONLY =
     [''vers'', ''IMSI'', ''imsi'', ''IMEI'', ''imei'', ''msisdn'', ''token'', ''OTP'', ''otp'']"

record ConfigQuery =
  cq_vers :: int
  cq_imsi :: "string option"
  cq_imei :: "string option"
  cq_imeisv :: "string option"
  cq_msisdn :: "string option"
  cq_token :: "string option"
  cq_otp :: "string option"
  cq_sms_port :: "int option"
  cq_sms_format :: "string option"
  cq_default_sms_app :: "int option"
  cq_default_vvm_app :: "int option"
  cq_terminal_vendor :: "string option"
  cq_terminal_model :: "string option"
  cq_terminal_sw_version :: "string option"
  cq_client_vendor :: "string option"
  cq_client_version :: "string option"
  cq_rcs_version :: "string option"
  cq_rcs_profile :: "string option"
  cq_rcs_state :: "int option"
  cq_provisioning_version :: "string option"
  cq_device_type :: "string option"
  cq_device_id :: "string option"
  cq_friendly_device_name :: "string option"
  cq_alias :: "string option"
  cq_apps :: "string list"
  cq_user_agent :: string
  cq_unknown :: "string list"

definition device_key :: "ConfigQuery \<Rightarrow> string" where
  "device_key q = opt_or (cq_imei q) (opt_or (cq_device_id q) (opt_or (cq_imsi q) ''unknown''))"

datatype MalformedRequest =
  Repeated string
| TooLong string nat
| NotInteger string
| BelowMinimum string int
| AboveMaximum string int
| BadImsi
| BadDeviceId string
| BadMsisdn
| BadOtp

definition one_value :: "string list \<Rightarrow> string \<Rightarrow> MalformedRequest + string" where
  "one_value vals wire_name =
     (if length vals > 1 \<and> wire_name \<in> set SINGLE_VALUE_ONLY then Inl (Repeated wire_name)
      else Inr (hd vals))"

definition as_int :: "string \<Rightarrow> string \<Rightarrow> int option \<Rightarrow> int option \<Rightarrow> MalformedRequest + int" where
  "as_int raw field low high = (case py_int raw of
     None \<Rightarrow> Inl (NotInteger field)
   | Some value \<Rightarrow>
       (case low of
          Some l \<Rightarrow> if value < l then Inl (BelowMinimum field l)
            else (case high of Some h \<Rightarrow> if value > h then Inl (AboveMaximum field h) else Inr value
                  | None \<Rightarrow> Inr value)
        | None \<Rightarrow> (case high of Some h \<Rightarrow> if value > h then Inl (AboveMaximum field h) else Inr value
                  | None \<Rightarrow> Inr value)))"

text \<open>The first loop: collect the recognised fields, the requested applications and the names
  that are not recognised.\<close>

fun collect_params ::
  "nat \<Rightarrow> (string, string list) dict \<Rightarrow> (string, string) dict \<Rightarrow> string list \<Rightarrow> string list \<Rightarrow>
   MalformedRequest + (string, string) dict \<times> string list \<times> string list" where
  "collect_params maxlen [] raw apps unknown = Inr (raw, apps, unknown)"
| "collect_params maxlen ((wire_name, vals) # params) raw apps unknown =
     (if vals = [] then collect_params maxlen params raw apps unknown
      else if wire_name = ''app''
      then collect_params maxlen params raw (apps @ filter (\<lambda>v. v \<noteq> []) vals) unknown
      else (case dict_get PARAMETER_ALIASES wire_name of
              None \<Rightarrow> collect_params maxlen params raw apps (unknown @ [wire_name])
            | Some field \<Rightarrow>
                bind_err (one_value vals wire_name) (\<lambda>value.
                  if length value > maxlen then Inl (TooLong wire_name maxlen)
                  else (case dict_get FIELD_MAX_LENGTH field of
                          Some limit \<Rightarrow>
                            if length value > limit then Inl (TooLong wire_name limit)
                            else collect_params maxlen params
                                   (if dict_get raw field = None then dict_put field value raw else raw)
                                   apps unknown
                        | None \<Rightarrow> collect_params maxlen params
                                   (if dict_get raw field = None then dict_put field value raw else raw)
                                   apps unknown))))"

definition parse_vers :: "(string, string) dict \<Rightarrow> MalformedRequest + int" where
  "parse_vers raw = (case dict_get raw ''vers'' of
     None \<Rightarrow> Inr 0
   | Some v \<Rightarrow> as_int v ''vers'' (Some (-99)) (Some 10000000))"

definition parse_imsi :: "(string, string) dict \<Rightarrow> MalformedRequest + string option" where
  "parse_imsi raw = (case dict_get raw ''imsi'' of
     None \<Rightarrow> Inr None
   | Some imsi \<Rightarrow>
       if \<not> DIGITS imsi \<or> \<not> (5 \<le> length imsi \<and> length imsi \<le> 15) then Inl BadImsi
       else Inr (Some imsi))"

definition parse_device :: "string \<Rightarrow> (string, string) dict \<Rightarrow> MalformedRequest + string option" where
  "parse_device field raw = (case dict_get raw field of
     None \<Rightarrow> Inr None
   | Some v \<Rightarrow>
       if \<not> DIGITS v \<or> \<not> (14 \<le> length v \<and> length v \<le> 16) then Inl (BadDeviceId field)
       else Inr (Some v))"

definition parse_msisdn :: "string \<Rightarrow> string \<Rightarrow> (string, string) dict \<Rightarrow>
    MalformedRequest + string option" where
  "parse_msisdn cc trunk raw = (case dict_get raw ''msisdn'' of
     None \<Rightarrow> Inr None
   | Some m \<Rightarrow> (case normalise_msisdn (Some m) cc trunk of
       None \<Rightarrow> Inl BadMsisdn
     | Some n \<Rightarrow> Inr (Some n)))"

definition parse_otp :: "(string, string) dict \<Rightarrow> MalformedRequest + string option" where
  "parse_otp raw = (case dict_get raw ''otp'' of
     None \<Rightarrow> Inr None
   | Some v \<Rightarrow> (let otp = py_strip v in if \<not> py_isalnum otp then Inl BadOtp else Inr (Some otp)))"

definition parse_opt_int :: "string \<Rightarrow> string \<Rightarrow> int \<Rightarrow> int \<Rightarrow> (string, string) dict \<Rightarrow>
    MalformedRequest + int option" where
  "parse_opt_int field name low high raw = (case dict_get raw field of
     None \<Rightarrow> Inr None
   | Some v \<Rightarrow> bind_err (as_int v name (Some low) (Some high)) (\<lambda>i. Inr (Some i)))"

fun dict_fromkeys :: "'a list \<Rightarrow> 'a list" where
  "dict_fromkeys [] = []"
| "dict_fromkeys (x # xs) = x # filter (\<lambda>y. y \<noteq> x) (dict_fromkeys xs)"

definition parse_config_query ::
  "(string, string list) dict \<Rightarrow> string \<Rightarrow> nat \<Rightarrow> string \<Rightarrow> string \<Rightarrow> MalformedRequest + ConfigQuery" where
  "parse_config_query params user_agent max_value_length default_country_code national_trunk_prefix =
     bind_err (collect_params max_value_length params [] [] []) (\<lambda>(raw, apps, unknown).
     bind_err (parse_vers raw) (\<lambda>vers.
     bind_err (parse_imsi raw) (\<lambda>imsi.
     bind_err (parse_device ''imei'' raw) (\<lambda>imei.
     bind_err (parse_device ''imeisv'' raw) (\<lambda>imeisv.
     bind_err (parse_msisdn default_country_code national_trunk_prefix raw) (\<lambda>msisdn.
     bind_err (parse_otp raw) (\<lambda>otp.
     bind_err (parse_opt_int ''sms_port'' ''SMS_port'' 0 65535 raw) (\<lambda>sms_port.
     bind_err (parse_opt_int ''default_sms_app'' ''default_sms_app'' (-4) 99 raw) (\<lambda>sms_app.
     bind_err (parse_opt_int ''default_vvm_app'' ''default_vvm_app'' (-4) 99 raw) (\<lambda>vvm_app.
     bind_err (parse_opt_int ''rcs_state'' ''rcs_state'' (-4) 99 raw) (\<lambda>rcs_state.
     Inr \<lparr>cq_vers = vers, cq_imsi = imsi, cq_imei = imei, cq_imeisv = imeisv,
          cq_msisdn = msisdn, cq_token = dict_get raw ''token'', cq_otp = otp,
          cq_sms_port = sms_port, cq_sms_format = dict_get raw ''sms_format'',
          cq_default_sms_app = sms_app, cq_default_vvm_app = vvm_app,
          cq_terminal_vendor = dict_get raw ''terminal_vendor'',
          cq_terminal_model = dict_get raw ''terminal_model'',
          cq_terminal_sw_version = dict_get raw ''terminal_sw_version'',
          cq_client_vendor = dict_get raw ''client_vendor'',
          cq_client_version = dict_get raw ''client_version'',
          cq_rcs_version = dict_get raw ''rcs_version'',
          cq_rcs_profile = dict_get raw ''rcs_profile'', cq_rcs_state = rcs_state,
          cq_provisioning_version = dict_get raw ''provisioning_version'',
          cq_device_type = dict_get raw ''device_type'',
          cq_device_id = dict_get raw ''device_id'',
          cq_friendly_device_name = dict_get raw ''friendly_device_name'',
          cq_alias = dict_get raw ''alias'',
          cq_apps = dict_fromkeys apps, cq_user_agent = take 256 user_agent,
          cq_unknown = sort (remdups unknown)\<rparr>)))))))))))"

section \<open>Lemmas\<close>

lemma as_int_bounds: "as_int raw field (Some l) (Some h) = Inr i \<Longrightarrow> l \<le> i \<and> i \<le> h"
  by (auto simp: as_int_def split: option.splits if_splits)

lemma parse_vers_bounds: "parse_vers raw = Inr v \<Longrightarrow> -99 \<le> v \<and> v \<le> 10000000"
  by (auto simp: parse_vers_def split: option.splits dest: as_int_bounds)

lemma parse_opt_int_bounds: "parse_opt_int f n l h raw = Inr x \<Longrightarrow> pred_option (\<lambda>i. l \<le> i \<and> i \<le> h) x"
  by (auto simp: parse_opt_int_def bind_err_Inr split: option.splits dest: as_int_bounds)

lemma opt_checked:
  "(case v of None \<Rightarrow> Inr None | Some x \<Rightarrow> if \<not> P x \<or> \<not> Q x then Inl e else Inr (Some x)) = Inr y \<Longrightarrow>
   pred_option (\<lambda>x. P x \<and> Q x) y"
  by (cases v) (auto split: if_splits)

lemma opt_mapped:
  "(case v of None \<Rightarrow> Inr None | Some x \<Rightarrow> (case f x of None \<Rightarrow> Inl e | Some z \<Rightarrow> Inr (Some z))) = Inr y \<Longrightarrow>
   (\<And>x z. f x = Some z \<Longrightarrow> P z) \<Longrightarrow> pred_option P y"
  by (cases v; cases "f (the v)") auto

lemma parse_imsi_shape: "parse_imsi raw = Inr x \<Longrightarrow>
   pred_option (\<lambda>i. DIGITS i \<and> 5 \<le> length i \<and> length i \<le> 15) x"
  unfolding parse_imsi_def by (rule opt_checked)

lemma parse_device_shape: "parse_device f raw = Inr x \<Longrightarrow>
   pred_option (\<lambda>i. DIGITS i \<and> 14 \<le> length i \<and> length i \<le> 16) x"
  unfolding parse_device_def by (rule opt_checked)

lemma parse_msisdn_shape: "parse_msisdn cc trunk raw = Inr x \<Longrightarrow> list_all is_decimal cc \<Longrightarrow>
   pred_option e164 x"
  unfolding parse_msisdn_def by (rule opt_mapped) (auto intro: normalise_msisdn_e164)

lemma parse_otp_shape: "parse_otp raw = Inr x \<Longrightarrow> pred_option py_isalnum x"
  by (auto simp: parse_otp_def Let_def split: option.splits if_splits)

lemma dict_fromkeys_set [simp]: "set (dict_fromkeys xs) = set xs"
  by (induction xs) auto

lemma dict_fromkeys_distinct: "distinct (dict_fromkeys xs)"
  by (induction xs) auto

text \<open>What the collecting loop guarantees of the fields it returns.\<close>

definition fields_ok :: "nat \<Rightarrow> (string, string) dict \<Rightarrow> bool" where
  "fields_ok maxlen raw \<longleftrightarrow> (\<forall>f v. dict_get raw f = Some v \<longrightarrow>
     length v \<le> maxlen \<and> (\<forall>n. dict_get FIELD_MAX_LENGTH f = Some n \<longrightarrow> length v \<le> n))"

lemma fields_ok_put:
  "fields_ok maxlen raw \<Longrightarrow> length v \<le> maxlen \<Longrightarrow>
   (\<And>n. dict_get FIELD_MAX_LENGTH f = Some n \<Longrightarrow> length v \<le> n) \<Longrightarrow>
   fields_ok maxlen (if dict_get raw f = None then dict_put f v raw else raw)"
  by (auto simp: fields_ok_def)

lemma single_value_known:
  "w \<in> set SINGLE_VALUE_ONLY \<Longrightarrow> w \<noteq> ''app'' \<and> dict_get PARAMETER_ALIASES w \<noteq> None"
  by (simp add: SINGLE_VALUE_ONLY_def PARAMETER_ALIASES_def dict_get_def) auto

text \<open>One iteration of the loop that did not raise.\<close>

lemma collect_params_step:
  assumes "collect_params maxlen ((w, vs) # params) raw apps unknown = Inr r"
    and ok: "fields_ok maxlen raw" "[] \<notin> set apps"
  obtains raw1 apps1 unknown1
  where "collect_params maxlen params raw1 apps1 unknown1 = Inr r"
    and "fields_ok maxlen raw1" and "[] \<notin> set apps1"
    and "w \<in> set SINGLE_VALUE_ONLY \<longrightarrow> length vs \<le> 1"
proof (cases "vs = [] \<or> w = ''app'' \<or> dict_get PARAMETER_ALIASES w = None")
  case True
  have "w \<in> set SINGLE_VALUE_ONLY \<Longrightarrow> length vs \<le> 1"
    using True single_value_known by auto
  moreover have "[] \<notin> set (apps @ filter (\<lambda>v. v \<noteq> []) vs)" using ok(2) by auto
  ultimately show ?thesis
    using True assms that
    by (cases "vs = []"; cases "w = ''app''"; cases "dict_get PARAMETER_ALIASES w") auto
next
  case False
  then obtain f where f: "vs \<noteq> []" "w \<noteq> ''app''" "dict_get PARAMETER_ALIASES w = Some f" by auto
  from assms(1) f obtain v where v: "one_value vs w = Inr v" by (auto simp: bind_err_Inr)
  have single: "w \<in> set SINGLE_VALUE_ONLY \<Longrightarrow> length vs \<le> 1"
    using v by (simp add: one_value_def split: if_splits)
  let ?raw = "if dict_get raw f = None then dict_put f v raw else raw"
  have "length v \<le> maxlen \<and> (\<forall>n. dict_get FIELD_MAX_LENGTH f = Some n \<longrightarrow> length v \<le> n) \<and>
      collect_params maxlen params ?raw apps unknown = Inr r"
    using assms(1) f v
    by (cases "dict_get FIELD_MAX_LENGTH f"; cases "length v \<le> maxlen";
        cases "length v \<le> the (dict_get FIELD_MAX_LENGTH f)") auto
  with ok fields_ok_put [OF ok(1), of v f] single that show ?thesis by blast
qed

lemma collect_params_ok:
  "collect_params maxlen params raw apps unknown = Inr (raw', apps', unknown') \<Longrightarrow>
   fields_ok maxlen raw \<Longrightarrow> [] \<notin> set apps \<Longrightarrow>
   fields_ok maxlen raw' \<and> [] \<notin> set apps' \<and>
   (\<forall>(w, vs) \<in> set params. w \<in> set SINGLE_VALUE_ONLY \<longrightarrow> length vs \<le> 1)"
proof (induction params arbitrary: raw apps unknown)
  case Nil
  then show ?case by simp
next
  case (Cons p params)
  obtain w vs where p: "p = (w, vs)" by (cases p)
  from Cons.prems obtain raw1 apps1 unknown1
    where "collect_params maxlen params raw1 apps1 unknown1 = Inr (raw', apps', unknown')"
      "fields_ok maxlen raw1" "[] \<notin> set apps1" "w \<in> set SINGLE_VALUE_ONLY \<longrightarrow> length vs \<le> 1"
    unfolding p by (rule collect_params_step)
  with Cons.IH show ?case by (auto simp: p)
qed

section \<open>Properties\<close>

text \<open>What a query that was accepted satisfies.\<close>

definition query_ok :: "ConfigQuery \<Rightarrow> bool" where
  "query_ok q \<longleftrightarrow>
     -99 \<le> cq_vers q \<and> cq_vers q \<le> 10000000 \<and>
     pred_option (\<lambda>i. DIGITS i \<and> 5 \<le> length i \<and> length i \<le> 15) (cq_imsi q) \<and>
     pred_option (\<lambda>i. DIGITS i \<and> 14 \<le> length i \<and> length i \<le> 16) (cq_imei q) \<and>
     pred_option (\<lambda>i. DIGITS i \<and> 14 \<le> length i \<and> length i \<le> 16) (cq_imeisv q) \<and>
     pred_option e164 (cq_msisdn q) \<and> pred_option py_isalnum (cq_otp q) \<and>
     pred_option (\<lambda>t. length t \<le> 256) (cq_token q) \<and>
     pred_option (\<lambda>p. 0 \<le> p \<and> p \<le> 65535) (cq_sms_port q) \<and>
     pred_option (\<lambda>p. -4 \<le> p \<and> p \<le> 99) (cq_default_sms_app q) \<and>
     pred_option (\<lambda>p. -4 \<le> p \<and> p \<le> 99) (cq_rcs_state q) \<and>
     pred_option (\<lambda>v. length v \<le> 8) (cq_terminal_vendor q) \<and>
     pred_option (\<lambda>v. length v \<le> 64) (cq_device_id q) \<and>
     distinct (cq_apps q) \<and> [] \<notin> set (cq_apps q) \<and>
     length (cq_user_agent q) \<le> 256 \<and> sorted (cq_unknown q) \<and> distinct (cq_unknown q)"

lemma fields_ok_limit:
  "fields_ok maxlen raw \<Longrightarrow> dict_get FIELD_MAX_LENGTH f = Some n \<Longrightarrow>
   pred_option (\<lambda>v. length v \<le> n) (dict_get raw f)"
  by (cases "dict_get raw f") (auto simp: fields_ok_def)



end
