(* ===== verification/Config.thy ===== *)
theory Config
  imports Otp
begin

text \<open>
  \<^verbatim>\<open>src/src/acs/config.py\<close>: the settings the components read, the fatal misconfigurations
  \<open>validate_startup\<close> reports, and \<open>policy_from_settings\<close> of \<^verbatim>\<open>auth/otp.py\<close>. A problem is a
  constructor instead of its English text. Reading the environment is pydantic's. The SMPP
  timeout, a number of seconds between 0 and 60, is given in units of the socket's clock, with the
  text that \<open>{:g}\<close> prints for it.
\<close>

section \<open>Definitions\<close>

record Settings =
  set_env :: string
  set_service_name :: string
  set_store_backend :: string
  set_config_paths :: string
  set_xml_content_type :: string
  set_max_query_value_length :: nat
  set_default_country_code :: string
  set_national_trunk_prefix :: string
  set_default_rcs_profile :: string
  set_provisioning_validity_seconds :: int
  set_otp_length :: int
  set_otp_ttl_seconds :: int
  set_otp_max_attempts :: int
  set_otp_resend_cooldown_seconds :: int
  set_otp_max_sends_per_msisdn_per_day :: int
  set_token_ttl_seconds :: int
  set_token_bind_imei :: bool
  set_trusted_proxy_cidrs :: string
  set_enrichment_header_name :: string
  set_gba_enabled :: bool
  set_gba_realm :: string
  set_gba_nonce_secret :: string
  set_gba_nonce_max_age_seconds :: int
  set_dm_enabled :: bool
  set_dm_server_id :: string
  set_dm_auth_scheme :: string
  set_dm_bootstrap_in_cp :: bool
  set_dm_account_uri :: string
  set_dm_max_msg_size :: int
  set_dm_session_ttl_seconds :: int
  set_sms_provider :: string
  set_sms_sender_id :: string
  set_sms_otp_template :: string
  set_smpp_host :: string
  set_smpp_system_id :: string
  set_smpp_password :: string
  set_admin_token :: string
  set_dev_endpoints_enabled :: bool
  set_pii_log_mode :: string
  set_pii_hash_secret :: string
  set_log_level :: string
  set_metrics_namespace :: string
  set_aws_region :: string
  set_table_name :: string
  set_dynamodb_endpoint_url :: string
  set_dm_path :: string
  set_malformed_request_status :: int
  set_sms_origination_identity :: string
  set_smpp_port :: int
  set_smpp_system_type :: string
  set_smpp_source_addr :: string
  set_smpp_source_addr_ton :: int
  set_smpp_source_addr_npi :: int
  set_smpp_dest_addr_ton :: int
  set_smpp_dest_addr_npi :: int
  set_smpp_tls :: bool
  set_smpp_tls_ca_file :: string
  set_smpp_timeout_seconds :: "int \<times> string"
  set_rate_limit_per_ip_per_minute :: int

definition comma_list :: "string \<Rightarrow> string list" where
  "comma_list s = filter (\<lambda>p. p \<noteq> []) (map py_strip (py_split CHR '','' s))"

definition config_path_list :: "Settings \<Rightarrow> string list" where
  "config_path_list st = comma_list (set_config_paths st)"

definition trusted_proxy_list :: "Settings \<Rightarrow> string list" where
  "trusted_proxy_list st = comma_list (set_trusted_proxy_cidrs st)"

definition is_prod :: "Settings \<Rightarrow> bool" where
  "is_prod st \<longleftrightarrow> set_env st \<in> {''staging'', ''prod''}"

text \<open>The validator that removes a trailing newline from the SMPP password.\<close>

definition smpp_password_validator :: "string \<Rightarrow> string" where
  "smpp_password_validator v = py_rstrip_chars [CHR 0x0D, CHR 0x0A] v"

datatype startup_problem =
  MemoryStoreUnsafe
| DevEndpointsEnabled
| MockSmsProvider
| SmppSettingsMissing "string list"
| PiiLoggingOff
| PiiHashSecretMissing
| GbaRealmMissing
| GbaNonceSecretMissing
| SmppPasswordTooLong
| SmppPasswordNotPrintable
| OtpLengthOutOfRange

definition smpp_missing :: "Settings \<Rightarrow> string list" where
  "smpp_missing st = map fst (filter (\<lambda>(name, value). value = [])
     [(''smpp_host'', set_smpp_host st), (''smpp_system_id'', set_smpp_system_id st),
      (''smpp_password'', set_smpp_password st)])"

definition validate_startup :: "Settings \<Rightarrow> startup_problem list" where
  "validate_startup st =
     (if is_prod st then
        (if set_store_backend st = ''memory'' then [MemoryStoreUnsafe] else []) @
        (if set_dev_endpoints_enabled st then [DevEndpointsEnabled] else []) @
        (if set_sms_provider st = ''mock'' then [MockSmsProvider] else []) @
        (if set_sms_provider st = ''smpp'' \<and> smpp_missing st \<noteq> []
         then [SmppSettingsMissing (smpp_missing st)] else []) @
        (if set_pii_log_mode st = ''none'' then [PiiLoggingOff] else []) @
        (if set_pii_log_mode st = ''hash'' \<and> set_pii_hash_secret st = []
         then [PiiHashSecretMissing] else [])
      else []) @
     (if set_gba_enabled st \<and> set_gba_realm st = [] then [GbaRealmMissing] else []) @
     (if set_gba_enabled st \<and> set_gba_nonce_secret st = [] then [GbaNonceSecretMissing] else []) @
     (if length (set_smpp_password st) > 8 then [SmppPasswordTooLong] else []) @
     (if \<not> list_all (\<lambda>ch. 32 \<le> code_of ch \<and> code_of ch \<le> 126) (set_smpp_password st)
      then [SmppPasswordNotPrintable] else []) @
     (if set_otp_length st < 4 \<or> set_otp_length st > 10 then [OtpLengthOutOfRange] else [])"

definition policy_from_settings :: "Settings \<Rightarrow> OtpPolicy" where
  "policy_from_settings st =
     \<lparr>pol_length = set_otp_length st, pol_ttl_seconds = set_otp_ttl_seconds st,
      pol_max_attempts = set_otp_max_attempts st,
      pol_resend_cooldown_seconds = set_otp_resend_cooldown_seconds st,
      pol_max_sends_per_day = set_otp_max_sends_per_msisdn_per_day st\<rparr>"

section \<open>Properties\<close>

text \<open>
  A server that starts in staging or production fails closed: it uses the shared store, no
  developer endpoints, a provider that can really send, redacted logs (and a key when they are
  hashed), a signing secret for GBA nonces if GBA is on, an SMPP account if SMPP is used, and
  one-time passwords of at least four digits.
\<close>

theorem validate_startup_fails_closed:
  assumes "validate_startup st = []" and "is_prod st"
  shows "set_store_backend st \<noteq> ''memory'' \<and> \<not> set_dev_endpoints_enabled st \<and>
    set_sms_provider st \<noteq> ''mock'' \<and> set_pii_log_mode st \<noteq> ''none'' \<and>
    (set_pii_log_mode st = ''hash'' \<longrightarrow> set_pii_hash_secret st \<noteq> []) \<and>
    (set_gba_enabled st \<longrightarrow> set_gba_nonce_secret st \<noteq> [] \<and> set_gba_realm st \<noteq> []) \<and>
    (set_sms_provider st = ''smpp'' \<longrightarrow> set_smpp_host st \<noteq> [] \<and> set_smpp_password st \<noteq> []) \<and>
    length (set_smpp_password st) \<le> 8 \<and>
    4 \<le> pol_length (policy_from_settings st) \<and> pol_length (policy_from_settings st) \<le> 10"
  using assms
  by (simp add: validate_startup_def smpp_missing_def policy_from_settings_def split: if_splits)

definition demo_settings :: Settings where
  "demo_settings = \<lparr>
     set_env = ''prod'', set_service_name = ''rcs-acs'', set_store_backend = ''dynamodb'',
     set_config_paths = ''/,/config,/rcs/config'', set_xml_content_type = ''text/xml'',
     set_max_query_value_length = 256, set_default_country_code = ''82'',
     set_national_trunk_prefix = ''0'', set_default_rcs_profile = ''UP_2.4'',
     set_provisioning_validity_seconds = 86400, set_otp_length = 6, set_otp_ttl_seconds = 300,
     set_otp_max_attempts = 3, set_otp_resend_cooldown_seconds = 60,
     set_otp_max_sends_per_msisdn_per_day = 10, set_token_ttl_seconds = 2592000,
     set_token_bind_imei = True, set_trusted_proxy_cidrs = [],
     set_enrichment_header_name = ''X-3GPP-Intended-Identity'', set_gba_enabled = False,
     set_gba_realm = ''naf'', set_gba_nonce_secret = [], set_gba_nonce_max_age_seconds = 300,
     set_dm_enabled = True, set_dm_server_id = ''ACS-DM'', set_dm_auth_scheme = ''basic'',
     set_dm_bootstrap_in_cp = True, set_dm_account_uri = ''https://acs.example.com/dm'',
     set_dm_max_msg_size = 16384, set_dm_session_ttl_seconds = 600, set_sms_provider = ''sns'',
     set_sms_sender_id = ''RCS'', set_sms_otp_template = ''RCS activation code: {otp}'',
     set_smpp_host = [], set_smpp_system_id = [], set_smpp_password = [], set_admin_token = [],
     set_dev_endpoints_enabled = False, set_pii_log_mode = ''mask'', set_pii_hash_secret = [],
     set_log_level = ''INFO'', set_metrics_namespace = ''RcsAcs'', set_aws_region = ''ap-northeast-2'',
     set_table_name = ''rcs-acs'', set_dynamodb_endpoint_url = [], set_dm_path = ''/dm'',
     set_malformed_request_status = 400, set_sms_origination_identity = [], set_smpp_port = 2775,
     set_smpp_system_type = [], set_smpp_source_addr = [], set_smpp_source_addr_ton = 5,
     set_smpp_source_addr_npi = 0, set_smpp_dest_addr_ton = 1, set_smpp_dest_addr_npi = 1,
     set_smpp_tls = True, set_smpp_tls_ca_file = [], set_smpp_timeout_seconds = (10, ''10''),
     set_rate_limit_per_ip_per_minute = 60\<rparr>"

theorem validate_startup_fails_closed_witness:
  "validate_startup demo_settings = [] \<and> is_prod demo_settings \<and>
   set_store_backend demo_settings \<noteq> ''memory'' \<and>
   validate_startup (demo_settings\<lparr>set_store_backend := ''memory'', set_gba_enabled := True\<rparr>)
     = [MemoryStoreUnsafe, GbaNonceSecretMissing]"
proof -
  have v: "validate_startup demo_settings = []" and p: "is_prod demo_settings"
    by (simp_all add: validate_startup_def is_prod_def demo_settings_def)
  have "validate_startup (demo_settings\<lparr>set_store_backend := ''memory'', set_gba_enabled := True\<rparr>)
     = [MemoryStoreUnsafe, GbaNonceSecretMissing]"
    by (simp add: validate_startup_def is_prod_def demo_settings_def)
  with v p validate_startup_fails_closed [OF v p] show ?thesis by simp
qed

end
