(* ===== verification/Omacp_Builder.thy ===== *)
theory Omacp_Builder
  imports Omacp_Document Omacp_Catalog Ims_Identity Request Config
begin

text \<open>
  \<^verbatim>\<open>src/src/acs/protocol/omacp/builder.py\<close>: the configuration document built from the catalogue,
  the subscriber's overrides and the request. \<open>render\<close> models \<open>_SafeFormatter.vformat\<close> for
  templates whose placeholders are plain names: \<open>{name}\<close> is replaced by its value or left as it
  is, doubled braces are braces; a template with an attribute, an index, a conversion, a format
  or unbalanced braces is \<open>UnsupportedTemplate\<close>. The catalogue is an argument.
\<close>

section \<open>Rendering\<close>

datatype build_error =
  BadIdentity imsi_error
| UnsupportedTemplate string
| UnknownPlaceholder string
| CatalogFailed CatalogError

definition name_start :: "char \<Rightarrow> bool" where
  "name_start c \<longleftrightarrow> (let n = code_of c in (65 \<le> n \<and> n \<le> 90) \<or> (97 \<le> n \<and> n \<le> 122) \<or> c = CHR ''_'')"

definition plain_name :: "string \<Rightarrow> bool" where
  "plain_name s \<longleftrightarrow> s \<noteq> [] \<and> name_start (hd s) \<and> list_all (\<lambda>c. name_start c \<or> is_decimal c) s"

text \<open>The placeholders of a template, each resolved by \<open>lookup\<close>.\<close>

function vformat :: "(string \<Rightarrow> build_error + string) \<Rightarrow> string \<Rightarrow> build_error + string" where
  "vformat lookup [] = Inr []"
| "vformat lookup (c # cs) =
     (if c = CHR ''{'' then
        (if py_startswith cs ''{'' then bind_err (vformat lookup (drop 1 cs)) (\<lambda>r. Inr (CHR ''{'' # r))
         else
           (let name = takeWhile (\<lambda>x. x \<noteq> CHR ''}'') cs; rest = dropWhile (\<lambda>x. x \<noteq> CHR ''}'') cs
            in if rest = [] \<or> \<not> plain_name name then Inl (UnsupportedTemplate (c # cs))
               else bind_err (lookup name) (\<lambda>v.
                    bind_err (vformat lookup (drop 1 rest)) (\<lambda>r. Inr (v @ r)))))
      else if c = CHR ''}'' then
        (if py_startswith cs ''}'' then bind_err (vformat lookup (drop 1 cs)) (\<lambda>r. Inr (CHR ''}'' # r))
         else Inl (UnsupportedTemplate (c # cs)))
      else bind_err (vformat lookup cs) (\<lambda>r. Inr (c # r)))"
  by pat_completeness auto
termination
  by (relation "measure (\<lambda>(lookup, s). length s)")
    (auto simp: less_Suc_eq_le intro: le_trans [OF diff_le_self] length_dropWhile_le)

text \<open>\<open>_SafeFormatter.get_value\<close> leaves an unknown placeholder as it is; \<open>str.format\<close> raises
  \<open>KeyError\<close>.\<close>

definition safe_value :: "(string, string) dict \<Rightarrow> string \<Rightarrow> build_error + string" where
  "safe_value vals key = Inr (dict_get_or vals key (''{'' @ key @ ''}''))"

definition py_format :: "(string, string) dict \<Rightarrow> string \<Rightarrow> build_error + string" where
  "py_format vals template = vformat (\<lambda>key. case dict_get vals key of
     None \<Rightarrow> Inl (UnknownPlaceholder key) | Some v \<Rightarrow> Inr v) template"

record BuildContext =
  bc_imsi :: string
  bc_msisdn :: string
  bc_device_id :: string
  bc_profile :: string
  bc_acs_host :: string
  bc_values :: "(string, string) dict"

definition create_context :: "string \<Rightarrow> string \<Rightarrow> string \<Rightarrow> string \<Rightarrow> string \<Rightarrow> build_error + BuildContext" where
  "create_context imsi msisdn device_id profile acs_host =
     (case derive_identity imsi (Some msisdn) None of
        Inl e \<Rightarrow> Inl (BadIdentity e)
      | Inr identity \<Rightarrow>
          (let vals = fold (\<lambda>(k, v) d. dict_put k v d)
                 [(''msisdn'', msisdn), (''msisdn_national'', py_lstrip_chars ''+'' msisdn),
                  (''device_id'', device_id), (''profile'', profile), (''acs_host'', acs_host)]
                 (as_context identity)
           in Inr \<lparr>bc_imsi = imsi, bc_msisdn = msisdn, bc_device_id = device_id, bc_profile = profile,
                  bc_acs_host = acs_host, bc_values = vals\<rparr>))"

definition render :: "BuildContext \<Rightarrow> string \<Rightarrow> build_error + string" where
  "render ctx template =
     (if CHR ''{'' \<notin> set template then Inr template else vformat (safe_value (bc_values ctx)) template)"

section \<open>Characteristics\<close>

text \<open>\<open>_ensure_path\<close> followed by \<open>add_parm\<close>.\<close>

definition ensure_path_add :: "string \<Rightarrow> string \<Rightarrow> string \<Rightarrow> ProvisioningDoc \<Rightarrow> ProvisioningDoc" where
  "ensure_path_add path n v d =
     (let segments = py_split CHR ''/'' path; head = hd segments
      in if py_startswith head application_prefix
         then (let app_id = drop (length application_prefix) head
               in d\<lparr>doc_characteristics := update_first (is_application app_id) (add_at (tl segments) n v)
                      (add_parm ''AppID'' app_id (new_characteristic ''APPLICATION''))
                      (doc_characteristics d)\<rparr>)
         else d\<lparr>doc_characteristics := update_first (\<lambda>c. ch_type c = head) (add_at (tl segments) n v)
                      (new_characteristic head) (doc_characteristics d)\<rparr>)"

definition coerce_value :: "CatalogEntry \<Rightarrow> string \<Rightarrow> string" where
  "coerce_value e raw =
     (if ce_type e = ''bool01'' then (if raw \<in> {''1'', ''true'', ''True'', ''yes''} then ''1'' else ''0'')
      else raw)"

definition vers_characteristic :: "int \<Rightarrow> int \<Rightarrow> Characteristic" where
  "vers_characteristic version validity =
     Characteristic ''VERS'' [parm ''version'' (str_of_int version), parm ''validity'' (str_of_int validity)] []"

definition token_characteristic :: "string \<Rightarrow> Characteristic" where
  "token_characteristic token = Characteristic ''TOKEN'' [parm ''token'' token] []"

definition msg_characteristic :: "string \<Rightarrow> string \<Rightarrow> bool \<Rightarrow> bool \<Rightarrow> Characteristic" where
  "msg_characteristic title message accept_button reject_button =
     Characteristic ''MSG'' [parm ''title'' title, parm ''message'' message,
       parm ''Accept_btn'' (if accept_button then ''1'' else ''0''),
       parm ''Reject_btn'' (if reject_button then ''1'' else ''0'')] []"

definition dm_account_characteristic :: "Settings \<Rightarrow> BuildContext \<Rightarrow> string \<Rightarrow> Characteristic" where
  "dm_account_characteristic st ctx dm_password =
     Characteristic ''APPLICATION'' [
       parm ''AppID'' ''w7'', parm ''PROVIDER-ID'' (set_dm_server_id st),
       parm ''NAME'' (set_service_name st @ '' device management''),
       parm ''ADDR'' (set_dm_account_uri st),
       parm ''AAUTHTYPE'' (if set_dm_auth_scheme st = ''md5'' then ''DIGEST'' else ''BASIC''),
       parm ''AAUTHNAME'' (bc_imsi ctx), parm ''AAUTHSECRET'' dm_password,
       parm ''AAUTHDATA'' (set_dm_server_id st), parm ''INIT'' ''1''] []"

section \<open>Documents\<close>

definition selected_entries :: "CatalogEntry list \<Rightarrow> string \<Rightarrow> string list \<Rightarrow> CatalogEntry list" where
  "selected_entries catalog profile wanted_apps =
     filter (\<lambda>e. \<not> (wanted_apps \<noteq> [] \<and> (case entry_app_id e of None \<Rightarrow> False | Some a \<Rightarrow> a \<notin> set wanted_apps)))
       (for_profile catalog profile)"

fun add_entries :: "BuildContext \<Rightarrow> (string, string) dict \<Rightarrow> CatalogEntry list \<Rightarrow> ProvisioningDoc \<Rightarrow>
    build_error + ProvisioningDoc" where
  "add_entries ctx overrides [] d = Inr d"
| "add_entries ctx overrides (e # es) d =
     (let raw = dict_get_or overrides (entry_key e) (ce_default e)
      in if raw = [] \<and> \<not> ce_required e then add_entries ctx overrides es d
         else bind_err (render ctx raw) (\<lambda>text.
                add_entries ctx overrides es
                  (ensure_path_add (ce_path e) (ce_parm e) (coerce_value e text) d)))"

definition messaging_parms :: "string list" where
  "messaging_parms = [''standaloneMsgAuth'', ''ChatAuth'', ''GroupChatAuth'']"

definition switch_off :: "Parm \<Rightarrow> Parm" where
  "switch_off p = (if pm_name p \<in> set messaging_parms then p\<lparr>pm_value := ''0''\<rparr> else p)"

fun replace_first :: "('a \<Rightarrow> bool) \<Rightarrow> ('a \<Rightarrow> 'a) \<Rightarrow> 'a list \<Rightarrow> 'a list" where
  "replace_first P f [] = []"
| "replace_first P f (x # xs) = (if P x then f x # xs else x # replace_first P f xs)"

definition apply_default_sms_app_policy :: "ConfigQuery \<Rightarrow> ProvisioningDoc \<Rightarrow> ProvisioningDoc" where
  "apply_default_sms_app_policy q d =
     (if cq_default_sms_app q \<noteq> Some 0 then d
      else d\<lparr>doc_characteristics := replace_first (is_application ''ap2002'')
        (\<lambda>rcs. Characteristic (ch_type rcs) (ch_parms rcs)
           (replace_first (\<lambda>c. ch_type c = ''SERVICES'')
              (\<lambda>services. Characteristic (ch_type services) (map switch_off (ch_parms services))
                 (ch_children services)) (ch_children rcs)))
        (doc_characteristics d)\<rparr>)"

definition start_document :: "int \<Rightarrow> int \<Rightarrow> string option \<Rightarrow> ProvisioningDoc" where
  "start_document version validity token =
     (let d = doc_add (vers_characteristic version validity) empty_doc
      in if truthy token then doc_add (token_characteristic (the token)) d else d)"

definition build_document ::
  "(string \<Rightarrow> CatalogError + CatalogEntry list) \<Rightarrow> Settings \<Rightarrow> ConfigQuery \<Rightarrow> string \<Rightarrow> string \<Rightarrow> int \<Rightarrow>
   int \<Rightarrow> string \<Rightarrow> string option \<Rightarrow> (string, string) dict \<Rightarrow> string \<Rightarrow> string \<Rightarrow>
   build_error + ProvisioningDoc" where
  "build_document get_catalog st q imsi msisdn version validity profile token overrides dm_password
      acs_host =
     (let resolved = str_or profile (opt_or (cq_rcs_profile q) (set_default_rcs_profile st))
      in case get_catalog resolved of
           Inl e \<Rightarrow> Inl (CatalogFailed e)
         | Inr catalog \<Rightarrow>
             bind_err (create_context imsi msisdn (device_key q) resolved
               (str_or acs_host (set_dm_account_uri st))) (\<lambda>ctx.
             bind_err (add_entries ctx overrides (selected_entries catalog resolved (cq_apps q))
               (start_document version validity token)) (\<lambda>d.
             let d = apply_default_sms_app_policy q d
             in Inr (if set_dm_bootstrap_in_cp st \<and> set_dm_enabled st \<and> dm_password \<noteq> []
                     then doc_add (dm_account_characteristic st ctx dm_password) d else d))))"

definition build_vers_only_document :: "int \<Rightarrow> int \<Rightarrow> ProvisioningDoc" where
  "build_vers_only_document version validity = doc_add (vers_characteristic version validity) empty_doc"

definition build_message_document :: "int \<Rightarrow> int \<Rightarrow> string \<Rightarrow> string \<Rightarrow> bool \<Rightarrow> bool \<Rightarrow> ProvisioningDoc" where
  "build_message_document version validity title message accept_button reject_button =
     doc_add (msg_characteristic title message accept_button reject_button)
       (doc_add (vers_characteristic version validity) empty_doc)"

section \<open>Lemmas\<close>

definition doc_leaves :: "ProvisioningDoc \<Rightarrow> (string list \<times> Parm) multiset" where
  "doc_leaves d = sum_mset (mset (map leaves (doc_characteristics d)))"

definition type_path :: "string \<Rightarrow> string list" where
  "type_path path = (let segments = py_split CHR ''/'' path
     in (if py_startswith (hd segments) application_prefix then ''APPLICATION'' else hd segments)
        # tl segments)"

lemma update_first_cases:
  obtains (found) xs x ys where "cs = xs @ x # ys" and "P x" and "\<And>y. y \<in> set xs \<Longrightarrow> \<not> P y"
      and "update_first P f new cs = xs @ f x # ys"
    | (new) "\<And>y. y \<in> set cs \<Longrightarrow> \<not> P y" and "update_first P f new cs = cs @ [f new]"
proof (induction cs arbitrary: thesis)
  case Nil
  then show ?case by simp
next
  case (Cons c cs)
  show ?case
  proof (cases "P c")
    case True
    then show ?thesis using Cons.prems(1) [of "[]" c cs] by simp
  next
    case False
    show ?thesis
    proof (rule Cons.IH)
      fix xs x ys assume "cs = xs @ x # ys" "P x" "\<And>y. y \<in> set xs \<Longrightarrow> \<not> P y"
        "update_first P f new cs = xs @ f x # ys"
      with False show thesis using Cons.prems(1) [of "c # xs" x ys] by auto
    next
      assume "\<And>y. y \<in> set cs \<Longrightarrow> \<not> P y" "update_first P f new cs = cs @ [f new]"
      with False show thesis using Cons.prems(2) by auto
    qed
  qed
qed

lemma leaves_update_first:
  assumes "\<And>c. P c \<Longrightarrow> ch_type c = t" and "ch_type new = t"
  shows "sum_mset (mset (map leaves (update_first P (add_at segs n v) new cs))) =
    sum_mset (mset (map leaves cs)) + {# (t # segs, parm n v) #} +
    (if \<exists>c \<in> set cs. P c then {#} else leaves new)"
proof (cases rule: update_first_cases [of cs P "add_at segs n v" new])
  case (found xs x ys)
  then show ?thesis using assms(1) [of x] by (auto simp: leaves_add_at)
next
  case new
  then show ?thesis using assms(2) by (auto simp: leaves_add_at)
qed

lemma doc_leaves_ensure_path_add:
  "\<exists>apps. doc_leaves (ensure_path_add path n v d) = doc_leaves d + {# (type_path path, parm n v) #} + apps \<and>
     (\<forall>x \<in># apps. \<exists>a. x = ([''APPLICATION''], parm ''AppID'' a))"
proof (cases "py_startswith (hd (py_split CHR ''/'' path)) application_prefix")
  case True
  let ?a = "drop (length application_prefix) (hd (py_split CHR ''/'' path))"
  have "leaves (add_parm ''AppID'' ?a (new_characteristic ''APPLICATION''))
      = {# ([''APPLICATION''], parm ''AppID'' ?a) #}"
    by (simp add: add_parm_def new_characteristic_def)
  moreover have "ch_type (add_parm ''AppID'' ?a (new_characteristic ''APPLICATION'')) = ''APPLICATION''"
    by (simp add: add_parm_def new_characteristic_def)
  ultimately show ?thesis
    using True leaves_update_first [of "is_application ?a" "''APPLICATION''"
        "add_parm ''AppID'' ?a (new_characteristic ''APPLICATION'')" "tl (py_split CHR ''/'' path)" n v
        "doc_characteristics d"]
    by (auto simp: ensure_path_add_def doc_leaves_def type_path_def Let_def is_application_def)
next
  case False
  then show ?thesis
    using leaves_update_first [of "\<lambda>c. ch_type c = hd (py_split CHR ''/'' path)" "hd (py_split CHR ''/'' path)"
        "new_characteristic (hd (py_split CHR ''/'' path))" "tl (py_split CHR ''/'' path)" n v
        "doc_characteristics d"]
    by (auto simp: ensure_path_add_def doc_leaves_def type_path_def Let_def new_characteristic_def)
qed

text \<open>What the entries promise: the values in order of precedence, empty optional ones left out.\<close>

fun resolved_parms :: "BuildContext \<Rightarrow> (string, string) dict \<Rightarrow> CatalogEntry list \<Rightarrow>
    build_error + (string list \<times> Parm) list" where
  "resolved_parms ctx overrides [] = Inr []"
| "resolved_parms ctx overrides (e # es) =
     (let raw = dict_get_or overrides (entry_key e) (ce_default e)
      in if raw = [] \<and> \<not> ce_required e then resolved_parms ctx overrides es
         else bind_err (render ctx raw) (\<lambda>rend.
              bind_err (resolved_parms ctx overrides es) (\<lambda>ps.
              Inr ((type_path (ce_path e), parm (ce_parm e) (coerce_value e rend)) # ps))))"

lemma add_entries_leaves:
  "add_entries ctx overrides es d = Inr d' \<Longrightarrow>
   \<exists>ps apps. resolved_parms ctx overrides es = Inr ps \<and> doc_leaves d' = doc_leaves d + mset ps + apps \<and>
     (\<forall>x \<in># apps. \<exists>a. x = ([''APPLICATION''], parm ''AppID'' a))"
proof (induction es arbitrary: d)
  case Nil
  then show ?case by auto
next
  case (Cons e es)
  let ?raw = "dict_get_or overrides (entry_key e) (ce_default e)"
  show ?case
  proof (cases "?raw = [] \<and> \<not> ce_required e")
    case True
    with Cons show ?thesis by simp
  next
    case False
    with Cons.prems obtain rend where rend: "render ctx ?raw = Inr rend"
        "add_entries ctx overrides es (ensure_path_add (ce_path e) (ce_parm e) (coerce_value e rend) d) = Inr d'"
      by (auto simp: Let_def bind_err_Inr)
    from Cons.IH [OF rend(2)] doc_leaves_ensure_path_add [of "ce_path e" "ce_parm e" "coerce_value e rend" d]
    obtain ps apps apps' where
      "resolved_parms ctx overrides es = Inr ps"
      "doc_leaves d' = doc_leaves d + {# (type_path (ce_path e), parm (ce_parm e) (coerce_value e rend)) #}
        + apps' + mset ps + apps"
      "\<forall>x \<in># apps. \<exists>a. x = ([''APPLICATION''], parm ''AppID'' a)"
      "\<forall>x \<in># apps'. \<exists>a. x = ([''APPLICATION''], parm ''AppID'' a)"
      by auto
    with False rend(1) show ?thesis
      by (intro exI [of _ "(type_path (ce_path e), parm (ce_parm e) (coerce_value e rend)) # ps"]
          exI [of _ "apps' + apps"]) (auto simp: Let_def)
  qed
qed


section \<open>Structure\<close>

definition vers_first :: "int \<Rightarrow> int \<Rightarrow> ProvisioningDoc \<Rightarrow> bool" where
  "vers_first version validity d \<longleftrightarrow> (\<exists>ps ks cs. doc_characteristics d =
     Characteristic ''VERS'' (parm ''version'' (str_of_int version) #
       parm ''validity'' (str_of_int validity) # ps) ks # cs)"

lemma vers_first_ensure_path_add:
  "vers_first version validity d \<Longrightarrow> vers_first version validity (ensure_path_add path n v d)"
  by (cases "tl (py_split CHR ''/'' path)")
    (auto simp: vers_first_def ensure_path_add_def Let_def add_parm_def is_application_def)

lemma add_entries_invariant:
  assumes "add_entries ctx overrides es d = Inr d'" and "I d"
    and "\<And>e v d. e \<in> set es \<Longrightarrow> I d \<Longrightarrow> I (ensure_path_add (ce_path e) (ce_parm e) v d)"
  shows "I d'"
  using assms
proof (induction es arbitrary: d)
  case Nil
  then show ?case by simp
next
  case (Cons e es)
  then show ?case
    by (cases "dict_get_or overrides (entry_key e) (ce_default e) = [] \<and> \<not> ce_required e")
      (auto simp: Let_def bind_err_Inr intro: Cons.IH)
qed

lemma py_split_snoc:
  "x \<noteq> c \<Longrightarrow> py_split c (s @ [x]) = butlast (py_split c s) @ [last (py_split c s) @ [x]]"
proof (induction s)
  case Nil
  then show ?case by simp
next
  case (Cons y s)
  obtain w ws where "py_split c s = w # ws" by (cases "py_split c s") auto
  with Cons show ?case by (cases ws) auto
qed

lemma PATH_RE_segments:
  assumes "PATH_RE path" shows "list_all (\<lambda>s. s \<noteq> []) (py_split CHR ''/'' path)"
proof (cases "path_segments_ok path")
  case True
  then show ?thesis by (simp add: path_segments_ok_def list_all_iff)
next
  case False
  with assms obtain s where s: "path = s @ [newline]" "path_segments_ok s"
    by (auto simp: PATH_RE_def re_line_def) (metis append_butlast_last_id)
  have "list_all (\<lambda>w. w \<noteq> []) (butlast (py_split CHR ''/'' s))"
    using s(2) by (auto simp: path_segments_ok_def list_all_iff dest: in_set_butlastD)
  then show ?thesis by (simp add: s(1) py_split_snoc)
qed

lemma types_ok_ensure_path_add:
  assumes "PATH_RE path" and "list_all types_ok (doc_characteristics d)"
  shows "list_all types_ok (doc_characteristics (ensure_path_add path n v d))"
proof -
  obtain h segs where segs: "py_split CHR ''/'' path = h # segs"
    by (cases "py_split CHR ''/'' path") auto
  with PATH_RE_segments [OF assms(1)] have ne: "h \<noteq> []" "list_all (\<lambda>s. s \<noteq> []) segs" by auto
  have upd: "list_all types_ok (update_first P (add_at segs n v) new (doc_characteristics d))"
    if "types_ok new" for P new
    using assms(2) types_ok_add_at [OF _ ne(2)] that by (auto simp: list_all_iff dest!: update_first_set)
  show ?thesis
    using upd [of "add_parm ''AppID'' (drop (length application_prefix) h) (new_characteristic ''APPLICATION'')"]
      upd [of "new_characteristic h"] ne(1)
    by (simp add: ensure_path_add_def segs Let_def add_parm_def new_characteristic_def)
qed

lemma replace_first_map:
  assumes "\<And>x. P x \<Longrightarrow> Q x \<Longrightarrow> Q (f x)" and "list_all Q xs"
  shows "list_all Q (replace_first P f xs)"
  using assms(2) by (induction xs) (auto simp: assms(1))

lemma types_okD: "types_ok c \<Longrightarrow> ch_type c \<noteq> [] \<and> list_all types_ok (ch_children c)"
  by (cases c) simp

lemma types_ok_policy:
  assumes "list_all types_ok (doc_characteristics d)"
  shows "list_all types_ok (doc_characteristics (apply_default_sms_app_policy q d))"
proof -
  have inner: "list_all types_ok (replace_first (\<lambda>c. ch_type c = ''SERVICES'')
      (\<lambda>s. Characteristic (ch_type s) (map switch_off (ch_parms s)) (ch_children s)) cs)"
    if "list_all types_ok cs" for cs
    using that types_okD by (intro replace_first_map) auto
  show ?thesis
    unfolding apply_default_sms_app_policy_def
    using assms inner types_okD by (auto intro!: replace_first_map)
qed

lemma vers_first_policy:
  "vers_first version validity d \<Longrightarrow> vers_first version validity (apply_default_sms_app_policy q d)"
  by (auto simp: vers_first_def apply_default_sms_app_policy_def is_application_def)

lemma vers_first_doc_add: "vers_first version validity d \<Longrightarrow> vers_first version validity (doc_add c d)"
  by (auto simp: vers_first_def doc_add_def)

lemma start_document_ok:
  "vers_first version validity (start_document version validity token) \<and>
   list_all types_ok (doc_characteristics (start_document version validity token)) \<and>
   doc_version (start_document version validity token) = ''1.1''"
  by (simp add: start_document_def Let_def doc_add_def empty_doc_def vers_first_def
      vers_characteristic_def token_characteristic_def)

lemma doc_version_ensure [simp]: "doc_version (ensure_path_add path n v d) = doc_version d"
  by (simp add: ensure_path_add_def Let_def)

text \<open>The stages of a document that was built.\<close>

lemma build_document_stages:
  assumes "build_document get_catalog st q imsi msisdn version validity profile token overrides pw host
      = Inr doc"
  defines "resolved \<equiv> str_or profile (opt_or (cq_rcs_profile q) (set_default_rcs_profile st))"
  obtains catalog ctx d where "get_catalog resolved = Inr catalog"
    and "create_context imsi msisdn (device_key q) resolved (str_or host (set_dm_account_uri st)) = Inr ctx"
    and "add_entries ctx overrides (selected_entries catalog resolved (cq_apps q))
      (start_document version validity token) = Inr d"
    and "doc = (if set_dm_bootstrap_in_cp st \<and> set_dm_enabled st \<and> pw \<noteq> []
      then doc_add (dm_account_characteristic st ctx pw) (apply_default_sms_app_policy q d)
      else apply_default_sms_app_policy q d)"
  using assms unfolding build_document_def resolved_def Let_def
  by (cases "get_catalog resolved") (auto simp: bind_err_Inr resolved_def)

section \<open>Properties\<close>

lemma doc_leaves_add: "doc_leaves (doc_add c d) = doc_leaves d + leaves c"
  by (simp add: doc_leaves_def doc_add_def)

lemma doc_leaves_start: "doc_leaves (start_document version validity token) =
   {# ([''VERS''], parm ''version'' (str_of_int version)), ([''VERS''], parm ''validity'' (str_of_int validity)) #} +
   (if truthy token then {# ([''TOKEN''], parm ''token'' (the token)) #} else {#})"
  by (simp add: start_document_def Let_def doc_leaves_def doc_add_def empty_doc_def
      vers_characteristic_def token_characteristic_def)


definition demo_query :: ConfigQuery where
  "demo_query = \<lparr>cq_vers = 0, cq_imsi = Some ''450051234567890'', cq_imei = None, cq_imeisv = None,
     cq_msisdn = None, cq_token = None, cq_otp = None, cq_sms_port = None, cq_sms_format = None,
     cq_default_sms_app = None, cq_default_vvm_app = None, cq_terminal_vendor = None,
     cq_terminal_model = None, cq_terminal_sw_version = None, cq_client_vendor = None,
     cq_client_version = None, cq_rcs_version = None, cq_rcs_profile = None, cq_rcs_state = None,
     cq_provisioning_version = None, cq_device_type = None, cq_device_id = None,
     cq_friendly_device_name = None, cq_alias = None, cq_apps = [], cq_user_agent = [],
     cq_unknown = []\<rparr>"

definition demo_entry :: "string \<Rightarrow> string \<Rightarrow> string \<Rightarrow> CatalogEntry" where
  "demo_entry path name dflt = \<lparr>ce_path = path, ce_parm = name, ce_type = ''chr'', ce_default = dflt,
     ce_values = [], ce_verified = False, ce_required = False, ce_profiles = [],
     ce_unit = [], ce_spec = [], ce_doc = []\<rparr>"

definition demo_catalog :: "string \<Rightarrow> CatalogError + CatalogEntry list" where
  "demo_catalog profile = Inr [demo_entry ''APPLICATION:ap2002/SERVICES'' ''ChatAuth'' ''1'',
     demo_entry ''APPLICATION:ap2002/IMS'' ''impu'' ''{impu}'']"

definition demo_build :: "ConfigQuery \<Rightarrow> build_error + ProvisioningDoc" where
  "demo_build q = build_document demo_catalog demo_settings q ''450051234567890'' ''+82'' 3 600 [] (Some ''tok'')
     [(''APPLICATION:ap2002/SERVICES/ChatAuth'', ''0'')] [] []"


lemma doc_version_policy [simp]: "doc_version (apply_default_sms_app_policy q d) = doc_version d"
  by (simp add: apply_default_sms_app_policy_def)

lemma selected_entries_subset: "set (selected_entries catalog profile wanted) \<subseteq> set catalog"
  by (auto simp: selected_entries_def for_profile_def)

text \<open>
  C21. Every document built from a catalogue that loaded passes the structural validation of OMA-CP:
  the right root and version, typed characteristics, named and empty parameters, no other
  elements, and the mandatory \<open>VERS\<close>; and it carries the requested version and validity in its
  first characteristic. The same holds of the VERS-only and the message document.
\<close>

theorem build_document_valid:
  assumes "build_document get_catalog st q imsi msisdn version validity profile token overrides pw host
      = Inr doc"
    and "\<And>p catalog. get_catalog p = Inr catalog \<Longrightarrow> list_all entry_ok catalog"
  shows "validate_structure (to_element doc) = [] \<and> vers_first version validity doc \<and>
    validate_structure (to_element (build_vers_only_document version validity)) = [] \<and>
    validate_structure (to_element (build_message_document version validity title msg a r)) = []"
proof (rule build_document_stages [OF assms(1)])
  let ?r = "str_or profile (opt_or (cq_rcs_profile q) (set_default_rcs_profile st))"
  fix catalog ctx d
  assume s: "get_catalog ?r = Inr catalog"
    "add_entries ctx overrides (selected_entries catalog ?r (cq_apps q)) (start_document version validity token)
      = Inr d"
    "doc = (if set_dm_bootstrap_in_cp st \<and> set_dm_enabled st \<and> pw \<noteq> []
      then doc_add (dm_account_characteristic st ctx pw) (apply_default_sms_app_policy q d)
      else apply_default_sms_app_policy q d)"
  let ?I = "\<lambda>d. vers_first version validity d \<and> list_all types_ok (doc_characteristics d) \<and>
    doc_version d = ''1.1''"
  have paths: "PATH_RE (ce_path e)" if "e \<in> set (selected_entries catalog ?r (cq_apps q))" for e
    using that assms(2) [OF s(1)] selected_entries_subset [of catalog ?r "cq_apps q"]
    by (auto simp: list_all_iff entry_ok_def)
  have "?I d"
    by (rule add_entries_invariant [OF s(2)])
      (simp_all add: start_document_ok vers_first_ensure_path_add types_ok_ensure_path_add paths)
  then have inv: "?I (apply_default_sms_app_policy q d)"
    by (simp add: vers_first_policy types_ok_policy)
  have dm: "types_ok (dm_account_characteristic st ctx pw)" by (simp add: dm_account_characteristic_def)
  have vers: "validate_structure (to_element x) = []" if "?I x" for x
  proof -
    from that obtain ps ks cs where "doc_characteristics x = Characteristic ''VERS'' ps ks # cs"
      by (auto simp: vers_first_def)
    then have "Characteristic ''VERS'' ps ks \<in> set (doc_characteristics x)" by simp
    with that show ?thesis
      by (intro validate_structure_to_element [where c = "Characteristic ''VERS'' ps ks"]) simp_all
  qed
  have I: "?I doc"
    using inv dm by (simp add: s(3) vers_first_doc_add) (simp add: doc_add_def)
  have only: "?I (build_vers_only_document version validity)"
    by (simp add: build_vers_only_document_def doc_add_def empty_doc_def vers_first_def
        vers_characteristic_def)
  have msg: "?I (build_message_document version validity title msg a r)"
    by (simp add: build_message_document_def doc_add_def empty_doc_def vers_first_def
        vers_characteristic_def msg_characteristic_def)
  show ?thesis using vers [OF I] vers [OF only] vers [OF msg] I by simp
qed

theorem build_document_valid_witness:
  "\<exists>doc. demo_build demo_query = Inr doc \<and> validate_structure (to_element doc) = [] \<and>
     vers_first 3 600 doc"
proof -
  have "case demo_build demo_query of Inl _ \<Rightarrow> False | Inr doc \<Rightarrow> True" by code_simp
  then obtain doc where doc: "demo_build demo_query = Inr doc" by (auto split: sum.splits)
  have "list_all entry_ok [demo_entry ''APPLICATION:ap2002/SERVICES'' ''ChatAuth'' ''1'',
     demo_entry ''APPLICATION:ap2002/IMS'' ''impu'' ''{impu}'']" by code_simp
  then have ok: "demo_catalog p = Inr c \<Longrightarrow> list_all entry_ok c" for p c
    by (auto simp: demo_catalog_def)
  have "validate_structure (to_element doc) = [] \<and> vers_first 3 600 doc \<and>
      validate_structure (to_element (build_vers_only_document 3 600)) = [] \<and>
      validate_structure (to_element (build_message_document 3 600 [] [] True True)) = []"
    by (rule build_document_valid [OF doc [unfolded demo_build_def]]) (rule ok)
  with doc show ?thesis by blast
qed

lemma find_replace_first:
  assumes "\<And>x. P (f x) = P x"
  shows "List.find P (replace_first P f xs) = map_option f (List.find P xs)"
  by (induction xs) (simp_all add: assms)

lemma switch_off_value: "pm_name (switch_off p) \<in> set messaging_parms \<Longrightarrow> pm_value (switch_off p) = ''0''"
  by (simp add: switch_off_def split: if_splits)

lemma policy_services:
  assumes "cq_default_sms_app q = Some 0"
    and "doc_application (apply_default_sms_app_policy q d) ''ap2002'' = Some rcs"
    and "List.find (\<lambda>c. ch_type c = ''SERVICES'') (ch_children rcs) = Some services"
    and "p \<in> set (ch_parms services)" and "pm_name p \<in> set messaging_parms"
  shows "pm_value p = ''0''"
proof -
  let ?g = "\<lambda>s. Characteristic (ch_type s) (map switch_off (ch_parms s)) (ch_children s)"
  let ?f = "\<lambda>x. Characteristic (ch_type x) (ch_parms x)
    (replace_first (\<lambda>c. ch_type c = ''SERVICES'') ?g (ch_children x))"
  have "is_application ''ap2002'' (?f x) = is_application ''ap2002'' x" for x
    by (simp add: is_application_def find_parm_def)
  then have "doc_application (apply_default_sms_app_policy q d) ''ap2002''
      = map_option ?f (doc_application d ''ap2002'')"
    using assms(1) by (simp add: apply_default_sms_app_policy_def doc_application_def find_replace_first)
  with assms(2) obtain x where "rcs = ?f x" by auto
  then have "List.find (\<lambda>c. ch_type c = ''SERVICES'') (ch_children rcs)
      = map_option ?g (List.find (\<lambda>c. ch_type c = ''SERVICES'') (ch_children x))"
    by (simp add: find_replace_first)
  with assms(3) obtain y where "services = ?g y" by auto
  with assms(4,5) switch_off_value show ?thesis by auto
qed

text \<open>
  A client that reports it is not the default SMS application is never offered messaging: in
  the document it gets, the services of the RCS application authorise neither standalone
  messages nor chat nor group chat, whatever the catalogue and the subscriber's overrides say.
\<close>

theorem not_default_sms_app_no_messaging:
  assumes "build_document get_catalog st q imsi msisdn version validity profile token overrides pw host
      = Inr doc"
    and "cq_default_sms_app q = Some 0" and "doc_application doc ''ap2002'' = Some rcs"
    and "List.find (\<lambda>c. ch_type c = ''SERVICES'') (ch_children rcs) = Some services"
    and "p \<in> set (ch_parms services)" and "pm_name p \<in> set messaging_parms"
  shows "pm_value p = ''0''"
proof (rule build_document_stages [OF assms(1)])
  fix catalog ctx d
  assume doc: "doc = (if set_dm_bootstrap_in_cp st \<and> set_dm_enabled st \<and> pw \<noteq> []
      then doc_add (dm_account_characteristic st ctx pw) (apply_default_sms_app_policy q d)
      else apply_default_sms_app_policy q d)"
  have "\<not> is_application ''ap2002'' (dm_account_characteristic st ctx pw)"
    by (simp add: is_application_def dm_account_characteristic_def find_parm_def parm_def)
  then have "doc_application (apply_default_sms_app_policy q d) ''ap2002'' = Some rcs"
    using assms(3) by (auto simp: doc doc_application_def doc_add_def find_append split: if_splits option.splits)
  then show ?thesis by (rule policy_services [OF assms(2) _ assms(4-6)])
qed

theorem not_default_sms_app_no_messaging_witness:
  "\<exists>doc rcs services. build_document demo_catalog demo_settings (demo_query\<lparr>cq_default_sms_app := Some 0\<rparr>)
      ''450051234567890'' ''+82'' 3 600 [] (Some ''tok'') [] [] [] = Inr doc \<and>
     doc_application doc ''ap2002'' = Some rcs \<and>
     List.find (\<lambda>c. ch_type c = ''SERVICES'') (ch_children rcs) = Some services \<and>
     map pm_name (ch_parms services) = [''ChatAuth''] \<and> list_all (\<lambda>p. pm_value p = ''0'') (ch_parms services)"
proof -
  let ?b = "build_document demo_catalog demo_settings (demo_query\<lparr>cq_default_sms_app := Some 0\<rparr>)
      ''450051234567890'' ''+82'' 3 600 [] (Some ''tok'') [] [] []"
  have "case ?b of Inl _ \<Rightarrow> False | Inr doc \<Rightarrow> (case doc_application doc ''ap2002'' of None \<Rightarrow> False | Some rcs \<Rightarrow>
      (case List.find (\<lambda>c. ch_type c = ''SERVICES'') (ch_children rcs) of None \<Rightarrow> False | Some services \<Rightarrow>
        map pm_name (ch_parms services) = [''ChatAuth'']))" by code_simp
  from case_InrD [OF this] obtain doc rcs services where doc: "?b = Inr doc"
      and parts: "doc_application doc ''ap2002'' = Some rcs"
        "List.find (\<lambda>c. ch_type c = ''SERVICES'') (ch_children rcs) = Some services"
        "map pm_name (ch_parms services) = [''ChatAuth'']"
    by (elim exE conjE) (simp split: option.splits)
  have q: "cq_default_sms_app (demo_query\<lparr>cq_default_sms_app := Some 0\<rparr>) = Some 0" by simp
  have "pm_value p = ''0''" if "p \<in> set (ch_parms services)" for p
  proof (rule not_default_sms_app_no_messaging [OF doc q parts(1,2) that])
    have "pm_name p \<in> set (map pm_name (ch_parms services))" using that by simp
    then show "pm_name p \<in> set messaging_parms" by (simp add: parts(3) messaging_parms_def)
  qed
  with doc parts show ?thesis by (auto simp: list_all_iff)
qed

end
