(* ===== verification/Token.thy ===== *)
theory Token
  imports Memory_Store
begin

text \<open>
  \<^verbatim>\<open>src/src/acs/auth/token.py\<close>: bearer tokens that let a client skip the challenge. \<open>b64\<close> is
  \<open>base64.urlsafe_b64encode(...).decode()\<close> of the random bytes, \<open>sha\<close> the hex digest of the
  token; comparing two hex digests is equality. Functions take the store's operations.
\<close>

section \<open>Definitions\<close>

definition TOKEN_BYTES :: nat where
  "TOKEN_BYTES = 32"

definition generate_token :: "(nat list \<Rightarrow> string) \<Rightarrow> (nat \<Rightarrow> nat list) \<Rightarrow> string" where
  "generate_token b64 token_bytes = py_rstrip_chars ''='' (b64 (token_bytes TOKEN_BYTES))"

definition hash_token :: "(string \<Rightarrow> string) \<Rightarrow> string \<Rightarrow> string" where
  "hash_token sha token = sha token"

definition issue_token :: "(TokenRecord \<Rightarrow> 's \<Rightarrow> 's) \<Rightarrow> (string \<Rightarrow> string) \<Rightarrow> string \<Rightarrow> int \<Rightarrow>
    string \<Rightarrow> string option \<Rightarrow> int \<Rightarrow> bool \<Rightarrow> 's \<Rightarrow> string \<times> 's" where
  "issue_token put sha token now imsi imei ttl_seconds bind_imei s =
     (token, put \<lparr>tr_token_hash = hash_token sha token, tr_imsi = imsi,
        tr_imei = (if bind_imei then imei else None), tr_issued_at = now,
        tr_expires_at = now + ttl_seconds, tr_revoked = False\<rparr> s)"

definition verify_token :: "('s \<Rightarrow> string \<Rightarrow> TokenRecord option) \<Rightarrow> (string \<Rightarrow> string) \<Rightarrow> int \<Rightarrow>
    string option \<Rightarrow> string option \<Rightarrow> bool \<Rightarrow> 's \<Rightarrow> TokenRecord option" where
  "verify_token get sha clock token imei bind_imei s =
     (if \<not> truthy token then None
      else
        (let digest = hash_token sha (the token)
         in case get s digest of
              None \<Rightarrow> None
            | Some record \<Rightarrow>
                if tr_token_hash record \<noteq> digest then None
                else if tr_revoked record \<or> token_expired record None clock then None
                else if bind_imei \<and> truthy (tr_imei record) \<and> tr_imei record \<noteq> imei then None
                else Some record))"

section \<open>Any token store\<close>

definition token_usable :: "TokenRecord \<Rightarrow> int \<Rightarrow> string option \<Rightarrow> bool \<Rightarrow> bool" where
  "token_usable r clock imei bind_imei \<longleftrightarrow> \<not> tr_revoked r \<and> clock < tr_expires_at r \<and>
     (bind_imei \<longrightarrow> tr_imei r = None \<or> tr_imei r = Some [] \<or> tr_imei r = imei)"

lemma verify_token_Some:
  "verify_token get sha clock token imei bind s = Some r \<longleftrightarrow>
   truthy token \<and> get s (sha (the token)) = Some r \<and> tr_token_hash r = sha (the token) \<and>
   token_usable r clock imei bind"
  by (auto simp: verify_token_def token_usable_def hash_token_def token_expired_def truthy_def Let_def
      split: option.splits)

context token_store
begin

lemma issued_verifies:
  assumes "issue_token put_tok sha token now imsi imei ttl bind s = (t, s')" and "token \<noteq> []"
  shows "(\<exists>r. verify_token get_tok sha clock (Some token) imei' bind' s' = Some r \<and> tr_imsi r = imsi) \<longleftrightarrow>
    clock < now + ttl \<and>
    (bind' \<longrightarrow> bind \<longrightarrow> imei = None \<or> imei = Some [] \<or> imei = imei')"
proof -
  let ?r = "\<lparr>tr_token_hash = sha token, tr_imsi = imsi, tr_imei = (if bind then imei else None),
    tr_issued_at = now, tr_expires_at = now + ttl, tr_revoked = False\<rparr>"
  have "get_tok s' (sha token) = Some ?r"
    using assms(1) by (auto simp: issue_token_def get_put_tok hash_token_def)
  then have "(\<exists>r. verify_token get_tok sha clock (Some token) imei' bind' s' = Some r \<and> tr_imsi r = imsi)
      \<longleftrightarrow> token_usable ?r clock imei' bind'"
    using assms(2) by (simp add: verify_token_Some truthy_def)
  then show ?thesis by (auto simp: token_usable_def)
qed

lemma revoked_never_verifies:
  "verify_token get_tok sha clock (Some token) imei bind (revoke_tok (sha token) s) = None"
  by (cases "get_tok s (sha token)") (simp_all add: verify_token_def hash_token_def get_revoke_tok)

lemma revoked_imsi_never_verifies:
  assumes "verify_token get_tok sha clock token imei bind (snd (revoke_imsi i s)) = Some r"
  shows "tr_imsi r \<noteq> i"
proof (cases "get_tok s (sha (the token))")
  case None
  with assms show ?thesis by (simp add: verify_token_Some get_revoke_imsi)
next
  case (Some x)
  with assms show ?thesis
    by (cases "tr_imsi x = i") (auto simp: verify_token_Some get_revoke_imsi token_usable_def)
qed

lemma other_tokens_kept:
  assumes "\<And>x. get_tok s (sha (the token)) = Some x \<Longrightarrow> tr_imsi x \<noteq> i"
  shows "verify_token get_tok sha clock token imei bind (snd (revoke_imsi i s))
    = verify_token get_tok sha clock token imei bind s"
  using assms by (cases "get_tok s (sha (the token))")
    (auto simp: verify_token_def hash_token_def get_revoke_imsi Let_def)

end

section \<open>Properties\<close>

text \<open>
  C23. A token that was just issued identifies its subscriber exactly until its lifetime ends and,
  when binding is on and it was issued to a handset that named its IMEI, only from that IMEI:
  lifted onto another handset it fails. Only the digest is stored.
\<close>

theorem token_round_trip:
  assumes "token \<noteq> []"
    and "issue_token put_token sha token now imsi imei ttl bind s = (t, s')"
  shows "t = token \<and>
    ((\<exists>r. verify_token get_token sha clock (Some token) imei' bind' s' = Some r \<and> tr_imsi r = imsi) \<longleftrightarrow>
      clock < now + ttl \<and> (bind' \<longrightarrow> bind \<longrightarrow> imei = None \<or> imei = Some [] \<or> imei = imei'))"
  using memory_token.issued_verifies [OF assms(2,1), of clock imei' bind'] assms(2)
  by (simp add: issue_token_def)

theorem token_round_trip_witness:
  "let s' = snd (issue_token put_token (\<lambda>x. x) ''abc'' 1000 ''45005'' (Some ''35'') 3600 True empty_store)
   in (\<exists>r. verify_token get_token (\<lambda>x. x) 2000 (Some ''abc'') (Some ''35'') True s' = Some r \<and>
         tr_imsi r = ''45005'') \<and>
      \<not> (\<exists>r. verify_token get_token (\<lambda>x. x) 2000 (Some ''abc'') (Some ''36'') True s' = Some r \<and>
         tr_imsi r = ''45005'')"
  using token_round_trip [of "''abc''" "\<lambda>x. x" 1000 "''45005''" "Some ''35''" 3600 True empty_store
      _ _ 2000 "Some ''35''" True, OF _ prod.collapse [symmetric]]
    token_round_trip [of "''abc''" "\<lambda>x. x" 1000 "''45005''" "Some ''35''" 3600 True empty_store
      _ _ 2000 "Some ''36''" True, OF _ prod.collapse [symmetric]]
  by (simp add: Let_def)

text \<open>
  Revocation. After a token is revoked it never verifies again, from any handset at any time;
  after all tokens of an IMSI are revoked no token verifies as that IMSI, while a token of
  another subscriber verifies exactly as before.
\<close>

theorem token_revocation:
  "verify_token get_token sha clock (Some token) imei bind (revoke_token (sha token) s) = None \<and>
   (verify_token get_token sha clock t imei bind (snd (revoke_tokens_for_imsi i s)) = Some r \<longrightarrow>
      tr_imsi r \<noteq> i) \<and>
   (get_token s (sha (the t)) = Some x \<longrightarrow> tr_imsi x \<noteq> i \<longrightarrow>
      verify_token get_token sha clock t imei bind (snd (revoke_tokens_for_imsi i s))
        = verify_token get_token sha clock t imei bind s)"
  using memory_token.revoked_never_verifies memory_token.revoked_imsi_never_verifies
    memory_token.other_tokens_kept [of s sha t i clock imei bind] by auto

theorem token_revocation_witness:
  "let s = snd (issue_token put_token (\<lambda>x. x) ''abc'' 1000 ''45005'' None 3600 True
             (snd (issue_token put_token (\<lambda>x. x) ''def'' 1000 ''45006'' None 3600 True empty_store)));
       u = snd (revoke_tokens_for_imsi ''45005'' s)
   in verify_token get_token (\<lambda>x. x) 2000 (Some ''def'') None True u
        = verify_token get_token (\<lambda>x. x) 2000 (Some ''def'') None True s \<and>
      (\<exists>r. verify_token get_token (\<lambda>x. x) 2000 (Some ''def'') None True u = Some r) \<and>
      verify_token get_token (\<lambda>x. x) 2000 (Some ''abc'') None True (revoke_token ''abc'' s) = None"
proof -
  let ?s = "snd (issue_token put_token (\<lambda>x. x) ''abc'' 1000 ''45005'' None 3600 True
             (snd (issue_token put_token (\<lambda>x. x) ''def'' 1000 ''45006'' None 3600 True empty_store)))"
  have get: "get_token ?s ''def'' = Some \<lparr>tr_token_hash = ''def'', tr_imsi = ''45006'', tr_imei = None,
      tr_issued_at = 1000, tr_expires_at = 4600, tr_revoked = False\<rparr>" (is "_ = Some ?r")
    by (simp add: issue_token_def memory_token.get_put_tok hash_token_def)
  then have "verify_token get_token (\<lambda>x. x) 2000 (Some ''def'') None True ?s = Some ?r"
    by (simp add: verify_token_Some truthy_def token_usable_def)
  with get token_revocation [of "\<lambda>x. x" 2000 "''abc''" None True ?s "Some ''def''" "''45005''" ?r ?r]
  show ?thesis by (simp add: Let_def)
qed

end
