(* ===== verification/Enrichment.thy ===== *)
theory Enrichment
  imports Pii
begin

text \<open>
  \<^verbatim>\<open>src/src/acs/auth/enrichment.py\<close>: the subscriber number an operator gateway asserts in a
  header, honoured only from a trusted peer. \<open>ip_address\<close> and \<open>ip_network\<close> are the parsers of
  Python's \<open>ipaddress\<close> module (\<^const>\<open>None\<close> is the \<open>ValueError\<close>), \<open>in_network\<close> its membership
  test; the lemmas hold for every such functions.
\<close>

section \<open>Definitions\<close>

record EnrichmentResult =
  er_msisdn :: "string option"
  er_trusted :: bool
  er_reason :: string

definition networks :: "(string \<Rightarrow> 'net option) \<Rightarrow> string list \<Rightarrow> 'net list" where
  "networks ip_network cidrs = List.map_filter ip_network cidrs"

definition client_address :: "string option \<Rightarrow> string option \<Rightarrow> string option" where
  "client_address peer forwarded_for =
     (if truthy forwarded_for
      then (let parts = filter (\<lambda>p. p \<noteq> []) (map py_strip (py_split CHR '','' (the forwarded_for)))
            in if parts \<noteq> [] then Some (last parts) else peer)
      else peer)"

definition is_trusted_peer :: "(string \<Rightarrow> 'ip option) \<Rightarrow> (string \<Rightarrow> 'net option) \<Rightarrow>
    ('ip \<Rightarrow> 'net \<Rightarrow> bool) \<Rightarrow> string option \<Rightarrow> string list \<Rightarrow> bool" where
  "is_trusted_peer ip_address ip_network in_network address cidrs =
     (if \<not> truthy address \<or> cidrs = [] then False
      else (case ip_address (the address) of
              None \<Rightarrow> False
            | Some ip \<Rightarrow> list_ex (in_network ip) (networks ip_network cidrs)))"

definition strip_prefix :: "string \<Rightarrow> string \<Rightarrow> string" where
  "strip_prefix p v = (if py_startswith v p then drop (length p) v else v)"

definition resolve_enriched_identity :: "(string \<Rightarrow> 'ip option) \<Rightarrow> (string \<Rightarrow> 'net option) \<Rightarrow>
    ('ip \<Rightarrow> 'net \<Rightarrow> bool) \<Rightarrow> (string, string) dict \<Rightarrow> string option \<Rightarrow> string option \<Rightarrow> string \<Rightarrow>
    string list \<Rightarrow> string \<Rightarrow> string \<Rightarrow> EnrichmentResult" where
  "resolve_enriched_identity ip_address ip_network in_network headers peer forwarded_for
      header_name trusted_cidrs default_country_code national_trunk_prefix =
     (if trusted_cidrs = []
      then \<lparr>er_msisdn = None, er_trusted = False, er_reason = ''disabled''\<rparr>
      else
        (let raw = dict_get (dict_rekey py_lower headers) (py_lower header_name)
         in if \<not> truthy raw
            then \<lparr>er_msisdn = None, er_trusted = False, er_reason = ''absent''\<rparr>
            else if \<not> is_trusted_peer ip_address ip_network in_network
                      (client_address peer forwarded_for) trusted_cidrs
            then \<lparr>er_msisdn = None, er_trusted = False, er_reason = ''untrusted_peer''\<rparr>
            else
              (let value = py_strip_chars [CHR 0x22] (py_strip (the raw));
                   value = strip_prefix ''sip:'' (strip_prefix ''tel:'' value);
                   value = py_before CHR '';'' (py_before CHR ''@'' value)
               in case normalise_msisdn (Some value) default_country_code national_trunk_prefix of
                    None \<Rightarrow> \<lparr>er_msisdn = None, er_trusted = True, er_reason = ''malformed_value''\<rparr>
                  | Some msisdn \<Rightarrow>
                      \<lparr>er_msisdn = Some msisdn, er_trusted = True, er_reason = ''trusted''\<rparr>)))"

section \<open>Lemmas\<close>

lemma client_address_last_hop:
  assumes "truthy (Some (s @ '','' @ hop))" and "py_strip hop = hop" and "hop \<noteq> []"
    and "CHR '','' \<notin> set hop"
  shows "client_address peer (Some (s @ '','' @ hop)) = Some hop"
proof -
  have single: "py_split CHR '','' hop = [hop]"
    using assms(4) by (induction hop) auto
  have "\<exists>ws. py_split CHR '','' (s @ '','' @ hop) = ws @ [hop]"
  proof (induction s)
    case Nil
    show ?case using single by auto
  next
    case (Cons c s)
    then obtain ws where "py_split CHR '','' (s @ '','' @ hop) = ws @ [hop]" by blast
    moreover have "length (py_split CHR '','' (x @ '','' @ y)) \<ge> 2" for x y
      by (induction x) (auto split: list.split simp: Suc_le_eq)
    from this [of s hop] calculation obtain w ws' where "ws = w # ws'" by (cases ws) auto
    ultimately show ?case by auto
  qed
  then obtain ws where "py_split CHR '','' (s @ '','' @ hop) = ws @ [hop]" by blast
  then show ?thesis
    using assms by (simp add: client_address_def)
qed

lemma list_ex_networks:
  "list_ex P (networks ip_network cidrs) \<longleftrightarrow>
   (\<exists>cidr net. cidr \<in> set cidrs \<and> ip_network cidr = Some net \<and> P net)"
  unfolding networks_def
  by (induction cidrs) (auto simp: List.map_filter_simps split: option.split)

lemma enriched_msisdn_trusted:
  assumes "er_msisdn (resolve_enriched_identity ip_address ip_network in_network headers peer fwd
      name cidrs cc trunk) = Some m"
  shows "cidrs \<noteq> [] \<and> is_trusted_peer ip_address ip_network in_network (client_address peer fwd) cidrs \<and>
    (\<exists>v. normalise_msisdn (Some v) cc trunk = Some m)"
  using assms
  by (auto simp: resolve_enriched_identity_def Let_def split: if_splits option.splits)



end
