(* ===== verification/Gba.thy ===== *)
theory Gba
  imports Acs_Prelude
begin

text \<open>
  \<^verbatim>\<open>src/src/acs/auth/gba.py\<close>: the HTTP side of GBA, a stateless signed nonce and the check of a
  Digest \<open>Authorization\<close> header. \<open>hmac secret text\<close> is the hex HMAC-SHA256, \<open>md5\<close> the hex digest
  of a byte string, \<open>b64encode\<close>/\<open>b64decode\<close> base64 with UTF-8 text (\<^const>\<open>None\<close> is
  \<open>binascii.Error\<close>); \<open>fetch_keys\<close> is the operator's BSF client, which may raise. A comparison
  of strings that are not ASCII raises \<open>TypeError\<close>, and \<open>int\<close> of a text that is \<open>isdigit\<close> but
  not decimal raises \<open>ValueError\<close>: both are errors of the result.
\<close>

section \<open>Definitions\<close>

record NafKeys =
  nk_btid :: string
  nk_ks_naf :: string
  nk_impi :: string
  nk_lifetime_seconds :: int

datatype gba_error = CompareTypeError | StampValueError | BsfNotImplemented

definition mock_fetch_keys :: "(string \<Rightarrow> string) \<Rightarrow> (string, string) dict \<Rightarrow> string \<Rightarrow> string \<Rightarrow>
    gba_error + NafKeys option" where
  "mock_fetch_keys sha256 known btid naf_id = Inr (case dict_get known btid of
     None \<Rightarrow> None
   | Some impi \<Rightarrow> Some \<lparr>nk_btid = btid,
       nk_ks_naf = sha256 (''33.220-test-vector'' @ utf8 btid @ utf8 naf_id),
       nk_impi = impi, nk_lifetime_seconds = 3600\<rparr>)"

definition unconfigured_fetch_keys :: "string \<Rightarrow> string \<Rightarrow> gba_error + NafKeys option" where
  "unconfigured_fetch_keys btid naf_id = Inl BsfNotImplemented"

definition make_nonce :: "(string \<Rightarrow> string \<Rightarrow> string) \<Rightarrow> (string \<Rightarrow> string) \<Rightarrow> string \<Rightarrow> string \<Rightarrow>
    int option \<Rightarrow> int \<Rightarrow> string" where
  "make_nonce hmac b64encode random secret issued_at clock =
     (if secret = [] then b64encode random
      else
        (let stamp = str_of_int (case issued_at of Some t \<Rightarrow> t | None \<Rightarrow> clock);
             signature = take 32 (hmac secret stamp)
         in b64encode (stamp @ '':'' @ signature)))"

definition verify_nonce :: "(string \<Rightarrow> string \<Rightarrow> string) \<Rightarrow> (string \<Rightarrow> string option) \<Rightarrow> string \<Rightarrow>
    string \<Rightarrow> int \<Rightarrow> int option \<Rightarrow> int \<Rightarrow> gba_error + bool" where
  "verify_nonce hmac b64decode nonce secret max_age_seconds now clock =
     (if secret = [] \<or> nonce = [] then Inr False
      else (case b64decode nonce of
        None \<Rightarrow> Inr False
      | Some raw \<Rightarrow>
          (let (stamp, _, signature) = py_partition CHR '':'' raw
           in if signature = [] \<or> \<not> py_isdigit stamp then Inr False
              else
                (let expected = take 32 (hmac secret stamp)
                 in case compare_digest expected signature of
                      None \<Rightarrow> Inl CompareTypeError
                    | Some same \<Rightarrow>
                        if \<not> same then Inr False
                        else (case py_int stamp of
                                None \<Rightarrow> Inl StampValueError
                              | Some t \<Rightarrow>
                                  (let age = (case now of Some n \<Rightarrow> n | None \<Rightarrow> clock) - t
                                   in Inr (0 \<le> age \<and> age \<le> max_age_seconds)))))))"

definition challenge_header :: "string \<Rightarrow> string \<Rightarrow> string \<Rightarrow> string" where
  "challenge_header realm nonce qop =
     ''Digest realm='' @ [CHR 0x22] @ realm @ [CHR 0x22] @ '', nonce='' @ [CHR 0x22] @ nonce @
     [CHR 0x22] @ '', qop='' @ [CHR 0x22] @ qop @ [CHR 0x22] @ '', algorithm=AKAv1-MD5, opaque='' @
     [CHR 0x22] @ ''gba'' @ [CHR 0x22]"

fun parse_directives :: "string list \<Rightarrow> (string, string) dict \<Rightarrow> (string, string) dict" where
  "parse_directives [] out = out"
| "parse_directives (part # parts) out =
     (if CHR ''='' \<notin> set part then parse_directives parts out
      else (let (key, _, value) = py_partition CHR ''='' part
            in parse_directives parts
                 (dict_put (py_lower (py_strip key)) (py_strip_chars [CHR 0x22] (py_strip value)) out)))"

definition parse_authorization :: "string \<Rightarrow> (string, string) dict" where
  "parse_authorization header =
     (if \<not> py_startswith (py_lower header) ''digest '' then []
      else parse_directives (py_split CHR '','' (drop 7 header)) [])"

definition digest_response :: "(string \<Rightarrow> string) \<Rightarrow> string \<Rightarrow> string \<Rightarrow> string \<Rightarrow> string \<Rightarrow> string \<Rightarrow>
    string \<Rightarrow> string \<Rightarrow> string \<Rightarrow> string \<Rightarrow> string" where
  "digest_response md5 username realm password method uri nonce cnonce nc qop =
     (let ha1 = md5 (utf8 username @ '':'' @ utf8 realm @ '':'' @ password);
          ha2 = md5 (utf8 (method @ '':'' @ uri))
      in md5 (utf8 (ha1 @ '':'' @ nonce @ '':'' @ nc @ '':'' @ cnonce @ '':'' @ qop @ '':'' @ ha2)))"

datatype bsf_client = UnconfiguredBsf | MockBsf

definition build_bsf_client :: "bool \<Rightarrow> bool \<Rightarrow> bsf_client option" where
  "build_bsf_client enabled is_prod =
     (if \<not> enabled then None else if is_prod then Some UnconfiguredBsf else Some MockBsf)"

record AuthorizationCheck =
  ac_ok :: bool
  ac_btid :: string
  ac_reason :: string

definition check_response :: "(string \<Rightarrow> string) \<Rightarrow> (string, string) dict \<Rightarrow> string \<Rightarrow> string \<Rightarrow> NafKeys \<Rightarrow>
    gba_error + AuthorizationCheck" where
  "check_response md5 directives realm method keys =
     (let btid = dict_get_or directives ''username'' [];
          expected = digest_response md5 btid realm (nk_ks_naf keys) method
            (dict_get_or directives ''uri'' []) (dict_get_or directives ''nonce'' [])
            (dict_get_or directives ''cnonce'' []) (dict_get_or directives ''nc'' ''00000001'')
            (dict_get_or directives ''qop'' ''auth'')
      in case compare_digest expected (dict_get_or directives ''response'' []) of
           None \<Rightarrow> Inl CompareTypeError
         | Some same \<Rightarrow>
             if \<not> same then Inr \<lparr>ac_ok = False, ac_btid = btid, ac_reason = ''response_mismatch''\<rparr>
             else Inr \<lparr>ac_ok = True, ac_btid = btid, ac_reason = ''verified''\<rparr>)"

definition verify_authorization ::
  "(string \<Rightarrow> string \<Rightarrow> string) \<Rightarrow> (string \<Rightarrow> string) \<Rightarrow> (string \<Rightarrow> string option) \<Rightarrow> string \<Rightarrow> string \<Rightarrow>
   string \<Rightarrow> string \<Rightarrow> (string \<Rightarrow> string \<Rightarrow> gba_error + NafKeys option) \<Rightarrow> int option \<Rightarrow> int \<Rightarrow> int \<Rightarrow>
   gba_error + AuthorizationCheck" where
  "verify_authorization hmac md5 b64decode header realm nonce_secret method fetch_keys now
      max_nonce_age_seconds clock =
     (let directives = parse_authorization header
      in if directives = [] then Inr \<lparr>ac_ok = False, ac_btid = [], ac_reason = ''not_digest''\<rparr>
         else
           (let btid = dict_get_or directives ''username'' [];
                nonce = dict_get_or directives ''nonce'' [];
                response = dict_get_or directives ''response'' [];
                uri = dict_get_or directives ''uri'' []
            in if btid = [] \<or> nonce = [] \<or> response = [] \<or> uri = []
               then Inr \<lparr>ac_ok = False, ac_btid = btid, ac_reason = ''incomplete''\<rparr>
               else bind_err (verify_nonce hmac b64decode nonce nonce_secret max_nonce_age_seconds
                      now clock) (\<lambda>valid.
                 if \<not> valid then Inr \<lparr>ac_ok = False, ac_btid = btid, ac_reason = ''nonce_invalid''\<rparr>
                 else bind_err (fetch_keys btid realm) (\<lambda>found. case found of
                   None \<Rightarrow> Inr \<lparr>ac_ok = False, ac_btid = btid, ac_reason = ''btid_unknown''\<rparr>
                 | Some keys \<Rightarrow> check_response md5 directives realm method keys))))"

section \<open>Nonces\<close>

lemma str_of_nat_no_colon: "CHR '':'' \<notin> set (str_of_nat n)"
  using str_of_nat_decimal [of n] by (auto simp: list_all_iff is_decimal_def code_of_def)

lemma py_partition_first:
  "c \<notin> set p \<Longrightarrow> py_partition c (p @ c # r) = (p, True, r)"
  by (induction p) (auto simp: py_partition_def)

lemma py_partition_rest:
  "py_partition c s = (p, b, r) \<Longrightarrow> r \<noteq> [] \<Longrightarrow> s = p @ c # r"
proof (induction s arbitrary: p)
  case Nil
  then show ?case by (simp add: py_partition_def)
next
  case (Cons x s)
  then show ?case by (cases "x = c") (auto simp: py_partition_def)
qed

lemma py_isdigit_str_of_nat: "py_isdigit (str_of_nat n)"
  using str_of_nat_decimal [of n] by (auto simp: py_isdigit_def list_all_iff)

lemma py_int_str_of_nat:
  assumes "length (str_of_nat n) \<le> int_max_str_digits" shows "py_int (str_of_nat n) = Some (int n)"
proof -
  obtain c cs where c: "str_of_nat n = c # cs" by (cases "str_of_nat n") auto
  have dec: "is_decimal x" if "x \<in> set (str_of_nat n)" for x
    using str_of_nat_decimal [of n] that by (simp add: list_all_iff)
  have "py_strip (str_of_nat n) = str_of_nat n"
    unfolding py_strip_def
    by (intro strip_by_id decimal_not_space dec) simp_all
  moreover have "c \<noteq> CHR ''-''" "c \<noteq> CHR ''+''"
    using dec [of c] by (auto simp: c is_decimal_def code_of_def)
  ultimately show ?thesis
    using py_nat_str_of_nat [OF assms] by (simp add: py_int_def c)
qed

text \<open>
  Nonces are stateless but not forgeable: the server accepts exactly the nonces it made with
  its secret, for as long as they are fresh. A nonce made at time \<open>t\<close> is accepted precisely from
  \<open>t\<close> to \<open>t\<close> plus the maximum age (base64 decodes what it encoded, HMAC hex digests are ASCII
  and not empty); and whatever is accepted decodes to a time stamp followed by the HMAC of that
  time stamp under the secret, no older than the maximum age.
\<close>

theorem nonce_signed_and_fresh:
  assumes "secret \<noteq> []"
    and "\<And>x. b64decode (b64encode x) = Some x" and "\<And>x. x \<noteq> [] \<Longrightarrow> b64encode x \<noteq> []"
    and "\<And>x. hmac secret x \<noteq> [] \<and> list_all is_ascii (hmac secret x)"
    and "length (str_of_nat t) \<le> int_max_str_digits"
  shows "verify_nonce hmac b64decode (make_nonce hmac b64encode rnd secret (Some (int t)) clock)
      secret age (Some now) clock' = Inr (int t \<le> now \<and> now \<le> int t + age) \<and>
    (verify_nonce hmac b64decode nonce secret age (Some now) clock' = Inr True \<longrightarrow>
      (\<exists>stamp i. b64decode nonce = Some (stamp @ '':'' @ take 32 (hmac secret stamp)) \<and>
         py_int stamp = Some i \<and> i \<le> now \<and> now \<le> i + age))"
proof
  have ascii: "list_all is_ascii (take 32 (hmac secret x))" for x
    using assms(4) [of x] by (auto simp: list_all_iff dest: in_set_takeD)
  have stamp: "str_of_int (int t) = str_of_nat t" by (simp add: str_of_int_def)
  show "verify_nonce hmac b64decode (make_nonce hmac b64encode rnd secret (Some (int t)) clock)
      secret age (Some now) clock' = Inr (int t \<le> now \<and> now \<le> int t + age)"
    using assms(1,3,4)
    by (auto simp: verify_nonce_def make_nonce_def Let_def stamp assms(2) py_partition_first
        str_of_nat_no_colon py_isdigit_str_of_nat compare_digest_refl ascii
        py_int_str_of_nat [OF assms(5)])
  show "verify_nonce hmac b64decode nonce secret age (Some now) clock' = Inr True \<longrightarrow>
      (\<exists>stamp i. b64decode nonce = Some (stamp @ '':'' @ take 32 (hmac secret stamp)) \<and>
         py_int stamp = Some i \<and> i \<le> now \<and> now \<le> i + age)"
  proof
    assume v: "verify_nonce hmac b64decode nonce secret age (Some now) clock' = Inr True"
    then obtain raw where raw: "b64decode nonce = Some raw"
      by (auto simp: verify_nonce_def split: if_splits option.splits)
    obtain stamp found sig where p: "py_partition CHR '':'' raw = (stamp, found, sig)"
      by (cases "py_partition CHR '':'' raw") auto
    from v raw p have sig: "sig \<noteq> []" "compare_digest (take 32 (hmac secret stamp)) sig = Some True"
        and i: "\<exists>i. py_int stamp = Some i \<and> i \<le> now \<and> now \<le> i + age"
      by (auto simp: verify_nonce_def Let_def split: if_splits option.splits)
    have "raw = stamp @ CHR '':'' # sig"
      using p sig(1) by (rule py_partition_rest)
    with raw i compare_digest_True [OF sig(2)] show
      "\<exists>stamp i. b64decode nonce = Some (stamp @ '':'' @ take 32 (hmac secret stamp)) \<and>
         py_int stamp = Some i \<and> i \<le> now \<and> now \<le> i + age" by auto
  qed
qed


definition demo_hmac :: "string \<Rightarrow> string \<Rightarrow> string" where
  "demo_hmac k x = ''ab''"

theorem nonce_signed_and_fresh_witness:
  "verify_nonce demo_hmac Some (make_nonce demo_hmac (\<lambda>x. x) [] ''s'' (Some (int 1000)) 0)
     ''s'' 300 (Some 1200) 0 = Inr True \<and>
   verify_nonce demo_hmac Some (make_nonce demo_hmac (\<lambda>x. x) [] ''s'' (Some (int 1000)) 0)
     ''s'' 300 (Some 1301) 0 = Inr False"
proof -
  have len: "length (str_of_nat 1000) \<le> int_max_str_digits"
    by (simp add: int_max_str_digits_def str_of_nat.simps)
  have ascii: "list_all is_ascii ''ab''" by code_simp
  have "verify_nonce demo_hmac Some (make_nonce demo_hmac (\<lambda>x. x) [] ''s'' (Some (int 1000)) 0)
      ''s'' 300 (Some now) 0 = Inr (int 1000 \<le> now \<and> now \<le> int 1000 + 300)" for now
    using nonce_signed_and_fresh [of "''s''" Some "\<lambda>x. x" demo_hmac 1000 "[]" 0 300 now 0 "[]"]
      len ascii by (simp add: demo_hmac_def)
  then show ?thesis by simp
qed

section \<open>The Authorization header\<close>


definition demo_header :: string where
  "demo_header = ''Digest username=b, nonce=1000:ab, uri=/x, response=r''"


end
