(* ===== verification/Sms.thy ===== *)
theory Sms
  imports Memory_Store
begin

text \<open>
  \<^verbatim>\<open>src/src/acs/sms/base.py\<close> and \<^verbatim>\<open>sms/aws.py\<close>: the delivery port, the recording sender of
  development and the two AWS senders. A sender takes a request and the store (for its audit
  record) and either raises or returns a result. The AWS client call is an argument: it takes the
  number, the text and the sender's own identity, and answers with a message id or with the error
  code that \<open>_describe\<close> extracts.
\<close>

section \<open>Definitions\<close>

datatype sms_error = UnsupportedDelivery | SmsDeliveryFailed string

record SmsRequest =
  sr_msisdn :: string
  sr_body :: string
  sr_sms_port :: "int option"
  sr_sender_id :: string

definition requires_binary :: "SmsRequest \<Rightarrow> bool" where
  "requires_binary r \<longleftrightarrow> (case sr_sms_port r of None \<Rightarrow> False | Some p \<Rightarrow> p \<noteq> 0)"

record SmsResult =
  res_provider :: string
  res_message_id :: string
  res_binary :: bool

type_synonym sms_sender = "SmsRequest \<Rightarrow> MemoryStore \<Rightarrow> (sms_error + SmsResult) \<times> MemoryStore"

definition mock_send :: "int \<Rightarrow> nat \<Rightarrow> sms_sender" where
  "mock_send clock counter r s =
     (Inr \<lparr>res_provider = ''mock'', res_message_id = ''mock-'' @ str_of_nat (counter + 1),
           res_binary = requires_binary r\<rparr>,
      record_sms \<lparr>sm_msisdn = sr_msisdn r, sm_body = sr_body r, sm_sms_port = sr_sms_port r,
        sm_sent_at = clock, sm_provider = ''mock'', sm_binary = requires_binary r\<rparr> s)"

definition redacted_audit :: "int \<Rightarrow> string \<Rightarrow> bool \<Rightarrow> SmsRequest \<Rightarrow> string \<Rightarrow> SmsMessage" where
  "redacted_audit clock provider binary r message_id =
     \<lparr>sm_msisdn = sr_msisdn r, sm_body = ''<redacted:'' @ message_id @ ''>'', sm_sms_port = sr_sms_port r,
      sm_sent_at = clock, sm_provider = provider, sm_binary = binary\<rparr>"

definition aws_send :: "string \<Rightarrow> (string \<Rightarrow> string \<Rightarrow> string \<Rightarrow> string + string) \<Rightarrow> string \<Rightarrow> int \<Rightarrow>
    sms_sender" where
  "aws_send name client identity clock r s =
     (if requires_binary r then (Inl UnsupportedDelivery, s)
      else (case client (sr_msisdn r) (sr_body r) identity of
              Inl error \<Rightarrow> (Inl (SmsDeliveryFailed error), s)
            | Inr message_id \<Rightarrow>
                (Inr \<lparr>res_provider = name, res_message_id = message_id, res_binary = False\<rparr>,
                 record_sms (redacted_audit clock name False r message_id) s)))"

definition eum_send :: "(string \<Rightarrow> string \<Rightarrow> string \<Rightarrow> string + string) \<Rightarrow> string \<Rightarrow> int \<Rightarrow> sms_sender" where
  "eum_send send_text_message origination_identity clock =
     aws_send ''eum'' send_text_message origination_identity clock"

definition sns_send :: "(string \<Rightarrow> string \<Rightarrow> string \<Rightarrow> string + string) \<Rightarrow> string \<Rightarrow> int \<Rightarrow> sms_sender" where
  "sns_send publish sender_id clock = aws_send ''sns'' publish sender_id clock"

section \<open>The sender's contract\<close>

text \<open>What the provisioning flow relies on: a sender touches nothing of the store but the outbox, and
  leaves even that alone when it raises.\<close>

definition same_but_sms :: "MemoryStore \<Rightarrow> MemoryStore \<Rightarrow> bool" where
  "same_but_sms s t \<longleftrightarrow> t\<lparr>st_sms := st_sms s\<rparr> = s"

locale sms_port =
  fixes send :: sms_sender
  assumes send_outbox_only: "same_but_sms s (snd (send r s))"
    and send_failed: "fst (send r s) = Inl e \<Longrightarrow> snd (send r s) = s"
begin

lemma send_keeps:
  "st_otp (snd (send r s)) = st_otp s"
  "st_otp_sends (snd (send r s)) = st_otp_sends s"
  "st_subscribers (snd (send r s)) = st_subscribers s"
  "st_tokens (snd (send r s)) = st_tokens s"
  "st_msisdn_index (snd (send r s)) = st_msisdn_index s"
  "st_devices (snd (send r s)) = st_devices s"
proof -
  obtain t where t: "t = snd (send r s)" by simp
  have "t\<lparr>st_sms := st_sms s\<rparr> = s"
    using send_outbox_only [of s r] by (simp add: same_but_sms_def t)
  then have "s = t\<lparr>st_sms := st_sms s\<rparr>" ..
  then have "st_otp t = st_otp s \<and> st_otp_sends t = st_otp_sends s \<and>
      st_subscribers t = st_subscribers s \<and> st_tokens t = st_tokens s \<and>
      st_msisdn_index t = st_msisdn_index s \<and> st_devices t = st_devices s"
    by (metis MemoryStore.select_convs(1-6) MemoryStore.surjective MemoryStore.update_convs(9))
  then show "st_otp (snd (send r s)) = st_otp s"
    "st_otp_sends (snd (send r s)) = st_otp_sends s"
    "st_subscribers (snd (send r s)) = st_subscribers s"
    "st_tokens (snd (send r s)) = st_tokens s"
    "st_msisdn_index (snd (send r s)) = st_msisdn_index s"
    "st_devices (snd (send r s)) = st_devices s"
    by (simp_all add: t)
qed

end

lemma same_but_sms_refl [simp]: "same_but_sms s s"
  by (simp add: same_but_sms_def)

lemma same_but_sms_record [simp]: "same_but_sms s (record_sms m s)"
  by (simp add: same_but_sms_def record_sms_def)

interpretation mock_port: sms_port "mock_send clock counter"
  by unfold_locales (simp_all add: mock_send_def)

interpretation aws_port: sms_port "aws_send name client identity clock"
  by unfold_locales (auto simp: aws_send_def split: sum.split if_splits)

text \<open>
  The AWS senders never downgrade: a request for a port-addressed message is refused without a
  call to the provider and without a record, because a text message would never reach the
  client. What they do send is audited by the message id only: the outbox never holds the text,
  and it never holds more than 500 messages.
\<close>

theorem aws_sender_contract:
  "(requires_binary r \<longrightarrow>
      eum_send client identity clock r s = (Inl UnsupportedDelivery, s) \<and>
      sns_send client identity clock r s = (Inl UnsupportedDelivery, s)) \<and>
   (sns_send client identity clock r s = (Inr res, t) \<longrightarrow>
      (\<exists>mid. client (sr_msisdn r) (sr_body r) identity = Inr mid \<and>
         last (st_sms t) = redacted_audit clock ''sns'' False r mid \<and>
         sm_body (last (st_sms t)) = ''<redacted:'' @ mid @ ''>'') \<and>
      length (st_sms t) \<le> 500)"
  by (auto simp: eum_send_def sns_send_def aws_send_def record_sms_def redacted_audit_def
      split: sum.splits if_splits)

theorem aws_sender_contract_witness:
  "let r = \<lparr>sr_msisdn = ''+82'', sr_body = ''code 1'', sr_sms_port = Some 37273, sr_sender_id = ''RCS''\<rparr>;
       q = r\<lparr>sr_sms_port := None\<rparr>
   in sns_send (\<lambda>m b i. Inr ''id7'') [] 5 r empty_store = (Inl UnsupportedDelivery, empty_store) \<and>
      (\<exists>res t. sns_send (\<lambda>m b i. Inr ''id7'') [] 5 q empty_store = (Inr res, t) \<and>
         sm_body (last (st_sms t)) = ''<redacted:id7>'')"
proof -
  let ?r = "\<lparr>sr_msisdn = ''+82'', sr_body = ''code 1'', sr_sms_port = Some 37273, sr_sender_id = ''RCS''\<rparr>"
  let ?c = "\<lambda>m b i. Inr ''id7'' :: string + string"
  have bin: "requires_binary ?r" by (simp add: requires_binary_def)
  have "\<exists>res t. sns_send ?c [] 5 (?r\<lparr>sr_sms_port := None\<rparr>) empty_store = (Inr res, t)"
    by (simp add: sns_send_def aws_send_def requires_binary_def)
  then obtain res t where rt: "sns_send ?c [] 5 (?r\<lparr>sr_sms_port := None\<rparr>) empty_store = (Inr res, t)"
    by blast
  from aws_sender_contract [of ?r ?c "[]" 5 empty_store res t]
    aws_sender_contract [of "?r\<lparr>sr_sms_port := None\<rparr>" ?c "[]" 5 empty_store res t] bin rt
  show ?thesis by (auto simp: Let_def)
qed

end
