(* ===== verification/Vers.thy ===== *)
theory Vers
  imports Acs_Prelude
begin

text \<open>
  \<^verbatim>\<open>src/src/acs/protocol/vers.py\<close>: the table of configuration versions. Positive versions are
  revisions; zero and the negative ones down to \<open>-4\<close> are instructions to the client.
\<close>

section \<open>Definitions\<close>

datatype VersAction = APPLY | DISABLE_KEEP | DISABLE_DELETE_RETRY | DISABLE_DELETE_NO_RETRY
  | DORMANT | BLOCKED

record VersRule =
  vr_version :: int
  vr_action :: VersAction
  vr_client_disabled :: bool
  vr_delete_config :: bool
  vr_may_requery :: bool
  vr_spec_ref :: string
  vr_verified :: bool
  vr_note :: string

datatype vers_error = UnsupportedVersion int

definition spec_ref :: string where
  "spec_ref = ''RCC.14 Configuration version values''"

definition VERS_RULES :: "VersRule list" where
  "VERS_RULES =
    [\<lparr>vr_version = 0, vr_action = DISABLE_KEEP, vr_client_disabled = True,
       vr_delete_config = False, vr_may_requery = True, vr_spec_ref = spec_ref,
       vr_verified = True, vr_note = ''Configuration invalid; RCS off. Re-query only on a trigger.''\<rparr>,
     \<lparr>vr_version = -1, vr_action = DISABLE_DELETE_RETRY, vr_client_disabled = True,
       vr_delete_config = True, vr_may_requery = True, vr_spec_ref = spec_ref,
       vr_verified = False, vr_note = ''Disable and wipe configuration; re-query at the next trigger.''\<rparr>,
     \<lparr>vr_version = -2, vr_action = DISABLE_DELETE_NO_RETRY, vr_client_disabled = True,
       vr_delete_config = True, vr_may_requery = False, vr_spec_ref = spec_ref,
       vr_verified = False, vr_note = ''Disable and wipe; no re-query until factory reset or SIM swap.''\<rparr>,
     \<lparr>vr_version = -3, vr_action = DORMANT, vr_client_disabled = True,
       vr_delete_config = False, vr_may_requery = True, vr_spec_ref = spec_ref,
       vr_verified = False, vr_note = ''Dormant: keep configuration, retry after VALIDITY.''\<rparr>,
     \<lparr>vr_version = -4, vr_action = BLOCKED, vr_client_disabled = True,
       vr_delete_config = False, vr_may_requery = False, vr_spec_ref = spec_ref,
       vr_verified = False, vr_note = ''Device/client permanently barred from provisioning.''\<rparr>]"

definition BY_VERSION :: "(int, VersRule) dict" where
  "BY_VERSION = map (\<lambda>rule. (vr_version rule, rule)) VERS_RULES"

definition FORCEABLE_VERSIONS :: "int list" where
  "FORCEABLE_VERSIONS = rev (sort (map fst BY_VERSION))"

definition rule_for :: "int \<Rightarrow> vers_error + VersRule" where
  "rule_for version =
     (if version > 0
      then Inr \<lparr>vr_version = version, vr_action = APPLY, vr_client_disabled = False,
             vr_delete_config = False, vr_may_requery = True, vr_spec_ref = spec_ref,
       vr_verified = True, vr_note = ''Valid configuration revision.''\<rparr>
      else (case dict_get BY_VERSION version of
              None \<Rightarrow> Inl (UnsupportedVersion version)
            | Some rule \<Rightarrow> Inr rule))"

definition is_disable_value :: "int \<Rightarrow> bool" where
  "is_disable_value version \<longleftrightarrow> version \<le> 0"

definition client_holds_current :: "int \<Rightarrow> int \<Rightarrow> bool" where
  "client_holds_current request_vers server_version \<longleftrightarrow>
     server_version > 0 \<and> request_vers = server_version"

definition next_version :: "int \<Rightarrow> int" where
  "next_version current = (if current > 0 then current + 1 else 1)"

section \<open>Lemmas\<close>

lemma FORCEABLE_VERSIONS_eq: "FORCEABLE_VERSIONS = [0, -1, -2, -3, -4]"
  by (simp add: FORCEABLE_VERSIONS_def BY_VERSION_def VERS_RULES_def)

lemma forceable_iff: "v \<in> set FORCEABLE_VERSIONS \<longleftrightarrow> -4 \<le> v \<and> v \<le> 0"
  by (auto simp: FORCEABLE_VERSIONS_eq)

lemma rule_for_Inr:
  "(\<exists>rule. rule_for v = Inr rule) \<longleftrightarrow> 0 < v \<or> v \<in> set FORCEABLE_VERSIONS"
  by (auto simp: rule_for_def FORCEABLE_VERSIONS_eq BY_VERSION_def VERS_RULES_def dict_get_def)

lemma rule_for_fields:
  "rule_for v = Inr rule \<Longrightarrow>
   vr_version rule = v \<and> vr_client_disabled rule = is_disable_value v \<and>
   (vr_action rule = APPLY \<longleftrightarrow> 0 < v)"
  by (auto simp: rule_for_def BY_VERSION_def VERS_RULES_def dict_get_def is_disable_value_def
      split: if_splits)

lemma next_version_pos [simp]: "0 < next_version v"
  by (simp add: next_version_def)

lemma next_version_increases: "v < next_version v"
  by (simp add: next_version_def)

text \<open>
  The version table and the version arithmetic agree: a rule exists exactly for the
  positive versions and for those an operator may force; it carries the version it was asked
  for and disables the client exactly when \<open>is_disable_value\<close> says so; and bumping any stored
  version gives a strictly larger, positive one, so it is never an instruction and a client
  that held the old revision never counts as current.
\<close>

theorem version_semantics:
  "((\<exists>rule. rule_for v = Inr rule) \<longleftrightarrow> 0 < v \<or> v \<in> set FORCEABLE_VERSIONS) \<and>
   (rule_for v = Inr rule \<longrightarrow> vr_version rule = v \<and>
      vr_client_disabled rule = is_disable_value v) \<and>
   v < next_version v \<and> \<not> is_disable_value (next_version v) \<and>
   \<not> client_holds_current v (next_version v)"
  using rule_for_Inr [of v] rule_for_fields [of v rule]
  by (simp add: is_disable_value_def client_holds_current_def next_version_def)

theorem version_semantics_witness:
  "(\<exists>rule. rule_for (-3) = Inr rule \<and> vr_version rule = -3 \<and> vr_client_disabled rule) \<and>
   \<not> (\<exists>rule. rule_for (-5) = Inr rule) \<and> \<not> is_disable_value (next_version (-3))"
proof -
  obtain rule where r: "rule_for (-3) = Inr rule"
    using version_semantics [of "-3"] by (auto simp: FORCEABLE_VERSIONS_eq)
  have "vr_version rule = -3 \<and> vr_client_disabled rule"
    using version_semantics [of "-3" rule] r by (simp add: is_disable_value_def)
  then show ?thesis
    using r version_semantics [of "-3"] version_semantics [of "-5"]
    by (auto simp: FORCEABLE_VERSIONS_eq)
qed

end
