(* ===== verification/Provisioning.thy ===== *)
theory Provisioning
  imports Omacp_Builder Token Enrichment Gba Sms Vers
begin

text \<open>
  \<^verbatim>\<open>src/src/acs/domain/service.py\<close> with the decisions of \<^verbatim>\<open>auth/identity.py\<close>: the whole life of one
  RCC.14 configuration request over the store. Everything the service gets from outside (time,
  randomness, hash functions, the address parser, the catalogue, the SMS sender, the BSF client)
  is in one record of the environment. The body of an answer is the document that is serialised.
  An exception that the service does not catch is an error of the result; the store keeps what
  was written before it.
\<close>

section \<open>Identities\<close>

datatype IdentityMethod = TOKEN | ENRICHMENT | GBA | OTP | NONE

datatype IdentityDecision = AUTHENTICATED | CHALLENGE_OTP | UNRESOLVED | NOT_ENTITLED

record Identity =
  id_decision :: IdentityDecision
  id_method :: IdentityMethod
  id_subscriber :: "Subscriber option"
  id_candidate_msisdn :: "string option"
  id_detail :: string

definition authenticated :: "Subscriber \<Rightarrow> IdentityMethod \<Rightarrow> Identity" where
  "authenticated sub m = \<lparr>id_decision = AUTHENTICATED, id_method = m, id_subscriber = Some sub,
     id_candidate_msisdn = None, id_detail = []\<rparr>"

definition challenge :: "Subscriber \<Rightarrow> string \<Rightarrow> string \<Rightarrow> Identity" where
  "challenge sub msisdn detail = \<lparr>id_decision = CHALLENGE_OTP, id_method = OTP,
     id_subscriber = Some sub, id_candidate_msisdn = Some msisdn, id_detail = detail\<rparr>"

definition unresolved :: "string \<Rightarrow> Identity" where
  "unresolved detail = \<lparr>id_decision = UNRESOLVED, id_method = NONE, id_subscriber = None,
     id_candidate_msisdn = None, id_detail = detail\<rparr>"

definition not_entitled :: "Subscriber \<Rightarrow> string \<Rightarrow> Identity" where
  "not_entitled sub detail = \<lparr>id_decision = NOT_ENTITLED, id_method = NONE, id_subscriber = Some sub,
     id_candidate_msisdn = None, id_detail = detail\<rparr>"

section \<open>The service's surroundings\<close>

record ('ip, 'net) Env =
  env_clock :: int
  env_sha :: "string \<Rightarrow> string"
  env_hmac :: "string \<Rightarrow> string \<Rightarrow> string"
  env_md5 :: "string \<Rightarrow> string"
  env_b64encode :: "string \<Rightarrow> string"
  env_b64decode :: "string \<Rightarrow> string option"
  env_ip_address :: "string \<Rightarrow> 'ip option"
  env_ip_network :: "string \<Rightarrow> 'net option"
  env_in_network :: "'ip \<Rightarrow> 'net \<Rightarrow> bool"
  env_draws :: "nat \<Rightarrow> nat"
  env_challenge_id :: string
  env_token :: string
  env_dm_password :: string
  env_nonce_random :: string
  env_get_catalog :: "string \<Rightarrow> CatalogError + CatalogEntry list"
  env_send :: sms_sender
  env_bsf :: "(string \<Rightarrow> string \<Rightarrow> gba_error + NafKeys option) option"
  env_store_contended :: bool

datatype service_error = GbaRaised gba_error | VersRaised vers_error | BuildRaised build_error

record ProvisioningOutcome =
  po_status_code :: int
  po_body :: "ProvisioningDoc option"
  po_content_type :: string
  po_headers :: "(string, string) dict"
  po_metric :: string
  po_detail :: string
  po_version :: "int option"

definition no_store_headers :: "(string, string) dict" where
  "no_store_headers = [(''Cache-Control'', ''no-store, no-cache, must-revalidate''),
     (''Pragma'', ''no-cache''), (''X-Content-Type-Options'', ''nosniff'')]"

definition outcome :: "int \<Rightarrow> (string, string) dict \<Rightarrow> string \<Rightarrow> string \<Rightarrow> ProvisioningOutcome" where
  "outcome status extra metric detail = \<lparr>po_status_code = status, po_body = None, po_content_type = [],
     po_headers = no_store_headers @ extra, po_metric = metric, po_detail = detail, po_version = None\<rparr>"

section \<open>Identity resolution\<close>

definition lookup_candidate :: "ConfigQuery \<Rightarrow> MemoryStore \<Rightarrow> Subscriber option" where
  "lookup_candidate q s =
     (let by_msisdn = (if truthy (cq_msisdn q) then get_subscriber_by_msisdn s (the (cq_msisdn q)) else None)
      in if truthy (cq_imsi q)
         then (case get_subscriber s (the (cq_imsi q)) of Some sub \<Rightarrow> Some sub | None \<Rightarrow> by_msisdn)
         else by_msisdn)"

definition resolve_gba :: "('ip, 'net) Env \<Rightarrow> Settings \<Rightarrow> (string, string) dict \<Rightarrow> string \<Rightarrow> MemoryStore \<Rightarrow>
    service_error + Identity option" where
  "resolve_gba env st headers method s =
     (let authorization = dict_get_or headers ''authorization'' []
      in if authorization = [] then Inr None
         else (case env_bsf env of
           None \<Rightarrow> Inr None
         | Some fetch_keys \<Rightarrow>
             (case verify_authorization (env_hmac env) (env_md5 env) (env_b64decode env) authorization
                (set_gba_realm st) (set_gba_nonce_secret st) method fetch_keys None 300 (env_clock env) of
                Inl e \<Rightarrow> Inl (GbaRaised e)
              | Inr check \<Rightarrow>
                  if \<not> ac_ok check then Inr (Some (unresolved (''gba_'' @ ac_reason check)))
                  else (case fetch_keys (ac_btid check) (set_gba_realm st) of
                    Inl e \<Rightarrow> Inl (GbaRaised e)
                  | Inr None \<Rightarrow> Inr (Some (unresolved ''gba_btid_unknown''))
                  | Inr (Some keys) \<Rightarrow>
                      (case get_subscriber s (py_before CHR ''@'' (nk_impi keys)) of
                         None \<Rightarrow> Inr (Some (unresolved ''gba_subscriber_unknown''))
                       | Some sub \<Rightarrow>
                           if \<not> sub_entitled sub then Inr (Some (not_entitled sub ''gba_not_entitled''))
                           else Inr (Some (authenticated sub GBA)))))))"

fun outcome_name :: "OtpOutcome \<Rightarrow> string" where
  "outcome_name VERIFIED = ''verified''"
| "outcome_name NO_CHALLENGE = ''no_challenge''"
| "outcome_name EXPIRED = ''expired''"
| "outcome_name MISMATCH = ''mismatch''"
| "outcome_name EXHAUSTED = ''exhausted''"
| "outcome_name CONSUMED = ''consumed''"

text \<open>Steps 4 to 6 of the chain: a claimed identity, with or without a one-time password.\<close>

definition resolve_claim :: "('ip, 'net) Env \<Rightarrow> Settings \<Rightarrow> ConfigQuery \<Rightarrow> MemoryStore \<Rightarrow>
    Identity \<times> MemoryStore" where
  "resolve_claim env st q s = (case lookup_candidate q s of
     None \<Rightarrow> (unresolved ''subscriber_unknown'', s)
   | Some sub \<Rightarrow>
       if \<not> sub_entitled sub then (not_entitled sub ''not_entitled'', s)
       else if \<not> imei_allowed sub (cq_imei q) then (not_entitled sub ''imei_not_allowed'', s)
       else if truthy (cq_otp q) then
         (case verify_challenge get_otp replace_otp (env_sha env) (env_clock env) (sub_msisdn sub)
                 (the (cq_otp q)) (policy_from_settings st) None s of
            (result, s') \<Rightarrow>
              (if result = VERIFIED then authenticated sub OTP
               else unresolved (''otp_'' @ outcome_name result), s'))
       else (challenge sub (sub_msisdn sub) ''bootstrap'', s))"

definition enriched_identity :: "('ip, 'net) Env \<Rightarrow> Settings \<Rightarrow> (string, string) dict \<Rightarrow> string option \<Rightarrow>
    EnrichmentResult" where
  "enriched_identity env st headers peer =
     resolve_enriched_identity (env_ip_address env) (env_ip_network env) (env_in_network env) headers
       peer (dict_get headers ''x-forwarded-for'') (set_enrichment_header_name st)
       (trusted_proxy_list st) (set_default_country_code st) (set_national_trunk_prefix st)"

definition resolve_identity :: "('ip, 'net) Env \<Rightarrow> Settings \<Rightarrow> ConfigQuery \<Rightarrow> (string, string) dict \<Rightarrow>
    string option \<Rightarrow> string \<Rightarrow> MemoryStore \<Rightarrow> (service_error + Identity) \<times> MemoryStore" where
  "resolve_identity env st q headers peer method s =
     (if truthy (cq_token q) then
        (Inr (case verify_token get_token (env_sha env) (env_clock env) (cq_token q) (cq_imei q)
                (set_token_bind_imei st) s of
           Some record \<Rightarrow>
             (case get_subscriber s (tr_imsi record) of
                None \<Rightarrow> unresolved ''token_orphaned''
              | Some sub \<Rightarrow>
                  if \<not> sub_entitled sub then not_entitled sub ''token_holder_not_entitled''
                  else authenticated sub TOKEN)
         | None \<Rightarrow> unresolved ''token_invalid''), s)
      else if truthy (er_msisdn (enriched_identity env st headers peer)) then
        (Inr (case get_subscriber_by_msisdn s (the (er_msisdn (enriched_identity env st headers peer))) of
           Some sub \<Rightarrow>
             if \<not> sub_entitled sub then not_entitled sub ''enriched_not_entitled''
             else authenticated sub ENRICHMENT
         | None \<Rightarrow> unresolved ''enriched_msisdn_unknown''), s)
      else
        (case (if set_gba_enabled st \<and> env_bsf env \<noteq> None then resolve_gba env st headers method s
               else Inr None) of
           Inl e \<Rightarrow> (Inl e, s)
         | Inr (Some identity) \<Rightarrow> (Inr identity, s)
         | Inr None \<Rightarrow> (case resolve_claim env st q s of (identity, s') \<Rightarrow> (Inr identity, s'))))"

section \<open>Outcomes\<close>

definition unresolved_outcome :: "('ip, 'net) Env \<Rightarrow> Settings \<Rightarrow> Identity \<Rightarrow> ProvisioningOutcome" where
  "unresolved_outcome env st identity =
     (if set_gba_enabled st \<and> env_bsf env \<noteq> None
      then outcome 401 [(''WWW-Authenticate'', challenge_header (set_gba_realm st)
             (make_nonce (env_hmac env) (env_b64encode env) (env_nonce_random env)
               (set_gba_nonce_secret st) None (env_clock env)) ''auth'')]
             ''GbaChallenge'' (id_detail identity)
      else outcome 511 [] ''Challenge511'' (str_or (id_detail identity) ''unresolved''))"

definition pending_outcome :: "Settings \<Rightarrow> string \<Rightarrow> string \<Rightarrow> ProvisioningOutcome" where
  "pending_outcome st metric detail =
     (outcome 200 [(''Content-Length'', ''0'')] metric detail)\<lparr>po_content_type := set_xml_content_type st\<rparr>"

definition issue_otp_challenge :: "('ip, 'net) Env \<Rightarrow> Settings \<Rightarrow> Identity \<Rightarrow> Subscriber \<Rightarrow> ConfigQuery \<Rightarrow>
    MemoryStore \<Rightarrow> (service_error + ProvisioningOutcome) \<times> MemoryStore" where
  "issue_otp_challenge env st identity sub q s =
     (let msisdn = opt_or (id_candidate_msisdn identity) (sub_msisdn sub);
          port = (case cq_sms_port q of Some p \<Rightarrow> if p = 0 then None else Some p | None \<Rightarrow> None)
      in if env_store_contended env
         then (Inr (outcome 503 [(''Retry-After'', ''5'')] ''OtpStoreContention'' ''otp_store_contention''), s)
         else (case create_challenge issue_otp (env_sha env) (env_draws env) (env_challenge_id env)
                 (env_clock env) msisdn (sub_imsi sub) (policy_from_settings st) port None s of
           (Inl blocked, s') \<Rightarrow>
             (if blocked_reason blocked = Cooldown
              then (Inr (pending_outcome st ''OtpPendingReuse'' ''cooldown''), s')
              else (Inr (outcome 429 [(''Retry-After'', str_of_int (blocked_retry_after blocked))]
                      ''OtpRateLimited'' ''daily_quota''), s'))
         | (Inr (chal, clear_otp), s') \<Rightarrow>
             (case py_format [(''otp'', clear_otp)] (set_sms_otp_template st) of
                Inl e \<Rightarrow> (Inl (BuildRaised e), s')
              | Inr body \<Rightarrow>
                  (case env_send env \<lparr>sr_msisdn = msisdn, sr_body = body, sr_sms_port = port,
                          sr_sender_id = set_sms_sender_id st\<rparr> s' of
                     (Inl (SmsDeliveryFailed e), s'') \<Rightarrow>
                       (Inr (outcome 503 [(''Retry-After'', ''60'')] ''OtpDeliveryFailed''
                          ''otp_delivery_failed''), snd (discard_challenge get_otp replace_otp chal s''))
                   | (Inl UnsupportedDelivery, s'') \<Rightarrow>
                       (Inr (outcome 503 [(''Retry-After'', ''3600'')] ''OtpDeliveryUnsupported''
                          ''port_addressed_sms_unsupported''),
                        snd (discard_challenge get_otp replace_otp chal s''))
                   | (Inr _, s'') \<Rightarrow> (Inr (pending_outcome st ''OtpSent'' ''otp_sent''), s'')))))"

definition record_device :: "int \<Rightarrow> Subscriber \<Rightarrow> ConfigQuery \<Rightarrow> MemoryStore \<Rightarrow> MemoryStore" where
  "record_device clock sub q s =
     (let device_id = device_key q;
          device = (case get_device s device_id of
            Some d \<Rightarrow> d
          | None \<Rightarrow> \<lparr>dev_device_id = device_id, dev_imsi = [], dev_manufacturer = [], dev_model = [],
              dev_sw_version = [], dev_client_vendor = [], dev_client_version = [],
              dev_dm_client_version = [], dev_last_seen_at = clock, dev_mo_values = []\<rparr>)
      in put_device (device\<lparr>dev_imsi := sub_imsi sub,
           dev_manufacturer := opt_or (cq_terminal_vendor q) (dev_manufacturer device),
           dev_model := opt_or (cq_terminal_model q) (dev_model device),
           dev_sw_version := opt_or (cq_terminal_sw_version q) (dev_sw_version device),
           dev_client_vendor := opt_or (cq_client_vendor q) (dev_client_vendor device),
           dev_client_version := opt_or (cq_client_version q) (dev_client_version device),
           dev_last_seen_at := clock\<rparr>) s)"

definition config_outcome :: "Settings \<Rightarrow> ProvisioningDoc \<Rightarrow> string \<Rightarrow> string \<Rightarrow> int \<Rightarrow> ProvisioningOutcome" where
  "config_outcome st doc metric detail version =
     (outcome 200 [] metric detail)\<lparr>po_body := Some doc, po_content_type := set_xml_content_type st,
        po_version := Some version\<rparr>"

fun action_value :: "VersAction \<Rightarrow> string" where
  "action_value APPLY = ''apply''"
| "action_value DISABLE_KEEP = ''disable_keep''"
| "action_value DISABLE_DELETE_RETRY = ''disable_delete_retry''"
| "action_value DISABLE_DELETE_NO_RETRY = ''disable_delete_no_retry''"
| "action_value DORMANT = ''dormant''"
| "action_value BLOCKED = ''blocked''"

fun method_value :: "IdentityMethod \<Rightarrow> string" where
  "method_value TOKEN = ''token''"
| "method_value ENRICHMENT = ''enrichment''"
| "method_value GBA = ''gba''"
| "method_value OTP = ''otp''"
| "method_value NONE = ''none''"

text \<open>The part of \<open>_serve_configuration\<close> that issues a token and builds the full document.\<close>

definition serve_full :: "('ip, 'net) Env \<Rightarrow> Settings \<Rightarrow> Subscriber \<Rightarrow> int \<Rightarrow> ConfigQuery \<Rightarrow> IdentityMethod \<Rightarrow>
    MemoryStore \<Rightarrow> (service_error + ProvisioningOutcome) \<times> MemoryStore" where
  "serve_full env st sub version q method s =
     (case issue_token put_token (env_sha env) (env_token env) (env_clock env) (sub_imsi sub) (cq_imei q)
             (set_token_ttl_seconds st) (set_token_bind_imei st) s of
        (token, s1) \<Rightarrow>
          (let fresh = set_dm_enabled st \<and> set_dm_bootstrap_in_cp st \<and> sub_dm_password sub = [];
               dm_password = (if fresh then env_dm_password env else sub_dm_password sub);
               sub1 = (if fresh then sub\<lparr>sub_dm_password := dm_password\<rparr> else sub);
               s2 = (if fresh then put_subscriber sub1 s1 else s1)
           in case build_document (env_get_catalog env) st q (sub_imsi sub1) (sub_msisdn sub1) version
                  (set_provisioning_validity_seconds st)
                  (str_or (sub_rcs_profile sub1) (opt_or (cq_rcs_profile q) (set_default_rcs_profile st)))
                  (Some token) (sub_overrides sub1) dm_password [] of
                Inl e \<Rightarrow> (Inl (BuildRaised e), s2)
              | Inr doc \<Rightarrow>
                  (Inr (config_outcome st doc ''ConfigServed'' (method_value method) version),
                   record_device (env_clock env) sub1 q s2)))"

definition serve_configuration :: "('ip, 'net) Env \<Rightarrow> Settings \<Rightarrow> Subscriber \<Rightarrow> ConfigQuery \<Rightarrow>
    IdentityMethod \<Rightarrow> MemoryStore \<Rightarrow> (service_error + ProvisioningOutcome) \<times> MemoryStore" where
  "serve_configuration env st sub q method s =
     (let validity = set_provisioning_validity_seconds st
      in case sub_forced_vers sub of
           Some forced \<Rightarrow>
             (case rule_for forced of
                Inl e \<Rightarrow> (Inl (VersRaised e), s)
              | Inr rule \<Rightarrow>
                  (Inr (config_outcome st (build_vers_only_document forced validity) ''ConfigDisabled''
                     (action_value (vr_action rule)) forced), s))
         | None \<Rightarrow>
             (let version = (if sub_provisioning_version sub \<le> 0
                    then next_version (sub_provisioning_version sub) else sub_provisioning_version sub);
                  sub1 = sub\<lparr>sub_provisioning_version := version\<rparr>;
                  s1 = (if sub_provisioning_version sub \<le> 0 then put_subscriber sub1 s else s)
              in if client_holds_current (cq_vers q) version
                 then (Inr (config_outcome st (build_vers_only_document version validity)
                         ''ConfigUnchanged'' ''vers_only'' version), s1)
                 else serve_full env st sub1 version q method s1))"

definition handle :: "('ip, 'net) Env \<Rightarrow> Settings \<Rightarrow> ConfigQuery \<Rightarrow> (string, string) dict \<Rightarrow> string option \<Rightarrow>
    string \<Rightarrow> MemoryStore \<Rightarrow> (service_error + ProvisioningOutcome) \<times> MemoryStore" where
  "handle env st q headers peer method s =
     (case resolve_identity env st q headers peer method s of
        (Inl e, s') \<Rightarrow> (Inl e, s')
      | (Inr identity, s') \<Rightarrow>
          (case id_decision identity of
             NOT_ENTITLED \<Rightarrow>
               (Inr (outcome 403 [] ''Rejected403'' (str_or (id_detail identity) ''not_entitled'')), s')
           | UNRESOLVED \<Rightarrow> (Inr (unresolved_outcome env st identity), s')
           | CHALLENGE_OTP \<Rightarrow> issue_otp_challenge env st identity (the (id_subscriber identity)) q s'
           | AUTHENTICATED \<Rightarrow>
               serve_configuration env st (the (id_subscriber identity)) q (id_method identity) s'))"

section \<open>Who is served\<close>

text \<open>The evidence behind an authenticated identity.\<close>

definition evidence :: "('ip, 'net) Env \<Rightarrow> Settings \<Rightarrow> ConfigQuery \<Rightarrow> (string, string) dict \<Rightarrow> string option \<Rightarrow>
    string \<Rightarrow> MemoryStore \<Rightarrow> IdentityMethod \<Rightarrow> Subscriber \<Rightarrow> bool" where
  "evidence env st q headers peer method s how sub = (case how of
     TOKEN \<Rightarrow> (\<exists>r. verify_token get_token (env_sha env) (env_clock env) (cq_token q) (cq_imei q)
         (set_token_bind_imei st) s = Some r \<and> get_subscriber s (tr_imsi r) = Some sub)
   | ENRICHMENT \<Rightarrow> (\<exists>m. er_msisdn (enriched_identity env st headers peer) = Some m \<and>
         get_subscriber_by_msisdn s m = Some sub)
   | GBA \<Rightarrow> set_gba_enabled st \<and> (\<exists>fetch check keys. env_bsf env = Some fetch \<and>
         verify_authorization (env_hmac env) (env_md5 env) (env_b64decode env)
           (dict_get_or headers ''authorization'' []) (set_gba_realm st) (set_gba_nonce_secret st) method
           fetch None 300 (env_clock env) = Inr check \<and> ac_ok check \<and>
         fetch (ac_btid check) (set_gba_realm st) = Inr (Some keys) \<and>
         get_subscriber s (py_before CHR ''@'' (nk_impi keys)) = Some sub)
   | OTP \<Rightarrow> lookup_candidate q s = Some sub \<and> imei_allowed sub (cq_imei q) \<and>
         fst (verify_challenge get_otp replace_otp (env_sha env) (env_clock env) (sub_msisdn sub)
           (the (cq_otp q)) (policy_from_settings st) None s) = VERIFIED
   | NONE \<Rightarrow> False)"

lemmas identity_defs = authenticated_def challenge_def unresolved_def not_entitled_def

lemma identity_decisions [simp]:
  "id_decision (authenticated sub m) = AUTHENTICATED"
  "id_decision (challenge sub n d) = CHALLENGE_OTP"
  "id_decision (unresolved d) = UNRESOLVED"
  "id_decision (not_entitled sub d) = NOT_ENTITLED"
  "id_method (authenticated sub m) = m"
  "id_subscriber (authenticated sub m) = Some sub"
  "id_subscriber (challenge sub n d) = Some sub"
  "id_candidate_msisdn (challenge sub n d) = Some n"
  by (simp_all add: identity_defs)

lemma resolve_gba_authenticated:
  assumes "resolve_gba env st headers method s = Inr (Some i)" and "id_decision i = AUTHENTICATED"
    and "set_gba_enabled st"
  obtains sub where "id_subscriber i = Some sub" and "id_method i = GBA" and "sub_entitled sub"
    and "evidence env st q headers peer method s GBA sub"
proof -
  obtain fetch check where f: "env_bsf env = Some fetch" "verify_authorization (env_hmac env) (env_md5 env)
      (env_b64decode env) (dict_get_or headers ''authorization'' []) (set_gba_realm st)
      (set_gba_nonce_secret st) method fetch None 300 (env_clock env) = Inr check"
    using assms(1) by (auto simp: resolve_gba_def Let_def split: if_splits option.splits sum.splits)
  have ok: "ac_ok check"
    using assms(1,2) f by (auto simp: resolve_gba_def Let_def split: if_splits)
  obtain keys where k: "fetch (ac_btid check) (set_gba_realm st) = Inr (Some keys)"
    using assms(1,2) f ok by (auto simp: resolve_gba_def Let_def split: if_splits option.splits sum.splits)
  obtain sub where "get_subscriber s (py_before CHR ''@'' (nk_impi keys)) = Some sub" "sub_entitled sub"
      "i = authenticated sub GBA"
    using assms(1,2) f ok k by (auto simp: resolve_gba_def Let_def split: if_splits option.splits)
  with f ok k assms(3) that show ?thesis by (auto simp: evidence_def)
qed

lemma resolve_claim_authenticated:
  assumes "resolve_claim env st q s = (i, s')" and "id_decision i = AUTHENTICATED"
  obtains sub where "id_subscriber i = Some sub" and "id_method i = OTP" and "sub_entitled sub"
    and "evidence env st q headers peer method s OTP sub"
  using assms that
  by (auto simp: resolve_claim_def evidence_def split: option.splits if_splits prod.splits)

lemma resolve_identity_authenticated:
  assumes "resolve_identity env st q headers peer method s = (Inr i, s')"
    and "id_decision i = AUTHENTICATED"
  obtains sub where "id_subscriber i = Some sub" and "sub_entitled sub"
    and "evidence env st q headers peer method s (id_method i) sub"
proof (cases "truthy (cq_token q) \<or> truthy (er_msisdn (enriched_identity env st headers peer))")
  case True
  with assms that show ?thesis
    by (cases "truthy (cq_token q)")
      (auto simp: resolve_identity_def evidence_def truthy_def split: option.splits if_splits)
next
  case False
  let ?g = "if set_gba_enabled st \<and> env_bsf env \<noteq> None then resolve_gba env st headers method s else Inr None"
  from False assms(1) have r: "(case ?g of Inl e \<Rightarrow> (Inl e, s) | Inr (Some j) \<Rightarrow> (Inr j, s)
      | Inr None \<Rightarrow> (case resolve_claim env st q s of (j, s') \<Rightarrow> (Inr j, s'))) = (Inr i, s')"
    by (simp add: resolve_identity_def)
  show ?thesis
  proof (cases ?g)
    case (Inl e)
    with r show ?thesis by simp
  next
    case (Inr found)
    show ?thesis
    proof (cases found)
      case None
      with r Inr have "resolve_claim env st q s = (i, s')" by (auto split: prod.splits)
      from resolve_claim_authenticated [OF this assms(2)] that show ?thesis by metis
    next
      case (Some j)
      with r Inr have j: "j = i" by simp
      from Inr Some j have "set_gba_enabled st" "resolve_gba env st headers method s = Inr (Some i)"
        by (auto split: if_splits)
      from resolve_gba_authenticated [OF this(2) assms(2) this(1)] that show ?thesis by metis
    qed
  qed
qed

lemma outcome_fields [simp]:
  "po_body (outcome c x m d) = None" "po_status_code (outcome c x m d) = c"
  "po_body (pending_outcome st m d) = None" "po_status_code (pending_outcome st m d) = 200"
  "po_body (config_outcome st doc m d v) = Some doc" "po_status_code (config_outcome st doc m d v) = 200"
  "po_version (config_outcome st doc m d v) = Some v"
  "po_metric (config_outcome st doc m d v) = m"
  "po_metric (outcome c x m d) = m"
  "po_metric (pending_outcome st m d) = m"
  by (simp_all add: outcome_def pending_outcome_def config_outcome_def)

lemma issue_otp_challenge_no_body:
  "issue_otp_challenge env st i sub q s = (Inr out, s') \<Longrightarrow>
   po_body out = None \<and> po_status_code out \<in> {200, 429, 503}"
  by (auto simp: issue_otp_challenge_def Let_def split: if_splits prod.splits sum.splits sms_error.splits)

lemma unresolved_outcome_no_body:
  "po_body (unresolved_outcome env st i) = None \<and> po_status_code (unresolved_outcome env st i) \<in> {401, 511}"
  by (simp add: unresolved_outcome_def)

lemma handle_body:
  assumes "handle env st q headers peer method s = (Inr out, s')" and "po_body out = Some doc"
  obtains i t where "resolve_identity env st q headers peer method s = (Inr i, t)"
    and "id_decision i = AUTHENTICATED"
    and "serve_configuration env st (the (id_subscriber i)) q (id_method i) t = (Inr out, s')"
proof -
  obtain i t where i: "resolve_identity env st q headers peer method s = (Inr i, t)"
    using assms(1) by (auto simp: handle_def split: prod.splits sum.splits)
  show ?thesis
  proof (cases "id_decision i")
    case AUTHENTICATED
    with assms(1) i that show ?thesis by (simp add: handle_def)
  next
    case CHALLENGE_OTP
    with assms i issue_otp_challenge_no_body [of env st i _ q t out s'] show ?thesis by (simp add: handle_def)
  next
    case UNRESOLVED
    with assms i unresolved_outcome_no_body [of env st i] show ?thesis by (auto simp: handle_def)
  next
    case NOT_ENTITLED
    with assms i show ?thesis by (auto simp: handle_def)
  qed
qed

lemma not_truthy_None: "\<not> truthy None"
  by (simp add: truthy_def)

lemma no_proxies_no_enrichment:
  "trusted_proxy_list st = [] \<Longrightarrow> er_msisdn (enriched_identity env st headers peer) = None"
  by (simp add: enriched_identity_def resolve_enriched_identity_def)

text \<open>
  C2. Configuration is served only to a proven subscriber. Whenever a request is answered with a
  document, the server found a subscriber who is entitled to the service and for whom there is
  evidence: a valid token, a number asserted by a trusted gateway, a verified GBA response, or
  the right one-time password from a handset the allow-list admits. In particular a request that
  only claims an IMSI or an MSISDN, on a server without gateways and GBA, gets no document.
\<close>

theorem configuration_needs_evidence:
  assumes "handle env st q headers peer method s = (Inr out, s')" and "po_body out = Some doc"
  shows "(\<exists>sub how. sub_entitled sub \<and> evidence env st q headers peer method s how sub) \<and>
    (truthy (cq_token q) \<or> trusted_proxy_list st \<noteq> [] \<or> set_gba_enabled st \<or> truthy (cq_otp q))"
proof -
  obtain i t where i: "resolve_identity env st q headers peer method s = (Inr i, t)"
      "id_decision i = AUTHENTICATED"
    using handle_body [OF assms] by metis
  obtain sub where "sub_entitled sub" "evidence env st q headers peer method s (id_method i) sub"
    using resolve_identity_authenticated [OF i] by metis
  moreover have "truthy (cq_token q) \<or> trusted_proxy_list st \<noteq> [] \<or> set_gba_enabled st \<or> truthy (cq_otp q)"
  proof (rule ccontr)
    assume none: "\<not> ?thesis"
    then have "resolve_identity env st q headers peer method s
        = (case resolve_claim env st q s of (j, t) \<Rightarrow> (Inr j, t))"
      by (simp add: resolve_identity_def no_proxies_no_enrichment not_truthy_None)
    with none i show False
      by (auto simp: resolve_claim_def split: option.splits if_splits prod.splits)
  qed
  ultimately show ?thesis by blast
qed

definition demo_env :: "(nat, nat) Env" where
  "demo_env = \<lparr>env_clock = 2000, env_sha = (\<lambda>x. x), env_hmac = (\<lambda>k x. x), env_md5 = (\<lambda>x. x),
     env_b64encode = (\<lambda>x. x), env_b64decode = Some, env_ip_address = (\<lambda>a. None), env_ip_network = (\<lambda>n. None),
     env_in_network = (\<lambda>i n. False), env_draws = (\<lambda>i. i), env_challenge_id = ''c9'', env_token = ''tok2'',
     env_dm_password = ''dm'', env_nonce_random = ''r'', env_get_catalog = demo_catalog,
     env_send = mock_send 2000 0, env_bsf = None, env_store_contended = False\<rparr>"

definition demo_service_store :: MemoryStore where
  "demo_service_store =
     snd (issue_token put_token (\<lambda>x. x) ''abc'' 1000 ''450051234567890'' None 3600 True
       (put_subscriber (demo_subscriber ''450051234567890'' ''+8210'') empty_store))"

lemma demo_service_store_facts:
  "get_token demo_service_store ''abc'' = Some \<lparr>tr_token_hash = ''abc'', tr_imsi = ''450051234567890'',
     tr_imei = None, tr_issued_at = 1000, tr_expires_at = 4600, tr_revoked = False\<rparr>"
  "get_subscriber demo_service_store ''450051234567890'' = Some (demo_subscriber ''450051234567890'' ''+8210'')"
  by (simp_all add: demo_service_store_def issue_token_def hash_token_def get_token_def put_token_def
      get_subscriber_def put_subscriber_def empty_store_def demo_subscriber_def)

lemma demo_resolved:
  "resolve_identity demo_env demo_settings (demo_query\<lparr>cq_token := Some ''abc'', cq_vers := v\<rparr>) [] None ''GET''
     demo_service_store = (Inr (authenticated (demo_subscriber ''450051234567890'' ''+8210'') TOKEN), demo_service_store)"
proof -
  have "verify_token get_token (env_sha demo_env) (env_clock demo_env) (Some ''abc'') imei b demo_service_store
      = Some \<lparr>tr_token_hash = ''abc'', tr_imsi = ''450051234567890'', tr_imei = None, tr_issued_at = 1000,
          tr_expires_at = 4600, tr_revoked = False\<rparr>" for imei b
    by (simp add: verify_token_Some truthy_def token_usable_def demo_service_store_facts demo_env_def)
  then show ?thesis
    by (simp add: resolve_identity_def truthy_def demo_service_store_facts) (simp add: demo_subscriber_def)
qed

theorem configuration_needs_evidence_witness:
  "\<exists>out s' doc sub how. handle demo_env demo_settings (demo_query\<lparr>cq_token := Some ''abc'', cq_vers := 1\<rparr>) []
      None ''GET'' demo_service_store = (Inr out, s') \<and> po_body out = Some doc \<and> sub_entitled sub \<and>
     evidence demo_env demo_settings (demo_query\<lparr>cq_token := Some ''abc'', cq_vers := 1\<rparr>) [] None ''GET''
       demo_service_store how sub"
proof -
  let ?q = "demo_query\<lparr>cq_token := Some ''abc'', cq_vers := 1\<rparr>"
  let ?sub = "demo_subscriber ''450051234567890'' ''+8210''"
  let ?d = "build_vers_only_document 1 (set_provisioning_validity_seconds demo_settings)"
  let ?out = "config_outcome demo_settings ?d ''ConfigUnchanged'' ''vers_only'' 1"
  have "serve_configuration demo_env demo_settings ?sub ?q TOKEN demo_service_store
      = (Inr ?out, demo_service_store)"
    by (simp add: serve_configuration_def client_holds_current_def demo_subscriber_def)
  then have h: "handle demo_env demo_settings ?q [] None ''GET'' demo_service_store = (Inr ?out, demo_service_store)"
    by (simp add: handle_def demo_resolved)
  have b: "po_body ?out = Some ?d" by simp
  from configuration_needs_evidence [OF h b] h b show ?thesis by blast
qed

section \<open>What is served\<close>

lemma built_vers_first:
  assumes "build_document get_catalog st q imsi msisdn version validity profile token overrides pw host
      = Inr doc"
  shows "vers_first version validity doc"
proof (rule build_document_stages [OF assms])
  fix catalog ctx d
  assume s: "add_entries ctx overrides (selected_entries catalog
      (str_or profile (opt_or (cq_rcs_profile q) (set_default_rcs_profile st))) (cq_apps q))
      (start_document version validity token) = Inr d"
    "doc = (if set_dm_bootstrap_in_cp st \<and> set_dm_enabled st \<and> pw \<noteq> []
      then doc_add (dm_account_characteristic st ctx pw) (apply_default_sms_app_policy q d)
      else apply_default_sms_app_policy q d)"
  have "vers_first version validity d"
    by (rule add_entries_invariant [OF s(1)]) (simp_all add: start_document_ok vers_first_ensure_path_add)
  then show ?thesis by (simp add: s(2) vers_first_doc_add vers_first_policy)
qed

lemma issue_token_token: "fst (issue_token put sha token now imsi imei ttl bind s) = token"
  by (simp add: issue_token_def)

lemma serve_full_served:
  assumes "serve_full env st sub version q method s = (Inr out, s')"
  obtains doc overrides pw sub1 where "out = config_outcome st doc ''ConfigServed'' (method_value method) version"
    and "build_document (env_get_catalog env) st q (sub_imsi sub) (sub_msisdn sub) version
      (set_provisioning_validity_seconds st)
      (str_or (sub_rcs_profile sub) (opt_or (cq_rcs_profile q) (set_default_rcs_profile st)))
      (Some (env_token env)) (sub_overrides sub) pw [] = Inr doc"
    and "st_tokens s' = st_tokens (snd (issue_token put_token (env_sha env) (env_token env) (env_clock env)
      (sub_imsi sub) (cq_imei q) (set_token_ttl_seconds st) (set_token_bind_imei st) s))"
proof -
  obtain s1 where s1: "issue_token put_token (env_sha env) (env_token env) (env_clock env)
      (sub_imsi sub) (cq_imei q) (set_token_ttl_seconds st) (set_token_bind_imei st) s = (env_token env, s1)"
    by (simp add: issue_token_def)
  have keep: "st_tokens (record_device clock x q y) = st_tokens y" "st_tokens (put_subscriber x y) = st_tokens y"
    for clock x y by (simp_all add: record_device_def put_device_def put_subscriber_def Let_def)
  show ?thesis
    using assms that s1 by (auto simp: serve_full_def Let_def keep split: sum.splits if_splits)
qed



section \<open>Sending the code\<close>

lemma create_challenge_stored:
  assumes "create_challenge issue_otp sha draws cid clock m imsi policy port now s = (Inr (c, otp), s')"
    and "otp_keyed s"
  shows "otp_keyed s' \<and> oc_msisdn c = m \<and> get_otp s' m' = (if m' = m then Some c else get_otp s m')"
proof -
  let ?c = "new_challenge sha otp cid m imsi policy port (time_or now clock)"
  have st: "issue_otp clock ?c (pol_resend_cooldown_seconds policy)
        (pol_max_sends_per_day policy) (time_or now clock) s = (None, s')" "c = ?c"
    using assms(1) by (auto simp: create_challenge_def Let_def split: prod.splits option.splits)
  have m: "oc_msisdn ?c = m" by (simp add: new_challenge_def)
  show ?thesis
    using memory_otp.issue_get [of clock ?c "pol_resend_cooldown_seconds policy"
        "pol_max_sends_per_day policy" "time_or now clock" s m']
      memory_otp.issue_keyed [OF assms(2), of clock ?c "pol_resend_cooldown_seconds policy"
        "pol_max_sends_per_day policy" "time_or now clock"]
    by (simp add: st m)
qed

lemma discard_stored:
  assumes "otp_keyed s" and "get_otp s m = Some c" and "oc_msisdn c = m"
  shows "get_otp (snd (discard_challenge get_otp replace_otp c s)) m' = (if m' = m then None else get_otp s m')"
  using memory_otp.discard_round_alone(1) [OF assms(1,3), where n = 4]
    memory_otp.discard_round_alone(2) [OF assms(1,3), where n = 4 and m' = m'] assms(2)
  by (simp add: discard_challenge_def VERIFY_ROUNDS_Suc del: discard_rounds.simps)



end
