(* ===== verification/Motree.thy ===== *)
theory Motree
  imports Omacp_Builder
begin

text \<open>
  The OMA-DM management object tree, \<^verbatim>\<open>src/src/acs/protocol/omadm/motree.py\<close>: the nodes that the
  YAML files declare, their validation when they are loaded, lookup by URI, the nodes the server
  asks for and the nodes it pushes, and rendering of a node's value. Files are given as parsed YAML
  mappings; reading the directory is left out. Templates are those of \<^theory_text>\<open>Omacp_Builder\<close>, whose
  formatter is the same.
\<close>

section \<open>Nodes and objects\<close>

record MoNode =
  mo_uri :: string
  mo_format :: string
  mo_type :: string
  mo_source :: string
  mo_default :: string
  mo_access :: "string list"
  mo_spec :: string
  mo_verified :: bool
  mo_doc :: string
  mo_feature :: string

definition is_interior :: "MoNode \<Rightarrow> bool" where
  "is_interior n \<longleftrightarrow> mo_format n = ''node''"

text \<open>\<open>uri.rsplit("/", 1)\<close>: its first part, or a dot, and its last.\<close>

definition node_parent :: "MoNode \<Rightarrow> string" where
  "node_parent n = (case py_rpartition CHR ''/'' (mo_uri n) of (head, sep, tail) \<Rightarrow>
     str_or (if sep then head else tail) ''.'')"

definition node_name :: "MoNode \<Rightarrow> string" where
  "node_name n = snd (snd (py_rpartition CHR ''/'' (mo_uri n)))"

record ManagementObject =
  mb_id :: string
  mb_urn :: string
  mb_root :: string
  mb_title :: string
  mb_nodes :: "MoNode list"
  mb_spec :: string

type_synonym MoTree = "ManagementObject list"

definition all_nodes :: "MoTree \<Rightarrow> MoNode list" where
  "all_nodes tree = concat (map mb_nodes tree)"

definition by_uri :: "MoTree \<Rightarrow> (string, MoNode) dict" where
  "by_uri tree = fold (\<lambda>n d. dict_put (mo_uri n) n d) (all_nodes tree) []"

definition tree_node :: "MoTree \<Rightarrow> string \<Rightarrow> MoNode option" where
  "tree_node tree uri = dict_get (by_uri tree) (py_rstrip_chars ''/'' uri)"

definition object_for :: "MoTree \<Rightarrow> string \<Rightarrow> ManagementObject option" where
  "object_for tree uri = List.find (\<lambda>mo. uri = mb_root mo \<or> py_startswith uri (mb_root mo @ ''/'')) tree"

definition tree_children :: "MoTree \<Rightarrow> string \<Rightarrow> MoNode list" where
  "tree_children tree uri = (let pre = py_rstrip_chars ''/'' uri @ ''/'' in
     filter (\<lambda>n. py_startswith (mo_uri n) pre \<and> CHR ''/'' \<notin> set (drop (length pre) (mo_uri n))) (all_nodes tree))"

definition device_query_uris :: "MoTree \<Rightarrow> string list" where
  "device_query_uris tree =
     map mo_uri (filter (\<lambda>n. mo_source n = ''device'' \<and> \<not> is_interior n) (all_nodes tree))"

definition server_nodes :: "MoTree \<Rightarrow> string list \<Rightarrow> MoNode list" where
  "server_nodes tree features = filter (\<lambda>n. mo_source n = ''server'' \<and> \<not> is_interior n \<and>
     (mo_feature n = [] \<or> mo_feature n \<in> set features)) (all_nodes tree)"

definition render_node :: "MoNode \<Rightarrow> (string, string) dict \<Rightarrow> (string, string) dict \<Rightarrow> build_error + string" where
  "render_node n context overrides = (let raw = dict_get_or overrides (mo_uri n) (mo_default n)
     in if CHR ''{'' \<notin> set raw then Inr raw else vformat (safe_value context) raw)"

definition tree_urns :: "MoTree \<Rightarrow> string list" where
  "tree_urns tree = map mb_urn tree"

definition tree_verified_count :: "MoTree \<Rightarrow> nat" where
  "tree_verified_count tree = length (filter mo_verified (all_nodes tree))"

definition build_context :: "string \<Rightarrow> string \<Rightarrow> string \<Rightarrow> string \<Rightarrow> string \<Rightarrow> string \<Rightarrow>
    (string, string) dict \<Rightarrow> (string, string) dict" where
  "build_context imsi msisdn device_id ims_domain impi impu extra =
     fold (\<lambda>(k, v) d. dict_put k v d) extra
       [(''imsi'', imsi), (''msisdn'', msisdn), (''msisdn_national'', py_lstrip_chars ''+'' msisdn),
        (''device_id'', device_id), (''ims_domain'', ims_domain), (''impi'', impi), (''impu'', impu)]"

section \<open>Loading\<close>

datatype mo_error =
  NodeMissingUri
| NodeNotText string
| InvalidNodeUri string
| NodeOutsideRoot string
| UnknownFormat string
| UnknownSource string
| BadIntNode string
| BadBoolNode string
| MetaRequired string
| NoNodes
| DuplicateNode string
| NoObjects
| DuplicateRoot

definition VALID_FORMATS :: "string list" where
  "VALID_FORMATS = [''chr'', ''int'', ''bool'', ''b64'', ''node'', ''xml'']"

definition uri_char :: "char \<Rightarrow> bool" where
  "uri_char c \<longleftrightarrow> (let n = code_of c in (65 \<le> n \<and> n \<le> 90) \<or> (97 \<le> n \<and> n \<le> 122) \<or> is_decimal c \<or>
     c \<in> {CHR ''_'', CHR ''-'', CHR ''.'', CHR ''/''})"

definition URI_RE :: "string \<Rightarrow> bool" where
  "URI_RE s \<longleftrightarrow> re_line (\<lambda>u. py_startswith u ''./'' \<and> list_all uri_char (drop 2 u)) s"

text \<open>\<open>str(raw.get(key, default))\<close> on a scalar; a list raises no error in the code but would be
  printed in brackets, and is refused here.\<close>

definition node_text :: "raw_entry \<Rightarrow> string \<Rightarrow> string \<Rightarrow> mo_error + string" where
  "node_text raw key dflt = (case dict_get raw key of
     None \<Rightarrow> Inr dflt
   | Some v \<Rightarrow> (case yaml_text key v of Inr s \<Rightarrow> Inr s | Inl _ \<Rightarrow> Inl (NodeNotText key)))"

definition node_access :: "raw_entry \<Rightarrow> mo_error + string list" where
  "node_access raw = (case dict_get raw ''access'' of
     None \<Rightarrow> Inr [''Get'']
   | Some (YList vs) \<Rightarrow> (case yaml_texts ''access'' vs of Inr ss \<Rightarrow> Inr ss | Inl _ \<Rightarrow> Inl (NodeNotText ''access''))
   | Some (YStr s) \<Rightarrow> Inr (map (\<lambda>c. [c]) s)
   | Some _ \<Rightarrow> Inl (NodeNotText ''access''))"

definition node_default :: "raw_entry \<Rightarrow> mo_error + string" where
  "node_default raw = (case dict_get raw ''default'' of
     Some YNull \<Rightarrow> Inr []
   | _ \<Rightarrow> node_text raw ''default'' [])"

text \<open>\<open>_coerce_node\<close>: its checks, and the node they let through.\<close>

definition check_node :: "raw_entry \<Rightarrow> string \<Rightarrow> mo_error + string \<times> string \<times> string \<times> string" where
  "check_node raw root =
     (if dict_get raw ''uri'' = None then Inl NodeMissingUri
      else bind_err (node_text raw ''uri'' []) (\<lambda>text.
      let uri = py_strip text in
      if \<not> URI_RE uri then Inl (InvalidNodeUri uri)
      else if \<not> (uri = root \<or> py_startswith uri (py_rstrip_chars ''/'' root @ ''/'')) then Inl (NodeOutsideRoot uri)
      else bind_err (node_text raw ''format'' ''chr'') (\<lambda>fmt.
      if fmt \<notin> set VALID_FORMATS then Inl (UnknownFormat fmt)
      else bind_err (node_text raw ''source'' ''server'') (\<lambda>source.
      if source \<notin> {''device'', ''server''} then Inl (UnknownSource source)
      else bind_err (node_default raw) (\<lambda>dflt.
      if fmt = ''int'' \<and> dflt \<noteq> [] \<and> CHR ''{'' \<notin> set dflt \<and> py_int dflt = None then Inl (BadIntNode uri)
      else if fmt = ''bool'' \<and> dflt \<noteq> [] \<and> dflt \<notin> {''true'', ''false''} then Inl (BadBoolNode uri)
      else Inr (uri, fmt, source, dflt))))))"

definition coerce_node :: "raw_entry \<Rightarrow> string \<Rightarrow> mo_error + MoNode" where
  "coerce_node raw root =
     bind_err (check_node raw root) (\<lambda>(uri, fmt, source, dflt).
     bind_err (node_text raw ''type'' (if fmt = ''node'' then ''node'' else ''text/plain'')) (\<lambda>type.
     bind_err (node_access raw) (\<lambda>access.
     bind_err (node_text raw ''spec'' []) (\<lambda>spec.
     bind_err (node_text raw ''doc'' []) (\<lambda>doc.
     bind_err (node_text raw ''feature'' []) (\<lambda>feature.
     Inr \<lparr>mo_uri = uri, mo_format = fmt, mo_type = type, mo_source = source, mo_default = dflt,
          mo_access = access, mo_spec = spec,
          mo_verified = (case dict_get raw ''verified'' of None \<Rightarrow> False | Some v \<Rightarrow> yaml_truthy v),
          mo_doc = doc, mo_feature = feature\<rparr>))))))"

fun coerce_nodes :: "raw_entry list \<Rightarrow> string \<Rightarrow> string list \<Rightarrow> mo_error + MoNode list" where
  "coerce_nodes [] root seen = Inr []"
| "coerce_nodes (raw # raws) root seen =
     bind_err (coerce_node raw root) (\<lambda>n.
     if mo_uri n \<in> set seen then Inl (DuplicateNode (mo_uri n))
     else bind_err (coerce_nodes raws root (mo_uri n # seen)) (\<lambda>ns. Inr (n # ns)))"

fun require_meta :: "raw_entry \<Rightarrow> string list \<Rightarrow> mo_error + unit" where
  "require_meta meta [] = Inr ()"
| "require_meta meta (key # keys) =
     (case dict_get meta key of
        Some v \<Rightarrow> if yaml_truthy v then require_meta meta keys else Inl (MetaRequired key)
      | None \<Rightarrow> Inl (MetaRequired key))"

definition load_object :: "raw_entry \<Rightarrow> raw_entry list \<Rightarrow> mo_error + ManagementObject" where
  "load_object meta raw_nodes =
     bind_err (require_meta meta [''id'', ''urn'', ''root'']) (\<lambda>_.
     bind_err (node_text meta ''root'' []) (\<lambda>root_text.
     let root = py_rstrip_chars ''/'' root_text in
     if raw_nodes = [] then Inl NoNodes
     else bind_err (coerce_nodes raw_nodes root []) (\<lambda>nodes.
     bind_err (node_text meta ''id'' []) (\<lambda>id.
     bind_err (node_text meta ''urn'' []) (\<lambda>urn.
     bind_err (node_text meta ''title'' id) (\<lambda>title.
     bind_err (node_text meta ''spec'' []) (\<lambda>spec.
     Inr \<lparr>mb_id = id, mb_urn = urn, mb_root = root, mb_title = title, mb_nodes = nodes, mb_spec = spec\<rparr>)))))))"

fun load_objects :: "(raw_entry \<times> raw_entry list) list \<Rightarrow> mo_error + MoTree" where
  "load_objects [] = Inr []"
| "load_objects ((meta, nodes) # files) =
     bind_err (load_object meta nodes) (\<lambda>mo. bind_err (load_objects files) (\<lambda>mos. Inr (mo # mos)))"

definition load_tree :: "(raw_entry \<times> raw_entry list) list \<Rightarrow> mo_error + MoTree" where
  "load_tree files =
     (if files = [] then Inl NoObjects
      else bind_err (load_objects files) (\<lambda>objects.
      if distinct (map mb_root objects) then Inr objects else Inl DuplicateRoot))"

section \<open>Soundness of loading\<close>

definition node_ok :: "string \<Rightarrow> MoNode \<Rightarrow> bool" where
  "node_ok root n \<longleftrightarrow> URI_RE (mo_uri n) \<and>
     (mo_uri n = root \<or> py_startswith (mo_uri n) (py_rstrip_chars ''/'' root @ ''/'')) \<and>
     mo_format n \<in> set VALID_FORMATS \<and> mo_source n \<in> {''device'', ''server''} \<and>
     (mo_format n = ''int'' \<longrightarrow> mo_default n = [] \<or> CHR ''{'' \<in> set (mo_default n) \<or> py_int (mo_default n) \<noteq> None) \<and>
     (mo_format n = ''bool'' \<longrightarrow> mo_default n \<in> {[], ''true'', ''false''})"

lemma if_Inl_Inr: "(if b then Inl e else x) = Inr y \<longleftrightarrow> \<not> b \<and> x = Inr y"
  by simp

lemma coerce_node_ok:
  assumes "coerce_node raw root = Inr n"
  shows "node_ok root n"
proof -
  have "check_node raw root = Inr (mo_uri n, mo_format n, mo_source n, mo_default n)"
    using assms by (auto simp: coerce_node_def bind_err_Inr)
  then show ?thesis
    unfolding check_node_def Let_def bind_err_Inr if_Inl_Inr not_not sum.inject prod.inject node_ok_def
    by (elim exE conjE, hypsubst) simp
qed

lemma coerce_nodes_ok:
  "coerce_nodes raws root seen = Inr ns \<Longrightarrow>
    list_all (node_ok root) ns \<and> distinct (map mo_uri ns) \<and> set seen \<inter> mo_uri ` set ns = {} \<and> length ns = length raws"
proof (induction raws root seen arbitrary: ns rule: coerce_nodes.induct)
  case (2 raw raws root seen)
  then obtain n ns' where n: "coerce_node raw root = Inr n" "mo_uri n \<notin> set seen" "ns = n # ns'"
    and ns: "coerce_nodes raws root (mo_uri n # seen) = Inr ns'"
    by (auto simp: bind_err_Inr split: if_splits)
  from 2(1) [OF n(1,2) ns] coerce_node_ok [OF n(1)] n(2,3) show ?case by auto
qed simp

definition object_ok :: "ManagementObject \<Rightarrow> bool" where
  "object_ok mo \<longleftrightarrow> mb_nodes mo \<noteq> [] \<and> list_all (node_ok (mb_root mo)) (mb_nodes mo) \<and>
     distinct (map mo_uri (mb_nodes mo))"

lemma load_object_ok:
  assumes "load_object meta nodes = Inr mo"
  shows "object_ok mo"
proof -
  from assms have "nodes \<noteq> []" "coerce_nodes nodes (mb_root mo) [] = Inr (mb_nodes mo)"
    by (auto simp: load_object_def bind_err_Inr Let_def split: if_splits)
  with coerce_nodes_ok [OF this(2)] show ?thesis by (auto simp: object_ok_def)
qed

lemma load_objects_ok: "load_objects files = Inr tree \<Longrightarrow> list_all object_ok tree \<and> length tree = length files"
  by (induction files arbitrary: tree rule: load_objects.induct) (auto simp: bind_err_Inr dest: load_object_ok)

text \<open>
  A management object tree that loads is sound, whatever the files contain: the objects have
  distinct roots and at least one node each; every node lies under the root of its object, has a
  well-formed URI that no other node of the object has, a known format and owner, and a default
  that its format allows.
\<close>

theorem load_tree_sound:
  assumes "load_tree files = Inr tree"
  shows "tree \<noteq> [] \<and> distinct (map mb_root tree) \<and> length tree = length files \<and> list_all object_ok tree"
  using assms by (cases files) (auto simp: load_tree_def bind_err_Inr split: if_splits dest!: load_objects_ok)

definition demo_tree_files :: "(raw_entry \<times> raw_entry list) list" where
  "demo_tree_files = [([(''id'', YStr ''devinfo''), (''urn'', YStr ''urn:d''), (''root'', YStr ''./DevInfo'')],
     [[(''uri'', YStr ''./DevInfo/Man''), (''source'', YStr ''device'')]])]"

definition demo_tree :: MoTree where
  "demo_tree = [\<lparr>mb_id = ''devinfo'', mb_urn = ''urn:d'', mb_root = ''./DevInfo'', mb_title = ''devinfo'',
     mb_nodes = [\<lparr>mo_uri = ''./DevInfo/Man'', mo_format = ''chr'', mo_type = ''text/plain'', mo_source = ''device'',
       mo_default = [], mo_access = [''Get''], mo_spec = [], mo_verified = False, mo_doc = [], mo_feature = []\<rparr>],
     mb_spec = []\<rparr>]"

lemma demo_tree_loads: "load_tree demo_tree_files = Inr demo_tree"
  by (simp add: load_tree_def demo_tree_files_def demo_tree_def load_object_def coerce_node_def check_node_def node_text_def
      node_default_def node_access_def yaml_text_def URI_RE_def re_line_def uri_char_def VALID_FORMATS_def
      py_startswith_def py_rstrip_chars_def py_strip_def strip_by_def py_isspace_char_def code_of_def is_decimal_def
      dict_get_def)

theorem load_tree_sound_witness:
  "load_tree demo_tree_files = Inr demo_tree \<and> list_all object_ok demo_tree \<and> distinct (map mb_root demo_tree)"
  using load_tree_sound [OF demo_tree_loads] demo_tree_loads by simp

end
