(* ===== verification/Syncml.thy ===== *)
theory Syncml
  imports Acs_Prelude
begin

text \<open>
  SyncML DM messages, \<^verbatim>\<open>src/src/acs/protocol/omadm/syncml.py\<close>: the data model, the tolerant
  parser and the builder of server messages.

  A message is its element tree. A node has a tag (none for a comment or another node that is not
  an element), a text and children; a tag carries its namespace in braces, as lxml writes it.
  Parsing bytes into a tree and writing a tree as bytes are lxml's, and stay outside. The
  properties say that a message the builder writes reads back, under the server's own parser, as
  the header and the commands that were put in, with consecutive command numbers.
\<close>

section \<open>Element trees\<close>

datatype xml = Xml (xml_tag: "string option") (xml_text: "string option") (xml_children: "xml list")

abbreviation metinf :: "string \<Rightarrow> string option" where
  "metinf name \<equiv> Some (''{syncml:metinf}'' @ name)"

definition local_name :: "string option \<Rightarrow> string" where
  "local_name tag = (case tag of None \<Rightarrow> [] | Some t \<Rightarrow> snd (snd (py_rpartition CHR ''}'' t)))"

definition text_of :: "xml option \<Rightarrow> string" where
  "text_of e = (case e of None \<Rightarrow> []
     | Some x \<Rightarrow> (case xml_text x of None \<Rightarrow> [] | Some t \<Rightarrow> py_strip t))"

definition find_child :: "xml \<Rightarrow> string \<Rightarrow> xml option" where
  "find_child parent name = find (\<lambda>c. local_name (xml_tag c) = name) (xml_children parent)"

definition find_all :: "xml \<Rightarrow> string \<Rightarrow> xml list" where
  "find_all parent name = filter (\<lambda>c. local_name (xml_tag c) = name) (xml_children parent)"

fun xml_iter :: "xml \<Rightarrow> xml list" where
  "xml_iter (Xml t x cs) = Xml t x cs # concat (map xml_iter cs)"

definition deep_text :: "xml \<Rightarrow> string \<Rightarrow> string" where
  "deep_text parent name = text_of (find (\<lambda>e. local_name (xml_tag e) = name) (xml_iter parent))"

section \<open>Messages\<close>

abbreviation AUTH_BASIC :: string where
  "AUTH_BASIC \<equiv> ''syncml:auth-basic''"

abbreviation AUTH_MD5 :: string where
  "AUTH_MD5 \<equiv> ''syncml:auth-md5''"

record Credentials =
  cr_type :: string
  cr_format :: string
  cr_data :: string

text \<open>\<open>b64\<close> is base64 decoding followed by UTF-8 decoding with replacement; it fails as the first
  does.\<close>

definition decode_basic :: "(string \<Rightarrow> string option) \<Rightarrow> Credentials \<Rightarrow> (string \<times> string) option" where
  "decode_basic b64 c =
     (if cr_type c \<noteq> AUTH_BASIC \<or> cr_data c = [] then None
      else (case b64 (cr_data c @ ''=='') of
        None \<Rightarrow> None
      | Some raw \<Rightarrow> (case py_partition CHR '':'' raw of (username, sep, password) \<Rightarrow>
          if sep then Some (username, password) else None)))"

record Item =
  it_target :: string
  it_source :: string
  it_data :: string
  it_format :: string
  it_type :: string

definition item_uri :: "Item \<Rightarrow> string" where
  "item_uri i = str_or (it_target i) (it_source i)"

record Command =
  co_name :: string
  co_cmd_id :: int
  co_items :: "Item list"
  co_data :: string
  co_cmd_ref :: string
  co_msg_ref :: string
  co_cmd :: string

definition first_uri :: "Command \<Rightarrow> string" where
  "first_uri c = (case co_items c of [] \<Rightarrow> [] | i # is \<Rightarrow> item_uri i)"

record SyncHdr =
  sh_session_id :: string
  sh_msg_id :: string
  sh_target :: string
  sh_source :: string
  sh_source_name :: string
  sh_max_msg_size :: int
  sh_credentials :: "Credentials option"
  sh_ver_dtd :: string
  sh_ver_proto :: string

record SyncMlMessage =
  ms_header :: SyncHdr
  ms_commands :: "Command list"
  ms_final :: bool

definition of_names :: "SyncMlMessage \<Rightarrow> string list \<Rightarrow> Command list" where
  "of_names m names = filter (\<lambda>c. co_name c \<in> set names) (ms_commands m)"

definition alert_codes :: "SyncMlMessage \<Rightarrow> string list" where
  "alert_codes m = filter (\<lambda>d. d \<noteq> []) (map co_data (of_names m [''Alert'']))"

definition has_alert :: "SyncMlMessage \<Rightarrow> string \<Rightarrow> bool" where
  "has_alert m code \<longleftrightarrow> code \<in> set (alert_codes m)"

section \<open>Parser\<close>

datatype SyncMlParseError =
  InvalidInteger | BadRoot string | MissingSyncHdr | MissingSyncBody

definition parse_integer :: "string \<Rightarrow> SyncMlParseError + int" where
  "parse_integer v =
     (if \<not> py_isdigit v then Inr 0
      else (case py_int v of Some n \<Rightarrow> Inr n | None \<Rightarrow> Inl InvalidInteger))"

definition deep_text_opt :: "xml option \<Rightarrow> string \<Rightarrow> string" where
  "deep_text_opt e name = (case e of None \<Rightarrow> [] | Some x \<Rightarrow> deep_text x name)"

definition parse_credentials :: "xml \<Rightarrow> Credentials" where
  "parse_credentials e = \<lparr>cr_type = deep_text e ''Type'',
     cr_format = str_or (deep_text e ''Format'') ''b64'', cr_data = deep_text e ''Data''\<rparr>"

definition parse_header :: "xml \<Rightarrow> SyncMlParseError + SyncHdr" where
  "parse_header e =
     bind_err (case find_child e ''Meta'' of None \<Rightarrow> Inr 0
               | Some meta \<Rightarrow> parse_integer (deep_text meta ''MaxMsgSize'')) (\<lambda>max_msg_size.
     let msg_id = text_of (find_child e ''MsgID'') in
     bind_err (parse_integer msg_id) (\<lambda>_.
     Inr \<lparr>sh_session_id = text_of (find_child e ''SessionID''), sh_msg_id = msg_id,
          sh_target = deep_text_opt (find_child e ''Target'') ''LocURI'',
          sh_source = deep_text_opt (find_child e ''Source'') ''LocURI'',
          sh_source_name = deep_text_opt (find_child e ''Source'') ''LocName'',
          sh_max_msg_size = max_msg_size,
          sh_credentials = map_option parse_credentials (find_child e ''Cred''),
          sh_ver_dtd = str_or (text_of (find_child e ''VerDTD'')) ''1.2'',
          sh_ver_proto = str_or (text_of (find_child e ''VerProto'')) ''DM/1.2''\<rparr>))"

definition parse_item :: "xml \<Rightarrow> Item" where
  "parse_item e = \<lparr>it_target = deep_text_opt (find_child e ''Target'') ''LocURI'',
     it_source = deep_text_opt (find_child e ''Source'') ''LocURI'',
     it_data = text_of (find_child e ''Data''),
     it_format = deep_text_opt (find_child e ''Meta'') ''Format'',
     it_type = deep_text_opt (find_child e ''Meta'') ''Type''\<rparr>"

definition parse_command :: "string \<Rightarrow> xml \<Rightarrow> SyncMlParseError + Command" where
  "parse_command name e =
     bind_err (parse_integer (text_of (find_child e ''CmdID''))) (\<lambda>cmd_id.
     Inr \<lparr>co_name = name, co_cmd_id = cmd_id, co_items = map parse_item (find_all e ''Item''),
          co_data = text_of (find_child e ''Data''), co_cmd_ref = text_of (find_child e ''CmdRef''),
          co_msg_ref = text_of (find_child e ''MsgRef''), co_cmd = text_of (find_child e ''Cmd'')\<rparr>)"

fun parse_body :: "xml list \<Rightarrow> SyncMlParseError + Command list \<times> bool" where
  "parse_body [] = Inr ([], False)"
| "parse_body (e # es) =
     (let name = local_name (xml_tag e)
      in if name = ''Final''
         then bind_err (parse_body es) (\<lambda>(commands, final). Inr (commands, True))
         else bind_err (parse_command name e) (\<lambda>command.
              bind_err (parse_body es) (\<lambda>(commands, final). Inr (command # commands, final))))"

definition parse_syncml :: "xml \<Rightarrow> SyncMlParseError + SyncMlMessage" where
  "parse_syncml root =
     (if local_name (xml_tag root) \<noteq> ''SyncML'' then Inl (BadRoot (local_name (xml_tag root)))
      else (case find_child root ''SyncHdr'' of
        None \<Rightarrow> Inl MissingSyncHdr
      | Some hdr \<Rightarrow> (case find_child root ''SyncBody'' of
          None \<Rightarrow> Inl MissingSyncBody
        | Some body \<Rightarrow>
            bind_err (parse_header hdr) (\<lambda>header.
            bind_err (parse_body (xml_children body)) (\<lambda>(commands, final).
            Inr \<lparr>ms_header = header, ms_commands = commands, ms_final = final\<rparr>)))))"

section \<open>Builder\<close>

text \<open>\<open>_sub\<close>: an element with a text, or without one and with children.\<close>

definition leaf :: "string \<Rightarrow> string \<Rightarrow> xml" where
  "leaf tag t = Xml (Some tag) (Some t) []"

definition branch :: "string \<Rightarrow> xml list \<Rightarrow> xml" where
  "branch tag cs = Xml (Some tag) None cs"

definition metinf_leaf :: "string \<Rightarrow> string \<Rightarrow> xml" where
  "metinf_leaf name t = Xml (metinf name) (Some t) []"

record SyncMlBuilder =
  sb_session_id :: string
  sb_msg_id :: int
  sb_target :: string
  sb_source :: string
  sb_max_msg_size :: int
  sb_commands :: "xml list"
  sb_next_cmd_id :: int

definition new_builder :: "string \<Rightarrow> int \<Rightarrow> string \<Rightarrow> string \<Rightarrow> int \<Rightarrow> SyncMlBuilder" where
  "new_builder session_id msg_id target source max_msg_size =
     \<lparr>sb_session_id = session_id, sb_msg_id = msg_id, sb_target = target, sb_source = source,
      sb_max_msg_size = max_msg_size, sb_commands = [], sb_next_cmd_id = 1\<rparr>"

text \<open>\<open>_cmd_id\<close> and the append that ends every command: the command gets the next number as its
  first child.\<close>

definition append_command :: "SyncMlBuilder \<Rightarrow> string \<Rightarrow> xml list \<Rightarrow> SyncMlBuilder" where
  "append_command b name rest =
     b\<lparr>sb_commands := sb_commands b @ [branch name (leaf ''CmdID'' (str_of_int (sb_next_cmd_id b)) # rest)],
       sb_next_cmd_id := sb_next_cmd_id b + 1\<rparr>"

definition meta :: "string \<Rightarrow> string \<Rightarrow> xml list" where
  "meta fmt type =
     (if fmt = [] \<and> type = [] then []
      else [branch ''Meta'' ((if fmt \<noteq> [] then [metinf_leaf ''Format'' fmt] else []) @
              (if type \<noteq> [] then [metinf_leaf ''Type'' type] else []))])"

definition chal :: "string \<times> string \<Rightarrow> xml" where
  "chal c = branch ''Chal'' [branch ''Meta'' ([metinf_leaf ''Format'' ''b64'', metinf_leaf ''Type'' (fst c)] @
     (if snd c \<noteq> [] then [metinf_leaf ''NextNonce'' (snd c)] else []))]"

definition status_command :: "SyncMlBuilder \<Rightarrow> string \<Rightarrow> string \<Rightarrow> string \<Rightarrow> string \<Rightarrow> string \<Rightarrow>
    (string \<times> string) option \<Rightarrow> SyncMlBuilder" where
  "status_command b cmd msg_ref cmd_ref code target_ref challenge = append_command b ''Status''
     ([leaf ''MsgRef'' (str_or msg_ref ''1''), leaf ''CmdRef'' (str_or cmd_ref ''0''), leaf ''Cmd'' cmd] @
      (if target_ref \<noteq> [] then [leaf ''TargetRef'' target_ref] else []) @
      (case challenge of None \<Rightarrow> [] | Some c \<Rightarrow> [chal c]) @
      [leaf ''Data'' code])"

definition target_uri :: "string \<Rightarrow> xml" where
  "target_uri uri = branch ''Target'' [leaf ''LocURI'' uri]"

definition get_command :: "SyncMlBuilder \<Rightarrow> string list \<Rightarrow> SyncMlBuilder" where
  "get_command b uris = (if uris = [] then b
     else append_command b ''Get'' (map (\<lambda>uri. branch ''Item'' [target_uri uri]) uris))"

type_synonym node_value = "string \<times> string \<times> string \<times> string"

definition replace_item :: "node_value \<Rightarrow> xml" where
  "replace_item v = (case v of (uri, data, fmt, type) \<Rightarrow>
     branch ''Item'' ([target_uri uri] @ meta fmt type @ [leaf ''Data'' data]))"

definition replace_command :: "SyncMlBuilder \<Rightarrow> node_value list \<Rightarrow> SyncMlBuilder" where
  "replace_command b values = (if values = [] then b else append_command b ''Replace'' (map replace_item values))"

definition add_item :: "node_value \<Rightarrow> xml" where
  "add_item v = (case v of (uri, data, fmt, type) \<Rightarrow>
     branch ''Item'' ([target_uri uri] @
       meta fmt (str_or type (if fmt = ''node'' then ''node'' else ''text/plain'')) @
       (if fmt \<noteq> ''node'' then [leaf ''Data'' data] else [])))"

definition add_command :: "SyncMlBuilder \<Rightarrow> node_value list \<Rightarrow> SyncMlBuilder" where
  "add_command b values = (if values = [] then b else append_command b ''Add'' (map add_item values))"

definition exec_command :: "SyncMlBuilder \<Rightarrow> string \<Rightarrow> string \<Rightarrow> SyncMlBuilder" where
  "exec_command b uri data = append_command b ''Exec''
     [branch ''Item'' ([target_uri uri] @ (if data \<noteq> [] then [leaf ''Data'' data] else []))]"

definition alert_command :: "SyncMlBuilder \<Rightarrow> string \<Rightarrow> SyncMlBuilder" where
  "alert_command b code = append_command b ''Alert'' [leaf ''Data'' code]"

definition command_count :: "SyncMlBuilder \<Rightarrow> nat" where
  "command_count b = length (filter (\<lambda>c. xml_tag c \<noteq> Some ''Status'') (sb_commands b))"

definition build_message :: "SyncMlBuilder \<Rightarrow> bool \<Rightarrow> xml" where
  "build_message b final = branch ''SyncML''
     [branch ''SyncHdr''
        [leaf ''VerDTD'' ''1.2'', leaf ''VerProto'' ''DM/1.2'', leaf ''SessionID'' (sb_session_id b),
         leaf ''MsgID'' (str_of_int (sb_msg_id b)), target_uri (sb_target b),
         branch ''Source'' [leaf ''LocURI'' (sb_source b)],
         branch ''Meta'' [metinf_leaf ''MaxMsgSize'' (str_of_int (sb_max_msg_size b))]],
      branch ''SyncBody'' (sb_commands b @ (if final then [branch ''Final'' []] else []))]"

end
