(* ===== verification/Dm_Auth.thy ===== *)
theory Dm_Auth
  imports Syncml
begin

text \<open>
  OMA-DM session authentication, \<^verbatim>\<open>src/src/acs/protocol/omadm/auth.py\<close>. MD5, base64 and the fresh
  nonce are parameters: \<open>md5\<close> maps bytes to the digest bytes, \<open>b64\<close> encodes bytes, \<open>unb64\<close> decodes
  text as \<^const>\<open>decode_basic\<close> needs it, \<open>fresh\<close> is what \<open>make_nonce()\<close> would return. Secrets
  are compared as UTF-8 bytes.
\<close>

record DmAuthResult =
  ar_authenticated :: bool
  ar_username :: string
  ar_scheme :: string
  ar_reason :: string
  ar_challenge_nonce :: string

abbreviation accepted :: "string \<Rightarrow> string \<Rightarrow> DmAuthResult" where
  "accepted username scheme \<equiv> \<lparr>ar_authenticated = True, ar_username = username, ar_scheme = scheme,
     ar_reason = [], ar_challenge_nonce = []\<rparr>"

abbreviation rejected :: "string \<Rightarrow> string \<Rightarrow> string \<Rightarrow> DmAuthResult" where
  "rejected username reason nonce \<equiv> \<lparr>ar_authenticated = False, ar_username = username, ar_scheme = [],
     ar_reason = reason, ar_challenge_nonce = nonce\<rparr>"

definition md5_credential :: "(string \<Rightarrow> string) \<Rightarrow> (string \<Rightarrow> string) \<Rightarrow> string \<Rightarrow> string \<Rightarrow> string \<Rightarrow> string" where
  "md5_credential md5 b64 username password nonce =
     b64 (md5 (b64 (md5 (utf8 (username @ '':'' @ password))) @ '':'' @ utf8 nonce))"

definition basic_credential :: "(string \<Rightarrow> string) \<Rightarrow> string \<Rightarrow> string \<Rightarrow> string" where
  "basic_credential b64 username password = b64 (utf8 (username @ '':'' @ password))"

definition authenticate :: "(string \<Rightarrow> string option) \<Rightarrow> string \<Rightarrow> Credentials option \<Rightarrow> string \<Rightarrow>
    (string \<Rightarrow> string option) \<Rightarrow> string \<Rightarrow> DmAuthResult" where
  "authenticate unb64 fresh credentials scheme lookup_password nonce =
     (if scheme = ''none''
      then accepted (case credentials of None \<Rightarrow> []
             | Some c \<Rightarrow> (case decode_basic unb64 c of None \<Rightarrow> [] | Some (u, p) \<Rightarrow> u)) ''none''
      else (case credentials of
        None \<Rightarrow> rejected [] ''missing_credentials'' (str_or nonce fresh)
      | Some c \<Rightarrow>
          if cr_data c = [] then rejected [] ''missing_credentials'' (str_or nonce fresh)
          else if cr_type c = AUTH_BASIC
          then (case decode_basic unb64 c of
              None \<Rightarrow> rejected [] ''malformed'' (str_or nonce fresh)
            | Some (username, password) \<Rightarrow>
                (let expected = lookup_password username in
                 if \<not> truthy expected \<or> utf8 (the expected) \<noteq> utf8 password
                 then rejected username ''invalid'' (str_or nonce fresh)
                 else accepted username AUTH_BASIC))
          else if cr_type c = AUTH_MD5 then rejected [] ''md5_requires_username'' (str_or nonce fresh)
          else rejected [] ''unsupported_scheme'' (str_or nonce fresh)))"

definition authenticate_md5 :: "(string \<Rightarrow> string) \<Rightarrow> (string \<Rightarrow> string) \<Rightarrow> string \<Rightarrow> Credentials option \<Rightarrow> string \<Rightarrow>
    string option \<Rightarrow> string \<Rightarrow> DmAuthResult" where
  "authenticate_md5 md5 b64 fresh credentials username expected_password nonce = (case credentials of
     None \<Rightarrow> rejected username ''missing_credentials'' (str_or nonce fresh)
   | Some c \<Rightarrow>
       if cr_data c = [] \<or> cr_type c \<noteq> AUTH_MD5 then rejected username ''missing_credentials'' (str_or nonce fresh)
       else if \<not> truthy expected_password \<or> nonce = [] then rejected username ''invalid'' (str_or nonce fresh)
       else if utf8 (md5_credential md5 b64 username (the expected_password) nonce) \<noteq> utf8 (py_strip (cr_data c))
       then rejected username ''invalid'' fresh
       else accepted username AUTH_MD5)"

section \<open>Lemmas\<close>

text \<open>The first byte tells the two lengths of an encoded character apart, so encoding is
  injective and comparing bytes is comparing strings.\<close>

lemma utf8_inj: "utf8 a = utf8 b \<longleftrightarrow> a = b"
proof
  show "utf8 a = utf8 b \<Longrightarrow> a = b"
  proof (induction a arbitrary: b)
    case Nil
    then show ?case by (cases b) (auto simp: utf8_Cons Let_def utf8_def split: if_splits)
  next
    case (Cons c a)
    then obtain d b' where b: "b = d # b'"
      by (cases b) (auto simp: utf8_Cons Let_def utf8_def split: if_splits)
    have two: "c = d" if "char_of (192 + code_of c div 64) = (char_of (192 + code_of d div 64) :: char)"
      "char_of (128 + code_of c mod 64) = (char_of (128 + code_of d mod 64) :: char)"
    proof -
      have "192 + code_of x div 64 < 256" "128 + code_of x mod 64 < 256" for x
        using code_of_less [of x] by simp_all
      with that have "code_of c div 64 = code_of d div 64" "code_of c mod 64 = code_of d mod 64"
        by (metis code_of_char_of add_left_cancel)+
      then have "code_of c = code_of d" by (metis mod_mult_div_eq)
      then show ?thesis by (simp add: code_of_def)
    qed
    have lead: "\<not> code_of (char_of (192 + code_of x div 64)) < 128" for x
      using code_of_less [of x] by (simp add: code_of_char_of)
    from Cons(2) have "c = d \<and> utf8 a = utf8 b'"
      using two lead by (auto simp: b utf8_Cons Let_def split: if_splits)
    with Cons(1) b show ?case by simp
  qed
qed simp

lemma authenticate_basic:
  assumes "scheme \<noteq> ''none''"
  shows "ar_authenticated (authenticate unb64 fresh credentials scheme lookup nonce) \<longleftrightarrow>
    (\<exists>c password. credentials = Some c \<and> password \<noteq> [] \<and>
       decode_basic unb64 c = Some (ar_username (authenticate unb64 fresh credentials scheme lookup nonce), password) \<and>
       lookup (ar_username (authenticate unb64 fresh credentials scheme lookup nonce)) = Some password)"
  using assms by (cases credentials)
    (auto simp: authenticate_def utf8_inj truthy_def Let_def decode_basic_def split: option.splits prod.splits)

lemma authenticate_by_md5:
  "ar_authenticated (authenticate_md5 md5 b64 fresh credentials username expected nonce) \<longleftrightarrow>
    (\<exists>c password. credentials = Some c \<and> cr_type c = AUTH_MD5 \<and> cr_data c \<noteq> [] \<and> nonce \<noteq> [] \<and>
       expected = Some password \<and> password \<noteq> [] \<and>
       py_strip (cr_data c) = md5_credential md5 b64 username password nonce)"
  by (cases credentials) (auto simp: authenticate_md5_def utf8_inj truthy_def)

lemma rejection_challenges:
  assumes "fresh \<noteq> []"
  shows "scheme \<noteq> ''none'' \<Longrightarrow> \<not> ar_authenticated (authenticate unb64 fresh credentials scheme lookup nonce) \<longrightarrow>
      ar_challenge_nonce (authenticate unb64 fresh credentials scheme lookup nonce) \<noteq> []"
    "\<not> ar_authenticated (authenticate_md5 md5 b64 fresh credentials username expected nonce) \<longrightarrow>
      ar_challenge_nonce (authenticate_md5 md5 b64 fresh credentials username expected nonce) \<noteq> []"
  using assms by (simp_all add: authenticate_def authenticate_md5_def str_or_def Let_def
      split: option.split prod.split)

lemma unknown_user_like_wrong_password:
  assumes "scheme \<noteq> ''none''" "decode_basic unb64 c = Some (u, p)" "lookup u \<noteq> Some p"
  shows "authenticate unb64 fresh (Some c) scheme lookup nonce = rejected u ''invalid'' (str_or nonce fresh)"
proof -
  have "cr_type c = AUTH_BASIC" "cr_data c \<noteq> []" using assms(2) by (auto simp: decode_basic_def split: if_splits)
  with assms show ?thesis by (auto simp: authenticate_def truthy_def utf8_inj Let_def)
qed



end
