(* ===== verification/Dm_Package.thy ===== *)
theory Dm_Package
  imports Syncml
begin

text \<open>
  Fitting a server package into messages, \<^verbatim>\<open>src/src/acs/protocol/omadm/package.py\<close>.

  A package is a list of entries; \<open>apply_entries\<close> turns entries into SyncML commands, \<open>fill\<close>
  finds how many entries the next message can carry by a galloping search followed by a bisection,
  and \<open>to_stored\<close> and \<open>from_stored\<close> convert the unsent rest to and from the rows that are kept
  between requests. The size of the rows is the length of their compact JSON text.
\<close>

section \<open>Entries\<close>

datatype Entry =
  Status (st_cmd: string) (st_msg_ref: string) (st_cmd_ref: string) (st_code: string) (st_target_ref: string)
| Item (en_command: string) (en_uri: string) (en_data: string) (en_fmt: string) (en_type: string)

definition MAX_ACKNOWLEDGED_COMMANDS :: nat where
  "MAX_ACKNOWLEDGED_COMMANDS = 100"

definition MAX_MESSAGES_PER_PACKAGE :: int where
  "MAX_MESSAGES_PER_PACKAGE = 128"

definition MAX_STORED_BYTES :: nat where
  "MAX_STORED_BYTES = 32 * 1024"

text \<open>What handling a message can raise: the module's own exceptions, the \<open>ValueError\<close> of an unknown
  queued command, a stored row that does not unpack, and, from the session layer, the challenge
  that does not fit, the failure of the WBXML encoder, and a configuration value that cannot be
  derived or rendered.\<close>

datatype dm_error =
  MessageTooLarge nat int
| PackageTooLarge nat
| UnknownQueuedCommand string
| MalformedRow
| ChallengeTooLarge nat int
| EncodingError
| RenderingFailed

section \<open>Stored form\<close>

text \<open>Length of \<open>json.dumps(rows, separators=(",", ":"))\<close> with its default ASCII escapes.\<close>

definition json_char_size :: "char \<Rightarrow> nat" where
  "json_char_size c = (let n = code_of c in
     if n \<in> {34, 92, 8, 9, 10, 12, 13} then 2 else if n < 32 \<or> 126 < n then 6 else 1)"

definition json_list_size :: "nat list \<Rightarrow> nat" where
  "json_list_size sizes = 2 + sum_list sizes + (length sizes - 1)"

definition json_str_size :: "string \<Rightarrow> nat" where
  "json_str_size s = 2 + sum_list (map json_char_size s)"

definition json_size :: "string list list \<Rightarrow> nat" where
  "json_size rows = json_list_size (map (\<lambda>row. json_list_size (map json_str_size row)) rows)"

fun entry_row :: "Entry \<Rightarrow> string list" where
  "entry_row (Status cmd msg_ref cmd_ref code target_ref) = [''Status'', cmd, msg_ref, cmd_ref, code, target_ref]"
| "entry_row (Item command uri data fmt type) = [command, uri, data, fmt, type]"

definition to_stored :: "Entry list \<Rightarrow> dm_error + string list list" where
  "to_stored entries = (let rows = map entry_row entries; size = json_size rows
     in if MAX_STORED_BYTES < size then Inl (PackageTooLarge size) else Inr rows)"

text \<open>\<open>Status(*row[1:])\<close> and \<open>Item(*row)\<close>, with the defaults of the missing last fields;
  a row with too few or too many fields raises.\<close>

fun row_entry :: "string list \<Rightarrow> dm_error + Entry" where
  "row_entry [] = Inl MalformedRow"
| "row_entry (tag # row) =
     (if tag = ''Status''
      then (case row of
          [cmd, msg_ref, cmd_ref, code] \<Rightarrow> Inr (Status cmd msg_ref cmd_ref code [])
        | [cmd, msg_ref, cmd_ref, code, target_ref] \<Rightarrow> Inr (Status cmd msg_ref cmd_ref code target_ref)
        | _ \<Rightarrow> Inl MalformedRow)
      else (case row of
          [uri] \<Rightarrow> Inr (Item tag uri [] [] [])
        | [uri, data] \<Rightarrow> Inr (Item tag uri data [] [])
        | [uri, data, fmt] \<Rightarrow> Inr (Item tag uri data fmt [])
        | [uri, data, fmt, type] \<Rightarrow> Inr (Item tag uri data fmt type)
        | _ \<Rightarrow> Inl MalformedRow))"

fun from_stored :: "string list list \<Rightarrow> dm_error + Entry list" where
  "from_stored [] = Inr []"
| "from_stored (row # rows) =
     bind_err (row_entry row) (\<lambda>e. bind_err (from_stored rows) (\<lambda>es. Inr (e # es)))"

section \<open>Commands\<close>

fun same_command :: "string \<Rightarrow> Entry \<Rightarrow> bool" where
  "same_command command (Status _ _ _ _ _) = False"
| "same_command command (Item c _ _ _ _) = (c = command)"

definition item_command :: "SyncMlBuilder \<Rightarrow> string \<Rightarrow> Entry list \<Rightarrow> dm_error + SyncMlBuilder" where
  "item_command b command items =
     (let vals = map (\<lambda>i. (en_uri i, en_data i, en_fmt i, en_type i)) items
      in if command = ''Get'' then Inr (get_command b (map en_uri items))
         else if command = ''Add'' then Inr (add_command b vals)
         else if command = ''Replace'' then Inr (replace_command b vals)
         else Inl (UnknownQueuedCommand command))"

function apply_entries :: "SyncMlBuilder \<Rightarrow> Entry list \<Rightarrow> dm_error + SyncMlBuilder" where
  "apply_entries b [] = Inr b"
| "apply_entries b (Status cmd msg_ref cmd_ref code target_ref # es) =
     apply_entries (status_command b cmd msg_ref cmd_ref code target_ref None) es"
| "apply_entries b (Item command uri data fmt type # es) =
     bind_err (item_command b command (Item command uri data fmt type # takeWhile (same_command command) es))
       (\<lambda>b'. apply_entries b' (dropWhile (same_command command) es))"
  by pat_completeness auto
termination
  by (relation "measure (\<lambda>(b, es). length es)") (auto simp: length_dropWhile_le le_imp_less_Suc)

section \<open>Filling a message\<close>

text \<open>\<open>build n\<close> is the encoded message with the first \<open>n\<close> entries; it may raise. The step of the
  gallop is \<open>2 ^ k\<close>.\<close>

type_synonym 'b message_source = "nat \<Rightarrow> dm_error + 'b list"

function gallop :: "'b message_source \<Rightarrow> int \<Rightarrow> nat \<Rightarrow> 'b list \<Rightarrow> nat \<Rightarrow> nat \<Rightarrow>
    dm_error + nat \<times> 'b list \<times> nat" where
  "gallop build limit fits best too_many k =
     (if fits + 2 ^ k < too_many
      then bind_err (build (fits + 2 ^ k)) (\<lambda>body.
        if limit < int (length body) then Inr (fits, best, fits + 2 ^ k)
        else gallop build limit (fits + 2 ^ k) body too_many (Suc k))
      else Inr (fits, best, too_many))"
  by pat_completeness auto
termination
  by (relation "measure (\<lambda>(build, limit, fits, best, too_many, k). too_many - fits)")
    (auto intro!: diff_less_mono2 intro: less_trans)

function bisect :: "'b message_source \<Rightarrow> int \<Rightarrow> nat \<Rightarrow> 'b list \<Rightarrow> nat \<Rightarrow>
    dm_error + 'b list \<times> nat" where
  "bisect build limit fits best too_many =
     (if 1 < too_many - fits
      then (let probe = (fits + too_many) div 2 in
        bind_err (build probe) (\<lambda>body.
        if int (length body) \<le> limit then bisect build limit probe body too_many
        else bisect build limit fits best probe))
      else Inr (best, fits))"
  by pat_completeness auto
termination
  by (relation "measure (\<lambda>(build, limit, fits, best, too_many). too_many - fits)") auto

declare gallop.simps [simp del] bisect.simps [simp del]

definition search :: "'b message_source \<Rightarrow> nat \<Rightarrow> int \<Rightarrow> nat \<Rightarrow> dm_error + 'b list \<times> nat" where
  "search build count limit required =
     bind_err (build required) (\<lambda>best.
     if limit < int (length best) then Inl (MessageTooLarge (length best) limit)
     else bind_err (gallop build limit required best (if required < count then count else count + 1) 0)
       (\<lambda>(fits, best, too_many). bisect build limit fits best too_many))"

definition fill :: "'b message_source \<Rightarrow> nat \<Rightarrow> int \<Rightarrow> nat \<Rightarrow> dm_error + 'b list \<times> nat" where
  "fill build count limit required =
     (if required < count
      then bind_err (build count) (\<lambda>whole.
        if int (length whole) \<le> limit then Inr (whole, count) else search build count limit required)
      else search build count limit required)"

section \<open>The search finds the largest message that fits\<close>

definition fits_at :: "'b message_source \<Rightarrow> int \<Rightarrow> nat \<Rightarrow> bool" where
  "fits_at build limit n \<longleftrightarrow> (\<exists>m. build n = Inr m \<and> int (length m) \<le> limit)"

definition exceeds_at :: "'b message_source \<Rightarrow> int \<Rightarrow> nat \<Rightarrow> bool" where
  "exceeds_at build limit n \<longleftrightarrow> (\<exists>m. build n = Inr m \<and> limit < int (length m))"

text \<open>The two loops keep a count that fits, with its message, below a bound that is the initial
  one or a count that was seen not to fit.\<close>

lemma gallop_sound:
  assumes "gallop build limit fits best too_many k = Inr (f, b, t)"
    "build fits = Inr best" "int (length best) \<le> limit" "fits < too_many"
  shows "fits \<le> f \<and> f < t \<and> t \<le> too_many \<and> build f = Inr b \<and> int (length b) \<le> limit \<and>
    (t = too_many \<or> exceeds_at build limit t)"
  using assms
proof (induction build limit fits best too_many k rule: gallop.induct)
  case (1 build limit fits best too_many k)
  show ?case
  proof (cases "fits + 2 ^ k < too_many")
    case True
    with 1(2) obtain body where body: "build (fits + 2 ^ k) = Inr body"
      by (auto simp: gallop.simps [of build limit fits] bind_err_Inr)
    show ?thesis
    proof (cases "limit < int (length body)")
      case True
      with 1(2-) \<open>fits + 2 ^ k < too_many\<close> body show ?thesis
        by (auto simp: gallop.simps [of build limit fits] exceeds_at_def)
    next
      case False
      with 1(2) \<open>fits + 2 ^ k < too_many\<close> body
      have "gallop build limit (fits + 2 ^ k) body too_many (Suc k) = Inr (f, b, t)"
        by (simp add: gallop.simps [of build limit fits])
      from 1(1) [OF True body False this body] False True show ?thesis by simp
    qed
  next
    case False
    with 1(2-) show ?thesis by (simp add: gallop.simps [of build limit fits])
  qed
qed

lemma bisect_sound:
  assumes "bisect build limit fits best too_many = Inr (b, n)"
    "build fits = Inr best" "int (length best) \<le> limit" "fits < too_many"
  shows "fits \<le> n \<and> n < too_many \<and> build n = Inr b \<and> int (length b) \<le> limit \<and>
    (Suc n = too_many \<or> exceeds_at build limit (Suc n))"
  using assms
proof (induction build limit fits best too_many rule: bisect.induct)
  case (1 build limit fits best too_many)
  show ?case
  proof (cases "1 < too_many - fits")
    case True
    define probe where "probe = (fits + too_many) div 2"
    have probe: "fits < probe" "probe < too_many" using True by (auto simp: probe_def)
    from 1(3) True obtain body where body: "build probe = Inr body"
      by (auto simp: bisect.simps [of build limit fits] bind_err_Inr probe_def Let_def)
    show ?thesis
    proof (cases "int (length body) \<le> limit")
      case True
      with 1(3) \<open>1 < too_many - fits\<close> body
      have "bisect build limit probe body too_many = Inr (b, n)"
        by (simp add: bisect.simps [of build limit fits] probe_def [symmetric] Let_def)
      from 1(1) [OF \<open>1 < too_many - fits\<close> probe_def body True this body True probe(2)] probe
      show ?thesis by simp
    next
      case False
      with 1(3) \<open>1 < too_many - fits\<close> body
      have "bisect build limit fits best probe = Inr (b, n)"
        by (simp add: bisect.simps [of build limit fits] probe_def [symmetric] Let_def)
      from 1(2) [OF \<open>1 < too_many - fits\<close> probe_def body False this 1(4,5) probe(1)] probe False body
      show ?thesis by (auto simp: exceeds_at_def)
    qed
  next
    case False
    with 1(3-) show ?thesis by (auto simp: bisect.simps [of build limit fits])
  qed
qed

text \<open>Neither loop raises when the messages it probes can be built.\<close>

lemma gallop_total:
  assumes "\<forall>n < too_many. \<exists>m. build n = Inr m"
  shows "\<exists>f b t. gallop build limit fits best too_many k = Inr (f, b, t)"
  using assms
proof (induction build limit fits best too_many k rule: gallop.induct)
  case (1 build limit fits best too_many k)
  show ?case
  proof (cases "fits + 2 ^ k < too_many")
    case True
    with 1(2) obtain body where body: "build (fits + 2 ^ k) = Inr body" by blast
    with 1(1) [OF True body] 1(2) True show ?thesis
      by (cases "limit < int (length body)") (simp_all add: gallop.simps [of build limit fits])
  qed (simp add: gallop.simps [of build limit fits])
qed

lemma bisect_total:
  assumes "\<forall>n < too_many. \<exists>m. build n = Inr m"
  shows "\<exists>b n. bisect build limit fits best too_many = Inr (b, n)"
  using assms
proof (induction build limit fits best too_many rule: bisect.induct)
  case (1 build limit fits best too_many)
  show ?case
  proof (cases "1 < too_many - fits")
    case True
    define probe where "probe = (fits + too_many) div 2"
    have probe: "probe < too_many" using True by (auto simp: probe_def)
    with 1(3) obtain body where body: "build probe = Inr body" by blast
    with 1(1) [OF True probe_def body] 1(2) [OF True probe_def body] 1(3) True probe show ?thesis
      by (cases "int (length body) \<le> limit")
        (simp_all add: bisect.simps [of build limit fits] probe_def [symmetric] Let_def)
  qed (simp add: bisect.simps [of build limit fits])
qed

lemma search_sound:
  assumes "search build count limit required = Inr (body, n)" "required \<le> count"
    "required < count \<Longrightarrow> exceeds_at build limit count"
  shows "required \<le> n \<and> n \<le> count \<and> build n = Inr body \<and> int (length body) \<le> limit \<and>
    (n < count \<longrightarrow> exceeds_at build limit (Suc n))"
proof -
  let ?t = "if required < count then count else count + 1"
  obtain best f b t where best: "build required = Inr best" "int (length best) \<le> limit"
    and g: "gallop build limit required best ?t 0 = Inr (f, b, t)"
    and bs: "bisect build limit f b t = Inr (body, n)"
    using assms(1) by (auto simp: search_def bind_err_Inr not_less split: if_splits)
  have "required < ?t" using assms(2) by simp
  note g = gallop_sound [OF g best this]
  with bisect_sound [OF bs] have "required \<le> n \<and> n < t \<and> build n = Inr body \<and> int (length body) \<le> limit \<and>
      (Suc n = t \<or> exceeds_at build limit (Suc n))" by auto
  moreover have "Suc n = t \<Longrightarrow> n < count \<Longrightarrow> exceeds_at build limit (Suc n)"
    using g assms(3) by (auto split: if_splits)
  ultimately show ?thesis using g by (auto split: if_splits)
qed

lemma fill_sound:
  assumes "fill build count limit required = Inr (body, n)" "required \<le> count"
  shows "required \<le> n \<and> n \<le> count \<and> build n = Inr body \<and> int (length body) \<le> limit \<and>
    (n < count \<longrightarrow> exceeds_at build limit (Suc n))"
proof (cases "required < count")
  case True
  with assms(1) obtain whole where whole: "build count = Inr whole"
    by (auto simp: fill_def bind_err_Inr)
  show ?thesis
  proof (cases "int (length whole) \<le> limit")
    case True
    with assms \<open>required < count\<close> whole show ?thesis by (auto simp: fill_def)
  next
    case False
    with assms \<open>required < count\<close> whole show ?thesis
      by (intro search_sound) (auto simp: fill_def exceeds_at_def)
  qed
next
  case False
  with assms show ?thesis by (intro search_sound) (auto simp: fill_def)
qed

lemma fill_total:
  assumes "required \<le> count" "\<forall>n \<le> count. \<exists>m. build n = Inr m" "fits_at build limit required"
  shows "\<exists>body n. fill build count limit required = Inr (body, n)"
proof -
  let ?t = "if required < count then count else count + 1"
  from assms(3) obtain best where best: "build required = Inr best" "int (length best) \<le> limit"
    by (auto simp: fits_at_def)
  from assms(2) obtain whole where whole: "build count = Inr whole" by blast
  have b: "\<forall>n < t. \<exists>m. build n = Inr m" if "t \<le> ?t" for t
    using assms(2) that by (auto split: if_splits)
  obtain f x t where g: "gallop build limit required best ?t 0 = Inr (f, x, t)"
    using gallop_total [OF b [OF order_refl]] by blast
  with gallop_sound [OF g best] assms(1) have "t \<le> ?t" by (simp split: if_splits)
  from bisect_total [OF b [OF this]] obtain body n where "bisect build limit f x t = Inr (body, n)" by blast
  then have "search build count limit required = Inr (body, n)" using best g by (simp add: search_def)
  then show ?thesis using whole by (auto simp: fill_def)
qed

text \<open>
  C30. The galloping and bisecting search computes what it should. If every message can be built and
  sizes do not shrink as entries are added, \<open>fill\<close> returns the message with the largest number of
  entries whose encoding is within the limit; and it raises \<open>MessageTooLarge\<close>, with the size and
  the limit, exactly when not even the required entries fit.
\<close>

theorem fill_largest:
  assumes "required \<le> count"
    and "\<forall>m \<le> count. build m = Inr (msg m)"
    and "\<forall>m m'. m \<le> m' \<longrightarrow> m' \<le> count \<longrightarrow> length (msg m) \<le> length (msg m')"
  shows "fill build count limit required =
    (if int (length (msg required)) \<le> limit
     then Inr (msg (Max {m. m \<le> count \<and> int (length (msg m)) \<le> limit}),
               Max {m. m \<le> count \<and> int (length (msg m)) \<le> limit})
     else Inl (MessageTooLarge (length (msg required)) limit))"
proof (cases "int (length (msg required)) \<le> limit")
  case True
  let ?S = "{m. m \<le> count \<and> int (length (msg m)) \<le> limit}"
  have "fits_at build limit required" "\<forall>m \<le> count. \<exists>x. build m = Inr x"
    using assms(1,2) True by (simp_all add: fits_at_def)
  with fill_total [OF assms(1), of build limit] obtain body n
    where f: "fill build count limit required = Inr (body, n)" by blast
  from fill_sound [OF f assms(1)] assms(2)
  have n: "n \<in> ?S" "body = msg n" "n < count \<Longrightarrow> limit < int (length (msg (Suc n)))"
    by (auto simp: exceeds_at_def)
  have "m \<le> n" if "m \<in> ?S" for m
  proof (rule ccontr)
    assume "\<not> m \<le> n"
    then have "limit < int (length (msg (Suc n)))" "length (msg (Suc n)) \<le> length (msg m)"
      using that n(3) assms(3) by auto
    with that show False by simp
  qed
  then have "Max ?S = n" using n(1) by (intro Max_eqI) auto
  with True f n(2) show ?thesis by simp
next
  case False
  moreover have "\<not> int (length (msg count)) \<le> limit"
    using False assms(1,3) by (meson of_nat_mono order.trans order_refl)
  ultimately show ?thesis using assms(1,2) by (simp add: fill_def search_def)
qed

theorem fill_largest_witness:
  "fill (\<lambda>n. Inr (replicate (3 + n) True)) 10 (8::int) 2 =
    Inr (replicate (3 + Max {m::nat. m \<le> 10 \<and> 3 + int m \<le> 8}) True, Max {m::nat. m \<le> 10 \<and> 3 + int m \<le> 8})"
  using fill_largest [of 2 10 "\<lambda>n. Inr (replicate (3 + n) True)" "\<lambda>n. replicate (3 + n) True" 8] by simp

section \<open>Stored packages\<close>

definition storable :: "Entry \<Rightarrow> bool" where
  "storable e \<longleftrightarrow> (case e of Status _ _ _ _ _ \<Rightarrow> True | Item c _ _ _ _ \<Rightarrow> c \<noteq> ''Status'')"

lemma row_entry_row [simp]: "storable e \<Longrightarrow> row_entry (entry_row e) = Inr e"
  by (cases e) (auto simp: storable_def)

lemma from_stored_rows: "list_all storable es \<Longrightarrow> from_stored (map entry_row es) = Inr es"
  by (induction es) auto

lemma to_stored_Inr: "to_stored es = Inr rows \<longleftrightarrow> rows = map entry_row es \<and> json_size rows \<le> MAX_STORED_BYTES"
  by (auto simp: to_stored_def Let_def)

text \<open>
  The stored form loses nothing. What \<open>to_stored\<close> accepts, at most 32 KiB of JSON, \<open>from_stored\<close>
  turns back into the same entries (a server item's command is never the word \<open>Status\<close>); anything
  larger is refused with its size.
\<close>

theorem stored_round_trip:
  assumes "list_all storable es"
  shows "(case to_stored es of
     Inr rows \<Rightarrow> from_stored rows = Inr es \<and> json_size rows \<le> MAX_STORED_BYTES
   | Inl e \<Rightarrow> e = PackageTooLarge (json_size (map entry_row es)) \<and> MAX_STORED_BYTES < json_size (map entry_row es))"
  using from_stored_rows [OF assms] by (simp add: to_stored_def Let_def)

theorem stored_round_trip_witness:
  "to_stored [Status ''Alert'' ''1'' ''2'' ''200'' [], Item ''Get'' ''./DevInfo/Man'' [] [] []]
     = Inr [[''Status'', ''Alert'', ''1'', ''2'', ''200'', []], [''Get'', ''./DevInfo/Man'', [], [], []]] \<and>
   from_stored [[''Status'', ''Alert'', ''1'', ''2'', ''200'', []], [''Get'', ''./DevInfo/Man'', [], [], []]]
     = Inr [Status ''Alert'' ''1'' ''2'' ''200'' [], Item ''Get'' ''./DevInfo/Man'' [] [] []]"
proof -
  have "json_size [[''Status'', ''Alert'', ''1'', ''2'', ''200'', []], [''Get'', ''./DevInfo/Man'', [], [], []]] \<le> MAX_STORED_BYTES"
    by (simp add: json_size_def json_list_size_def json_str_size_def json_char_size_def MAX_STORED_BYTES_def
        code_of_def)
  then have "to_stored [Status ''Alert'' ''1'' ''2'' ''200'' [], Item ''Get'' ''./DevInfo/Man'' [] [] []]
     = Inr [[''Status'', ''Alert'', ''1'', ''2'', ''200'', []], [''Get'', ''./DevInfo/Man'', [], [], []]]"
    by (simp add: to_stored_Inr)
  with stored_round_trip [of "[Status ''Alert'' ''1'' ''2'' ''200'' [], Item ''Get'' ''./DevInfo/Man'' [] [] []]"]
  show ?thesis by (simp add: storable_def del: from_stored.simps row_entry.simps)
qed

section \<open>Reading back what was built\<close>

lemma local_name_plain: "CHR ''}'' \<notin> set t \<Longrightarrow> local_name (Some t) = t"
  by (simp add: local_name_def py_rpartition_def)

lemma local_name_metinf:
  assumes "CHR ''}'' \<notin> set t"
  shows "local_name (metinf t) = t"
proof -
  have "takeWhile (\<lambda>x. x \<noteq> CHR ''}'') (rev t) = rev t" using assms by (auto simp: takeWhile_eq_all_conv)
  then show ?thesis
    by (simp add: local_name_def py_rpartition_def takeWhile_tail del: takeWhile_eq_all_conv)
qed

lemma leaf_simps [simp]:
  "local_name (xml_tag (leaf n t)) = local_name (Some n)" "xml_text (leaf n t) = Some t"
  "xml_iter (leaf n t) = [leaf n t]"
  by (simp_all add: leaf_def)

lemma metinf_leaf_simps [simp]:
  "CHR ''}'' \<notin> set n \<Longrightarrow> local_name (xml_tag (metinf_leaf n t)) = n" "xml_text (metinf_leaf n t) = Some t"
  "xml_iter (metinf_leaf n t) = [metinf_leaf n t]"
  by (simp_all add: metinf_leaf_def local_name_metinf [simplified])

lemma branch_simps [simp]:
  "local_name (xml_tag (branch n cs)) = local_name (Some n)" "xml_text (branch n cs) = None"
  "xml_children (branch n cs) = cs" "xml_iter (branch n cs) = branch n cs # concat (map xml_iter cs)"
  by (simp_all add: branch_def)

lemma text_of_simps [simp]:
  "text_of None = []" "text_of (Some (leaf n t)) = py_strip t" "text_of (Some (metinf_leaf n t)) = py_strip t"
  by (simp_all add: text_of_def)

lemma py_strip_str_of_int: "0 \<le> n \<Longrightarrow> py_strip (str_of_int n) = str_of_int n"
proof -
  assume n: "0 \<le> n"
  let ?s = "str_of_nat (nat n)"
  have "list_all is_decimal ?s" "?s \<noteq> []" by (rule str_of_nat_decimal) simp
  then have "is_decimal (hd ?s)" "is_decimal (last ?s)" "?s \<noteq> []" by (auto simp: list_all_iff)
  then have "py_strip ?s = ?s" unfolding py_strip_def
    by (intro strip_by_id) (simp_all add: decimal_not_space)
  with n show ?thesis by (simp add: str_of_int_def)
qed

lemma str_of_int_integer:
  assumes "0 \<le> n" "length (str_of_int n) \<le> int_max_str_digits"
  shows "parse_integer (str_of_int n) = Inr n"
proof -
  let ?s = "str_of_nat (nat n)"
  have s: "str_of_int n = ?s" using assms(1) by (simp add: str_of_int_def)
  have strip: "py_strip ?s = ?s" using py_strip_str_of_int [OF assms(1)] by (simp add: s)
  have dec: "list_all is_decimal ?s" by (rule str_of_nat_decimal)
  obtain c cs where cs: "?s = c # cs" using str_of_nat_not_Nil by (cases ?s) blast+
  with dec have c: "c \<noteq> CHR ''-''" "c \<noteq> CHR ''+''" by (auto simp: is_decimal_def code_of_def)
  have "py_int ?s = Some n"
    using py_nat_str_of_nat [of "nat n"] assms c by (simp add: py_int_def strip [unfolded cs] cs s)
  moreover have "py_isdigit ?s" using dec by (auto simp: py_isdigit_def list_all_iff)
  ultimately show ?thesis by (simp add: parse_integer_def s)
qed

lemma length_str_of_nat: "length (str_of_nat n) \<le> n + 1"
proof (induction n rule: less_induct)
  case (less n)
  show ?case
  proof (cases "n < 10")
    case False
    with less [of "n div 10"] show ?thesis by (subst str_of_nat.simps) simp
  qed (subst str_of_nat.simps, simp)
qed

lemma cmd_id_integer: "0 \<le> n \<Longrightarrow> n < 4300 \<Longrightarrow> parse_integer (py_strip (str_of_int n)) = Inr n"
  using length_str_of_nat [of "nat n"] str_of_int_integer [of n]
  by (simp add: py_strip_str_of_int) (simp add: str_of_int_def int_max_str_digits_def)

text \<open>A built command and the command the parser reads from it.\<close>

definition reads_as :: "xml \<Rightarrow> Command \<Rightarrow> bool" where
  "reads_as e c \<longleftrightarrow> local_name (xml_tag e) \<noteq> ''Final'' \<and> parse_command (local_name (xml_tag e)) e = Inr c"

lemma parse_body_reads:
  "list_all2 reads_as es cs \<Longrightarrow>
    parse_body (es @ (if final then [branch ''Final'' []] else [])) = Inr (cs, final)"
  by (induction rule: list_all2_induct) (auto simp: reads_as_def Let_def local_name_plain)

definition read_command :: "string \<Rightarrow> int \<Rightarrow> xml list \<Rightarrow> Command" where
  "read_command name n rest = \<lparr>co_name = name, co_cmd_id = n,
     co_items = map parse_item (filter (\<lambda>c. local_name (xml_tag c) = ''Item'') rest),
     co_data = text_of (find (\<lambda>c. local_name (xml_tag c) = ''Data'') rest),
     co_cmd_ref = text_of (find (\<lambda>c. local_name (xml_tag c) = ''CmdRef'') rest),
     co_msg_ref = text_of (find (\<lambda>c. local_name (xml_tag c) = ''MsgRef'') rest),
     co_cmd = text_of (find (\<lambda>c. local_name (xml_tag c) = ''Cmd'') rest)\<rparr>"

lemma append_command_reads:
  assumes "0 \<le> sb_next_cmd_id b" "sb_next_cmd_id b < 4300" "CHR ''}'' \<notin> set name" "name \<noteq> ''Final''"
  shows "\<exists>e. append_command b name rest =
      b\<lparr>sb_commands := sb_commands b @ [e], sb_next_cmd_id := sb_next_cmd_id b + 1\<rparr> \<and>
    reads_as e (read_command name (sb_next_cmd_id b) rest)"
  using assms
  by (intro exI [of _ "branch name (leaf ''CmdID'' (str_of_int (sb_next_cmd_id b)) # rest)"])
    (simp add: append_command_def reads_as_def parse_command_def read_command_def find_child_def
      find_all_def local_name_plain cmd_id_integer)

text \<open>What a client finds in a command, in the form of entries: a status without its target
  reference, which the parser does not read, or the items.\<close>

definition delivered :: "Command \<Rightarrow> Entry list" where
  "delivered c =
     (if co_name c = ''Status'' then [Status (co_cmd c) (co_msg_ref c) (co_cmd_ref c) (co_data c) []]
      else map (\<lambda>i. Item (co_name c) (item_uri i) (it_data i) (it_format i) (it_type i)) (co_items c))"

text \<open>What of an entry goes on the wire, as read back: white space at the ends goes, a \<open>Get\<close> carries
  the URI only, an interior node no data, and \<open>Add\<close> supplies a type.\<close>

fun as_sent :: "Entry \<Rightarrow> Entry" where
  "as_sent (Status cmd msg_ref cmd_ref code target_ref) =
     Status (py_strip cmd) (py_strip (str_or msg_ref ''1'')) (py_strip (str_or cmd_ref ''0'')) (py_strip code) []"
| "as_sent (Item command uri data fmt type) =
     (if command = ''Get'' then Item command (py_strip uri) [] [] []
      else if command = ''Add''
      then Item command (py_strip uri) (if fmt = ''node'' then [] else py_strip data) (py_strip fmt)
        (py_strip (str_or type (if fmt = ''node'' then ''node'' else ''text/plain'')))
      else Item command (py_strip uri) (py_strip data) (py_strip fmt) (py_strip type))"

lemma py_strip_Nil [simp]: "py_strip [] = []"
  by (simp add: py_strip_def strip_by_def)

lemma parse_item_built:
  "parse_item (branch ''Item'' (target_uri uri # meta fmt type)) =
     \<lparr>it_target = py_strip uri, it_source = [], it_data = [], it_format = py_strip fmt, it_type = py_strip type\<rparr>"
  "parse_item (branch ''Item'' (target_uri uri # meta fmt type @ [leaf ''Data'' d])) =
     \<lparr>it_target = py_strip uri, it_source = [], it_data = py_strip d, it_format = py_strip fmt,
      it_type = py_strip type\<rparr>"
  by (simp_all add: parse_item_def find_child_def target_uri_def meta_def deep_text_opt_def deep_text_def
      local_name_plain)

lemmas wire_simps = read_command_def delivered_def item_uri_def str_or_def replace_item_def add_item_def
  local_name_plain find_append

text \<open>One step of \<open>apply_entries\<close> appends one command, which delivers the entries it was made of.\<close>

definition carries :: "SyncMlBuilder \<Rightarrow> Entry list \<Rightarrow> SyncMlBuilder \<Rightarrow> bool" where
  "carries b es b' \<longleftrightarrow> (\<exists>xs cs.
     b' = b\<lparr>sb_commands := sb_commands b @ xs, sb_next_cmd_id := sb_next_cmd_id b + int (length cs)\<rparr> \<and>
     list_all2 reads_as xs cs \<and> concat (map delivered cs) = map as_sent es \<and>
     map co_cmd_id cs = map (\<lambda>i. sb_next_cmd_id b + int i) [0..<length cs] \<and> length cs \<le> length es)"

lemma carries_Nil: "carries b [] b"
  unfolding carries_def by (intro exI [of _ "[]"]) simp

lemma carries_append:
  assumes "carries b es b1" "carries b1 fs b2"
  shows "carries b (es @ fs) b2"
proof -
  from assms(1) obtain xs cs where 1: "b1 = b\<lparr>sb_commands := sb_commands b @ xs, sb_next_cmd_id := sb_next_cmd_id b + int (length cs)\<rparr>"
    "list_all2 reads_as xs cs" "concat (map delivered cs) = map as_sent es"
    "map co_cmd_id cs = map (\<lambda>i. sb_next_cmd_id b + int i) [0..<length cs]" "length cs \<le> length es"
    unfolding carries_def by blast
  from assms(2) obtain ys ds where 2: "b2 = b1\<lparr>sb_commands := sb_commands b1 @ ys, sb_next_cmd_id := sb_next_cmd_id b1 + int (length ds)\<rparr>"
    "list_all2 reads_as ys ds" "concat (map delivered ds) = map as_sent fs"
    "map co_cmd_id ds = map (\<lambda>i. sb_next_cmd_id b1 + int i) [0..<length ds]" "length ds \<le> length fs"
    unfolding carries_def by blast
  have "map co_cmd_id (cs @ ds) = map (\<lambda>i. sb_next_cmd_id b + int i) [0..<length (cs @ ds)]"
    using 1(1,4) 2(4) map_add_upt [of "length cs" "length ds", symmetric]
    by (simp add: upt_add_eq_append [of 0] o_def add.commute add.left_commute)
  moreover have "list_all2 reads_as (xs @ ys) (cs @ ds)" using 1(2) 2(2) by (rule list_all2_appendI)
  ultimately show ?thesis using 1(1,3,5) 2(1,3,5) unfolding carries_def
    by (intro exI [of _ "xs @ ys"] exI [of _ "cs @ ds"]) simp
qed

lemma carries_command:
  assumes "0 \<le> sb_next_cmd_id b" "sb_next_cmd_id b < 4300" "CHR ''}'' \<notin> set name" "name \<noteq> ''Final''"
    "delivered (read_command name (sb_next_cmd_id b) rest) = map as_sent es" "es \<noteq> []"
  shows "carries b es (append_command b name rest)"
proof -
  from append_command_reads [OF assms(1-4)] obtain e where
    e: "append_command b name rest = b\<lparr>sb_commands := sb_commands b @ [e], sb_next_cmd_id := sb_next_cmd_id b + 1\<rparr>"
      "reads_as e (read_command name (sb_next_cmd_id b) rest)" by blast
  then show ?thesis using assms(5,6) unfolding carries_def
    by (intro exI [of _ "[e]"] exI [of _ "[read_command name (sb_next_cmd_id b) rest]"])
      (cases es, simp_all add: read_command_def)
qed

lemma carries_status:
  assumes "0 \<le> sb_next_cmd_id b" "sb_next_cmd_id b < 4300"
  shows "carries b [Status cmd msg_ref cmd_ref code target_ref]
    (status_command b cmd msg_ref cmd_ref code target_ref challenge)"
  unfolding status_command_def
  by (rule carries_command [OF assms])
    (auto simp: wire_simps chal_def split: option.splits)

lemma filter_Items: "\<forall>e \<in> set es. local_name (xml_tag (f e)) = ''Item'' \<Longrightarrow>
    filter (\<lambda>c. local_name (xml_tag c) = ''Item'') (map f es) = map f es"
  by (simp add: filter_map filter_id_conv)

lemma carries_items:
  assumes "0 \<le> sb_next_cmd_id b" "sb_next_cmd_id b < 4300"
    "item_command b command items = Inr b'" "list_all (same_command command) items" "items \<noteq> []"
  shows "carries b items b'"
proof -
  have it: "\<exists>u d f t. i = Item command u d f t" if "i \<in> set items" for i
    using assms(4) that by (cases i) (auto simp: list_all_iff)
  consider "command = ''Get''" | "command = ''Add''" | "command = ''Replace''"
    using assms(3) by (auto simp: item_command_def Let_def split: if_splits)
  then show ?thesis
  proof cases
    case 1
    have "delivered (read_command ''Get'' n (map (\<lambda>uri. branch ''Item'' [target_uri uri]) (map en_uri items)))
      = map as_sent items" for n
      using parse_item_built(1) [of _ "[]" "[]"] 1
      by (auto dest!: it simp: wire_simps filter_Items meta_def)
    with 1 assms show ?thesis
      by (auto simp: item_command_def get_command_def Let_def local_name_plain intro!: carries_command)
  next
    case 2
    have "delivered (read_command ''Add'' n (map add_item (map (\<lambda>i. (en_uri i, en_data i, en_fmt i, en_type i)) items)))
      = map as_sent items" for n
      using 2 by (auto dest!: it simp: wire_simps filter_Items parse_item_built split: if_splits)
    with 2 assms show ?thesis
      by (auto simp: item_command_def add_command_def Let_def local_name_plain intro!: carries_command)
  next
    case 3
    have "delivered (read_command ''Replace'' n (map replace_item (map (\<lambda>i. (en_uri i, en_data i, en_fmt i, en_type i)) items)))
      = map as_sent items" for n
      using 3 by (auto dest!: it simp: wire_simps filter_Items parse_item_built split: if_splits)
    with 3 assms show ?thesis
      by (auto simp: item_command_def replace_command_def Let_def local_name_plain intro!: carries_command)
  qed
qed

lemma apply_entries_carries:
  assumes "apply_entries b es = Inr b'" "0 \<le> sb_next_cmd_id b" "sb_next_cmd_id b + int (length es) \<le> 4300"
  shows "carries b es b'"
  using assms
proof (induction b es rule: apply_entries.induct)
  case (1 b)
  then show ?case by (simp add: carries_Nil)
next
  case (2 b cmd msg_ref cmd_ref code target_ref es)
  have "carries b [Status cmd msg_ref cmd_ref code target_ref]
      (status_command b cmd msg_ref cmd_ref code target_ref None)" (is "carries _ _ ?b")
    using 2(3,4) by (intro carries_status) simp_all
  moreover have "carries ?b es b'"
    using 2 by (intro 2(1)) (simp_all add: status_command_def append_command_def)
  ultimately show ?case using carries_append by fastforce
next
  case (3 b command uri data fmt type es)
  let ?items = "Item command uri data fmt type # takeWhile (same_command command) es"
  let ?rest = "dropWhile (same_command command) es"
  obtain b1 where b1: "item_command b command ?items = Inr b1" and rest: "apply_entries b1 ?rest = Inr b'"
    using 3(2) by (auto simp: bind_err_Inr)
  have c1: "carries b ?items b1"
    using 3(3,4) b1 by (intro carries_items [OF _ _ b1]) (auto simp: list_all_iff dest: set_takeWhileD)
  have len: "length es = length (takeWhile (same_command command) es) + length ?rest"
    by (metis length_append takeWhile_dropWhile_id)
  from c1 obtain n where n: "sb_next_cmd_id b1 = sb_next_cmd_id b + int n" "n \<le> length ?items"
    unfolding carries_def by auto
  have "carries b1 ?rest b'"
    using n len 3(3,4) by (intro 3(1) [OF b1 rest]) simp_all
  from carries_append [OF c1 this] show ?case by simp
qed

definition known_entry :: "Entry \<Rightarrow> bool" where
  "known_entry e \<longleftrightarrow> (case e of Status _ _ _ _ _ \<Rightarrow> True
     | Item c _ _ _ _ \<Rightarrow> c \<in> {''Get'', ''Add'', ''Replace''})"

lemma apply_entries_total: "list_all known_entry es \<Longrightarrow> \<exists>b'. apply_entries b es = Inr b'"
proof (induction b es rule: apply_entries.induct)
  case (3 b command uri data fmt type es)
  let ?items = "Item command uri data fmt type # takeWhile (same_command command) es"
  have "command \<in> {''Get'', ''Add'', ''Replace''}" using 3(2) by (simp add: known_entry_def)
  then obtain b1 where b1: "item_command b command ?items = Inr b1"
    by (auto simp: item_command_def Let_def)
  have "list_all known_entry (dropWhile (same_command command) es)"
    using 3(2) by (auto simp: list_all_iff dest: set_dropWhileD)
  from 3(1) [OF b1 this] show ?case by (simp only: apply_entries.simps b1 bind_err_simps)
qed simp_all

text \<open>
  Every message the server builds reads back, under its own parser, as what was put in: the session
  and message numbers, the addresses and the size limit of the header, the \<open>SyncHdr\<close> status followed
  by exactly the entries of the package in order (adjacent items grouped into one command lose
  nothing), commands numbered 1, 2, 3 and so on, and the \<open>Final\<close> marker when it was asked for.
\<close>

theorem message_carries_entries:
  assumes "apply_entries (status_command (new_builder sid mid tgt src mx) ''SyncHdr'' msg_ref ''0'' code tref chl) es = Inr b"
    and "length es < 4000" "0 \<le> mid" "length (str_of_int mid) \<le> int_max_str_digits"
    and "0 \<le> mx" "length (str_of_int mx) \<le> int_max_str_digits"
  shows "\<exists>m. parse_syncml (build_message b final) = Inr m \<and> ms_final m = final \<and>
    sh_session_id (ms_header m) = py_strip sid \<and> sh_msg_id (ms_header m) = str_of_int mid \<and>
    sh_target (ms_header m) = py_strip tgt \<and> sh_source (ms_header m) = py_strip src \<and>
    sh_max_msg_size (ms_header m) = mx \<and>
    concat (map delivered (ms_commands m)) = map as_sent (Status ''SyncHdr'' msg_ref ''0'' code tref # es) \<and>
    map co_cmd_id (ms_commands m) = map (\<lambda>i. 1 + int i) [0..<length (ms_commands m)]"
proof -
  let ?b0 = "new_builder sid mid tgt src mx"
  let ?b1 = "status_command ?b0 ''SyncHdr'' msg_ref ''0'' code tref chl"
  have "carries ?b0 [Status ''SyncHdr'' msg_ref ''0'' code tref] ?b1"
    by (intro carries_status) (simp_all add: new_builder_def)
  moreover have "carries ?b1 es b"
    using assms(1,2) by (intro apply_entries_carries) (simp_all add: status_command_def append_command_def new_builder_def)
  ultimately have "carries ?b0 (Status ''SyncHdr'' msg_ref ''0'' code tref # es) b"
    using carries_append by fastforce
  then obtain xs cs where b: "b = ?b0\<lparr>sb_commands := xs, sb_next_cmd_id := 1 + int (length cs)\<rparr>"
    and xs: "list_all2 reads_as xs cs"
    and cs: "concat (map delivered cs) = map as_sent (Status ''SyncHdr'' msg_ref ''0'' code tref # es)"
      "map co_cmd_id cs = map (\<lambda>i. 1 + int i) [0..<length cs]"
    unfolding carries_def by (auto simp: new_builder_def)
  from parse_body_reads [OF xs] have "parse_body (xs @ (if final then [branch ''Final'' []] else [])) = Inr (cs, final)" .
  with cs assms(3-) show ?thesis
    by (simp add: b parse_syncml_def build_message_def new_builder_def find_child_def local_name_plain
        parse_header_def target_uri_def deep_text_opt_def deep_text_def str_of_int_integer py_strip_str_of_int)
qed

theorem message_carries_entries_witness:
  "\<exists>b m. apply_entries (status_command (new_builder ''7'' 1 ''IMEI:35'' ''https://acs'' 4096) ''SyncHdr'' ''1'' ''0''
        ''212'' [] None) [Status ''Alert'' ''1'' ''2'' ''200'' [], Item ''Get'' ''./DevInfo/Man'' [] [] [],
        Item ''Get'' ''./DevInfo/Mod'' [] [] []] = Inr b \<and>
    parse_syncml (build_message b True) = Inr m \<and> ms_final m \<and>
    concat (map delivered (ms_commands m)) = map as_sent [Status ''SyncHdr'' ''1'' ''0'' ''212'' [],
      Status ''Alert'' ''1'' ''2'' ''200'' [], Item ''Get'' ''./DevInfo/Man'' [] [] [],
      Item ''Get'' ''./DevInfo/Mod'' [] [] []]"
proof -
  let ?es = "[Status ''Alert'' ''1'' ''2'' ''200'' [], Item ''Get'' ''./DevInfo/Man'' [] [] [],
    Item ''Get'' ''./DevInfo/Mod'' [] [] []]"
  have "list_all known_entry ?es" by (simp add: known_entry_def)
  from apply_entries_total [OF this] obtain b where
    b: "apply_entries (status_command (new_builder ''7'' 1 ''IMEI:35'' ''https://acs'' 4096) ''SyncHdr'' ''1'' ''0''
        ''212'' [] None) ?es = Inr b" by blast
  have "length (str_of_int 1) \<le> int_max_str_digits" "length (str_of_int 4096) \<le> int_max_str_digits"
    using length_str_of_nat [of 1] length_str_of_nat [of 4096]
    by (simp_all add: str_of_int_def int_max_str_digits_def)
  with message_carries_entries [OF b, of True] b show ?thesis by auto
qed

end
