(* ===== verification/Wbxml.thy ===== *)
theory Wbxml
  imports Acs_Prelude
begin

text \<open>
  The WBXML codec of the OMA-DM plane, \<^verbatim>\<open>src/src/acs/protocol/omadm/wbxml.py\<close>.

  Bytes are characters. The decoder's offset is the suffix of the payload that is still to be read;
  its loop ends because every token consumes a byte. The encoder works on the element tree that
  the standard library's XML parser returns, a parameter: a node has a tag with its namespace in
  braces, attributes, a text, a tail and children, as \<open>ElementTree\<close> has them. Decoded text is kept
  as the UTF-8 bytes it arrived in, after the check that they are valid UTF-8 of XML characters.
\<close>

section \<open>Constants\<close>

definition MAX_INPUT_BYTES :: nat where "MAX_INPUT_BYTES = 512 * 1024"
definition MAX_XML_BYTES :: nat where "MAX_XML_BYTES = 2 * 1024 * 1024"
definition MAX_DEPTH :: nat where "MAX_DEPTH = 64"
definition MAX_ELEMENTS :: nat where "MAX_ELEMENTS = 16384"
definition MAX_MB_UINT32_BYTES :: nat where "MAX_MB_UINT32_BYTES = 5"
definition MAX_UINT32 :: nat where "MAX_UINT32 = 2 ^ 32 - 1"
definition MAX_ENCODE_XML_BYTES :: nat where "MAX_ENCODE_XML_BYTES = 32 * 1024 * 1024"
definition MAX_ENCODE_BYTES :: nat where "MAX_ENCODE_BYTES = 16 * 1024 * 1024"
definition MAX_ENCODE_DEPTH :: nat where "MAX_ENCODE_DEPTH = 128"
definition MAX_ENCODE_ELEMENTS :: nat where "MAX_ENCODE_ELEMENTS = 8 * MAX_ELEMENTS"

abbreviation byte :: "nat \<Rightarrow> char" where
  "byte n \<equiv> char_of n"

abbreviation NUL :: char where
  "NUL \<equiv> CHR 0x00"

definition PUBLIC_IDS :: "(nat, string \<times> string) dict" where
  "PUBLIC_IDS = [(0x0FD3, (''-//SYNCML//DTD SyncML 1.1//EN'', ''SYNCML:SYNCML1.1'')),
     (0x1201, (''-//SYNCML//DTD SyncML 1.2//EN'', ''SYNCML:SYNCML1.2''))]"

definition SYNCML_TAGS :: "(nat, string) dict" where
  "SYNCML_TAGS = [(0x05, ''Add''), (0x06, ''Alert''), (0x07, ''Archive''), (0x08, ''Atomic''),
     (0x09, ''Chal''), (0x0A, ''Cmd''), (0x0B, ''CmdID''), (0x0C, ''CmdRef''), (0x0D, ''Copy''),
     (0x0E, ''Cred''), (0x0F, ''Data''), (0x10, ''Delete''), (0x11, ''Exec''), (0x12, ''Final''),
     (0x13, ''Get''), (0x14, ''Item''), (0x15, ''Lang''), (0x16, ''LocName''), (0x17, ''LocURI''),
     (0x18, ''Map''), (0x19, ''MapItem''), (0x1A, ''Meta''), (0x1B, ''MsgID''), (0x1C, ''MsgRef''),
     (0x1D, ''NoResp''), (0x1E, ''NoResults''), (0x1F, ''Put''), (0x20, ''Replace''),
     (0x21, ''RespURI''), (0x22, ''Results''), (0x23, ''Search''), (0x24, ''Sequence''),
     (0x25, ''SessionID''), (0x26, ''SftDel''), (0x27, ''Source''), (0x28, ''SourceRef''),
     (0x29, ''Status''), (0x2A, ''Sync''), (0x2B, ''SyncBody''), (0x2C, ''SyncHdr''),
     (0x2D, ''SyncML''), (0x2E, ''Target''), (0x2F, ''TargetRef''), (0x31, ''VerDTD''),
     (0x32, ''VerProto''), (0x33, ''NumberOfChanges''), (0x34, ''MoreData''), (0x35, ''Field''),
     (0x36, ''Filter''), (0x37, ''Record''), (0x38, ''FilterType''), (0x39, ''SourceParent''),
     (0x3A, ''TargetParent''), (0x3B, ''Move''), (0x3C, ''Correlator'')]"

definition METINF_TAGS :: "(nat, string) dict" where
  "METINF_TAGS = [(0x05, ''Anchor''), (0x06, ''EMI''), (0x07, ''Format''), (0x08, ''FreeID''),
     (0x09, ''FreeMem''), (0x0A, ''Last''), (0x0B, ''Mark''), (0x0C, ''MaxMsgSize''),
     (0x0D, ''Mem''), (0x0E, ''MetInf''), (0x0F, ''Next''), (0x10, ''NextNonce''),
     (0x11, ''SharedMem''), (0x12, ''Size''), (0x13, ''Type''), (0x14, ''Version''),
     (0x15, ''MaxObjSize''), (0x16, ''FieldLevel'')]"

definition tag_page :: "nat \<Rightarrow> (nat, string) dict" where
  "tag_page p = (if p = 0 then SYNCML_TAGS else METINF_TAGS)"

definition tag_tokens :: "nat \<Rightarrow> (string, nat) dict" where
  "tag_tokens p = map (\<lambda>(token, name). (name, token)) (tag_page p)"

datatype WbxmlError =
  InputTooLarge | Truncated | IntegerExceedsUint32 | IntegerTooLong | UnterminatedString
| TextNotUtf8 | InvalidXmlCharacter | BadTableOffset | UnterminatedTableEntry
| UnsupportedVersion | UnsupportedCharset | UnsupportedPublicId | TrailingContent
| UnsupportedCodePage | UnexpectedEnd | TextOutsideRoot | AttributesNotSupported
| UnsupportedGlobalToken | UnknownTagToken | NestingTooDeep | TooManyElements
| RootNotSyncML | MissingEnd | MissingRoot | OutputTooLarge | MalformedXml
| DoctypeNotSupported | NamespaceMismatch | UnsupportedNamespace

section \<open>Text\<close>

text \<open>Strict UTF-8 decoding to code points.\<close>

definition cont_byte :: "char \<Rightarrow> bool" where
  "cont_byte c \<longleftrightarrow> 128 \<le> code_of c \<and> code_of c < 192"

fun utf8_points :: "string \<Rightarrow> nat list option" where
  "utf8_points [] = Some []"
| "utf8_points (b # bs) =
     (let n = code_of b in
      if n < 128 then map_option ((#) n) (utf8_points bs)
      else if 194 \<le> n \<and> n \<le> 223 then (case bs of
        c # cs \<Rightarrow> if cont_byte c then map_option ((#) ((n - 192) * 64 + (code_of c - 128))) (utf8_points cs) else None
      | _ \<Rightarrow> None)
      else if 224 \<le> n \<and> n \<le> 239 then (case bs of
        c # d # ds \<Rightarrow>
          (let p = (n - 224) * 4096 + (code_of c - 128) * 64 + (code_of d - 128) in
           if cont_byte c \<and> cont_byte d \<and> 0x800 \<le> p \<and> \<not> (0xD800 \<le> p \<and> p \<le> 0xDFFF)
           then map_option ((#) p) (utf8_points ds) else None)
      | _ \<Rightarrow> None)
      else if 240 \<le> n \<and> n \<le> 244 then (case bs of
        c # d # e # es \<Rightarrow>
          (let p = (n - 240) * 262144 + (code_of c - 128) * 4096 + (code_of d - 128) * 64 + (code_of e - 128) in
           if cont_byte c \<and> cont_byte d \<and> cont_byte e \<and> 0x10000 \<le> p \<and> p \<le> 0x10FFFF
           then map_option ((#) p) (utf8_points es) else None)
      | _ \<Rightarrow> None)
      else None)"

definition xml_point :: "nat \<Rightarrow> bool" where
  "xml_point n \<longleftrightarrow> n \<in> {9, 10, 13} \<or> (0x20 \<le> n \<and> n \<le> 0xD7FF) \<or> (0xE000 \<le> n \<and> n \<le> 0xFFFD) \<or>
     (0x10000 \<le> n \<and> n \<le> 0x10FFFF)"

definition check_utf8 :: "string \<Rightarrow> WbxmlError + string" where
  "check_utf8 raw = (case utf8_points raw of
     None \<Rightarrow> Inl TextNotUtf8
   | Some ps \<Rightarrow> if list_all xml_point ps then Inr raw else Inl InvalidXmlCharacter)"

text \<open>\<open>escape(text, {"\r": "&#13;"})\<close>, on the encoded bytes: the characters it replaces are ASCII.\<close>

definition escape_char :: "char \<Rightarrow> string" where
  "escape_char c = (if c = CHR ''&'' then ''&amp;'' else if c = CHR ''>'' then ''&gt;''
     else if c = CHR ''<'' then ''&lt;'' else if c = CHR 0x0D then ''&#13;'' else [c])"

definition escape :: "string \<Rightarrow> string" where
  "escape s = concat (map escape_char s)"

section \<open>Integers, strings, output\<close>

fun mb_prefix :: "nat \<Rightarrow> string" where
  "mb_prefix v = (if v = 0 then [] else mb_prefix (v div 128) @ [byte (v mod 128 + 128)])"

declare mb_prefix.simps [simp del]

definition mb_uint32 :: "nat \<Rightarrow> WbxmlError + string" where
  "mb_uint32 v = (if v \<le> MAX_UINT32 then Inr (mb_prefix (v div 128) @ [byte (v mod 128)])
     else Inl IntegerExceedsUint32)"

definition table_string :: "string \<Rightarrow> nat \<Rightarrow> WbxmlError + string" where
  "table_string table offset =
     (if length table \<le> offset then Inl BadTableOffset
      else (let rest = drop offset table in
        if NUL \<notin> set rest then Inl UnterminatedTableEntry else Inr (takeWhile (\<lambda>c. c \<noteq> NUL) rest)))"

definition out_write :: "nat \<Rightarrow> string \<Rightarrow> string \<Rightarrow> WbxmlError + string" where
  "out_write limit out data = (if limit - length out < length data then Inl OutputTooLarge else Inr (out @ data))"

definition take_bytes :: "nat \<Rightarrow> string \<Rightarrow> WbxmlError + string \<times> string" where
  "take_bytes n ps = (if length ps < n then Inl Truncated else Inr (take n ps, drop n ps))"

definition take_byte :: "string \<Rightarrow> WbxmlError + nat \<times> string" where
  "take_byte ps = (case ps of [] \<Rightarrow> Inl Truncated | c # cs \<Rightarrow> Inr (code_of c, cs))"

fun read_integer :: "nat \<Rightarrow> nat \<Rightarrow> string \<Rightarrow> WbxmlError + nat \<times> string" where
  "read_integer 0 v ps = Inl IntegerTooLong"
| "read_integer (Suc k) v ps =
     bind_err (take_byte ps) (\<lambda>(b, rest).
     let v' = v * 128 + b mod 128 in
     if MAX_UINT32 < v' then Inl IntegerExceedsUint32
     else if b < 128 then Inr (v', rest)
     else read_integer k v' rest)"

definition take_integer :: "string \<Rightarrow> WbxmlError + nat \<times> string" where
  "take_integer ps = read_integer MAX_MB_UINT32_BYTES 0 ps"

definition take_inline :: "string \<Rightarrow> WbxmlError + string \<times> string" where
  "take_inline ps = (if NUL \<in> set ps
     then Inr (takeWhile (\<lambda>c. c \<noteq> NUL) ps, drop 1 (dropWhile (\<lambda>c. c \<noteq> NUL) ps))
     else Inl UnterminatedString)"

section \<open>Decoder\<close>

record decoder =
  wd_page :: nat
  wd_stack :: "string list"
  wd_elements :: nat
  wd_out :: string

definition decode_text :: "string \<Rightarrow> nat \<Rightarrow> string \<Rightarrow> WbxmlError + string \<times> string" where
  "decode_text table token ps =
     (if token = 0x03 then take_inline ps
      else if token = 0x83
      then bind_err (take_integer ps) (\<lambda>(offset, rest).
           bind_err (table_string table offset) (\<lambda>raw. Inr (raw, rest)))
      else bind_err (take_integer ps) (\<lambda>(n, rest). take_bytes n rest))"

definition decode_tag :: "string \<Rightarrow> nat \<Rightarrow> decoder \<Rightarrow> WbxmlError + decoder" where
  "decode_tag ns token st =
     (if token \<in> {0x84, 0xC4} \<or> (5 \<le> token mod 64 \<and> 128 \<le> token) then Inl AttributesNotSupported
      else if token mod 64 < 5 then Inl UnsupportedGlobalToken
      else (case dict_get (tag_page (wd_page st)) (token mod 64) of
        None \<Rightarrow> Inl UnknownTagToken
      | Some name \<Rightarrow>
          if MAX_DEPTH \<le> length (wd_stack st) then Inl NestingTooDeep
          else if MAX_ELEMENTS < wd_elements st + 1 then Inl TooManyElements
          else if wd_elements st = 0 \<and> (wd_page st \<noteq> 0 \<or> name \<noteq> ''SyncML'') then Inl RootNotSyncML
          else
            (let qualified = (if wd_page st = 0 then name else ''metinf:'' @ name);
                 declaration = (if wd_elements st = 0
                   then '' xmlns=\"'' @ ns @ ''\" xmlns:metinf=\"syncml:metinf\"'' else []);
                 content = odd (token div 64)
             in bind_err (out_write MAX_XML_BYTES (wd_out st)
                    (''<'' @ qualified @ declaration @ (if content then ''>'' else ''/>''))) (\<lambda>out.
                Inr (st\<lparr>wd_elements := wd_elements st + 1, wd_out := out,
                        wd_stack := (if content then qualified # wd_stack st else wd_stack st)\<rparr>)))))"

text \<open>One iteration of the loop: the first byte of the input and what belongs to it.\<close>

definition decode_token :: "string \<Rightarrow> string \<Rightarrow> decoder \<Rightarrow> string \<Rightarrow> WbxmlError + decoder \<times> string" where
  "decode_token table ns st ps =
     bind_err (take_byte ps) (\<lambda>(token, rest).
     if token = 0x00
     then bind_err (take_byte rest) (\<lambda>(page, rest).
       if 2 \<le> page then Inl UnsupportedCodePage else Inr (st\<lparr>wd_page := page\<rparr>, rest))
     else if token = 0x01
     then (case wd_stack st of
         [] \<Rightarrow> Inl UnexpectedEnd
       | q # qs \<Rightarrow> bind_err (out_write MAX_XML_BYTES (wd_out st) (''</'' @ q @ ''>'')) (\<lambda>out.
           Inr (st\<lparr>wd_stack := qs, wd_out := out\<rparr>, rest)))
     else if token \<in> {0x03, 0x83, 0xC3}
     then (if wd_stack st = [] then Inl TextOutsideRoot
       else bind_err (decode_text table token rest) (\<lambda>(raw, rest).
         bind_err (check_utf8 raw) (\<lambda>text.
         bind_err (out_write MAX_XML_BYTES (wd_out st) (escape text)) (\<lambda>out.
         Inr (st\<lparr>wd_out := out\<rparr>, rest)))))
     else bind_err (decode_tag ns token st) (\<lambda>st'. Inr (st', rest)))"

lemma take_byte_shorter: "take_byte ps = Inr (b, rest) \<Longrightarrow> length rest < length ps"
  by (auto simp: take_byte_def split: list.splits)

lemma read_integer_shorter: "read_integer k v ps = Inr (n, rest) \<Longrightarrow> length rest < length ps"
  by (induction k v ps rule: read_integer.induct)
    (fastforce simp: bind_err_Inr Let_def dest: take_byte_shorter split: if_splits)+

lemma take_inline_shorter: "take_inline ps = Inr (raw, rest) \<Longrightarrow> length rest \<le> length ps"
  by (auto simp: take_inline_def split: if_splits intro: le_trans [OF diff_le_self length_dropWhile_le])

lemma decode_text_shorter: "decode_text table token ps = Inr (raw, rest) \<Longrightarrow> length rest \<le> length ps"
  by (auto simp: decode_text_def bind_err_Inr take_bytes_def take_integer_def split: if_splits
      dest!: read_integer_shorter take_inline_shorter)

lemma decode_token_shorter:
  "decode_token table ns st ps = Inr (st', rest) \<Longrightarrow> length rest < length ps"
  by (auto simp: decode_token_def bind_err_Inr split: if_splits list.splits
      dest!: take_byte_shorter decode_text_shorter)

function decode_loop :: "string \<Rightarrow> string \<Rightarrow> decoder \<Rightarrow> string \<Rightarrow> WbxmlError + decoder" where
  "decode_loop table ns st ps =
     (if ps = [] then Inr st
      else if wd_elements st \<noteq> 0 \<and> wd_stack st = [] then Inl TrailingContent
      else bind_err (decode_token table ns st ps) (\<lambda>(st', rest). decode_loop table ns st' rest))"
  by pat_completeness auto
termination
  by (relation "measure (\<lambda>(table, ns, st, ps). length ps)") (auto dest: decode_token_shorter)

declare decode_loop.simps [simp del]

definition find_public :: "(nat \<times> string \<times> string \<Rightarrow> bool) \<Rightarrow> nat \<Rightarrow> nat" where
  "find_public P dflt = (case List.find P PUBLIC_IDS of None \<Rightarrow> dflt | Some (key, _) \<Rightarrow> key)"

definition decode_body :: "string \<Rightarrow> nat \<Rightarrow> string \<Rightarrow> WbxmlError + string" where
  "decode_body table public_id ps = (case dict_get PUBLIC_IDS public_id of
     None \<Rightarrow> Inl UnsupportedPublicId
   | Some (_, ns) \<Rightarrow>
       bind_err (decode_loop table ns \<lparr>wd_page = 0, wd_stack = [], wd_elements = 0, wd_out = []\<rparr> ps) (\<lambda>st.
       if wd_stack st \<noteq> [] then Inl MissingEnd
       else if wd_elements st = 0 then Inl MissingRoot
       else Inr (wd_out st)))"

definition wbxml_decode :: "string \<Rightarrow> WbxmlError + string" where
  "wbxml_decode payload =
     (if MAX_INPUT_BYTES < length payload then Inl InputTooLarge
      else bind_err (take_byte payload) (\<lambda>(version, ps).
        if version \<notin> {2, 3} then Inl UnsupportedVersion
        else bind_err (take_integer ps) (\<lambda>(public_id, ps).
        bind_err (if public_id = 0 then bind_err (take_integer ps) (\<lambda>(offset, ps). Inr (Some offset, ps))
                  else Inr (None, ps)) (\<lambda>(public_offset, ps).
        bind_err (take_integer ps) (\<lambda>(charset, ps).
        if charset \<noteq> 106 then Inl UnsupportedCharset
        else bind_err (take_integer ps) (\<lambda>(size, ps).
        bind_err (take_bytes size ps) (\<lambda>(table, ps).
        case public_offset of
          None \<Rightarrow> decode_body table public_id ps
        | Some offset \<Rightarrow>
            bind_err (table_string table offset) (\<lambda>raw.
            bind_err (check_utf8 raw) (\<lambda>identifier.
            decode_body table (find_public (\<lambda>(key, name, ns). name = identifier) 0) ps)))))))))"

section \<open>Encoder\<close>

datatype et = Et (et_tag: string) (et_attrs: "(string \<times> string) list") (et_text: "string option")
  (et_tail: "string option") (et_children: "et list")

text \<open>\<open>_TreeBuilder\<close>: what it counts while the parser reports elements.\<close>

fun et_depth :: "et \<Rightarrow> nat" where
  "et_depth (Et t a x l cs) = Suc (foldr max (map et_depth cs) 0)"

fun et_size :: "et \<Rightarrow> nat" where
  "et_size (Et t a x l cs) = Suc (sum_list (map et_size cs))"

fun et_plain :: "et \<Rightarrow> bool" where
  "et_plain (Et t a x l cs) = (a = [] \<and> list_all et_plain cs)"

definition check_tree :: "bool \<times> et \<Rightarrow> WbxmlError + et" where
  "check_tree doc = (case doc of (doctype, root) \<Rightarrow>
     if doctype then Inl DoctypeNotSupported
     else if MAX_ENCODE_DEPTH < et_depth root then Inl NestingTooDeep
     else if MAX_ENCODE_ELEMENTS < et_size root then Inl TooManyElements
     else if \<not> et_plain root then Inl AttributesNotSupported
     else Inr root)"

definition remove_prefix :: "string \<Rightarrow> string \<Rightarrow> string" where
  "remove_prefix p s = (if py_startswith s p then drop (length p) s else s)"

definition split_tag :: "string \<Rightarrow> string \<times> string" where
  "split_tag tag = (case py_rpartition CHR ''}'' tag of (ns, sep, name) \<Rightarrow> (remove_prefix ''{'' ns, name))"

definition blank :: "string option \<Rightarrow> bool" where
  "blank t \<longleftrightarrow> (case t of None \<Rightarrow> False | Some s \<Rightarrow> py_isspace s)"

fun strip_layout :: "et \<Rightarrow> et" where
  "strip_layout (Et t a x l cs) = Et t a (if cs \<noteq> [] \<and> blank x then None else x)
     (if blank l then None else l) (map strip_layout cs)"

definition some_text :: "string option \<Rightarrow> string list" where
  "some_text t = (case t of None \<Rightarrow> [] | Some s \<Rightarrow> if s = [] then [] else [s])"

fun et_texts :: "et \<Rightarrow> string list" where
  "et_texts (Et t a x l cs) = some_text x @ some_text l @ concat (map et_texts cs)"

datatype public_id = NoPublicId | PublicName string | PublicNumber nat

text \<open>The string table: the public name first, then, if strings are shared, every text that occurs
  more than once and is longer than three bytes.\<close>

type_synonym string_table = "(string, nat) dict \<times> string"

definition table_add :: "string \<Rightarrow> string_table \<Rightarrow> string_table" where
  "table_add text t = (case t of (offsets, table) \<Rightarrow>
     (dict_put text (length table) offsets, table @ utf8 text @ [NUL]))"

definition share_text :: "string list \<Rightarrow> string \<Rightarrow> string_table \<Rightarrow> string_table" where
  "share_text texts text t =
     (if 1 < count_list texts text \<and> 3 < length (utf8 text) \<and> dict_get (fst t) text = None
      then table_add text t else t)"

definition build_table :: "public_id \<Rightarrow> bool \<Rightarrow> string list \<Rightarrow> string_table" where
  "build_table pid share texts =
     (let t = (case pid of PublicName n \<Rightarrow> table_add n ([], []) | _ \<Rightarrow> ([], []))
      in if share then fold (share_text texts) (rev (remdups (rev texts))) t else t)"

text \<open>Writing the elements: the code page that is switched to and the output so far.\<close>

record encoder =
  we_opaque :: bool
  we_offsets :: "(string, nat) dict"
  we_ns :: string

definition enc_write :: "string \<Rightarrow> nat \<times> string \<Rightarrow> WbxmlError + nat \<times> string" where
  "enc_write data s = bind_err (out_write MAX_ENCODE_BYTES (snd s) data) (\<lambda>out. Inr (fst s, out))"

definition text_content :: "encoder \<Rightarrow> string option \<Rightarrow> nat \<times> string \<Rightarrow> WbxmlError + nat \<times> string" where
  "text_content opt t s = (case t of
     None \<Rightarrow> Inr s
   | Some text \<Rightarrow>
       if text = [] then Inr s
       else if we_opaque opt
       then bind_err (mb_uint32 (length (utf8 text))) (\<lambda>n. enc_write (byte 0xC3 # n @ utf8 text) s)
       else (case dict_get (we_offsets opt) text of
           Some offset \<Rightarrow> bind_err (mb_uint32 offset) (\<lambda>n. enc_write (byte 0x83 # n) s)
         | None \<Rightarrow> enc_write (byte 0x03 # utf8 text @ [NUL]) s))"

definition has_content :: "et \<Rightarrow> bool" where
  "has_content e \<longleftrightarrow> some_text (et_text e) \<noteq> [] \<or> et_children e \<noteq> []"

definition open_element :: "encoder \<Rightarrow> et \<Rightarrow> nat \<times> string \<Rightarrow> WbxmlError + nat \<times> string" where
  "open_element opt e s =
     (case split_tag (et_tag e) of (ns, name) \<Rightarrow>
      if ns \<notin> {[], we_ns opt, ''syncml:metinf''} then Inl UnsupportedNamespace
      else (let page = (if ns = ''syncml:metinf'' then 1 else 0) in
        case dict_get (tag_tokens page) name of
          None \<Rightarrow> Inl UnknownTagToken
        | Some token \<Rightarrow>
            bind_err (if page \<noteq> fst s then enc_write [byte 0x00, byte page] (page, snd s) else Inr s) (\<lambda>s.
            enc_write [byte (if has_content e then token + 64 else token)] s)))"

fun element_content :: "encoder \<Rightarrow> et \<Rightarrow> nat \<times> string \<Rightarrow> WbxmlError + nat \<times> string"
and children_content :: "encoder \<Rightarrow> et list \<Rightarrow> nat \<times> string \<Rightarrow> WbxmlError + nat \<times> string" where
  "element_content opt (Et t a x l cs) s =
     bind_err (open_element opt (Et t a x l cs) s) (\<lambda>s.
     if has_content (Et t a x l cs)
     then bind_err (text_content opt x s) (\<lambda>s. bind_err (children_content opt cs s) (enc_write [byte 0x01]))
     else Inr s)"
| "children_content opt [] s = Inr s"
| "children_content opt (c # cs) s =
     bind_err (element_content opt c s) (\<lambda>s.
     bind_err (text_content opt (et_tail c) s) (children_content opt cs))"

definition resolve_public :: "public_id \<Rightarrow> string \<Rightarrow> public_id" where
  "resolve_public public ns = (case public of
     NoPublicId \<Rightarrow> PublicNumber (find_public (\<lambda>(key, n, s). s = ns) 0x1201) | p \<Rightarrow> p)"

definition numeric_id :: "public_id \<Rightarrow> nat" where
  "numeric_id pid = (case pid of PublicName p \<Rightarrow> find_public (\<lambda>(key, n, s). n = p) 0 | PublicNumber n \<Rightarrow> n
     | NoPublicId \<Rightarrow> 0)"

definition public_bytes :: "public_id \<Rightarrow> WbxmlError + string" where
  "public_bytes pid = (case pid of PublicNumber n \<Rightarrow> mb_uint32 n | _ \<Rightarrow> Inr [NUL, NUL])"

definition encode_tree :: "nat \<Rightarrow> public_id \<Rightarrow> string \<Rightarrow> bool \<Rightarrow> string_table \<Rightarrow> et \<Rightarrow> WbxmlError + string" where
  "encode_tree version pid ns opaque t tree =
     bind_err (out_write MAX_ENCODE_BYTES [] [byte version]) (\<lambda>out.
     bind_err (public_bytes pid) (\<lambda>p.
     bind_err (out_write MAX_ENCODE_BYTES out p) (\<lambda>out.
     bind_err (mb_uint32 106) (\<lambda>charset.
     bind_err (mb_uint32 (length (snd t))) (\<lambda>size.
     bind_err (out_write MAX_ENCODE_BYTES out (charset @ size @ snd t)) (\<lambda>out.
     bind_err (element_content \<lparr>we_opaque = opaque, we_offsets = fst t, we_ns = ns\<rparr> tree (0, out)) (\<lambda>s.
     Inr (snd s))))))))"

definition encode_root :: "nat \<Rightarrow> public_id \<Rightarrow> bool \<Rightarrow> bool \<Rightarrow> et \<Rightarrow> WbxmlError + string" where
  "encode_root version public share opaque root =
     (let ns = fst (split_tag (et_tag root));
          pid = resolve_public public ns
      in if snd (split_tag (et_tag root)) \<noteq> ''SyncML'' then Inl RootNotSyncML
         else (case dict_get PUBLIC_IDS (numeric_id pid) of
           None \<Rightarrow> Inl UnsupportedPublicId
         | Some (_, syncml_ns) \<Rightarrow>
             if ns \<noteq> [] \<and> ns \<noteq> syncml_ns then Inl NamespaceMismatch
             else (let tree = strip_layout root in
               encode_tree version pid syncml_ns opaque (build_table pid (share \<and> \<not> opaque) (et_texts tree)) tree)))"

definition wbxml_encode :: "(string \<Rightarrow> (bool \<times> et) option) \<Rightarrow> string \<Rightarrow> nat \<Rightarrow> public_id \<Rightarrow> bool \<Rightarrow> bool \<Rightarrow>
    WbxmlError + string" where
  "wbxml_encode expat payload version public share opaque =
     (if MAX_ENCODE_XML_BYTES < length payload then Inl InputTooLarge
      else if version \<notin> {2, 3} then Inl UnsupportedVersion
      else (case expat payload of
        None \<Rightarrow> Inl MalformedXml
      | Some doc \<Rightarrow> bind_err (check_tree doc) (encode_root version public share opaque)))"

section \<open>Integers\<close>

lemma take_byte_Cons [simp]: "take_byte (c # cs) = Inr (code_of c, cs)"
  by (simp add: take_byte_def)

lemma mb_prefix_0 [simp]: "mb_prefix 0 = []"
  by (simp add: mb_prefix.simps)

lemma read_prefix:
  "w \<le> MAX_UINT32 \<Longrightarrow> read_integer (length (mb_prefix w) + k) 0 (mb_prefix w @ rest) = read_integer k w rest"
proof (induction w arbitrary: k rest rule: mb_prefix.induct)
  case (1 w)
  show ?case
  proof (cases "w = 0")
    case False
    have step: "mb_prefix w = mb_prefix (w div 128) @ [byte (w mod 128 + 128)]"
      using False by (simp add: mb_prefix.simps [of w])
    have "w div 128 \<le> MAX_UINT32" using 1(2) div_le_dividend order_trans by blast
    from 1(1) [OF False this, of "Suc k" "byte (w mod 128 + 128) # rest"]
    show ?thesis using 1(2) by (simp add: step code_of_char_of Let_def)
  qed simp
qed

lemma mb_prefix_length: "w < 128 ^ n \<Longrightarrow> length (mb_prefix w) \<le> n"
proof (induction n arbitrary: w)
  case (Suc n)
  then have "w div 128 < 128 ^ n" by (simp add: div_less_iff_less_mult mult.commute)
  with Suc(1) show ?case by (simp add: mb_prefix.simps [of w])
qed simp

lemma mb_uint32_length: "mb_uint32 v = Inr bs \<Longrightarrow> 1 \<le> length bs \<and> length bs \<le> MAX_MB_UINT32_BYTES"
  using mb_prefix_length [of "v div 128" 4]
  by (auto simp: mb_uint32_def MAX_UINT32_def MAX_MB_UINT32_BYTES_def split: if_splits)

lemma take_mb_uint32:
  assumes "mb_uint32 v = Inr bs"
  shows "take_integer (bs @ rest) = Inr (v, rest)"
proof -
  have v: "v \<le> MAX_UINT32" and bs: "bs = mb_prefix (v div 128) @ [byte (v mod 128)]"
    using assms by (auto simp: mb_uint32_def split: if_splits)
  obtain k where k: "MAX_MB_UINT32_BYTES = length (mb_prefix (v div 128)) + Suc k"
    using mb_uint32_length [OF assms] by (auto simp: bs le_iff_add)
  have "v div 128 \<le> MAX_UINT32" using v div_le_dividend order_trans by blast
  then have "take_integer (bs @ rest) = read_integer (Suc k) (v div 128) (byte (v mod 128) # rest)"
    unfolding take_integer_def k bs by (simp only: read_prefix append_assoc append.simps)
  with v show ?thesis by (simp add: code_of_char_of Let_def)
qed

lemma read_integer_bound: "read_integer k v ps = Inr (n, rest) \<Longrightarrow> n \<le> MAX_UINT32"
  by (induction k v ps rule: read_integer.induct) (auto simp: bind_err_Inr Let_def split: if_splits)

text \<open>
  Multi-byte integers. Exactly the values below $2^{32}$ can be written; they take between one and
  five bytes, and the decoder reads each back and leaves what follows it. Whatever bytes it is given, the
  decoder never returns a value of $2^{32}$ or more.
\<close>

theorem mb_uint32_round_trip:
  "(case mb_uint32 v of
      Inl e \<Rightarrow> 2 ^ 32 \<le> v \<and> e = IntegerExceedsUint32
    | Inr bs \<Rightarrow> v < 2 ^ 32 \<and> 1 \<le> length bs \<and> length bs \<le> 5 \<and> take_integer (bs @ rest) = Inr (v, rest)) \<and>
   (case take_integer ps of Inl e \<Rightarrow> True | Inr (n, rest') \<Rightarrow> n < 2 ^ 32 \<and> length rest' < length ps)"
proof -
  have "mb_uint32 v = Inl IntegerExceedsUint32" if "2 ^ 32 \<le> v"
    using that by (simp add: mb_uint32_def MAX_UINT32_def)
  moreover have "\<exists>bs. mb_uint32 v = Inr bs" if "v < 2 ^ 32"
    using that by (simp add: mb_uint32_def MAX_UINT32_def)
  ultimately have 1: "(case mb_uint32 v of Inl e \<Rightarrow> 2 ^ 32 \<le> v \<and> e = IntegerExceedsUint32
    | Inr bs \<Rightarrow> v < 2 ^ 32 \<and> 1 \<le> length bs \<and> length bs \<le> 5 \<and> take_integer (bs @ rest) = Inr (v, rest))"
    using mb_uint32_length [of v] take_mb_uint32 [of v]
    by (cases "v < 2 ^ 32") (auto simp: MAX_MB_UINT32_BYTES_def not_less)
  have "n < 2 ^ 32 \<and> length rest' < length ps" if "take_integer ps = Inr (n, rest')" for n rest'
    using that read_integer_bound read_integer_shorter unfolding take_integer_def MAX_UINT32_def by fastforce
  then have "case take_integer ps of Inl e \<Rightarrow> True | Inr (n, rest') \<Rightarrow> n < 2 ^ 32 \<and> length rest' < length ps"
    by (auto split: sum.split)
  with 1 show ?thesis by simp
qed

section \<open>Text\<close>

definition xml_string :: "string \<Rightarrow> bool" where
  "xml_string s \<longleftrightarrow> list_all (\<lambda>c. xml_point (code_of c)) s"

lemma utf8_points_utf8: "utf8_points (utf8 s) = Some (map code_of s)"
proof (induction s)
  case (Cons c s)
  show ?case
  proof (cases "code_of c < 128")
    case False
    let ?n = "code_of c"
    have n: "?n < 256" by (simp add: code_of_def)
    have "2 \<le> ?n div 64" "?n div 64 \<le> 3" using False n by auto
    then have "\<not> 192 + ?n div 64 < 128" "194 \<le> 192 + ?n div 64" "192 + ?n div 64 \<le> 223" "192 + ?n div 64 < 256"
      "128 + ?n mod 64 < 192" by auto
    with False Cons show ?thesis
      by (simp add: utf8_Cons code_of_char_of cont_byte_def Let_def mult.commute)
  qed (simp add: utf8_Cons Cons)
qed simp

lemma check_utf8_text: "xml_string s \<Longrightarrow> check_utf8 (utf8 s) = Inr (utf8 s)"
  by (simp add: check_utf8_def utf8_points_utf8 xml_string_def list_all_iff)

lemma byte_not_NUL: "0 < n \<Longrightarrow> n < 256 \<Longrightarrow> byte n \<noteq> NUL"
proof
  assume "0 < n" "n < 256" "byte n = NUL"
  then have "code_of NUL = n" using code_of_char_of [of n] by simp
  with \<open>0 < n\<close> show False by (simp add: code_of_def)
qed

lemma NUL_utf8: "xml_string s \<Longrightarrow> NUL \<notin> set (utf8 s)"
proof (induction s)
  case (Cons c s)
  have "c \<noteq> NUL" using Cons(2) by (auto simp: xml_string_def xml_point_def code_of_def)
  moreover have "192 + code_of c div 64 < 256" "128 + code_of c mod 64 < 256"
    using code_of_less [of c] by simp_all
  then have "byte (192 + code_of c div 64) \<noteq> NUL" "byte (128 + code_of c mod 64) \<noteq> NUL"
    by (simp_all add: byte_not_NUL)
  ultimately show ?case using Cons by (simp add: utf8_Cons xml_string_def)
qed simp

end
