(* ===== verification/Dm_Session.thy ===== *)
theory Dm_Session
  imports Memory_Store Motree Dm_Auth Dm_Package Wbxml
begin

text \<open>
  The OMA-DM session handler, \<^verbatim>\<open>src/src/acs/protocol/omadm/session.py\<close>, on the memory store.

  \<open>dm_handle\<close> takes the bytes of one client message. It gathers its writes in a \<open>DmChanges\<close> record and
  commits them only after the answer has been built and fits; the commit is a list of single writes,
  so that a failure between two of them is a prefix of the list. The clock, MD5, base64, the fresh nonce,
  lxml's parser and serialiser and the standard library's XML parser are the fields of \<open>DmEnv\<close>.
  Logging is left out, and the detail of a parse failure, which quotes the parser, is a fixed text.
\<close>

section \<open>Environment, answers, changes\<close>

record DmEnv =
  de_clock :: int
  de_md5 :: "string \<Rightarrow> string"
  de_b64encode :: "string \<Rightarrow> string"
  de_b64decode :: "string \<Rightarrow> string option"
  de_nonce :: string
  de_parse_xml :: "string \<Rightarrow> xml option"
  de_tostring :: "xml \<Rightarrow> string"
  de_expat :: "string \<Rightarrow> (bool \<times> et) option"

record DmResponse =
  dr_status_code :: int
  dr_body :: string
  dr_content_type :: string
  dr_metric :: string
  dr_detail :: string
  dr_session_finished :: bool

abbreviation CONTENT_TYPE_XML :: string where
  "CONTENT_TYPE_XML \<equiv> ''application/vnd.syncml.dm+xml''"

abbreviation CONTENT_TYPE_WBXML :: string where
  "CONTENT_TYPE_WBXML \<equiv> ''application/vnd.syncml.dm+wbxml''"

definition dm_response :: "int \<Rightarrow> string \<Rightarrow> string \<Rightarrow> string \<Rightarrow> bool \<Rightarrow> DmResponse" where
  "dm_response status body metric detail finished = \<lparr>dr_status_code = status, dr_body = body,
     dr_content_type = CONTENT_TYPE_XML, dr_metric = metric, dr_detail = detail, dr_session_finished = finished\<rparr>"

record DmChanges =
  ch_session :: "DmSession option"
  ch_device :: "Device option"
  ch_pending :: "DmPendingPackage option"
  ch_delete_pending_id :: string
  ch_delete_session_id :: string
  ch_progress_in_remainder :: bool

definition no_changes :: DmChanges where
  "no_changes = \<lparr>ch_session = None, ch_device = None, ch_pending = None, ch_delete_pending_id = [],
     ch_delete_session_id = [], ch_progress_in_remainder = False\<rparr>"

datatype store_write =
  PutDevice Device
| PutSession DmSession
| DeleteSession string
| PutPending DmPendingPackage
| DeletePending string

fun apply_write :: "store_write \<Rightarrow> MemoryStore \<Rightarrow> MemoryStore" where
  "apply_write (PutDevice d) = put_device d"
| "apply_write (PutSession d) = put_dm_session d"
| "apply_write (DeleteSession i) = delete_dm_session i"
| "apply_write (PutPending p) = put_dm_pending p"
| "apply_write (DeletePending i) = delete_dm_pending i"

definition save_remainder :: "DmChanges \<Rightarrow> store_write list" where
  "save_remainder ch =
     (if ch_delete_pending_id ch \<noteq> [] then [DeletePending (ch_delete_pending_id ch)] else []) @
     (case ch_pending ch of None \<Rightarrow> [] | Some p \<Rightarrow> [PutPending p]) @
     (if ch_delete_session_id ch \<noteq> [] then [DeletePending (ch_delete_session_id ch)] else [])"

definition save_session :: "DmChanges \<Rightarrow> store_write list" where
  "save_session ch =
     (case ch_session ch of None \<Rightarrow> [] | Some d \<Rightarrow> [PutSession d]) @
     (if ch_delete_session_id ch \<noteq> [] then [DeleteSession (ch_delete_session_id ch)] else [])"

definition commit_writes :: "DmChanges \<Rightarrow> store_write list" where
  "commit_writes ch =
     (case ch_device ch of None \<Rightarrow> [] | Some d \<Rightarrow> [PutDevice d]) @
     (if ch_progress_in_remainder ch then save_session ch @ save_remainder ch
      else save_remainder ch @ save_session ch)"

definition commit :: "DmChanges \<Rightarrow> MemoryStore \<Rightarrow> MemoryStore" where
  "commit ch s = fold apply_write (commit_writes ch) s"

section \<open>Names and credentials\<close>

definition device_id_from :: "string \<Rightarrow> string" where
  "device_id_from source =
     (if source = [] then []
      else (let v = py_strip source in
        case List.find (\<lambda>p. py_startswith v p) [''urn:gsma:imei:'', ''urn:imei:'', ''IMEI:'', ''imei:''] of
          Some p \<Rightarrow> drop (length p) v | None \<Rightarrow> v))"

definition session_key :: "string \<Rightarrow> string \<Rightarrow> string" where
  "session_key device_id wire_session_id = str_or device_id ''unknown'' @ '':'' @ wire_session_id"

definition new_session :: "string \<Rightarrow> string \<Rightarrow> int \<Rightarrow> DmSession" where
  "new_session key device_id expires = \<lparr>ds_session_id = key, ds_device_id = device_id, ds_wire_session_id = [],
     ds_imsi = [], ds_phase = ''init'', ds_last_msg_id = 0, ds_server_cmd_id = 0, ds_authenticated = False,
     ds_nonce = [], ds_pending = [], ds_reported_failures = 0, ds_expires_at = expires\<rparr>"

definition lookup_password :: "MemoryStore \<Rightarrow> string \<Rightarrow> string option" where
  "lookup_password s username =
     (if username = [] then None
      else (case get_subscriber s username of
        None \<Rightarrow> None
      | Some sub \<Rightarrow> if sub_dm_password sub = [] then None else Some (sub_dm_password sub)))"

definition authenticate_message :: "DmEnv \<Rightarrow> Settings \<Rightarrow> SyncMlMessage \<Rightarrow> DmSession \<Rightarrow> MemoryStore \<Rightarrow> DmAuthResult" where
  "authenticate_message env st m session s =
     (let credentials = sh_credentials (ms_header m) in
      if set_dm_auth_scheme st = ''none''
      then authenticate (de_b64decode env) (de_nonce env) credentials ''none'' (\<lambda>_. None) []
      else if (case credentials of Some c \<Rightarrow> cr_type c = AUTH_MD5 | None \<Rightarrow> False)
      then (let username = str_or (sh_source_name (ms_header m)) (ds_imsi session) in
        authenticate_md5 (de_md5 env) (de_b64encode env) (de_nonce env) credentials username
          (lookup_password s username) (ds_nonce session))
      else authenticate (de_b64decode env) (de_nonce env) credentials AUTH_BASIC (lookup_password s) (ds_nonce session))"

section \<open>Messages\<close>

type_synonym Encoder = "string \<Rightarrow> dm_error + string"

definition message_encoder :: "DmEnv \<Rightarrow> bool \<Rightarrow> string \<Rightarrow> Encoder" where
  "message_encoder env binary payload xml =
     (if binary
      then (case wbxml_encode (de_expat env) xml (code_of (hd payload)) NoPublicId False False of
          Inl _ \<Rightarrow> Inl EncodingError | Inr b \<Rightarrow> Inr b)
      else Inr xml)"

definition max_msg_size :: "Settings \<Rightarrow> SyncMlMessage \<Rightarrow> int" where
  "max_msg_size st m =
     (if sh_max_msg_size (ms_header m) \<noteq> 0 then min (set_dm_max_msg_size st) (sh_max_msg_size (ms_header m))
      else set_dm_max_msg_size st)"

definition msg_number :: "SyncMlMessage \<Rightarrow> int \<Rightarrow> int" where
  "msg_number m dflt =
     (if py_isdigit (sh_msg_id (ms_header m))
      then (case py_int (sh_msg_id (ms_header m)) of Some n \<Rightarrow> n | None \<Rightarrow> dflt) else dflt)"

definition builder_for :: "Settings \<Rightarrow> SyncMlMessage \<Rightarrow> DmSession \<Rightarrow> SyncMlBuilder" where
  "builder_for st m session = new_builder (sh_session_id (ms_header m)) (msg_number m 1)
     (str_or (sh_source (ms_header m)) (ds_device_id session)) (set_dm_account_uri st) (max_msg_size st m)"

definition header_status :: "Settings \<Rightarrow> DmSession \<Rightarrow> string \<times> (string \<times> string) option" where
  "header_status st session =
     (if ds_authenticated session then ''212'' else ''200'',
      if ds_authenticated session \<and> set_dm_auth_scheme st = ''md5'' \<and> ds_nonce session \<noteq> []
      then Some (AUTH_MD5, ds_nonce session) else None)"

text \<open>The message that carries the first \<open>n\<close> entries of a queue.\<close>

definition message_with :: "DmEnv \<Rightarrow> Settings \<Rightarrow> SyncMlMessage \<Rightarrow> DmSession \<Rightarrow> string \<times> (string \<times> string) option \<Rightarrow>
    Encoder \<Rightarrow> Entry list \<Rightarrow> nat \<Rightarrow> dm_error + string" where
  "message_with env st m session header encode queue n =
     bind_err (apply_entries
       (status_command (builder_for st m session) ''SyncHdr'' (sh_msg_id (ms_header m)) ''0'' (fst header)
         (sh_target (ms_header m)) (snd header))
       (take n queue)) (\<lambda>b. encode (de_tostring env (build_message b (n = length queue))))"

definition next_message :: "DmEnv \<Rightarrow> Settings \<Rightarrow> SyncMlMessage \<Rightarrow> DmSession \<Rightarrow> string \<times> (string \<times> string) option \<Rightarrow>
    Encoder \<Rightarrow> Entry list \<Rightarrow> nat \<Rightarrow> dm_error + string \<times> Entry list" where
  "next_message env st m session header encode queue required =
     bind_err (fill (message_with env st m session header encode queue) (length queue) (max_msg_size st m) required)
       (\<lambda>(body, sent). Inr (body, drop sent queue))"

definition UNSUPPORTED_COMMANDS :: "string list" where
  "UNSUPPORTED_COMMANDS = [''Copy'', ''Delete'', ''Sequence'', ''Atomic'', ''Exec'']"

definition status_for :: "MoTree \<Rightarrow> Command \<Rightarrow> string" where
  "status_for tree c =
     (if co_name c \<in> set UNSUPPORTED_COMMANDS then ''406''
      else if co_name c \<in> {''Get'', ''Replace'', ''Add''} \<and> first_uri c \<noteq> [] \<and> tree_node tree (first_uri c) = None
      then ''404''
      else if co_name c \<in> {''Alert'', ''Results'', ''Get'', ''Replace'', ''Add'', ''Put''} then ''200''
      else ''406'')"

definition acks :: "MoTree \<Rightarrow> SyncMlMessage \<Rightarrow> Entry list" where
  "acks tree m =
     map (\<lambda>c. Status (co_name c) (sh_msg_id (ms_header m)) (str_of_int (co_cmd_id c)) (status_for tree c) (first_uri c))
       (filter (\<lambda>c. co_name c \<noteq> ''Status'') (ms_commands m))"

definition last_message :: "DmEnv \<Rightarrow> Settings \<Rightarrow> MoTree \<Rightarrow> SyncMlMessage \<Rightarrow> DmSession \<Rightarrow> Encoder \<Rightarrow> dm_error + string" where
  "last_message env st tree m session encode =
     bind_err (next_message env st m session (header_status st session) encode (acks tree m) (length (acks tree m)))
       (\<lambda>(body, rest). Inr body)"

definition start_package :: "DmEnv \<Rightarrow> Settings \<Rightarrow> SyncMlMessage \<Rightarrow> DmSession \<Rightarrow> Encoder \<Rightarrow> Entry list \<Rightarrow> DmChanges \<Rightarrow>
    dm_error + string \<times> nat \<times> DmChanges" where
  "start_package env st m session encode queue ch =
     bind_err (next_message env st m session (header_status st session) encode queue (min 1 (length queue)))
       (\<lambda>(body, rest).
         if rest = [] then Inr (body, 0, ch)
         else bind_err (to_stored rest) (\<lambda>rows.
           Inr (body, length rest, ch\<lparr>ch_pending := Some \<lparr>dp_session_id = ds_session_id session,
             dp_phase = ds_phase session, dp_entries = rows, dp_messages = 1,
             dp_expires_at = ds_expires_at session\<rparr>\<rparr>)))"

section \<open>Device values and configuration\<close>

definition absorb_items :: "MoTree \<Rightarrow> SyncMlMessage \<Rightarrow> (string, string) dict \<Rightarrow> (string, string) dict" where
  "absorb_items tree m values =
     fold (\<lambda>item vs.
       if item_uri item = [] \<or> it_data item = [] then vs
       else (case tree_node tree (item_uri item) of
         None \<Rightarrow> vs
       | Some n \<Rightarrow> if mo_source n \<noteq> ''device'' then vs else dict_put (item_uri item) (it_data item) vs))
     (concat (map co_items (of_names m [''Replace'', ''Results'', ''Add'']))) values"

definition absorb_device_values :: "DmEnv \<Rightarrow> MoTree \<Rightarrow> SyncMlMessage \<Rightarrow> DmSession \<Rightarrow> MemoryStore \<Rightarrow> Device" where
  "absorb_device_values env tree m session s =
     (let device_id = str_or (ds_device_id session) ''unknown'';
          device = (case get_device s device_id of Some d \<Rightarrow> d
            | None \<Rightarrow> \<lparr>dev_device_id = device_id, dev_imsi = [], dev_manufacturer = [], dev_model = [],
                dev_sw_version = [], dev_client_vendor = [], dev_client_version = [], dev_dm_client_version = [],
                dev_last_seen_at = de_clock env, dev_mo_values = []\<rparr>);
          vs = absorb_items tree m (dev_mo_values device)
      in device\<lparr>dev_imsi := str_or (ds_imsi session) (dev_imsi device),
           dev_mo_values := vs,
           dev_manufacturer := dict_get_or vs ''./DevInfo/Man'' (dev_manufacturer device),
           dev_model := dict_get_or vs ''./DevInfo/Mod'' (dev_model device),
           dev_dm_client_version := dict_get_or vs ''./DevInfo/DmV'' (dev_dm_client_version device),
           dev_sw_version := dict_get_or vs ''./DevDetail/SwV'' (dev_sw_version device),
           dev_last_seen_at := de_clock env\<rparr>)"

fun render_values :: "(string, string) dict \<Rightarrow> (string, string) dict \<Rightarrow> MoNode list \<Rightarrow> dm_error + node_value list" where
  "render_values context overrides [] = Inr []"
| "render_values context overrides (n # ns) =
     (case render_node n context overrides of
        Inl _ \<Rightarrow> Inl RenderingFailed
      | Inr v \<Rightarrow> bind_err (render_values context overrides ns) (\<lambda>vs.
          Inr (if v = [] then vs else (mo_uri n, v, mo_format n, mo_type n) # vs)))"

definition configuration_values :: "MoTree \<Rightarrow> DmSession \<Rightarrow> MemoryStore \<Rightarrow> dm_error + node_value list" where
  "configuration_values tree session s =
     (let subscriber = (if ds_imsi session = [] then None else get_subscriber s (ds_imsi session));
          features = [''rcs''] @ (case subscriber of
            None \<Rightarrow> [''volte''] | Some sub \<Rightarrow> if sub_volte_enabled sub then [''volte''] else []);
          imsi = (case subscriber of Some sub \<Rightarrow> sub_imsi sub | None \<Rightarrow> str_or (ds_imsi session) ''001010000000000'');
          msisdn = (case subscriber of Some sub \<Rightarrow> sub_msisdn sub | None \<Rightarrow> []);
          version = (case subscriber of Some sub \<Rightarrow> sub_provisioning_version sub | None \<Rightarrow> 0);
          overrides = (case subscriber of Some sub \<Rightarrow> sub_overrides sub | None \<Rightarrow> [])
      in case derive_identity imsi (if msisdn = [] then None else Some msisdn) None of
           Inl _ \<Rightarrow> Inl RenderingFailed
         | Inr identity \<Rightarrow>
             render_values
               (build_context imsi msisdn (ds_device_id session) (ii_ims_domain identity) (ii_impi identity)
                 (ii_impu identity) [(''provisioning_version'', str_of_int version)])
               overrides (server_nodes tree features))"

text \<open>\<open>sorted(needed & declared, key=lambda u: (u.count("/"), u))\<close>: shallower nodes first.\<close>

definition ancestors_of :: "string \<Rightarrow> string list" where
  "ancestors_of uri = (let parts = py_split CHR ''/'' uri
     in map (\<lambda>depth. py_join ''/'' (take depth parts)) [2..<length parts])"

definition declared_interior :: "MoTree \<Rightarrow> string list" where
  "declared_interior tree = map mo_uri (filter is_interior (all_nodes tree))"

definition interior_nodes_for :: "MoTree \<Rightarrow> node_value list \<Rightarrow> string list" where
  "interior_nodes_for tree values =
     sort_key (\<lambda>u. (count_list u CHR ''/'', u))
       (remdups (filter (\<lambda>u. u \<in> set (declared_interior tree)) (concat (map (\<lambda>v. ancestors_of (fst v)) values))))"

section \<open>Phases\<close>

definition record_failures :: "SyncMlMessage \<Rightarrow> DmSession \<Rightarrow> DmSession" where
  "record_failures m session = session\<lparr>ds_reported_failures := ds_reported_failures session +
     int (length (filter (\<lambda>c. co_data c \<noteq> [] \<and> \<not> py_startswith (co_data c) ''2'' \<and> co_data c \<noteq> ''418'')
       (of_names m [''Status''])))\<rparr>"

definition continued :: "string \<Rightarrow> nat \<Rightarrow> DmResponse" where
  "continued body remaining = dm_response 200 body ''DmPackageContinued'' (''pending:'' @ str_of_nat remaining) False"

definition close_session :: "string \<Rightarrow> DmSession \<Rightarrow> DmChanges \<Rightarrow> DmResponse \<times> DmChanges" where
  "close_session body session ch =
     (dm_response 200 body
        (if ds_reported_failures session = 0 then ''DmSessionComplete'' else ''DmSessionCompleteWithErrors'')
        (''failures:'' @ str_of_int (ds_reported_failures session)) True,
      ch\<lparr>ch_delete_session_id := ds_session_id session\<rparr>)"

type_synonym dm_result = "dm_error + DmResponse \<times> DmChanges"

definition handle_init :: "DmEnv \<Rightarrow> Settings \<Rightarrow> MoTree \<Rightarrow> SyncMlMessage \<Rightarrow> DmSession \<Rightarrow> DmChanges \<Rightarrow> Encoder \<Rightarrow>
    MemoryStore \<Rightarrow> dm_result" where
  "handle_init env st tree m session ch encode s =
     (if \<not> (has_alert m ''1201'' \<or> has_alert m ''1200'')
      then Inr (dm_response 400 [] ''DmProtocolError'' ''first package must carry Alert 1200 or 1201'' False, ch)
      else
        (let uris = device_query_uris tree;
             queue = acks tree m @ map (\<lambda>uri. Item ''Get'' uri [] [] []) uris;
             session' = session\<lparr>ds_phase := ''devinfo''\<rparr>
         in bind_err (start_package env st m session' encode queue
                (ch\<lparr>ch_device := Some (absorb_device_values env tree m session s)\<rparr>)) (\<lambda>(body, remaining, ch).
            Inr (dm_response 200 body ''DmInventoryRequested'' (''get:'' @ str_of_nat (length uris)) False,
                 ch\<lparr>ch_session := Some session'\<rparr>))))"

definition handle_devinfo :: "DmEnv \<Rightarrow> Settings \<Rightarrow> MoTree \<Rightarrow> SyncMlMessage \<Rightarrow> DmSession \<Rightarrow> DmChanges \<Rightarrow> Encoder \<Rightarrow>
    MemoryStore \<Rightarrow> dm_result" where
  "handle_devinfo env st tree m session ch encode s =
     bind_err (configuration_values tree session s) (\<lambda>values.
     let interiors = interior_nodes_for tree values;
         queue = acks tree m @ map (\<lambda>uri. Item ''Add'' uri [] ''node'' ''node'') interiors @
           map (\<lambda>(uri, data, fmt, type). Item ''Replace'' uri data fmt type) values;
         session' = session\<lparr>ds_phase := ''configure''\<rparr>
     in bind_err (start_package env st m session' encode queue
            (ch\<lparr>ch_device := Some (absorb_device_values env tree m session s)\<rparr>)) (\<lambda>(body, remaining, ch).
        Inr (dm_response 200 body ''DmConfigPushed''
               (''add:'' @ str_of_nat (length interiors) @ '' replace:'' @ str_of_nat (length values)) False,
             ch\<lparr>ch_session := Some session'\<rparr>)))"

definition handle_finish :: "DmEnv \<Rightarrow> Settings \<Rightarrow> MoTree \<Rightarrow> SyncMlMessage \<Rightarrow> DmSession \<Rightarrow> DmChanges \<Rightarrow> Encoder \<Rightarrow>
    dm_result" where
  "handle_finish env st tree m session ch encode =
     (let session' = (record_failures m session)\<lparr>ds_phase := ''done''\<rparr>
      in bind_err (start_package env st m session' encode (acks tree m) ch) (\<lambda>(body, remaining, ch).
         if remaining \<noteq> 0 then Inr (continued body remaining, ch\<lparr>ch_session := Some session'\<rparr>)
         else Inr (close_session body session' ch)))"

definition continue_package :: "DmEnv \<Rightarrow> Settings \<Rightarrow> MoTree \<Rightarrow> SyncMlMessage \<Rightarrow> DmSession \<Rightarrow> DmPendingPackage \<Rightarrow>
    DmChanges \<Rightarrow> Encoder \<Rightarrow> MemoryStore \<Rightarrow> dm_result" where
  "continue_package env st tree m session pending ch encode s =
     (if MAX_MESSAGES_PER_PACKAGE \<le> dp_messages pending
      then Inr (dm_response 413 [] ''DmTooLarge'' ''too_many_messages'' True,
                ch\<lparr>ch_delete_session_id := ds_session_id session\<rparr>)
      else
        (let ch' = ch\<lparr>ch_device := Some (absorb_device_values env tree m session s), ch_progress_in_remainder := True\<rparr>;
             session' = (if ds_phase session \<in> {''configure'', ''done''} then record_failures m session else session)
         in bind_err (from_stored (dp_entries pending)) (\<lambda>entries.
            bind_err (next_message env st m session' (header_status st session') encode (acks tree m @ entries)
                (length (acks tree m) + 1)) (\<lambda>(body, rest).
            if rest \<noteq> []
            then bind_err (to_stored rest) (\<lambda>rows.
              Inr (continued body (length rest),
                   ch'\<lparr>ch_pending := Some (pending\<lparr>dp_entries := rows, dp_messages := dp_messages pending + 1\<rparr>),
                      ch_session := Some session'\<rparr>))
            else if ds_phase session' = ''done''
            then Inr (close_session body session' (ch'\<lparr>ch_delete_pending_id := ds_session_id session'\<rparr>))
            else Inr (continued body 0,
                      ch'\<lparr>ch_delete_pending_id := ds_session_id session', ch_session := Some session'\<rparr>)))))"

section \<open>One message\<close>

definition unauthorised :: "DmEnv \<Rightarrow> Settings \<Rightarrow> SyncMlMessage \<Rightarrow> DmSession \<Rightarrow> DmAuthResult \<Rightarrow> Encoder \<Rightarrow>
    dm_error + DmResponse" where
  "unauthorised env st m session result encode =
     (let scheme = (if set_dm_auth_scheme st = ''md5'' then AUTH_MD5 else AUTH_BASIC);
          code = (if ar_reason result = ''missing_credentials'' then ''407'' else ''401'')
      in case next_message env st m session (code, Some (scheme, ar_challenge_nonce result)) encode [] 0 of
           Inl (MessageTooLarge needed limit) \<Rightarrow> Inl (ChallengeTooLarge needed limit)
         | Inl e \<Rightarrow> Inl e
         | Inr (body, rest) \<Rightarrow> Inr (dm_response 200 body ''DmAuthRejected'' (ar_reason result) False))"

text \<open>What follows once the client is authenticated.\<close>

definition handle_session :: "DmEnv \<Rightarrow> Settings \<Rightarrow> MoTree \<Rightarrow> SyncMlMessage \<Rightarrow> DmSession \<Rightarrow> DmPendingPackage option \<Rightarrow>
    DmChanges \<Rightarrow> Encoder \<Rightarrow> MemoryStore \<Rightarrow> dm_result" where
  "handle_session env st tree m session pending ch encode s =
     (if has_alert m ''1223''
      then bind_err (last_message env st tree m session encode) (\<lambda>body.
        Inr (dm_response 200 body ''DmSessionAborted'' ''client_abort'' True,
             ch\<lparr>ch_delete_session_id := ds_session_id session\<rparr>))
      else if has_alert m ''1226''
      then bind_err (last_message env st tree m session encode) (\<lambda>body.
        Inr (dm_response 200 body ''DmSessionEnded'' ''client_ended'' True,
             ch\<lparr>ch_delete_session_id := ds_session_id session\<rparr>))
      else (case pending of
        Some p \<Rightarrow> continue_package env st tree m session p ch encode s
      | None \<Rightarrow>
          if ds_phase session = ''init'' then handle_init env st tree m session ch encode s
          else if ds_phase session = ''devinfo'' then handle_devinfo env st tree m session ch encode s
          else handle_finish env st tree m session ch encode))"

text \<open>The session a message belongs to, as stored or new.\<close>

definition open_session :: "DmEnv \<Rightarrow> Settings \<Rightarrow> SyncMlMessage \<Rightarrow> MemoryStore \<Rightarrow> DmSession \<times> MemoryStore" where
  "open_session env st m s =
     (let device_id = device_id_from (sh_source (ms_header m));
          key = session_key device_id (sh_session_id (ms_header m))
      in case get_dm_session (de_clock env) key s of (stored, s') \<Rightarrow>
           (let session = (case stored of Some d \<Rightarrow> d
                | None \<Rightarrow> new_session key device_id (de_clock env + set_dm_session_ttl_seconds st));
                session = session\<lparr>ds_wire_session_id := sh_session_id (ms_header m)\<rparr>
            in (if device_id \<noteq> [] then session\<lparr>ds_device_id := device_id\<rparr> else session, s')))"

definition authenticated_session :: "SyncMlMessage \<Rightarrow> DmAuthResult \<Rightarrow> DmSession \<Rightarrow> DmSession" where
  "authenticated_session m result session = session\<lparr>ds_authenticated := True,
     ds_imsi := str_or (ar_username result) (ds_imsi session), ds_last_msg_id := msg_number m 0\<rparr>"

text \<open>A remainder that belongs to another phase is stale: it is dropped and deleted.\<close>

definition handle_authenticated :: "DmEnv \<Rightarrow> Settings \<Rightarrow> MoTree \<Rightarrow> SyncMlMessage \<Rightarrow> DmSession \<Rightarrow> Encoder \<Rightarrow> MemoryStore \<Rightarrow>
    dm_result \<times> MemoryStore" where
  "handle_authenticated env st tree m session encode s =
     (if MAX_ACKNOWLEDGED_COMMANDS < length (acks tree m)
      then (Inr (dm_response 413 [] ''DmTooLarge'' ''too_many_commands'' False, no_changes), s)
      else (case get_dm_pending (de_clock env) (ds_session_id session) s of (stored, s') \<Rightarrow>
        (let stale = (case stored of Some p \<Rightarrow> dp_phase p \<noteq> ds_phase session | None \<Rightarrow> False)
         in (handle_session env st tree m session (if stale then None else stored)
               (if stale then no_changes\<lparr>ch_delete_pending_id := ds_session_id session\<rparr> else no_changes)
               encode s', s'))))"

definition reject_message :: "DmEnv \<Rightarrow> Settings \<Rightarrow> SyncMlMessage \<Rightarrow> DmSession \<Rightarrow> DmAuthResult \<Rightarrow> Encoder \<Rightarrow> dm_result" where
  "reject_message env st m session result encode =
     (let session' = session\<lparr>ds_nonce := ar_challenge_nonce result, ds_authenticated := False\<rparr>
      in bind_err (unauthorised env st m session' result encode) (\<lambda>response.
           Inr (response, no_changes\<lparr>ch_session := Some session'\<rparr>)))"

definition handle_message :: "DmEnv \<Rightarrow> Settings \<Rightarrow> MoTree \<Rightarrow> SyncMlMessage \<Rightarrow> Encoder \<Rightarrow> MemoryStore \<Rightarrow>
    dm_result \<times> MemoryStore" where
  "handle_message env st tree m encode s =
     (if sh_session_id (ms_header m) = [] \<or> sh_msg_id (ms_header m) = []
      then (Inr (dm_response 400 [] ''DmProtocolError'' ''missing SessionID or MsgID'' False, no_changes), s)
      else (case open_session env st m s of (session, s1) \<Rightarrow>
        (let result = authenticate_message env st m session s1 in
         if ar_authenticated result
         then handle_authenticated env st tree m (authenticated_session m result session) encode s1
         else (reject_message env st m session result encode, s1))))"

text \<open>\<open>DmService.handle\<close>: the guards, the message, and the exceptions it turns into answers. An error on
  the left is one it does not catch.\<close>

definition answer_error :: "dm_error \<Rightarrow> dm_error + DmResponse" where
  "answer_error e = (case e of
     EncodingError \<Rightarrow> Inr (dm_response 500 [] ''DmEncodingError'' ''response_encoding_failed'' False)
   | PackageTooLarge _ \<Rightarrow> Inr (dm_response 413 [] ''DmTooLarge'' ''package_too_large'' False)
   | ChallengeTooLarge _ _ \<Rightarrow> Inr (dm_response 400 [] ''DmChallengeTooLarge'' ''challenge_exceeds_max_msg_size'' False)
   | MessageTooLarge _ _ \<Rightarrow> Inr (dm_response 400 [] ''DmMessageTooLarge'' ''message_exceeds_max_msg_size'' False)
   | _ \<Rightarrow> Inl e)"

definition parse_payload :: "DmEnv \<Rightarrow> bool \<Rightarrow> string \<Rightarrow> SyncMlMessage option" where
  "parse_payload env binary payload =
     (case (if binary then wbxml_decode payload else Inr payload) of
        Inl _ \<Rightarrow> None
      | Inr text \<Rightarrow> (case de_parse_xml env text of
          None \<Rightarrow> None
        | Some root \<Rightarrow> (case parse_syncml root of Inl _ \<Rightarrow> None | Inr m \<Rightarrow> Some m)))"

definition dm_handle :: "DmEnv \<Rightarrow> Settings \<Rightarrow> MoTree \<Rightarrow> string \<Rightarrow> string \<Rightarrow> MemoryStore \<Rightarrow>
    (dm_error + DmResponse) \<times> MemoryStore" where
  "dm_handle env st tree payload content_type s =
     (let media_type = py_lower (py_strip (py_before CHR '';'' content_type));
          binary = (media_type = CONTENT_TYPE_WBXML)
      in if \<not> set_dm_enabled st then (Inr (dm_response 404 [] ''DmDisabled'' ''dm_disabled'' False), s)
         else if set_dm_max_msg_size st * 4 < int (length payload)
         then (Inr (dm_response 413 [] ''DmTooLarge'' ''payload_too_large'' False), s)
         else if contains ''wbxml'' media_type \<and> \<not> binary
         then (Inr (dm_response 415 [] ''DmUnsupportedEncoding'' ''unsupported_content_type'' False), s)
         else (case parse_payload env binary payload of
             None \<Rightarrow> (Inr (dm_response 400 [] ''DmProtocolError'' ''parse failure'' False), s)
           | Some m \<Rightarrow> (case handle_message env st tree m (message_encoder env binary payload) s of
               (Inl e, s') \<Rightarrow> (answer_error e, s')
             | (Inr (response, ch), s') \<Rightarrow>
                 (Inr (if binary \<and> dr_body response \<noteq> [] then response\<lparr>dr_content_type := CONTENT_TYPE_WBXML\<rparr>
                       else response), commit ch s'))))"

end
