(* ===== verification/Dm_Delivery.thy ===== *)
theory Dm_Delivery
  imports Dm_Session
begin

text \<open>
  What the OMA-DM session handler of \<^verbatim>\<open>src/src/acs/protocol/omadm/session.py\<close> promises: every answer
  fits the device's limit, a package that takes several messages arrives whole and in order, a device
  that keeps asking is answered, and a message that cannot be answered leaves the store as it was.
\<close>

section \<open>Every answer fits\<close>

lemma fill_fits:
  assumes "fill build entries limit required = Inr (body, n)"
  shows "int (length body) \<le> limit"
proof (cases "required \<le> entries")
  case True
  from fill_sound [OF assms True] show ?thesis by simp
next
  case False
  then show ?thesis using assms
    by (auto simp: fill_def search_def bind_err_Inr gallop.simps [of build limit required] bisect.simps [of build limit required]
        split: if_splits)
qed

lemma next_message_fits:
  "next_message env st m session header encode queue required = Inr (body, rest) \<Longrightarrow> int (length body) \<le> max_msg_size st m"
  by (auto simp: next_message_def bind_err_Inr dest: fill_fits)

definition body_fits :: "Settings \<Rightarrow> SyncMlMessage \<Rightarrow> dm_result \<Rightarrow> bool" where
  "body_fits st m res \<longleftrightarrow> (case res of Inl _ \<Rightarrow> True
     | Inr (r, ch) \<Rightarrow> dr_body r \<noteq> [] \<longrightarrow> int (length (dr_body r)) \<le> max_msg_size st m)"

lemma start_package_fits:
  "start_package env st m session encode queue ch = Inr (body, n, ch') \<Longrightarrow> int (length body) \<le> max_msg_size st m"
  by (auto simp: start_package_def bind_err_Inr split: if_splits dest: next_message_fits)

lemma body_fits_simps:
  "body_fits st m (Inl e)"
  "body_fits st m (Inr (dm_response status [] metric detail fin, ch))"
  "int (length body) \<le> max_msg_size st m \<Longrightarrow> body_fits st m (Inr (dm_response status body metric detail fin, ch))"
  "int (length body) \<le> max_msg_size st m \<Longrightarrow> body_fits st m (Inr (continued body n, ch))"
  "int (length body) \<le> max_msg_size st m \<Longrightarrow> body_fits st m (Inr (close_session body session ch))"
  by (simp_all add: body_fits_def dm_response_def continued_def close_session_def)

lemma body_fits_bind:
  "(\<And>x. e = Inr x \<Longrightarrow> body_fits st m (f x)) \<Longrightarrow> body_fits st m (bind_err e f)"
  by (cases e) (simp_all add: body_fits_simps)

lemma handle_session_fits: "body_fits st m (handle_session env st tree m session pending ch encode s)"
proof -
  have last: "last_message env st tree m session encode = Inr body \<Longrightarrow> int (length body) \<le> max_msg_size st m" for body
    by (auto simp: last_message_def bind_err_Inr dest: next_message_fits)
  have init: "body_fits st m (handle_init env st tree m session ch encode s)"
    unfolding handle_init_def Let_def
    by (auto intro!: body_fits_bind body_fits_simps dest: start_package_fits)
  have devinfo: "body_fits st m (handle_devinfo env st tree m session ch encode s)"
    unfolding handle_devinfo_def Let_def
    by (intro body_fits_bind) (auto intro!: body_fits_simps dest: start_package_fits)
  have finish: "body_fits st m (handle_finish env st tree m session ch encode)"
    unfolding handle_finish_def Let_def
    by (intro body_fits_bind) (auto intro!: body_fits_simps dest: start_package_fits)
  have cont: "body_fits st m (continue_package env st tree m session p ch encode s)" for p
    unfolding continue_package_def Let_def
    by (auto intro!: body_fits_bind body_fits_simps dest: next_message_fits)
  show ?thesis
    unfolding handle_session_def
    using init devinfo finish cont last by (auto intro!: body_fits_bind body_fits_simps split: option.split)
qed

lemma unauthorised_fits:
  "unauthorised env st m session result encode = Inr r \<Longrightarrow> int (length (dr_body r)) \<le> max_msg_size st m"
  by (auto simp: unauthorised_def Let_def dm_response_def split: sum.splits dm_error.splits dest: next_message_fits)

lemma handle_message_fits: "body_fits st m (fst (handle_message env st tree m encode s))"
proof -
  have auth: "body_fits st m (fst (handle_authenticated env st tree m session encode s1))" for session s1
    unfolding handle_authenticated_def Let_def
    by (auto intro: body_fits_simps handle_session_fits split: prod.split)
  have reject: "body_fits st m (reject_message env st m session result encode)" for session result
    unfolding reject_message_def Let_def
    by (intro body_fits_bind) (auto simp: body_fits_def dest: unauthorised_fits)
  show ?thesis
    unfolding handle_message_def Let_def using auth reject by (auto intro: body_fits_simps split: prod.split)
qed

text \<open>
  C31. No answer is larger than the device can receive. Whatever the message, the queue and the
  encoding (XML or WBXML), the body the server sends is at most the server's own limit and, when the
  device gave one, at most the device's \<open>MaxMsgSize\<close>; what does not fit is kept for later messages or
  refused, never sent.
\<close>

theorem dm_answer_fits:
  assumes "dm_handle env st tree payload content_type s = (Inr r, s')" "dr_body r \<noteq> []"
  shows "\<exists>m binary. parse_payload env binary payload = Some m \<and>
    int (length (dr_body r)) \<le> set_dm_max_msg_size st \<and>
    (sh_max_msg_size (ms_header m) \<noteq> 0 \<longrightarrow> int (length (dr_body r)) \<le> sh_max_msg_size (ms_header m))"
proof -
  let ?binary = "py_lower (py_strip (py_before CHR '';'' content_type)) = CONTENT_TYPE_WBXML"
  from assms obtain m where m: "parse_payload env ?binary payload = Some m"
    by (auto simp: dm_handle_def Let_def dm_response_def split: if_splits option.splits)
  obtain res s1 where res: "handle_message env st tree m (message_encoder env ?binary payload) s = (res, s1)" by fastforce
  have "\<exists>r' ch. res = Inr (r', ch) \<and> dr_body r' = dr_body r"
    using assms m res
    by (auto simp: dm_handle_def Let_def answer_error_def dm_response_def split: if_splits sum.splits dm_error.splits)
  with handle_message_fits [of st m env tree "message_encoder env ?binary payload" s] assms(2) res
  have "int (length (dr_body r)) \<le> max_msg_size st m" by (auto simp: body_fits_def)
  with m show ?thesis by (auto simp: max_msg_size_def split: if_splits)
qed

section \<open>Packages that take several messages\<close>

text \<open>An answer that carries some entries after the \<open>SyncHdr\<close> status.\<close>

definition body_carries :: "DmEnv \<Rightarrow> Settings \<Rightarrow> SyncMlMessage \<Rightarrow> Encoder \<Rightarrow> string \<Rightarrow> Entry list \<Rightarrow> bool \<Rightarrow> bool" where
  "body_carries env st m encode body es final \<longleftrightarrow> (\<exists>session header b.
     apply_entries (status_command (builder_for st m session) ''SyncHdr'' (sh_msg_id (ms_header m)) ''0'' (fst header)
       (sh_target (ms_header m)) (snd header)) es = Inr b \<and>
     encode (de_tostring env (build_message b final)) = Inr body)"

lemma next_message_split:
  assumes "next_message env st m session header encode queue required = Inr (body, rest)" "required \<le> length queue"
  shows "\<exists>sent. queue = sent @ rest \<and> required \<le> length sent \<and> body_carries env st m encode body sent (rest = [])"
proof -
  let ?build = "message_with env st m session header encode queue"
  from assms(1) obtain n where n: "fill ?build (length queue) (max_msg_size st m) required = Inr (body, n)" "rest = drop n queue"
    by (auto simp: next_message_def bind_err_Inr)
  from fill_sound [OF n(1) assms(2)] have f: "required \<le> n" "n \<le> length queue" "?build n = Inr body" by auto
  then have "(n = length queue) = (rest = [])" using n(2) by auto
  with f(3) have "body_carries env st m encode body (take n queue) (rest = [])"
    unfolding message_with_def bind_err_Inr body_carries_def by auto
  with f(1,2) n(2) show ?thesis by (intro exI [of _ "take n queue"]) simp
qed

text \<open>One message and its commit.\<close>

definition dm_exchange :: "DmEnv \<Rightarrow> Settings \<Rightarrow> MoTree \<Rightarrow> Encoder \<Rightarrow> SyncMlMessage \<Rightarrow> MemoryStore \<Rightarrow>
    (dm_error + DmResponse) \<times> MemoryStore" where
  "dm_exchange env st tree encode m s = (case handle_message env st tree m encode s of
     (Inl e, s') \<Rightarrow> (Inl e, s') | (Inr (r, ch), s') \<Rightarrow> (Inr r, commit ch s'))"

text \<open>A session waiting to send the rest of a package.\<close>

definition waiting :: "DmEnv \<Rightarrow> string \<Rightarrow> MemoryStore \<Rightarrow> DmSession \<Rightarrow> Entry list \<Rightarrow> bool" where
  "waiting env key s ses es \<longleftrightarrow> (\<exists>p. get_dm_session (de_clock env) key s = (Some ses, s) \<and> ds_session_id ses = key \<and>
     get_dm_pending (de_clock env) key s = (Some p, s) \<and> dp_session_id p = key \<and> dp_phase p = ds_phase ses \<and>
     dp_entries p = map entry_row es)"

text \<open>A message that asks for more: it names the session, authenticates, and neither aborts nor ends it.\<close>

definition asks_more :: "DmEnv \<Rightarrow> Settings \<Rightarrow> MoTree \<Rightarrow> string \<Rightarrow> (string \<rightharpoonup> Subscriber) \<Rightarrow> SyncMlMessage \<Rightarrow> bool" where
  "asks_more env st tree key subs m \<longleftrightarrow>
     sh_session_id (ms_header m) \<noteq> [] \<and> sh_msg_id (ms_header m) \<noteq> [] \<and>
     session_key (device_id_from (sh_source (ms_header m))) (sh_session_id (ms_header m)) = key \<and>
     \<not> has_alert m ''1223'' \<and> \<not> has_alert m ''1226'' \<and> length (acks tree m) \<le> MAX_ACKNOWLEDGED_COMMANDS \<and>
     (\<forall>session t. get_subscriber t = subs \<longrightarrow> ar_authenticated (authenticate_message env st m session t))"

lemma open_session_stored:
  assumes "get_dm_session (de_clock env) (session_key (device_id_from (sh_source (ms_header m))) (sh_session_id (ms_header m))) s = (Some ses, s)"
  shows "\<exists>ses'. open_session env st m s = (ses', s) \<and> ds_session_id ses' = ds_session_id ses \<and> ds_phase ses' = ds_phase ses \<and>
    ds_expires_at ses' = ds_expires_at ses"
  using assms by (simp add: open_session_def Let_def)

lemma from_stored_map_entry: "list_all storable es \<Longrightarrow> from_stored (map entry_row es) = Inr es"
  by (rule from_stored_rows)

lemma continue_package_step:
  assumes "continue_package env st tree m session p no_changes encode s = Inr (r, ch)" "dr_status_code r = 200"
    "dp_entries p = map entry_row es" "list_all storable es" "es \<noteq> []"
  shows "\<exists>sent rest. es = sent @ rest \<and> sent \<noteq> [] \<and> body_carries env st m encode (dr_body r) (acks tree m @ sent) (rest = []) \<and>
    ch_progress_in_remainder ch \<and> (rest \<noteq> [] \<longrightarrow>
      ch_pending ch = Some (p\<lparr>dp_entries := map entry_row rest, dp_messages := dp_messages p + 1\<rparr>) \<and>
      (\<exists>ses'. ch_session ch = Some ses' \<and> ds_session_id ses' = ds_session_id session \<and> ds_phase ses' = ds_phase session \<and>
        ds_expires_at ses' = ds_expires_at session) \<and> ch_delete_pending_id ch = [] \<and> ch_delete_session_id ch = [])"
proof -
  have not_many: "\<not> MAX_MESSAGES_PER_PACKAGE \<le> dp_messages p"
    using assms(1,2) by (auto simp: continue_package_def dm_response_def)
  define ses where "ses = (if ds_phase session \<in> {''configure'', ''done''} then record_failures m session else session)"
  have ses: "ds_session_id ses = ds_session_id session" "ds_phase ses = ds_phase session" "ds_expires_at ses = ds_expires_at session"
    by (simp_all add: ses_def record_failures_def)
  from assms(1) not_many obtain body rest where
    nm: "next_message env st m ses (header_status st ses) encode (acks tree m @ es) (length (acks tree m) + 1) = Inr (body, rest)"
    unfolding continue_package_def Let_def ses_def [symmetric] assms(3) from_stored_rows [OF assms(4)]
    by (auto simp: bind_err_Inr)
  from next_message_split [OF nm] assms(5) obtain q where q: "acks tree m @ es = q @ rest" "length (acks tree m) + 1 \<le> length q"
    "body_carries env st m encode body q (rest = [])" by (cases es) auto
  have tk: "take (length (acks tree m)) q = acks tree m"
  proof -
    have "take (length (acks tree m)) (acks tree m @ es) = take (length (acks tree m)) (q @ rest)" by (simp only: q(1))
    then show ?thesis using q(2) by simp
  qed
  define sent where "sent = drop (length (acks tree m)) q"
  have qs: "q = acks tree m @ sent" unfolding sent_def by (metis tk append_take_drop_id)
  have "es = sent @ rest" "sent \<noteq> []" using q(1,2) by (auto simp: qs)
  moreover have "dr_body r = body \<and> ch_progress_in_remainder ch \<and> (rest \<noteq> [] \<longrightarrow>
      ch_pending ch = Some (p\<lparr>dp_entries := map entry_row rest, dp_messages := dp_messages p + 1\<rparr>) \<and>
      ch_session ch = Some ses \<and> ch_delete_pending_id ch = [] \<and> ch_delete_session_id ch = [])"
    using assms(1) not_many
    unfolding continue_package_def Let_def ses_def [symmetric] assms(3) from_stored_rows [OF assms(4)]
    by (cases "rest = []")
      (auto simp: nm [simplified] bind_err_Inr to_stored_Inr continued_def close_session_def dm_response_def no_changes_def
        split: if_splits)
  ultimately show ?thesis using q(3) ses unfolding qs by blast
qed

lemma fold_writes_subscribers: "get_subscriber (fold apply_write ws s) = get_subscriber s"
proof (induction ws arbitrary: s)
  case (Cons w ws)
  have "get_subscriber (apply_write w s) = get_subscriber s"
    by (cases w) (auto simp: get_subscriber_def put_device_def put_dm_session_def delete_dm_session_def put_dm_pending_def
        delete_dm_pending_def)
  with Cons show ?case by simp
qed simp

lemma get_dm_session_Some:
  "get_dm_session clock key s = (Some d, s') \<Longrightarrow> s' = s \<and> dict_get (st_dm_sessions s) key = Some d \<and>
    \<not> (ds_expires_at d \<noteq> 0 \<and> ds_expires_at d < clock)"
  by (auto simp: get_dm_session_def split: option.splits if_splits)

lemma get_dm_pending_Some:
  "get_dm_pending clock key s = (Some p, s') \<Longrightarrow> s' = s \<and> dict_get (st_dm_pending s) key = Some p \<and>
    \<not> (dp_expires_at p \<noteq> 0 \<and> dp_expires_at p < clock)"
  by (auto simp: get_dm_pending_def split: option.splits if_splits)

lemma authenticated_session_same:
  "ds_session_id (authenticated_session m result ses) = ds_session_id ses"
  "ds_phase (authenticated_session m result ses) = ds_phase ses"
  "ds_expires_at (authenticated_session m result ses) = ds_expires_at ses"
  by (simp_all add: authenticated_session_def)

text \<open>An exchange with a waiting session delivers at least one entry of the rest, in order, and keeps
  what is left.\<close>

lemma exchange_delivers:
  assumes "waiting env key s ses es" "list_all storable es" "es \<noteq> []"
    "asks_more env st tree key (get_subscriber s) m"
    "dm_exchange env st tree encode m s = (Inr r, t)" "dr_status_code r = 200"
  shows "get_subscriber t = get_subscriber s \<and> (\<exists>sent rest. es = sent @ rest \<and> sent \<noteq> [] \<and>
    body_carries env st m encode (dr_body r) (acks tree m @ sent) (rest = []) \<and>
    (rest \<noteq> [] \<longrightarrow> (\<exists>ses'. waiting env key t ses' rest)))"
proof -
  note asks = assms(4) [unfolded asks_more_def]
  from assms(1) obtain p where p: "get_dm_session (de_clock env) key s = (Some ses, s)" "ds_session_id ses = key"
    "get_dm_pending (de_clock env) key s = (Some p, s)" "dp_session_id p = key" "dp_phase p = ds_phase ses"
    "dp_entries p = map entry_row es" by (auto simp: waiting_def)
  from open_session_stored [of env m s ses st] p(1) asks obtain ses1 where
    ses1: "open_session env st m s = (ses1, s)" "ds_session_id ses1 = key" "ds_phase ses1 = ds_phase ses"
      "ds_expires_at ses1 = ds_expires_at ses" by (auto simp: p(2))
  define ses2 where "ses2 = authenticated_session m (authenticate_message env st m ses1 s) ses1"
  have ses2: "ds_session_id ses2 = key" "ds_phase ses2 = ds_phase ses" "ds_expires_at ses2 = ds_expires_at ses"
    by (simp_all add: ses2_def authenticated_session_same ses1)
  have auth: "ar_authenticated (authenticate_message env st m ses1 s)" using asks by blast
  have "handle_message env st tree m encode s = (continue_package env st tree m ses2 p no_changes encode s, s)"
    using asks auth p(3,5)
    by (simp add: handle_message_def ses1(1) Let_def ses2_def [symmetric] handle_authenticated_def ses2 handle_session_def)
  with assms(5) obtain ch where ch: "continue_package env st tree m ses2 p no_changes encode s = Inr (r, ch)" "t = commit ch s"
    by (auto simp: dm_exchange_def split: sum.splits)
  have subs: "get_subscriber t = get_subscriber s" by (simp add: ch(2) commit_def fold_writes_subscribers)
  from continue_package_step [OF ch(1) assms(6) p(6) assms(2,3)] obtain sent rest where
    step: "es = sent @ rest" "sent \<noteq> []" "body_carries env st m encode (dr_body r) (acks tree m @ sent) (rest = [])"
      "ch_progress_in_remainder ch"
    and left: "rest \<noteq> [] \<longrightarrow> ch_pending ch = Some (p\<lparr>dp_entries := map entry_row rest, dp_messages := dp_messages p + 1\<rparr>) \<and>
      (\<exists>ses'. ch_session ch = Some ses' \<and> ds_session_id ses' = key \<and> ds_phase ses' = ds_phase ses \<and>
        ds_expires_at ses' = ds_expires_at ses) \<and> ch_delete_pending_id ch = [] \<and> ch_delete_session_id ch = []"
    unfolding ses2 by blast
  have "\<exists>ses'. waiting env key t ses' rest" if "rest \<noteq> []"
  proof -
    from left that obtain ses' where l: "ch_pending ch = Some (p\<lparr>dp_entries := map entry_row rest, dp_messages := dp_messages p + 1\<rparr>)"
      "ch_session ch = Some ses'" "ds_session_id ses' = key" "ds_phase ses' = ds_phase ses"
      "ds_expires_at ses' = ds_expires_at ses" "ch_delete_pending_id ch = []" "ch_delete_session_id ch = []" by blast
    have "waiting env key t ses' rest"
      using get_dm_session_Some [OF p(1)] get_dm_pending_Some [OF p(3)] l step(4) p(4,5)
      by (auto simp: waiting_def ch(2) commit_def commit_writes_def save_session_def save_remainder_def get_dm_session_def
          get_dm_pending_def put_dm_session_def put_dm_pending_def put_device_def split: option.split)
    then show ?thesis by blast
  qed
  with step subs show ?thesis by blast
qed

fun exchange_all :: "DmEnv \<Rightarrow> Settings \<Rightarrow> MoTree \<Rightarrow> Encoder \<Rightarrow> SyncMlMessage list \<Rightarrow> MemoryStore \<Rightarrow>
    (dm_error + DmResponse) list \<times> MemoryStore" where
  "exchange_all env st tree encode [] s = ([], s)"
| "exchange_all env st tree encode (m # ms) s = (case dm_exchange env st tree encode m s of (r, s') \<Rightarrow>
     (case exchange_all env st tree encode ms s' of (rs, t) \<Rightarrow> (r # rs, t)))"

definition answered :: "dm_error + DmResponse \<Rightarrow> bool" where
  "answered r \<longleftrightarrow> (case r of Inl _ \<Rightarrow> False | Inr x \<Rightarrow> dr_status_code x = 200)"

definition answer_body :: "dm_error + DmResponse \<Rightarrow> string" where
  "answer_body r = (case r of Inl _ \<Rightarrow> [] | Inr x \<Rightarrow> dr_body x)"

text \<open>What the answers deliver: chunks of the package, each after the acknowledgements of the message it
  answers, until nothing is left.\<close>

fun delivery :: "DmEnv \<Rightarrow> Settings \<Rightarrow> MoTree \<Rightarrow> Encoder \<Rightarrow> SyncMlMessage list \<Rightarrow> (dm_error + DmResponse) list \<Rightarrow>
    Entry list list \<Rightarrow> Entry list \<Rightarrow> bool" where
  "delivery env st tree encode (m # ms) (r # rs) (sent # sents) left \<longleftrightarrow>
     sent \<noteq> [] \<and> body_carries env st m encode (answer_body r) (acks tree m @ sent) (concat sents @ left = []) \<and>
     delivery env st tree encode ms rs sents left"
| "delivery env st tree encode [] [] [] left \<longleftrightarrow> True"
| "delivery env st tree encode (m # ms) (r # rs) [] left \<longleftrightarrow> left = []"
| "delivery _ _ _ _ _ _ _ _ \<longleftrightarrow> False"

lemma delivery_length:
  "delivery env st tree encode ms rs sents left \<Longrightarrow> length sents \<le> length (concat sents) \<and> (length sents < length ms \<longrightarrow> left = [])
    \<and> length sents \<le> length ms"
  by (induction env st tree encode ms rs sents left rule: delivery.induct) (auto simp: Suc_le_eq length_greater_0_conv add_strict_increasing)

lemma exchange_all_delivers:
  assumes "waiting env key s ses es" "list_all storable es" "es \<noteq> []"
    "\<forall>m \<in> set ms. asks_more env st tree key (get_subscriber s) m"
    "exchange_all env st tree encode ms s = (rs, t)" "list_all answered rs"
  shows "\<exists>sents left. es = concat sents @ left \<and> delivery env st tree encode ms rs sents left"
  using assms
proof (induction ms arbitrary: s ses es rs)
  case Nil
  then show ?case by (intro exI [of _ "[]"] exI [of _ es]) auto
next
  case (Cons m ms)
  obtain r s1 where x: "dm_exchange env st tree encode m s = (r, s1)" by fastforce
  obtain rs' where xs: "exchange_all env st tree encode ms s1 = (rs', t)" and rs: "rs = r # rs'"
    using Cons.prems(5) x by (auto split: prod.splits)
  then obtain a where a: "r = Inr a" "dr_status_code a = 200" using Cons.prems(6) by (auto simp: answered_def split: sum.splits)
  from exchange_delivers [OF Cons.prems(1-3) _ x [unfolded a(1)] a(2)] Cons.prems(4)
  obtain sent rest where subs: "get_subscriber s1 = get_subscriber s"
    and sent: "es = sent @ rest" "sent \<noteq> []" "body_carries env st m encode (dr_body a) (acks tree m @ sent) (rest = [])"
    and left: "rest \<noteq> [] \<longrightarrow> (\<exists>ses'. waiting env key s1 ses' rest)" by auto
  show ?case
  proof (cases "rest = []")
    case True
    have "length rs' = length ms" using xs by (induction ms arbitrary: s1 rs') (auto split: prod.splits)
    then have "delivery env st tree encode ms rs' [] []" by (cases ms; cases rs') auto
    with sent True show ?thesis by (intro exI [of _ "[sent]"] exI [of _ "[]"]) (simp add: rs a answer_body_def)
  next
    case False
    with left obtain ses' where "waiting env key s1 ses' rest" by blast
    from Cons.IH [OF this _ False _ xs] Cons.prems(2,4,6) sent(1) subs rs
    obtain sents l where "rest = concat sents @ l" "delivery env st tree encode ms rs' sents l" by auto
    with sent False show ?thesis
      by (intro exI [of _ "sent # sents"] exI [of _ l]) (simp add: rs a answer_body_def)
  qed
qed

text \<open>
  C8. A package that takes several messages arrives whole. While the device keeps asking, every answer
  carries the acknowledgements of the message it answers and then at least one entry of the rest,
  continuing exactly where the previous answer stopped: the chunks put together are the stored package, in
  order, nothing lost, repeated or added, and only the answer with the last chunk is marked
  \<open>Final\<close>. A package of \<open>n\<close> entries is complete after at most \<open>n\<close> answers.
\<close>

theorem package_delivered:
  assumes "waiting env key s ses es" "list_all storable es" "es \<noteq> []"
    "\<forall>m \<in> set ms. asks_more env st tree key (get_subscriber s) m"
    "exchange_all env st tree encode ms s = (rs, t)" "list_all answered rs"
  shows "\<exists>sents left. es = concat sents @ left \<and> delivery env st tree encode ms rs sents left \<and>
    (length es \<le> length ms \<longrightarrow> left = [])"
proof -
  from exchange_all_delivers [OF assms] obtain sents left where
    d: "es = concat sents @ left" "delivery env st tree encode ms rs sents left" by blast
  have "left = []" if "length es \<le> length ms"
  proof (cases "length sents < length ms")
    case True
    with delivery_length [OF d(2)] show ?thesis by simp
  next
    case False
    with that have "length es \<le> length sents" by simp
    moreover have "length sents \<le> length (concat sents)" using delivery_length [OF d(2)] by blast
    moreover have "length es = length (concat sents) + length left" using d(1) by simp
    ultimately have "length left = 0" by linarith
    then show ?thesis by simp
  qed
  with d show ?thesis by blast
qed

section \<open>Progress\<close>

lemma json_size_suffix:
  assumes "json_size (map entry_row (a @ b)) \<le> MAX_STORED_BYTES"
  shows "json_size (map entry_row b) \<le> MAX_STORED_BYTES"
  using assms by (auto simp: json_size_def json_list_size_def)

lemma message_with_total:
  assumes "\<forall>x. \<exists>y. encode x = Inr y" "list_all known_entry queue"
  shows "\<exists>y. message_with env st m session header encode queue n = Inr y"
proof -
  have "list_all known_entry (take n queue)" using assms(2) by (auto simp: list_all_iff dest: in_set_takeD)
  from apply_entries_total [OF this] obtain b where
    "apply_entries (status_command (builder_for st m session) ''SyncHdr'' (sh_msg_id (ms_header m)) ''0'' (fst header)
       (sh_target (ms_header m)) (snd header)) (take n queue) = Inr b" by blast
  with assms(1) show ?thesis by (simp add: message_with_def)
qed

lemma next_message_total:
  assumes "\<forall>x. \<exists>y. encode x = Inr y" "list_all known_entry queue" "required \<le> length queue"
    "\<And>y. message_with env st m session header encode queue required = Inr y \<Longrightarrow> int (length y) \<le> max_msg_size st m"
  shows "\<exists>body rest. next_message env st m session header encode queue required = Inr (body, rest)"
proof -
  note total = message_with_total [OF assms(1,2), of env st m session header]
  have "fits_at (message_with env st m session header encode queue) (max_msg_size st m) required"
    using total [of required] assms(4) by (auto simp: fits_at_def)
  with fill_total [OF assms(3), of "message_with env st m session header encode queue"] total
  show ?thesis by (fastforce simp: next_message_def)
qed

lemma acks_known: "list_all known_entry (acks tree m)"
  by (simp add: acks_def list_all_iff known_entry_def)

lemma continuation_answers:
  assumes "waiting env key s ses es" "list_all storable es" "list_all known_entry es" "es \<noteq> []"
    and "asks_more env st tree key (get_subscriber s) m"
    and "json_size (map entry_row es) \<le> MAX_STORED_BYTES"
    and "\<forall>p. dict_get (st_dm_pending s) key = Some p \<longrightarrow> dp_messages p < MAX_MESSAGES_PER_PACKAGE"
    and "\<forall>x. \<exists>y. encode x = Inr y"
    and "\<forall>session header y. message_with env st m session header encode (acks tree m @ es) (length (acks tree m) + 1) = Inr y
      \<longrightarrow> int (length y) \<le> max_msg_size st m"
  shows "\<exists>r t. dm_exchange env st tree encode m s = (Inr r, t) \<and> dr_status_code r = 200"
proof -
  note asks = assms(5) [unfolded asks_more_def]
  from assms(1) obtain p where p: "get_dm_session (de_clock env) key s = (Some ses, s)" "ds_session_id ses = key"
    "get_dm_pending (de_clock env) key s = (Some p, s)" "dp_session_id p = key" "dp_phase p = ds_phase ses"
    "dp_entries p = map entry_row es" by (auto simp: waiting_def)
  from open_session_stored [of env m s ses st] p(1) asks obtain ses1 where
    ses1: "open_session env st m s = (ses1, s)" "ds_session_id ses1 = key" "ds_phase ses1 = ds_phase ses" by (auto simp: p(2))
  define ses2 where "ses2 = authenticated_session m (authenticate_message env st m ses1 s) ses1"
  have ses2: "ds_session_id ses2 = key" "ds_phase ses2 = ds_phase ses" by (simp_all add: ses2_def authenticated_session_same ses1)
  have "handle_message env st tree m encode s = (continue_package env st tree m ses2 p no_changes encode s, s)"
    using asks p(3,5)
    by (simp add: handle_message_def ses1(1) Let_def ses2_def [symmetric] handle_authenticated_def ses2 handle_session_def)
  moreover have "\<exists>r ch. continue_package env st tree m ses2 p no_changes encode s = Inr (r, ch) \<and> dr_status_code r = 200"
  proof -
    define ses3 where "ses3 = (if ds_phase ses2 \<in> {''configure'', ''done''} then record_failures m ses2 else ses2)"
    have few: "\<not> MAX_MESSAGES_PER_PACKAGE \<le> dp_messages p"
      using assms(7) get_dm_pending_Some [OF p(3)] by auto
    have "list_all known_entry (acks tree m @ es)" using acks_known assms(3) by simp
    from next_message_total [OF assms(8) this, of "length (acks tree m) + 1" env st m ses3 "header_status st ses3"] assms(4,9)
    obtain body rest where nm: "next_message env st m ses3 (header_status st ses3) encode (acks tree m @ es)
        (length (acks tree m) + 1) = Inr (body, rest)" by (cases es) auto
    from next_message_split [OF nm] assms(4) obtain q where "acks tree m @ es = q @ rest" "length (acks tree m) + 1 \<le> length q"
      by (cases es) auto
    then obtain sent where "es = sent @ rest" by (auto simp: append_eq_append_conv2)
    then have "json_size (map entry_row rest) \<le> MAX_STORED_BYTES" using json_size_suffix assms(6) by blast
    then have "to_stored rest = Inr (map entry_row rest)" by (simp add: to_stored_Inr)
    then show ?thesis
      unfolding continue_package_def Let_def ses3_def [symmetric] p(6) from_stored_rows [OF assms(2)]
      using few by (simp add: nm [simplified] continued_def close_session_def dm_response_def)
  qed
  ultimately show ?thesis by (auto simp: dm_exchange_def)
qed


section \<open>Rejected and failed messages\<close>

text \<open>Two stores that every reader sees alike at a time: expired records may be gone.\<close>

definition same_reads :: "int \<Rightarrow> MemoryStore \<Rightarrow> MemoryStore \<Rightarrow> bool" where
  "same_reads clock s t \<longleftrightarrow> (\<forall>i. fst (get_dm_session clock i t) = fst (get_dm_session clock i s)) \<and>
     (\<forall>i. fst (get_dm_pending clock i t) = fst (get_dm_pending clock i s)) \<and>
     t\<lparr>st_dm_sessions := [], st_dm_pending := []\<rparr> = s\<lparr>st_dm_sessions := [], st_dm_pending := []\<rparr>"

lemma same_reads_refl [simp]: "same_reads clock s s"
  by (simp add: same_reads_def)

lemma same_reads_trans: "same_reads clock s t \<Longrightarrow> same_reads clock t u \<Longrightarrow> same_reads clock s u"
  by (simp add: same_reads_def)

lemma get_dm_session_reads: "same_reads clock s (snd (get_dm_session clock i s))"
  by (auto simp: same_reads_def get_dm_session_def get_dm_pending_def split: option.split)

lemma get_dm_pending_reads: "same_reads clock s (snd (get_dm_pending clock i s))"
  by (auto simp: same_reads_def get_dm_session_def get_dm_pending_def split: option.split)

lemma open_session_reads: "same_reads (de_clock env) s (snd (open_session env st m s))"
  using get_dm_session_reads by (simp add: open_session_def Let_def split: prod.split) (metis snd_conv)

lemma handle_message_reads: "same_reads (de_clock env) s (snd (handle_message env st tree m encode s))"
proof -
  obtain session s1 where o: "open_session env st m s = (session, s1)" by fastforce
  have s1: "same_reads (de_clock env) s s1" using open_session_reads [of env s st m] by (simp add: o)
  have "same_reads (de_clock env) s1 (snd (handle_authenticated env st tree m ses encode s1))" for ses
    using get_dm_pending_reads [of "de_clock env" s1 "ds_session_id ses"]
    by (auto simp: handle_authenticated_def Let_def split: prod.split)
  with s1 show ?thesis by (auto simp: handle_message_def o Let_def intro: same_reads_trans)
qed

text \<open>
  C33. A message that cannot be answered changes nothing. When building or encoding the answer fails
  (a message, a challenge or a remainder too large, a WBXML error, a value that cannot be rendered),
  every record of the store reads as before, so the device can send the same message again.
\<close>

theorem failed_message_changes_nothing:
  assumes "parse_payload env binary payload = Some m"
    "binary = (py_lower (py_strip (py_before CHR '';'' content_type)) = CONTENT_TYPE_WBXML)"
    "fst (handle_message env st tree m (message_encoder env binary payload) s) = Inl e"
    "dm_handle env st tree payload content_type s = (r, t)"
  shows "same_reads (de_clock env) s t \<and> (case r of Inl _ \<Rightarrow> True | Inr x \<Rightarrow> dr_status_code x \<noteq> 200 \<and> dr_body x = [])"
proof -
  obtain s1 where h: "handle_message env st tree m (message_encoder env binary payload) s = (Inl e, s1)"
    using assms(3) by (cases "handle_message env st tree m (message_encoder env binary payload) s") simp
  have s1: "same_reads (de_clock env) s s1"
    using handle_message_reads [of env s st tree m "message_encoder env binary payload"] by (simp add: h)
  from assms(1,4) h have "(r, t) = (answer_error e, s1) \<or> t = s \<and> (\<exists>x. r = Inr x \<and> dr_status_code x \<noteq> 200 \<and> dr_body x = [])"
    unfolding dm_handle_def Let_def assms(2) by (auto simp: dm_response_def split: if_splits)
  then show ?thesis
  proof (elim disjE conjE exE)
    assume "(r, t) = (answer_error e, s1)"
    then show ?thesis using s1 by (cases e) (auto simp: answer_error_def dm_response_def)
  qed simp
qed

definition demo_dm_env :: DmEnv where
  "demo_dm_env = \<lparr>de_clock = 1000, de_md5 = id, de_b64encode = id, de_b64decode = Some, de_nonce = ''n0'',
     de_parse_xml = \<lambda>_. Some (branch ''SyncML'' [branch ''SyncHdr'' [leaf ''SessionID'' ''7'', leaf ''MsgID'' ''1''],
       branch ''SyncBody'' []]),
     de_tostring = \<lambda>_. ''<SyncML/>'', de_expat = \<lambda>_. None\<rparr>"

definition demo_dm_settings :: Settings where
  "demo_dm_settings = demo_settings\<lparr>set_dm_auth_scheme := ''none''\<rparr>"

definition demo_dm_message :: SyncMlMessage where
  "demo_dm_message = \<lparr>ms_header = \<lparr>sh_session_id = ''7'', sh_msg_id = ''2'', sh_target = ''https://acs'', sh_source = ''IMEI:35'',
     sh_source_name = [], sh_max_msg_size = 0, sh_credentials = None, sh_ver_dtd = ''1.2'', sh_ver_proto = ''DM/1.2''\<rparr>,
     ms_commands = [], ms_final = True\<rparr>"

definition demo_dm_session :: DmSession where
  "demo_dm_session = (new_session ''35:7'' ''35'' 1600)\<lparr>ds_phase := ''devinfo''\<rparr>"

definition demo_dm_rest :: "Entry list" where
  "demo_dm_rest = [Item ''Get'' ''./DevInfo/Man'' [] [] [], Item ''Get'' ''./DevInfo/Mod'' [] [] []]"

definition demo_dm_store :: MemoryStore where
  "demo_dm_store = put_dm_pending \<lparr>dp_session_id = ''35:7'', dp_phase = ''devinfo'', dp_entries = map entry_row demo_dm_rest,
     dp_messages = 1, dp_expires_at = 1600\<rparr> (put_dm_session demo_dm_session empty_store)"

lemmas demo_dm_defs = demo_dm_env_def demo_dm_settings_def demo_dm_message_def demo_dm_session_def demo_dm_rest_def
  demo_dm_store_def demo_settings_def new_session_def

lemma demo_waiting: "waiting demo_dm_env ''35:7'' demo_dm_store demo_dm_session demo_dm_rest"
  by (simp add: waiting_def demo_dm_defs get_dm_session_def get_dm_pending_def put_dm_session_def put_dm_pending_def
      empty_store_def)

lemma demo_acks: "acks demo_tree demo_dm_message = []"
  by (simp add: acks_def demo_dm_defs)

lemma demo_key: "session_key (device_id_from ''IMEI:35'') ''7'' = ''35:7''"
  by (simp add: session_key_def device_id_from_def py_strip_def strip_by_def py_isspace_char_def code_of_def
      py_startswith_def str_or_def)

lemma demo_asks_more: "asks_more demo_dm_env demo_dm_settings demo_tree ''35:7'' (get_subscriber demo_dm_store) demo_dm_message"
  unfolding asks_more_def demo_acks
  by (simp add: demo_key demo_dm_message_def has_alert_def alert_codes_def of_names_def authenticate_message_def
    demo_dm_settings_def authenticate_def demo_settings_def MAX_ACKNOWLEDGED_COMMANDS_def)

lemma demo_rest_ok: "list_all storable demo_dm_rest" "list_all known_entry demo_dm_rest" "demo_dm_rest \<noteq> []"
  "json_size (map entry_row demo_dm_rest) \<le> MAX_STORED_BYTES"
  by (simp_all add: demo_dm_rest_def storable_def known_entry_def json_size_def json_list_size_def json_str_size_def json_char_size_def code_of_def MAX_STORED_BYTES_def)

lemma demo_messages: "\<forall>p. dict_get (st_dm_pending demo_dm_store) ''35:7'' = Some p \<longrightarrow> dp_messages p < MAX_MESSAGES_PER_PACKAGE"
  by (simp add: demo_dm_store_def put_dm_pending_def MAX_MESSAGES_PER_PACKAGE_def)

lemma demo_fits: "\<forall>session header y. message_with demo_dm_env demo_dm_settings demo_dm_message session header Inr
     (acks demo_tree demo_dm_message @ demo_dm_rest) (length (acks demo_tree demo_dm_message) + 1) = Inr y
   \<longrightarrow> int (length y) \<le> max_msg_size demo_dm_settings demo_dm_message"
  by (auto simp: message_with_def bind_err_Inr max_msg_size_def demo_dm_env_def demo_dm_settings_def demo_settings_def
      demo_dm_message_def)


theorem package_delivered_witness:
  "\<exists>rs t sents left. exchange_all demo_dm_env demo_dm_settings demo_tree Inr [demo_dm_message] demo_dm_store = (rs, t) \<and>
    list_all answered rs \<and> demo_dm_rest = concat sents @ left \<and>
    delivery demo_dm_env demo_dm_settings demo_tree Inr [demo_dm_message] rs sents left"
proof -
  from continuation_answers [OF demo_waiting demo_rest_ok(1-3) demo_asks_more demo_rest_ok(4) demo_messages _ demo_fits]
  obtain r t where x: "dm_exchange demo_dm_env demo_dm_settings demo_tree Inr demo_dm_message demo_dm_store = (Inr r, t)"
    "dr_status_code r = 200" by auto
  then have xs: "exchange_all demo_dm_env demo_dm_settings demo_tree Inr [demo_dm_message] demo_dm_store = ([Inr r], t)" by simp
  have a: "list_all answered [Inr r]" using x(2) by (simp add: answered_def)
  from package_delivered [OF demo_waiting demo_rest_ok(1,3) _ xs a] demo_asks_more xs a show ?thesis
    by (metis (no_types, lifting) empty_iff empty_set set_ConsD)
qed


definition demo_first_message :: SyncMlMessage where
  "demo_first_message = \<lparr>ms_header = \<lparr>sh_session_id = ''7'', sh_msg_id = ''1'', sh_target = [], sh_source = [],
     sh_source_name = [], sh_max_msg_size = 0, sh_credentials = None, sh_ver_dtd = ''1.2'', sh_ver_proto = ''DM/1.2''\<rparr>,
     ms_commands = [], ms_final = False\<rparr>"

lemma demo_parse: "parse_payload demo_dm_env False payload = Some demo_first_message"
proof -
  have "parse_syncml (branch ''SyncML'' [branch ''SyncHdr'' [leaf ''SessionID'' ''7'', leaf ''MsgID'' ''1''],
       branch ''SyncBody'' []]) = Inr demo_first_message" by code_simp
  then show ?thesis by (simp add: parse_payload_def demo_dm_env_def)
qed

lemma demo_next: "next_message demo_dm_env st demo_first_message session header Inr [] 0 =
   (if max_msg_size st demo_first_message < 9 then Inl (MessageTooLarge 9 (max_msg_size st demo_first_message))
    else Inr (''<SyncML/>'', []))"
  by (simp add: next_message_def fill_def search_def message_with_def demo_dm_env_def gallop.simps bisect.simps)

lemma demo_open: "open_session demo_dm_env st demo_first_message empty_store =
   (new_session ''unknown:7'' [] (1000 + set_dm_session_ttl_seconds st)\<lparr>ds_wire_session_id := ''7''\<rparr>, empty_store)"
  by (simp add: open_session_def demo_first_message_def demo_dm_env_def device_id_from_def session_key_def str_or_def
      get_dm_session_def empty_store_def)

lemma demo_auth: "set_dm_auth_scheme st = ''basic'' \<Longrightarrow> authenticate_message demo_dm_env st demo_first_message session s =
   rejected [] ''missing_credentials'' (str_or (ds_nonce session) ''n0'')"
  by (simp add: authenticate_message_def demo_first_message_def authenticate_def demo_dm_env_def)

lemma demo_encoder: "message_encoder demo_dm_env False payload = Inr"
  by (simp add: message_encoder_def fun_eq_iff)

lemma demo_handle_message: "set_dm_auth_scheme st = ''basic'' \<Longrightarrow>
   (\<exists>ch. handle_message demo_dm_env st demo_tree demo_first_message Inr empty_store =
     (if set_dm_max_msg_size st < 9 then Inl (ChallengeTooLarge 9 (set_dm_max_msg_size st))
      else Inr (dm_response 200 ''<SyncML/>'' ''DmAuthRejected'' ''missing_credentials'' False, ch), empty_store))"
  by (simp add: handle_message_def demo_open demo_auth reject_message_def unauthorised_def demo_next Let_def)
   (simp add: demo_first_message_def max_msg_size_def)

lemma demo_media: "py_lower (py_strip (py_before CHR '';'' [])) = []"
  by (simp add: py_before_def py_strip_def strip_by_def py_lower_def)

lemma demo_settings_dm:
  "set_dm_enabled demo_settings" "set_dm_max_msg_size demo_settings = 16384" "set_dm_auth_scheme demo_settings = ''basic''"
  by (simp_all add: demo_settings_def)

theorem dm_answer_fits_witness:
  "\<exists>r t. dm_handle demo_dm_env demo_settings demo_tree ''<SyncML/>'' [] empty_store = (Inr r, t) \<and> dr_body r = ''<SyncML/>'' \<and>
    int (length (dr_body r)) \<le> set_dm_max_msg_size demo_settings"
proof -
  from demo_handle_message [of demo_settings] obtain ch where
    "handle_message demo_dm_env demo_settings demo_tree demo_first_message Inr empty_store =
      (Inr (dm_response 200 ''<SyncML/>'' ''DmAuthRejected'' ''missing_credentials'' False, ch), empty_store)"
    by (auto simp: demo_settings_dm)
  then obtain r t where r: "dm_handle demo_dm_env demo_settings demo_tree ''<SyncML/>'' [] empty_store = (Inr r, t)" "dr_body r = ''<SyncML/>''"
    by (auto simp: dm_handle_def Let_def demo_media demo_parse demo_encoder dm_response_def contains_def demo_settings_dm)
  from dm_answer_fits [OF r(1)] r show ?thesis by auto
qed

theorem failed_message_changes_nothing_witness:
  "\<exists>r t. dm_handle demo_dm_env (demo_settings\<lparr>set_dm_max_msg_size := 4\<rparr>) demo_tree ''<SyncML/>'' [] empty_store = (r, t) \<and>
    same_reads 1000 empty_store t"
proof -
  let ?st = "demo_settings\<lparr>set_dm_max_msg_size := 4\<rparr>"
  obtain r t where r: "dm_handle demo_dm_env ?st demo_tree ''<SyncML/>'' [] empty_store = (r, t)" by fastforce
  have "fst (handle_message demo_dm_env ?st demo_tree demo_first_message (message_encoder demo_dm_env False ''<SyncML/>'') empty_store) =
      Inl (ChallengeTooLarge 9 4)"
    using demo_handle_message [of ?st] by (auto simp: demo_encoder demo_settings_dm)
  from failed_message_changes_nothing [OF demo_parse _ this r] r show ?thesis by (auto simp: demo_dm_env_def demo_media)
qed

end
