(* ===== verification/Dm_Retry.thy ===== *)
theory Dm_Retry
  imports Dm_Delivery
begin

text \<open>
  Commits that stop halfway. \<open>_DmChanges.commit\<close> of \<^verbatim>\<open>src/src/acs/protocol/omadm/session.py\<close> writes up
  to four records one after the other; the order is chosen so that a device's retry repairs what a
  failure between two writes leaves. A commit is a list of writes and an interrupted one a strict prefix of it.
\<close>

section \<open>Interrupted commits\<close>

text \<open>Records are stored under their own identifier; every write keeps it so.\<close>

definition dm_keys_ok :: "MemoryStore \<Rightarrow> bool" where
  "dm_keys_ok s \<longleftrightarrow> (\<forall>k d. dict_get (st_dm_sessions s) k = Some d \<longrightarrow> ds_session_id d = k) \<and>
     (\<forall>k p. dict_get (st_dm_pending s) k = Some p \<longrightarrow> dp_session_id p = k)"

lemma fresh_fields [simp]: "ch_session no_changes = None" "ch_pending no_changes = None" "ch_delete_session_id no_changes = []"
  "ch_delete_pending_id no_changes = []" "ch_device no_changes = None" "\<not> ch_progress_in_remainder no_changes"
  by (simp_all add: no_changes_def)

text \<open>The part of the changes that does not depend on the device record or on a stale remainder.\<close>

definition same_changes :: "DmChanges \<Rightarrow> DmChanges \<Rightarrow> bool" where
  "same_changes a b \<longleftrightarrow> ch_session a = ch_session b \<and> ch_pending a = ch_pending b \<and>
     ch_delete_session_id a = ch_delete_session_id b \<and> ch_progress_in_remainder a = ch_progress_in_remainder b"

lemma same_changes_refl [simp]: "same_changes a a"
  by (simp add: same_changes_def)

lemma same_changes_upd [simp]:
  "same_changes (a\<lparr>ch_device := x\<rparr>) b = same_changes a b" "same_changes a (b\<lparr>ch_device := y\<rparr>) = same_changes a b"
  "same_changes (a\<lparr>ch_delete_pending_id := i\<rparr>) b = same_changes a b" "same_changes a (b\<lparr>ch_delete_pending_id := i\<rparr>) = same_changes a b"
  "same_changes a b \<Longrightarrow> same_changes (a\<lparr>ch_session := x'\<rparr>) (b\<lparr>ch_session := x'\<rparr>)"
  "same_changes a b \<Longrightarrow> same_changes (a\<lparr>ch_pending := p\<rparr>) (b\<lparr>ch_pending := p\<rparr>)"
  "same_changes a b \<Longrightarrow> same_changes (a\<lparr>ch_delete_session_id := i\<rparr>) (b\<lparr>ch_delete_session_id := i\<rparr>)"
  by (simp_all add: same_changes_def)

abbreviation same_result :: "dm_result \<Rightarrow> dm_result \<Rightarrow> bool" where
  "same_result \<equiv> rel_sum (=) (rel_prod (=) same_changes)"

lemma rel_bind:
  assumes "rel_sum (=) P e e'" "\<And>x y. P x y \<Longrightarrow> rel_sum (=) Q (f x) (g y)"
  shows "rel_sum (=) Q (bind_err e f) (bind_err e' g)"
  using assms by (cases e; cases e') auto

lemma rel_bind_same: "(\<And>x. rel_sum (=) Q (f x) (g x)) \<Longrightarrow> rel_sum (=) Q (bind_err e f) (bind_err e g)"
  by (cases e) auto

lemma start_package_same:
  "same_changes ch ch' \<Longrightarrow> rel_sum (=) (rel_prod (=) (rel_prod (=) same_changes))
     (start_package env st m session encode queue ch) (start_package env st m session encode queue ch')"
  unfolding start_package_def by (intro rel_bind_same) (auto intro!: rel_bind_same)

lemma configuration_values_cong: "get_subscriber s = get_subscriber t \<Longrightarrow> configuration_values tree session s = configuration_values tree session t"
  by (simp add: configuration_values_def)

lemma handle_session_same:
  assumes "same_changes ch ch'" "get_subscriber s = get_subscriber t"
  shows "same_result (handle_session env st tree m session None ch encode s) (handle_session env st tree m session None ch' encode t)"
proof -
  have init: "same_result (handle_init env st tree m session ch encode s) (handle_init env st tree m session ch' encode t)"
    using assms unfolding handle_init_def Let_def
    by (auto intro!: rel_bind [OF start_package_same])
  have devinfo: "same_result (handle_devinfo env st tree m session ch encode s) (handle_devinfo env st tree m session ch' encode t)"
    using assms unfolding handle_devinfo_def Let_def configuration_values_cong [OF assms(2)]
    by (auto intro!: rel_bind_same rel_bind [OF start_package_same])
  have finish: "same_result (handle_finish env st tree m session ch encode) (handle_finish env st tree m session ch' encode)"
    using assms unfolding handle_finish_def Let_def
    by (auto intro!: rel_bind [OF start_package_same] simp: close_session_def)
  show ?thesis
    using assms(1) init devinfo finish unfolding handle_session_def by (auto intro!: rel_bind_same)
qed


lemma pred_bind:
  assumes "pred_sum (\<lambda>_. True) P e" "\<And>x. P x \<Longrightarrow> pred_sum (\<lambda>_. True) Q (f x)"
  shows "pred_sum (\<lambda>_. True) Q (bind_err e f)"
  using assms by (cases e) auto

lemma pred_bind_any: "(\<And>x. pred_sum (\<lambda>_. True) Q (f x)) \<Longrightarrow> pred_sum (\<lambda>_. True) Q (bind_err e f)"
  by (cases e) auto

lemma start_package_changes:
  "pred_sum (\<lambda>_. True) (\<lambda>(body, n, ch1). ch1 = ch \<or> (\<exists>rows. ch1 = ch\<lparr>ch_pending := Some \<lparr>dp_session_id = ds_session_id session,
      dp_phase = ds_phase session, dp_entries = rows, dp_messages = 1, dp_expires_at = ds_expires_at session\<rparr>\<rparr>))
    (start_package env st m session encode queue ch)"
  unfolding start_package_def by (intro pred_bind_any) (auto intro!: pred_bind_any, blast)

text \<open>What a package that starts, or a session that ends, writes before the session record.\<close>

definition starts :: "DmSession \<Rightarrow> DmChanges \<Rightarrow> bool" where
  "starts session ch \<longleftrightarrow> \<not> ch_progress_in_remainder ch \<and>
     (\<forall>p. ch_pending ch = Some p \<longrightarrow> dp_session_id p = ds_session_id session \<and> dp_phase p \<noteq> ds_phase session) \<and>
     (ch_session ch = None \<or> ch_delete_session_id ch = []) \<and>
     ch_delete_pending_id ch \<in> {[], ds_session_id session} \<and> ch_delete_session_id ch \<in> {[], ds_session_id session}"

lemma handle_session_starts:
  assumes "ds_phase session \<noteq> ''done''" "starts session ch" "ch_session ch = None" "ch_pending ch = None"
    "ch_delete_session_id ch = []"
  shows "pred_sum (\<lambda>_. True) (\<lambda>(r, ch1). starts session ch1) (handle_session env st tree m session None ch encode s)"
proof -
  have init: "pred_sum (\<lambda>_. True) (\<lambda>(r, ch1). starts session ch1) (handle_init env st tree m session ch encode s)"
    if "ds_phase session = ''init''"
    using that assms(2-) unfolding handle_init_def Let_def
    by (auto intro!: pred_bind [OF start_package_changes] simp: starts_def)
  have devinfo: "pred_sum (\<lambda>_. True) (\<lambda>(r, ch1). starts session ch1) (handle_devinfo env st tree m session ch encode s)"
    if "ds_phase session = ''devinfo''"
    using that assms(2-) unfolding handle_devinfo_def Let_def
    by (intro pred_bind_any pred_bind [OF start_package_changes]) (auto simp: starts_def)
  have finish: "pred_sum (\<lambda>_. True) (\<lambda>(r, ch1). starts session ch1) (handle_finish env st tree m session ch encode)"
    using assms unfolding handle_finish_def Let_def
    by (intro pred_bind [OF start_package_changes]) (auto simp: starts_def close_session_def record_failures_def)
  show ?thesis
    using assms init devinfo finish unfolding handle_session_def by (auto intro!: pred_bind_any simp: starts_def)
qed

text \<open>Writes that leave the session records and the subscribers alone, and any remainder they leave
  under the session's name is of another phase.\<close>

fun early_write :: "DmSession \<Rightarrow> store_write \<Rightarrow> bool" where
  "early_write session (PutDevice d) \<longleftrightarrow> True"
| "early_write session (PutPending p) \<longleftrightarrow> dp_session_id p = ds_session_id session \<and> dp_phase p \<noteq> ds_phase session"
| "early_write session (DeletePending i) \<longleftrightarrow> i = ds_session_id session"
| "early_write session _ \<longleftrightarrow> False"

lemma starts_prefix:
  assumes "starts session ch" "k < length (commit_writes ch)"
  shows "list_all (early_write session) (take k (commit_writes ch))"
proof -
  define a where "a = (case ch_device ch of None \<Rightarrow> [] | Some d \<Rightarrow> [PutDevice d]) @ save_remainder ch"
  have "length (save_session ch) \<le> 1" using assms(1) by (auto simp: save_session_def starts_def split: option.split)
  moreover have c: "commit_writes ch = a @ save_session ch" using assms(1) by (simp add: commit_writes_def a_def starts_def)
  ultimately have "take k (commit_writes ch) = take k a" using assms(2) by (cases "save_session ch") auto
  moreover have "list_all (early_write session) a"
    using assms(1) by (auto simp: a_def save_remainder_def starts_def split: option.split)
  ultimately show ?thesis by (auto simp: list_all_iff dest: in_set_takeD)
qed

definition stale_or_none :: "DmSession \<Rightarrow> DmPendingPackage option \<Rightarrow> bool" where
  "stale_or_none session q \<longleftrightarrow> (case q of None \<Rightarrow> True | Some p \<Rightarrow> dp_phase p \<noteq> ds_phase session)"

lemma early_writes_keep:
  assumes "list_all (early_write session) ws"
  shows "st_dm_sessions (fold apply_write ws s) = st_dm_sessions s"
    "stale_or_none session (dict_get (st_dm_pending s) (ds_session_id session)) \<Longrightarrow>
     stale_or_none session (dict_get (st_dm_pending (fold apply_write ws s)) (ds_session_id session))"
  using assms
proof (induction ws arbitrary: s)
  case (Cons w ws)
  { case 1 with Cons.IH(1) [of "apply_write w s"] show ?case
      by (cases w) (auto simp: put_device_def put_dm_pending_def delete_dm_pending_def)
  next
    case 2 with Cons.IH(2) [of "apply_write w s"] show ?case
      by (cases w) (auto simp: put_device_def put_dm_pending_def delete_dm_pending_def stale_or_none_def) }
qed simp_all


text \<open>A session saved by an interrupted continuation differs from the one read only in the count of failures.\<close>

lemma next_message_failures [simp]:
  "next_message env st m (session\<lparr>ds_reported_failures := x\<rparr>) header encode queue required =
   next_message env st m session header encode queue required"
  by (simp add: next_message_def message_with_def [abs_def] builder_for_def)

lemma header_status_failures [simp]: "header_status st (session\<lparr>ds_reported_failures := x\<rparr>) = header_status st session"
  by (simp add: header_status_def)

definition progress_alike :: "DmChanges \<Rightarrow> DmChanges \<Rightarrow> bool" where
  "progress_alike a b \<longleftrightarrow> map_option ds_phase (ch_session a) = map_option ds_phase (ch_session b) \<and>
     ch_pending a = ch_pending b \<and> ch_delete_session_id a = ch_delete_session_id b"

lemma continue_package_failures:
  assumes "ds_phase session \<noteq> ''done''"
  shows "rel_sum (=) (rel_prod (=) progress_alike)
    (continue_package env st tree m session p no_changes encode s)
    (continue_package env st tree m (session\<lparr>ds_reported_failures := x\<rparr>) p no_changes encode t)"
  using assms unfolding continue_package_def Let_def record_failures_def
  by (auto simp: progress_alike_def intro!: rel_bind_same)

lemma authenticate_message_cong:
  assumes "get_subscriber t = get_subscriber s"
  shows "authenticate_message env st m session t = authenticate_message env st m session s"
proof -
  have "lookup_password t = lookup_password s" using assms by (simp add: lookup_password_def fun_eq_iff)
  then show ?thesis by (simp add: authenticate_message_def Let_def)
qed

lemma authenticate_again:
  assumes "result = authenticate_message env st m session s" "ar_authenticated result" "get_subscriber t = get_subscriber s"
  shows "authenticate_message env st m (authenticated_session m result session\<lparr>ds_reported_failures := x\<rparr>) t = result"
proof -
  have l: "lookup_password t = lookup_password s" using assms(3) by (simp add: lookup_password_def fun_eq_iff)
  show ?thesis
  proof (cases "set_dm_auth_scheme st \<noteq> ''none'' \<and> (case sh_credentials (ms_header m) of Some c \<Rightarrow> cr_type c = AUTH_MD5 | None \<Rightarrow> False)")
    case True
    then have r: "result = authenticate_md5 (de_md5 env) (de_b64encode env) (de_nonce env) (sh_credentials (ms_header m))
        (str_or (sh_source_name (ms_header m)) (ds_imsi session))
        (lookup_password s (str_or (sh_source_name (ms_header m)) (ds_imsi session))) (ds_nonce session)"
      using assms(1) by (simp add: authenticate_message_def Let_def)
    have "ar_username result = str_or (sh_source_name (ms_header m)) (ds_imsi session)"
      using assms(2) unfolding r by (auto simp: authenticate_md5_def split: option.splits if_splits)
    then have "str_or (sh_source_name (ms_header m)) (str_or (ar_username result) (ds_imsi session)) =
        str_or (sh_source_name (ms_header m)) (ds_imsi session)" by (simp add: str_or_def)
    with True show ?thesis by (simp add: authenticate_message_def Let_def authenticated_session_def l r [symmetric])
  next
    case False
    then show ?thesis using assms(1) by (auto simp: authenticate_message_def Let_def authenticated_session_def l split: option.splits)
  qed
qed


lemma reread_session: "get_dm_session clock key s = (v, s1) \<Longrightarrow> st_dm_sessions t = st_dm_sessions s1 \<Longrightarrow> get_dm_session clock key t = (v, t)"
  by (auto simp: get_dm_session_def split: option.splits if_splits)

lemma get_dm_pending_sessions: "get_dm_pending clock key s = (v, s1) \<Longrightarrow> st_dm_sessions s1 = st_dm_sessions s \<and> get_subscriber s1 = get_subscriber s"
  by (auto simp: get_dm_pending_def get_subscriber_def split: option.splits if_splits)

lemma get_dm_session_subscribers: "get_dm_session clock key s = (v, s1) \<Longrightarrow> get_subscriber s1 = get_subscriber s"
  by (auto simp: get_dm_session_def get_subscriber_def split: option.splits if_splits)

lemma get_dm_pending_stale:
  assumes "stale_or_none session (dict_get (st_dm_pending s) (ds_session_id session))"
  shows "\<exists>q s1. get_dm_pending clock (ds_session_id session) s = (q, s1) \<and> stale_or_none session q"
  using assms by (auto simp: get_dm_pending_def stale_or_none_def split: option.splits)

lemma get_dm_pending_kept: "get_dm_pending clock key s = (q, s1) \<Longrightarrow> dict_get (st_dm_pending s1) key = q"
  by (auto simp: get_dm_pending_def split: option.splits if_splits)

lemma handle_authenticated_stale:
  assumes "length (acks tree m) \<le> MAX_ACKNOWLEDGED_COMMANDS" "get_dm_pending (de_clock env) (ds_session_id session) s = (q, s1)"
    "stale_or_none session q \<or> has_alert m ''1223'' \<or> has_alert m ''1226''"
  shows "\<exists>ch. same_changes no_changes ch \<and> ch_delete_pending_id ch \<in> {[], ds_session_id session} \<and>
    handle_authenticated env st tree m session encode s = (handle_session env st tree m session None ch encode s1, s1)"
proof -
  have "handle_session env st tree m session q ch encode s1 = handle_session env st tree m session None ch encode s1"
    if "has_alert m ''1223'' \<or> has_alert m ''1226''" for ch
    using that by (auto simp: handle_session_def)
  with assms show ?thesis
    by (intro exI [of _ "case q of Some p \<Rightarrow> if dp_phase p \<noteq> ds_phase session then no_changes\<lparr>ch_delete_pending_id := ds_session_id session\<rparr>
        else no_changes | None \<Rightarrow> no_changes"], cases q) (auto simp: handle_authenticated_def stale_or_none_def Let_def)
qed

text \<open>A package starts, or the session ends: everything before the session record is undone by a retry.\<close>

lemma start_retried:
  assumes "length (acks tree m) \<le> MAX_ACKNOWLEDGED_COMMANDS" "ds_phase session \<noteq> ''done''"
    "get_dm_pending (de_clock env) (ds_session_id session) s = (q, s1)"
    "stale_or_none session q \<or> has_alert m ''1223'' \<or> has_alert m ''1226''"
    "handle_authenticated env st tree m session encode s = (Inr (r, ch), s1)" "k < length (commit_writes ch)"
  defines "t \<equiv> fold apply_write (take k (commit_writes ch)) s1"
  shows "st_dm_sessions t = st_dm_sessions s \<and>
    (\<exists>ch' t'. handle_authenticated env st tree m session encode t = (Inr (r, ch'), t') \<and> same_changes ch ch')"
proof -
  from handle_authenticated_stale [OF assms(1,3,4), of st encode] assms(5) obtain c where
    c: "same_changes no_changes c" "ch_delete_pending_id c \<in> {[], ds_session_id session}"
    "handle_session env st tree m session None c encode s1 = Inr (r, ch)" by auto
  have "starts session c" using c(1,2) by (auto simp: starts_def same_changes_def)
  with handle_session_starts [OF assms(2) this, of env st tree m encode s1] c have "starts session ch" by (simp add: same_changes_def)
  from starts_prefix [OF this assms(6)] have early: "list_all (early_write session) (take k (commit_writes ch))" .
  have sess: "st_dm_sessions t = st_dm_sessions s"
    using early_writes_keep(1) [OF early] get_dm_pending_sessions [OF assms(3)] by (simp add: t_def)
  obtain q' t' where q': "get_dm_pending (de_clock env) (ds_session_id session) t = (q', t')" by fastforce
  have "stale_or_none session q' \<or> has_alert m ''1223'' \<or> has_alert m ''1226''"
    using early_writes_keep(2) [OF early, of s1] get_dm_pending_kept [OF assms(3)] assms(4) q'
      get_dm_pending_stale [of session t "de_clock env"] by (auto simp: t_def)
  from handle_authenticated_stale [OF assms(1) q' this, of st encode] obtain c' where
    c': "same_changes no_changes c'" "handle_authenticated env st tree m session encode t = (handle_session env st tree m session None c' encode t', t')"
    by blast
  have "get_subscriber s1 = get_subscriber t'"
    using get_dm_pending_sessions [OF q'] by (simp add: t_def fold_writes_subscribers)
  from handle_session_same [OF _ this, of c c' env st tree m session encode] c c' sess show ?thesis
    by (cases "handle_session env st tree m session None c' encode t'") (auto simp: same_changes_def)
qed


text \<open>A package continues: a retry reads the session with its failures counted already.\<close>

lemma continue_writes:
  assumes "continue_package env st tree m session p no_changes encode s = Inr (r, ch)" "dr_status_code r = 200"
    "ds_phase session \<noteq> ''done''" "ds_session_id session \<noteq> []"
  shows "\<exists>d x w. commit_writes ch = [PutDevice d, PutSession (session\<lparr>ds_reported_failures := x\<rparr>), w]"
proof -
  have eq: "session\<lparr>ds_reported_failures := ds_reported_failures session\<rparr> = session" by simp
  define session' where "session' = (if ds_phase session \<in> {''configure'', ''done''} then record_failures m session else session)"
  have "\<exists>x. session' = session\<lparr>ds_reported_failures := x\<rparr>"
    by (cases "ds_phase session \<in> {''configure'', ''done''}") (auto simp: session'_def record_failures_def, metis eq)
  then obtain x where x: "session' = session\<lparr>ds_reported_failures := x\<rparr>" by blast
  have "\<exists>d w. commit_writes ch = [PutDevice d, PutSession session', w]"
    using assms unfolding continue_package_def Let_def session'_def [symmetric]
    by (auto simp: bind_err_Inr dm_response_def commit_writes_def save_session_def save_remainder_def x split: if_splits)
  with x show ?thesis by blast
qed

lemma open_session_view:
  assumes "open_session env st m s = (session, s1)"
  shows "\<exists>stored. get_dm_session (de_clock env) (session_key (device_id_from (sh_source (ms_header m))) (sh_session_id (ms_header m))) s = (stored, s1)"
  using assms by (auto simp: open_session_def Let_def split: prod.splits)

lemma open_session_reopened:
  assumes "open_session env st m s = (session, s1)" "st_dm_sessions t = st_dm_sessions s1"
  shows "open_session env st m t = (session, t)"
proof -
  from open_session_view [OF assms(1)] obtain stored where
    g: "get_dm_session (de_clock env) (session_key (device_id_from (sh_source (ms_header m))) (sh_session_id (ms_header m))) s = (stored, s1)"
    by blast
  from reread_session [OF g assms(2)] assms(1) g show ?thesis by (simp add: open_session_def Let_def)
qed


lemma open_session_fields:
  assumes "open_session env st m s = (session, s1)" "dm_keys_ok s" "0 \<le> set_dm_session_ttl_seconds st"
  shows "ds_session_id session = session_key (device_id_from (sh_source (ms_header m))) (sh_session_id (ms_header m))"
    "ds_wire_session_id session = sh_session_id (ms_header m)"
    "device_id_from (sh_source (ms_header m)) \<noteq> [] \<Longrightarrow> ds_device_id session = device_id_from (sh_source (ms_header m))"
    "\<not> (ds_expires_at session \<noteq> 0 \<and> ds_expires_at session < de_clock env)"
proof -
  let ?key = "session_key (device_id_from (sh_source (ms_header m))) (sh_session_id (ms_header m))"
  from open_session_view [OF assms(1)] obtain stored where g: "get_dm_session (de_clock env) ?key s = (stored, s1)" by blast
  have ok: "ds_session_id d = ?key \<and> \<not> (ds_expires_at d \<noteq> 0 \<and> ds_expires_at d < de_clock env)" if "stored = Some d" for d
    using g that assms(2) get_dm_session_Some [of "de_clock env" ?key s d s1] by (auto simp: dm_keys_ok_def)
  with assms(1,3) g show "ds_session_id session = ?key" "ds_wire_session_id session = sh_session_id (ms_header m)"
    "device_id_from (sh_source (ms_header m)) \<noteq> [] \<Longrightarrow> ds_device_id session = device_id_from (sh_source (ms_header m))"
    "\<not> (ds_expires_at session \<noteq> 0 \<and> ds_expires_at session < de_clock env)"
    by (auto simp: open_session_def Let_def new_session_def split: option.splits if_splits)
qed

lemma authenticated_session_again:
  "authenticated_session m result (authenticated_session m result session\<lparr>ds_reported_failures := x\<rparr>) =
   authenticated_session m result session\<lparr>ds_reported_failures := x\<rparr>"
  by (simp add: authenticated_session_def str_or_def)

lemma continue_reopened:
  assumes "open_session env st m s = (session, s1)" "dm_keys_ok s" "0 \<le> set_dm_session_ttl_seconds st"
    "dict_get (st_dm_sessions t) (ds_session_id session) = Some (authenticated_session m result session\<lparr>ds_reported_failures := x\<rparr>)"
  shows "open_session env st m t = (authenticated_session m result session\<lparr>ds_reported_failures := x\<rparr>, t)"
proof -
  note f = open_session_fields [OF assms(1-3)]
  define d where "d = authenticated_session m result session\<lparr>ds_reported_failures := x\<rparr>"
  have d: "ds_wire_session_id d = sh_session_id (ms_header m)" "\<not> (ds_expires_at d \<noteq> 0 \<and> ds_expires_at d < de_clock env)"
    "device_id_from (sh_source (ms_header m)) \<noteq> [] \<longrightarrow> ds_device_id d = device_id_from (sh_source (ms_header m))"
    using f(2-4) by (auto simp: d_def authenticated_session_def)
  have upd: "d\<lparr>ds_wire_session_id := sh_session_id (ms_header m)\<rparr> = d"
    "device_id_from (sh_source (ms_header m)) \<noteq> [] \<longrightarrow> d\<lparr>ds_device_id := device_id_from (sh_source (ms_header m))\<rparr> = d"
    using d(1,3) by (metis DmSession.surjective DmSession.update_convs(3), metis DmSession.surjective DmSession.update_convs(2))
  have "get_dm_session (de_clock env) (session_key (device_id_from (sh_source (ms_header m))) (sh_session_id (ms_header m))) t = (Some d, t)"
    using d(2) assms(4) by (auto simp: get_dm_session_def f(1) [symmetric] d_def [symmetric])
  then show ?thesis using upd by (simp add: open_session_def Let_def d_def [symmetric])
qed


lemma continue_retried:
  assumes "open_session env st m s = (session, s1)" "dm_keys_ok s" "0 \<le> set_dm_session_ttl_seconds st"
    and "result = authenticate_message env st m session s1" "ar_authenticated result"
    and "ses = authenticated_session m result session" "ds_phase ses \<noteq> ''done''"
    and "get_dm_pending (de_clock env) (ds_session_id ses) s1 = (Some p, s1)" "dp_phase p = ds_phase ses"
    and "\<not> has_alert m ''1223''" "\<not> has_alert m ''1226''" "length (acks tree m) \<le> MAX_ACKNOWLEDGED_COMMANDS"
    and "sh_session_id (ms_header m) \<noteq> []" "sh_msg_id (ms_header m) \<noteq> []"
    and "continue_package env st tree m ses p no_changes encode s1 = Inr (r, ch)" "dr_status_code r = 200"
    and "k < length (commit_writes ch)"
  shows "\<exists>ch' t'. handle_message env st tree m encode (fold apply_write (take k (commit_writes ch)) s1) = (Inr (r, ch'), t') \<and>
    progress_alike ch ch'"
proof -
  have id: "ds_session_id ses = ds_session_id session" by (simp add: assms(6) authenticated_session_def)
  then have "ds_session_id ses \<noteq> []" using open_session_fields(1) [OF assms(1-3)] by (simp add: session_key_def)
  from continue_writes [OF assms(15,16,7) this] obtain d x w where
    w: "commit_writes ch = [PutDevice d, PutSession (ses\<lparr>ds_reported_failures := x\<rparr>), w]" by blast
  define t where "t = fold apply_write (take k (commit_writes ch)) s1"
  have subs: "get_subscriber t = get_subscriber s1" by (simp add: t_def fold_writes_subscribers)
  have pend: "st_dm_pending t = st_dm_pending s1" and
    sess: "st_dm_sessions t = st_dm_sessions s1 \<or> dict_get (st_dm_sessions t) (ds_session_id ses) = Some (ses\<lparr>ds_reported_failures := x\<rparr>)"
    using assms(17) by (auto simp: t_def w less_Suc_eq numeral_3_eq_3 put_device_def put_dm_session_def)
  have pend': "get_dm_pending (de_clock env) (ds_session_id ses) t = (Some p, t)"
    using get_dm_pending_Some [OF assms(8)] by (auto simp: get_dm_pending_def pend)
  have go: "handle_authenticated env st tree m (ses\<lparr>ds_reported_failures := y\<rparr>) encode t =
      (continue_package env st tree m (ses\<lparr>ds_reported_failures := y\<rparr>) p no_changes encode t, t)" for y
    using pend' assms(9-12) by (simp add: handle_authenticated_def handle_session_def)
  have "\<exists>y. handle_message env st tree m encode t = (continue_package env st tree m (ses\<lparr>ds_reported_failures := y\<rparr>) p no_changes encode t, t)"
    using sess
  proof
    assume "st_dm_sessions t = st_dm_sessions s1"
    from open_session_reopened [OF assms(1) this] go [of "ds_reported_failures ses"] assms(4-6,13,14) subs
    show ?thesis
      by (intro exI [of _ "ds_reported_failures ses"])
        (simp add: handle_message_def authenticate_message_cong [OF subs])
  next
    assume "dict_get (st_dm_sessions t) (ds_session_id ses) = Some (ses\<lparr>ds_reported_failures := x\<rparr>)"
    from continue_reopened [OF assms(1-3) this [unfolded assms(6) id [unfolded assms(6)]]]
      authenticate_again [OF assms(4,5) subs, of x] go [of x] assms(5,13,14) authenticated_session_again [of m result x session]
    show ?thesis by (intro exI [of _ x]) (simp add: handle_message_def assms(6))
  qed
  then obtain y where "handle_message env st tree m encode t =
      (continue_package env st tree m (ses\<lparr>ds_reported_failures := y\<rparr>) p no_changes encode t, t)" by blast
  with continue_package_failures [OF assms(7), of env st tree m p encode s1 y t] assms(15) show ?thesis
    by (cases "continue_package env st tree m (ses\<lparr>ds_reported_failures := y\<rparr>) p no_changes encode t") (auto simp: t_def)
qed


lemma demo_next_rest:
  "next_message demo_dm_env demo_dm_settings demo_dm_message session header Inr demo_dm_rest (Suc 0) = Inr (''<SyncML/>'', [])"
proof -
  have "message_with demo_dm_env demo_dm_settings demo_dm_message session header Inr demo_dm_rest 2 = Inr ''<SyncML/>''"
    using message_with_total [of Inr demo_dm_rest demo_dm_env demo_dm_settings demo_dm_message session header 2] demo_rest_ok(2)
    by (auto simp: message_with_def bind_err_Inr demo_dm_env_def)
  moreover have "length demo_dm_rest = 2" "max_msg_size demo_dm_settings demo_dm_message = 16384"
    by (simp_all add: demo_dm_rest_def max_msg_size_def demo_dm_settings_def demo_dm_message_def demo_settings_def)
  ultimately show ?thesis by (simp add: next_message_def fill_def)
qed

definition demo_phase_store :: "string \<Rightarrow> MemoryStore" where
  "demo_phase_store ph = put_dm_pending \<lparr>dp_session_id = ''35:7'', dp_phase = ph, dp_entries = map entry_row demo_dm_rest,
     dp_messages = 1, dp_expires_at = 1600\<rparr> (put_dm_session (demo_dm_session\<lparr>ds_phase := ph\<rparr>) empty_store)"

lemma demo_device: "device_id_from (sh_source (ms_header demo_dm_message)) = ''35''"
  by (simp add: demo_dm_message_def device_id_from_def py_strip_def strip_by_def py_isspace_char_def code_of_def py_startswith_def)

lemma demo_message_ids: "sh_session_id (ms_header demo_dm_message) = ''7''" "sh_msg_id (ms_header demo_dm_message) = ''2''"
  "\<not> has_alert demo_dm_message c"
  by (simp_all add: demo_dm_message_def has_alert_def alert_codes_def of_names_def)

lemma demo_open_session:
  "open_session demo_dm_env demo_dm_settings demo_dm_message s = (case get_dm_session 1000 ''35:7'' s of (stored, s') \<Rightarrow>
     ((case stored of Some d \<Rightarrow> d | None \<Rightarrow> new_session ''35:7'' ''35'' 1600)\<lparr>ds_wire_session_id := ''7'', ds_device_id := ''35''\<rparr>, s'))"
proof -
  have "session_key ''35'' ''7'' = ''35:7''" by (simp add: session_key_def str_or_def)
  moreover have "de_clock demo_dm_env = 1000" "set_dm_session_ttl_seconds demo_dm_settings = 600"
    by (simp_all add: demo_dm_env_def demo_dm_settings_def demo_settings_def)
  ultimately show ?thesis by (auto simp: open_session_def Let_def demo_device demo_message_ids split: prod.split option.split)
qed

lemma demo_open_phase: "open_session demo_dm_env demo_dm_settings demo_dm_message (demo_phase_store ph) =
    (demo_dm_session\<lparr>ds_phase := ph, ds_wire_session_id := ''7''\<rparr>, demo_phase_store ph)"
  by (simp add: demo_open_session demo_phase_store_def demo_dm_session_def new_session_def get_dm_session_def put_dm_session_def
      put_dm_pending_def)

lemma demo_authenticated: "ar_authenticated (authenticate_message demo_dm_env demo_dm_settings demo_dm_message session s)"
  by (simp add: authenticate_message_def demo_dm_settings_def authenticate_def demo_settings_def demo_dm_message_def)

lemma demo_phase_handled:
  "\<exists>session. ds_phase session = ph \<and> ds_session_id session = ''35:7'' \<and> ds_reported_failures session = 0 \<and>
    handle_message demo_dm_env demo_dm_settings demo_tree demo_dm_message Inr (demo_phase_store ph) =
     (continue_package demo_dm_env demo_dm_settings demo_tree demo_dm_message session
        \<lparr>dp_session_id = ''35:7'', dp_phase = ph, dp_entries = map entry_row demo_dm_rest, dp_messages = 1, dp_expires_at = 1600\<rparr>
        no_changes Inr (demo_phase_store ph), demo_phase_store ph)"
proof -
  let ?ses = "authenticated_session demo_dm_message (authenticate_message demo_dm_env demo_dm_settings demo_dm_message
    (demo_dm_session\<lparr>ds_phase := ph, ds_wire_session_id := ''7''\<rparr>) (demo_phase_store ph))
    (demo_dm_session\<lparr>ds_phase := ph, ds_wire_session_id := ''7''\<rparr>)"
  have ses: "ds_phase ?ses = ph" "ds_session_id ?ses = ''35:7''" "ds_reported_failures ?ses = 0"
    by (simp_all add: authenticated_session_def demo_dm_session_def new_session_def)
  have "get_dm_pending (de_clock demo_dm_env) ''35:7'' (demo_phase_store ph) =
      (Some \<lparr>dp_session_id = ''35:7'', dp_phase = ph, dp_entries = map entry_row demo_dm_rest, dp_messages = 1, dp_expires_at = 1600\<rparr>,
       demo_phase_store ph)"
    by (simp add: get_dm_pending_def demo_phase_store_def put_dm_pending_def demo_dm_env_def)
  then show ?thesis using ses
    by (intro exI [of _ ?ses]) (simp add: handle_message_def demo_open_phase demo_authenticated Let_def handle_authenticated_def demo_acks handle_session_def
      demo_message_ids)
qed


text \<open>The exception: the session record of a last package goes before its remainder, and a retry finds no session.\<close>

lemma last_package_retry_refused:
  "\<exists>ch ch' t'. handle_message demo_dm_env demo_dm_settings demo_tree demo_dm_message Inr (demo_phase_store ''done'') =
      (Inr (dm_response 200 ''<SyncML/>'' ''DmSessionComplete'' ''failures:0'' True, ch), demo_phase_store ''done'') \<and>
    handle_message demo_dm_env demo_dm_settings demo_tree demo_dm_message Inr
      (fold apply_write (take 2 (commit_writes ch)) (demo_phase_store ''done'')) =
      (Inr (dm_response 400 [] ''DmProtocolError'' ''first package must carry Alert 1200 or 1201'' False, ch'), t')"
proof -
  let ?s = "demo_phase_store ''done''"
  from demo_phase_handled [of "''done''"] obtain session where
    s: "ds_phase session = ''done''" "ds_session_id session = ''35:7''" "ds_reported_failures session = 0"
    "handle_message demo_dm_env demo_dm_settings demo_tree demo_dm_message Inr ?s =
     (continue_package demo_dm_env demo_dm_settings demo_tree demo_dm_message session
        \<lparr>dp_session_id = ''35:7'', dp_phase = ''done'', dp_entries = map entry_row demo_dm_rest, dp_messages = 1, dp_expires_at = 1600\<rparr>
        no_changes Inr ?s, ?s)" by blast
  have f: "record_failures demo_dm_message session = session"
    by (simp add: record_failures_def of_names_def demo_dm_message_def)
  have z: "str_of_int 0 = ''0''" by code_simp
  from s obtain ch d where h: "handle_message demo_dm_env demo_dm_settings demo_tree demo_dm_message Inr ?s =
      (Inr (dm_response 200 ''<SyncML/>'' ''DmSessionComplete'' ''failures:0'' True, ch), ?s)"
      "take 2 (commit_writes ch) = [PutDevice d, DeleteSession ''35:7'']"
    by (simp add: continue_package_def from_stored_rows [OF demo_rest_ok(1)] demo_acks demo_next_rest MAX_MESSAGES_PER_PACKAGE_def f
        commit_writes_def save_session_def save_remainder_def close_session_def z)
  let ?t = "delete_dm_session ''35:7'' (put_device d ?s)"
  have o: "open_session demo_dm_env demo_dm_settings demo_dm_message ?t = (new_session ''35:7'' ''35'' 1600\<lparr>ds_wire_session_id := ''7''\<rparr>, ?t)"
    by (simp add: demo_open_session get_dm_session_def delete_dm_session_def put_device_def new_session_def)
  have p: "get_dm_pending (de_clock demo_dm_env) ''35:7'' ?t = (Some \<lparr>dp_session_id = ''35:7'', dp_phase = ''done'',
      dp_entries = map entry_row demo_dm_rest, dp_messages = 1, dp_expires_at = 1600\<rparr>, ?t)"
    by (simp add: get_dm_pending_def delete_dm_session_def put_device_def demo_phase_store_def put_dm_pending_def demo_dm_env_def)
  have "\<exists>ch' t'. handle_message demo_dm_env demo_dm_settings demo_tree demo_dm_message Inr ?t =
      (Inr (dm_response 400 [] ''DmProtocolError'' ''first package must carry Alert 1200 or 1201'' False, ch'), t')"
    using p by (simp add: handle_message_def o demo_authenticated demo_message_ids Let_def handle_authenticated_def demo_acks
      handle_session_def handle_init_def authenticated_session_def new_session_def)
  with h show ?thesis by auto
qed

end
