(* ===== verification/Wbxml_Roundtrip.thy ===== *)
theory Wbxml_Roundtrip
  imports Wbxml
begin

text \<open>
  The encoder and the decoder of \<^verbatim>\<open>src/src/acs/protocol/omadm/wbxml.py\<close> against each other: bytes
  the encoder wrote decode to the XML text of the tree (a simulation, element by element, with the
  code page and the limits as state), and whatever the decoder accepts it turns into well-formed
  XML.
\<close>

section \<open>Decoding what was encoded\<close>

text \<open>The XML text of a tree, as the decoder writes it.\<close>

definition opt_text :: "string option \<Rightarrow> string" where
  "opt_text t = (case t of None \<Rightarrow> [] | Some s \<Rightarrow> s)"

definition qualified_name :: "et \<Rightarrow> string" where
  "qualified_name e = (case split_tag (et_tag e) of (ns, name) \<Rightarrow>
     if ns = ''syncml:metinf'' then ''metinf:'' @ name else name)"

definition open_text :: "string \<Rightarrow> et \<Rightarrow> string" where
  "open_text decl e = ''<'' @ qualified_name e @ decl @ (if has_content e then ''>'' else ''/>'')"

fun et_xml :: "string \<Rightarrow> et \<Rightarrow> string" where
  "et_xml decl (Et t a x l cs) = open_text decl (Et t a x l cs) @
     (if has_content (Et t a x l cs)
      then escape (utf8 (opt_text x)) @
        concat (map (\<lambda>c. et_xml [] c @ escape (utf8 (opt_text (et_tail c)))) cs) @
        ''</'' @ qualified_name (Et t a x l cs) @ ''>''
      else [])"

definition ns_decl :: "string \<Rightarrow> string" where
  "ns_decl ns = '' xmlns=\"'' @ ns @ ''\" xmlns:metinf=\"syncml:metinf\"''"

text \<open>A decoder state advanced over output, elements and a code page; the limits that leave room.\<close>

definition advanced :: "decoder \<Rightarrow> nat \<Rightarrow> nat \<Rightarrow> string \<Rightarrow> decoder" where
  "advanced st page n out = st\<lparr>wd_page := page, wd_elements := wd_elements st + n, wd_out := wd_out st @ out\<rparr>"

definition room :: "decoder \<Rightarrow> nat \<Rightarrow> nat \<Rightarrow> string \<Rightarrow> bool" where
  "room st d n out \<longleftrightarrow> length (wd_stack st) + d \<le> MAX_DEPTH \<and> wd_elements st + n \<le> MAX_ELEMENTS \<and>
     length (wd_out st) + length out \<le> MAX_XML_BYTES"

definition inside :: "decoder \<Rightarrow> bool" where
  "inside st \<longleftrightarrow> wd_elements st \<noteq> 0 \<and> wd_stack st \<noteq> []"

lemma out_write_room: "length out + length data \<le> limit \<Longrightarrow> out_write limit out data = Inr (out @ data)"
  by (simp add: out_write_def)

lemma enc_write_Inr: "enc_write data s = Inr s' \<longleftrightarrow> s' = (fst s, snd s @ data) \<and> \<not> MAX_ENCODE_BYTES - length (snd s) < length data"
  by (auto simp: enc_write_def out_write_def bind_err_Inr)

lemma decode_loop_step:
  "\<lbrakk>decode_token table ns st ps = Inr (st', rest); wd_elements st = 0 \<or> wd_stack st \<noteq> []\<rbrakk> \<Longrightarrow>
    decode_loop table ns st ps = decode_loop table ns st' rest"
  using decode_token_shorter [of table ns st ps] by (subst decode_loop.simps) auto

lemma decode_page:
  "p < 2 \<Longrightarrow> wd_elements st = 0 \<or> wd_stack st \<noteq> [] \<Longrightarrow>
    decode_loop table ns st (byte 0 # byte p # rest) = decode_loop table ns (st\<lparr>wd_page := p\<rparr>) rest"
  by (rule decode_loop_step) (simp_all add: decode_token_def code_of_char_of)

lemma decode_end:
  assumes "wd_stack st = q # qs" "length (wd_out st) + length (''</'' @ q @ ''>'') \<le> MAX_XML_BYTES"
  shows "decode_loop table ns st (byte 1 # rest) =
    decode_loop table ns (st\<lparr>wd_stack := qs, wd_out := wd_out st @ ''</'' @ q @ ''>''\<rparr>) rest"
  using assms out_write_room [OF assms(2)]
  by (intro decode_loop_step) (simp_all add: decode_token_def code_of_char_of)

text \<open>Tokens and names determine each other.\<close>

lemma tag_pages:
  "distinct (map fst (tag_page p))" "\<forall>(k, v) \<in> set (tag_page p). 5 \<le> k \<and> k < 64"
  by (simp_all add: tag_page_def SYNCML_TAGS_def METINF_TAGS_def)

lemma tag_token:
  assumes "dict_get (tag_tokens p) name = Some token"
  shows "dict_get (tag_page p) token = Some name" "5 \<le> token" "token < 64"
proof -
  have "(token, name) \<in> set (tag_page p)"
    using assms by (auto simp: dict_get_def tag_tokens_def dest!: map_of_SomeD)
  with tag_pages [of p] show "dict_get (tag_page p) token = Some name" "5 \<le> token" "token < 64"
    by (auto simp: dict_get_def)
qed

lemma decode_name:
  assumes "dict_get (tag_tokens (wd_page st)) name = Some token" "room st 1 1 (''<'' @ q @ decl @ (if content then ''>'' else ''/>''))"
    and "q = (if wd_page st = 0 then name else ''metinf:'' @ name)"
    and "decl = (if wd_elements st = 0 then ns_decl ns else [])"
    and "if wd_elements st = 0 then wd_page st = 0 \<and> name = ''SyncML'' else wd_stack st \<noteq> []"
  shows "decode_loop table ns st (byte (if content then token + 64 else token) # rest) =
    decode_loop table ns (st\<lparr>wd_elements := wd_elements st + 1,
      wd_out := wd_out st @ ''<'' @ q @ decl @ (if content then ''>'' else ''/>''),
      wd_stack := (if content then q # wd_stack st else wd_stack st)\<rparr>) rest"
proof -
  let ?token = "if content then token + 64 else token"
  note token = tag_token [OF assms(1)]
  have "(token + 64) div 64 = 1" "token div 64 = 0" using token(3) by simp_all
  then have t: "?token < 256" "?token mod 64 = token" "odd (?token div 64) = content" "?token < 128" "5 \<le> ?token"
    "?token \<notin> {0x84, 0xC4, 0x03, 0x83, 0xC3}"
    using token(2,3) by auto
  have w: "out_write MAX_XML_BYTES (wd_out st) (''<'' @ q @ decl @ (if content then ''>'' else ''/>''))
      = Inr (wd_out st @ ''<'' @ q @ decl @ (if content then ''>'' else ''/>''))"
    using assms(2) by (intro out_write_room) (simp add: room_def)
  have "decode_tag ns ?token st = Inr (st\<lparr>wd_elements := wd_elements st + 1,
      wd_out := wd_out st @ ''<'' @ q @ decl @ (if content then ''>'' else ''/>''),
      wd_stack := (if content then q # wd_stack st else wd_stack st)\<rparr>)"
    unfolding decode_tag_def t(2,3)
    using t token assms(2,5) w by (auto simp: room_def Let_def ns_decl_def assms(3,4) split: if_splits)
  with t(1,5,6) show ?thesis using assms(5)
    by (intro decode_loop_step) (auto simp: decode_token_def code_of_char_of split: if_splits)
qed

text \<open>The table holds every shared text at its offset.\<close>

definition table_ok :: "(string, nat) dict \<Rightarrow> string \<Rightarrow> bool" where
  "table_ok offsets table \<longleftrightarrow> (\<forall>text off. dict_get offsets text = Some off \<longrightarrow>
     (\<exists>r. off < length table \<and> drop off table = utf8 text @ NUL # r))"

lemma takeWhile_NUL: "NUL \<notin> set s \<Longrightarrow> takeWhile (\<lambda>c. c \<noteq> NUL) (s @ NUL # r) = s"
  by (induction s) auto

lemma dropWhile_NUL: "NUL \<notin> set s \<Longrightarrow> dropWhile (\<lambda>c. c \<noteq> NUL) (s @ NUL # r) = NUL # r"
  by (induction s) auto

lemma table_string_text:
  "table_ok offsets table \<Longrightarrow> dict_get offsets text = Some off \<Longrightarrow> xml_string text \<Longrightarrow>
    table_string table off = Inr (utf8 text)"
  unfolding table_ok_def table_string_def Let_def by (fastforce simp: takeWhile_NUL NUL_utf8)

lemma decode_raw:
  assumes "decode_text table token ps = Inr (utf8 text, rest)" "token \<in> {0x03, 0x83, 0xC3}" "xml_string text"
    "wd_stack st \<noteq> []" "length (wd_out st) + length (escape (utf8 text)) \<le> MAX_XML_BYTES"
  shows "decode_loop table ns st (byte token # ps) =
    decode_loop table ns (st\<lparr>wd_out := wd_out st @ escape (utf8 text)\<rparr>) rest"
proof (rule decode_loop_step)
  have "token < 256" "token \<notin> {0, 1}" using assms(2) by auto
  with assms show "decode_token table ns st (byte token # ps) = Inr (st\<lparr>wd_out := wd_out st @ escape (utf8 text)\<rparr>, rest)"
    by (auto simp: decode_token_def code_of_char_of check_utf8_text out_write_room)
qed (use assms in simp)

lemma text_content_decodes:
  assumes "text_content opt t (p, out) = Inr (p', out')" "table_ok (we_offsets opt) table" "xml_string (opt_text t)"
  shows "p' = p \<and> (\<exists>bs. out' = out @ bs \<and> (\<forall>st rest. wd_stack st \<noteq> [] \<longrightarrow>
    length (wd_out st) + length (escape (utf8 (opt_text t))) \<le> MAX_XML_BYTES \<longrightarrow>
    decode_loop table ns st (bs @ rest) =
      decode_loop table ns (st\<lparr>wd_out := wd_out st @ escape (utf8 (opt_text t))\<rparr>) rest))"
proof (cases "opt_text t = []")
  case True
  with assms(1) show ?thesis
    by (cases t) (auto simp: text_content_def opt_text_def escape_def intro!: exI [of _ "[]"])
next
  case False
  then obtain s where t: "t = Some s" "s \<noteq> []" by (cases t) (auto simp: opt_text_def)
  have s: "xml_string s" "opt_text t = s" using assms(3) t by (simp_all add: opt_text_def)
  consider n where "mb_uint32 (length (utf8 s)) = Inr n" "p' = p" "out' = out @ byte 0xC3 # n @ utf8 s"
    | off n where "dict_get (we_offsets opt) s = Some off" "mb_uint32 off = Inr n" "p' = p" "out' = out @ byte 0x83 # n"
    | "p' = p" "out' = out @ byte 0x03 # utf8 s @ [NUL]"
    using assms(1) t by (auto simp: text_content_def bind_err_Inr enc_write_Inr split: if_splits option.splits)
  then show ?thesis
  proof cases
    case 1
    have "decode_text table 0xC3 ((n @ utf8 s) @ rest) = Inr (utf8 s, rest)" for rest
      using take_mb_uint32 [OF 1(1), of "utf8 s @ rest"] by (simp add: decode_text_def take_bytes_def)
    with 1 s show ?thesis by (intro conjI exI [of _ "byte 0xC3 # n @ utf8 s"]) (auto intro!: decode_raw)
  next
    case 2
    have "decode_text table 0x83 (n @ rest) = Inr (utf8 s, rest)" for rest
      using take_mb_uint32 [OF 2(2), of rest] table_string_text [OF assms(2) 2(1) s(1)] by (simp add: decode_text_def)
    with 2 s show ?thesis by (intro conjI exI [of _ "byte 0x83 # n"]) (auto intro!: decode_raw)
  next
    case 3
    have "decode_text table 0x03 ((utf8 s @ [NUL]) @ rest) = Inr (utf8 s, rest)" for rest
      using NUL_utf8 [OF s(1)] by (simp add: decode_text_def take_inline_def takeWhile_NUL dropWhile_NUL)
    with 3 s show ?thesis by (intro conjI exI [of _ "byte 0x03 # utf8 s @ [NUL]"]) (auto intro!: decode_raw)
  qed
qed

lemma open_element_decodes:
  assumes "open_element opt e (p, out) = Inr (p', out')" "p < 2"
  shows "p' < 2 \<and> (\<exists>bs. out' = out @ bs \<and> (\<forall>st rest. wd_page st = p \<longrightarrow>
    room st 1 1 (open_text (if wd_elements st = 0 then ns_decl ns else []) e) \<longrightarrow>
    (if wd_elements st = 0 then p' = 0 \<and> qualified_name e = ''SyncML'' else wd_stack st \<noteq> []) \<longrightarrow>
    decode_loop table ns st (bs @ rest) =
      decode_loop table ns ((advanced st p' 1 (open_text (if wd_elements st = 0 then ns_decl ns else []) e))
        \<lparr>wd_stack := (if has_content e then qualified_name e # wd_stack st else wd_stack st)\<rparr>) rest))"
proof -
  obtain tns name where tag: "split_tag (et_tag e) = (tns, name)" by fastforce
  let ?page = "if tns = ''syncml:metinf'' then 1 else 0 :: nat"
  obtain token where token: "dict_get (tag_tokens ?page) name = Some token"
    using assms(1) by (auto simp: open_element_def tag Let_def split: if_splits option.splits)
  have q: "qualified_name e = (if ?page = 0 then name else ''metinf:'' @ name)"
    by (simp add: qualified_name_def tag)
  let ?bs = "(if ?page \<noteq> p then [byte 0, byte ?page] else []) @ [byte (if has_content e then token + 64 else token)]"
  have res: "p' = ?page \<and> out' = out @ ?bs"
    using assms(1) token
    by (auto simp: open_element_def tag Let_def bind_err_Inr enc_write_Inr split: if_splits)
  have name: "decode_loop table ns st (byte (if has_content e then token + 64 else token) # rest) =
      decode_loop table ns ((advanced st ?page 1 (open_text (if wd_elements st = 0 then ns_decl ns else []) e))
        \<lparr>wd_stack := (if has_content e then qualified_name e # wd_stack st else wd_stack st)\<rparr>) rest"
    if "wd_page st = ?page" "room st 1 1 (open_text (if wd_elements st = 0 then ns_decl ns else []) e)"
      "if wd_elements st = 0 then ?page = 0 \<and> qualified_name e = ''SyncML'' else wd_stack st \<noteq> []" for st rest
  proof -
    have "decode_loop table ns st (byte (if has_content e then token + 64 else token) # rest) =
      decode_loop table ns (st\<lparr>wd_elements := wd_elements st + 1,
        wd_out := wd_out st @ ''<'' @ qualified_name e @ (if wd_elements st = 0 then ns_decl ns else []) @ (if has_content e then ''>'' else ''/>''),
        wd_stack := (if has_content e then qualified_name e # wd_stack st else wd_stack st)\<rparr>) rest"
      using that token q by (intro decode_name) (auto simp: open_text_def split: if_splits)
    with that(1) show ?thesis by (cases st) (simp add: advanced_def open_text_def)
  qed
  have "decode_loop table ns st (?bs @ rest) =
      decode_loop table ns ((advanced st ?page 1 (open_text (if wd_elements st = 0 then ns_decl ns else []) e))
        \<lparr>wd_stack := (if has_content e then qualified_name e # wd_stack st else wd_stack st)\<rparr>) rest"
    if st: "wd_page st = p" "room st 1 1 (open_text (if wd_elements st = 0 then ns_decl ns else []) e)"
      "if wd_elements st = 0 then ?page = 0 \<and> qualified_name e = ''SyncML'' else wd_stack st \<noteq> []" for st rest
  proof (cases "?page = p")
    case True
    with name [of st rest] st show ?thesis by simp
  next
    case False
    have "decode_loop table ns st (?bs @ rest) =
      decode_loop table ns (st\<lparr>wd_page := ?page\<rparr>) (byte (if has_content e then token + 64 else token) # rest)"
      using False st(3) decode_page [of ?page st] by (auto split: if_splits)
    with name [of "st\<lparr>wd_page := ?page\<rparr>" rest] st show ?thesis by (simp add: room_def advanced_def)
  qed
  with res show ?thesis by (auto intro!: exI [of _ ?bs])
qed

text \<open>Bytes that decode, from within an element, to output, elements and a code page. Such bytes
  compose.\<close>

definition decodes :: "string \<Rightarrow> string \<Rightarrow> nat \<Rightarrow> nat \<Rightarrow> nat \<Rightarrow> nat \<Rightarrow> string \<Rightarrow> string \<Rightarrow> bool" where
  "decodes table ns p p' d n out bs \<longleftrightarrow> p' < 2 \<and>
     (\<forall>st rest. wd_page st = p \<longrightarrow> inside st \<longrightarrow> room st d n out \<longrightarrow>
       decode_loop table ns st (bs @ rest) = decode_loop table ns (advanced st p' n out) rest)"

lemma decodes_Nil: "p < 2 \<Longrightarrow> decodes table ns p p 0 0 [] []"
  unfolding decodes_def
proof (intro conjI allI impI)
  show "wd_page st = p \<Longrightarrow> decode_loop table ns st ([] @ rest) = decode_loop table ns (advanced st p 0 []) rest" for st rest
    by (cases st) (simp add: advanced_def)
qed

lemma decodes_append:
  assumes "decodes table ns p p1 d1 n1 o1 b1" "decodes table ns p1 p2 d2 n2 o2 b2"
  shows "decodes table ns p p2 (max d1 d2) (n1 + n2) (o1 @ o2) (b1 @ b2)"
  unfolding decodes_def
proof (intro conjI allI impI)
  show "p2 < 2" using assms(2) by (simp add: decodes_def)
  fix st rest
  assume st: "wd_page st = p" "inside st" "room st (max d1 d2) (n1 + n2) (o1 @ o2)"
  then have r: "room st d1 n1 o1" "wd_page (advanced st p1 n1 o1) = p1" "inside (advanced st p1 n1 o1)"
    "room (advanced st p1 n1 o1) d2 n2 o2"
    by (auto simp: room_def inside_def advanced_def)
  have "decode_loop table ns st (b1 @ b2 @ rest) = decode_loop table ns (advanced st p1 n1 o1) (b2 @ rest)"
    using assms(1) st(1,2) r(1) by (simp add: decodes_def)
  also have "\<dots> = decode_loop table ns (advanced (advanced st p1 n1 o1) p2 n2 o2) rest"
    using assms(2) r(2-) by (simp add: decodes_def)
  also have "advanced (advanced st p1 n1 o1) p2 n2 o2 = advanced st p2 (n1 + n2) (o1 @ o2)"
    by (simp add: advanced_def)
  finally show "decode_loop table ns st ((b1 @ b2) @ rest) = decode_loop table ns (advanced st p2 (n1 + n2) (o1 @ o2)) rest"
    by simp
qed

lemma text_decodes:
  assumes "text_content opt t (p, out) = Inr (p', out')" "table_ok (we_offsets opt) table" "xml_string (opt_text t)" "p < 2"
  shows "\<exists>bs. out' = out @ bs \<and> decodes table ns p p' 0 0 (escape (utf8 (opt_text t))) bs"
  using text_content_decodes [OF assms(1-3), of ns] assms(4)
  by (auto simp: decodes_def advanced_def inside_def room_def)

text \<open>An element decodes in every state it may stand in: within another element, or as the root.\<close>

definition may_open :: "decoder \<Rightarrow> et \<Rightarrow> bool" where
  "may_open st e \<longleftrightarrow> (if wd_elements st = 0
     then fst (split_tag (et_tag e)) \<noteq> ''syncml:metinf'' \<and> qualified_name e = ''SyncML'' else wd_stack st \<noteq> [])"

definition element_decodes :: "string \<Rightarrow> string \<Rightarrow> nat \<Rightarrow> nat \<Rightarrow> et \<Rightarrow> string \<Rightarrow> bool" where
  "element_decodes table ns p p' e bs \<longleftrightarrow> p' < 2 \<and> (\<forall>st rest. wd_page st = p \<longrightarrow> may_open st e \<longrightarrow>
     room st (et_depth e) (et_size e) (et_xml (if wd_elements st = 0 then ns_decl ns else []) e) \<longrightarrow>
     decode_loop table ns st (bs @ rest) =
       decode_loop table ns (advanced st p' (et_size e) (et_xml (if wd_elements st = 0 then ns_decl ns else []) e)) rest)"

lemma element_decodes_inside:
  "element_decodes table ns p p' e bs \<Longrightarrow> decodes table ns p p' (et_depth e) (et_size e) (et_xml [] e) bs"
  by (simp add: element_decodes_def decodes_def may_open_def inside_def)

lemma open_element_page:
  "open_element opt e (p, out) = Inr (p', out') \<Longrightarrow> p' = (if fst (split_tag (et_tag e)) = ''syncml:metinf'' then 1 else 0)"
  by (auto simp: open_element_def Let_def bind_err_Inr enc_write_Inr split: if_splits prod.splits option.splits)

abbreviation children_xml :: "et list \<Rightarrow> string" where
  "children_xml cs \<equiv> concat (map (\<lambda>c. et_xml [] c @ escape (utf8 (opt_text (et_tail c)))) cs)"

lemma element_decodes_intro:
  assumes "open_element opt (Et t a x l cs) (p, out) = Inr (p1, out1)" "p < 2"
    and "has_content (Et t a x l cs) \<Longrightarrow> \<exists>bs. out' = out1 @ bs @ [byte 1] \<and>
      decodes table ns p1 p' (foldr max (map et_depth cs) 0) (sum_list (map et_size cs))
        (escape (utf8 (opt_text x)) @ children_xml cs) bs"
    and "\<not> has_content (Et t a x l cs) \<Longrightarrow> p' = p1 \<and> out' = out1"
  shows "\<exists>bs. out' = out @ bs \<and> element_decodes table ns p p' (Et t a x l cs) bs"
proof -
  let ?e = "Et t a x l cs"
  let ?D = "\<lambda>st. if wd_elements st = 0 then ns_decl ns else []"
  from open_element_decodes [OF assms(1,2), of ns table] obtain b1 where b1: "out1 = out @ b1" "p1 < 2"
    and opens: "\<And>st rest. wd_page st = p \<Longrightarrow> room st 1 1 (open_text (?D st) ?e) \<Longrightarrow>
      (if wd_elements st = 0 then p1 = 0 \<and> qualified_name ?e = ''SyncML'' else wd_stack st \<noteq> []) \<Longrightarrow>
      decode_loop table ns st (b1 @ rest) = decode_loop table ns ((advanced st p1 1 (open_text (?D st) ?e))
        \<lparr>wd_stack := (if has_content ?e then qualified_name ?e # wd_stack st else wd_stack st)\<rparr>) rest"
    by blast
  have may: "if wd_elements st = 0 then p1 = 0 \<and> qualified_name ?e = ''SyncML'' else wd_stack st \<noteq> []"
    if "may_open st ?e" for st
    using that open_element_page [OF assms(1)] by (simp add: may_open_def split: if_splits)
  show ?thesis
  proof (cases "has_content ?e")
    case False
    then have cs: "cs = []" by (simp add: has_content_def)
    have "element_decodes table ns p p' ?e b1"
      unfolding element_decodes_def
    proof (intro conjI allI impI)
      show "p' < 2" using assms(4) [OF False] b1 by simp
      fix st rest
      assume st: "wd_page st = p" "may_open st ?e" "room st (et_depth ?e) (et_size ?e) (et_xml (?D st) ?e)"
      have "room st 1 1 (open_text (?D st) ?e)" using st(3) False by (simp add: room_def cs split: if_splits)
      from opens [OF st(1) this may [OF st(2)]] False assms(4) [OF False]
      show "decode_loop table ns st (b1 @ rest) =
          decode_loop table ns (advanced st p' (et_size ?e) (et_xml (?D st) ?e)) rest"
        by (cases st) (simp add: cs advanced_def)
    qed
    with assms(4) [OF False] b1 show ?thesis by blast
  next
    case True
    from assms(3) [OF True] obtain b2 where b2: "out' = out1 @ b2 @ [byte 1]"
      and inner: "decodes table ns p1 p' (foldr max (map et_depth cs) 0) (sum_list (map et_size cs))
        (escape (utf8 (opt_text x)) @ children_xml cs) b2" by blast
    have "element_decodes table ns p p' ?e (b1 @ b2 @ [byte 1])"
      unfolding element_decodes_def
    proof (intro conjI allI impI)
      show "p' < 2" using inner by (simp add: decodes_def)
      fix st rest
      assume st: "wd_page st = p" "may_open st ?e" "room st (et_depth ?e) (et_size ?e) (et_xml (?D st) ?e)"
      let ?q = "qualified_name ?e" and ?body = "escape (utf8 (opt_text x)) @ children_xml cs"
      let ?s1 = "(advanced st p1 1 (open_text (?D st) ?e))\<lparr>wd_stack := ?q # wd_stack st\<rparr>"
      let ?s2 = "advanced ?s1 p' (sum_list (map et_size cs)) ?body"
      have xml: "et_xml (?D st) ?e = open_text (?D st) ?e @ ?body @ ''</'' @ ?q @ ''>''" using True by simp
      have r: "length (wd_stack st) + Suc (foldr max (map et_depth cs) 0) \<le> MAX_DEPTH"
        "wd_elements st + Suc (sum_list (map et_size cs)) \<le> MAX_ELEMENTS"
        "length (wd_out st) + (length (open_text (?D st) ?e) + length ?body + length (''</'' @ ?q @ ''>'')) \<le> MAX_XML_BYTES"
        using st(3) unfolding room_def xml by simp_all
      have "decode_loop table ns st (b1 @ b2 @ byte 1 # rest) = decode_loop table ns ?s1 (b2 @ byte 1 # rest)"
        using opens [OF st(1) _ may [OF st(2)], of "b2 @ byte 1 # rest"] True r by (simp add: room_def)
      also have "\<dots> = decode_loop table ns ?s2 (byte 1 # rest)"
        using inner r by (auto simp: decodes_def inside_def room_def advanced_def)
      also have "\<dots> = decode_loop table ns (?s2\<lparr>wd_stack := wd_stack st, wd_out := wd_out ?s2 @ ''</'' @ ?q @ ''>''\<rparr>) rest"
        using r by (intro decode_end) (simp_all add: advanced_def)
      also have "?s2\<lparr>wd_stack := wd_stack st, wd_out := wd_out ?s2 @ ''</'' @ ?q @ ''>''\<rparr> =
          advanced st p' (et_size ?e) (et_xml (?D st) ?e)"
        unfolding xml by (cases st) (simp add: advanced_def)
      finally show "decode_loop table ns st ((b1 @ b2 @ [byte 1]) @ rest) =
          decode_loop table ns (advanced st p' (et_size ?e) (et_xml (?D st) ?e)) rest" by simp
    qed
    with b1 b2 show ?thesis by auto
  qed
qed

lemma some_text_xml: "list_all xml_string (some_text t) \<Longrightarrow> xml_string (opt_text t)"
  by (cases t) (auto simp: some_text_def opt_text_def xml_string_def split: if_splits)

lemma et_texts_tail: "list_all xml_string (et_texts c) \<Longrightarrow> xml_string (opt_text (et_tail c))"
  by (cases c) (simp add: some_text_xml)

lemma content_decodes:
  "table_ok (we_offsets opt) table \<Longrightarrow> element_content opt e s = Inr (p', out') \<Longrightarrow> fst s < 2 \<Longrightarrow> list_all xml_string (et_texts e) \<Longrightarrow>
      \<exists>bs. out' = snd s @ bs \<and> element_decodes table ns (fst s) p' e bs"
  "table_ok (we_offsets opt) table \<Longrightarrow> children_content opt cs s = Inr (p', out') \<Longrightarrow> fst s < 2 \<Longrightarrow> list_all xml_string (concat (map et_texts cs)) \<Longrightarrow>
      \<exists>bs. out' = snd s @ bs \<and> decodes table ns (fst s) p' (foldr max (map et_depth cs) 0)
        (sum_list (map et_size cs)) (children_xml cs) bs"
proof (induction opt e s and opt cs s arbitrary: p' out' and p' out' rule: element_content_children_content.induct)
  case (1 opt t a x l cs s)
  let ?e = "Et t a x l cs"
  obtain p out where s: "s = (p, out)" by (cases s)
  from 1(3) obtain s1 where "open_element opt ?e s = Inr s1" by (auto simp: bind_err_Inr)
  then obtain p1 o1 where opens: "open_element opt ?e (p, out) = Inr (p1, o1)" by (cases s1) (simp add: s)
  have p: "p < 2" using 1(4) by (simp add: s)
  have p1: "p1 < 2" using open_element_page [OF opens] by simp
  have x: "xml_string (opt_text x)" using 1(5) by (auto intro: some_text_xml)
  show ?case unfolding s fst_conv snd_conv
  proof (rule element_decodes_intro [OF opens p])
    assume c: "has_content ?e"
    from 1(3) c opens s obtain p2 o2 p3 o3 where tx: "text_content opt x (p1, o1) = Inr (p2, o2)"
      and kids: "children_content opt cs (p2, o2) = Inr (p3, o3)" and fin: "p' = p3" "out' = o3 @ [byte 1]"
      by (auto simp: bind_err_Inr enc_write_Inr)
    from text_decodes [OF tx 1(2) x p1] obtain b1 where b1: "o2 = o1 @ b1"
      "decodes table ns p1 p2 0 0 (escape (utf8 (opt_text x))) b1" by blast
    then have "p2 < 2" by (simp add: decodes_def)
    from 1(1) [OF opens [folded s] c tx 1(2) kids] this 1(5) obtain b2 where b2: "o3 = o2 @ b2"
      "decodes table ns p2 p3 (foldr max (map et_depth cs) 0) (sum_list (map et_size cs)) (children_xml cs) b2" by auto
    from decodes_append [OF b1(2) b2(2)] b1(1) b2(1) fin
    show "\<exists>bs. out' = o1 @ bs @ [byte 1] \<and> decodes table ns p1 p' (foldr max (map et_depth cs) 0)
        (sum_list (map et_size cs)) (escape (utf8 (opt_text x)) @ children_xml cs) bs"
      by (intro exI [of _ "b1 @ b2"]) simp
  next
    assume "\<not> has_content ?e"
    with 1(3) opens s show "p' = p1 \<and> out' = o1" by simp
  qed
next
  case (2 opt s)
  then show ?case by (simp add: decodes_Nil)
next
  case (3 opt c cs s)
  from 3(4) obtain p1 o1 p2 o2 where c: "element_content opt c s = Inr (p1, o1)"
    and tl: "text_content opt (et_tail c) (p1, o1) = Inr (p2, o2)" and cs: "children_content opt cs (p2, o2) = Inr (p', out')"
    by (auto simp: bind_err_Inr)
  from 3(1) [OF 3(3) c] 3(5,6) obtain b1 where b1: "o1 = snd s @ b1" "element_decodes table ns (fst s) p1 c b1" by auto
  have p1: "p1 < 2" using b1(2) by (simp add: element_decodes_def)
  have "xml_string (opt_text (et_tail c))" using 3(6) by (auto intro: et_texts_tail)
  from text_decodes [OF tl 3(3) this p1] obtain b2 where b2: "o2 = o1 @ b2"
    "decodes table ns p1 p2 0 0 (escape (utf8 (opt_text (et_tail c)))) b2" by blast
  then have "p2 < 2" by (simp add: decodes_def)
  with 3(2) [OF c tl 3(3) cs] 3(6) obtain b3 where b3: "out' = o2 @ b3"
    "decodes table ns p2 p' (foldr max (map et_depth cs) 0) (sum_list (map et_size cs)) (children_xml cs) b3" by auto
  from decodes_append [OF decodes_append [OF element_decodes_inside [OF b1(2)] b2(2)] b3(2)] b1(1) b2(1) b3(1)
  show ?case by (intro exI [of _ "b1 @ b2 @ b3"]) simp
qed

lemma table_ok_add: "table_ok (fst t) (snd t) \<Longrightarrow> table_ok (fst (table_add text t)) (snd (table_add text t))"
  by (cases t) (fastforce simp: table_ok_def table_add_def)

lemma build_table_ok: "table_ok (fst (build_table pid share texts)) (snd (build_table pid share texts))"
proof -
  have empty: "table_ok [] []" by (simp add: table_ok_def)
  have share: "table_ok (fst (fold (share_text texts) xs t)) (snd (fold (share_text texts) xs t))"
    if "table_ok (fst t) (snd t)" for xs t
    using that by (induction xs arbitrary: t) (auto simp: share_text_def table_ok_add)
  show ?thesis
    using empty table_ok_add [of "([], [])"] by (auto simp: build_table_def Let_def intro!: share split: public_id.split)
qed

text \<open>The public name, when it is given as a string, is the first entry of the table.\<close>

lemma build_table_name: "\<exists>r. snd (build_table (PublicName n) share texts) = utf8 n @ NUL # r"
proof -
  have step: "\<exists>r. snd (share_text texts x t) = snd t @ r" for x t
    by (cases t) (simp add: share_text_def table_add_def)
  have "\<exists>r. snd (fold (share_text texts) xs t) = snd t @ r" for xs t
  proof (induction xs arbitrary: t)
    case (Cons x xs)
    then show ?case using step [of x t] by (metis append_assoc fold_simps(2))
  qed simp
  from this [of "rev (remdups (rev texts))" "table_add n ([], [])"] show ?thesis
    by (auto simp: build_table_def table_add_def Let_def)
qed

lemma public_names:
  assumes "dict_get PUBLIC_IDS (find_public (\<lambda>(key, n, s). n = p) 0) = Some (n, ns)"
  shows "utf8 p = p \<and> NUL \<notin> set p \<and> check_utf8 p = Inr p"
proof -
  have "p = ''-//SYNCML//DTD SyncML 1.1//EN'' \<or> p = ''-//SYNCML//DTD SyncML 1.2//EN''"
    using assms by (auto simp: find_public_def PUBLIC_IDS_def dict_get_def split: if_splits)
  then show ?thesis
    by (elim disjE) (simp_all add: utf8_def code_of_def check_utf8_def xml_point_def)
qed

lemma public_numbers: "dict_get PUBLIC_IDS n = Some x \<Longrightarrow> n \<noteq> 0 \<and> snd x \<noteq> ''syncml:metinf'' \<and> n \<le> MAX_UINT32"
  by (auto simp: PUBLIC_IDS_def dict_get_def MAX_UINT32_def split: if_splits)

lemma root_qualified:
  "split_tag (et_tag root) = (ns, ''SyncML'') \<Longrightarrow> ns \<noteq> ''syncml:metinf'' \<Longrightarrow>
    fst (split_tag (et_tag (strip_layout root))) \<noteq> ''syncml:metinf'' \<and> qualified_name (strip_layout root) = ''SyncML''"
  by (cases root) (simp add: qualified_name_def)

lemma strip_layout_size: "et_size (strip_layout e) = et_size e" "et_depth (strip_layout e) = et_depth e"
  by (induction e) (simp_all add: o_def cong: map_cong)

lemma decode_body_element:
  assumes "element_decodes table ns 0 p' e bs" "dict_get PUBLIC_IDS k = Some (n, ns)"
    "fst (split_tag (et_tag e)) \<noteq> ''syncml:metinf''" "qualified_name e = ''SyncML''"
    "et_depth e \<le> MAX_DEPTH" "et_size e \<le> MAX_ELEMENTS" "length (et_xml (ns_decl ns) e) \<le> MAX_XML_BYTES"
  shows "decode_body table k bs = Inr (et_xml (ns_decl ns) e)"
proof -
  let ?st = "\<lparr>wd_page = 0, wd_stack = [], wd_elements = 0, wd_out = []\<rparr>"
  have size: "0 < et_size e" by (cases e) simp
  have "decode_loop table ns ?st (bs @ []) = decode_loop table ns (advanced ?st p' (et_size e) (et_xml (ns_decl ns) e)) []"
    using assms(1) [unfolded element_decodes_def, THEN conjunct2, THEN spec [of _ ?st], THEN spec [of _ "[]"]] assms(3-)
    by (simp add: may_open_def room_def)
  then have "decode_loop table ns ?st bs = Inr (advanced ?st p' (et_size e) (et_xml (ns_decl ns) e))"
    by (simp add: decode_loop.simps)
  with size assms(2) show ?thesis by (simp add: decode_body_def advanced_def)
qed

text \<open>What an encoded message consists of: the version, the public identifier, the character set, the
  table and the elements.\<close>

lemma out_writeD: "out_write limit out data = Inr out' \<Longrightarrow> out' = out @ data"
  by (simp add: out_write_def split: if_splits)

lemma encode_tree_parts:
  assumes "encode_tree version pid ns opaque t tree = Inr bs"
  shows "\<exists>p c z page. public_bytes pid = Inr p \<and> mb_uint32 106 = Inr c \<and> mb_uint32 (length (snd t)) = Inr z \<and>
      element_content \<lparr>we_opaque = opaque, we_offsets = fst t, we_ns = ns\<rparr> tree (0, byte version # p @ c @ z @ snd t)
        = Inr (page, bs)"
  using assms unfolding encode_tree_def bind_err_Inr
proof (elim exE conjE)
  fix o1 p o2 c z o3 s
  assume w: "out_write MAX_ENCODE_BYTES [] [byte version] = Inr o1" "out_write MAX_ENCODE_BYTES o1 p = Inr o2"
      "out_write MAX_ENCODE_BYTES o2 (c @ z @ snd t) = Inr o3"
    and parts: "public_bytes pid = Inr p" "mb_uint32 106 = Inr c" "mb_uint32 (length (snd t)) = Inr z"
    and el: "element_content \<lparr>we_opaque = opaque, we_offsets = fst t, we_ns = ns\<rparr> tree (0, o3) = Inr s"
    and bs: "Inr (snd s) = Inr bs"
  have "o3 = byte version # p @ c @ z @ snd t"
    using out_writeD [OF w(1)] out_writeD [OF w(2)] out_writeD [OF w(3)] by simp
  moreover obtain page where "s = (page, bs)" using bs by (cases s) auto
  ultimately show ?thesis using parts el by blast
qed

lemma resolve_public_cases:
  "(\<exists>n. resolve_public public ns = PublicNumber n) \<or> (\<exists>p. resolve_public public ns = PublicName p)"
  by (cases public) (simp_all add: resolve_public_def)

lemma take_integer_NUL: "take_integer (NUL # x) = Inr (0, x)"
  using take_mb_uint32 [of 0 "[NUL]" x] by (simp add: mb_uint32_def char_of_def)

text \<open>The decoder finds the public identifier again, and with it the namespace.\<close>

lemma decode_header:
  assumes "public_bytes pid = Inr p" "mb_uint32 106 = Inr c" "mb_uint32 (length table) = Inr z"
    "dict_get PUBLIC_IDS (numeric_id pid) = Some (name, ns)" "version \<in> {2, 3}"
    "length (byte version # p @ c @ z @ table @ body) \<le> MAX_INPUT_BYTES"
    "\<And>n. pid = PublicName n \<Longrightarrow> \<exists>r. table = utf8 n @ NUL # r" "pid \<noteq> NoPublicId"
  shows "wbxml_decode (byte version # p @ c @ z @ table @ body) = decode_body table (numeric_id pid) body"
proof -
  have head: "take_integer (c @ z @ table @ body) = Inr (106, z @ table @ body)"
    "take_integer (z @ table @ body) = Inr (length table, table @ body)"
    "take_bytes (length table) (table @ body) = Inr (table, body)"
    using take_mb_uint32 [OF assms(2)] take_mb_uint32 [OF assms(3)] by (simp_all add: take_bytes_def)
  have v: "code_of (byte version) = version" using assms(5) by (auto simp: code_of_char_of)
  show ?thesis
  proof (cases pid)
    case (PublicNumber k)
    then have "take_integer (p @ c @ z @ table @ body) = Inr (k, c @ z @ table @ body)"
      using assms(1) by (intro take_mb_uint32) (simp add: public_bytes_def)
    with PublicNumber public_numbers [OF assms(4)] head assms(5,6) v show ?thesis
      by (auto simp: wbxml_decode_def numeric_id_def)
  next
    case (PublicName n)
    from assms(7) [OF this] obtain r where r: "table = utf8 n @ NUL # r" by blast
    have nm: "utf8 n = n" "NUL \<notin> set n" "check_utf8 n = Inr n"
      using public_names [of n] assms(4) PublicName by (auto simp: numeric_id_def)
    have "table_string table 0 = Inr n" unfolding r nm(1) using nm(2) by (simp add: table_string_def takeWhile_NUL)
    with PublicName head nm(3) assms(1,5,6) v show ?thesis
      by (auto simp: wbxml_decode_def numeric_id_def public_bytes_def take_integer_NUL)
  qed (use assms(8) in simp)
qed

text \<open>
  C12. WBXML round trip. Whatever options a tree was encoded with (any supported public identifier, as
  a number or a name, shared strings, opaque data), decoding the bytes yields the XML text of that tree: the
  same elements with the same names in the right namespace, the same texts escaped, and only the indentation
  between elements gone. The tree has to be within the decoder's limits, its texts XML characters.
\<close>

theorem wbxml_round_trip:
  assumes "wbxml_encode expat payload version public share opaque = Inr bs" "expat payload = Some (doctype, root)"
    and "list_all xml_string (et_texts (strip_layout root))" "length bs \<le> MAX_INPUT_BYTES"
    and "et_depth root \<le> MAX_DEPTH" "et_size root \<le> MAX_ELEMENTS"
    and "\<forall>ns \<in> {''SYNCML:SYNCML1.1'', ''SYNCML:SYNCML1.2''}. length (et_xml (ns_decl ns) (strip_layout root)) \<le> MAX_XML_BYTES"
  shows "\<exists>ns \<in> {''SYNCML:SYNCML1.1'', ''SYNCML:SYNCML1.2''}.
    wbxml_decode bs = Inr (et_xml (ns_decl ns) (strip_layout root))"
proof -
  let ?tree = "strip_layout root"
  let ?ns = "fst (split_tag (et_tag root))"
  let ?pid = "resolve_public public ?ns"
  let ?t = "build_table ?pid (share \<and> \<not> opaque) (et_texts ?tree)"
  have version: "version \<in> {2, 3}" and enc: "encode_root version public share opaque root = Inr bs"
    using assms(1,2) by (auto simp: wbxml_encode_def check_tree_def bind_err_Inr split: if_splits)
  from enc obtain name ns where k: "dict_get PUBLIC_IDS (numeric_id ?pid) = Some (name, ns)"
    and root: "snd (split_tag (et_tag root)) = ''SyncML''" "?ns = [] \<or> ?ns = ns"
    and tree: "encode_tree version ?pid ns opaque ?t ?tree = Inr bs"
    by (auto simp: encode_root_def Let_def split: if_splits option.splits)
  from encode_tree_parts [OF tree] obtain p c z page where
    parts: "public_bytes ?pid = Inr p" "mb_uint32 106 = Inr c" "mb_uint32 (length (snd ?t)) = Inr z"
    and el: "element_content \<lparr>we_opaque = opaque, we_offsets = fst ?t, we_ns = ns\<rparr> ?tree
      (0, byte version # p @ c @ z @ snd ?t) = Inr (page, bs)" by blast
  have "table_ok (we_offsets \<lparr>we_opaque = opaque, we_offsets = fst ?t, we_ns = ns\<rparr>) (snd ?t)"
    using build_table_ok by simp
  from content_decodes(1) [OF this el, of ns] assms(3) obtain body where
    bs: "bs = byte version # p @ c @ z @ snd ?t @ body" and el: "element_decodes (snd ?t) ns 0 page ?tree body" by auto
  have nsm: "ns \<in> {''SYNCML:SYNCML1.1'', ''SYNCML:SYNCML1.2''}" "ns \<noteq> ''syncml:metinf''"
    using k by (auto simp: PUBLIC_IDS_def dict_get_def split: if_splits)
  have "wbxml_decode bs = decode_body (snd ?t) (numeric_id ?pid) body"
    unfolding bs using k version assms(4) [unfolded bs] build_table_name resolve_public_cases [of public ?ns]
    by (intro decode_header [OF parts]) auto
  moreover have "decode_body (snd ?t) (numeric_id ?pid) body = Inr (et_xml (ns_decl ns) ?tree)"
    using root_qualified [of root ?ns] prod.collapse [of "split_tag (et_tag root)"] root nsm assms(5-)
    by (intro decode_body_element [OF el k]) (auto simp: strip_layout_size)
  ultimately show ?thesis using nsm(1) by auto
qed

definition demo_tree_et :: et where
  "demo_tree_et = Et ''{SYNCML:SYNCML1.2}SyncML'' [] None None
     [Et ''{SYNCML:SYNCML1.2}Data'' [] (Some ''a<b'') None [], Et ''{SYNCML:SYNCML1.2}Final'' [] None None []]"

definition demo_wbxml :: string where
  "demo_wbxml = map byte [3, 0xA4, 1, 106, 0, 0x6D, 0x4F, 3, 97, 60, 98, 0, 1, 0x12, 1]"

lemma demo_encodes: "wbxml_encode (\<lambda>x. Some (False, demo_tree_et)) [] 3 NoPublicId False False = Inr demo_wbxml"
  by (simp add: wbxml_encode_def check_tree_def demo_tree_et_def encode_root_def split_tag_def py_rpartition_def
      remove_prefix_def py_startswith_def resolve_public_def numeric_id_def find_public_def PUBLIC_IDS_def dict_get_def
      encode_tree_def public_bytes_def mb_uint32_def MAX_UINT32_def mb_prefix.simps out_write_def blank_def py_isspace_def
      build_table_def open_element_def has_content_def some_text_def tag_tokens_def tag_page_def SYNCML_TAGS_def enc_write_def
      text_content_def utf8_def code_of_def MAX_ENCODE_XML_BYTES_def MAX_ENCODE_DEPTH_def MAX_ENCODE_ELEMENTS_def
      MAX_ELEMENTS_def MAX_ENCODE_BYTES_def demo_wbxml_def char_of_def py_isspace_char_def bit_0)

theorem wbxml_round_trip_witness:
  "wbxml_encode (\<lambda>x. Some (False, demo_tree_et)) [] 3 NoPublicId False False = Inr demo_wbxml \<and>
   (\<exists>ns \<in> {''SYNCML:SYNCML1.1'', ''SYNCML:SYNCML1.2''}.
     wbxml_decode demo_wbxml = Inr (et_xml (ns_decl ns) (strip_layout demo_tree_et)))"
proof -
  have "et_xml (ns_decl ns) (strip_layout demo_tree_et) =
      ''<SyncML'' @ ns_decl ns @ ''><Data>a&lt;b</Data><Final/></SyncML>''" for ns
    by (simp add: demo_tree_et_def blank_def open_text_def has_content_def some_text_def qualified_name_def split_tag_def
        py_rpartition_def remove_prefix_def py_startswith_def opt_text_def escape_def escape_char_def utf8_def code_of_def
        py_isspace_def py_isspace_char_def)
  then have len: "\<forall>ns \<in> {''SYNCML:SYNCML1.1'', ''SYNCML:SYNCML1.2''}.
      length (et_xml (ns_decl ns) (strip_layout demo_tree_et)) \<le> MAX_XML_BYTES"
    by (simp add: ns_decl_def MAX_XML_BYTES_def)
  have texts: "list_all xml_string (et_texts (strip_layout demo_tree_et))"
    by (simp add: demo_tree_et_def blank_def some_text_def xml_string_def xml_point_def code_of_def py_isspace_def
        py_isspace_char_def)
  from wbxml_round_trip [OF demo_encodes refl texts _ _ _ len] demo_encodes show ?thesis
    by (simp add: demo_tree_et_def demo_wbxml_def MAX_INPUT_BYTES_def MAX_DEPTH_def MAX_ELEMENTS_def)
qed

section \<open>What the decoder writes is well formed\<close>

text \<open>Elements with balanced tags from the two code pages, whose text is escaped.\<close>

definition tag_name :: "string \<Rightarrow> bool" where
  "tag_name q \<longleftrightarrow> q \<in> set (map snd SYNCML_TAGS) \<or> (\<exists>n \<in> set (map snd METINF_TAGS). q = ''metinf:'' @ n)"

inductive xml_element :: "string \<Rightarrow> string \<Rightarrow> bool" and xml_content :: "string \<Rightarrow> bool" where
  element_empty: "tag_name q \<Longrightarrow> xml_element d (''<'' @ q @ d @ ''/>'')"
| element_full: "tag_name q \<Longrightarrow> xml_content c \<Longrightarrow> xml_element d (''<'' @ q @ d @ ''>'' @ c @ ''</'' @ q @ ''>'')"
| content_Nil: "xml_content []"
| content_text: "xml_content c \<Longrightarrow> check_utf8 t = Inr t \<Longrightarrow> xml_content (c @ escape t)"
| content_element: "xml_content c \<Longrightarrow> xml_element [] e \<Longrightarrow> xml_content (c @ e)"

text \<open>Output in which the elements of the stack are still open, innermost first.\<close>

inductive xml_open :: "string \<Rightarrow> string list \<Rightarrow> string \<Rightarrow> bool" for d where
  open_root: "tag_name q \<Longrightarrow> xml_content c \<Longrightarrow> xml_open d [q] (''<'' @ q @ d @ ''>'' @ c)"
| open_nested: "xml_open d qs out \<Longrightarrow> tag_name q \<Longrightarrow> xml_content c \<Longrightarrow> xml_open d (q # qs) (out @ ''<'' @ q @ ''>'' @ c)"

lemma xml_open_text: "xml_open d qs out \<Longrightarrow> check_utf8 t = Inr t \<Longrightarrow> xml_open d qs (out @ escape t)"
proof (induction rule: xml_open.cases)
  case (open_root q c)
  with xml_open.open_root [OF _ content_text, of q c t d] show ?case by simp
next
  case (open_nested qs out q c)
  with xml_open.open_nested [OF _ _ content_text, of d qs out q c t] show ?case by simp
qed

lemma xml_open_element: "xml_open d qs out \<Longrightarrow> xml_element [] e \<Longrightarrow> xml_open d qs (out @ e)"
proof (induction rule: xml_open.cases)
  case (open_root q c)
  with xml_open.open_root [OF _ content_element, of q c e d] show ?case by simp
next
  case (open_nested qs out q c)
  with xml_open.open_nested [OF _ _ content_element, of d qs out q c e] show ?case by simp
qed

lemma xml_open_end:
  assumes "xml_open d (q # qs) out"
  shows "if qs = [] then xml_element d (out @ ''</'' @ q @ ''>'') else xml_open d qs (out @ ''</'' @ q @ ''>'')"
  using assms
proof (cases rule: xml_open.cases)
  case (open_root c)
  then show ?thesis using element_full [of q c d] by simp
next
  case (open_nested out' c)
  then have "xml_element [] (''<'' @ q @ [] @ ''>'' @ c @ ''</'' @ q @ ''>'')" by (intro element_full)
  from xml_open_element [OF open_nested(2) this] open_nested show ?thesis by (auto elim: xml_open.cases)
qed

text \<open>The decoder's invariant.\<close>

definition decoder_ok :: "string \<Rightarrow> decoder \<Rightarrow> bool" where
  "decoder_ok ns st \<longleftrightarrow> length (wd_out st) \<le> MAX_XML_BYTES \<and>
     (if wd_elements st = 0 then wd_stack st = [] \<and> wd_out st = []
      else if wd_stack st = [] then xml_element (ns_decl ns) (wd_out st)
      else xml_open (ns_decl ns) (wd_stack st) (wd_out st))"

lemma out_write_bound: "out_write limit out data = Inr out' \<Longrightarrow> length out \<le> limit \<Longrightarrow> length out' \<le> limit"
  by (auto simp: out_write_def split: if_splits)

lemma tag_page_name:
  "dict_get (tag_page p) k = Some name \<Longrightarrow> tag_name (if p = 0 then name else ''metinf:'' @ name)"
  by (force simp: dict_get_def tag_page_def tag_name_def dest!: map_of_SomeD)

lemma check_utf8_same: "check_utf8 raw = Inr t \<Longrightarrow> t = raw"
  by (auto simp: check_utf8_def split: option.splits if_splits)

lemma decode_tag_ok:
  assumes "decode_tag ns token st = Inr st'" "decoder_ok ns st" "wd_elements st = 0 \<or> wd_stack st \<noteq> []"
  shows "decoder_ok ns st'"
proof -
  obtain name where name: "dict_get (tag_page (wd_page st)) (token mod 64) = Some name"
    using assms(1) by (auto simp: decode_tag_def split: if_splits option.splits)
  let ?q = "if wd_page st = 0 then name else ''metinf:'' @ name"
  let ?d = "if wd_elements st = 0 then ns_decl ns else []"
  have q: "tag_name ?q" by (rule tag_page_name [OF name])
  have st': "st' = st\<lparr>wd_elements := wd_elements st + 1, wd_out := wd_out st',
      wd_stack := (if odd (token div 64) then ?q # wd_stack st else wd_stack st)\<rparr>"
    and out: "out_write MAX_XML_BYTES (wd_out st) (''<'' @ ?q @ ?d @ (if odd (token div 64) then ''>'' else ''/>'')) = Inr (wd_out st')"
    using assms(1) name unfolding decode_tag_def Let_def
    by (auto simp: bind_err_Inr ns_decl_def split: if_splits)
  note w = out_writeD [OF out]
  have l: "length (wd_out st') \<le> MAX_XML_BYTES"
    using out_write_bound [OF out] assms(2) by (simp add: decoder_ok_def)
  have el: "wd_elements st' \<noteq> 0" and stk: "wd_stack st' = (if odd (token div 64) then ?q # wd_stack st else wd_stack st)"
    by (subst st', simp)+
  show ?thesis
  proof (cases "wd_elements st = 0")
    case True
    with assms(2) have "wd_out st = []" "wd_stack st = []" by (auto simp: decoder_ok_def)
    with True q w l el stk open_root [OF q content_Nil, of "ns_decl ns"] element_empty [OF q, of "ns_decl ns"]
    show ?thesis by (simp add: decoder_ok_def)
  next
    case False
    then have "xml_open (ns_decl ns) (wd_stack st) (wd_out st)" using assms(2,3) by (auto simp: decoder_ok_def split: if_splits)
    with open_nested [OF this q content_Nil] xml_open_element [OF this element_empty [OF q, of "[]"]] False w l el stk assms(3)
    show ?thesis by (auto simp: decoder_ok_def)
  qed
qed

lemma decode_token_ok:
  assumes "decode_token table ns st ps = Inr (st', rest)" "decoder_ok ns st" "wd_elements st = 0 \<or> wd_stack st \<noteq> []"
  shows "decoder_ok ns st'"
proof -
  obtain token rest1 where token: "take_byte ps = Inr (token, rest1)"
    using assms(1) by (auto simp: decode_token_def bind_err_Inr)
  consider (page) p where "st' = st\<lparr>wd_page := p\<rparr>"
    | (ends) q qs out where "wd_stack st = q # qs" "st' = st\<lparr>wd_stack := qs, wd_out := out\<rparr>"
        "out_write MAX_XML_BYTES (wd_out st) (''</'' @ q @ ''>'') = Inr out"
    | (texts) raw t out where "wd_stack st \<noteq> []" "check_utf8 raw = Inr t" "st' = st\<lparr>wd_out := out\<rparr>"
        "out_write MAX_XML_BYTES (wd_out st) (escape t) = Inr out"
    | (tag) token where "decode_tag ns token st = Inr st'"
    using assms(1) token
    by (cases "token = 0"; cases "token = 1"; cases "token \<in> {3, 131, 195}")
      (auto simp: decode_token_def bind_err_Inr split: list.splits if_splits)
  then show ?thesis
  proof cases
    case page
    with assms(2) show ?thesis by (simp add: decoder_ok_def)
  next
    case ends
    then have st: "wd_elements st \<noteq> 0" "xml_open (ns_decl ns) (q # qs) (wd_out st)" "length (wd_out st) \<le> MAX_XML_BYTES"
      using assms(2) by (simp_all add: decoder_ok_def split: if_splits)
    from xml_open_end [OF st(2)] out_write_bound [OF ends(3) st(3)] st(1) show ?thesis
      by (simp add: decoder_ok_def ends(2) out_writeD [OF ends(3)] split: if_splits)
  next
    case texts
    then have t: "check_utf8 t = Inr t" using check_utf8_same by blast
    from texts(1) have st: "wd_elements st \<noteq> 0" "xml_open (ns_decl ns) (wd_stack st) (wd_out st)" "length (wd_out st) \<le> MAX_XML_BYTES"
      using assms(2) by (simp_all add: decoder_ok_def split: if_splits)
    from xml_open_text [OF st(2) t] out_write_bound [OF texts(4) st(3)] st(1) texts(1) show ?thesis
      by (simp add: decoder_ok_def texts(3) out_writeD [OF texts(4)])
  next
    case tag
    show ?thesis by (rule decode_tag_ok [OF tag assms(2,3)])
  qed
qed

lemma decode_loop_ok: "decode_loop table ns st ps = Inr st' \<Longrightarrow> decoder_ok ns st \<Longrightarrow> decoder_ok ns st'"
proof (induction table ns st ps rule: decode_loop.induct)
  case (1 table ns st ps)
  show ?case
  proof (cases "ps = []")
    case False
    with 1(2) obtain s rest where s: "decode_token table ns st ps = Inr (s, rest)" "wd_elements st = 0 \<or> wd_stack st \<noteq> []"
      and l: "decode_loop table ns s rest = Inr st'"
      by (auto simp: decode_loop.simps [of table ns st] bind_err_Inr split: if_splits)
    have "\<not> (wd_elements st \<noteq> 0 \<and> wd_stack st = [])" using s(2) by auto
    from 1(1) [OF False this s(1) refl l decode_token_ok [OF s(1) 1(3) s(2)]] show ?thesis .
  qed (use 1 in \<open>simp add: decode_loop.simps [of table ns st]\<close>)
qed

text \<open>
  Whatever a device sends, if the decoder accepts it, what reaches the XML parser is one
  well-formed element of at most two megabytes: balanced tags, all of them from the SyncML and MetInf
  tables, the namespaces declared on the root, and text that is valid UTF-8 of XML characters with every
  mark-up character escaped. No payload can smuggle in an attribute, an entity or an unknown tag.
\<close>

theorem decoded_xml_well_formed:
  assumes "wbxml_decode payload = Inr out"
  shows "(\<exists>ns \<in> {''SYNCML:SYNCML1.1'', ''SYNCML:SYNCML1.2''}. xml_element (ns_decl ns) out) \<and>
    length out \<le> 2 * 1024 * 1024 \<and> length payload \<le> 512 * 1024"
proof -
  have "length payload \<le> MAX_INPUT_BYTES" using assms by (auto simp: wbxml_decode_def split: if_splits)
  moreover obtain table k ps where "decode_body table k ps = Inr out"
    using assms by (auto simp: wbxml_decode_def bind_err_Inr split: if_splits option.splits)
  then obtain n ns st where k: "dict_get PUBLIC_IDS k = Some (n, ns)"
    and st: "decode_loop table ns \<lparr>wd_page = 0, wd_stack = [], wd_elements = 0, wd_out = []\<rparr> ps = Inr st"
      "wd_stack st = []" "wd_elements st \<noteq> 0" "out = wd_out st"
    by (auto simp: decode_body_def bind_err_Inr split: if_splits option.splits)
  have "decoder_ok ns st" using decode_loop_ok [OF st(1)] by (simp add: decoder_ok_def)
  with st(2-) have "xml_element (ns_decl ns) out" "length out \<le> MAX_XML_BYTES" by (simp_all add: decoder_ok_def)
  moreover have "ns \<in> {''SYNCML:SYNCML1.1'', ''SYNCML:SYNCML1.2''}"
    using k by (auto simp: PUBLIC_IDS_def dict_get_def split: if_splits)
  ultimately show ?thesis by (auto simp: MAX_XML_BYTES_def MAX_INPUT_BYTES_def)
qed

lemma MAX_MB_UINT32_BYTES_Suc: "MAX_MB_UINT32_BYTES = Suc (Suc (Suc (Suc (Suc 0))))"
  by (simp add: MAX_MB_UINT32_BYTES_def)

lemma demo_decodes: "wbxml_decode (map byte [3, 0xA4, 1, 106, 0, 0x2D]) = Inr (''<SyncML'' @ ns_decl ''SYNCML:SYNCML1.2'' @ ''/>'')"
proof -
  have "dict_get PUBLIC_IDS 4609 = Some (''-//SYNCML//DTD SyncML 1.2//EN'', ''SYNCML:SYNCML1.2'')"
    by (simp add: PUBLIC_IDS_def dict_get_def)
  moreover have "dict_get (tag_page 0) 45 = Some ''SyncML''" by (simp add: tag_page_def SYNCML_TAGS_def dict_get_def)
  ultimately show ?thesis
    by (simp add: wbxml_decode_def MAX_INPUT_BYTES_def take_integer_def MAX_MB_UINT32_BYTES_Suc MAX_UINT32_def code_of_char_of
        take_bytes_def decode_body_def decode_loop.simps decode_token_def decode_tag_def MAX_DEPTH_def MAX_ELEMENTS_def
        out_write_def MAX_XML_BYTES_def ns_decl_def)
qed

theorem decoded_xml_well_formed_witness:
  "\<exists>out. wbxml_decode (map byte [3, 0xA4, 1, 106, 0, 0x2D]) = Inr out \<and>
    (\<exists>ns \<in> {''SYNCML:SYNCML1.1'', ''SYNCML:SYNCML1.2''}. xml_element (ns_decl ns) out)"
  using decoded_xml_well_formed [OF demo_decodes] demo_decodes by blast

end
