(* ===== verification/Smpp.thy ===== *)
theory Smpp
  imports Sms "HOL-Library.Word"
begin

text \<open>
  The SMPP 3.4 sender, \<^verbatim>\<open>src/src/acs/sms/smpp.py\<close>: protocol data units at their 32-bit widths, the
  user data of a short message, the session with its read loop, and the sender.

  The network is part of the session: \<open>ss_in\<close> lists what the calls to \<open>recv\<close> deliver, with the
  time at which each call completes (an empty string is a closed connection, and when the list ends the SMSC stays
  silent), \<open>ss_send\<close> the outcomes of the calls to \<open>sendall\<close> (all succeed when the list ends), and
  \<open>ss_out\<close> what has been sent. A \<open>recv\<close> that asks for less than has arrived leaves the rest. Opening the
  connection (TCP and TLS), the start time of each request and the keyed digest are fields of \<open>SmppEnv\<close>.
  Logging is left out. Characters are those of the strings here, up to U+00FF, so UTF-16 is two octets each.
\<close>

unbundle bit_operations_syntax

section \<open>Constants\<close>

definition GENERIC_NACK :: "32 word" where "GENERIC_NACK = 0x80000000"
definition SUBMIT_SM :: "32 word" where "SUBMIT_SM = 0x00000004"
definition DELIVER_SM :: "32 word" where "DELIVER_SM = 0x00000005"
definition DELIVER_SM_RESP :: "32 word" where "DELIVER_SM_RESP = 0x80000005"
definition UNBIND :: "32 word" where "UNBIND = 0x00000006"
definition UNBIND_RESP :: "32 word" where "UNBIND_RESP = 0x80000006"
definition BIND_TRANSCEIVER :: "32 word" where "BIND_TRANSCEIVER = 0x00000009"
definition ENQUIRE_LINK :: "32 word" where "ENQUIRE_LINK = 0x00000015"
definition ENQUIRE_LINK_RESP :: "32 word" where "ENQUIRE_LINK_RESP = 0x80000015"
definition RESPONSE_BIT :: "32 word" where "RESPONSE_BIT = 0x80000000"

definition ESME_ROK :: "32 word" where "ESME_ROK = 0"
definition ESME_RINVCMDLEN :: "32 word" where "ESME_RINVCMDLEN = 2"
definition ESME_RINVCMDID :: "32 word" where "ESME_RINVCMDID = 3"
definition ESME_RX_T_APPN :: "32 word" where "ESME_RX_T_APPN = 0x64"

lemmas smpp_constants = GENERIC_NACK_def SUBMIT_SM_def DELIVER_SM_def DELIVER_SM_RESP_def UNBIND_def UNBIND_RESP_def
  BIND_TRANSCEIVER_def ENQUIRE_LINK_def ENQUIRE_LINK_RESP_def RESPONSE_BIT_def ESME_ROK_def ESME_RINVCMDLEN_def
  ESME_RINVCMDID_def ESME_RX_T_APPN_def

definition STATUS_NAMES :: "(32 word, string) dict" where
  "STATUS_NAMES = [(0x00, ''ESME_ROK''), (0x01, ''ESME_RINVMSGLEN''), (0x02, ''ESME_RINVCMDLEN''),
     (0x03, ''ESME_RINVCMDID''), (0x04, ''ESME_RINVBNDSTS''), (0x05, ''ESME_RALYBND''), (0x08, ''ESME_RSYSERR''),
     (0x0A, ''ESME_RINVSRCADR''), (0x0B, ''ESME_RINVDSTADR''), (0x0D, ''ESME_RBINDFAIL''), (0x0E, ''ESME_RINVPASWD''),
     (0x0F, ''ESME_RINVSYSID''), (0x14, ''ESME_RMSGQFUL''), (0x45, ''ESME_RSUBMITFAIL''), (0x58, ''ESME_RTHROTTLED''),
     (0x64, ''ESME_RX_T_APPN''), (0x65, ''ESME_RX_P_APPN''), (0x66, ''ESME_RX_R_APPN''),
     (0xFE, ''ESME_RDELIVERYFAILURE''), (0xFF, ''ESME_RUNKNOWNERR'')]"

text \<open>\<open>{status:08X}\<close>\<close>

definition hex8 :: "32 word \<Rightarrow> string" where
  "hex8 w = map (\<lambda>i. ''0123456789ABCDEF'' ! (unat w div 16 ^ i mod 16)) [7, 6, 5, 4, 3, 2, 1, 0]"

definition describe_status :: "32 word \<Rightarrow> string" where
  "describe_status status = (case dict_get STATUS_NAMES status of
     Some name \<Rightarrow> name @ '' (0x'' @ hex8 status @ '')''
   | None \<Rightarrow> if 0x400 \<le> status \<and> status \<le> 0x4FF then ''an SMSC vendor-specific status'' else ''an unlisted status'')"

section \<open>Protocol data units\<close>

record Pdu =
  pdu_command_id :: "32 word"
  pdu_command_status :: "32 word"
  pdu_sequence_number :: "32 word"
  pdu_body :: string

text \<open>\<open>struct.Struct(">IIII")\<close>: four big-endian 32-bit integers.\<close>

definition be32 :: "32 word \<Rightarrow> string" where
  "be32 w = map (\<lambda>i. char_of (unat w div 256 ^ i mod 256)) [3, 2, 1, 0]"

definition of_be32 :: "string \<Rightarrow> 32 word" where
  "of_be32 bs = of_nat (foldl (\<lambda>n c. 256 * n + code_of c) 0 bs)"

definition encode_pdu :: "Pdu \<Rightarrow> string" where
  "encode_pdu p = be32 (of_nat (16 + length (pdu_body p))) @ be32 (pdu_command_id p) @ be32 (pdu_command_status p) @
     be32 (pdu_sequence_number p) @ pdu_body p"

section \<open>Fields and user data\<close>

text \<open>\<open>c_octet\<close>; the error is the text of its \<open>ValueError\<close>.\<close>

definition c_octet :: "string \<Rightarrow> nat \<Rightarrow> string \<Rightarrow> string + string" where
  "c_octet v max_length field =
     (if \<not> list_all is_ascii v then Inl (''SMPP '' @ field @ '' must be ASCII'')
      else if CHR 0x00 \<in> set v \<or> length v + 1 > max_length
      then Inl (''SMPP '' @ field @ '' must be at most '' @ str_of_nat (max_length - 1) @ '' characters'')
      else Inr (v @ [CHR 0x00]))"

definition MAX_USER_DATA_OCTETS :: nat where "MAX_USER_DATA_OCTETS = 140"
definition MAX_GSM7_CHARACTERS :: nat where "MAX_GSM7_CHARACTERS = 160"
definition MAX_PDU :: nat where "MAX_PDU = 65536"
definition MAX_ADDR :: nat where "MAX_ADDR = 21"

definition GSM7_ASCII_SAFE :: string where
  "GSM7_ASCII_SAFE = '' !'' @ [CHR 0x22] @ ''#%&'' @ [CHR 0x27] @
     ''()*+,-./0123456789:;<=>?ABCDEFGHIJKLMNOPQRSTUVWXYZabcdefghijklmnopqrstuvwxyz''"

definition build_udh :: "int \<Rightarrow> int \<Rightarrow> string + string" where
  "build_udh destination_port source_port =
     (if \<not> (0 \<le> destination_port \<and> destination_port \<le> 0xFFFF) \<or> \<not> (0 \<le> source_port \<and> source_port \<le> 0xFFFF)
      then Inl ''ports must fit in 16 bits''
      else (let body = map (\<lambda>n. char_of (nat n)) [0x05, 0x04, destination_port div 256 mod 256, destination_port mod 256,
              source_port div 256 mod 256, source_port mod 256]
            in Inr (char_of (length body) # body)))"

datatype smpp_exc = SmppError string | TimeoutExpired | OsError string | ArgumentError string

definition utf16_be :: "string \<Rightarrow> string" where
  "utf16_be s = concat (map (\<lambda>c. [CHR 0x00, c]) s)"

definition too_long :: "string \<Rightarrow> nat \<Rightarrow> string \<Rightarrow> nat \<Rightarrow> smpp_exc" where
  "too_long what n unit_name limit = SmppError (what @ '' message is '' @ str_of_nat n @ unit_name @ ''; one SMS carries '' @
     str_of_nat limit @ '' and concatenation is not supported'')"

text \<open>The two text codings: one octet per character when every GSM code equals the ASCII code, else UCS-2.\<close>

definition encode_text :: "string \<Rightarrow> smpp_exc + nat \<times> nat \<times> string" where
  "encode_text body =
     (if \<forall>c \<in> set body. c \<in> set GSM7_ASCII_SAFE
      then (if MAX_GSM7_CHARACTERS < length body
            then Inl (too_long ''text'' (length body) '' characters'' MAX_GSM7_CHARACTERS)
            else Inr (0x00, 0x00, body))
      else if MAX_USER_DATA_OCTETS < length (utf16_be body)
      then Inl (too_long ''UCS-2'' (length (utf16_be body)) '' octets'' MAX_USER_DATA_OCTETS)
      else Inr (0x00, 0x08, utf16_be body))"

definition encode_short_message :: "SmsRequest \<Rightarrow> int \<Rightarrow> smpp_exc + nat \<times> nat \<times> string" where
  "encode_short_message r source_port =
     (if requires_binary r
      then (case build_udh (the (sr_sms_port r)) source_port of
         Inl e \<Rightarrow> Inl (SmppError e)
       | Inr udh \<Rightarrow>
           (let user_data = udh @ utf8 (sr_body r)
            in if MAX_USER_DATA_OCTETS < length user_data
               then Inl (too_long ''port-addressed'' (length user_data) '' octets'' MAX_USER_DATA_OCTETS)
               else Inr (0x40, 0x04, user_data)))
      else encode_text (sr_body r))"

section \<open>The session\<close>

type_synonym recv_events = "(int \<times> (smpp_exc + string)) list"

record smpp_session =
  ss_sequence :: int
  ss_in :: recv_events
  ss_send :: "smpp_exc option list"
  ss_out :: "string list"

definition new_smpp_session :: "recv_events \<Rightarrow> smpp_exc option list \<Rightarrow> smpp_session" where
  "new_smpp_session events outcomes = \<lparr>ss_sequence = 0, ss_in = events, ss_send = outcomes, ss_out = []\<rparr>"

type_synonym 'a smpp = "smpp_session \<Rightarrow> (smpp_exc + 'a) \<times> smpp_session"

definition next_sequence :: "smpp_session \<Rightarrow> int \<times> smpp_session" where
  "next_sequence s = (let n = ss_sequence s mod 0x7FFFFFFF + 1 in (n, s\<lparr>ss_sequence := n\<rparr>))"

definition smpp_write :: "Pdu \<Rightarrow> unit smpp" where
  "smpp_write p s = (case ss_send s of
     [] \<Rightarrow> (Inr (), s\<lparr>ss_out := ss_out s @ [encode_pdu p]\<rparr>)
   | None # outcomes \<Rightarrow> (Inr (), s\<lparr>ss_send := outcomes, ss_out := ss_out s @ [encode_pdu p]\<rparr>)
   | Some e # outcomes \<Rightarrow> (Inl e, s\<lparr>ss_send := outcomes\<rparr>))"

fun read_exact :: "nat \<Rightarrow> int \<Rightarrow> string \<Rightarrow> recv_events \<Rightarrow> (smpp_exc + string) \<times> recv_events" where
  "read_exact n_octets deadline chunks [] = (if n_octets \<le> length chunks then Inr chunks else Inl TimeoutExpired, [])"
| "read_exact n_octets deadline chunks ((t, r) # events) =
     (if n_octets \<le> length chunks then (Inr chunks, (t, r) # events)
      else if deadline \<le> t then (Inl TimeoutExpired, (t, r) # events)
      else (case r of
        Inl e \<Rightarrow> (Inl e, events)
      | Inr chunk \<Rightarrow>
          if chunk = [] then (Inl (SmppError ''SMSC closed the connection''), (t, r) # events)
          else if length chunk \<le> n_octets - length chunks then read_exact n_octets deadline (chunks @ chunk) events
          else (Inr (chunks @ take (n_octets - length chunks) chunk),
                (t, Inr (drop (n_octets - length chunks) chunk)) # events)))"

definition smpp_read_exact :: "nat \<Rightarrow> int \<Rightarrow> string smpp" where
  "smpp_read_exact n_octets deadline s = (case read_exact n_octets deadline [] (ss_in s) of (r, events) \<Rightarrow> (r, s\<lparr>ss_in := events\<rparr>))"

definition response :: "32 word \<Rightarrow> 32 word \<Rightarrow> 32 word \<Rightarrow> string \<Rightarrow> Pdu" where
  "response command status sequence body = \<lparr>pdu_command_id = command, pdu_command_status = status,
     pdu_sequence_number = sequence, pdu_body = body\<rparr>"

definition smpp_read :: "int \<Rightarrow> Pdu smpp" where
  "smpp_read deadline s =
     bind_step (smpp_read_exact 16 deadline s) (\<lambda>header s.
     let n_octets = unat (of_be32 (take 4 header)); command = of_be32 (take 4 (drop 4 header));
         status = of_be32 (take 4 (drop 8 header)); sequence = of_be32 (take 4 (drop 12 header))
     in if n_octets < 16 \<or> MAX_PDU < n_octets
        then bind_step (smpp_write (response GENERIC_NACK ESME_RINVCMDLEN sequence []) s)
          (\<lambda>_ s. (Inl (SmppError ''SMSC sent an invalid command_length''), s))
        else bind_step (smpp_read_exact (n_octets - 16) deadline s) (\<lambda>body s.
          (Inr (response command status sequence body), s)))"

definition smpp_answer :: "Pdu \<Rightarrow> unit smpp" where
  "smpp_answer p s =
     (if pdu_command_id p = ENQUIRE_LINK
      then smpp_write (response ENQUIRE_LINK_RESP ESME_ROK (pdu_sequence_number p) []) s
      else if pdu_command_id p = UNBIND
      then bind_step (smpp_write (response UNBIND_RESP ESME_ROK (pdu_sequence_number p) []) s)
        (\<lambda>_ s. (Inl (SmppError ''SMSC unbound the session before responding''), s))
      else if pdu_command_id p = DELIVER_SM
      then smpp_write (response DELIVER_SM_RESP ESME_RX_T_APPN (pdu_sequence_number p) [CHR 0x00]) s
      else smpp_write (response GENERIC_NACK ESME_RINVCMDID (pdu_sequence_number p) []) s)"

text \<open>The read loop ends: every unit it reads takes at least sixteen octets off what has arrived.\<close>

definition arrived :: "recv_events \<Rightarrow> nat" where
  "arrived events = sum_list (map (\<lambda>(t, r). case r of Inl _ \<Rightarrow> 0 | Inr chunk \<Rightarrow> length chunk) events)"

lemma arrived_simps [simp]:
  "arrived [] = 0" "arrived ((t, Inl e) # events) = arrived events"
  "arrived ((t, Inr chunk) # events) = length chunk + arrived events"
  by (simp_all add: arrived_def)

lemma read_exact_arrived:
  assumes "read_exact n_octets deadline chunks events = (Inr d, rest)"
  shows "length d = max n_octets (length chunks) \<and> length d + arrived rest = length chunks + arrived events"
  using assms
  by (induction n_octets deadline chunks events rule: read_exact.induct) (auto split: if_splits sum.splits)

lemma smpp_write_in: "smpp_write p s = (r, s') \<Longrightarrow> ss_in s' = ss_in s"
  by (auto simp: smpp_write_def split: list.splits option.splits)

lemma smpp_answer_in: "smpp_answer p s = (Inr u, s') \<Longrightarrow> ss_in s' = ss_in s"
  by (auto simp: smpp_answer_def bind_step_def split: if_splits prod.splits sum.splits dest: smpp_write_in)

lemma smpp_read_arrived: "smpp_read deadline s = (Inr p, s') \<Longrightarrow> arrived (ss_in s') < arrived (ss_in s)"
  by (auto simp: smpp_read_def bind_step_def smpp_read_exact_def Let_def split: if_splits prod.splits sum.splits
      dest!: read_exact_arrived)

function await_response :: "32 word \<Rightarrow> 32 word \<Rightarrow> int \<Rightarrow> Pdu smpp" where
  "await_response expected sequence deadline s =
     bind_step (smpp_read deadline s) (\<lambda>p s.
     if pdu_command_id p = GENERIC_NACK
     then (Inl (SmppError (''SMSC answered generic_nack, status '' @ describe_status (pdu_command_status p))), s)
     else if pdu_command_id p AND RESPONSE_BIT = 0
     then bind_step (smpp_answer p s) (\<lambda>_ s. await_response expected sequence deadline s)
     else if pdu_command_id p \<noteq> expected \<or> pdu_sequence_number p \<noteq> sequence
     then (Inl (SmppError ''unexpected SMPP response: command or sequence mismatch''), s)
     else (Inr p, s))"
  by pat_completeness auto
termination
  by (relation "measure (\<lambda>(expected, sequence, deadline, s). arrived (ss_in s))")
    (auto dest!: smpp_read_arrived smpp_answer_in)

declare await_response.simps [simp del]

definition smpp_request :: "(int \<Rightarrow> int) \<Rightarrow> int \<Rightarrow> 32 word \<Rightarrow> string \<Rightarrow> Pdu smpp" where
  "smpp_request start timeout command body s =
     (case next_sequence s of (sequence, s) \<Rightarrow>
      bind_step (smpp_write (response command ESME_ROK (of_int sequence) body) s) (\<lambda>_ s.
      await_response (command OR RESPONSE_BIT) (of_int sequence) (start sequence + timeout) s))"


section \<open>The sender\<close>

text \<open>\<open>SmppSmsSender\<close> after \<open>__init__\<close>; a timeout that is not finite is \<open>None\<close>, and
  \<open>sn_timeout_text\<close> is how \<open>{:g}\<close> prints it.\<close>

record SmppSmsSender =
  sn_host :: string
  sn_bind_body :: string
  sn_source_addr :: string
  sn_source_ton :: int
  sn_source_npi :: int
  sn_dest_ton :: int
  sn_dest_npi :: int
  sn_timeout :: "int option"
  sn_timeout_text :: string
  sn_has_store :: bool
  sn_reference_key :: string

definition octet_field :: "string \<Rightarrow> int \<Rightarrow> string + unit" where
  "octet_field label v = (if \<not> (0 \<le> v \<and> v \<le> 0xFF) then Inl (''SMPP '' @ label @ '' must fit in one octet'') else Inr ())"

definition new_smpp_sender :: "string \<Rightarrow> string \<Rightarrow> string \<Rightarrow> string \<Rightarrow> SmppSmsSender \<Rightarrow> string + SmppSmsSender" where
  "new_smpp_sender system_id password system_type source_addr rest =
     bind_err (c_octet system_id 16 ''system_id'') (\<lambda>system_id_field.
     bind_err (c_octet password 9 ''password'') (\<lambda>password_field.
     bind_err (c_octet system_type 13 ''system_type'') (\<lambda>system_type_field.
     bind_err (octet_field ''source_addr_ton'' (sn_source_ton rest)) (\<lambda>_.
     bind_err (octet_field ''source_addr_npi'' (sn_source_npi rest)) (\<lambda>_.
     bind_err (octet_field ''dest_addr_ton'' (sn_dest_ton rest)) (\<lambda>_.
     bind_err (octet_field ''dest_addr_npi'' (sn_dest_npi rest)) (\<lambda>_.
     bind_err (if source_addr = [] then Inr [] else c_octet source_addr MAX_ADDR ''source_addr'') (\<lambda>_.
     Inr (rest\<lparr>sn_bind_body := system_id_field @ password_field @ system_type_field @
                 [CHR 0x34, CHR 0x00, CHR 0x00, CHR 0x00],
               sn_source_addr := source_addr\<rparr>)))))))))"

definition octet :: "int \<Rightarrow> char" where
  "octet n = char_of (nat n)"

definition submit_sm_body :: "SmppSmsSender \<Rightarrow> SmsRequest \<Rightarrow> smpp_exc + string" where
  "submit_sm_body sender r =
     bind_err (encode_short_message r 0) (\<lambda>(esm_class, data_coding, short_message).
     case c_octet (str_or (sn_source_addr sender) (sr_sender_id r)) MAX_ADDR ''source_addr'' of
       Inl e \<Rightarrow> Inl (SmppError e)
     | Inr source_field \<Rightarrow>
         (case c_octet (dropWhile (\<lambda>c. c = CHR ''+'') (sr_msisdn r)) MAX_ADDR ''destination_addr'' of
            Inl e \<Rightarrow> Inl (SmppError e)
          | Inr dest_field \<Rightarrow>
              Inr ([CHR 0x00, octet (sn_source_ton sender), octet (sn_source_npi sender)] @ source_field @
                [octet (sn_dest_ton sender), octet (sn_dest_npi sender)] @ dest_field @
                [char_of esm_class, CHR 0x00, CHR 0x00, CHR 0x00, CHR 0x00, CHR 0x00, CHR 0x00,
                 char_of data_coding, CHR 0x00, char_of (length short_message)] @ short_message)))"

record SmppEnv =
  sv_connect :: "smpp_exc + recv_events \<times> smpp_exc option list"
  sv_start :: "int \<Rightarrow> int"
  sv_hmac :: "string \<Rightarrow> string \<Rightarrow> string"
  sv_now :: int

definition message_reference :: "SmppEnv \<Rightarrow> SmppSmsSender \<Rightarrow> string \<Rightarrow> string" where
  "message_reference env sender resp_body =
     ''smpp-'' @ take 16 (sv_hmac env (sn_reference_key sender) (takeWhile (\<lambda>c. c \<noteq> CHR 0x00) resp_body))"

text \<open>\<open>_unbind\<close>: whatever happens, the outcome of the submission stands.\<close>

definition smpp_unbind :: "SmppEnv \<Rightarrow> int \<Rightarrow> unit smpp" where
  "smpp_unbind env timeout s = (case smpp_request (sv_start env) timeout UNBIND [] s of (_, s') \<Rightarrow> (Inr (), s'))"

definition smpp_conversation :: "SmppEnv \<Rightarrow> SmppSmsSender \<Rightarrow> int \<Rightarrow> string \<Rightarrow> string smpp" where
  "smpp_conversation env sender timeout body s =
     bind_step (smpp_request (sv_start env) timeout BIND_TRANSCEIVER (sn_bind_body sender) s) (\<lambda>bound s.
     if pdu_command_status bound \<noteq> ESME_ROK
     then (Inl (SmppError (''SMSC refused the bind, status '' @ describe_status (pdu_command_status bound))), s)
     else bind_step (smpp_request (sv_start env) timeout SUBMIT_SM body s) (\<lambda>submitted s.
     bind_step (smpp_unbind env timeout s) (\<lambda>_ s.
     if pdu_command_status submitted \<noteq> ESME_ROK
     then (Inl (SmppError (''SMSC refused submit_sm, status '' @ describe_status (pdu_command_status submitted))), s)
     else (Inr (message_reference env sender (pdu_body submitted)), s))))"

text \<open>The exception handlers of \<open>send\<close>: everything becomes an \<open>SmppError\<close>.\<close>

definition smpp_error_text :: "SmppSmsSender \<Rightarrow> smpp_exc \<Rightarrow> string" where
  "smpp_error_text sender e = (case e of
     SmppError message \<Rightarrow> message
   | TimeoutExpired \<Rightarrow> ''SMSC did not answer within '' @ sn_timeout_text sender @ ''s''
   | OsError cls \<Rightarrow> ''SMSC connection failed: '' @ cls
   | ArgumentError cls \<Rightarrow> ''SMPP transport refused: '' @ cls)"

definition smpp_deliver :: "SmppEnv \<Rightarrow> SmppSmsSender \<Rightarrow> SmsRequest \<Rightarrow> smpp_exc + string" where
  "smpp_deliver env sender r =
     (if sn_host sender = [] then Inl (SmppError ''SMPP host is not configured'')
      else (case sn_timeout sender of
        None \<Rightarrow> Inl (SmppError ''SMPP timeout is not a positive finite number'')
      | Some timeout \<Rightarrow>
          if \<not> timeout > 0 then Inl (SmppError ''SMPP timeout is not a positive finite number'')
          else bind_err (submit_sm_body sender r) (\<lambda>body.
            case sv_connect env of
              Inl e \<Rightarrow> Inl e
            | Inr (events, outcomes) \<Rightarrow>
                fst (smpp_conversation env sender timeout body (new_smpp_session events outcomes)))))"

definition smpp_send :: "SmppEnv \<Rightarrow> SmppSmsSender \<Rightarrow> sms_sender" where
  "smpp_send env sender r s = (case smpp_deliver env sender r of
     Inl e \<Rightarrow> (Inl (SmsDeliveryFailed (smpp_error_text sender e)), s)
   | Inr reference \<Rightarrow>
       (Inr \<lparr>res_provider = ''smpp'', res_message_id = reference, res_binary = requires_binary r\<rparr>,
        if sn_has_store sender then record_sms (redacted_audit (sv_now env) ''smpp'' (requires_binary r) r reference) s
        else s))"

interpretation smpp_port: sms_port "smpp_send env sender"
  by unfold_locales (auto simp: smpp_send_def split: sum.split)

section \<open>Units on the wire\<close>

lemma base256: "256 * (256 * (256 * (n div 256 ^ 3) + n div 256 ^ 2 mod 256) + n div 256 ^ 1 mod 256) + n mod 256 = (n::nat)"
proof -
  have step: "256 * (n div 256 ^ Suc i) + n div 256 ^ i mod 256 = n div 256 ^ i" for i
    by (metis div_mult2_eq mult_div_mod_eq power_Suc2)
  show ?thesis using step [of 2] step [of 1] step [of 0]
    by (simp only: numeral_3_eq_3 numeral_2_eq_2 One_nat_def power_0) simp
qed

lemma be32_length [simp]: "length (be32 w) = 4"
  by (simp add: be32_def)

lemma of_be32_be32 [simp]: "of_be32 (be32 w) = w"
proof -
  have "unat w < 256 * 16777216" using unsigned_less [of w] by simp
  then have top: "unat w div 16777216 mod 256 = unat w div 16777216" by (simp add: less_mult_imp_div_less)
  have c: "code_of (char_of k) = k mod 256" for k by (simp add: code_of_def)
  have "foldl (\<lambda>n c. 256 * n + code_of c) 0 (be32 w) = unat w"
    using base256 [of "unat w"] top by (simp add: be32_def c)
  then show ?thesis by (simp add: of_be32_def)
qed

lemma encode_pdu_length: "length (encode_pdu p) = 16 + length (pdu_body p)"
  by (simp add: encode_pdu_def)

text \<open>What arrives in time and without a fault, and the octets it carries.\<close>

definition live :: "int \<Rightarrow> recv_events \<Rightarrow> bool" where
  "live deadline events \<longleftrightarrow> list_all (\<lambda>(t, r). t < deadline \<and> (\<exists>chunk. r = Inr chunk \<and> chunk \<noteq> [])) events"

definition flow :: "recv_events \<Rightarrow> string" where
  "flow events = concat (map (\<lambda>(t, r). case r of Inl _ \<Rightarrow> [] | Inr chunk \<Rightarrow> chunk) events)"

lemma live_simps [simp]:
  "live deadline []" "live deadline ((t, Inr chunk) # events) \<longleftrightarrow> t < deadline \<and> chunk \<noteq> [] \<and> live deadline events"
  "\<not> live deadline ((t, Inl e) # events)"
  by (simp_all add: live_def)

lemma flow_simps [simp]:
  "flow [] = []" "flow ((t, Inr chunk) # events) = chunk @ flow events" "flow ((t, Inl e) # events) = flow events"
  by (simp_all add: flow_def)

text \<open>However the octets are cut, an exact read returns the next ones.\<close>

lemma read_exact_flow:
  assumes "live deadline events" "length chunks \<le> n" "n \<le> length chunks + length (flow events)"
  shows "\<exists>rest. read_exact n deadline chunks events = (Inr (take n (chunks @ flow events)), rest) \<and>
    flow rest = drop (n - length chunks) (flow events) \<and> (\<forall>d. live d events \<longrightarrow> live d rest)"
  using assms
proof (induction n deadline chunks events rule: read_exact.induct)
  case (2 n deadline chunks t r events)
  then obtain chunk where r: "r = Inr chunk" "chunk \<noteq> []" "t < deadline" by (cases r) auto
  show ?case
  proof (cases "length chunks < n \<and> length chunk \<le> n - length chunks")
    case True
    with 2 r have "\<exists>rest. read_exact n deadline (chunks @ chunk) events = (Inr (take n ((chunks @ chunk) @ flow events)), rest) \<and>
        flow rest = drop (n - length (chunks @ chunk)) (flow events) \<and> (\<forall>d. live d events \<longrightarrow> live d rest)"
      by (intro "2.IH" [OF _ _ r(1)]) auto
    with True r show ?thesis by auto
  next
    case False
    then show ?thesis using 2 r by auto
  qed
qed simp

lemma smpp_read_exact_flow:
  assumes "live deadline (ss_in s)" "n \<le> length (flow (ss_in s))"
  shows "\<exists>rest. smpp_read_exact n deadline s = (Inr (take n (flow (ss_in s))), s\<lparr>ss_in := rest\<rparr>) \<and>
    flow rest = drop n (flow (ss_in s)) \<and> (\<forall>d. live d (ss_in s) \<longrightarrow> live d rest)"
  using read_exact_flow [OF assms(1), of "[]" n] assms(2) by (auto simp: smpp_read_exact_def)

text \<open>A unit that was encoded reads back as itself.\<close>

lemma smpp_read_flow:
  assumes "live deadline (ss_in s)" "flow (ss_in s) = encode_pdu p @ after" "16 + length (pdu_body p) \<le> MAX_PDU"
  shows "\<exists>rest. smpp_read deadline s = (Inr p, s\<lparr>ss_in := rest\<rparr>) \<and> flow rest = after \<and> (\<forall>d. live d (ss_in s) \<longrightarrow> live d rest)"
proof -
  let ?len = "be32 (of_nat (16 + length (pdu_body p)))" and ?c = "be32 (pdu_command_id p)"
  let ?st = "be32 (pdu_command_status p)" and ?sq = "be32 (pdu_sequence_number p)"
  have fl: "flow (ss_in s) = ?len @ ?c @ ?st @ ?sq @ pdu_body p @ after" using assms(2) by (simp add: encode_pdu_def)
  from smpp_read_exact_flow [OF assms(1), of 16] fl obtain r1 where
    r1: "smpp_read_exact 16 deadline s = (Inr (take 16 (flow (ss_in s))), s\<lparr>ss_in := r1\<rparr>)"
    "flow r1 = drop 16 (flow (ss_in s))" "\<forall>d. live d (ss_in s) \<longrightarrow> live d r1" by auto
  have hd: "take 16 (flow (ss_in s)) = ?len @ ?c @ ?st @ ?sq" and tl: "flow r1 = pdu_body p @ after"
    using r1(2) by (simp_all add: fl)
  from smpp_read_exact_flow [of deadline "s\<lparr>ss_in := r1\<rparr>" "length (pdu_body p)"] r1(3) assms(1) tl obtain r2 where
    r2: "smpp_read_exact (length (pdu_body p)) deadline (s\<lparr>ss_in := r1\<rparr>) = (Inr (pdu_body p), s\<lparr>ss_in := r2\<rparr>)"
    "flow r2 = after" "\<forall>d. live d r1 \<longrightarrow> live d r2" by auto
  have n: "unat (of_nat (16 + length (pdu_body p)) :: 32 word) = 16 + length (pdu_body p)"
    using assms(3) by (simp add: unat_of_nat MAX_PDU_def del: of_nat_add)
  have "smpp_read deadline s = (Inr p, s\<lparr>ss_in := r2\<rparr>)"
    unfolding smpp_read_def bind_step_def r1(1)
    using assms(3) r2(1) by (simp add: hd n Let_def response_def del: of_nat_add)
  with r1(3) r2(2,3) show ?thesis by blast
qed


section \<open>Conversations\<close>

text \<open>The answers to what an SMSC asks while a response is awaited.\<close>

definition answer_to :: "Pdu \<Rightarrow> Pdu" where
  "answer_to p =
     (if pdu_command_id p = ENQUIRE_LINK then response ENQUIRE_LINK_RESP ESME_ROK (pdu_sequence_number p) []
      else if pdu_command_id p = DELIVER_SM then response DELIVER_SM_RESP ESME_RX_T_APPN (pdu_sequence_number p) [CHR 0x00]
      else response GENERIC_NACK ESME_RINVCMDID (pdu_sequence_number p) [])"

definition answers :: "Pdu list \<Rightarrow> string list" where
  "answers asks = map (\<lambda>p. encode_pdu (answer_to p)) asks"

lemma answers_simps [simp]: "answers [] = []" "answers (p # asks) = encode_pdu (answer_to p) # answers asks"
  by (simp_all add: answers_def)

definition smsc_asks :: "Pdu \<Rightarrow> bool" where
  "smsc_asks p \<longleftrightarrow> pdu_command_id p AND RESPONSE_BIT = 0 \<and> pdu_command_id p \<noteq> UNBIND \<and> 16 + length (pdu_body p) \<le> MAX_PDU"

lemma nack_is_response: "pdu_command_id p AND RESPONSE_BIT = 0 \<Longrightarrow> pdu_command_id p \<noteq> GENERIC_NACK"
  by (auto simp: smpp_constants)

lemma smpp_answer_asked:
  "smsc_asks p \<Longrightarrow> ss_send s = [] \<Longrightarrow> smpp_answer p s = (Inr (), s\<lparr>ss_out := ss_out s @ [encode_pdu (answer_to p)]\<rparr>)"
  by (simp add: smsc_asks_def smpp_answer_def answer_to_def smpp_write_def)

lemma await_response_flow:
  assumes "live deadline (ss_in s)" "ss_send s = []"
    "flow (ss_in s) = concat (map encode_pdu asks) @ encode_pdu p @ after" "list_all smsc_asks asks"
    "pdu_command_id p = expected" "expected \<noteq> GENERIC_NACK" "expected AND RESPONSE_BIT \<noteq> 0" "pdu_sequence_number p = sequence"
    "16 + length (pdu_body p) \<le> MAX_PDU"
  shows "\<exists>rest. await_response expected sequence deadline s =
      (Inr p, s\<lparr>ss_in := rest, ss_out := ss_out s @ answers asks\<rparr>) \<and>
    flow rest = after \<and> (\<forall>d. live d (ss_in s) \<longrightarrow> live d rest)"
  using assms(1-4)
proof (induction asks arbitrary: s)
  case Nil
  from smpp_read_flow [OF Nil(1) _ assms(9)] Nil(3) obtain rest where
    r: "smpp_read deadline s = (Inr p, s\<lparr>ss_in := rest\<rparr>)" "flow rest = after" "\<forall>d. live d (ss_in s) \<longrightarrow> live d rest" by auto
  with assms(5-8) have "await_response expected sequence deadline s = (Inr p, s\<lparr>ss_in := rest\<rparr>)"
    by (simp add: await_response.simps [of _ _ _ s] bind_step_def)
  with r(2,3) show ?case by auto
next
  case (Cons a asks)
  have a: "smsc_asks a" "16 + length (pdu_body a) \<le> MAX_PDU" "pdu_command_id a AND RESPONSE_BIT = 0"
    using Cons.prems(4) by (simp_all add: smsc_asks_def)
  from smpp_read_flow [OF Cons.prems(1) _ a(2)] Cons.prems(3) obtain r1 where
    r: "smpp_read deadline s = (Inr a, s\<lparr>ss_in := r1\<rparr>)" "flow r1 = concat (map encode_pdu asks) @ encode_pdu p @ after"
    "\<forall>d. live d (ss_in s) \<longrightarrow> live d r1" by auto
  let ?s = "s\<lparr>ss_in := r1, ss_out := ss_out s @ [encode_pdu (answer_to a)]\<rparr>"
  have "\<exists>rest. await_response expected sequence deadline ?s =
      (Inr p, ?s\<lparr>ss_in := rest, ss_out := ss_out ?s @ answers asks\<rparr>) \<and>
    flow rest = after \<and> (\<forall>d. live d (ss_in ?s) \<longrightarrow> live d rest)"
    using Cons.prems r by (intro Cons.IH) auto
  moreover have "await_response expected sequence deadline s = await_response expected sequence deadline ?s"
    using r(1) a nack_is_response [OF a(3)] smpp_answer_asked [OF a(1), of "s\<lparr>ss_in := r1\<rparr>"] Cons.prems(2)
    by (simp add: await_response.simps [of _ _ _ s] bind_step_def)
  ultimately show ?case using r(3) by auto
qed

lemma smpp_request_flow:
  assumes "live (start (ss_sequence s + 1) + timeout) (ss_in s)" "ss_send s = []" "0 \<le> ss_sequence s" "ss_sequence s < 0x7FFFFFFF"
    "flow (ss_in s) = concat (map encode_pdu asks) @ encode_pdu p @ after" "list_all smsc_asks asks"
    "pdu_command_id p = (command OR RESPONSE_BIT)" "command \<in> {BIND_TRANSCEIVER, SUBMIT_SM}"
    "pdu_sequence_number p = of_int (ss_sequence s + 1)" "16 + length (pdu_body p) \<le> MAX_PDU"
  shows "\<exists>rest. smpp_request start timeout command body s =
      (Inr p, s\<lparr>ss_sequence := ss_sequence s + 1, ss_in := rest,
        ss_out := ss_out s @ encode_pdu (response command ESME_ROK (of_int (ss_sequence s + 1)) body) #
          answers asks\<rparr>) \<and>
    flow rest = after \<and> (\<forall>d. live d (ss_in s) \<longrightarrow> live d rest)"
proof -
  let ?s = "s\<lparr>ss_sequence := ss_sequence s + 1,
    ss_out := ss_out s @ [encode_pdu (response command ESME_ROK (of_int (ss_sequence s + 1)) body)]\<rparr>"
  have seq: "next_sequence s = (ss_sequence s + 1, s\<lparr>ss_sequence := ss_sequence s + 1\<rparr>)"
    using assms(3,4) by (simp add: next_sequence_def Let_def)
  have e: "command OR RESPONSE_BIT \<noteq> GENERIC_NACK" "(command OR RESPONSE_BIT) AND RESPONSE_BIT \<noteq> 0"
    using assms(8) by (auto simp: smpp_constants)
  from await_response_flow [of "start (ss_sequence s + 1) + timeout" ?s asks p after, OF _ _ _ assms(6,7) e assms(9,10)] assms
  show ?thesis by (auto simp: smpp_request_def seq smpp_write_def bind_step_def)
qed

text \<open>Nothing that was sent is taken back.\<close>

definition sent_more :: "smpp_session \<Rightarrow> smpp_session \<Rightarrow> bool" where
  "sent_more s t \<longleftrightarrow> (\<exists>tail. ss_out t = ss_out s @ tail)"

lemma sent_more_trans: "sent_more s t \<Longrightarrow> sent_more t u \<Longrightarrow> sent_more s u"
  by (auto simp: sent_more_def)

lemma sent_more_refl [simp]: "sent_more s s"
  by (simp add: sent_more_def)

lemma sent_more_in [simp]: "sent_more s (s\<lparr>ss_in := x\<rparr>)"
  by (simp add: sent_more_def)

lemma smpp_write_out: "sent_more s (snd (smpp_write p s))"
  by (auto simp: sent_more_def smpp_write_def split: list.split option.split)

lemma bind_step_out: "sent_more s (snd x) \<Longrightarrow> (\<And>a t. x = (Inr a, t) \<Longrightarrow> sent_more t (snd (f a t))) \<Longrightarrow> sent_more s (snd (bind_step x f))"
  by (auto simp: bind_step_def split: prod.split sum.split intro: sent_more_trans)

lemma smpp_read_out: "sent_more s (snd (smpp_read deadline s))"
  unfolding smpp_read_def
  by (intro bind_step_out) (auto simp: Let_def smpp_read_exact_def split: prod.split intro!: bind_step_out smpp_write_out)

lemma smpp_answer_out: "sent_more s (snd (smpp_answer p s))"
  unfolding smpp_answer_def by (auto intro!: bind_step_out smpp_write_out)

lemma await_response_out: "sent_more s (snd (await_response expected sequence deadline s))"
proof (induction expected sequence deadline s rule: await_response.induct)
  case (1 expected sequence deadline s)
  show ?case
    unfolding await_response.simps [of _ _ _ s]
    by (rule bind_step_out [OF smpp_read_out], clarsimp, intro conjI impI)
      (rule bind_step_out [OF smpp_answer_out] "1.IH"; simp)+
qed

lemma smpp_unbind_out:
  assumes "ss_send s = []" "ss_sequence s = 2"
  shows "\<exists>tail. ss_out (snd (smpp_unbind env timeout s)) = ss_out s @ encode_pdu (response UNBIND ESME_ROK 3 []) # tail"
proof -
  let ?s = "s\<lparr>ss_sequence := 3, ss_out := ss_out s @ [encode_pdu (response UNBIND ESME_ROK 3 [])]\<rparr>"
  have "smpp_request (sv_start env) timeout UNBIND [] s = await_response (UNBIND OR RESPONSE_BIT) 3 (sv_start env 3 + timeout) ?s"
    using assms by (simp add: smpp_request_def next_sequence_def Let_def smpp_write_def bind_step_def)
  then have "sent_more ?s (snd (smpp_unbind env timeout s))"
    using await_response_out [of ?s "UNBIND OR RESPONSE_BIT" 3 "sv_start env 3 + timeout"] by (auto simp: smpp_unbind_def split: prod.splits)
  then show ?thesis by (auto simp: sent_more_def)
qed


lemma response_fields:
  "pdu_command_id (response c st sq b) = c" "pdu_command_status (response c st sq b) = st"
  "pdu_sequence_number (response c st sq b) = sq" "pdu_body (response c st sq b) = b"
  by (simp_all add: response_def)


section \<open>What the SMSC reads\<close>

text \<open>The fields of a \<open>submit_sm\<close>, read the way SMPP 3.4 lays them out.\<close>

definition cut_cstring :: "string \<Rightarrow> string \<times> string" where
  "cut_cstring bs = (takeWhile (\<lambda>c. c \<noteq> CHR 0x00) bs, drop 1 (dropWhile (\<lambda>c. c \<noteq> CHR 0x00) bs))"

record submit_sm =
  su_source :: "nat \<times> nat \<times> string"
  su_dest :: "nat \<times> nat \<times> string"
  su_esm_class :: nat
  su_data_coding :: nat
  su_short_message :: string

definition decode_tail :: "nat \<times> nat \<times> string \<Rightarrow> nat \<times> nat \<times> string \<Rightarrow> string \<Rightarrow> submit_sm option" where
  "decode_tail src dst bs = (case bs of
     esm # _ # _ # _ # _ # _ # _ # coding # _ # len # msg \<Rightarrow>
       (if length msg = code_of len
        then Some \<lparr>su_source = src, su_dest = dst, su_esm_class = code_of esm, su_data_coding = code_of coding,
          su_short_message = msg\<rparr> else None)
   | _ \<Rightarrow> None)"

definition decode_submit_sm :: "string \<Rightarrow> submit_sm option" where
  "decode_submit_sm bs = (case bs of
     _ # ston # snpi # rest \<Rightarrow>
       (case cut_cstring rest of (src, rest) \<Rightarrow> (case rest of
          dton # dnpi # rest \<Rightarrow> (case cut_cstring rest of (dst, rest) \<Rightarrow>
            decode_tail (code_of ston, code_of snpi, src) (code_of dton, code_of dnpi, dst) rest)
        | _ \<Rightarrow> None))
   | _ \<Rightarrow> None)"

text \<open>The user data by its coding: a destination port and octets, or a text.\<close>

fun un_utf16 :: "string \<Rightarrow> string" where
  "un_utf16 (a # b # s) = b # un_utf16 s"
| "un_utf16 _ = []"

definition read_user_data :: "submit_sm \<Rightarrow> int option \<times> string" where
  "read_user_data m =
     (if su_esm_class m = 0x40
      then (Some (256 * int (code_of (su_short_message m ! 3)) + int (code_of (su_short_message m ! 4))),
            drop (code_of (hd (su_short_message m)) + 1) (su_short_message m))
      else (None, if su_data_coding m = 0x08 then un_utf16 (su_short_message m) else su_short_message m))"

lemma un_utf16_utf16_be [simp]: "un_utf16 (utf16_be s) = s"
  by (induction s) (simp_all add: utf16_be_def)

lemma utf16_be_length [simp]: "length (utf16_be s) = 2 * length s"
  by (induction s) (simp_all add: utf16_be_def)

lemma c_octet_Inr:
  "c_octet v n field = Inr x \<Longrightarrow> x = v @ [CHR 0x00] \<and> CHR 0x00 \<notin> set v \<and> length v < n"
  by (auto simp: c_octet_def split: if_splits)

lemma cut_cstring_octet: "CHR 0x00 \<notin> set v \<Longrightarrow> cut_cstring (v @ CHR 0x00 # rest) = (v, rest)"
  by (simp add: cut_cstring_def takeWhile_append dropWhile_append)

lemma build_udh_Inr:
  assumes "build_udh port source = Inr udh"
  shows "length udh = 7 \<and> code_of (hd udh) = 6 \<and> 256 * int (code_of (udh ! 3)) + int (code_of (udh ! 4)) = port"
proof -
  have p: "0 \<le> port" "port \<le> 0xFFFF" using assms by (auto simp: build_udh_def split: if_splits)
  have c: "int (code_of (char_of (nat k))) = k mod 256" if "0 \<le> k" for k :: int
    using that by (simp add: code_of_def nat_mod_as_int)
  have h: "port div 256 mod 256 = port div 256" using p by auto
  have "udh = map (\<lambda>n. char_of (nat n)) [6, 5, 4, port div 256 mod 256, port mod 256, source div 256 mod 256, source mod 256]"
    using assms by (auto simp: build_udh_def Let_def split: if_splits)
  moreover have "code_of (char_of (6::nat)) = 6" by (simp add: code_of_def)
  moreover have "256 * (port div 256 mod 256) + port mod 256 = port" using h by simp
  ultimately show ?thesis using p by (simp add: c)
qed

lemma short_message_sound:
  assumes "encode_short_message r source = Inr (esm, coding, msg)"
  shows "length msg \<le> 160 \<and> (coding \<noteq> 0 \<longrightarrow> length msg \<le> 140) \<and> esm < 256 \<and> coding < 256 \<and>
    (\<forall>m. su_esm_class m = esm \<and> su_data_coding m = coding \<and> su_short_message m = msg \<longrightarrow>
      read_user_data m = (if requires_binary r then (sr_sms_port r, utf8 (sr_body r)) else (None, sr_body r)))"
proof (cases "requires_binary r")
  case True
  then obtain port where port: "sr_sms_port r = Some port" by (auto simp: requires_binary_def split: option.splits)
  with assms True obtain udh where udh: "build_udh port source = Inr udh" "esm = 0x40" "coding = 0x04"
      "msg = udh @ utf8 (sr_body r)" "length msg \<le> 140"
    by (auto simp: encode_short_message_def Let_def MAX_USER_DATA_OCTETS_def split: sum.splits if_splits)
  from build_udh_Inr [OF udh(1)] have u: "length udh = 7" "code_of (hd udh) = 6" "udh \<noteq> []"
    "256 * int (code_of (udh ! 3)) + int (code_of (udh ! 4)) = port" by auto
  with udh True port show ?thesis by (simp add: read_user_data_def nth_append)
next
  case False
  with assms show ?thesis
    by (auto simp: encode_short_message_def encode_text_def MAX_USER_DATA_OCTETS_def MAX_GSM7_CHARACTERS_def read_user_data_def
        split: if_splits)
qed

text \<open>
  C35. A submission says what was asked. An SMSC that reads the body of a \<open>submit_sm\<close> by the layout
  of SMPP 3.4 finds the sender's address and the destination without its plus sign, each within
  20 characters, and user data of at most one SMS (160 characters, 140 octets unless in the default alphabet) from
  which the text is read back; a port-addressed message carries the requested port in its header and
  the text's UTF-8 octets after it.
\<close>

theorem submit_sm_round_trip:
  assumes "submit_sm_body sender r = Inr b"
    "sn_source_ton sender \<in> {0..255}" "sn_source_npi sender \<in> {0..255}" "sn_dest_ton sender \<in> {0..255}" "sn_dest_npi sender \<in> {0..255}"
  shows "\<exists>m. decode_submit_sm b = Some m \<and>
    su_source m = (nat (sn_source_ton sender), nat (sn_source_npi sender), str_or (sn_source_addr sender) (sr_sender_id r)) \<and>
    su_dest m = (nat (sn_dest_ton sender), nat (sn_dest_npi sender), dropWhile (\<lambda>c. c = CHR ''+'') (sr_msisdn r)) \<and>
    length (str_or (sn_source_addr sender) (sr_sender_id r)) \<le> 20 \<and> length (dropWhile (\<lambda>c. c = CHR ''+'') (sr_msisdn r)) \<le> 20 \<and>
    length (su_short_message m) \<le> 160 \<and> (su_data_coding m \<noteq> 0 \<longrightarrow> length (su_short_message m) \<le> 140) \<and>
    read_user_data m = (if requires_binary r then (sr_sms_port r, utf8 (sr_body r)) else (None, sr_body r))"
proof -
  let ?src = "str_or (sn_source_addr sender) (sr_sender_id r)" and ?dst = "dropWhile (\<lambda>c. c = CHR ''+'') (sr_msisdn r)"
  from assms(1) obtain esm coding msg where e1: "encode_short_message r 0 = Inr (esm, coding, msg)"
    by (auto simp: submit_sm_body_def bind_err_Inr)
  with assms(1) obtain sf where e2: "c_octet ?src MAX_ADDR ''source_addr'' = Inr sf"
    by (cases "c_octet ?src MAX_ADDR ''source_addr''") (auto simp: submit_sm_body_def)
  with assms(1) e1 obtain df where e3: "c_octet ?dst MAX_ADDR ''destination_addr'' = Inr df"
    by (cases "c_octet ?dst MAX_ADDR ''destination_addr''") (auto simp: submit_sm_body_def)
  have b: "b = [CHR 0x00, octet (sn_source_ton sender), octet (sn_source_npi sender)] @ sf @
      [octet (sn_dest_ton sender), octet (sn_dest_npi sender)] @ df @
      [char_of esm, CHR 0x00, CHR 0x00, CHR 0x00, CHR 0x00, CHR 0x00, CHR 0x00, char_of coding, CHR 0x00, char_of (length msg)] @ msg"
    using assms(1) by (simp add: submit_sm_body_def e1 e2 e3)
  note c = c_octet_Inr [OF e2] c_octet_Inr [OF e3]
  note sm = short_message_sound [OF e1]
  have oct: "code_of (octet n) = nat n" if "n \<in> {0..255}" for n unfolding octet_def using that by (intro code_of_char_of) auto
  define m where "m = \<lparr>su_source = (nat (sn_source_ton sender), nat (sn_source_npi sender), ?src),
    su_dest = (nat (sn_dest_ton sender), nat (sn_dest_npi sender), ?dst), su_esm_class = esm, su_data_coding = coding,
    su_short_message = msg\<rparr>"
  have "decode_submit_sm b = Some m"
    using c sm oct [OF assms(2)] oct [OF assms(3)] oct [OF assms(4)] oct [OF assms(5)]
    by (simp add: b decode_submit_sm_def cut_cstring_octet decode_tail_def code_of_char_of m_def)
  then show ?thesis using c sm by (intro exI [of _ m]) (simp add: m_def MAX_ADDR_def)
qed


definition demo_smpp_sender :: SmppSmsSender where
  "demo_smpp_sender = \<lparr>sn_host = ''smsc'', sn_bind_body = [], sn_source_addr = [], sn_source_ton = 5, sn_source_npi = 0,
     sn_dest_ton = 1, sn_dest_npi = 1, sn_timeout = Some 10, sn_timeout_text = ''10'', sn_has_store = True, sn_reference_key = []\<rparr>"

definition demo_sms_request :: SmsRequest where
  "demo_sms_request = \<lparr>sr_msisdn = ''+8210'', sr_body = ''code 1'', sr_sms_port = Some 37273, sr_sender_id = ''RCS''\<rparr>"

theorem submit_sm_round_trip_witness:
  "\<exists>b m. submit_sm_body demo_smpp_sender demo_sms_request = Inr b \<and> decode_submit_sm b = Some m \<and>
    su_dest m = (1, 1, ''8210'') \<and> read_user_data m = (Some 37273, utf8 ''code 1'')"
proof -
  have "\<exists>b. submit_sm_body demo_smpp_sender demo_sms_request = Inr b"
    by (simp add: submit_sm_body_def demo_smpp_sender_def demo_sms_request_def encode_short_message_def requires_binary_def
        build_udh_def Let_def MAX_USER_DATA_OCTETS_def utf8_Cons code_of_def c_octet_def is_ascii_def MAX_ADDR_def str_or_def)
  then obtain b where b: "submit_sm_body demo_smpp_sender demo_sms_request = Inr b" by blast
  have "requires_binary demo_sms_request" by (simp add: requires_binary_def demo_sms_request_def)
  with submit_sm_round_trip [OF b] b show ?thesis by (auto simp: demo_smpp_sender_def demo_sms_request_def)
qed

text \<open>Sequence numbers stay in the range SMPP allows, and wrap from its end to its start.\<close>

lemma next_sequence_range:
  "fst (next_sequence s) \<in> {1..0x7FFFFFFF} \<and> uint (of_int (fst (next_sequence s)) :: 32 word) = fst (next_sequence s) \<and>
   (ss_sequence s = 0x7FFFFFFF \<longrightarrow> fst (next_sequence s) = 1)"
proof -
  define n where "n = ss_sequence s mod 0x7FFFFFFF + 1"
  have n: "n \<in> {1..0x7FFFFFFF}" by (simp add: n_def)
  then have "uint (of_int n :: 32 word) = n" by (simp add: uint_word_of_int take_bit_int_eq_self)
  with n show ?thesis by (simp add: next_sequence_def Let_def n_def [symmetric])
qed

end
