(* ===== verification/Dynamo.thy ===== *)
theory Dynamo
  imports Memory_Store
begin

text \<open>
  The DynamoDB store, \<^verbatim>\<open>src/src/acs/store/dynamodb.py\<close>: every method of the class as a
  sequence of table calls.

  The table is a service, so its calls are the fields of \<open>DynamoTable\<close>: they answer, report a failed
  condition or raise a fault, given here by its error code. What the store relies on is the locale
  \<open>dynamo_table\<close>: a write applies exactly when its condition holds, a transaction applies all its writes or
  none, reads return what was written (once the replicas have caught up, for the ones that are not
  consistent). Stored numbers come back as integers, so \<open>_clean\<close> is the identity on these items.
  An operation that raises leaves the answer \<open>Inl\<close>.
\<close>

section \<open>The table\<close>

type_synonym table_key = "string \<times> string"

datatype condition = NotExists | Exists | AttrsEq "(string \<times> item_value) list"

datatype write_outcome = Done | ConditionFailed | Fault string

datatype transact_outcome = Committed | Cancelled "string list" | TransactFault string

record 't DynamoTable =
  tb_read :: "'t \<Rightarrow> table_key \<Rightarrow> string + item option"
  tb_read_consistent :: "'t \<Rightarrow> table_key \<Rightarrow> string + item option"
  tb_put :: "condition option \<Rightarrow> item \<Rightarrow> 't \<Rightarrow> write_outcome \<times> 't"
  tb_delete :: "condition option \<Rightarrow> table_key \<Rightarrow> 't \<Rightarrow> write_outcome \<times> 't"
  tb_update :: "condition \<Rightarrow> table_key \<Rightarrow> string \<Rightarrow> item_value \<Rightarrow> 't \<Rightarrow> write_outcome \<times> 't"
  tb_transact :: "(condition \<times> item) list \<Rightarrow> 't \<Rightarrow> transact_outcome \<times> 't"
  tb_query_gsi1 :: "'t \<Rightarrow> string \<Rightarrow> int \<Rightarrow> string + item list"
  tb_query_newest :: "'t \<Rightarrow> string \<Rightarrow> int \<Rightarrow> string + item list"

datatype dynamo_error = ClientError string | FromItem model_error | OtpStoreContention | BadItem string

definition item_key :: "item \<Rightarrow> table_key" where
  "item_key item = (case (dict_get item ''pk'', dict_get item ''sk'') of
     (Some (VStr pk), Some (VStr sk)) \<Rightarrow> (pk, sk) | _ \<Rightarrow> ([], []))"

definition item_update :: "item \<Rightarrow> item \<Rightarrow> item" where
  "item_update item news = fold (\<lambda>(k, v). dict_put k v) news item"

definition dyn_encode :: "item \<Rightarrow> item" where
  "dyn_encode item = filter (\<lambda>(k, v). v \<noteq> VNone) item"

definition same_challenge :: "OtpChallenge \<Rightarrow> condition" where
  "same_challenge c =
     (if oc_challenge_id c \<noteq> []
      then AttrsEq [(''challenge_id'', VStr (oc_challenge_id c)), (''attempts'', VInt (oc_attempts c))]
      else AttrsEq [(''otp_hash'', VStr (oc_otp_hash c)), (''created_at'', VInt (oc_created_at c)),
                    (''attempts'', VInt (oc_attempts c))])"

definition lost_a_condition :: "transact_outcome \<Rightarrow> bool" where
  "lost_a_condition r = (case r of
     Cancelled codes \<Rightarrow> set codes - {''None''} = {''ConditionalCheckFailed''} | _ \<Rightarrow> False)"

section \<open>Helpers\<close>

type_synonym ('t, 'a) dyn = "'t \<Rightarrow> (dynamo_error + 'a) \<times> 't"

definition dyn_get :: "'t DynamoTable \<Rightarrow> string \<Rightarrow> string \<Rightarrow> ('t, item option) dyn" where
  "dyn_get ops pk sk t = (case tb_read ops t (pk, sk) of Inl code \<Rightarrow> (Inl (ClientError code), t) | Inr x \<Rightarrow> (Inr x, t))"

definition dyn_get_consistent :: "'t DynamoTable \<Rightarrow> table_key \<Rightarrow> ('t, item option) dyn" where
  "dyn_get_consistent ops k t = (case tb_read_consistent ops t k of Inl code \<Rightarrow> (Inl (ClientError code), t) | Inr x \<Rightarrow> (Inr x, t))"

definition write_answer :: "write_outcome \<Rightarrow> dynamo_error + bool" where
  "write_answer r = (case r of Done \<Rightarrow> Inr True | ConditionFailed \<Rightarrow> Inr False | Fault code \<Rightarrow> Inl (ClientError code))"

definition unconditional :: "write_outcome \<times> 't \<Rightarrow> (dynamo_error + unit) \<times> 't" where
  "unconditional x = (case x of
     (Done, t) \<Rightarrow> (Inr (), t)
   | (ConditionFailed, t) \<Rightarrow> (Inl (ClientError ''ConditionalCheckFailedException''), t)
   | (Fault code, t) \<Rightarrow> (Inl (ClientError code), t))"

definition dyn_put :: "'t DynamoTable \<Rightarrow> item \<Rightarrow> ('t, unit) dyn" where
  "dyn_put ops item t = unconditional (tb_put ops None (dyn_encode item) t)"

definition dyn_delete :: "'t DynamoTable \<Rightarrow> string \<Rightarrow> string \<Rightarrow> ('t, unit) dyn" where
  "dyn_delete ops pk sk t = unconditional (tb_delete ops None (pk, sk) t)"

definition dyn_query_gsi1 :: "'t DynamoTable \<Rightarrow> string \<Rightarrow> int \<Rightarrow> ('t, item list) dyn" where
  "dyn_query_gsi1 ops gsi1pk limit t =
     (case tb_query_gsi1 ops t gsi1pk limit of Inl code \<Rightarrow> (Inl (ClientError code), t) | Inr items \<Rightarrow> (Inr items, t))"

definition raise_model :: "model_error + 'a \<Rightarrow> ('t, 'a) dyn" where
  "raise_model x t = (case x of Inl e \<Rightarrow> (Inl (FromItem e), t) | Inr a \<Rightarrow> (Inr a, t))"

text \<open>\<open>X.from_item(item) if item else None\<close>\<close>

definition load_item :: "(item \<Rightarrow> model_error + 'a) \<Rightarrow> item option \<Rightarrow> ('t, 'a option) dyn" where
  "load_item from_item item t = (case item of
     None \<Rightarrow> (Inr None, t) | Some i \<Rightarrow> bind_step (raise_model (from_item i) t) (\<lambda>a t. (Inr (Some a), t)))"

fun load_items :: "(item \<Rightarrow> model_error + 'a) \<Rightarrow> item list \<Rightarrow> model_error + 'a list" where
  "load_items from_item [] = Inr []"
| "load_items from_item (i # items) =
     bind_err (from_item i) (\<lambda>a. bind_err (load_items from_item items) (\<lambda>as. Inr (a # as)))"

section \<open>Subscribers\<close>

definition dyn_get_subscriber :: "'t DynamoTable \<Rightarrow> int \<Rightarrow> string \<Rightarrow> ('t, Subscriber option) dyn" where
  "dyn_get_subscriber ops clock imsi t =
     bind_step (dyn_get ops (''SUB#'' @ imsi) ''META'' t) (load_item (subscriber_from_item clock))"

definition dyn_get_subscriber_by_msisdn :: "'t DynamoTable \<Rightarrow> int \<Rightarrow> string \<Rightarrow> ('t, Subscriber option) dyn" where
  "dyn_get_subscriber_by_msisdn ops clock msisdn t =
     bind_step (dyn_get ops (''MSISDN#'' @ msisdn) ''SUB'' t) (\<lambda>item t. case item of
       None \<Rightarrow> (Inr None, t)
     | Some i \<Rightarrow> (case dict_get i ''imsi'' of
         Some (VStr imsi) \<Rightarrow> dyn_get_subscriber ops clock imsi t
       | _ \<Rightarrow> (Inl (BadItem ''imsi''), t)))"

definition subscriber_item :: "Subscriber \<Rightarrow> item" where
  "subscriber_item sub = item_update (subscriber_to_item sub) [(''pk'', VStr (''SUB#'' @ sub_imsi sub)), (''sk'', VStr ''META''),
     (''entity'', VStr ''subscriber''), (''gsi1pk'', VStr ''ENTITY#subscriber''), (''gsi1sk'', VStr (sub_imsi sub))]"

definition index_item :: "string \<Rightarrow> string \<Rightarrow> item" where
  "index_item msisdn imsi = [(''pk'', VStr (''MSISDN#'' @ msisdn)), (''sk'', VStr ''SUB''), (''imsi'', VStr imsi),
     (''entity'', VStr ''msisdn_index'')]"

definition dyn_put_subscriber :: "'t DynamoTable \<Rightarrow> int \<Rightarrow> Subscriber \<Rightarrow> ('t, unit) dyn" where
  "dyn_put_subscriber ops clock sub t =
     bind_step (dyn_get_subscriber ops clock (sub_imsi sub) t) (\<lambda>previous t.
     bind_step (dyn_put ops (subscriber_item (sub\<lparr>sub_updated_at := clock\<rparr>)) t) (\<lambda>_ t.
     bind_step (dyn_put ops (index_item (sub_msisdn sub) (sub_imsi sub)) t) (\<lambda>_ t.
     case previous of
       Some p \<Rightarrow> if sub_msisdn p \<noteq> sub_msisdn sub then dyn_delete ops (''MSISDN#'' @ sub_msisdn p) ''SUB'' t else (Inr (), t)
     | None \<Rightarrow> (Inr (), t))))"

definition dyn_delete_subscriber :: "'t DynamoTable \<Rightarrow> int \<Rightarrow> string \<Rightarrow> ('t, unit) dyn" where
  "dyn_delete_subscriber ops clock imsi t =
     bind_step (dyn_get_subscriber ops clock imsi t) (\<lambda>subscriber t.
     bind_step (dyn_delete ops (''SUB#'' @ imsi) ''META'' t) (\<lambda>_ t.
     case subscriber of Some p \<Rightarrow> dyn_delete ops (''MSISDN#'' @ sub_msisdn p) ''SUB'' t | None \<Rightarrow> (Inr (), t)))"

definition dyn_list_subscribers :: "'t DynamoTable \<Rightarrow> int \<Rightarrow> int \<Rightarrow> ('t, Subscriber list) dyn" where
  "dyn_list_subscribers ops clock limit t =
     bind_step (dyn_query_gsi1 ops ''ENTITY#subscriber'' limit t) (\<lambda>items. raise_model (load_items (subscriber_from_item clock) items))"

section \<open>One-time passwords\<close>

definition dyn_get_otp :: "'t DynamoTable \<Rightarrow> string \<Rightarrow> ('t, OtpChallenge option) dyn" where
  "dyn_get_otp ops msisdn t = bind_step (dyn_get ops (''OTP#'' @ msisdn) ''CHAL'' t) (load_item otp_from_item)"

definition otp_item :: "string \<Rightarrow> OtpChallenge \<Rightarrow> item" where
  "otp_item msisdn c = item_update (otp_to_item c) [(''pk'', VStr (''OTP#'' @ msisdn)), (''sk'', VStr ''CHAL''), (''entity'', VStr ''otp'')]"

definition quota_item :: "string \<Rightarrow> int list \<Rightarrow> int \<Rightarrow> int \<Rightarrow> item" where
  "quota_item msisdn sends version now = [(''pk'', VStr (''OTPQUOTA#'' @ msisdn)), (''sk'', VStr ''SENDS''),
     (''entity'', VStr ''otp_quota''), (''sends'', VInts sends), (''version'', VInt version), (''expires_at'', VInt (now + 86400))]"

text \<open>\<open>quota["sends"] if quota else []\<close> and \<open>int((quota or {}).get("version", 0))\<close>\<close>

definition quota_history :: "item option \<Rightarrow> dynamo_error + int list" where
  "quota_history quota = (case quota of
     None \<Rightarrow> Inr []
   | Some q \<Rightarrow> (case dict_get q ''sends'' of Some (VInts l) \<Rightarrow> Inr l | _ \<Rightarrow> Inl (BadItem ''sends'')))"

definition quota_version :: "item option \<Rightarrow> dynamo_error + int" where
  "quota_version quota = (case quota of
     None \<Rightarrow> Inr 0
   | Some q \<Rightarrow> (case dict_get q ''version'' of
       None \<Rightarrow> Inr 0 | Some v \<Rightarrow> (case get_int v of Some n \<Rightarrow> Inr n | None \<Rightarrow> Inl (BadItem ''version''))))"

text \<open>What one round decides from the two items it read: refuse, or try these two conditional writes.\<close>

datatype issue_decision = Refuse OtpIssueRefused | TryWrites "(condition \<times> item) list"

definition issue_writes :: "OtpChallenge \<Rightarrow> int \<Rightarrow> int \<Rightarrow> item option \<Rightarrow> OtpChallenge option \<Rightarrow>
    dynamo_error + issue_decision" where
  "issue_writes challenge max_sends_per_day now quota existing =
     bind_err (quota_history quota) (\<lambda>history.
     let sends = filter (\<lambda>t. t \<ge> now - 86400) history in
     if int (length sends) \<ge> max_sends_per_day
     then Inr (Refuse \<lparr>refused_reason = DailyQuota, refused_retry_after = 3600\<rparr>)
     else bind_err (quota_version quota) (\<lambda>version.
       Inr (TryWrites
         [(case quota of None \<Rightarrow> NotExists | Some _ \<Rightarrow> AttrsEq [(''version'', VInt version)],
           quota_item (oc_msisdn challenge) (sends @ [now]) (version + 1) now),
          (case existing of None \<Rightarrow> NotExists | Some c \<Rightarrow> same_challenge c,
           dyn_encode (otp_item (oc_msisdn challenge) challenge))])))"

definition in_cooldown :: "int \<Rightarrow> int \<Rightarrow> int \<Rightarrow> OtpChallenge \<Rightarrow> bool" where
  "in_cooldown clock cooldown_seconds now c \<longleftrightarrow>
     \<not> oc_consumed c \<and> \<not> otp_expired c (Some now) clock \<and> now - oc_created_at c < cooldown_seconds"

definition issue_decide :: "int \<Rightarrow> OtpChallenge \<Rightarrow> int \<Rightarrow> int \<Rightarrow> int \<Rightarrow> item option \<Rightarrow> OtpChallenge option \<Rightarrow>
    dynamo_error + issue_decision" where
  "issue_decide clock challenge cooldown_seconds max_sends_per_day now quota existing =
     (case existing of
        Some c \<Rightarrow>
          if in_cooldown clock cooldown_seconds now c
          then Inr (Refuse \<lparr>refused_reason = Cooldown, refused_retry_after = cooldown_seconds - (now - oc_created_at c)\<rparr>)
          else issue_writes challenge max_sends_per_day now quota existing
      | None \<Rightarrow> issue_writes challenge max_sends_per_day now quota existing)"

text \<open>The optimistic rounds. \<open>meanwhile n\<close> is what other requests do to the table after the \<open>n\<close>-th read;
  none of them is \<open>\<lambda>_ t. t\<close>.\<close>

fun dyn_issue_rounds :: "nat \<Rightarrow> (nat \<Rightarrow> 't \<Rightarrow> 't) \<Rightarrow> 't DynamoTable \<Rightarrow> int \<Rightarrow> OtpChallenge \<Rightarrow> int \<Rightarrow> int \<Rightarrow> int \<Rightarrow>
    ('t, OtpIssueRefused option) dyn" where
  "dyn_issue_rounds 0 meanwhile ops clock challenge cooldown_seconds max_sends_per_day now t = (Inl OtpStoreContention, t)"
| "dyn_issue_rounds (Suc n) meanwhile ops clock challenge cooldown_seconds max_sends_per_day now t =
     bind_step (dyn_get_consistent ops (''OTPQUOTA#'' @ oc_msisdn challenge, ''SENDS'') t) (\<lambda>quota t.
     bind_step (dyn_get_consistent ops (''OTP#'' @ oc_msisdn challenge, ''CHAL'') (meanwhile (2 * n + 1) t)) (\<lambda>raw t.
     bind_step (load_item otp_from_item raw t) (\<lambda>existing t.
     case issue_decide clock challenge cooldown_seconds max_sends_per_day now quota existing of
       Inl e \<Rightarrow> (Inl e, t)
     | Inr (Refuse r) \<Rightarrow> (Inr (Some r), t)
     | Inr (TryWrites writes) \<Rightarrow>
         (case tb_transact ops writes (meanwhile (2 * n) t) of (outcome, t) \<Rightarrow>
          if outcome = Committed then (Inr None, t)
          else if \<not> lost_a_condition outcome
          then (Inl (ClientError (case outcome of TransactFault code \<Rightarrow> code | _ \<Rightarrow> ''TransactionCanceledException'')), t)
          else dyn_issue_rounds n meanwhile ops clock challenge cooldown_seconds max_sends_per_day now t))))"

definition OTP_WRITE_ROUNDS :: nat where "OTP_WRITE_ROUNDS = 5"

definition dyn_issue_otp :: "(nat \<Rightarrow> 't \<Rightarrow> 't) \<Rightarrow> 't DynamoTable \<Rightarrow> int \<Rightarrow> OtpChallenge \<Rightarrow> int \<Rightarrow> int \<Rightarrow> int \<Rightarrow>
    ('t, OtpIssueRefused option) dyn" where
  "dyn_issue_otp = dyn_issue_rounds OTP_WRITE_ROUNDS"

definition dyn_replace_otp :: "'t DynamoTable \<Rightarrow> OtpChallenge \<Rightarrow> OtpChallenge option \<Rightarrow> ('t, bool) dyn" where
  "dyn_replace_otp ops expected replacement t =
     (case (case replacement of
        None \<Rightarrow> tb_delete ops (Some (same_challenge expected)) (''OTP#'' @ oc_msisdn expected, ''CHAL'') t
      | Some r \<Rightarrow> tb_put ops (Some (same_challenge expected)) (dyn_encode (otp_item (oc_msisdn expected) r)) t) of
      (outcome, t) \<Rightarrow> (write_answer outcome, t))"

section \<open>Tokens\<close>

definition token_item :: "TokenRecord \<Rightarrow> item" where
  "token_item r = item_update (token_to_item r) [(''pk'', VStr (''TOKEN#'' @ tr_token_hash r)), (''sk'', VStr ''META''),
     (''entity'', VStr ''token''), (''gsi1pk'', VStr (''TOKENIMSI#'' @ tr_imsi r)), (''gsi1sk'', VStr (str_of_int (tr_issued_at r))),
     (''expires_at'', VInt (tr_expires_at r))]"

definition dyn_put_token :: "'t DynamoTable \<Rightarrow> TokenRecord \<Rightarrow> ('t, unit) dyn" where
  "dyn_put_token ops r = dyn_put ops (token_item r)"

definition dyn_get_token :: "'t DynamoTable \<Rightarrow> string \<Rightarrow> ('t, TokenRecord option) dyn" where
  "dyn_get_token ops h t = bind_step (dyn_get ops (''TOKEN#'' @ h) ''META'' t) (load_item token_from_item)"

definition dyn_revoke_token :: "'t DynamoTable \<Rightarrow> string \<Rightarrow> ('t, unit) dyn" where
  "dyn_revoke_token ops h t =
     (case tb_update ops Exists (''TOKEN#'' @ h, ''META'') ''revoked'' (VBool True) t of
        (Fault code, t) \<Rightarrow> (Inl (ClientError code), t) | (_, t) \<Rightarrow> (Inr (), t))"

fun revoke_listed :: "'t DynamoTable \<Rightarrow> item list \<Rightarrow> int \<Rightarrow> ('t, int) dyn" where
  "revoke_listed ops [] n t = (Inr n, t)"
| "revoke_listed ops (i # items) n t =
     (if dict_get i ''revoked'' = Some (VBool True) then revoke_listed ops items n t
      else (case dict_get i ''token_hash'' of
        Some (VStr h) \<Rightarrow> bind_step (dyn_revoke_token ops h t) (\<lambda>_ t. revoke_listed ops items (n + 1) t)
      | _ \<Rightarrow> (Inl (BadItem ''token_hash''), t)))"

definition dyn_revoke_tokens_for_imsi :: "'t DynamoTable \<Rightarrow> string \<Rightarrow> ('t, int) dyn" where
  "dyn_revoke_tokens_for_imsi ops imsi t =
     bind_step (dyn_query_gsi1 ops (''TOKENIMSI#'' @ imsi) 100 t) (\<lambda>items. revoke_listed ops items 0)"

section \<open>Devices and device-management sessions\<close>

definition device_item :: "Device \<Rightarrow> item" where
  "device_item d = item_update (device_to_item d) [(''pk'', VStr (''DEV#'' @ dev_device_id d)), (''sk'', VStr ''META''),
     (''entity'', VStr ''device''), (''gsi1pk'', VStr ''ENTITY#device''), (''gsi1sk'', VStr (dev_device_id d))]"

definition dyn_put_device :: "'t DynamoTable \<Rightarrow> Device \<Rightarrow> ('t, unit) dyn" where
  "dyn_put_device ops d = dyn_put ops (device_item d)"

definition dyn_get_device :: "'t DynamoTable \<Rightarrow> int \<Rightarrow> string \<Rightarrow> ('t, Device option) dyn" where
  "dyn_get_device ops clock i t = bind_step (dyn_get ops (''DEV#'' @ i) ''META'' t) (load_item (device_from_item clock))"

definition dyn_list_devices :: "'t DynamoTable \<Rightarrow> int \<Rightarrow> int \<Rightarrow> ('t, Device list) dyn" where
  "dyn_list_devices ops clock limit t =
     bind_step (dyn_query_gsi1 ops ''ENTITY#device'' limit t) (\<lambda>items. raise_model (load_items (device_from_item clock) items))"

definition session_item :: "DmSession \<Rightarrow> item" where
  "session_item d = item_update (session_to_item d) [(''pk'', VStr (''DMSESS#'' @ ds_session_id d)), (''sk'', VStr ''META''),
     (''entity'', VStr ''dm_session'')]"

definition dyn_put_dm_session :: "'t DynamoTable \<Rightarrow> DmSession \<Rightarrow> ('t, unit) dyn" where
  "dyn_put_dm_session ops d = dyn_put ops (session_item d)"

definition dyn_delete_dm_session :: "'t DynamoTable \<Rightarrow> string \<Rightarrow> ('t, unit) dyn" where
  "dyn_delete_dm_session ops i = dyn_delete ops (''DMSESS#'' @ i) ''META''"

definition dyn_get_dm_session :: "'t DynamoTable \<Rightarrow> int \<Rightarrow> string \<Rightarrow> ('t, DmSession option) dyn" where
  "dyn_get_dm_session ops clock i t =
     bind_step (bind_step (dyn_get ops (''DMSESS#'' @ i) ''META'' t) (load_item session_from_item)) (\<lambda>session t.
     case session of
       None \<Rightarrow> (Inr None, t)
     | Some d \<Rightarrow> if ds_expires_at d \<noteq> 0 \<and> ds_expires_at d < clock
         then bind_step (dyn_delete_dm_session ops i t) (\<lambda>_ t. (Inr None, t)) else (Inr (Some d), t))"

definition pending_item :: "DmPendingPackage \<Rightarrow> item" where
  "pending_item p = item_update (pending_to_item p) [(''pk'', VStr (''DMSESS#'' @ dp_session_id p)), (''sk'', VStr ''PENDING''),
     (''entity'', VStr ''dm_pending'')]"

definition dyn_put_dm_pending :: "'t DynamoTable \<Rightarrow> DmPendingPackage \<Rightarrow> ('t, unit) dyn" where
  "dyn_put_dm_pending ops p = dyn_put ops (pending_item p)"

definition dyn_delete_dm_pending :: "'t DynamoTable \<Rightarrow> string \<Rightarrow> ('t, unit) dyn" where
  "dyn_delete_dm_pending ops i = dyn_delete ops (''DMSESS#'' @ i) ''PENDING''"

definition dyn_get_dm_pending :: "'t DynamoTable \<Rightarrow> int \<Rightarrow> string \<Rightarrow> ('t, DmPendingPackage option) dyn" where
  "dyn_get_dm_pending ops clock i t =
     bind_step (bind_step (dyn_get ops (''DMSESS#'' @ i) ''PENDING'' t) (load_item pending_from_item)) (\<lambda>pending t.
     case pending of
       None \<Rightarrow> (Inr None, t)
     | Some p \<Rightarrow> if dp_expires_at p \<noteq> 0 \<and> dp_expires_at p < clock
         then bind_step (dyn_delete_dm_pending ops i t) (\<lambda>_ t. (Inr None, t)) else (Inr (Some p), t))"

section \<open>Outbox\<close>

text \<open>\<open>str(n).zfill(12)\<close>: zeros on the left, after a sign.\<close>

definition zfill :: "nat \<Rightarrow> string \<Rightarrow> string" where
  "zfill width s = (case s of
     c # cs \<Rightarrow> if c \<in> {CHR ''-'', CHR ''+''} then c # replicate (width - length s) CHR ''0'' @ cs
       else replicate (width - length s) CHR ''0'' @ s
   | [] \<Rightarrow> replicate width CHR ''0'')"

definition sms_item :: "int \<Rightarrow> SmsMessage \<Rightarrow> item" where
  "sms_item retention m = [(''pk'', VStr (''SMS#'' @ sm_msisdn m)), (''sk'', VStr (zfill 12 (str_of_int (sm_sent_at m)))),
     (''entity'', VStr ''sms''), (''body'', VStr (sm_body m)), (''sms_port'', opt_value VInt (sm_sms_port m)),
     (''provider'', VStr (sm_provider m)), (''binary'', VBool (sm_binary m)), (''msisdn'', VStr (sm_msisdn m)),
     (''sent_at'', VInt (sm_sent_at m)), (''expires_at'', VInt (sm_sent_at m + retention))]"

definition dyn_record_sms :: "'t DynamoTable \<Rightarrow> int \<Rightarrow> SmsMessage \<Rightarrow> ('t, unit) dyn" where
  "dyn_record_sms ops retention m = dyn_put ops (sms_item retention m)"

definition sms_from_item :: "item \<Rightarrow> model_error + SmsMessage" where
  "sms_from_item i =
     bind_err (arg get_str i ''msisdn'' None) (\<lambda>msisdn.
     bind_err (arg get_str i ''body'' None) (\<lambda>body.
     bind_err (arg (get_opt get_int) i ''sms_port'' (Some None)) (\<lambda>port.
     bind_err (arg get_int i ''sent_at'' None) (\<lambda>sent_at.
     bind_err (arg get_str i ''provider'' (Some ''mock'')) (\<lambda>provider.
     bind_err (arg get_bool i ''binary'' (Some False)) (\<lambda>binary.
     Inr \<lparr>sm_msisdn = msisdn, sm_body = body, sm_sms_port = port, sm_sent_at = sent_at, sm_provider = provider,
          sm_binary = binary\<rparr>))))))"

definition dyn_list_sms :: "'t DynamoTable \<Rightarrow> string option \<Rightarrow> int \<Rightarrow> ('t, SmsMessage list) dyn" where
  "dyn_list_sms ops msisdn limit t = (case msisdn of
     None \<Rightarrow> (Inr [], t)
   | Some m \<Rightarrow> (case tb_query_newest ops t (''SMS#'' @ m) limit of
       Inl code \<Rightarrow> (Inl (ClientError code), t)
     | Inr items \<Rightarrow> raise_model (load_items sms_from_item items) t))"

end
