(* ===== verification/Dynamo_Refines.thy ===== *)
theory Dynamo_Refines
  imports Dynamo
begin

text \<open>
  The DynamoDB store of \<^verbatim>\<open>src/src/acs/store/dynamodb.py\<close> against the memory store: what it relies on of the
  table (the locales \<open>dynamo_table\<close> and \<open>dynamo_settled\<close>), that every record survives being stored, a
  simulation of the memory store operation by operation and for histories, and the optimistic
  writes of \<open>issue_otp\<close> while other requests write.
\<close>

section \<open>What the table promises\<close>

fun holds :: "condition \<Rightarrow> item option \<Rightarrow> bool" where
  "holds NotExists x \<longleftrightarrow> x = None"
| "holds Exists x \<longleftrightarrow> x \<noteq> None"
| "holds (AttrsEq kvs) x \<longleftrightarrow> (case x of None \<Rightarrow> False | Some i \<Rightarrow> list_all (\<lambda>(k, v). dict_get i k = Some v) kvs)"

definition holds_opt :: "condition option \<Rightarrow> item option \<Rightarrow> bool" where
  "holds_opt c x \<longleftrightarrow> (case c of None \<Rightarrow> True | Some c \<Rightarrow> holds c x)"

locale dynamo_table =
  fixes ops :: "'t DynamoTable" and look :: "'t \<Rightarrow> table_key \<Rightarrow> item option"
  assumes read_consistent: "tb_read_consistent ops t k = Inr x \<Longrightarrow> x = look t k"
    and put_done: "tb_put ops c i t = (Done, t') \<Longrightarrow>
      holds_opt c (look t (item_key i)) \<and> look t' = (look t)(item_key i \<mapsto> i)"
    and put_failed: "tb_put ops c i t = (ConditionFailed, t') \<Longrightarrow> \<not> holds_opt c (look t (item_key i)) \<and> look t' = look t"
    and delete_done: "tb_delete ops c k t = (Done, t') \<Longrightarrow> holds_opt c (look t k) \<and> look t' = (look t)(k := None)"
    and delete_failed: "tb_delete ops c k t = (ConditionFailed, t') \<Longrightarrow> \<not> holds_opt c (look t k) \<and> look t' = look t"
    and update_done: "tb_update ops g k a v t = (Done, t') \<Longrightarrow>
      holds g (look t k) \<and> look t' = (look t)(k \<mapsto> dict_put a v (case look t k of None \<Rightarrow> [] | Some i \<Rightarrow> i))"
    and update_failed: "tb_update ops g k a v t = (ConditionFailed, t') \<Longrightarrow> \<not> holds g (look t k) \<and> look t' = look t"
    and transact_committed: "tb_transact ops ws t = (Committed, t') \<Longrightarrow>
      list_all (\<lambda>(c, i). holds c (look t (item_key i))) ws \<and> look t' = fold (\<lambda>(c, i) m. m(item_key i \<mapsto> i)) ws (look t)"
    and transact_cancelled: "tb_transact ops ws t = (Cancelled codes, t') \<Longrightarrow> look t' = look t \<and>
      (''ConditionalCheckFailed'' \<in> set codes \<longrightarrow> \<not> list_all (\<lambda>(c, i). holds c (look t (item_key i))) ws)"

locale dynamo_settled = dynamo_table ops look for ops :: "'t DynamoTable" and look +
  assumes read_settled: "tb_read ops t k = Inr x \<Longrightarrow> x = look t k"

section \<open>Items\<close>

lemma dict_get_Cons: "dict_get ((k, v) # d) k' = (if k' = k then Some v else dict_get d k')"
  by (simp add: dict_get_def)

lemma dict_get_encode:
  "distinct (map fst d) \<Longrightarrow> dict_get (dyn_encode d) k = (case dict_get d k of Some VNone \<Rightarrow> None | x \<Rightarrow> x)"
  by (induction d) (auto simp: dyn_encode_def dict_get_def map_of_eq_None_iff split: option.splits item_value.splits)

lemma item_update_distinct: "distinct (map fst d) \<Longrightarrow> distinct (map fst (item_update d news))"
  by (induction news arbitrary: d) (auto simp: item_update_def dict_put_distinct)

lemma dict_get_update:
  "dict_get (item_update d news) k = (case dict_get (rev news) k of None \<Rightarrow> dict_get d k | x \<Rightarrow> x)"
  by (induction news arbitrary: d) (auto simp: item_update_def dict_get_def dict_put_def update_conv' split: option.splits)

lemma distinct_items:
  "distinct (map fst (subscriber_item sub))" "distinct (map fst (otp_item m c))" "distinct (map fst (token_item r))"
  "distinct (map fst (device_item d))" "distinct (map fst (session_item ds))" "distinct (map fst (pending_item p))"
  by (simp_all add: subscriber_item_def otp_item_def token_item_def device_item_def session_item_def pending_item_def
      item_update_distinct subscriber_to_item_def otp_to_item_def token_to_item_def device_to_item_def session_to_item_def
      pending_to_item_def)

lemmas item_lookup = dict_get_encode [OF distinct_items(1)] dict_get_encode [OF distinct_items(2)]
  dict_get_encode [OF distinct_items(3)] dict_get_encode [OF distinct_items(4)] dict_get_encode [OF distinct_items(5)]
  dict_get_encode [OF distinct_items(6)]

lemmas item_fields = subscriber_item_def otp_item_def token_item_def device_item_def session_item_def pending_item_def
  subscriber_to_item_def otp_to_item_def token_to_item_def device_to_item_def session_to_item_def pending_to_item_def
  dict_get_update dict_get_Cons

lemma item_keys:
  "item_key (dyn_encode (subscriber_item sub)) = (''SUB#'' @ sub_imsi sub, ''META'')"
  "item_key (dyn_encode (otp_item m c)) = (''OTP#'' @ m, ''CHAL'')"
  "item_key (dyn_encode (token_item r)) = (''TOKEN#'' @ tr_token_hash r, ''META'')"
  "item_key (dyn_encode (device_item d)) = (''DEV#'' @ dev_device_id d, ''META'')"
  "item_key (dyn_encode (session_item ds)) = (''DMSESS#'' @ ds_session_id ds, ''META'')"
  "item_key (dyn_encode (pending_item p)) = (''DMSESS#'' @ dp_session_id p, ''PENDING'')"
  "item_key (index_item m i) = (''MSISDN#'' @ m, ''SUB'')" "dyn_encode (index_item m i) = index_item m i"
  "item_key (quota_item m l v n) = (''OTPQUOTA#'' @ m, ''SENDS'')"
  by (simp_all add: item_key_def item_lookup) (simp_all add: item_fields index_item_def quota_item_def dyn_encode_def)

text \<open>Every record survives being stored, with one exception: a token that is bound to no handset.\<close>

lemma opt_value_cases: "(case opt_value VInt x of VNone \<Rightarrow> None | y \<Rightarrow> Some y) = map_option VInt x"
  by (cases x) auto

lemma stored_subscriber: "subscriber_from_item clock (dyn_encode (subscriber_item sub)) = Inr sub"
  by (cases "sub_forced_vers sub") (simp_all add: subscriber_from_item_def arg_def item_lookup, simp_all add: item_fields)

lemma stored_otp: "otp_from_item (dyn_encode (otp_item m c)) = Inr c"
  by (cases "oc_sms_port c") (simp_all add: otp_from_item_def arg_def item_lookup, simp_all add: item_fields)

lemma stored_token: "token_from_item (dyn_encode (token_item r)) =
    (if tr_imei r = None then Inl (MissingArgument ''imei'') else Inr r)"
  by (cases "tr_imei r") (simp_all add: token_from_item_def arg_def item_lookup, simp_all add: item_fields)

lemma stored_device: "device_from_item clock (dyn_encode (device_item d)) = Inr d"
  by (simp add: device_from_item_def arg_def item_lookup) (simp add: item_fields)

lemma stored_session: "session_from_item (dyn_encode (session_item d)) = Inr d"
  by (simp add: session_from_item_def arg_def item_lookup) (simp add: item_fields)

lemma stored_pending: "pending_from_item (dyn_encode (pending_item p)) = Inr p"
  by (simp add: pending_from_item_def arg_def item_lookup) (simp add: item_fields)

lemma token_revoked: "token_from_item i = Inr r \<Longrightarrow> token_from_item (dict_put ''revoked'' (VBool True) i) = Inr (r\<lparr>tr_revoked := True\<rparr>)"
  by (auto simp: token_from_item_def bind_err_Inr arg_def cong: option.case_cong)

text \<open>The condition on a write is the memory store's test.\<close>

lemma same_challenge_holds: "holds (same_challenge e) (Some (dyn_encode (otp_item m c))) \<longleftrightarrow> unchanged c e"
  by (auto simp: same_challenge_def item_lookup unchanged_def) (auto simp: item_fields)

section \<open>The table holds what the memory store holds\<close>

definition sub_rel :: "(table_key \<Rightarrow> item option) \<Rightarrow> MemoryStore \<Rightarrow> bool" where
  "sub_rel L s \<longleftrightarrow> (\<forall>k. rel_option (\<lambda>i sub. \<exists>u. i = dyn_encode (subscriber_item (sub\<lparr>sub_updated_at := u\<rparr>)))
     (L (''SUB#'' @ k, ''META'')) (dict_get (st_subscribers s) k))"

definition idx_rel :: "(table_key \<Rightarrow> item option) \<Rightarrow> MemoryStore \<Rightarrow> bool" where
  "idx_rel L s \<longleftrightarrow> (\<forall>m. L (''MSISDN#'' @ m, ''SUB'') = map_option (index_item m) (dict_get (st_msisdn_index s) m) \<and>
     dict_get (st_msisdn_index s) m \<noteq> Some [])"

definition otp_rel :: "(table_key \<Rightarrow> item option) \<Rightarrow> MemoryStore \<Rightarrow> bool" where
  "otp_rel L s \<longleftrightarrow> (\<forall>m. L (''OTP#'' @ m, ''CHAL'') = map_option (\<lambda>c. dyn_encode (otp_item m c)) (dict_get (st_otp s) m))"

definition quota_rel :: "(table_key \<Rightarrow> item option) \<Rightarrow> MemoryStore \<Rightarrow> bool" where
  "quota_rel L s \<longleftrightarrow> (\<forall>m. rel_option (\<lambda>i l. dict_get i ''sends'' = Some (VInts l) \<and> (\<exists>v. dict_get i ''version'' = Some (VInt v)))
     (L (''OTPQUOTA#'' @ m, ''SENDS'')) (dict_get (st_otp_sends s) m))"

definition tok_rel :: "(table_key \<Rightarrow> item option) \<Rightarrow> MemoryStore \<Rightarrow> bool" where
  "tok_rel L s \<longleftrightarrow> (\<forall>h. rel_option (\<lambda>i r. token_from_item i = Inr r) (L (''TOKEN#'' @ h, ''META'')) (dict_get (st_tokens s) h))"

definition dev_rel :: "(table_key \<Rightarrow> item option) \<Rightarrow> MemoryStore \<Rightarrow> bool" where
  "dev_rel L s \<longleftrightarrow> (\<forall>d. L (''DEV#'' @ d, ''META'') = map_option (\<lambda>d. dyn_encode (device_item d)) (dict_get (st_devices s) d))"

definition ses_rel :: "(table_key \<Rightarrow> item option) \<Rightarrow> MemoryStore \<Rightarrow> bool" where
  "ses_rel L s \<longleftrightarrow> (\<forall>i. L (''DMSESS#'' @ i, ''META'') = map_option (\<lambda>d. dyn_encode (session_item d)) (dict_get (st_dm_sessions s) i))"

definition pen_rel :: "(table_key \<Rightarrow> item option) \<Rightarrow> MemoryStore \<Rightarrow> bool" where
  "pen_rel L s \<longleftrightarrow> (\<forall>i. L (''DMSESS#'' @ i, ''PENDING'') = map_option (\<lambda>p. dyn_encode (pending_item p)) (dict_get (st_dm_pending s) i))"

definition dyn_rel :: "(table_key \<Rightarrow> item option) \<Rightarrow> MemoryStore \<Rightarrow> bool" where
  "dyn_rel L s \<longleftrightarrow> sub_rel L s \<and> idx_rel L s \<and> otp_rel L s \<and> quota_rel L s \<and> tok_rel L s \<and> dev_rel L s \<and> ses_rel L s \<and> pen_rel L s"

lemmas dyn_rels = sub_rel_def idx_rel_def otp_rel_def quota_rel_def tok_rel_def dev_rel_def ses_rel_def pen_rel_def

lemma dyn_rel_empty: "dyn_rel (\<lambda>_. None) empty_store"
  by (simp add: dyn_rel_def dyn_rels empty_store_def)

context dynamo_settled
begin

lemma dyn_get_look: "dyn_get ops pk sk t = (Inr x, t') \<Longrightarrow> t' = t \<and> x = look t (pk, sk)"
  by (auto simp: dyn_get_def split: sum.splits dest!: read_settled)

lemma dyn_get_consistent_look: "dyn_get_consistent ops k t = (Inr x, t') \<Longrightarrow> t' = t \<and> x = look t k"
  by (auto simp: dyn_get_consistent_def split: sum.splits dest!: read_consistent)

lemma dyn_put_look: "dyn_put ops i t = (Inr u, t') \<Longrightarrow> look t' = (look t)(item_key (dyn_encode i) \<mapsto> dyn_encode i)"
  by (auto simp: dyn_put_def unconditional_def split: prod.splits write_outcome.splits dest!: put_done)

lemma dyn_delete_look: "dyn_delete ops pk sk t = (Inr u, t') \<Longrightarrow> look t' = (look t)((pk, sk) := None)"
  by (auto simp: dyn_delete_def unconditional_def split: prod.splits write_outcome.splits dest!: delete_done)

lemma load_item_Inr: "load_item f x t = (Inr y, t') \<longleftrightarrow> t' = t \<and> (case x of None \<Rightarrow> y = None | Some i \<Rightarrow> \<exists>a. f i = Inr a \<and> y = Some a)"
  by (auto simp: load_item_def bind_step_Inr raise_model_def split: option.split sum.splits)

text \<open>Reads.\<close>

lemma sim_get_subscriber:
  assumes "dyn_get_subscriber ops clock k t = (Inr x, t')" "sub_rel (look t) s"
  shows "t' = t \<and> rel_option (\<lambda>a b. \<exists>u. a = b\<lparr>sub_updated_at := u\<rparr>) x (get_subscriber s k)"
proof -
  from assms(1) have l: "t' = t" "case look t (''SUB#'' @ k, ''META'') of None \<Rightarrow> x = None | Some i \<Rightarrow> \<exists>a. subscriber_from_item clock i = Inr a \<and> x = Some a"
    by (auto simp: dyn_get_subscriber_def bind_step_Inr load_item_Inr dest!: dyn_get_look)
  from assms(2) have "rel_option (\<lambda>i sub. \<exists>u. i = dyn_encode (subscriber_item (sub\<lparr>sub_updated_at := u\<rparr>)))
      (look t (''SUB#'' @ k, ''META'')) (get_subscriber s k)" by (simp add: sub_rel_def get_subscriber_def)
  with l show ?thesis by (cases "get_subscriber s k") (auto simp: option_rel_Some2 stored_subscriber)
qed

lemma sim_get_by_msisdn:
  assumes "dyn_get_subscriber_by_msisdn ops clock m t = (Inr x, t')" "sub_rel (look t) s" "idx_rel (look t) s"
  shows "t' = t \<and> rel_option (\<lambda>a b. \<exists>u. a = b\<lparr>sub_updated_at := u\<rparr>) x (get_subscriber_by_msisdn s m)"
proof (cases "dict_get (st_msisdn_index s) m")
  case None
  with assms show ?thesis
    by (auto simp: dyn_get_subscriber_by_msisdn_def bind_step_Inr idx_rel_def get_subscriber_by_msisdn_def dest!: dyn_get_look)
next
  case (Some i)
  with assms(3) have i: "look t (''MSISDN#'' @ m, ''SUB'') = Some (index_item m i)" "i \<noteq> []" by (auto simp: idx_rel_def)
  have "dict_get (index_item m i) ''imsi'' = Some (VStr i)" by (simp add: index_item_def dict_get_Cons)
  with assms(1) i have "dyn_get_subscriber ops clock i t = (Inr x, t')"
    by (auto simp: dyn_get_subscriber_by_msisdn_def bind_step_Inr dest!: dyn_get_look)
  from sim_get_subscriber [OF this assms(2)] Some i show ?thesis by (simp add: get_subscriber_by_msisdn_def get_subscriber_def)
qed

lemma sim_get_otp: "dyn_get_otp ops m t = (Inr x, t') \<Longrightarrow> otp_rel (look t) s \<Longrightarrow> t' = t \<and> x = get_otp s m"
  by (cases "dict_get (st_otp s) m")
    (auto simp: dyn_get_otp_def bind_step_Inr load_item_Inr otp_rel_def get_otp_def stored_otp dest!: dyn_get_look)

lemma sim_get_token: "dyn_get_token ops h t = (Inr x, t') \<Longrightarrow> tok_rel (look t) s \<Longrightarrow> t' = t \<and> x = get_token s h"
proof -
  assume "dyn_get_token ops h t = (Inr x, t')" "tok_rel (look t) s"
  moreover from this(2) have "rel_option (\<lambda>i r. token_from_item i = Inr r) (look t (''TOKEN#'' @ h, ''META'')) (get_token s h)"
    by (simp add: tok_rel_def get_token_def)
  ultimately show ?thesis
    by (cases "get_token s h") (auto simp: dyn_get_token_def bind_step_Inr load_item_Inr option_rel_Some2 dest!: dyn_get_look)
qed

lemma sim_get_device: "dyn_get_device ops clock d t = (Inr x, t') \<Longrightarrow> dev_rel (look t) s \<Longrightarrow> t' = t \<and> x = get_device s d"
  by (cases "dict_get (st_devices s) d")
    (auto simp: dyn_get_device_def bind_step_Inr load_item_Inr dev_rel_def get_device_def stored_device dest!: dyn_get_look)


text \<open>Writes.\<close>

lemma sim_put_subscriber:
  assumes "dyn_put_subscriber ops clock sub t = (Inr u, t')" "dyn_rel (look t) s" "sub_imsi sub \<noteq> []"
  shows "dyn_rel (look t') (put_subscriber sub s)"
proof -
  let ?i = "dyn_encode (subscriber_item (sub\<lparr>sub_updated_at := clock\<rparr>))"
  from assms(1) obtain previous t1 t2 t3 where
    r: "dyn_get_subscriber ops clock (sub_imsi sub) t = (Inr previous, t1)"
    "dyn_put ops (subscriber_item (sub\<lparr>sub_updated_at := clock\<rparr>)) t1 = (Inr (), t2)"
    "dyn_put ops (index_item (sub_msisdn sub) (sub_imsi sub)) t2 = (Inr (), t3)"
    and last: "(case previous of Some p \<Rightarrow> if sub_msisdn p \<noteq> sub_msisdn sub then dyn_delete ops (''MSISDN#'' @ sub_msisdn p) ''SUB'' t3 else (Inr (), t3)
     | None \<Rightarrow> (Inr (), t3)) = (Inr u, t')"
    by (auto simp: dyn_put_subscriber_def bind_step_Inr)
  from sim_get_subscriber [OF r(1)] assms(2) have p: "t1 = t" "rel_option (\<lambda>a b. \<exists>u. a = b\<lparr>sub_updated_at := u\<rparr>) previous (get_subscriber s (sub_imsi sub))"
    by (auto simp: dyn_rel_def)
  have t3: "look t3 = (look t)((''SUB#'' @ sub_imsi sub, ''META'') \<mapsto> ?i, (''MSISDN#'' @ sub_msisdn sub, ''SUB'') \<mapsto> index_item (sub_msisdn sub) (sub_imsi sub))"
    using dyn_put_look [OF r(2)] dyn_put_look [OF r(3)] by (simp add: p(1) item_keys)
  have t': "look t' = (case get_subscriber s (sub_imsi sub) of None \<Rightarrow> look t3
      | Some b \<Rightarrow> if sub_msisdn b \<noteq> sub_msisdn sub then (look t3)((''MSISDN#'' @ sub_msisdn b, ''SUB'') := None) else look t3)"
    using last p(2) by (auto simp: option_rel_Some1 split: option.splits if_splits dest!: dyn_delete_look)
  have "sub_rel (look t') (put_subscriber sub s)"
  proof -
    have "\<exists>u. ?i = dyn_encode (subscriber_item (sub\<lparr>sub_updated_at := u\<rparr>))" by blast
    then show ?thesis using assms(2)
      by (auto simp: sub_rel_def dyn_rel_def t' t3 put_subscriber_def Let_def split: option.split)
  qed
  moreover have "idx_rel (look t') (put_subscriber sub s)"
    using assms(2,3) by (auto simp: idx_rel_def dyn_rel_def t' t3 put_subscriber_def Let_def get_subscriber_def split: option.split)
  moreover have "otp_rel (look t') (put_subscriber sub s)" "quota_rel (look t') (put_subscriber sub s)" "tok_rel (look t') (put_subscriber sub s)"
    "dev_rel (look t') (put_subscriber sub s)" "ses_rel (look t') (put_subscriber sub s)" "pen_rel (look t') (put_subscriber sub s)"
    using assms(2) by (auto simp: otp_rel_def quota_rel_def tok_rel_def dev_rel_def ses_rel_def pen_rel_def dyn_rel_def t' t3 put_subscriber_def Let_def
        split: option.split)
  ultimately show ?thesis by (simp add: dyn_rel_def)
qed


lemma sim_delete_subscriber:
  assumes "dyn_delete_subscriber ops clock k t = (Inr u, t')" "dyn_rel (look t) s"
  shows "dyn_rel (look t') (delete_subscriber k s)"
proof -
  from assms(1) obtain sub t1 t2 where
    r: "dyn_get_subscriber ops clock k t = (Inr sub, t1)" "dyn_delete ops (''SUB#'' @ k) ''META'' t1 = (Inr (), t2)"
    and last: "(case sub of Some p \<Rightarrow> dyn_delete ops (''MSISDN#'' @ sub_msisdn p) ''SUB'' t2 | None \<Rightarrow> (Inr (), t2)) = (Inr u, t')"
    by (auto simp: dyn_delete_subscriber_def bind_step_Inr)
  from sim_get_subscriber [OF r(1)] assms(2) have p: "t1 = t" "rel_option (\<lambda>a b. \<exists>u. a = b\<lparr>sub_updated_at := u\<rparr>) sub (get_subscriber s k)"
    by (auto simp: dyn_rel_def)
  have t2: "look t2 = (look t)((''SUB#'' @ k, ''META'') := None)" using dyn_delete_look [OF r(2)] by (simp add: p(1))
  have t': "look t' = (case get_subscriber s k of None \<Rightarrow> look t2
      | Some b \<Rightarrow> (look t2)((''MSISDN#'' @ sub_msisdn b, ''SUB'') := None))"
    using last p(2) by (auto simp: option_rel_Some1 split: option.splits dest!: dyn_delete_look)
  have rel: "rel_option (\<lambda>i sub. \<exists>u. i = dyn_encode (subscriber_item (sub\<lparr>sub_updated_at := u\<rparr>)))
      (look t (''SUB#'' @ k, ''META'')) (dict_get (st_subscribers s) k)" using assms(2) by (simp add: dyn_rel_def sub_rel_def)
  show ?thesis
  proof (cases "dict_get (st_subscribers s) k")
    case None
    with rel have "look t (''SUB#'' @ k, ''META'') = None" by simp
    then have "look t' = look t" using None by (simp add: t' t2 get_subscriber_def fun_upd_idem)
    then show ?thesis using assms(2) None by (simp add: delete_subscriber_def)
  next
    case (Some b)
    have "sub_rel (look t') (delete_subscriber k s)" "idx_rel (look t') (delete_subscriber k s)"
      using assms(2) Some by (auto simp: sub_rel_def idx_rel_def dyn_rel_def t' t2 delete_subscriber_def get_subscriber_def)
    moreover have "otp_rel (look t') (delete_subscriber k s)" "quota_rel (look t') (delete_subscriber k s)" "tok_rel (look t') (delete_subscriber k s)"
      "dev_rel (look t') (delete_subscriber k s)" "ses_rel (look t') (delete_subscriber k s)" "pen_rel (look t') (delete_subscriber k s)"
      using assms(2) Some
      by (auto simp: otp_rel_def quota_rel_def tok_rel_def dev_rel_def ses_rel_def pen_rel_def dyn_rel_def t' t2 delete_subscriber_def get_subscriber_def)
    ultimately show ?thesis by (simp add: dyn_rel_def)
  qed
qed

lemma sim_put_token:
  assumes "dyn_put_token ops r t = (Inr u, t')" "dyn_rel (look t) s" "tr_imei r \<noteq> None"
  shows "dyn_rel (look t') (put_token r s)"
  using assms dyn_put_look [of "token_item r" t u t'] stored_token [of r]
  by (auto simp: dyn_put_token_def item_keys dyn_rel_def dyn_rels put_token_def)

lemma sim_revoke_token:
  assumes "dyn_revoke_token ops h t = (Inr u, t')" "dyn_rel (look t) s"
  shows "dyn_rel (look t') (revoke_token h s)"
proof -
  have rel: "rel_option (\<lambda>i r. token_from_item i = Inr r) (look t (''TOKEN#'' @ h, ''META'')) (dict_get (st_tokens s) h)"
    using assms(2) by (simp add: dyn_rel_def tok_rel_def)
  obtain out where out: "tb_update ops Exists (''TOKEN#'' @ h, ''META'') ''revoked'' (VBool True) t = (out, t')" "out = Done \<or> out = ConditionFailed"
    using assms(1) by (auto simp: dyn_revoke_token_def split: prod.splits write_outcome.splits)
  show ?thesis
  proof (cases "dict_get (st_tokens s) h")
    case None
    with rel have "look t (''TOKEN#'' @ h, ''META'') = None" by simp
    with out update_done update_failed have "look t' = look t" by fastforce
    then show ?thesis using assms(2) None by (simp add: revoke_token_def)
  next
    case (Some r)
    with rel obtain i where i: "look t (''TOKEN#'' @ h, ''META'') = Some i" "token_from_item i = Inr r" by (auto simp: option_rel_Some2)
    with out update_failed have "out = Done" by fastforce
    with out update_done i have "look t' = (look t)((''TOKEN#'' @ h, ''META'') \<mapsto> dict_put ''revoked'' (VBool True) i)" by fastforce
    with token_revoked [OF i(2)] assms(2) Some show ?thesis
      by (auto simp: dyn_rel_def dyn_rels revoke_token_def)
  qed
qed

lemma sim_put_device:
  "dyn_put_device ops d t = (Inr u, t') \<Longrightarrow> dyn_rel (look t) s \<Longrightarrow> dyn_rel (look t') (put_device d s)"
  using dyn_put_look [of "device_item d" t u t'] by (auto simp: dyn_put_device_def item_keys dyn_rel_def dyn_rels put_device_def)

lemma sim_put_session:
  "dyn_put_dm_session ops d t = (Inr u, t') \<Longrightarrow> dyn_rel (look t) s \<Longrightarrow> dyn_rel (look t') (put_dm_session d s)"
  using dyn_put_look [of "session_item d" t u t'] by (auto simp: dyn_put_dm_session_def item_keys dyn_rel_def dyn_rels put_dm_session_def)

lemma sim_put_pending:
  "dyn_put_dm_pending ops p t = (Inr u, t') \<Longrightarrow> dyn_rel (look t) s \<Longrightarrow> dyn_rel (look t') (put_dm_pending p s)"
  using dyn_put_look [of "pending_item p" t u t'] by (auto simp: dyn_put_dm_pending_def item_keys dyn_rel_def dyn_rels put_dm_pending_def)

lemma sim_delete_session:
  "dyn_delete_dm_session ops i t = (Inr u, t') \<Longrightarrow> dyn_rel (look t) s \<Longrightarrow> dyn_rel (look t') (delete_dm_session i s)"
  using dyn_delete_look [of "''DMSESS#'' @ i" "''META''" t u t']
  by (auto simp: dyn_delete_dm_session_def dyn_rel_def dyn_rels delete_dm_session_def)

lemma sim_delete_pending:
  "dyn_delete_dm_pending ops i t = (Inr u, t') \<Longrightarrow> dyn_rel (look t) s \<Longrightarrow> dyn_rel (look t') (delete_dm_pending i s)"
  using dyn_delete_look [of "''DMSESS#'' @ i" "''PENDING''" t u t']
  by (auto simp: dyn_delete_dm_pending_def dyn_rel_def dyn_rels delete_dm_pending_def)

lemma sim_get_session:
  assumes "dyn_get_dm_session ops clock i t = (Inr x, t')" "dyn_rel (look t) s"
  shows "x = fst (get_dm_session clock i s) \<and> dyn_rel (look t') (snd (get_dm_session clock i s))"
proof -
  have l: "look t (''DMSESS#'' @ i, ''META'') = map_option (\<lambda>d. dyn_encode (session_item d)) (dict_get (st_dm_sessions s) i)"
    using assms(2) by (simp add: dyn_rel_def ses_rel_def)
  show ?thesis
    using assms l
    by (cases "dict_get (st_dm_sessions s) i")
      (auto simp: dyn_get_dm_session_def bind_step_Inr load_item_Inr stored_session get_dm_session_def split: if_splits
        dest!: dyn_get_look dest: sim_delete_session [unfolded delete_dm_session_def])
qed

lemma sim_get_pending:
  assumes "dyn_get_dm_pending ops clock i t = (Inr x, t')" "dyn_rel (look t) s"
  shows "x = fst (get_dm_pending clock i s) \<and> dyn_rel (look t') (snd (get_dm_pending clock i s))"
proof -
  have l: "look t (''DMSESS#'' @ i, ''PENDING'') = map_option (\<lambda>d. dyn_encode (pending_item d)) (dict_get (st_dm_pending s) i)"
    using assms(2) by (simp add: dyn_rel_def pen_rel_def)
  show ?thesis
    using assms l
    by (cases "dict_get (st_dm_pending s) i")
      (auto simp: dyn_get_dm_pending_def bind_step_Inr load_item_Inr stored_pending get_dm_pending_def split: if_splits
        dest!: dyn_get_look dest: sim_delete_pending [unfolded delete_dm_pending_def])
qed

lemma sim_replace_otp:
  assumes "dyn_replace_otp ops e r t = (Inr x, t')" "dyn_rel (look t) s"
  shows "x = fst (replace_otp e r s) \<and> dyn_rel (look t') (snd (replace_otp e r s))"
proof -
  let ?k = "(''OTP#'' @ oc_msisdn e, ''CHAL'')"
  have l: "look t ?k = map_option (\<lambda>c. dyn_encode (otp_item (oc_msisdn e) c)) (dict_get (st_otp s) (oc_msisdn e))"
    using assms(2) by (simp add: dyn_rel_def otp_rel_def)
  have none: "\<not> holds (same_challenge e) None" by (simp add: same_challenge_def)
  have h: "holds (same_challenge e) (look t ?k) \<longleftrightarrow> fst (replace_otp e r s)"
    unfolding l by (cases "dict_get (st_otp s) (oc_msisdn e)") (simp_all add: none same_challenge_holds replace_otp_def)
  have "x = fst (replace_otp e r s) \<and>
      look t' = (if x then (look t)(?k := map_option (\<lambda>c. dyn_encode (otp_item (oc_msisdn e) c)) r) else look t)"
    using assms(1) h
    by (cases r) (auto simp: dyn_replace_otp_def write_answer_def holds_opt_def item_keys split: prod.splits write_outcome.splits
        dest!: put_done put_failed delete_done delete_failed)
  moreover have "dyn_rel ((look t)(?k := map_option (\<lambda>c. dyn_encode (otp_item (oc_msisdn e) c)) r)) (snd (replace_otp e r s))"
    if "fst (replace_otp e r s)"
    using that assms(2) by (cases r) (auto simp: dyn_rel_def dyn_rels replace_otp_def split: option.splits if_splits)
  moreover have "\<not> fst (replace_otp e r s) \<Longrightarrow> snd (replace_otp e r s) = s"
    by (auto simp: replace_otp_def split: option.splits)
  ultimately show ?thesis using assms(2) by auto
qed

end

lemma dict_get_or_case: "dict_get_or d k v = (case dict_get d k of None \<Rightarrow> v | Some w \<Rightarrow> w)"
  by (simp add: dict_get_or_def dict_get_def)

context dynamo_settled
begin

text \<open>Issuing without interference: the first round decides.\<close>

lemma issue_writes_conditions:
  assumes "otp_rel (look t) s" "quota_rel (look t) s" "existing = get_otp s (oc_msisdn c)"
    "issue_writes c cap now (look t (''OTPQUOTA#'' @ oc_msisdn c, ''SENDS'')) existing = Inr (TryWrites ws)"
  shows "list_all (\<lambda>(g, i). holds g (look t (item_key i))) ws \<and>
    (\<exists>v. fold (\<lambda>(g, i) m. m(item_key i \<mapsto> i)) ws (look t) =
      (look t)((''OTPQUOTA#'' @ oc_msisdn c, ''SENDS'') \<mapsto> quota_item (oc_msisdn c) (recent_sends s (oc_msisdn c) now @ [now]) v now,
        (''OTP#'' @ oc_msisdn c, ''CHAL'') \<mapsto> dyn_encode (otp_item (oc_msisdn c) c))) \<and>
    int (length (recent_sends s (oc_msisdn c) now)) < cap"
proof -
  have q: "rel_option (\<lambda>i l. dict_get i ''sends'' = Some (VInts l) \<and> (\<exists>v. dict_get i ''version'' = Some (VInt v)))
      (look t (''OTPQUOTA#'' @ oc_msisdn c, ''SENDS'')) (dict_get (st_otp_sends s) (oc_msisdn c))"
    using assms(2) by (simp add: quota_rel_def)
  have o: "look t (''OTP#'' @ oc_msisdn c, ''CHAL'') = map_option (\<lambda>c'. dyn_encode (otp_item (oc_msisdn c) c')) existing"
    using assms(1,3) by (simp add: otp_rel_def get_otp_def)
  have e: "holds (case existing of None \<Rightarrow> NotExists | Some c' \<Rightarrow> same_challenge c') (look t (''OTP#'' @ oc_msisdn c, ''CHAL''))"
    unfolding o by (cases existing) (simp_all add: same_challenge_holds)
  show ?thesis
  proof (cases "dict_get (st_otp_sends s) (oc_msisdn c)")
    case None
    with q have "look t (''OTPQUOTA#'' @ oc_msisdn c, ''SENDS'') = None" by simp
    with assms(4) e None show ?thesis
      by (auto simp: issue_writes_def quota_history_def quota_version_def Let_def recent_sends_def dict_get_or_case item_keys split: if_splits)
  next
    case (Some l)
    with q obtain i v where i: "look t (''OTPQUOTA#'' @ oc_msisdn c, ''SENDS'') = Some i" "dict_get i ''sends'' = Some (VInts l)"
      "dict_get i ''version'' = Some (VInt v)" by (auto simp: option_rel_Some2)
    with assms(4) e Some show ?thesis
      by (auto simp: issue_writes_def quota_history_def quota_version_def Let_def recent_sends_def dict_get_or_case item_keys split: if_splits)
  qed
qed


lemma issue_writes_decided:
  assumes "otp_rel (look t) s" "quota_rel (look t) s" "existing = get_otp s (oc_msisdn c)"
  shows "(\<exists>ws. issue_writes c cap now (look t (''OTPQUOTA#'' @ oc_msisdn c, ''SENDS'')) existing = Inr (TryWrites ws)) \<or>
    issue_writes c cap now (look t (''OTPQUOTA#'' @ oc_msisdn c, ''SENDS'')) existing =
      Inr (Refuse \<lparr>refused_reason = DailyQuota, refused_retry_after = 3600\<rparr>) \<and> cap \<le> int (length (recent_sends s (oc_msisdn c) now))"
proof -
  have q: "rel_option (\<lambda>i l. dict_get i ''sends'' = Some (VInts l) \<and> (\<exists>v. dict_get i ''version'' = Some (VInt v)))
      (look t (''OTPQUOTA#'' @ oc_msisdn c, ''SENDS'')) (dict_get (st_otp_sends s) (oc_msisdn c))"
    using assms(2) by (simp add: quota_rel_def)
  then have "quota_history (look t (''OTPQUOTA#'' @ oc_msisdn c, ''SENDS'')) = Inr (dict_get_or (st_otp_sends s) (oc_msisdn c) [])"
    "\<exists>v. quota_version (look t (''OTPQUOTA#'' @ oc_msisdn c, ''SENDS'')) = Inr v"
    by (cases "dict_get (st_otp_sends s) (oc_msisdn c)";
      auto simp: quota_history_def quota_version_def dict_get_or_case option_rel_Some2)+
  then show ?thesis by (auto simp: issue_writes_def Let_def recent_sends_def)
qed

lemma sim_issue_otp:
  assumes "dyn_issue_otp (\<lambda>_ t. t) ops clock c cooldown cap now t = (Inr x, t')" "dyn_rel (look t) s"
  shows "x = fst (issue_otp clock c cooldown cap now s) \<and> dyn_rel (look t') (snd (issue_otp clock c cooldown cap now s))"
proof -
  let ?q = "(''OTPQUOTA#'' @ oc_msisdn c, ''SENDS'')" and ?o = "(''OTP#'' @ oc_msisdn c, ''CHAL'')"
  have rels: "otp_rel (look t) s" "quota_rel (look t) s" using assms(2) by (simp_all add: dyn_rel_def)
  have o: "look t ?o = map_option (\<lambda>c'. dyn_encode (otp_item (oc_msisdn c) c')) (get_otp s (oc_msisdn c))"
    using rels(1) by (simp add: otp_rel_def get_otp_def)
  have load: "load_item otp_from_item (look t ?o) t = (Inr (get_otp s (oc_msisdn c)), t)"
    unfolding o by (cases "get_otp s (oc_msisdn c)") (simp_all add: load_item_def raise_model_def stored_otp)
  define d where "d = issue_decide clock c cooldown cap now (look t ?q) (get_otp s (oc_msisdn c))"
  from assms(1) obtain n where n: "dyn_issue_rounds (Suc n) (\<lambda>_ t. t) ops clock c cooldown cap now t = (Inr x, t')"
    by (simp add: dyn_issue_otp_def OTP_WRITE_ROUNDS_def numeral_eq_Suc)
  then obtain q t1 raw t2 existing t3 where g: "dyn_get_consistent ops ?q t = (Inr q, t1)" "dyn_get_consistent ops ?o t1 = (Inr raw, t2)"
      "load_item otp_from_item raw t2 = (Inr existing, t3)"
    and k: "(case issue_decide clock c cooldown cap now q existing of Inl e \<Rightarrow> (Inl e, t3) | Inr (Refuse r) \<Rightarrow> (Inr (Some r), t3)
     | Inr (TryWrites writes) \<Rightarrow> (case tb_transact ops writes t3 of (outcome, t) \<Rightarrow>
          if outcome = Committed then (Inr None, t)
          else if \<not> lost_a_condition outcome
          then (Inl (ClientError (case outcome of TransactFault code \<Rightarrow> code | _ \<Rightarrow> ''TransactionCanceledException'')), t)
          else dyn_issue_rounds n (\<lambda>_ t. t) ops clock c cooldown cap now t)) = (Inr x, t')"
    unfolding dyn_issue_rounds.simps bind_step_Inr by blast
  from dyn_get_consistent_look [OF g(1)] dyn_get_consistent_look [OF g(2)] g(3) load
  have eqs: "q = look t ?q" "existing = get_otp s (oc_msisdn c)" "t3 = t" by auto
  have r: "(case d of Inl e \<Rightarrow> (Inl e, t) | Inr (Refuse r) \<Rightarrow> (Inr (Some r), t)
     | Inr (TryWrites writes) \<Rightarrow> (case tb_transact ops writes t of (outcome, t) \<Rightarrow>
          if outcome = Committed then (Inr None, t)
          else if \<not> lost_a_condition outcome
          then (Inl (ClientError (case outcome of TransactFault code \<Rightarrow> code | _ \<Rightarrow> ''TransactionCanceledException'')), t)
          else dyn_issue_rounds n (\<lambda>_ t. t) ops clock c cooldown cap now t)) = (Inr x, t')"
    using k unfolding eqs d_def .
  have issue: "issue_otp clock c cooldown cap now s =
     (case get_otp s (oc_msisdn c) of
        Some e \<Rightarrow> if in_cooldown clock cooldown now e then (Some \<lparr>refused_reason = Cooldown, refused_retry_after = cooldown - (now - oc_created_at e)\<rparr>, s)
          else issue_rest | None \<Rightarrow> issue_rest)"
    if "issue_rest = (if int (length (recent_sends s (oc_msisdn c) now)) \<ge> cap
            then (Some \<lparr>refused_reason = DailyQuota, refused_retry_after = 3600\<rparr>, s)
            else (None, s\<lparr>st_otp_sends := dict_put (oc_msisdn c) (recent_sends s (oc_msisdn c) now @ [now]) (st_otp_sends s),
              st_otp := dict_put (oc_msisdn c) c (st_otp s)\<rparr>))" for issue_rest
    unfolding that by (simp add: issue_otp_def Let_def get_otp_def in_cooldown_def split: option.split)
  show ?thesis
  proof (cases "\<exists>e. get_otp s (oc_msisdn c) = Some e \<and> in_cooldown clock cooldown now e")
    case True
    then show ?thesis using r assms(2) by (auto simp: d_def issue_decide_def issue [OF refl])
  next
    case False
    then have d: "d = issue_writes c cap now (look t ?q) (get_otp s (oc_msisdn c))"
      by (auto simp: d_def issue_decide_def split: option.split)
    from issue_writes_decided [OF rels refl, of c cap now] show ?thesis
    proof (elim disjE exE conjE)
      fix ws assume ws: "issue_writes c cap now (look t ?q) (get_otp s (oc_msisdn c)) = Inr (TryWrites ws)"
      note w = issue_writes_conditions [OF rels refl ws]
      obtain outcome t1 where tr: "tb_transact ops ws t = (outcome, t1)" by fastforce
      have "\<not> lost_a_condition outcome"
        using transact_cancelled [of ws t _ t1] tr w by (auto simp: lost_a_condition_def split: transact_outcome.splits)
      with r tr ws have "outcome = Committed" "x = None" "t' = t1" by (auto simp: d split: if_splits)
      with transact_committed [of ws t t1] tr w obtain v where
        l: "look t' = (look t)(?q \<mapsto> quota_item (oc_msisdn c) (recent_sends s (oc_msisdn c) now @ [now]) v now,
          ?o \<mapsto> dyn_encode (otp_item (oc_msisdn c) c))" by auto
      have i: "issue_otp clock c cooldown cap now s = (None, s\<lparr>st_otp_sends := dict_put (oc_msisdn c) (recent_sends s (oc_msisdn c) now @ [now]) (st_otp_sends s),
              st_otp := dict_put (oc_msisdn c) c (st_otp s)\<rparr>)"
        using w False by (auto simp: issue [OF refl] split: option.split)
      have "dyn_rel (look t') (snd (issue_otp clock c cooldown cap now s))"
        using assms(2) by (auto simp: i l dyn_rel_def dyn_rels quota_item_def dict_get_Cons)
      with \<open>x = None\<close> i show ?thesis by simp
    next
      assume "issue_writes c cap now (look t ?q) (get_otp s (oc_msisdn c)) = Inr (Refuse \<lparr>refused_reason = DailyQuota, refused_retry_after = 3600\<rparr>)"
        "cap \<le> int (length (recent_sends s (oc_msisdn c) now))"
      with r False assms(2) show ?thesis by (auto simp: d issue [OF refl] split: option.split)
    qed
  qed
qed

end

section \<open>Histories\<close>

datatype store_op =
  OpGetSubscriber string | OpGetByMsisdn string | OpPutSubscriber Subscriber | OpDeleteSubscriber string
| OpGetOtp string | OpIssueOtp OtpChallenge int int int | OpReplaceOtp OtpChallenge "OtpChallenge option"
| OpPutToken TokenRecord | OpGetToken string | OpRevokeToken string
| OpPutDevice Device | OpGetDevice string
| OpPutSession DmSession | OpGetSession string | OpDeleteSession string
| OpPutPending DmPendingPackage | OpGetPending string | OpDeletePending string

datatype store_answer =
  AnsUnit | AnsSubscriber "Subscriber option" | AnsOtp "OtpChallenge option" | AnsRefused "OtpIssueRefused option" | AnsBool bool
| AnsToken "TokenRecord option" | AnsDevice "Device option" | AnsSession "DmSession option" | AnsPending "DmPendingPackage option"

text \<open>The time of the last change is the one attribute the two stores keep differently.\<close>

definition ans_subscriber :: "Subscriber option \<Rightarrow> store_answer" where
  "ans_subscriber x = AnsSubscriber (map_option (\<lambda>sub. sub\<lparr>sub_updated_at := 0\<rparr>) x)"

fun run_memory :: "int \<Rightarrow> store_op \<Rightarrow> MemoryStore \<Rightarrow> store_answer \<times> MemoryStore" where
  "run_memory clock (OpGetSubscriber k) s = (ans_subscriber (get_subscriber s k), s)"
| "run_memory clock (OpGetByMsisdn m) s = (ans_subscriber (get_subscriber_by_msisdn s m), s)"
| "run_memory clock (OpPutSubscriber sub) s = (AnsUnit, put_subscriber sub s)"
| "run_memory clock (OpDeleteSubscriber k) s = (AnsUnit, delete_subscriber k s)"
| "run_memory clock (OpGetOtp m) s = (AnsOtp (get_otp s m), s)"
| "run_memory clock (OpIssueOtp c cooldown cap now) s =
     (AnsRefused (fst (issue_otp clock c cooldown cap now s)), snd (issue_otp clock c cooldown cap now s))"
| "run_memory clock (OpReplaceOtp e r) s = (AnsBool (fst (replace_otp e r s)), snd (replace_otp e r s))"
| "run_memory clock (OpPutToken r) s = (AnsUnit, put_token r s)"
| "run_memory clock (OpGetToken h) s = (AnsToken (get_token s h), s)"
| "run_memory clock (OpRevokeToken h) s = (AnsUnit, revoke_token h s)"
| "run_memory clock (OpPutDevice d) s = (AnsUnit, put_device d s)"
| "run_memory clock (OpGetDevice d) s = (AnsDevice (get_device s d), s)"
| "run_memory clock (OpPutSession d) s = (AnsUnit, put_dm_session d s)"
| "run_memory clock (OpGetSession i) s = (AnsSession (fst (get_dm_session clock i s)), snd (get_dm_session clock i s))"
| "run_memory clock (OpDeleteSession i) s = (AnsUnit, delete_dm_session i s)"
| "run_memory clock (OpPutPending p) s = (AnsUnit, put_dm_pending p s)"
| "run_memory clock (OpGetPending i) s = (AnsPending (fst (get_dm_pending clock i s)), snd (get_dm_pending clock i s))"
| "run_memory clock (OpDeletePending i) s = (AnsUnit, delete_dm_pending i s)"

definition answering :: "('a \<Rightarrow> store_answer) \<Rightarrow> (dynamo_error + 'a) \<times> 't \<Rightarrow> (dynamo_error + store_answer) \<times> 't" where
  "answering f x = bind_step x (\<lambda>a t. (Inr (f a), t))"

fun run_dynamo :: "'t DynamoTable \<Rightarrow> int \<Rightarrow> store_op \<Rightarrow> ('t, store_answer) dyn" where
  "run_dynamo ops clock (OpGetSubscriber k) t = answering ans_subscriber (dyn_get_subscriber ops clock k t)"
| "run_dynamo ops clock (OpGetByMsisdn m) t = answering ans_subscriber (dyn_get_subscriber_by_msisdn ops clock m t)"
| "run_dynamo ops clock (OpPutSubscriber sub) t = answering (\<lambda>_. AnsUnit) (dyn_put_subscriber ops clock sub t)"
| "run_dynamo ops clock (OpDeleteSubscriber k) t = answering (\<lambda>_. AnsUnit) (dyn_delete_subscriber ops clock k t)"
| "run_dynamo ops clock (OpGetOtp m) t = answering AnsOtp (dyn_get_otp ops m t)"
| "run_dynamo ops clock (OpIssueOtp c cooldown cap now) t =
     answering AnsRefused (dyn_issue_otp (\<lambda>_ t. t) ops clock c cooldown cap now t)"
| "run_dynamo ops clock (OpReplaceOtp e r) t = answering AnsBool (dyn_replace_otp ops e r t)"
| "run_dynamo ops clock (OpPutToken r) t = answering (\<lambda>_. AnsUnit) (dyn_put_token ops r t)"
| "run_dynamo ops clock (OpGetToken h) t = answering AnsToken (dyn_get_token ops h t)"
| "run_dynamo ops clock (OpRevokeToken h) t = answering (\<lambda>_. AnsUnit) (dyn_revoke_token ops h t)"
| "run_dynamo ops clock (OpPutDevice d) t = answering (\<lambda>_. AnsUnit) (dyn_put_device ops d t)"
| "run_dynamo ops clock (OpGetDevice d) t = answering AnsDevice (dyn_get_device ops clock d t)"
| "run_dynamo ops clock (OpPutSession d) t = answering (\<lambda>_. AnsUnit) (dyn_put_dm_session ops d t)"
| "run_dynamo ops clock (OpGetSession i) t = answering AnsSession (dyn_get_dm_session ops clock i t)"
| "run_dynamo ops clock (OpDeleteSession i) t = answering (\<lambda>_. AnsUnit) (dyn_delete_dm_session ops i t)"
| "run_dynamo ops clock (OpPutPending p) t = answering (\<lambda>_. AnsUnit) (dyn_put_dm_pending ops p t)"
| "run_dynamo ops clock (OpGetPending i) t = answering AnsPending (dyn_get_dm_pending ops clock i t)"
| "run_dynamo ops clock (OpDeletePending i) t = answering (\<lambda>_. AnsUnit) (dyn_delete_dm_pending ops i t)"

fun op_ok :: "store_op \<Rightarrow> bool" where
  "op_ok (OpPutSubscriber sub) \<longleftrightarrow> sub_imsi sub \<noteq> []"
| "op_ok (OpPutToken r) \<longleftrightarrow> tr_imei r \<noteq> None"
| "op_ok _ \<longleftrightarrow> True"

fun run_memory_all :: "(int \<times> store_op) list \<Rightarrow> MemoryStore \<Rightarrow> store_answer list \<times> MemoryStore" where
  "run_memory_all [] s = ([], s)"
| "run_memory_all ((clock, p) # ps) s = (case run_memory clock p s of (a, s1) \<Rightarrow>
     (case run_memory_all ps s1 of (as, s2) \<Rightarrow> (a # as, s2)))"

fun run_dynamo_all :: "'t DynamoTable \<Rightarrow> (int \<times> store_op) list \<Rightarrow> ('t, store_answer list) dyn" where
  "run_dynamo_all ops [] t = (Inr [], t)"
| "run_dynamo_all ops ((clock, p) # ps) t =
     bind_step (run_dynamo ops clock p t) (\<lambda>a t. bind_step (run_dynamo_all ops ps t) (\<lambda>as t. (Inr (a # as), t)))"

lemma answering_Inr: "answering f x = (Inr a, t) \<longleftrightarrow> (\<exists>y. x = (Inr y, t) \<and> a = f y)"
  by (auto simp: answering_def bind_step_Inr)

lemma ans_subscriber_rel: "rel_option (\<lambda>a b. \<exists>u. a = b\<lparr>sub_updated_at := u\<rparr>) x y \<Longrightarrow> ans_subscriber x = ans_subscriber y"
  by (cases x; cases y) (auto simp: ans_subscriber_def)

context dynamo_settled
begin

lemma sim_reads:
  assumes "run_dynamo ops clock p t = (Inr a, t')" "dyn_rel (look t) s"
    "\<exists>k. p \<in> {OpGetSubscriber k, OpGetByMsisdn k, OpGetOtp k, OpGetToken k, OpGetDevice k}"
  shows "run_memory clock p s = (a, s) \<and> t' = t"
proof -
  have rels: "sub_rel (look t) s" "idx_rel (look t) s" "otp_rel (look t) s" "tok_rel (look t) s" "dev_rel (look t) s"
    using assms(2) by (simp_all add: dyn_rel_def)
  from assms(3,1) show ?thesis
    by (auto simp: answering_Inr intro!: ans_subscriber_rel [symmetric] dest: sim_get_subscriber [OF _ rels(1)] sim_get_by_msisdn [OF _ rels(1,2)]
        sim_get_otp [OF _ rels(3)] sim_get_token [OF _ rels(4)] sim_get_device [OF _ rels(5)])
qed

lemma sim_op:
  assumes "run_dynamo ops clock p t = (Inr a, t')" "dyn_rel (look t) s" "op_ok p"
  shows "fst (run_memory clock p s) = a \<and> dyn_rel (look t') (snd (run_memory clock p s))"
proof (cases "\<exists>k. p \<in> {OpGetSubscriber k, OpGetByMsisdn k, OpGetOtp k, OpGetToken k, OpGetDevice k}")
  case True
  with sim_reads [OF assms(1,2) True] assms(2) show ?thesis by simp
next
  case False
  with assms show ?thesis
    by (cases p) (auto simp: answering_Inr dest: sim_put_subscriber sim_delete_subscriber sim_issue_otp sim_replace_otp sim_put_token
      sim_revoke_token sim_put_device sim_put_session sim_get_session sim_delete_session sim_put_pending sim_get_pending
      sim_delete_pending)
qed

lemma sim_history:
  "run_dynamo_all ops ps t = (Inr answers, t') \<Longrightarrow> dyn_rel (look t) s \<Longrightarrow> list_all (\<lambda>(clock, p). op_ok p) ps \<Longrightarrow>
   \<exists>s'. run_memory_all ps s = (answers, s') \<and> dyn_rel (look t') s'"
proof (induction ps arbitrary: t s answers)
  case (Cons x ps)
  obtain clock p where x: "x = (clock, p)" by fastforce
  from Cons.prems(1) obtain a t1 as where r: "run_dynamo ops clock p t = (Inr a, t1)" "run_dynamo_all ops ps t1 = (Inr as, t')"
    "answers = a # as" by (auto simp: x bind_step_Inr)
  from sim_op [OF r(1) Cons.prems(2)] Cons.prems(3) obtain s1 where s1: "run_memory clock p s = (a, s1)" "dyn_rel (look t1) s1"
    by (cases "run_memory clock p s") (auto simp: x)
  from Cons.IH [OF r(2) s1(2)] Cons.prems(3) obtain s' where "run_memory_all ps s1 = (as, s')" "dyn_rel (look t') s'" by auto
  with s1 r(3) show ?case by (simp add: x)
qed simp

end



section \<open>A table\<close>

text \<open>The promises can be kept: a table as a dictionary from keys to items.\<close>

type_synonym simple_table = "(table_key, item) dict"

definition put_when :: "condition option \<Rightarrow> table_key \<Rightarrow> (simple_table \<Rightarrow> simple_table) \<Rightarrow> simple_table \<Rightarrow> write_outcome \<times> simple_table" where
  "put_when c k f t = (if holds_opt c (dict_get t k) then (Done, f t) else (ConditionFailed, t))"

definition simple_ops :: "simple_table DynamoTable" where
  "simple_ops = \<lparr>tb_read = \<lambda>t k. Inr (dict_get t k), tb_read_consistent = \<lambda>t k. Inr (dict_get t k),
     tb_put = \<lambda>c i. put_when c (item_key i) (dict_put (item_key i) i),
     tb_delete = \<lambda>c k. put_when c k (dict_pop k),
     tb_update = \<lambda>c k a v t. put_when (Some c) k (dict_put k (dict_put a v (case dict_get t k of None \<Rightarrow> [] | Some i \<Rightarrow> i))) t,
     tb_transact = \<lambda>ws t. if list_all (\<lambda>(c, i). holds c (dict_get t (item_key i))) ws
       then (Committed, fold (\<lambda>(c, i). dict_put (item_key i) i) ws t) else (Cancelled [''ConditionalCheckFailed''], t),
     tb_query_gsi1 = \<lambda>t pk limit. Inr (take (nat limit) (filter (\<lambda>i. dict_get i ''gsi1pk'' = Some (VStr pk)) (map snd t))),
     tb_query_newest = \<lambda>t pk limit. Inr (take (nat limit) (rev (filter (\<lambda>i. dict_get i ''pk'' = Some (VStr pk)) (map snd t))))\<rparr>"

lemma dict_get_fun [simp]: "dict_get (dict_put k v d) = (dict_get d)(k \<mapsto> v)" "dict_get (dict_pop k d) = (dict_get d)(k := None)"
  by (auto simp: fun_eq_iff)

lemma dict_get_fold: "dict_get (fold (\<lambda>(c, i). dict_put (item_key i) i) ws t) = fold (\<lambda>(c, i) m. m(item_key i \<mapsto> i)) ws (dict_get t)"
  by (induction ws arbitrary: t) auto

interpretation simple_table: dynamo_settled simple_ops dict_get
  by unfold_locales (auto simp: simple_ops_def put_when_def holds_opt_def dict_get_fold split: if_splits)

definition demo_challenge :: OtpChallenge where
  "demo_challenge = \<lparr>oc_msisdn = ''+8210'', oc_otp_hash = ''h'', oc_imsi = ''45005'', oc_created_at = 100, oc_expires_at = 400,
     oc_attempts = 0, oc_sms_port = None, oc_consumed = False, oc_challenge_id = ''c1''\<rparr>"


section \<open>Issuing while others write\<close>

text \<open>The send history and the version of a quota item; other requests may replace the item, but only by
  one with a higher version.\<close>

definition history_at :: "item option \<Rightarrow> int list" where
  "history_at x = (case x of None \<Rightarrow> [] | Some i \<Rightarrow> (case dict_get i ''sends'' of Some (VInts l) \<Rightarrow> l | _ \<Rightarrow> []))"

definition version_at :: "item option \<Rightarrow> int" where
  "version_at x = (case x of None \<Rightarrow> 0 | Some i \<Rightarrow> (case dict_get i ''version'' of Some v \<Rightarrow> (case get_int v of Some n \<Rightarrow> n | None \<Rightarrow> 0) | None \<Rightarrow> 0))"

definition advances :: "item option \<Rightarrow> item option \<Rightarrow> bool" where
  "advances a b \<longleftrightarrow> b = a \<or> b \<noteq> None \<and> version_at a < version_at b"

lemma advances_trans: "advances a b \<Longrightarrow> advances b c \<Longrightarrow> advances a c"
  by (auto simp: advances_def)

definition recent :: "int \<Rightarrow> int list \<Rightarrow> int list" where
  "recent now history = filter (\<lambda>t. t \<ge> now - 86400) history"

lemma quota_item_reads [simp]: "version_at (Some (quota_item m l v now)) = v" "history_at (Some (quota_item m l v now)) = l"
  by (simp_all add: version_at_def history_at_def quota_item_def dict_get_Cons)

lemma issue_writes_shape:
  assumes "issue_writes c cap now quota existing = Inr (TryWrites ws)"
  shows "int (length (recent now (history_at quota))) < cap \<and>
    ws = [(case quota of None \<Rightarrow> NotExists | Some _ \<Rightarrow> AttrsEq [(''version'', VInt (version_at quota))],
           quota_item (oc_msisdn c) (recent now (history_at quota) @ [now]) (version_at quota + 1) now),
          (case existing of None \<Rightarrow> NotExists | Some e \<Rightarrow> same_challenge e, dyn_encode (otp_item (oc_msisdn c) c))]"
  using assms
  by (cases quota) (auto simp: issue_writes_def bind_err_Inr quota_history_def quota_version_def history_at_def version_at_def recent_def
      Let_def split: option.splits item_value.splits if_splits)

context dynamo_table
begin

lemma issue_rounds_atomic:
  assumes "\<And>n t. advances (look t (''OTPQUOTA#'' @ oc_msisdn c, ''SENDS'')) (look (meanwhile n t) (''OTPQUOTA#'' @ oc_msisdn c, ''SENDS''))"
    "dyn_issue_rounds k meanwhile ops clock c cooldown cap now t = (Inr None, t')"
  shows "\<exists>t0. int (length (recent now (history_at (look t0 (''OTPQUOTA#'' @ oc_msisdn c, ''SENDS''))))) < cap \<and>
    (\<forall>i. look t0 (''OTP#'' @ oc_msisdn c, ''CHAL'') = Some i \<longrightarrow> (\<exists>e. holds (same_challenge e) (Some i) \<and> \<not> in_cooldown clock cooldown now e)) \<and>
    look t' = (look t0)((''OTPQUOTA#'' @ oc_msisdn c, ''SENDS'') \<mapsto> quota_item (oc_msisdn c)
          (recent now (history_at (look t0 (''OTPQUOTA#'' @ oc_msisdn c, ''SENDS''))) @ [now])
          (version_at (look t0 (''OTPQUOTA#'' @ oc_msisdn c, ''SENDS'')) + 1) now,
        (''OTP#'' @ oc_msisdn c, ''CHAL'') \<mapsto> dyn_encode (otp_item (oc_msisdn c) c))"
  using assms(2)
proof (induction k arbitrary: t)
  case (Suc k)
  let ?q = "(''OTPQUOTA#'' @ oc_msisdn c, ''SENDS'')" and ?o = "(''OTP#'' @ oc_msisdn c, ''CHAL'')"
  from Suc.prems obtain q t1 raw t2 existing t3 where g: "dyn_get_consistent ops ?q t = (Inr q, t1)"
      "dyn_get_consistent ops ?o (meanwhile (2 * k + 1) t1) = (Inr raw, t2)" "load_item otp_from_item raw t2 = (Inr existing, t3)"
    and r: "(case issue_decide clock c cooldown cap now q existing of Inl e \<Rightarrow> (Inl e, t3) | Inr (Refuse r) \<Rightarrow> (Inr (Some r), t3)
     | Inr (TryWrites writes) \<Rightarrow> (case tb_transact ops writes (meanwhile (2 * k) t3) of (outcome, t) \<Rightarrow>
          if outcome = Committed then (Inr None, t)
          else if \<not> lost_a_condition outcome
          then (Inl (ClientError (case outcome of TransactFault code \<Rightarrow> code | _ \<Rightarrow> ''TransactionCanceledException'')), t)
          else dyn_issue_rounds k meanwhile ops clock c cooldown cap now t)) = (Inr None, t')"
    unfolding dyn_issue_rounds.simps bind_step_Inr by blast
  have reads: "q = look t ?q" "t1 = t" "t2 = meanwhile (2 * k + 1) t1" "t3 = t2"
    using g by (auto simp: dyn_get_consistent_def load_item_def raise_model_def bind_step_Inr split: sum.splits option.splits dest!: read_consistent)
  from r obtain ws where d: "issue_decide clock c cooldown cap now q existing = Inr (TryWrites ws)"
    by (auto split: sum.splits issue_decision.splits)
  obtain outcome t4 where tr: "tb_transact ops ws (meanwhile (2 * k) t3) = (outcome, t4)" by fastforce
  show ?case
  proof (cases "outcome = Committed")
    case False
    with r d tr have "dyn_issue_rounds k meanwhile ops clock c cooldown cap now t4 = (Inr None, t')" by (auto split: if_splits)
    then show ?thesis by (rule Suc.IH)
  next
    case True
    let ?t0 = "meanwhile (2 * k) t3"
    from True r d tr have t': "t' = t4" by simp
    have e: "\<And>x. existing = Some x \<Longrightarrow> \<not> in_cooldown clock cooldown now x" and w: "issue_writes c cap now q existing = Inr (TryWrites ws)"
      using d by (auto simp: issue_decide_def split: option.splits if_splits)
    note s = issue_writes_shape [OF w]
    from transact_committed [of ws ?t0 t4] tr True have
      conds: "list_all (\<lambda>(g, i). holds g (look ?t0 (item_key i))) ws" and l: "look t4 = fold (\<lambda>(g, i) m. m(item_key i \<mapsto> i)) ws (look ?t0)" by auto
    have adv: "advances q (look ?t0 ?q)"
      using advances_trans [OF assms(1) assms(1)] by (simp add: reads)
    have same: "look ?t0 ?q = q"
    proof (cases q)
      case None
      with conds s show ?thesis by (auto simp: item_keys)
    next
      case (Some i)
      with conds s obtain j where "look ?t0 ?q = Some j" "dict_get j ''version'' = Some (VInt (version_at q))"
        by (auto simp: item_keys split: option.splits)
      then have "version_at (look ?t0 ?q) = version_at q" by (simp add: version_at_def)
      with adv show ?thesis by (auto simp: advances_def)
    qed
    have "\<forall>i. look ?t0 ?o = Some i \<longrightarrow> (\<exists>x. holds (same_challenge x) (Some i) \<and> \<not> in_cooldown clock cooldown now x)"
      using conds s e by (cases existing) (auto simp: item_keys)
    moreover have "look t' = (look ?t0)(?q \<mapsto> quota_item (oc_msisdn c) (recent now (history_at q) @ [now]) (version_at q + 1) now,
        ?o \<mapsto> dyn_encode (otp_item (oc_msisdn c) c))"
      using l s by (simp add: t' item_keys)
    ultimately show ?thesis using s by (intro exI [of _ ?t0]) (simp only: same)
  qed
qed simp

end

text \<open>
  C14. Issuing a challenge is atomic on DynamoDB. Whatever other requests do to the table between the
  reads and the write of a round (replacing the quota item only by one of a higher version), an accepted
  challenge took effect at one instant: at that instant the MSISDN had fewer sends in the last 24
  hours than the cap, no unconsumed challenge younger than the cooldown had been read that was still there,
  and the write added exactly this send to that history, raised its version, and stored exactly this challenge.
\<close>

theorem dynamo_issue_atomic:
  assumes "dynamo_table ops look"
    and "\<And>n t. advances (look t (''OTPQUOTA#'' @ oc_msisdn c, ''SENDS'')) (look (meanwhile n t) (''OTPQUOTA#'' @ oc_msisdn c, ''SENDS''))"
    and "dyn_issue_otp meanwhile ops clock c cooldown cap now t = (Inr None, t')"
  shows "\<exists>t0. int (length (recent now (history_at (look t0 (''OTPQUOTA#'' @ oc_msisdn c, ''SENDS''))))) < cap \<and>
    (\<forall>i. look t0 (''OTP#'' @ oc_msisdn c, ''CHAL'') = Some i \<longrightarrow> (\<exists>e. holds (same_challenge e) (Some i) \<and> \<not> in_cooldown clock cooldown now e)) \<and>
    look t' = (look t0)((''OTPQUOTA#'' @ oc_msisdn c, ''SENDS'') \<mapsto> quota_item (oc_msisdn c)
          (recent now (history_at (look t0 (''OTPQUOTA#'' @ oc_msisdn c, ''SENDS''))) @ [now])
          (version_at (look t0 (''OTPQUOTA#'' @ oc_msisdn c, ''SENDS'')) + 1) now,
        (''OTP#'' @ oc_msisdn c, ''CHAL'') \<mapsto> dyn_encode (otp_item (oc_msisdn c) c))"
  by (rule dynamo_table.issue_rounds_atomic [OF assms(1,2) assms(3) [unfolded dyn_issue_otp_def]])


text \<open>Another request that gets its write in during the first round.\<close>

definition demo_meanwhile :: "nat \<Rightarrow> simple_table \<Rightarrow> simple_table" where
  "demo_meanwhile n t = (if n = 8
     then (let k = (''OTPQUOTA#'' @ ''+8210'', ''SENDS'') in dict_put k (quota_item ''+8210'' [50] (version_at (dict_get t k) + 1) 50) t)
     else t)"

theorem dynamo_issue_atomic_witness:
  "\<exists>t' t0. dyn_issue_otp demo_meanwhile simple_ops 100 demo_challenge 60 5 100 [] = (Inr None, t') \<and>
    int (length (recent 100 (history_at (dict_get t0 (''OTPQUOTA#+8210'', ''SENDS''))))) < 5 \<and>
    history_at (dict_get t' (''OTPQUOTA#+8210'', ''SENDS'')) = recent 100 (history_at (dict_get t0 (''OTPQUOTA#+8210'', ''SENDS''))) @ [100]"
proof -
  have "fst (dyn_issue_otp demo_meanwhile simple_ops 100 demo_challenge 60 5 100 []) = Inr None" by code_simp
  then obtain t' where r: "dyn_issue_otp demo_meanwhile simple_ops 100 demo_challenge 60 5 100 [] = (Inr None, t')" by (metis prod.collapse)
  have m: "oc_msisdn demo_challenge = ''+8210''" by (simp add: demo_challenge_def)
  have adv: "advances (dict_get t (''OTPQUOTA#'' @ oc_msisdn demo_challenge, ''SENDS''))
      (dict_get (demo_meanwhile n t) (''OTPQUOTA#'' @ oc_msisdn demo_challenge, ''SENDS''))" for n t
    by (simp add: demo_meanwhile_def advances_def Let_def m)
  from dynamo_issue_atomic [OF simple_table.dynamo_table_axioms adv r] r show ?thesis
    by (auto simp: m)
qed

end
