(* ===== verification/Http.thy ===== *)
theory Http
  imports Acs_Prelude
begin

text \<open>
  What the routers of \<^verbatim>\<open>src/src/acs/api\<close> see of an HTTP exchange: requests, answers with their cookies,
  and the exceptions a handler leaves to the framework. Cookie and form parsing, the JSON and the
  multipart codecs are the framework's: a handler receives the values. \<open>urllib.parse.quote\<close> and
  \<open>urlencode\<close> are defined on UTF-8 octets; what they write contains no character that means anything
  in a URL or in HTML, and can be read back. The civil calendar is here for the pages and the log lines.
\<close>

section \<open>Requests and answers\<close>

record HttpRequest =
  rq_method :: string
  rq_scheme :: string
  rq_path :: string
  rq_query :: "(string \<times> string) list"
  rq_headers :: "(string, string) dict"
  rq_cookies :: "(string, string) dict"
  rq_client :: "string option"

record Cookie =
  ck_name :: string
  ck_value :: string
  ck_httponly :: bool
  ck_samesite :: string
  ck_secure :: bool
  ck_max_age :: int
  ck_path :: string

datatype cookie_change = SetCookie Cookie | DeleteCookie string string

record HttpResponse =
  rs_status :: int
  rs_headers :: "(string, string) dict"
  rs_media_type :: "string option"
  rs_body :: string
  rs_cookies :: "cookie_change list"

definition plain_response :: "int \<Rightarrow> (string, string) dict \<Rightarrow> HttpResponse" where
  "plain_response status headers = \<lparr>rs_status = status, rs_headers = headers, rs_media_type = None,
     rs_body = [], rs_cookies = []\<rparr>"

definition query_get :: "HttpRequest \<Rightarrow> string \<Rightarrow> string option" where
  "query_get rq name = map_of (rev (rq_query rq)) name"

text \<open>\<open>RaisedTypeError\<close> is \<open>hmac.compare_digest\<close> on text that is not ASCII; \<open>Unhandled\<close> is any other
  exception, with the name of its class.\<close>

datatype api_error =
  HTTPException int string
| SignInRedirect string
| ValidationFailed
| RaisedTypeError
| Unhandled string

section \<open>Percent encoding\<close>

definition hex_digit :: "nat \<Rightarrow> char" where
  "hex_digit n = char_of (if n < 10 then 48 + n else 55 + n)"

definition unreserved :: "char \<Rightarrow> bool" where
  "unreserved c \<longleftrightarrow> (let n = code_of c in
     (65 \<le> n \<and> n \<le> 90) \<or> (97 \<le> n \<and> n \<le> 122) \<or> (48 \<le> n \<and> n \<le> 57) \<or> n \<in> {45, 46, 95, 126})"

definition percent :: "char \<Rightarrow> string" where
  "percent c = [CHR ''%'', hex_digit (code_of c div 16), hex_digit (code_of c mod 16)]"

definition quote :: "string \<Rightarrow> string" where
  "quote s = concat (map (\<lambda>c. if unreserved c \<or> c = CHR ''/'' then [c] else percent c) (utf8 s))"

definition quote_plus :: "string \<Rightarrow> string" where
  "quote_plus s = concat (map (\<lambda>c. if unreserved c then [c] else if c = CHR '' '' then ''+'' else percent c) (utf8 s))"

definition urlencode :: "(string \<times> string) list \<Rightarrow> string" where
  "urlencode pairs = py_join ''&'' (map (\<lambda>(k, v). quote_plus k @ ''='' @ quote_plus v) pairs)"

text \<open>How a browser reads such text back.\<close>

definition hex_value :: "char \<Rightarrow> nat option" where
  "hex_value c = (let n = code_of c in
     if 48 \<le> n \<and> n \<le> 57 then Some (n - 48) else if 65 \<le> n \<and> n \<le> 70 then Some (n - 55)
     else if 97 \<le> n \<and> n \<le> 102 then Some (n - 87) else None)"

fun unquote :: "string \<Rightarrow> string" where
  "unquote (c # h # l # cs) =
     (if c = CHR ''%'' then
        (case (hex_value h, hex_value l) of
           (Some a, Some b) \<Rightarrow> char_of (16 * a + b) # unquote cs
         | _ \<Rightarrow> c # unquote (h # l # cs))
      else c # unquote (h # l # cs))"
| "unquote (c # cs) = c # unquote cs"
| "unquote [] = []"

section \<open>Dates\<close>

text \<open>\<open>time.gmtime\<close>: the civil date of a day number, counted in years that
  begin in March.\<close>

definition civil_date :: "int \<Rightarrow> int \<times> int \<times> int" where
  "civil_date days =
     (let z = days + 719468;
          era = z div 146097;
          doe = z mod 146097;
          yoe = (doe - doe div 1460 + doe div 36524 - doe div 146096) div 365;
          doy = doe - (365 * yoe + yoe div 4 - yoe div 100);
          mp = (5 * doy + 2) div 153;
          day = doy - (153 * mp + 2) div 5 + 1;
          month = (if mp < 10 then mp + 3 else mp - 9)
      in (yoe + era * 400 + (if month \<le> 2 then 1 else 0), month, day))"

definition two_digits :: "int \<Rightarrow> string" where
  "two_digits n = (if n < 10 then ''0'' @ str_of_int n else str_of_int n)"

section \<open>Properties\<close>

lemma hex_value_digit: "n < 16 \<Longrightarrow> hex_value (hex_digit n) = Some n"
  by (auto simp: hex_value_def hex_digit_def code_of_def Let_def)

lemma char_of_code [simp]: "char_of (code_of c) = c"
  by (simp add: code_of_def)

lemma unquote_percent: "unquote (percent c @ cs) = c # unquote cs"
proof -
  have "code_of c div 16 < 16" "code_of c mod 16 < 16" using code_of_less [of c] by simp_all
  moreover have "16 * (code_of c div 16) + code_of c mod 16 = code_of c" by simp
  ultimately show ?thesis by (simp add: percent_def hex_value_digit del: mult_div_mod_eq)
qed

lemma unquote_plain: "c \<noteq> CHR ''%'' \<Longrightarrow> unquote (c # cs) = c # unquote cs"
  by (cases cs rule: unquote.cases) auto

lemma unquote_concat:
  assumes "\<And>c. f c = [c] \<and> c \<noteq> CHR ''%'' \<or> f c = percent c"
  shows "unquote (concat (map f s)) = s"
proof (induction s)
  case (Cons c s)
  then show ?case using assms [of c] by (auto simp: unquote_plain unquote_percent)
qed simp

lemma unreserved_not_percent: "unreserved c \<Longrightarrow> c \<noteq> CHR ''%''"
  by (auto simp: unreserved_def code_of_def)

lemma unquote_quote: "unquote (quote s) = utf8 s"
  unfolding quote_def by (rule unquote_concat) (auto simp: unreserved_not_percent)

lemma hex_digit_unreserved: "n < 16 \<Longrightarrow> unreserved (hex_digit n)"
  by (auto simp: unreserved_def hex_digit_def code_of_def Let_def)

definition url_char :: "char \<Rightarrow> bool" where
  "url_char c \<longleftrightarrow> unreserved c \<or> c \<in> {CHR ''%'', CHR ''/'', CHR ''+''}"

lemma percent_url: "list_all url_char (percent c)"
  using code_of_less [of c] by (simp add: percent_def url_char_def hex_digit_unreserved)

lemma quote_url: "list_all url_char (quote s)"
  unfolding quote_def using percent_url by (auto simp: list_all_iff url_char_def)

lemma quote_plus_url: "list_all url_char (quote_plus s)"
  unfolding quote_plus_def using percent_url by (auto simp: list_all_iff url_char_def)

lemma civil_date_examples:
  "civil_date 0 = (1970, 1, 1)" "civil_date 11016 = (2000, 2, 29)" "civil_date 19782 = (2024, 2, 29)"
  "civil_date (-1) = (1969, 12, 31)"
  by code_simp+

end
