(* ===== verification/Conformance.thy ===== *)
theory Conformance
  imports Omacp_Catalog
begin

text \<open>
  \<^verbatim>\<open>src/src/acs/conformance.py\<close> and \<^verbatim>\<open>src/src/acs/specscope.py\<close>: the registry of specification requirements
  with their evidence, and the families that nobody has assessed. A registry file is given as its
  parsed YAML (\<^const>\<open>None\<close> when its top level is not a mapping); a \<open>CatalogError\<close> is a constructor
  instead of its English text, and a YAML list where text is expected is refused, as in the
  parameter catalogue. The syntax trees that \<open>symbol_exists\<close> walks are those of Python's \<open>ast\<close>
  restricted to what it looks at.
\<close>

section \<open>Requirements\<close>

definition LEVELS :: "string list" where
  "LEVELS = [''mandatory'', ''optional'', ''conditional'']"

definition STATUSES :: "string list" where
  "STATUSES = [''implemented'', ''not-applicable'', ''not-implemented'', ''partial'']"

definition VERIFICATIONS :: "string list" where
  "VERIFICATIONS = [''behaviour-tested'', ''code-review-only'', ''public-description-only'', ''interop-tested'',
     ''not-verified'']"

definition FORBIDDEN_CLAIM_WORDS :: "string list" where
  "FORBIDDEN_CLAIM_WORDS = [''certified'', ''certification'', ''fully compliant'', ''fully conformant'',
     ''guaranteed'', ''gsma approved'']"

definition dash_separated :: "(char \<Rightarrow> bool) \<Rightarrow> nat \<Rightarrow> string \<Rightarrow> bool" where
  "dash_separated P least s \<longleftrightarrow> (let ws = py_split CHR ''-'' s
     in least \<le> length ws \<and> list_all (\<lambda>w. w \<noteq> [] \<and> list_all P w) ws)"

definition id_char :: "char \<Rightarrow> bool" where
  "id_char c \<longleftrightarrow> (let n = code_of c in (65 \<le> n \<and> n \<le> 90) \<or> (48 \<le> n \<and> n \<le> 57))"

definition REQUIREMENT_ID_RE :: "string \<Rightarrow> bool" where
  "REQUIREMENT_ID_RE s \<longleftrightarrow> re_line (dash_separated id_char 2) s"

record Requirement =
  cr_id :: string
  cr_title :: string
  cr_spec :: string
  cr_level :: string
  cr_status :: string
  cr_verification :: string
  cr_level_verified :: bool
  cr_implemented_by :: "string list"
  cr_tests :: "string list"
  cr_gap :: string
  cr_impact :: string
  cr_note :: string
  cr_family :: string

definition is_gap :: "Requirement \<Rightarrow> bool" where
  "is_gap r \<longleftrightarrow> cr_status r \<in> {''partial'', ''not-implemented''}"

definition blocks_conformance :: "Requirement \<Rightarrow> bool" where
  "blocks_conformance r \<longleftrightarrow> cr_level r = ''mandatory'' \<and> cr_status r \<in> {''partial'', ''not-implemented''}"

definition claim_wording :: "Requirement \<Rightarrow> string" where
  "claim_wording r =
     (if cr_status r = ''implemented''
      then ''Implemented; '' @ map (\<lambda>c. if c = CHR ''-'' then CHR '' '' else c) (cr_verification r) @
        ''. No certification is claimed.''
      else if cr_status r = ''partial'' then ''Partially implemented. '' @ cr_gap r
      else if cr_status r = ''not-applicable''
      then py_strip (''Not applicable to this server. '' @ str_or (cr_note r) (cr_gap r))
      else ''Not implemented. '' @ cr_gap r)"

record RequirementSet =
  rset_id :: string
  rset_title :: string
  rset_spec :: string
  rset_role :: string
  rset_edition_pinned :: bool
  rset_requirements :: "Requirement list"

definition bump :: "(string, nat) dict \<Rightarrow> string \<Rightarrow> (string, nat) dict" where
  "bump d k = dict_put k (dict_get_or d k 0 + 1) d"

definition requirement_counts :: "RequirementSet \<Rightarrow> (string, nat) dict" where
  "requirement_counts s = fold (\<lambda>r out. bump out (cr_status r)) (rset_requirements s) (map (\<lambda>k. (k, 0)) STATUSES)"

definition mandatory_gaps :: "RequirementSet \<Rightarrow> Requirement list" where
  "mandatory_gaps s = filter blocks_conformance (rset_requirements s)"

section \<open>Loading\<close>

datatype RegistryError =
  MissingField string
| MalformedId string
| UnknownLevel string string
| UnknownStatus string string
| UnknownVerification string string
| NamesNoTest string
| NamesNoSymbol string
| DescribesNoGap string
| StatesNoImpact string
| UsesPhrase string string
| FieldNotText CatalogError
| NotMapping string
| RegistryMetaMissing string
| NoRequirements string
| DuplicateId string
| NoDirectory
| NoRegistryFiles
| IdsNotUnique
| UnknownState string string
| AssessedWithoutDocument string
| NoOpenQuestions string
| Fabricated string string
| NoFamilies string

definition as_text :: "CatalogError + 'a \<Rightarrow> RegistryError + 'a" where
  "as_text x = (case x of Inl e \<Rightarrow> Inl (FieldNotText e) | Inr a \<Rightarrow> Inr a)"

definition required_field :: "raw_entry \<Rightarrow> string \<Rightarrow> RegistryError + string" where
  "required_field raw key = (case dict_get raw key of
     None \<Rightarrow> Inl (MissingField key)
   | Some v \<Rightarrow> if v \<in> {YNull, YStr []} then Inl (MissingField key) else as_text (yaml_text key v))"

text \<open>\<open>str(raw.get(key, "") or "")\<close>.\<close>

definition text_or_empty :: "raw_entry \<Rightarrow> string \<Rightarrow> RegistryError + string" where
  "text_or_empty raw key = (case dict_get raw key of
     None \<Rightarrow> Inr []
   | Some v \<Rightarrow> if yaml_truthy v then as_text (yaml_text key v) else Inr [])"

definition raw_flag :: "raw_entry \<Rightarrow> string \<Rightarrow> bool" where
  "raw_flag raw key = (case dict_get raw key of None \<Rightarrow> False | Some v \<Rightarrow> yaml_truthy v)"

definition forbidden_word :: "string \<Rightarrow> string option" where
  "forbidden_word combined = List.find (\<lambda>w. contains w combined) FORBIDDEN_CLAIM_WORDS"

text \<open>The rules that stop a row from being a free pass.\<close>

definition evidence_problem :: "string \<Rightarrow> string \<Rightarrow> string list \<Rightarrow> string list \<Rightarrow> string \<Rightarrow> string \<Rightarrow>
    RegistryError option" where
  "evidence_problem rid status tests implemented_by gap impact =
     (if status \<in> {''implemented'', ''partial''} \<and> tests = [] then Some (NamesNoTest rid)
      else if status \<in> {''implemented'', ''partial''} \<and> implemented_by = [] then Some (NamesNoSymbol rid)
      else if status \<in> {''partial'', ''not-implemented''} \<and> gap = [] then Some (DescribesNoGap rid)
      else if status \<in> {''partial'', ''not-implemented''} \<and> impact = [] then Some (StatesNoImpact rid)
      else None)"

definition coerce_requirement :: "raw_entry \<Rightarrow> string \<Rightarrow> RegistryError + Requirement" where
  "coerce_requirement raw family =
     bind_err (required_field raw ''id'') (\<lambda>id_text.
     let rid = py_strip id_text in
     if \<not> REQUIREMENT_ID_RE rid then Inl (MalformedId rid)
     else bind_err (required_field raw ''level'') (\<lambda>level.
     if level \<notin> set LEVELS then Inl (UnknownLevel rid level)
     else bind_err (required_field raw ''status'') (\<lambda>status.
     if status \<notin> set STATUSES then Inl (UnknownStatus rid status)
     else bind_err (required_field raw ''verification'') (\<lambda>verification.
     if verification \<notin> set VERIFICATIONS then Inl (UnknownVerification rid verification)
     else bind_err (as_text (optional_texts raw ''tests'')) (\<lambda>tests.
     bind_err (as_text (optional_texts raw ''implemented_by'')) (\<lambda>implemented_by.
     bind_err (text_or_empty raw ''gap'') (\<lambda>gap.
     bind_err (text_or_empty raw ''impact'') (\<lambda>impact.
     case evidence_problem rid status tests implemented_by gap impact of Some e \<Rightarrow> Inl e
     | None \<Rightarrow>
     bind_err (as_text (plain_text raw ''title'')) (\<lambda>title_text.
     bind_err (as_text (plain_text raw ''note'')) (\<lambda>note_text.
     case forbidden_word (py_lower (py_join '' '' [title_text, gap, impact, note_text])) of
       Some w \<Rightarrow> Inl (UsesPhrase rid w)
     | None \<Rightarrow>
     bind_err (required_field raw ''title'') (\<lambda>title.
     bind_err (required_field raw ''spec'') (\<lambda>spec.
     bind_err (text_or_empty raw ''note'') (\<lambda>note.
     Inr \<lparr>cr_id = rid, cr_title = title, cr_spec = spec, cr_level = level, cr_status = status,
        cr_verification = verification, cr_level_verified = raw_flag raw ''level_verified'',
        cr_implemented_by = implemented_by, cr_tests = tests, cr_gap = gap, cr_impact = impact,
        cr_note = note, cr_family = family\<rparr>)))))))))))))"

fun coerce_requirements :: "raw_entry list \<Rightarrow> string \<Rightarrow> string list \<Rightarrow> RegistryError + Requirement list" where
  "coerce_requirements [] family seen = Inr []"
| "coerce_requirements (raw # raws) family seen =
     bind_err (coerce_requirement raw family) (\<lambda>r.
     if cr_id r \<in> set seen then Inl (DuplicateId (cr_id r))
     else bind_err (coerce_requirements raws family (cr_id r # seen)) (\<lambda>rs. Inr (r # rs)))"

fun meta_missing :: "raw_entry \<Rightarrow> string list \<Rightarrow> RegistryError option" where
  "meta_missing meta [] = None"
| "meta_missing meta (key # keys) =
     (if raw_flag meta key then meta_missing meta keys else Some (RegistryMetaMissing key))"

type_synonym registry_file = "string \<times> (raw_entry \<times> raw_entry list) option"

definition load_set :: "registry_file \<Rightarrow> RegistryError + RequirementSet" where
  "load_set file = (case file of
     (name, None) \<Rightarrow> Inl (NotMapping name)
   | (name, Some (meta, raws)) \<Rightarrow>
       (case meta_missing meta [''id'', ''title'', ''spec'', ''role''] of Some e \<Rightarrow> Inl e
        | None \<Rightarrow>
          if raws = [] then Inl (NoRequirements name)
          else bind_err (as_text (plain_text meta ''id'')) (\<lambda>id.
          bind_err (coerce_requirements raws id []) (\<lambda>requirements.
          bind_err (as_text (plain_text meta ''title'')) (\<lambda>title.
          bind_err (as_text (plain_text meta ''spec'')) (\<lambda>spec.
          bind_err (as_text (plain_text meta ''role'')) (\<lambda>role.
          Inr \<lparr>rset_id = id, rset_title = title, rset_spec = spec, rset_role = role,
             rset_edition_pinned = raw_flag meta ''spec_edition_pinned'', rset_requirements = requirements\<rparr>)))))))"

fun load_sets :: "registry_file list \<Rightarrow> RegistryError + RequirementSet list" where
  "load_sets [] = Inr []"
| "load_sets (file # files) = bind_err (load_set file) (\<lambda>s. bind_err (load_sets files) (\<lambda>ss. Inr (s # ss)))"

definition all_ids :: "RequirementSet list \<Rightarrow> string list" where
  "all_ids sets = concat (map (\<lambda>s. map cr_id (rset_requirements s)) sets)"

definition load_registry :: "registry_file list option \<Rightarrow> RegistryError + RequirementSet list" where
  "load_registry directory = (case directory of
     None \<Rightarrow> Inl NoDirectory
   | Some files \<Rightarrow>
       if files = [] then Inl NoRegistryFiles
       else bind_err (load_sets files) (\<lambda>sets.
         if \<not> distinct (all_ids sets) then Inl IdsNotUnique else Inr sets))"

definition all_requirements :: "RequirementSet list \<Rightarrow> Requirement list" where
  "all_requirements sets = concat (map rset_requirements sets)"

definition requirement_by_id :: "RequirementSet list \<Rightarrow> (string, Requirement) dict" where
  "requirement_by_id sets = fold (\<lambda>r d. dict_put (cr_id r) r d) (all_requirements sets) []"

section \<open>Code anchors\<close>

text \<open>A statement with a name and a body (a function or a class), one that binds names (an assignment),
  and any other.\<close>

datatype py_stmt = NamedStmt string "py_stmt list" | Binds "string list" | OtherStmt

fun names_of :: "py_stmt \<Rightarrow> string list" where
  "names_of (NamedStmt n body) = [n]"
| "names_of (Binds names) = names"
| "names_of OtherStmt = []"

fun walk_anchor :: "py_stmt list \<Rightarrow> string list \<Rightarrow> bool" where
  "walk_anchor [] remaining = False"
| "walk_anchor (node # nodes) [] = False"
| "walk_anchor (node # nodes) (head # rest) =
     (if head \<notin> set (names_of node) then walk_anchor nodes (head # rest)
      else if rest = [] then True
      else (case node of NamedStmt n body \<Rightarrow> walk_anchor body rest | _ \<Rightarrow> walk_anchor nodes (head # rest)))"

text \<open>\<open>anchor.partition("::")\<close>.\<close>

fun split_anchor :: "string \<Rightarrow> string \<times> string" where
  "split_anchor (a # b # cs) =
     (if a = CHR '':'' \<and> b = CHR '':'' then ([], cs)
      else (case split_anchor (b # cs) of (p, q) \<Rightarrow> (a # p, q)))"
| "split_anchor s = (s, [])"

definition symbol_exists :: "(string \<Rightarrow> py_stmt list option option) \<Rightarrow> string \<Rightarrow> bool" where
  "symbol_exists file anchor = (case split_anchor anchor of (path, symbol) \<Rightarrow>
     (case file path of
        None \<Rightarrow> False
      | Some parsed \<Rightarrow>
          if symbol = [] then True
          else (case parsed of None \<Rightarrow> False | Some body \<Rightarrow> walk_anchor body (py_split CHR ''.'' symbol))))"


section \<open>Families that are not assessed\<close>

text \<open>The citation patterns are sequences of single characters, repeated characters and word boundaries;
  \<open>re.search\<close> tries them at every position.\<close>

datatype re_step = One "char \<Rightarrow> bool" | Plus "char \<Rightarrow> bool" | Boundary

definition word_char :: "char \<Rightarrow> bool" where
  "word_char c \<longleftrightarrow> py_isalnum_char c \<or> c = CHR ''_''"

definition at_boundary :: "char option \<Rightarrow> string \<Rightarrow> bool" where
  "at_boundary before s \<longleftrightarrow>
     (case before of None \<Rightarrow> False | Some c \<Rightarrow> word_char c) \<noteq> (case s of [] \<Rightarrow> False | c # _ \<Rightarrow> word_char c)"

fun re_match :: "re_step list \<Rightarrow> char option \<Rightarrow> string \<Rightarrow> bool" where
  "re_match [] before s = True"
| "re_match (Boundary # es) before s = (at_boundary before s \<and> re_match es before s)"
| "re_match (One P # es) before [] = False"
| "re_match (One P # es) before (c # s) = (P c \<and> re_match es (Some c) s)"
| "re_match (Plus P # es) before [] = False"
| "re_match (Plus P # es) before (c # s) =
     (P c \<and> (re_match es (Some c) s \<or> re_match (Plus P # es) (Some c) s))"

fun re_search :: "re_step list \<Rightarrow> char option \<Rightarrow> string \<Rightarrow> bool" where
  "re_search es before [] = re_match es before []"
| "re_search es before (c # s) = (re_match es before (c # s) \<or> re_search es (Some c) s)"

definition same_letter :: "char \<Rightarrow> char \<Rightarrow> bool" where
  "same_letter c d \<longleftrightarrow> py_lower_char c = py_lower_char d"

definition literal :: "string \<Rightarrow> re_step list" where
  "literal w = map (\<lambda>c. One (same_letter c)) w"

definition CITATION_PATTERNS :: "(re_step list \<times> string) list" where
  "CITATION_PATTERNS = [
     (literal ''TTAK'', ''a TTA standard number''),
     (literal ''TTAS'', ''a TTA standard number''),
     (literal ''TTAE'', ''a TTA standard number''),
     (literal [CHR 0xA7], ''a clause marker''),
     (Boundary # literal ''clause'' @ [Plus py_isspace_char, One is_decimal], ''a clause number''),
     (Boundary # literal ''section'' @ [Plus py_isspace_char, Plus is_decimal, One ((=) CHR ''.''), One is_decimal],
        ''a section number''),
     ([Boundary, Plus is_decimal, One ((=) CHR ''.''), Plus is_decimal, One ((=) CHR ''.''), Plus is_decimal, Boundary],
        ''a dotted clause number''),
     (Boundary # literal ''Annex'' @
        [Plus py_isspace_char, One (\<lambda>c. \<exists>u\<in>set ''ABCDEFGHIJKLMNOPQRSTUVWXYZ''. same_letter u c), Boundary],
        ''an annex reference'')]"

definition FAMILY_ID_RE :: "string \<Rightarrow> bool" where
  "FAMILY_ID_RE s \<longleftrightarrow> re_line (dash_separated
     (\<lambda>c. let n = code_of c in (97 \<le> n \<and> n \<le> 122) \<or> (48 \<le> n \<and> n \<le> 57)) 1) s"

definition FAMILY_STATES :: "string list" where
  "FAMILY_STATES = [''not-assessed'', ''assessed'', ''not-applicable'']"

record SpecFamily =
  sf_id :: string
  sf_title :: string
  sf_jurisdiction :: string
  sf_state :: string
  sf_document_held :: bool
  sf_why_in_scope :: string
  sf_obtain_from :: string
  sf_publicly_knowable :: "string list"
  sf_open_questions :: "string list"
  sf_related_gaps :: "string list"
  sf_note :: string

definition blocks_assessment :: "SpecFamily \<Rightarrow> bool" where
  "blocks_assessment f \<longleftrightarrow> sf_state f = ''not-assessed''"

definition family_summary :: "SpecFamily \<Rightarrow> string" where
  "family_summary f =
     (if sf_state f = ''assessed'' then ''Assessed; see the conformance registry.''
      else if sf_state f = ''not-applicable'' then py_strip (''Out of scope. '' @ sf_note f)
      else ''Not assessed: the document is not held, so no requirement, level or count can be stated.'')"

definition family_haystack :: "SpecFamily \<Rightarrow> string" where
  "family_haystack f = py_join '' '' ([sf_title f, sf_why_in_scope f, sf_obtain_from f, sf_note f] @
     sf_publicly_knowable f @ sf_open_questions f)"

definition validate_no_fabricated_citations :: "SpecFamily \<Rightarrow> RegistryError option" where
  "validate_no_fabricated_citations f =
     (if sf_document_held f then None
      else (case List.find (\<lambda>(p, d). re_search p None (family_haystack f)) CITATION_PATTERNS of
              None \<Rightarrow> None | Some (p, description) \<Rightarrow> Some (Fabricated (sf_id f) description)))"

fun family_missing :: "raw_entry \<Rightarrow> string list \<Rightarrow> RegistryError option" where
  "family_missing raw [] = None"
| "family_missing raw (key # keys) = (if raw_flag raw key then family_missing raw keys else Some (MissingField key))"

definition stripped_texts :: "raw_entry \<Rightarrow> string \<Rightarrow> RegistryError + string list" where
  "stripped_texts raw key = bind_err (as_text (optional_texts raw key)) (\<lambda>xs. Inr (map py_strip xs))"

definition coerce_family :: "raw_entry \<Rightarrow> RegistryError + SpecFamily" where
  "coerce_family raw =
     (case family_missing raw [''id'', ''title'', ''jurisdiction'', ''state'', ''why_in_scope'', ''obtain_from''] of
        Some e \<Rightarrow> Inl e
      | None \<Rightarrow>
        bind_err (as_text (plain_text raw ''id'')) (\<lambda>id_text.
        let fid = py_strip id_text in
        if \<not> FAMILY_ID_RE fid then Inl (MalformedId fid)
        else bind_err (as_text (plain_text raw ''state'')) (\<lambda>state.
        if state \<notin> set FAMILY_STATES then Inl (UnknownState fid state)
        else if state = ''assessed'' \<and> \<not> raw_flag raw ''document_held'' then Inl (AssessedWithoutDocument fid)
        else if state = ''not-assessed'' \<and> \<not> raw_flag raw ''open_questions'' then Inl (NoOpenQuestions fid)
        else bind_err (as_text (plain_text raw ''title'')) (\<lambda>title.
        bind_err (as_text (plain_text raw ''jurisdiction'')) (\<lambda>jurisdiction.
        bind_err (as_text (plain_text raw ''why_in_scope'')) (\<lambda>why.
        bind_err (as_text (plain_text raw ''obtain_from'')) (\<lambda>obtain_from.
        bind_err (stripped_texts raw ''publicly_knowable'') (\<lambda>knowable.
        bind_err (stripped_texts raw ''open_questions'') (\<lambda>questions.
        bind_err (stripped_texts raw ''related_gaps'') (\<lambda>gaps.
        bind_err (text_or_empty raw ''note'') (\<lambda>note.
        let family = \<lparr>sf_id = fid, sf_title = title, sf_jurisdiction = jurisdiction, sf_state = state,
          sf_document_held = raw_flag raw ''document_held'', sf_why_in_scope = py_strip why,
          sf_obtain_from = py_strip obtain_from, sf_publicly_knowable = knowable, sf_open_questions = questions,
          sf_related_gaps = gaps, sf_note = py_strip note\<rparr>
        in (case validate_no_fabricated_citations family of Some e \<Rightarrow> Inl e | None \<Rightarrow> Inr family))))))))))))"

fun coerce_families :: "raw_entry list \<Rightarrow> string list \<Rightarrow> RegistryError + SpecFamily list" where
  "coerce_families [] seen = Inr []"
| "coerce_families (raw # raws) seen =
     bind_err (coerce_family raw) (\<lambda>f.
     if sf_id f \<in> set seen then Inl (DuplicateId (sf_id f))
     else bind_err (coerce_families raws (sf_id f # seen)) (\<lambda>fs. Inr (f # fs)))"

type_synonym scope_file = "string \<times> raw_entry list option"

fun load_scope_files :: "scope_file list \<Rightarrow> string list \<Rightarrow> RegistryError + SpecFamily list" where
  "load_scope_files [] seen = Inr []"
| "load_scope_files ((name, data) # files) seen =
     (case data of
        None \<Rightarrow> Inl (NotMapping name)
      | Some raws \<Rightarrow>
          if raws = [] then Inl (NoFamilies name)
          else bind_err (coerce_families raws seen) (\<lambda>fs.
            bind_err (load_scope_files files (rev (map sf_id fs) @ seen)) (\<lambda>rest. Inr (fs @ rest))))"

definition load_families :: "scope_file list option \<Rightarrow> RegistryError + SpecFamily list" where
  "load_families directory = (case directory of
     None \<Rightarrow> Inl NoDirectory
   | Some files \<Rightarrow> if files = [] then Inl NoRegistryFiles else load_scope_files files [])"

definition unassessed :: "SpecFamily list \<Rightarrow> SpecFamily list" where
  "unassessed families = filter blocks_assessment families"

section \<open>Soundness of the registry\<close>

text \<open>What a row of the registry may say.\<close>

definition requirement_ok :: "Requirement \<Rightarrow> bool" where
  "requirement_ok r \<longleftrightarrow> REQUIREMENT_ID_RE (cr_id r) \<and> cr_level r \<in> set LEVELS \<and> cr_status r \<in> set STATUSES \<and>
     cr_verification r \<in> set VERIFICATIONS \<and>
     (cr_status r \<in> {''implemented'', ''partial''} \<longrightarrow> cr_tests r \<noteq> [] \<and> cr_implemented_by r \<noteq> []) \<and>
     (is_gap r \<longrightarrow> cr_gap r \<noteq> [] \<and> cr_impact r \<noteq> []) \<and>
     (\<forall>w\<in>set FORBIDDEN_CLAIM_WORDS. \<forall>t\<in>{cr_title r, cr_gap r, cr_impact r, cr_note r}. \<not> contains w (py_lower t))"

lemma as_text_Inr [simp]: "as_text x = Inr a \<longleftrightarrow> x = Inr a"
  by (cases x) (simp_all add: as_text_def)

lemma required_field_Inr:
  "required_field raw key = Inr t \<Longrightarrow> plain_text raw key = Inr t"
  by (auto simp: required_field_def plain_text_def split: option.splits if_splits)

lemma text_or_empty_Inr:
  "text_or_empty raw key = Inr t \<Longrightarrow> t = [] \<or> plain_text raw key = Inr t"
  by (auto simp: text_or_empty_def plain_text_def split: option.splits if_splits)

lemma evidence_problem_None:
  "evidence_problem rid status tests impl gap impact = None \<longleftrightarrow>
    (status \<in> {''implemented'', ''partial''} \<longrightarrow> tests \<noteq> [] \<and> impl \<noteq> []) \<and>
    (status \<in> {''partial'', ''not-implemented''} \<longrightarrow> gap \<noteq> [] \<and> impact \<noteq> [])"
  unfolding evidence_problem_def by (simp split: if_splits) blast

lemma forbidden_word_None:
  assumes "forbidden_word (py_lower (py_join '' '' [a, b, c, d])) = None" "w \<in> set FORBIDDEN_CLAIM_WORDS"
  shows "\<forall>t\<in>{a, b, c, d}. \<not> contains w (py_lower t)"
proof -
  have low: "py_lower (py_join '' '' [a, b, c, d]) = py_lower a @ py_lower '' '' @ py_lower b @ py_lower '' '' @
      py_lower c @ py_lower '' '' @ py_lower d"
    by (simp add: py_lower_def)
  have "\<not> contains w (py_lower (py_join '' '' [a, b, c, d]))"
    using assms by (auto simp: forbidden_word_def find_None_iff)
  then show ?thesis
    unfolding low contains_def by (auto simp: sublist_append)
qed


lemma guard_Inr: "(if b then Inl e else x) = Inr y \<longleftrightarrow> \<not> b \<and> x = Inr y"
  by simp

lemma problem_Inr: "(case p of None \<Rightarrow> x | Some e \<Rightarrow> Inl (f e)) = Inr y \<longleftrightarrow> p = None \<and> x = Inr y"
  by (simp split: option.split)

lemmas checked_Inr = bind_err_Inr guard_Inr problem_Inr as_text_Inr sum.inject not_not

lemma coerce_requirement_ok:
  assumes "coerce_requirement raw family = Inr r"
  shows "requirement_ok r \<and> cr_family r = family"
proof -
  from assms obtain title_text note_text where
    basic: "REQUIREMENT_ID_RE (cr_id r)" "cr_level r \<in> set LEVELS" "cr_status r \<in> set STATUSES"
      "cr_verification r \<in> set VERIFICATIONS" "cr_family r = family" and
    ev: "evidence_problem (cr_id r) (cr_status r) (cr_tests r) (cr_implemented_by r) (cr_gap r) (cr_impact r) = None" and
    texts: "plain_text raw ''title'' = Inr title_text" "plain_text raw ''note'' = Inr note_text"
      "required_field raw ''title'' = Inr (cr_title r)" "text_or_empty raw ''note'' = Inr (cr_note r)" and
    fw: "forbidden_word (py_lower (py_join '' '' [title_text, cr_gap r, cr_impact r, note_text])) = None"
    unfolding coerce_requirement_def Let_def
    unfolding checked_Inr by (elim exE conjE, hypsubst) simp
  have "title_text = cr_title r" using required_field_Inr [OF texts(3)] texts(1) by simp
  moreover have "cr_note r = [] \<or> note_text = cr_note r" using text_or_empty_Inr [OF texts(4)] texts(2) by auto
  moreover have "\<not> contains w []" if "w \<in> set FORBIDDEN_CLAIM_WORDS" for w
    using that by (auto simp: FORBIDDEN_CLAIM_WORDS_def contains_def)
  ultimately have "\<forall>w\<in>set FORBIDDEN_CLAIM_WORDS. \<forall>t\<in>{cr_title r, cr_gap r, cr_impact r, cr_note r}.
      \<not> contains w (py_lower t)"
    using forbidden_word_None [OF fw] by (auto simp: py_lower_def)
  with basic ev show ?thesis
    unfolding evidence_problem_None by (auto simp: requirement_ok_def is_gap_def)
qed


lemma coerce_requirements_ok:
  "coerce_requirements raws family seen = Inr rs \<Longrightarrow>
    list_all requirement_ok rs \<and> list_all (\<lambda>r. cr_family r = family) rs \<and> length rs = length raws"
  by (induction raws family seen arbitrary: rs rule: coerce_requirements.induct)
    (auto simp: checked_Inr dest: coerce_requirement_ok)

definition set_ok :: "RequirementSet \<Rightarrow> bool" where
  "set_ok s \<longleftrightarrow> rset_requirements s \<noteq> [] \<and> list_all requirement_ok (rset_requirements s) \<and>
     list_all (\<lambda>r. cr_family r = rset_id s) (rset_requirements s)"

lemma load_set_ok:
  assumes "load_set file = Inr s"
  shows "set_ok s"
proof -
  obtain name data where fd: "file = (name, data)" by (cases "file")
  with assms obtain meta raws where d: "data = Some (meta, raws)" by (cases data) (auto simp: load_set_def)
  from assms have "raws \<noteq> [] \<and> coerce_requirements raws (rset_id s) [] = Inr (rset_requirements s)"
    unfolding fd d load_set_def prod.case option.case checked_Inr by (elim exE conjE, hypsubst) simp
  with coerce_requirements_ok [of raws "rset_id s" "[]" "rset_requirements s"] show ?thesis
    by (auto simp: set_ok_def)
qed

lemma load_sets_ok: "load_sets files = Inr sets \<Longrightarrow> list_all set_ok sets \<and> length sets = length files"
  by (induction files arbitrary: sets) (auto simp: checked_Inr dest: load_set_ok)

text \<open>\<open>counts\<close> accounts for every requirement.\<close>

lemma sum_list_bump:
  assumes "distinct (map fst d)"
  shows "sum_list (map snd (bump d k)) = sum_list (map snd d) + 1"
  using assms
proof (induction d)
  case (Cons p d)
  have nin: "map_of d k = None \<longleftrightarrow> k \<notin> fst ` set d" by (simp add: map_of_eq_None_iff)
  show ?case
  proof (cases "fst p = k")
    case True
    then show ?thesis by (cases p) (simp add: bump_def dict_put_def dict_get_or_def)
  next
    case False
    then have "bump (p # d) k = p # bump d k"
      by (cases p) (simp add: bump_def dict_put_def dict_get_or_def)
    with Cons show ?thesis by simp
  qed
qed (simp add: bump_def dict_put_def dict_get_or_def)

lemma bump_distinct: "distinct (map fst d) \<Longrightarrow> distinct (map fst (bump d k))"
  by (simp add: bump_def dict_put_distinct)

lemma fold_bump:
  "distinct (map fst d) \<Longrightarrow>
   sum_list (map snd (fold (\<lambda>r out. bump out (f r)) rs d)) = sum_list (map snd d) + length rs"
  by (induction rs arbitrary: d) (simp_all add: sum_list_bump bump_distinct)

lemma fold_bump_get:
  "dict_get_or (fold (\<lambda>r out. bump out (f r)) rs d) k 0 = dict_get_or d k 0 + length (filter (\<lambda>r. f r = k) rs)"
proof (induction rs arbitrary: d)
  case (Cons r rs)
  have "dict_get_or (bump d x) k 0 = dict_get_or d k 0 + (if x = k then 1 else 0)" for x
    using dict_get_put [of x "dict_get_or d x 0 + 1" d k]
    by (auto simp: bump_def dict_get_or_def dict_get_def)
  with Cons show ?case by simp
qed simp

lemma requirement_counts_exact:
  "dict_get_or (requirement_counts s) k 0 = length (filter (\<lambda>r. cr_status r = k) (rset_requirements s))"
  unfolding requirement_counts_def fold_bump_get by (simp add: dict_get_or_def STATUSES_def)

lemma requirement_counts_sum: "sum_list (map snd (requirement_counts s)) = length (rset_requirements s)"
  unfolding requirement_counts_def by (subst fold_bump) (simp_all add: STATUSES_def)

text \<open>
  A conformance registry that loads tells the truth about itself: requirement ids are unique over
  all families; a row that claims to be implemented or partial names a test and a source symbol, one
  that is partial or missing states the gap and its impact, none uses a word of certification; the
  counts of a family are the numbers of its rows with each status and sum up to all of them, and
  every mandatory row that is not implemented is listed among the gaps.
\<close>

theorem registry_sound:
  assumes "load_registry directory = Inr sets"
  shows "sets \<noteq> [] \<and> distinct (all_ids sets) \<and> list_all requirement_ok (all_requirements sets) \<and>
    (\<forall>s\<in>set sets. (\<forall>k. dict_get_or (requirement_counts s) k 0 =
        length (filter (\<lambda>r. cr_status r = k) (rset_requirements s))) \<and>
      sum_list (map snd (requirement_counts s)) = length (rset_requirements s) \<and>
      (\<forall>r\<in>set (rset_requirements s). r \<in> set (mandatory_gaps s) \<longleftrightarrow>
         cr_level r = ''mandatory'' \<and> cr_status r \<notin> {''implemented'', ''not-applicable''}))"
proof -
  from assms obtain files where f: "files \<noteq> []" "load_sets files = Inr sets" "distinct (all_ids sets)"
    by (auto simp: load_registry_def checked_Inr split: option.splits)
  then have ok: "list_all set_ok sets" and ne: "sets \<noteq> []" using load_sets_ok [OF f(2)] by auto
  from ok have all: "list_all requirement_ok (all_requirements sets)"
    by (auto simp: all_requirements_def set_ok_def list_all_iff)
  have "cr_status r \<in> {''partial'', ''not-implemented''} \<longleftrightarrow> cr_status r \<notin> {''implemented'', ''not-applicable''}"
    if "r \<in> set (rset_requirements s)" "s \<in> set sets" for r s
    using ok that by (auto simp: list_all_iff set_ok_def requirement_ok_def STATUSES_def)
  with f(3) ne all show ?thesis
    by (auto simp: requirement_counts_exact requirement_counts_sum mandatory_gaps_def blocks_conformance_def)
qed

definition demo_requirement :: "string \<Rightarrow> string \<Rightarrow> raw_entry" where
  "demo_requirement rid status = [(''id'', YStr rid), (''title'', YStr ''Digest check''), (''spec'', YStr ''RCC.14''),
     (''level'', YStr ''mandatory''), (''status'', YStr status), (''verification'', YStr ''behaviour-tested''),
     (''tests'', YList [YStr ''tests/a.py::t'']), (''implemented_by'', YList [YStr ''src/a.py::f'']),
     (''gap'', YStr ''no rekeying''), (''impact'', YStr ''minor'')]"

definition demo_registry :: "registry_file list" where
  "demo_registry = [(''a.yaml'', Some ([(''id'', YStr ''rcc14''), (''title'', YStr ''RCC.14''),
     (''spec'', YStr ''RCC.14''), (''role'', YStr ''server'')],
     [demo_requirement ''AUTH-1'' ''implemented'', demo_requirement ''AUTH-2'' ''partial'']))]"

theorem registry_sound_witness:
  "\<exists>sets. load_registry (Some demo_registry) = Inr sets \<and> list_all requirement_ok (all_requirements sets) \<and>
     all_ids sets = [''AUTH-1'', ''AUTH-2'']"
proof -
  have "case load_registry (Some demo_registry) of Inl _ \<Rightarrow> False | Inr sets \<Rightarrow> all_ids sets = [''AUTH-1'', ''AUTH-2'']"
    by code_simp
  from case_InrD [OF this] obtain sets where
    s: "load_registry (Some demo_registry) = Inr sets \<and> all_ids sets = [''AUTH-1'', ''AUTH-2'']" ..
  with registry_sound [OF conjunct1 [OF s]] show ?thesis by (intro exI [of _ sets]) simp
qed


section \<open>Soundness of the scope list\<close>

lemma re_match_literal: "re_match (literal w) before s \<longleftrightarrow> prefix (py_lower w) (py_lower s)"
proof (induction w arbitrary: before s)
  case (Cons c w)
  then show ?case by (cases s) (auto simp: literal_def py_lower_def same_letter_def)
qed (simp add: literal_def py_lower_def)

lemma re_search_literal: "re_search (literal w) before s \<longleftrightarrow> contains (py_lower w) (py_lower s)"
proof (induction s arbitrary: before)
  case Nil
  then show ?case by (simp add: re_match_literal contains_def py_lower_def)
next
  case (Cons c s)
  have "contains (py_lower w) (py_lower (c # s)) \<longleftrightarrow>
      prefix (py_lower w) (py_lower (c # s)) \<or> contains (py_lower w) (py_lower s)"
    by (simp add: contains_def py_lower_def sublist_Cons_right)
  with Cons show ?case by (simp add: re_match_literal)
qed

definition family_ok :: "SpecFamily \<Rightarrow> bool" where
  "family_ok f \<longleftrightarrow> FAMILY_ID_RE (sf_id f) \<and> sf_state f \<in> set FAMILY_STATES \<and>
     (sf_state f = ''assessed'' \<longrightarrow> sf_document_held f) \<and>
     (blocks_assessment f \<longrightarrow> sf_open_questions f \<noteq> []) \<and>
     (\<not> sf_document_held f \<longrightarrow> (\<forall>(p, d)\<in>set CITATION_PATTERNS. \<not> re_search p None (family_haystack f)))"

lemma optional_texts_flag: "optional_texts raw key = Inr xs \<Longrightarrow> raw_flag raw key \<Longrightarrow> xs \<noteq> []"
  by (auto simp: optional_texts_def raw_flag_def checked_Inr split: option.splits yaml.splits list.splits if_splits)

lemma no_citation:
  "validate_no_fabricated_citations f = None \<longleftrightarrow>
    sf_document_held f \<or> (\<forall>(p, d)\<in>set CITATION_PATTERNS. \<not> re_search p None (family_haystack f))"
proof -
  have "(case x of None \<Rightarrow> None | Some (p, d) \<Rightarrow> Some (Fabricated i d)) = None \<longleftrightarrow> x = None"
    for x :: "(re_step list \<times> string) option" and i
    by (auto split: option.split)
  then show ?thesis
    by (auto simp: validate_no_fabricated_citations_def find_None_iff)
qed

lemma coerce_family_ok:
  assumes "coerce_family raw = Inr f"
  shows "family_ok f"
proof -
  from assms have
    "FAMILY_ID_RE (sf_id f) \<and> sf_state f \<in> set FAMILY_STATES \<and> \<not> (sf_state f = ''assessed'' \<and> \<not> sf_document_held f) \<and>
     \<not> (sf_state f = ''not-assessed'' \<and> \<not> raw_flag raw ''open_questions'') \<and>
     (\<exists>qs. optional_texts raw ''open_questions'' = Inr qs \<and> sf_open_questions f = map py_strip qs) \<and>
     validate_no_fabricated_citations f = None"
    unfolding coerce_family_def Let_def stripped_texts_def checked_Inr by (elim exE conjE, hypsubst) simp
  then show ?thesis
    unfolding family_ok_def no_citation blocks_assessment_def using optional_texts_flag by auto
qed

lemma coerce_families_ok:
  "coerce_families raws seen = Inr fs \<Longrightarrow>
    list_all family_ok fs \<and> distinct (map sf_id fs) \<and> set (map sf_id fs) \<inter> set seen = {} \<and> length fs = length raws"
proof (induction raws seen arbitrary: fs rule: coerce_families.induct)
  case (2 raw raws seen)
  then obtain f fs' where f: "coerce_family raw = Inr f" "sf_id f \<notin> set seen" "fs = f # fs'"
    and fs': "coerce_families raws (sf_id f # seen) = Inr fs'"
    by (auto simp: checked_Inr)
  from 2(1) [OF f(1,2) fs'] coerce_family_ok [OF f(1)] f(2,3) show ?case by auto
qed simp

lemma load_scope_files_ok:
  "load_scope_files files seen = Inr fs \<Longrightarrow>
    list_all family_ok fs \<and> distinct (map sf_id fs) \<and> set (map sf_id fs) \<inter> set seen = {}"
proof (induction files seen arbitrary: fs rule: load_scope_files.induct)
  case (2 name data files seen)
  then obtain raws gs hs where d: "data = Some raws" "raws \<noteq> []" "coerce_families raws seen = Inr gs" "fs = gs @ hs"
    and hs: "load_scope_files files (rev (map sf_id gs) @ seen) = Inr hs"
    by (auto simp: checked_Inr split: option.splits)
  from 2(1) [OF d(1,2,3) hs] coerce_families_ok [OF d(3)] d(4) show ?case by auto
qed simp

text \<open>
  A scope list that loads invents nothing: family ids are unique, an assessed family is one whose
  document is held, a family that is not assessed says what the document would have to answer, and
  the text of a family whose document is not held contains no TTA standard number, no clause, section
  or annex reference, in whatever case it is written.
\<close>

theorem families_sound:
  assumes "load_families directory = Inr families"
  shows "distinct (map sf_id families) \<and>
    (\<forall>f\<in>set families. (sf_state f = ''assessed'' \<longrightarrow> sf_document_held f) \<and>
      (f \<in> set (unassessed families) \<longrightarrow> sf_open_questions f \<noteq> []) \<and>
      (\<not> sf_document_held f \<longrightarrow> (\<forall>(p, d)\<in>set CITATION_PATTERNS. \<not> re_search p None (family_haystack f)) \<and>
         (\<forall>w\<in>{''ttak'', ''ttas'', ''ttae''}. \<not> contains w (py_lower (family_haystack f)))))"
proof -
  from assms obtain files where "load_scope_files files [] = Inr families"
    by (auto simp: load_families_def checked_Inr split: option.splits)
  from load_scope_files_ok [OF this]
  have ok: "list_all family_ok families" and dist: "distinct (map sf_id families)" by simp_all
  have low: "py_lower ''TTAK'' = ''ttak''" "py_lower ''TTAS'' = ''ttas''" "py_lower ''TTAE'' = ''ttae''"
    by code_simp+
  have "\<forall>w\<in>{''ttak'', ''ttas'', ''ttae''}. \<not> contains w (py_lower t)"
    if "\<forall>(p, d)\<in>set CITATION_PATTERNS. \<not> re_search p None t" for t
    using that by (simp add: CITATION_PATTERNS_def re_search_literal low)
  with ok dist show ?thesis
    by (auto simp: list_all_iff family_ok_def unassessed_def)
qed

definition demo_family :: raw_entry where
  "demo_family = [(''id'', YStr ''kr''), (''title'', YStr ''T''), (''jurisdiction'', YStr ''KR''),
     (''state'', YStr ''not-assessed''), (''why_in_scope'', YStr ''w''), (''obtain_from'', YStr ''o''),
     (''open_questions'', YList [YStr ''q?''])]"

theorem families_sound_witness:
  "\<exists>families. load_families (Some [(''kr.yaml'', Some [demo_family])]) = Inr families \<and>
     map sf_id (unassessed families) = [''kr''] \<and> distinct (map sf_id families) \<and>
     load_families (Some [(''kr.yaml'', Some [dict_put ''note'' (YStr ''Clause 7'') demo_family])]) =
       Inl (Fabricated ''kr'' ''a clause number'')"
proof -
  have "case load_families (Some [(''kr.yaml'', Some [demo_family])]) of
      Inl _ \<Rightarrow> False | Inr families \<Rightarrow> map sf_id (unassessed families) = [''kr'']"
    by code_simp
  from case_InrD [OF this] obtain families where
    f: "load_families (Some [(''kr.yaml'', Some [demo_family])]) = Inr families \<and>
      map sf_id (unassessed families) = [''kr'']" ..
  moreover have "load_families (Some [(''kr.yaml'', Some [dict_put ''note'' (YStr ''Clause 7'') demo_family])]) =
       Inl (Fabricated ''kr'' ''a clause number'')"
    by code_simp
  ultimately show ?thesis using families_sound [OF conjunct1 [OF f]] by (intro exI [of _ families]) simp
qed

section \<open>Anchors\<close>

text \<open>An anchor resolves to the first definition of each name, and only through definitions: unrelated
  statements before it do not matter.\<close>

lemma walk_skip:
  assumes "list_all (\<lambda>n. head \<notin> set (names_of n)) before"
  shows "walk_anchor (before @ nodes) (head # rest) = walk_anchor nodes (head # rest)"
  using assms by (induction before) auto

lemma walk_member:
  assumes "list_all (\<lambda>n. cls \<notin> set (names_of n)) before"
  shows "walk_anchor (before @ NamedStmt cls body # after) [cls, method] \<longleftrightarrow> (\<exists>n\<in>set body. method \<in> set (names_of n))"
proof -
  have "walk_anchor ns [m] \<longleftrightarrow> (\<exists>n\<in>set ns. m \<in> set (names_of n))" for ns m
    by (induction ns) auto
  then show ?thesis by (simp add: walk_skip [OF assms])
qed

end
