(* ===== verification/Admin.thy ===== *)
theory Admin
  imports Provisioning Http Conformance Motree
begin

text \<open>
  \<^verbatim>\<open>src/src/acs/api/admin.py\<close>: the operator's JSON interface. A handler is a function of the application
  state and the store; what it raises is an \<^typ>\<open>api_error\<close>, and the store keeps what was written before.
  The framework runs the dependency \<open>require_admin\<close> before the handler; a request body that pydantic
  refuses, or a query parameter outside its bounds, is \<open>ValidationFailed\<close> (422). Logging is left out.
\<close>

section \<open>Application state\<close>

text \<open>\<^verbatim>\<open>api/deps.py\<close>'s container, as far as the routers read it: the settings, the process-wide settings
  that the request validators consult, time, randomness and hashing, and the loaded catalogues.\<close>

record AppState =
  app_settings :: Settings
  app_global_settings :: Settings
  app_clock :: int
  app_sha :: "string \<Rightarrow> string"
  app_hmac :: "string \<Rightarrow> string \<Rightarrow> string"
  app_b64encode :: "string \<Rightarrow> string"
  app_b64decode :: "string \<Rightarrow> string option"
  app_token :: string
  app_random :: "nat \<Rightarrow> string"
  app_get_catalog :: "string \<Rightarrow> CatalogError + CatalogEntry list"
  app_profiles :: "string list"
  app_get_tree :: "mo_error + MoTree"
  app_registry :: "RegistryError + RequirementSet list"
  app_families :: "RegistryError + SpecFamily list"
  app_sms_name :: string

type_synonym 'a api = "MemoryStore \<Rightarrow> (api_error + 'a) \<times> MemoryStore"

definition require_admin :: "Settings \<Rightarrow> string \<Rightarrow> api_error + unit" where
  "require_admin st authorization =
     (if set_admin_token st = []
      then Inl (HTTPException 503 ''admin API disabled: ACS_ADMIN_TOKEN is not configured'')
      else (case py_partition CHR '' '' authorization of (scheme, found, token) \<Rightarrow>
        if py_lower scheme \<noteq> ''bearer'' then Inl (HTTPException 401 ''invalid admin credentials'')
        else (case compare_digest token (set_admin_token st) of
                None \<Rightarrow> Inl RaisedTypeError
              | Some equal \<Rightarrow> if equal then Inr () else Inl (HTTPException 401 ''invalid admin credentials''))))"

section \<open>Subscribers in and out\<close>

record SubscriberIn =
  si_msisdn :: string
  si_entitled :: bool
  si_rcs_profile :: string
  si_provisioning_version :: int
  si_forced_vers :: "int option"
  si_imei_allowlist :: "string list"
  si_overrides :: "(string, string) dict"
  si_volte_enabled :: bool

text \<open>The field validators: the number is replaced by its canonical form.\<close>

definition validate_subscriber_in :: "Settings \<Rightarrow> SubscriberIn \<Rightarrow> api_error + SubscriberIn" where
  "validate_subscriber_in global p =
     (case normalise_msisdn (Some (si_msisdn p)) (set_default_country_code global) (set_national_trunk_prefix global) of
        None \<Rightarrow> Inl ValidationFailed
      | Some m \<Rightarrow>
          if si_provisioning_version p < 0 then Inl ValidationFailed
          else if (case si_forced_vers p of None \<Rightarrow> False | Some v \<Rightarrow> v \<notin> set FORCEABLE_VERSIONS)
          then Inl ValidationFailed
          else Inr (p\<lparr>si_msisdn := m\<rparr>))"

record SubscriberOut =
  so_imsi :: string
  so_msisdn :: string
  so_entitled :: bool
  so_provisioning_version :: int
  so_forced_vers :: "int option"
  so_rcs_profile :: string
  so_volte_enabled :: bool
  so_imei_allowlist :: "string list"
  so_overrides :: "(string, string) dict"
  so_dm_bootstrapped :: bool
  so_updated_at :: int

definition subscriber_out :: "Subscriber \<Rightarrow> SubscriberOut" where
  "subscriber_out s = \<lparr>so_imsi = sub_imsi s, so_msisdn = sub_msisdn s, so_entitled = sub_entitled s,
     so_provisioning_version = sub_provisioning_version s, so_forced_vers = sub_forced_vers s,
     so_rcs_profile = sub_rcs_profile s, so_volte_enabled = sub_volte_enabled s,
     so_imei_allowlist = sub_imei_allowlist s, so_overrides = sub_overrides s,
     so_dm_bootstrapped = (sub_dm_password s \<noteq> []), so_updated_at = sub_updated_at s\<rparr>"

definition load_subscriber :: "string \<Rightarrow> MemoryStore \<Rightarrow> api_error + Subscriber" where
  "load_subscriber imsi s = (case get_subscriber s imsi of
     None \<Rightarrow> Inl (HTTPException 404 ''subscriber not found'') | Some sub \<Rightarrow> Inr sub)"

text \<open>A handler that begins with \<open>_load\<close>.\<close>

definition with_subscriber :: "string \<Rightarrow> (Subscriber \<Rightarrow> 'a api) \<Rightarrow> 'a api" where
  "with_subscriber imsi f s = bind_step (load_subscriber imsi s, s) f"

definition page_limit :: "int \<Rightarrow> api_error + unit" where
  "page_limit limit = (if 1 \<le> limit \<and> limit \<le> 1000 then Inr () else Inl ValidationFailed)"

section \<open>Handlers\<close>

definition admin_list_subscribers :: "int \<Rightarrow> SubscriberOut list api" where
  "admin_list_subscribers limit s = bind_step (page_limit limit, s)
     (\<lambda>_ s. (Inr (map subscriber_out (list_subscribers s limit)), s))"

definition admin_get_subscriber :: "string \<Rightarrow> SubscriberOut api" where
  "admin_get_subscriber imsi = with_subscriber imsi (\<lambda>sub s. (Inr (subscriber_out sub), s))"

definition imsi_format :: "string \<Rightarrow> bool" where
  "imsi_format imsi \<longleftrightarrow> py_isdigit imsi \<and> 5 \<le> length imsi \<and> length imsi \<le> 15"

definition admin_put_subscriber :: "AppState \<Rightarrow> string \<Rightarrow> SubscriberIn \<Rightarrow> SubscriberOut api" where
  "admin_put_subscriber app imsi body s =
     bind_step (validate_subscriber_in (app_global_settings app) body, s) (\<lambda>payload s.
     if \<not> imsi_format imsi then (Inl (HTTPException 400 ''IMSI must be 5-15 digits''), s)
     else
       (let sub = \<lparr>sub_imsi = imsi, sub_msisdn = si_msisdn payload, sub_entitled = si_entitled payload,
              sub_provisioning_version = si_provisioning_version payload, sub_forced_vers = si_forced_vers payload,
              sub_rcs_profile = si_rcs_profile payload, sub_imei_allowlist = si_imei_allowlist payload,
              sub_overrides = si_overrides payload,
              sub_dm_password = (case get_subscriber s imsi of Some existing \<Rightarrow> sub_dm_password existing | None \<Rightarrow> []),
              sub_volte_enabled = si_volte_enabled payload, sub_created_at = app_clock app,
              sub_updated_at = app_clock app\<rparr>
        in (Inr (subscriber_out sub), put_subscriber sub s)))"

definition admin_delete_subscriber :: "string \<Rightarrow> unit api" where
  "admin_delete_subscriber imsi = with_subscriber imsi (\<lambda>sub s.
     (Inr (), delete_subscriber imsi (snd (revoke_tokens_for_imsi imsi s))))"

definition admin_invalidate :: "string \<Rightarrow> SubscriberOut api" where
  "admin_invalidate imsi = with_subscriber imsi (\<lambda>sub s.
     (let sub' = sub\<lparr>sub_provisioning_version := next_version (sub_provisioning_version sub),
            sub_forced_vers := None\<rparr>
      in (Inr (subscriber_out sub'), put_subscriber sub' s)))"

definition admin_disable :: "string \<Rightarrow> int \<Rightarrow> SubscriberOut api" where
  "admin_disable imsi version s =
     (if version \<notin> set FORCEABLE_VERSIONS then (Inl (HTTPException 400 ''vers must be one of [0, -1, -2, -3, -4]''), s)
      else with_subscriber imsi (\<lambda>sub s.
        (let sub' = sub\<lparr>sub_forced_vers := Some version\<rparr>
         in (Inr (subscriber_out sub'), snd (revoke_tokens_for_imsi imsi (put_subscriber sub' s))))) s)"

definition admin_enable :: "string \<Rightarrow> SubscriberOut api" where
  "admin_enable imsi = with_subscriber imsi (\<lambda>sub s.
     (let sub' = sub\<lparr>sub_forced_vers := None, sub_entitled := True,
            sub_provisioning_version := next_version (sub_provisioning_version sub)\<rparr>
      in (Inr (subscriber_out sub'), put_subscriber sub' s)))"

definition admin_revoke_tokens :: "string \<Rightarrow> int api" where
  "admin_revoke_tokens imsi = with_subscriber imsi (\<lambda>sub s.
     (case revoke_tokens_for_imsi imsi s of (revoked, s') \<Rightarrow> (Inr revoked, s')))"

record IssuedToken =
  it_token :: string
  it_imsi :: string
  it_imei :: "string option"
  it_expires_at :: int

definition empty_to_none :: "string \<Rightarrow> string option" where
  "empty_to_none x = (if x = [] then None else Some x)"

definition admin_issue_token :: "AppState \<Rightarrow> string \<Rightarrow> string \<Rightarrow> IssuedToken api" where
  "admin_issue_token app imsi imei = with_subscriber imsi (\<lambda>sub s.
     if \<not> sub_entitled sub then (Inl (HTTPException 409 ''subscriber is not entitled''), s)
     else
       (case issue_token put_token (app_sha app) (app_token app) (app_clock app) (sub_imsi sub) (empty_to_none imei)
               (set_token_ttl_seconds (app_settings app))
               (set_token_bind_imei (app_settings app) \<and> imei \<noteq> []) s of
          (token, s') \<Rightarrow>
            (Inr \<lparr>it_token = token, it_imsi = sub_imsi sub, it_imei = empty_to_none imei,
                it_expires_at = app_clock app + set_token_ttl_seconds (app_settings app)\<rparr>, s')))"

record DeviceOut =
  do_device_id :: string
  do_manufacturer :: string
  do_model :: string
  do_sw_version :: string
  do_client_vendor :: string
  do_client_version :: string
  do_dm_client_version :: string
  do_last_seen_at :: int
  do_mo_node_count :: nat

definition device_out :: "Device \<Rightarrow> DeviceOut" where
  "device_out d = \<lparr>do_device_id = dev_device_id d, do_manufacturer = dev_manufacturer d, do_model = dev_model d,
     do_sw_version = dev_sw_version d, do_client_vendor = dev_client_vendor d,
     do_client_version = dev_client_version d, do_dm_client_version = dev_dm_client_version d,
     do_last_seen_at = dev_last_seen_at d, do_mo_node_count = length (dev_mo_values d)\<rparr>"

definition admin_list_devices :: "int \<Rightarrow> DeviceOut list api" where
  "admin_list_devices limit s = bind_step (page_limit limit, s)
     (\<lambda>_ s. (Inr (map device_out (list_devices s limit)), s))"

record CoverageOut =
  co_profile :: string
  co_available_profiles :: "string list"
  co_parameters :: nat
  co_verified :: nat
  co_app_ids :: "string list"
  co_management_objects :: nat
  co_urns :: "string list"
  co_nodes :: nat
  co_dm_verified :: nat
  co_vers_rules :: "(int \<times> string \<times> bool \<times> string) list"

definition admin_coverage :: "AppState \<Rightarrow> api_error + CoverageOut" where
  "admin_coverage app =
     (case app_get_catalog app (set_default_rcs_profile (app_settings app)) of
        Inl e \<Rightarrow> Inl (Unhandled ''CatalogError'')
      | Inr catalog \<Rightarrow>
          (case app_get_tree app of
             Inl e \<Rightarrow> Inl (Unhandled ''CatalogError'')
           | Inr tree \<Rightarrow> Inr \<lparr>co_profile = set_default_rcs_profile (app_settings app),
               co_available_profiles = app_profiles app, co_parameters = length catalog,
               co_verified = verified_count catalog, co_app_ids = catalog_app_ids catalog,
               co_management_objects = length tree, co_urns = tree_urns tree, co_nodes = length (all_nodes tree),
               co_dm_verified = tree_verified_count tree,
               co_vers_rules = map (\<lambda>r. (vr_version r, action_value (vr_action r), vr_verified r, vr_spec_ref r)) VERS_RULES\<rparr>))"

record FamilyOut =
  fo_id :: string
  fo_title :: string
  fo_requirements :: nat
  fo_counts :: "(string, nat) dict"
  fo_mandatory_gaps :: "(string \<times> string \<times> string) list"

record ConformanceOut =
  cf_certified :: bool
  cf_editions_pinned :: bool
  cf_unassessed :: "(string \<times> string \<times> string \<times> bool \<times> string list) list"
  cf_families :: "FamilyOut list"

definition family_out :: "RequirementSet \<Rightarrow> FamilyOut" where
  "family_out f = \<lparr>fo_id = rset_id f, fo_title = rset_title f, fo_requirements = length (rset_requirements f),
     fo_counts = requirement_counts f,
     fo_mandatory_gaps = map (\<lambda>r. (cr_id r, cr_title r, cr_status r)) (mandatory_gaps f)\<rparr>"

definition admin_conformance :: "AppState \<Rightarrow> api_error + ConformanceOut" where
  "admin_conformance app =
     (case app_registry app of
        Inl e \<Rightarrow> Inl (Unhandled ''CatalogError'')
      | Inr families \<Rightarrow>
          (case app_families app of
             Inl e \<Rightarrow> Inl (Unhandled ''CatalogError'')
           | Inr scope \<Rightarrow> Inr \<lparr>cf_certified = False, cf_editions_pinned = False,
               cf_unassessed = map (\<lambda>f. (sf_id f, sf_title f, sf_jurisdiction f, sf_document_held f, sf_open_questions f))
                 (filter blocks_assessment scope),
               cf_families = map family_out families\<rparr>))"

section \<open>The router\<close>

datatype admin_op =
  ListSubscribers int
| GetSubscriber string
| PutSubscriber string SubscriberIn
| DeleteSubscriber string
| Invalidate string
| Disable string int
| Enable string
| RevokeTokens string
| IssueToken string string
| ListDevices int
| Coverage
| ConformanceSummary

datatype admin_answer =
  Subscribers "SubscriberOut list"
| OneSubscriber SubscriberOut
| NoContent
| Revoked int
| TokenIssued IssuedToken
| Devices "DeviceOut list"
| CoverageReport CoverageOut
| ConformanceReport ConformanceOut

definition answer_with :: "('a \<Rightarrow> 'b) \<Rightarrow> (api_error + 'a) \<times> MemoryStore \<Rightarrow> (api_error + 'b) \<times> MemoryStore" where
  "answer_with f x = bind_step x (\<lambda>a s. (Inr (f a), s))"

fun admin_handler :: "AppState \<Rightarrow> admin_op \<Rightarrow> admin_answer api" where
  "admin_handler app (ListSubscribers limit) s = answer_with Subscribers (admin_list_subscribers limit s)"
| "admin_handler app (GetSubscriber imsi) s = answer_with OneSubscriber (admin_get_subscriber imsi s)"
| "admin_handler app (PutSubscriber imsi body) s = answer_with OneSubscriber (admin_put_subscriber app imsi body s)"
| "admin_handler app (DeleteSubscriber imsi) s = answer_with (\<lambda>_. NoContent) (admin_delete_subscriber imsi s)"
| "admin_handler app (Invalidate imsi) s = answer_with OneSubscriber (admin_invalidate imsi s)"
| "admin_handler app (Disable imsi version) s = answer_with OneSubscriber (admin_disable imsi version s)"
| "admin_handler app (Enable imsi) s = answer_with OneSubscriber (admin_enable imsi s)"
| "admin_handler app (RevokeTokens imsi) s = answer_with Revoked (admin_revoke_tokens imsi s)"
| "admin_handler app (IssueToken imsi imei) s = answer_with TokenIssued (admin_issue_token app imsi imei s)"
| "admin_handler app (ListDevices limit) s = answer_with Devices (admin_list_devices limit s)"
| "admin_handler app Coverage s = answer_with CoverageReport (admin_coverage app, s)"
| "admin_handler app ConformanceSummary s = answer_with ConformanceReport (admin_conformance app, s)"

definition admin_request :: "AppState \<Rightarrow> string \<Rightarrow> admin_op \<Rightarrow> admin_answer api" where
  "admin_request app authorization op s =
     bind_step (require_admin (app_settings app) authorization, s) (\<lambda>_. admin_handler app op)"


section \<open>Who may administer\<close>

lemma compare_digest_Some: "compare_digest a b = Some r \<longleftrightarrow> list_all is_ascii a \<and> list_all is_ascii b \<and> r = (a = b)"
  by (auto simp: compare_digest_def)

lemma require_admin_Inr:
  "require_admin st authorization = Inr () \<longleftrightarrow>
    set_admin_token st \<noteq> [] \<and> list_all is_ascii (set_admin_token st) \<and>
    (\<exists>scheme. authorization = scheme @ CHR '' '' # set_admin_token st \<and> CHR '' '' \<notin> set scheme \<and> py_lower scheme = ''bearer'')"
  (is "?l \<longleftrightarrow> ?r")
proof
  assume l: ?l
  then have ne: "set_admin_token st \<noteq> []" by (auto simp: require_admin_def)
  obtain scheme found token where p: "py_partition CHR '' '' authorization = (scheme, found, token)"
    by (metis prod_cases3)
  from l p ne have t: "py_lower scheme = ''bearer''" "token = set_admin_token st" "list_all is_ascii (set_admin_token st)"
    by (auto simp: require_admin_def compare_digest_Some split: if_splits option.splits)
  have "CHR '' '' \<notin> set scheme" using p by (auto simp: py_partition_def dest: set_takeWhileD)
  with t ne py_partition_rest [OF p] show ?r by auto
next
  assume ?r
  then obtain scheme where s: "authorization = scheme @ CHR '' '' # set_admin_token st" "CHR '' '' \<notin> set scheme"
      "py_lower scheme = ''bearer''" "set_admin_token st \<noteq> []" "list_all is_ascii (set_admin_token st)"
    by blast
  have "py_partition CHR '' '' authorization = (scheme, True, set_admin_token st)"
    using s(1,2) by (simp add: py_partition_first)
  with s show ?l by (simp add: require_admin_def compare_digest_def)
qed

text \<open>
  C17. The admin interface fails closed. Whatever the operation, it is answered or changes the store only
  if an admin token is configured and the request carries exactly it as a bearer token; without a
  configured token every request is refused with 503, with a wrong one with 401 (or an error, when
  the text is not ASCII), and the store stays as it was.
\<close>

theorem admin_gate:
  "(let (r, s') = admin_request app authorization op s
    in (s' \<noteq> s \<or> (\<exists>a. r = Inr a)) \<longrightarrow>
        set_admin_token (app_settings app) \<noteq> [] \<and>
        (\<exists>scheme. authorization = scheme @ '' '' @ set_admin_token (app_settings app) \<and> py_lower scheme = ''bearer'')) \<and>
   (set_admin_token (app_settings app) = [] \<longrightarrow>
      admin_request app authorization op s =
        (Inl (HTTPException 503 ''admin API disabled: ACS_ADMIN_TOKEN is not configured''), s))"
proof -
  let ?g = "require_admin (app_settings app) authorization"
  have "\<exists>scheme. authorization = scheme @ '' '' @ set_admin_token (app_settings app) \<and> py_lower scheme = ''bearer''"
      "set_admin_token (app_settings app) \<noteq> []" if "?g = Inr ()"
    using that unfolding require_admin_Inr by auto
  moreover have "?g = Inr ()" if "admin_request app authorization op s = (r, s')" "s' \<noteq> s \<or> (\<exists>a. r = Inr a)" for r s'
    using that by (cases ?g) (auto simp: admin_request_def)
  ultimately have "case admin_request app authorization op s of (r, s') \<Rightarrow> s' \<noteq> s \<or> (\<exists>a. r = Inr a) \<longrightarrow>
      set_admin_token (app_settings app) \<noteq> [] \<and>
      (\<exists>scheme. authorization = scheme @ '' '' @ set_admin_token (app_settings app) \<and> py_lower scheme = ''bearer'')"
    by (cases "admin_request app authorization op s") (simp only: prod.case, blast)
  moreover have "admin_request app authorization op s =
      (Inl (HTTPException 503 ''admin API disabled: ACS_ADMIN_TOKEN is not configured''), s)"
    if "set_admin_token (app_settings app) = []"
    using that by (simp add: admin_request_def require_admin_def)
  ultimately show ?thesis unfolding Let_def by blast
qed

definition demo_app :: AppState where
  "demo_app = \<lparr>app_settings = demo_settings\<lparr>set_admin_token := ''s3cret''\<rparr>, app_global_settings = demo_settings,
     app_clock = 2000, app_sha = (\<lambda>x. x), app_hmac = (\<lambda>k x. k @ x), app_b64encode = (\<lambda>x. x), app_b64decode = Some,
     app_token = ''tok3'', app_random = (\<lambda>n. ''rnd''), app_get_catalog = demo_catalog, app_profiles = [''UP_2.4''],
     app_get_tree = Inr demo_tree, app_registry = load_registry (Some demo_registry), app_families = Inr [],
     app_sms_name = ''mock''\<rparr>"

theorem admin_gate_witness:
  "admin_request demo_app ''Bearer s3cret'' (RevokeTokens ''45005'')
      (put_subscriber (demo_subscriber ''45005'' ''+8210'') empty_store)
     = (Inr (Revoked 0), put_subscriber (demo_subscriber ''45005'' ''+8210'') empty_store) \<and>
   set_admin_token (app_settings demo_app) \<noteq> []"
proof -
  let ?s = "put_subscriber (demo_subscriber ''45005'' ''+8210'') empty_store"
  have t: "set_admin_token (app_settings demo_app) = ''s3cret''" by (simp add: demo_app_def)
  have "py_lower ''Bearer'' = ''bearer''" "list_all is_ascii ''s3cret''" by code_simp+
  then have "require_admin (app_settings demo_app) ''Bearer s3cret'' = Inr ()"
    unfolding require_admin_Inr t by (intro conjI exI [of _ "''Bearer''"]) simp_all
  then have a: "admin_request demo_app ''Bearer s3cret'' (RevokeTokens ''45005'') ?s = (Inr (Revoked 0), ?s)"
    by (simp add: admin_request_def answer_with_def admin_revoke_tokens_def with_subscriber_def load_subscriber_def
        get_subscriber_put demo_subscriber_def)
      (simp add: revoke_tokens_for_imsi_def put_subscriber_def empty_store_def Let_def get_subscriber_def)
  with admin_gate [of demo_app "''Bearer s3cret''" "RevokeTokens ''45005''" ?s] show ?thesis by simp
qed


section \<open>What the operator's actions do to the service\<close>

lemma evidence_stored:
  assumes "index_ok s" and "evidence env st q headers peer method s how sub"
  shows "get_subscriber s (sub_imsi sub) = Some sub"
proof -
  have "get_subscriber s i = Some sub \<Longrightarrow> get_subscriber s (sub_imsi sub) = Some sub" for i
    using index_okD(1) [OF assms(1), of i sub] by simp
  moreover have "get_subscriber_by_msisdn s m = Some sub \<Longrightarrow> get_subscriber s (sub_imsi sub) = Some sub" for m
    using index_ok_lookup [OF assms(1), of m sub] by simp
  ultimately show ?thesis
    using assms(2) unfolding evidence_def
    by (cases how) (auto simp: lookup_candidate_def Let_def split: if_splits option.splits)
qed

lemma handle_serves:
  assumes "handle env st q headers peer method s = (Inr out, s')" and "po_body out = Some doc"
  obtains sub how t where "sub_entitled sub" "evidence env st q headers peer method s how sub"
    "serve_configuration env st sub q how t = (Inr out, s')"
proof -
  obtain i t where i: "resolve_identity env st q headers peer method s = (Inr i, t)" "id_decision i = AUTHENTICATED"
    "serve_configuration env st (the (id_subscriber i)) q (id_method i) t = (Inr out, s')"
    using handle_body [OF assms] by metis
  obtain sub where "id_subscriber i = Some sub" "sub_entitled sub" "evidence env st q headers peer method s (id_method i) sub"
    using resolve_identity_authenticated [OF i(1,2)] by metis
  with i(3) that show ?thesis by simp
qed

lemma bind_load_Inr:
  "with_subscriber imsi f s = (Inr a, s') \<longleftrightarrow> (\<exists>sub. get_subscriber s imsi = Some sub \<and> f sub s = (Inr a, s'))"
  by (auto simp: with_subscriber_def load_subscriber_def split: option.split)

lemma answer_with_Inr: "answer_with f x = (Inr b, s) \<longleftrightarrow> (\<exists>a. x = (Inr a, s) \<and> b = f a)"
  by (auto simp: answer_with_def bind_step_Inr)

lemma get_subscriber_revoke [simp]: "get_subscriber (snd (revoke_tokens_for_imsi i s)) = get_subscriber s"
  by (rule ext) (simp add: get_subscriber_def revoke_tokens_for_imsi_def)

lemma index_revoke [simp]: "st_msisdn_index (snd (revoke_tokens_for_imsi i s)) = st_msisdn_index s"
  by (simp add: revoke_tokens_for_imsi_def)

lemma index_ok_revoke [simp]: "index_ok (snd (revoke_tokens_for_imsi i s)) = index_ok s"
  by (simp add: index_ok_def)

lemma put_same_number_index_ok:
  assumes "index_ok s" and "get_subscriber s imsi = Some sub" and "sub_imsi sub' = imsi" "sub_msisdn sub' = sub_msisdn sub"
  shows "index_ok (put_subscriber sub' s)"
proof (rule put_subscriber_index_ok [OF assms(1)])
  have "get_subscriber_by_msisdn s (sub_msisdn sub) = Some sub"
    using index_ok_lookup [OF assms(1)] index_okD(1) [OF assms(1,2)] assms(2) by simp
  then show "msisdn_free_for s sub'"
    using index_okD(1) [OF assms(1,2)] assms(3,4) by (simp add: msisdn_free_for_def)
  show "sub_imsi sub' \<noteq> []" using index_okD(1) [OF assms(1,2)] assms(3) by simp
qed

lemma get_token_after:
  "get_token (put_subscriber x s) = get_token s" "get_token (delete_subscriber i s) = get_token s"
  by (auto simp: get_token_def put_subscriber_def delete_subscriber_def Let_def split: option.split)

text \<open>The store after each action, for a subscriber that exists.\<close>

lemma admin_action_cases:
  assumes "index_ok s" "get_subscriber s imsi = Some old" "admin_handler app op s = (Inr a, s1)"
  shows "op = DeleteSubscriber imsi \<Longrightarrow> get_subscriber s1 imsi = None \<and> index_ok s1"
    and "op = Disable imsi v \<Longrightarrow> v \<in> set FORCEABLE_VERSIONS \<and> index_ok s1 \<and>
      get_subscriber s1 imsi = Some (old\<lparr>sub_forced_vers := Some v\<rparr>) \<and>
      (\<exists>t. get_token s1 = get_token (snd (revoke_tokens_for_imsi imsi t)))"
    and "op = RevokeTokens imsi \<Longrightarrow> s1 = snd (revoke_tokens_for_imsi imsi s)"
    and "op \<in> {Enable imsi, Invalidate imsi} \<Longrightarrow> index_ok s1 \<and>
      (\<exists>new. get_subscriber s1 imsi = Some new \<and> sub_forced_vers new = None \<and> sub_imsi new = sub_imsi old \<and>
         sub_provisioning_version new = next_version (sub_provisioning_version old))"
proof -
  note key = index_okD(1) [OF assms(1,2)]
  note ok = put_same_number_index_ok [OF assms(1,2)]
  show "get_subscriber s1 imsi = None \<and> index_ok s1" if "op = DeleteSubscriber imsi"
    using assms that
    by (auto simp: answer_with_Inr admin_delete_subscriber_def bind_load_Inr get_subscriber_delete
        delete_subscriber_index_ok)
  show "v \<in> set FORCEABLE_VERSIONS \<and> index_ok s1 \<and> get_subscriber s1 imsi = Some (old\<lparr>sub_forced_vers := Some v\<rparr>) \<and>
      (\<exists>t. get_token s1 = get_token (snd (revoke_tokens_for_imsi imsi t)))" if "op = Disable imsi v"
  proof -
    let ?t = "put_subscriber (old\<lparr>sub_forced_vers := Some v\<rparr>) s"
    have "v \<in> set FORCEABLE_VERSIONS" "s1 = snd (revoke_tokens_for_imsi imsi ?t)"
      using assms that by (auto simp: answer_with_Inr admin_disable_def bind_load_Inr Let_def split: if_splits)
    then show ?thesis using ok [of "old\<lparr>sub_forced_vers := Some v\<rparr>"] key by (auto simp: get_subscriber_put)
  qed
  show "s1 = snd (revoke_tokens_for_imsi imsi s)" if "op = RevokeTokens imsi"
    using assms that by (auto simp: answer_with_Inr admin_revoke_tokens_def bind_load_Inr split: prod.splits)
  show "index_ok s1 \<and> (\<exists>new. get_subscriber s1 imsi = Some new \<and> sub_forced_vers new = None \<and> sub_imsi new = sub_imsi old \<and>
      sub_provisioning_version new = next_version (sub_provisioning_version old))"
    if "op \<in> {Enable imsi, Invalidate imsi}"
    using assms that key
    by (auto simp: answer_with_Inr admin_enable_def admin_invalidate_def bind_load_Inr get_subscriber_put Let_def
        intro!: ok)
qed

lemma revoked_no_token_evidence:
  assumes "evidence env st q headers peer method s TOKEN sub" "index_ok s"
    and "get_token s = get_token (snd (revoke_tokens_for_imsi (sub_imsi sub) t))"
  shows False
proof -
  obtain r where r: "verify_token get_token (env_sha env) (env_clock env) (cq_token q) (cq_imei q)
      (set_token_bind_imei st) s = Some r" "get_subscriber s (tr_imsi r) = Some sub"
    using assms(1) by (auto simp: evidence_def)
  have "verify_token get_token (env_sha env) (env_clock env) (cq_token q) (cq_imei q) (set_token_bind_imei st)
      (snd (revoke_tokens_for_imsi (sub_imsi sub) t)) = Some r"
    using r(1) assms(3) by (simp add: verify_token_Some)
  from memory_token.revoked_imsi_never_verifies [OF this] index_okD(1) [OF assms(2) r(2)] show False by simp
qed


lemma serve_after_bump:
  assumes "serve_configuration env st sub q how t = (Inr out, s')" "sub_forced_vers sub = None"
    and "sub_provisioning_version sub = next_version old" "cq_vers q \<le> old"
  shows "po_metric out = ''ConfigServed'' \<and> po_version out = Some (next_version old)"
proof -
  have "\<not> sub_provisioning_version sub \<le> 0" "\<not> client_holds_current (cq_vers q) (sub_provisioning_version sub)"
    using next_version_increases [of old] assms(3,4)
    by (simp_all add: client_holds_current_def not_le)
  then have full: "serve_full env st (sub\<lparr>sub_provisioning_version := next_version old\<rparr>) (next_version old) q how t = (Inr out, s')"
    using assms(1-3) by (simp add: serve_configuration_def Let_def)
  obtain doc where "out = config_outcome st doc ''ConfigServed'' (method_value how) (next_version old)"
    using serve_full_served [OF full] by metis
  then show ?thesis by simp
qed

text \<open>
  C4. The operator's actions take effect at once, on every way of authenticating. After a subscriber was
  deleted no document is served for that IMSI; after it was disabled, the only document served for it
  is the one with the forced version, and never on the strength of a token issued before; the same
  holds of tokens that were revoked; after it was enabled or its configuration invalidated, a client
  that reports the old version or an earlier one is served a full document of the next version.
\<close>

theorem operator_actions_enforced:
  assumes "index_ok s" and "get_subscriber s imsi = Some old" and "admin_handler app op s = (Inr a, s1)"
    and "handle env st q headers peer method s1 = (Inr out, s2)" and "po_body out = Some doc"
  shows "\<exists>sub how. sub_entitled sub \<and> evidence env st q headers peer method s1 how sub \<and>
    (sub_imsi sub = imsi \<longrightarrow>
       op \<noteq> DeleteSubscriber imsi \<and>
       (op = RevokeTokens imsi \<longrightarrow> how \<noteq> TOKEN) \<and>
       (\<forall>v. op = Disable imsi v \<longrightarrow> how \<noteq> TOKEN \<and> po_version out = Some v \<and>
          doc = build_vers_only_document v (set_provisioning_validity_seconds st)) \<and>
       (op \<in> {Enable imsi, Invalidate imsi} \<longrightarrow> cq_vers q \<le> sub_provisioning_version old \<longrightarrow>
          po_metric out = ''ConfigServed'' \<and> po_version out = Some (next_version (sub_provisioning_version old))))"
proof -
  note act = admin_action_cases [OF assms(1-3)]
  obtain sub how t where ev: "sub_entitled sub" "evidence env st q headers peer method s1 how sub"
    and serve: "serve_configuration env st sub q how t = (Inr out, s2)"
    using handle_serves [OF assms(4,5)] by metis
  note st = evidence_stored [OF _ ev(2)]
  have "op \<noteq> DeleteSubscriber imsi" if "sub_imsi sub = imsi"
    using act(1) st that by auto
  moreover have "how \<noteq> TOKEN" if "sub_imsi sub = imsi" "op = RevokeTokens imsi"
    using act(3) [OF that(2)] revoked_no_token_evidence [of env st q headers peer "method" s1 sub s] ev(2) that(1) assms(1)
    by auto
  moreover have "how \<noteq> TOKEN \<and> po_version out = Some v \<and>
      doc = build_vers_only_document v (set_provisioning_validity_seconds st)"
    if i: "sub_imsi sub = imsi" and op: "op = Disable imsi v" for v
  proof -
    obtain t' where d: "index_ok s1" "get_subscriber s1 imsi = Some (old\<lparr>sub_forced_vers := Some v\<rparr>)"
        "get_token s1 = get_token (snd (revoke_tokens_for_imsi imsi t'))"
      using act(2) [OF op] by blast
    then have "sub_forced_vers sub = Some v" using st [OF d(1)] d(2) i by auto
    with serve have "out = config_outcome st (build_vers_only_document v (set_provisioning_validity_seconds st))
        ''ConfigDisabled'' (action_value (vr_action (projr (rule_for v)))) v"
      by (auto simp: serve_configuration_def Let_def split: sum.splits)
    then show ?thesis
      using assms(5) revoked_no_token_evidence [of env st q headers peer "method" s1 sub t'] ev(2) d(1,3) i by auto
  qed
  moreover have "po_metric out = ''ConfigServed'' \<and> po_version out = Some (next_version (sub_provisioning_version old))"
    if i: "sub_imsi sub = imsi" and op: "op \<in> {Enable imsi, Invalidate imsi}" "cq_vers q \<le> sub_provisioning_version old"
  proof -
    obtain new where "index_ok s1" "get_subscriber s1 imsi = Some new" "sub_forced_vers new = None"
        "sub_provisioning_version new = next_version (sub_provisioning_version old)"
      using act(4) [OF op(1)] by blast
    then show ?thesis using serve_after_bump [OF serve _ _ op(2)] st i by auto
  qed
  ultimately show ?thesis using ev by (intro exI [of _ sub] exI [of _ how]) blast
qed


definition demo_admin_store :: MemoryStore where
  "demo_admin_store = put_subscriber (demo_subscriber ''450051234567890'' ''+82'') demo_otp_store"

lemma demo_admin_store_ok:
  "index_ok demo_admin_store"
  "get_subscriber demo_admin_store ''450051234567890'' = Some (demo_subscriber ''450051234567890'' ''+82'')"
proof -
  show "index_ok demo_admin_store"
    unfolding demo_admin_store_def
    by (rule put_subscriber_index_ok)
      (auto simp: index_ok_def get_subscriber_def demo_otp_store_def empty_store_def msisdn_free_for_def
        get_subscriber_by_msisdn_def demo_subscriber_def)
  show "get_subscriber demo_admin_store ''450051234567890'' = Some (demo_subscriber ''450051234567890'' ''+82'')"
    by (simp add: demo_admin_store_def get_subscriber_put demo_subscriber_def)
qed

lemma set_validity_demo: "set_provisioning_validity_seconds demo_settings = 86400"
  by (simp add: demo_settings_def)

theorem operator_actions_enforced_witness:
  "\<exists>a s1 out s2. admin_handler demo_app (Disable ''450051234567890'' (-1)) demo_admin_store = (Inr a, s1) \<and>
     handle (demo_env\<lparr>env_clock := 1100\<rparr>) demo_settings (demo_query\<lparr>cq_otp := Some ''123456''\<rparr>) [] None ''GET'' s1 =
       (Inr out, s2) \<and>
     po_body out = Some (build_vers_only_document (-1) 86400) \<and>
     (\<exists>sub how. sub_entitled sub \<and> evidence (demo_env\<lparr>env_clock := 1100\<rparr>) demo_settings
        (demo_query\<lparr>cq_otp := Some ''123456''\<rparr>) [] None ''GET'' s1 how sub)"
proof -
  let ?imsi = "''450051234567890''" and ?env = "demo_env\<lparr>env_clock := 1100\<rparr>"
  let ?q = "demo_query\<lparr>cq_otp := Some ''123456''\<rparr>" and ?sub = "demo_subscriber ''450051234567890'' ''+82''"
  let ?s1 = "snd (revoke_tokens_for_imsi ?imsi (put_subscriber (?sub\<lparr>sub_forced_vers := Some (-1)\<rparr>) demo_admin_store))"
  have a: "\<exists>a. admin_handler demo_app (Disable ?imsi (-1)) demo_admin_store = (Inr a, ?s1)"
    by (simp add: answer_with_def admin_disable_def with_subscriber_def load_subscriber_def demo_admin_store_ok
        forceable_iff Let_def)
  have otp: "get_otp ?s1 = get_otp demo_otp_store" "otp_keyed ?s1"
    using demo_otp_keyed
    by (auto simp: get_otp_def otp_keyed_def revoke_tokens_for_imsi_def put_subscriber_def demo_admin_store_def Let_def)
  have "fst (verify_challenge get_otp replace_otp (\<lambda>x. x) 1100 ''+82'' ''123456'' (policy_from_settings demo_settings) None ?s1)
      = VERIFIED"
    using verify_alone [OF otp(2), of "\<lambda>x. x" 1100 "''+82''" "''123456''" "policy_from_settings demo_settings" None]
    by (simp add: otp(1) verify_spec_def demo_otp_defs policy_from_settings_def demo_settings_def)
  then obtain s2 where v: "verify_challenge get_otp replace_otp (\<lambda>x. x) 1100 ''+82'' ''123456''
      (policy_from_settings demo_settings) None ?s1 = (VERIFIED, s2)"
    by (metis prod.collapse)
  have g: "get_subscriber ?s1 ?imsi = Some (?sub\<lparr>sub_forced_vers := Some (-1)\<rparr>)"
    by (simp add: get_subscriber_put demo_subscriber_def)
  have c: "resolve_claim ?env demo_settings ?q ?s1 = (authenticated (?sub\<lparr>sub_forced_vers := Some (-1)\<rparr>) OTP, s2)"
    using g v by (simp add: resolve_claim_def lookup_candidate_def demo_query_def truthy_def demo_env_def)
      (simp add: demo_subscriber_def imei_allowed_def)
  have "resolve_identity ?env demo_settings ?q [] None ''GET'' ?s1
      = (Inr (authenticated (?sub\<lparr>sub_forced_vers := Some (-1)\<rparr>) OTP), s2)"
    using c by (simp add: resolve_identity_def demo_query_def truthy_def no_proxies_no_enrichment demo_settings_def
        trusted_proxy_list_def comma_list_def py_strip_def strip_by_def)
  then have h: "\<exists>out. handle ?env demo_settings ?q [] None ''GET'' ?s1 = (Inr out, s2) \<and>
      po_body out = Some (build_vers_only_document (-1) 86400)"
    by (simp add: handle_def serve_configuration_def rule_for_def BY_VERSION_def VERS_RULES_def dict_get_def
        set_validity_demo)
  from a h obtain a out where "admin_handler demo_app (Disable ?imsi (-1)) demo_admin_store = (Inr a, ?s1)"
      "handle ?env demo_settings ?q [] None ''GET'' ?s1 = (Inr out, s2)"
      "po_body out = Some (build_vers_only_document (-1) 86400)"
    by blast
  with operator_actions_enforced [OF demo_admin_store_ok this] show ?thesis by blast
qed


section \<open>Storing a subscriber\<close>

lemma validate_subscriber_in_Inr:
  "validate_subscriber_in global body = Inr p \<longleftrightarrow>
    (\<exists>m. normalise_msisdn (Some (si_msisdn body)) (set_default_country_code global) (set_national_trunk_prefix global) = Some m \<and>
      p = body\<lparr>si_msisdn := m\<rparr>) \<and> 0 \<le> si_provisioning_version body \<and>
    (\<forall>v. si_forced_vers body = Some v \<longrightarrow> v \<in> set FORCEABLE_VERSIONS)"
  by (auto simp: validate_subscriber_in_def split: option.splits)

text \<open>
  What is put can be got. A stored subscriber has the canonical form of the number that was sent, a
  version that is not negative and, if one is forced, a version that clients understand; reading it by
  IMSI gives back the answer of the put, and the number leads to it. The credential of
  an existing device-management account survives, and other subscribers are left alone.
\<close>

theorem admin_put_get:
  assumes "admin_handler app (PutSubscriber imsi body) s = (Inr a, s')"
  shows "\<exists>so m. a = OneSubscriber so \<and> admin_handler app (GetSubscriber imsi) s' = (Inr a, s') \<and>
    normalise_msisdn (Some (si_msisdn body)) (set_default_country_code (app_global_settings app))
      (set_national_trunk_prefix (app_global_settings app)) = Some m \<and>
    so_imsi so = imsi \<and> so_msisdn so = m \<and> 0 \<le> so_provisioning_version so \<and>
    (\<forall>v. so_forced_vers so = Some v \<longrightarrow> -4 \<le> v \<and> v \<le> 0) \<and>
    map_option sub_imsi (get_subscriber_by_msisdn s' m) = Some imsi \<and>
    (\<forall>old. get_subscriber s imsi = Some old \<longrightarrow> map_option sub_dm_password (get_subscriber s' imsi) = Some (sub_dm_password old)) \<and>
    (\<forall>other. other \<noteq> imsi \<longrightarrow> get_subscriber s' other = get_subscriber s other)"
proof -
  obtain so where so: "a = OneSubscriber so" "admin_put_subscriber app imsi body s = (Inr so, s')"
    using assms by (auto simp: answer_with_Inr)
  then obtain p where p: "validate_subscriber_in (app_global_settings app) body = Inr p"
    by (cases "validate_subscriber_in (app_global_settings app) body") (auto simp: admin_put_subscriber_def)
  then obtain m where m: "normalise_msisdn (Some (si_msisdn body)) (set_default_country_code (app_global_settings app))
      (set_national_trunk_prefix (app_global_settings app)) = Some m" "si_msisdn p = m"
    and fields: "0 \<le> si_provisioning_version p" "\<forall>v. si_forced_vers p = Some v \<longrightarrow> -4 \<le> v \<and> v \<le> 0"
    using forceable_iff by (auto simp: validate_subscriber_in_Inr)
  from so(2) p have fmt: "imsi_format imsi" by (auto simp: admin_put_subscriber_def split: if_splits)
  then have ne: "imsi \<noteq> []" by (auto simp: imsi_format_def)
  from so(2) p fmt obtain sub where sub: "s' = put_subscriber sub s" "so = subscriber_out sub" "sub_imsi sub = imsi"
      "sub_msisdn sub = m" "sub_provisioning_version sub = si_provisioning_version p"
      "sub_forced_vers sub = si_forced_vers p"
      "sub_dm_password sub = (case get_subscriber s imsi of Some e \<Rightarrow> sub_dm_password e | None \<Rightarrow> [])"
    using m(2) by (auto simp: admin_put_subscriber_def Let_def)
  have "get_subscriber_by_msisdn s' m = Some sub"
    using index_put [of sub s m] get_subscriber_put [of sub s imsi] sub(1,3,4) ne
    by (simp add: get_subscriber_by_msisdn_def get_subscriber_def)
  then show ?thesis
    using so(1) sub m(1) fields
    by (auto simp: answer_with_def admin_get_subscriber_def with_subscriber_def load_subscriber_def get_subscriber_put
        subscriber_out_def)
qed

definition demo_body :: SubscriberIn where
  "demo_body = \<lparr>si_msisdn = ''01012345678'', si_entitled = True, si_rcs_profile = [], si_provisioning_version = 1,
     si_forced_vers = None, si_imei_allowlist = [], si_overrides = [], si_volte_enabled = True\<rparr>"

theorem admin_put_get_witness:
  "\<exists>a s' so. admin_handler demo_app (PutSubscriber ''45005'' demo_body) empty_store = (Inr a, s') \<and>
     a = OneSubscriber so \<and> so_msisdn so = ''+821012345678'' \<and>
     admin_handler demo_app (GetSubscriber ''45005'') s' = (Inr a, s')"
proof -
  have n: "normalise_msisdn (Some ''01012345678'') ''82'' ''0'' = Some ''+821012345678''" by code_simp
  have "imsi_format ''45005''" by code_simp
  moreover have "validate_subscriber_in (app_global_settings demo_app) demo_body = Inr (demo_body\<lparr>si_msisdn := ''+821012345678''\<rparr>)"
    unfolding validate_subscriber_in_Inr by (simp add: demo_app_def demo_settings_def demo_body_def n)
  ultimately obtain a s' where p: "admin_handler demo_app (PutSubscriber ''45005'' demo_body) empty_store = (Inr a, s')"
    by (simp add: answer_with_def admin_put_subscriber_def Let_def)
  from admin_put_get [OF p] show ?thesis using p n
    by (auto simp: demo_app_def demo_settings_def demo_body_def)
qed

end
