(* ===== verification/Html.thy ===== *)
theory Html
  imports Http
begin

text \<open>
  \<^verbatim>\<open>src/src/acs/api/html.py\<close>: the rendering helpers of the operator console. Every text of this
  theory is the UTF-8 encoding of the source's, the octets that are sent; callers encode the values
  they show. Escaping concerns ASCII characters only, so it commutes with the encoding.
  The characters that make markup, the angle brackets and the two quotation marks, come from the
  templates only: no value that is shown contributes one (\<open>marks_esc\<close> and the lemmas after it).
\<close>

section \<open>Escaping\<close>

definition esc_char :: \<open>char \<Rightarrow> string\<close> where
  \<open>esc_char c =
     (if c = CHR ''&'' then ''&amp;'' else if c = CHR ''<'' then ''&lt;'' else if c = CHR ''>'' then ''&gt;''
      else if c = CHR 0x22 then ''&quot;'' else if c = CHR 0x27 then ''&#x27;'' else [c])\<close>

definition esc :: \<open>string \<Rightarrow> string\<close> where
  \<open>esc s = concat (map esc_char s)\<close>

definition em_dash :: string where
  \<open>em_dash = [CHR 0xE2, CHR 0x80, CHR 0x94]\<close>

definition CSP :: string where
  \<open>CSP = ''default-src 'none'; style-src 'unsafe-inline'; form-action 'self'; base-uri 'none'; frame-ancestors 'none'; img-src ''
     @ [CHR 0x27] @ ''none'' @ [CHR 0x27]\<close>

definition SECURITY_HEADERS :: \<open>(string, string) dict\<close> where
  \<open>SECURITY_HEADERS = [(''Content-Security-Policy'', CSP), (''X-Content-Type-Options'', ''nosniff''),
     (''X-Frame-Options'', ''DENY''), (''Referrer-Policy'', ''no-referrer''),
     (''Cache-Control'', ''no-store, no-cache, must-revalidate, private''), (''Pragma'', ''no-cache'')]\<close>

definition STYLE :: string where
  \<open>STYLE = concat (map (\<lambda>line. line @ [newline]) [
     [],
     '':root{--fg:#1a1a1a;--muted:#5a5a5a;--line:#d8d8d8;--bg:#fff;--accent:#0b5fa5;'',
     ''--warn:#8a4b00;--bad:#b00020;--ok:#0a6b3d;--chip:#f2f4f7}'',
     ''*{box-sizing:border-box}'',
     ''body{margin:0;font:16px/1.5 system-ui,-apple-system,"Segoe UI",sans-serif;'',
     ''color:var(--fg);background:var(--bg)}'',
     ''a{color:var(--accent)}'',
     ''header{border-bottom:1px solid var(--line);padding:.75rem 1.25rem;display:flex;'',
     ''gap:1.25rem;align-items:baseline;flex-wrap:wrap}'',
     ''header h1{font-size:1.05rem;margin:0}'',
     ''nav{display:flex;gap:1rem;flex-wrap:wrap}'',
     ''nav a{text-decoration:none}'',
     ''nav a[aria-current=page]{font-weight:700;text-decoration:underline}'',
     ''header form{margin-left:auto}'',
     ''main{padding:1.25rem;max-width:76rem;margin:0 auto}'',
     ''h2{font-size:1.3rem;margin:0 0 .25rem}'',
     ''h3{font-size:1.05rem;margin:1.75rem 0 .5rem;padding-bottom:.25rem;'',
     ''border-bottom:1px solid var(--line)}'',
     ''p.hint{color:var(--muted);margin:.25rem 0 1rem}'',
     ''table{border-collapse:collapse;width:100%;margin:.5rem 0 1.5rem;font-size:.94rem}'',
     ''caption{text-align:left;color:var(--muted);padding-bottom:.4rem}'',
     ''th,td{text-align:left;padding:.45rem .6rem;border-bottom:1px solid var(--line);'',
     ''vertical-align:top}'',
     ''th{background:var(--chip);font-weight:600}'',
     ''td.num{text-align:right;font-variant-numeric:tabular-nums}'',
     ''code,td.mono,input,select{font-family:ui-monospace,SFMono-Regular,Menlo,monospace}'',
     ''form.inline{display:inline}'',
     ''fieldset{border:1px solid var(--line);margin:0 0 1.25rem;padding:1rem}'',
     ''legend{padding:0 .4rem;font-weight:600}'',
     ''label{display:block;margin:.6rem 0 .15rem;font-weight:600;font-size:.92rem}'',
     ''input,select{padding:.4rem;font-size:.95rem;max-width:34rem;width:100%}'',
     ''input[type=checkbox]{width:auto}'',
     ''.row{display:flex;gap:1rem;flex-wrap:wrap}'',
     ''.row>div{flex:1 1 16rem}'',
     ''button{margin-top:.9rem;padding:.45rem 1rem;font-size:.95rem;cursor:pointer}'',
     ''button.danger{color:var(--bad)}'',
     ''.flash{padding:.6rem .9rem;border-left:4px solid var(--ok);background:#eef7f1;'',
     ''margin-bottom:1rem}'',
     ''.flash.error{border-color:var(--bad);background:#fdeef0}'',
     ''.pill{display:inline-block;padding:.05rem .5rem;border-radius:999px;'',
     ''font-size:.8rem;background:var(--chip)}'',
     ''.pill.bad{background:#fdeef0;color:var(--bad)}'',
     ''.pill.ok{background:#eef7f1;color:var(--ok)}'',
     ''.pill.warn{background:#fdf3e7;color:var(--warn)}'',
     ''.skip{position:absolute;left:-9999px}'',
     ''.skip:focus{left:.5rem;top:.5rem;background:#fff;padding:.5rem;z-index:1}'',
     ''footer{border-top:1px solid var(--line);margin-top:2rem;padding:1rem 1.25rem;'',
     ''color:var(--muted);font-size:.85rem}''])\<close>

section \<open>Fragments\<close>

definition pill :: \<open>string \<Rightarrow> string \<Rightarrow> string\<close> where
  \<open>pill label kind = ''<span class="'' @ py_strip (''pill '' @ kind) @ ''">'' @ esc label @ ''</span>''\<close>

definition hidden :: \<open>string \<Rightarrow> string \<Rightarrow> string\<close> where
  \<open>hidden name value = ''<input type="hidden" name="'' @ esc name @ ''" value="'' @ esc value @ ''">''\<close>

record TextField =
  tf_value :: string
  tf_hint :: string
  tf_input_type :: string
  tf_required :: bool
  tf_placeholder :: string

definition plain_field :: TextField where
  \<open>plain_field = \<lparr>tf_value = [], tf_hint = [], tf_input_type = ''text'', tf_required = False, tf_placeholder = []\<rparr>\<close>

definition text_field :: \<open>string \<Rightarrow> string \<Rightarrow> TextField \<Rightarrow> string\<close> where
  \<open>text_field name label f =
     (let field_id = ''f-'' @ esc name;
          described = (if tf_hint f \<noteq> [] then '' aria-describedby="'' @ field_id @ ''-hint"'' else []);
          hint_html = (if tf_hint f \<noteq> []
            then ''<p class="hint" id="'' @ field_id @ ''-hint">'' @ esc (tf_hint f) @ ''</p>'' else []);
          required_attr = (if tf_required f then '' required'' else []);
          placeholder_attr = (if tf_placeholder f \<noteq> [] then '' placeholder="'' @ esc (tf_placeholder f) @ ''"'' else [])
      in ''<label for="'' @ field_id @ ''">'' @ esc label @ ''</label>'' @
         ''<input id="'' @ field_id @ ''" name="'' @ esc name @ ''" type="'' @ esc (tf_input_type f) @ ''" '' @
         ''value="'' @ esc (tf_value f) @ ''"'' @ required_attr @ placeholder_attr @ described @ ''>'' @ hint_html)\<close>

definition select_field :: \<open>string \<Rightarrow> string \<Rightarrow> (string \<times> string) list \<Rightarrow> string \<Rightarrow> string \<Rightarrow> string\<close> where
  \<open>select_field name label options selected hint =
     (let field_id = ''f-'' @ esc name;
          rendered = concat (map (\<lambda>(value, shown). ''<option value="'' @ esc value @ ''"'' @
            (if value = selected then '' selected'' else []) @ ''>'' @ esc shown @ ''</option>'') options);
          hint_html = (if hint \<noteq> [] then ''<p class="hint">'' @ esc hint @ ''</p>'' else [])
      in ''<label for="'' @ field_id @ ''">'' @ esc label @ ''</label>'' @
         ''<select id="'' @ field_id @ ''" name="'' @ esc name @ ''">'' @ rendered @ ''</select>'' @ hint_html)\<close>

definition checkbox_field :: \<open>string \<Rightarrow> string \<Rightarrow> bool \<Rightarrow> string\<close> where
  \<open>checkbox_field name label checked =
     (let field_id = ''f-'' @ esc name
      in ''<label for="'' @ field_id @ ''">'' @ ''<input id="'' @ field_id @ ''" name="'' @ esc name @
         ''" type="checkbox" value="1"'' @ (if checked then '' checked'' else []) @ ''> '' @ esc label @ ''</label>'')\<close>

text \<open>Cells are markup already.\<close>

definition table_cell :: \<open>nat list \<Rightarrow> nat \<times> string \<Rightarrow> string\<close> where
  \<open>table_cell numeric p = (case p of (i, cell) \<Rightarrow>
     ''<td class="'' @ (if i \<in> set numeric then ''num'' else []) @ ''">'' @ cell @ ''</td>'')\<close>

definition table_row :: \<open>nat list \<Rightarrow> string list \<Rightarrow> string\<close> where
  \<open>table_row numeric row = ''<tr>'' @ concat (map (table_cell numeric) (enumerate 0 row)) @ ''</tr>''\<close>

definition html_table :: \<open>string list \<Rightarrow> string list list \<Rightarrow> string \<Rightarrow> string \<Rightarrow> nat list \<Rightarrow> string\<close> where
  \<open>html_table headers rows caption nothing numeric =
     (if rows = [] then ''<p>'' @ esc nothing @ ''</p>''
      else
        (let head = concat (map (\<lambda>h. ''<th scope="col">'' @ esc h @ ''</th>'') headers);
             caption_html = (if caption \<noteq> [] then ''<caption>'' @ esc caption @ ''</caption>'' else [])
         in ''<table>'' @ caption_html @ ''<thead><tr>'' @ head @ ''</tr></thead>'' @
            ''<tbody>'' @ concat (map (table_row numeric) rows) @ ''</tbody></table>''))\<close>

definition definition_list :: \<open>(string \<times> string) list \<Rightarrow> string\<close> where
  \<open>definition_list pairs =
     ''<table><tbody>'' @
     concat (map (\<lambda>(name, value). ''<tr><th scope="row">'' @ esc name @ ''</th><td>'' @ value @ ''</td></tr>'') pairs) @
     ''</tbody></table>''\<close>

section \<open>The page\<close>

definition nav_items :: \<open>(string \<times> string \<times> string) list\<close> where
  \<open>nav_items = [(''/admin/ui'', ''Overview'', ''overview''), (''/admin/ui/subscribers'', ''Numbers'', ''subscribers''),
     (''/admin/ui/devices'', ''Devices'', ''devices''), (''/admin/ui/catalog'', ''Parameters'', ''catalog''),
     (''/admin/ui/conformance'', ''Conformance'', ''conformance'')]\<close>

record PageOptions =
  pg_current :: string
  pg_flash :: string
  pg_flash_error :: bool
  pg_signed_in :: bool
  pg_csrf :: string
  pg_environment :: string

definition nav_html :: \<open>string \<Rightarrow> string\<close> where
  \<open>nav_html current = concat (map (\<lambda>(href, label, key). ''<a href="'' @ esc href @ ''"'' @
     (if key = current then '' aria-current="page"'' else []) @ ''>'' @ esc label @ ''</a>'') nav_items)\<close>

definition logout_html :: \<open>string \<Rightarrow> string\<close> where
  \<open>logout_html csrf = ''<form method="post" action="/admin/ui/logout">'' @
     ''<input type="hidden" name="csrf" value="'' @ esc csrf @ ''">'' @ ''<button type="submit">Sign out</button></form>''\<close>

definition banner_html :: \<open>string \<Rightarrow> bool \<Rightarrow> string\<close> where
  \<open>banner_html flash flash_error =
     (if flash \<noteq> []
      then ''<div class="'' @ (if flash_error then ''flash error'' else ''flash'') @ ''" '' @
        (if flash_error then ''role="alert"'' else ''role="status"'') @ ''>'' @ esc flash @ ''</div>''
      else [])\<close>

definition html_page :: \<open>string \<Rightarrow> string \<Rightarrow> PageOptions \<Rightarrow> string\<close> where
  \<open>html_page title body opts =
     ''<!DOCTYPE html><html lang="en"><head><meta charset="utf-8">'' @
     ''<meta name="viewport" content="width=device-width,initial-scale=1">'' @
     ''<title>'' @ esc title @ '' '' @ em_dash @ '' RCS ACS console</title>'' @
     ''<style>'' @ STYLE @ ''</style></head><body>'' @
     ''<a class="skip" href="#main">Skip to content</a>'' @
     ''<header><h1>RCS ACS console</h1>'' @
     (if pg_environment opts \<noteq> [] then ''<span class="pill">'' @ esc (pg_environment opts) @ ''</span>'' else []) @
     ''<nav aria-label="Sections">'' @ (if pg_signed_in opts then nav_html (pg_current opts) else []) @ ''</nav>'' @
     (if pg_signed_in opts then logout_html (pg_csrf opts) else []) @ ''</header>'' @
     ''<main id="main">'' @ banner_html (pg_flash opts) (pg_flash_error opts) @ body @ ''</main>'' @
     ''<footer>Displays IMSI, MSISDN and IMEI. Pages are never cached and the session cookie expires. '' @
     ''Nothing here is a GSMA certification; see docs/conformance.md.</footer>'' @
     ''</body></html>''\<close>


section \<open>Values contribute no markup\<close>

named_theorems marks_simps \<open>how the markup characters of a text are computed\<close>

definition mark :: \<open>char \<Rightarrow> bool\<close> where
  \<open>mark c \<longleftrightarrow> c \<in> {CHR ''<'', CHR ''>'', CHR 0x22, CHR 0x27}\<close>

definition marks :: \<open>string \<Rightarrow> string\<close> where
  \<open>marks s = filter mark s\<close>

lemma marks_append [marks_simps]: \<open>marks (a @ b) = marks a @ marks b\<close>
  by (simp add: marks_def)

lemma marks_Nil [simp, marks_simps]: \<open>marks [] = []\<close>
  by (simp add: marks_def)

lemma marks_Cons [simp, marks_simps]: \<open>marks (c # s) = (if mark c then c # marks s else marks s)\<close>
  by (simp add: marks_def)

lemma marks_concat [marks_simps]: \<open>marks (concat xs) = concat (map marks xs)\<close>
  by (induction xs) (simp_all add: marks_def)

lemma marks_none: \<open>list_all (\<lambda>c. \<not> mark c) s \<Longrightarrow> marks s = []\<close>
  by (simp add: marks_def filter_empty_conv list_all_iff)

lemma mark_code: \<open>mark c \<longleftrightarrow> code_of c \<in> {34, 39, 60, 62}\<close>
proof -
  have eq: \<open>c = d \<longleftrightarrow> code_of c = code_of d\<close> for d by (metis char_of_code)
  show ?thesis unfolding mark_def insert_iff eq [of \<open>CHR ''<''\<close>] eq [of \<open>CHR ''>''\<close>] eq [of \<open>CHR 0x22\<close>] eq [of \<open>CHR 0x27\<close>]
    by (auto simp: code_of_def)
qed

lemma marks_esc_char: \<open>marks (esc_char c) = []\<close>
  by (simp add: esc_char_def mark_def)

text \<open>Escaping before or after encoding is the same.\<close>

lemma esc_utf8: \<open>esc (utf8 s) = concat (map (\<lambda>c. if code_of c < 128 then esc_char c else utf8 [c]) s)\<close>
proof (induction s)
  case (Cons c s)
  have keep: \<open>esc_char d = [d]\<close> if \<open>128 \<le> code_of d\<close> for d
    using that by (auto simp: esc_char_def code_of_def)
  have \<open>code_of c div 64 < 4\<close> using code_of_less [of c] by simp
  then have \<open>192 + code_of c div 64 < 256\<close> \<open>128 + code_of c mod 64 < 256\<close> by simp_all
  with Cons show ?case by (simp add: esc_def utf8_def Let_def keep code_of_char_of)
qed (simp add: esc_def utf8_def)

lemma marks_esc [simp, marks_simps]: \<open>marks (esc s) = []\<close>
  by (simp add: esc_def marks_concat comp_def marks_esc_char)

lemma url_char_no_mark: \<open>url_char c \<Longrightarrow> \<not> mark c\<close>
  by (auto simp: url_char_def unreserved_def mark_code code_of_def Let_def)

lemma marks_quote [simp, marks_simps]: \<open>marks (quote s) = []\<close>
  using quote_url [of s] by (intro marks_none) (auto simp: list_all_iff url_char_no_mark)

lemma marks_str_of_nat [simp, marks_simps]: \<open>marks (str_of_nat n) = []\<close>
  using str_of_nat_decimal [of n] by (intro marks_none) (auto simp: list_all_iff is_decimal_def mark_code)

lemma marks_em_dash [simp, marks_simps]: \<open>marks em_dash = []\<close>
  by (simp add: marks_def em_dash_def mark_def)

lemma marks_if [marks_simps]: \<open>marks (if b then x else y) = (if b then marks x else marks y)\<close>
  by simp

lemma marks_same_parts:
  assumes \<open>\<And>x. x \<in> set xs \<Longrightarrow> marks (f x) = m\<close>
  shows \<open>marks (concat (map f xs)) = concat (replicate (length xs) m)\<close>
proof -
  have \<open>map (\<lambda>x. marks (f x)) xs = map (\<lambda>x. m) xs\<close> using assms by simp
  then show ?thesis by (simp add: marks_concat comp_def map_replicate_const)
qed

lemma marks_num: \<open>marks (if i \<in> set numeric then ''num'' else []) = []\<close>
  by (simp add: marks_def mark_def)

definition cell_marks :: \<open>string \<Rightarrow> string\<close> where
  \<open>cell_marks m = marks ''<td class="'' @ marks ''">'' @ m @ marks ''</td>''\<close>

lemma marks_cells:
  \<open>concat (map (\<lambda>p. marks (table_cell numeric p)) (enumerate n row)) = concat (map (\<lambda>c. cell_marks (marks c)) row)\<close>
  by (induction row arbitrary: n) (simp_all add: table_cell_def cell_marks_def marks_append marks_num)

lemma marks_table_row:
  \<open>marks (table_row numeric row) = marks ''<tr>'' @ concat (map cell_marks (map marks row)) @ marks ''</tr>''\<close>
  by (simp add: table_row_def marks_append marks_concat comp_def marks_cells mark_def)

text \<open>The markup of a table depends on its cells' markup and on the number of its rows.\<close>

lemma marks_table:
  assumes \<open>map (map marks) rows = map (map marks) rows'\<close> \<open>caption = [] \<longleftrightarrow> caption' = []\<close> \<open>length headers = length headers'\<close>
  shows \<open>marks (html_table headers rows caption nothing numeric) = marks (html_table headers' rows' caption' nothing' numeric')\<close>
proof -
  have ne: \<open>rows = [] \<longleftrightarrow> rows' = []\<close> using assms(1) by (metis map_is_Nil_conv)
  have \<open>map (\<lambda>r. marks (table_row numeric r)) rows = map (\<lambda>r. marks (table_row numeric' r)) rows'\<close>
    unfolding marks_table_row using arg_cong [OF assms(1), of \<open>map (\<lambda>ms. marks ''<tr>'' @ concat (map cell_marks ms) @ marks ''</tr>'')\<close>]
    by (simp add: comp_def)
  moreover have \<open>map (\<lambda>h. marks ''<th scope="col">'' @ marks ''</th>'') headers = map (\<lambda>h. marks ''<th scope="col">'' @ marks ''</th>'') headers'\<close>
    using assms(3) by (simp add: map_replicate_const)
  ultimately show ?thesis
    using ne assms(2) by (simp add: html_table_def Let_def marks_append marks_concat comp_def mark_def)
qed

text \<open>A list of facts and a page: the markup of the parts, and nothing of the values.\<close>

lemma marks_definition_list:
  assumes \<open>map (\<lambda>(name, value). marks value) pairs = map (\<lambda>(name, value). marks value) pairs'\<close>
  shows \<open>marks (definition_list pairs) = marks (definition_list pairs')\<close>
proof -
  let ?row = \<open>\<lambda>m. marks ''<tr><th scope="row">'' @ marks ''</th><td>'' @ m @ marks ''</td></tr>''\<close>
  have parts: \<open>marks (definition_list ps) = marks ''<table><tbody>'' @
      concat (map ?row (map (\<lambda>(name, value). marks value) ps)) @ marks ''</tbody></table>''\<close> for ps
    by (simp add: definition_list_def marks_append marks_concat comp_def case_prod_beta mark_def)
  show ?thesis unfolding parts assms ..
qed

lemma marks_page:
  assumes \<open>marks body = marks body'\<close> \<open>pg_current opts = pg_current opts'\<close> \<open>pg_signed_in opts = pg_signed_in opts'\<close>
    \<open>pg_environment opts = pg_environment opts'\<close> \<open>pg_flash opts = [] \<longleftrightarrow> pg_flash opts' = []\<close>
  shows \<open>marks (html_page title body opts) = marks (html_page title' body' opts')\<close>
proof -
  have \<open>marks (banner_html (pg_flash opts) (pg_flash_error opts)) = marks (banner_html (pg_flash opts') (pg_flash_error opts'))\<close>
    using assms(5) by (simp add: banner_html_def marks_append marks_if mark_def)
  moreover have \<open>marks (logout_html c) = marks (logout_html c')\<close> for c c'
    by (simp add: logout_html_def marks_append mark_def)
  ultimately show ?thesis
    using assms(1-4) by (simp add: html_page_def marks_append del: append.simps marks_Cons)
qed

end
