(* ===== verification/Console.thy ===== *)
theory Console
  imports Admin Html
begin

text \<open>
  \<^verbatim>\<open>src/src/acs/api/console.py\<close>, its sessions and everything that changes state: sign-in and sign-out, the
  signed session cookie, the CSRF check, and the forms that create, change and act on subscribers.
  The pages it renders are in the theory of the console's pages. Form fields that the framework
  requires are arguments; logging is left out.

  \<open>subscriber_update\<close> assigns to the object that the store returned. The memory store returns its own
  object, so the assignments reach the stored record before \<open>put_subscriber\<close> looks at it; \<open>assign_live\<close>
  is that effect. The other handlers assign only fields that \<open>put_subscriber\<close> does not look at.
\<close>

section \<open>Sessions\<close>

definition SESSION_COOKIE :: string where
  "SESSION_COOKIE = ''acs_console''"

definition CSRF_COOKIE :: string where
  "CSRF_COOKIE = ''acs_console_csrf''"

definition SESSION_TTL_SECONDS :: int where
  "SESSION_TTL_SECONDS = 3600"

definition console_sign :: "(string \<Rightarrow> string \<Rightarrow> string) \<Rightarrow> string \<Rightarrow> string \<Rightarrow> string" where
  "console_sign hmac payload secret = take 32 (hmac secret payload)"

definition make_session :: "AppState \<Rightarrow> string \<Rightarrow> int option \<Rightarrow> string" where
  "make_session app secret now =
     (let payload = str_of_int (time_or now (app_clock app) + SESSION_TTL_SECONDS)
      in app_b64encode app (payload @ '':'' @ console_sign (app_hmac app) payload secret))"

definition session_valid :: "AppState \<Rightarrow> string option \<Rightarrow> string \<Rightarrow> int option \<Rightarrow> api_error + bool" where
  "session_valid app cookie secret now =
     (if \<not> truthy cookie \<or> secret = [] then Inr False
      else (case app_b64decode app (the cookie) of
        None \<Rightarrow> Inr False
      | Some raw \<Rightarrow>
          (case py_rpartition CHR '':'' raw of (payload, found, signature) \<Rightarrow>
             if \<not> py_isdigit payload \<or> signature = [] then Inr False
             else (case compare_digest (console_sign (app_hmac app) payload secret) signature of
               None \<Rightarrow> Inl RaisedTypeError
             | Some same \<Rightarrow>
                 if \<not> same then Inr False
                 else (case py_int payload of
                   None \<Rightarrow> Inl (Unhandled ''ValueError'')
                 | Some expires \<Rightarrow> Inr (expires > time_or now (app_clock app)))))))"

text \<open>\<open>_require_console\<close> returns the CSRF token of the cookie.\<close>

definition require_console :: "AppState \<Rightarrow> HttpRequest \<Rightarrow> api_error + string" where
  "require_console app rq =
     (if set_admin_token (app_settings app) = []
      then Inl (HTTPException 503 ''console disabled: ACS_ADMIN_TOKEN is not configured'')
      else bind_err (session_valid app (dict_get (rq_cookies rq) SESSION_COOKIE) (set_admin_token (app_settings app)) None)
        (\<lambda>ok. if \<not> ok then Inl (SignInRedirect (''/admin/ui/login?next='' @ quote (rq_path rq)))
              else Inr (dict_get_or (rq_cookies rq) CSRF_COOKIE [])))"

definition check_csrf :: "string \<Rightarrow> string option \<Rightarrow> api_error + unit" where
  "check_csrf form_token cookie_token =
     (if \<not> truthy cookie_token then Inl (HTTPException 400 ''stale form; reload and try again'')
      else (case compare_digest form_token (the cookie_token) of
        None \<Rightarrow> Inl RaisedTypeError
      | Some same \<Rightarrow> if same then Inr () else Inl (HTTPException 400 ''stale form; reload and try again'')))"

section \<open>Answers\<close>

definition console_cookie :: "string \<Rightarrow> string \<Rightarrow> bool \<Rightarrow> cookie_change" where
  "console_cookie name value secure = SetCookie \<lparr>ck_name = name, ck_value = value, ck_httponly = True,
     ck_samesite = ''strict'', ck_secure = secure, ck_max_age = SESSION_TTL_SECONDS, ck_path = ''/admin/ui''\<rparr>"

definition html_response :: "string \<Rightarrow> int \<Rightarrow> (string \<times> string \<times> bool) list \<Rightarrow> HttpResponse" where
  "html_response body status cookies = \<lparr>rs_status = status, rs_headers = SECURITY_HEADERS,
     rs_media_type = Some ''text/html; charset=utf-8'', rs_body = body,
     rs_cookies = map (\<lambda>(name, value, secure). if value \<noteq> [] then console_cookie name value secure
       else DeleteCookie name ''/admin/ui'') cookies\<rparr>"

definition see_other :: "string \<Rightarrow> HttpResponse" where
  "see_other location = plain_response 303 ((''Location'', location) # SECURITY_HEADERS)"

definition flash_to :: "string \<Rightarrow> string \<Rightarrow> bool \<Rightarrow> HttpResponse" where
  "flash_to location message is_error =
     (let query = urlencode ((''m'', message) # (if is_error then [(''e'', ''1'')] else []));
          joiner = (if CHR ''?'' \<in> set location then ''&'' else ''?'')
      in see_other (location @ joiner @ query))"

definition signed_out_page :: PageOptions where
  "signed_out_page = \<lparr>pg_current = [], pg_flash = [], pg_flash_error = False, pg_signed_in = False, pg_csrf = [],
     pg_environment = []\<rparr>"

definition render_page :: "HttpRequest \<Rightarrow> AppState \<Rightarrow> string \<Rightarrow> string \<Rightarrow> string \<Rightarrow> string \<Rightarrow> HttpResponse" where
  "render_page rq app csrf title body current =
     html_response (html_page title body \<lparr>pg_current = current,
       pg_flash = (case query_get rq ''m'' of Some m \<Rightarrow> utf8 m | None \<Rightarrow> []),
       pg_flash_error = (query_get rq ''e'' = Some ''1''), pg_signed_in = True, pg_csrf = utf8 csrf,
       pg_environment = utf8 (set_env (app_settings app))\<rparr>) 200 []"

section \<open>Signing in and out\<close>

definition login_form :: "AppState \<Rightarrow> HttpRequest \<Rightarrow> string \<Rightarrow> HttpResponse" where
  \<open>login_form app rq next_page =
     (if set_admin_token (app_settings app) = []
      then html_response (html_page ''Console unavailable''
        (''<h2>Console unavailable</h2><p>The admin token is not configured, so '' @
         ''the console and the admin API are both disabled. Set '' @
         ''<code>ACS_ADMIN_TOKEN</code> '' @ em_dash @ '' there is deliberately no default.</p>'') signed_out_page) 503 []
      else
        (let csrf = app_random app 0;
             body = ''<h2>Sign in</h2>'' @
               ''<p class="hint">Paste the admin token. In AWS it is held in Secrets '' @
               ''Manager; the deploy output prints the command to read it.</p>'' @
               ''<form method="post" action="/admin/ui/login">'' @ hidden ''csrf'' (utf8 csrf) @ hidden ''next'' (utf8 next_page) @
               text_field ''token'' ''Admin token'' (plain_field\<lparr>tf_input_type := ''password'', tf_required := True,
                 tf_hint := ''Sent once and exchanged for a session that expires in one hour.''\<rparr>) @
               ''<button type="submit">Sign in</button></form>''
         in html_response (html_page ''Sign in'' body signed_out_page) 200
              [(CSRF_COOKIE, csrf, rq_scheme rq = ''https'')]))\<close>

definition login :: "AppState \<Rightarrow> HttpRequest \<Rightarrow> string \<Rightarrow> string \<Rightarrow> string \<Rightarrow> api_error + HttpResponse" where
  \<open>login app rq token csrf next_page =
     (let expected = set_admin_token (app_settings app)
      in if expected = [] then Inl (HTTPException 503 ''console disabled'')
         else bind_err (check_csrf csrf (dict_get (rq_cookies rq) CSRF_COOKIE)) (\<lambda>_.
           case compare_digest token expected of
             None \<Rightarrow> Inl RaisedTypeError
           | Some same \<Rightarrow>
               if \<not> same
               then Inr (html_response (html_page ''Sign in''
                 (''<h2>Sign in</h2>'' @ ''<div class="flash error" role="alert">That token was not accepted.</div>'' @
                  ''<p><a href="/admin/ui/login">Try again</a></p>'') signed_out_page) 401 [])
               else
                 (let secure = (rq_scheme rq = ''https'');
                      destination = (if py_startswith next_page ''/admin/ui'' then next_page else ''/admin/ui'')
                  in Inr ((see_other destination)\<lparr>rs_cookies :=
                       [console_cookie SESSION_COOKIE (make_session app expected None) secure,
                        console_cookie CSRF_COOKIE (app_random app 0) secure]\<rparr>))))\<close>

definition logout :: "HttpRequest \<Rightarrow> string \<Rightarrow> api_error + HttpResponse" where
  "logout rq csrf =
     (let cookie = dict_get (rq_cookies rq) CSRF_COOKIE
      in bind_err (if csrf \<noteq> [] \<and> truthy cookie then check_csrf csrf cookie else Inr ()) (\<lambda>_.
         Inr ((see_other ''/admin/ui/login'')\<lparr>rs_cookies :=
           [DeleteCookie SESSION_COOKIE ''/admin/ui'', DeleteCookie CSRF_COOKIE ''/admin/ui'']\<rparr>)))"

section \<open>Forms\<close>

definition console_guard :: "AppState \<Rightarrow> HttpRequest \<Rightarrow> string \<Rightarrow> api_error + unit" where
  "console_guard app rq csrf = bind_err (require_console app rq) (\<lambda>cookie_csrf. check_csrf csrf (Some cookie_csrf))"

record CreateForm =
  nf_imsi :: string
  nf_msisdn :: string
  nf_rcs_profile :: string
  nf_entitled :: string
  nf_volte_enabled :: string

definition subscriber_create :: "AppState \<Rightarrow> HttpRequest \<Rightarrow> string \<Rightarrow> CreateForm \<Rightarrow> HttpResponse api" where
  "subscriber_create app rq csrf f s = bind_step (console_guard app rq csrf, s) (\<lambda>_ s.
     (let imsi = py_strip (nf_imsi f)
      in if \<not> imsi_format imsi then (Inr (flash_to ''/admin/ui/subscribers'' ''IMSI must be 5 to 15 digits.'' True), s)
         else (case normalise_msisdn (Some (nf_msisdn f)) (set_default_country_code (app_settings app))
                 (set_national_trunk_prefix (app_settings app)) of
           None \<Rightarrow> (Inr (flash_to ''/admin/ui/subscribers'' ''That number is not valid E.164.'' True), s)
         | Some normalised \<Rightarrow>
             if get_subscriber s imsi \<noteq> None
             then (Inr (flash_to ''/admin/ui/subscribers'' (''IMSI '' @ imsi @ '' already exists.'') True), s)
             else (Inr (flash_to (''/admin/ui/subscribers/'' @ quote imsi) ''Number added.'' False),
               put_subscriber \<lparr>sub_imsi = imsi, sub_msisdn = normalised, sub_entitled = (nf_entitled f \<noteq> []),
                 sub_provisioning_version = 1, sub_forced_vers = None, sub_rcs_profile = nf_rcs_profile f,
                 sub_imei_allowlist = [], sub_overrides = [], sub_dm_password = [],
                 sub_volte_enabled = (nf_volte_enabled f \<noteq> []), sub_created_at = app_clock app,
                 sub_updated_at = app_clock app\<rparr> s))))"

record UpdateForm =
  uf_msisdn :: string
  uf_rcs_profile :: string
  uf_forced_vers :: string
  uf_imei_allowlist :: string
  uf_entitled :: string
  uf_volte_enabled :: string

text \<open>The fields of the form, or the message that is flashed.\<close>

definition forced_field :: "string \<Rightarrow> string + int option" where
  "forced_field forced_vers =
     (if forced_vers = [] then Inr None
      else (case py_int forced_vers of
        None \<Rightarrow> Inl ''Forced version must be a number.''
      | Some forced \<Rightarrow>
          if forced \<notin> set FORCEABLE_VERSIONS then Inl (str_of_int forced @ '' is not a valid disable value.'')
          else Inr (Some forced)))"

definition imei_format :: "string \<Rightarrow> bool" where
  "imei_format item \<longleftrightarrow> py_isdigit item \<and> 14 \<le> length item \<and> length item \<le> 16"

definition allowlist_field :: "string \<Rightarrow> string + string list" where
  "allowlist_field imei_allowlist =
     (let allowlist = comma_list imei_allowlist;
          bad = filter (\<lambda>item. \<not> imei_format item) allowlist
      in if bad \<noteq> [] then Inl (''Not a valid IMEI: '' @ py_join '', '' bad) else Inr allowlist)"

definition update_fields :: "AppState \<Rightarrow> UpdateForm \<Rightarrow> Subscriber \<Rightarrow> string + Subscriber" where
  "update_fields app f sub =
     (case normalise_msisdn (Some (uf_msisdn f)) (set_default_country_code (app_settings app))
             (set_national_trunk_prefix (app_settings app)) of
        None \<Rightarrow> Inl ''That number is not valid E.164.''
      | Some normalised \<Rightarrow>
          bind_err (forced_field (uf_forced_vers f)) (\<lambda>forced.
          bind_err (allowlist_field (uf_imei_allowlist f)) (\<lambda>allowlist.
          Inr (sub\<lparr>sub_msisdn := normalised, sub_rcs_profile := uf_rcs_profile f, sub_forced_vers := forced,
                 sub_imei_allowlist := allowlist, sub_entitled := (uf_entitled f \<noteq> []),
                 sub_volte_enabled := (uf_volte_enabled f \<noteq> [])\<rparr>))))"

definition assign_live :: "string \<Rightarrow> Subscriber \<Rightarrow> MemoryStore \<Rightarrow> MemoryStore" where
  "assign_live imsi sub s = s\<lparr>st_subscribers := dict_put imsi sub (st_subscribers s)\<rparr>"

definition guarded_subscriber :: "AppState \<Rightarrow> HttpRequest \<Rightarrow> string \<Rightarrow> string \<Rightarrow> (Subscriber \<Rightarrow> 'a api) \<Rightarrow> 'a api" where
  "guarded_subscriber app rq csrf imsi f s =
     bind_step (console_guard app rq csrf, s) (\<lambda>_. with_subscriber imsi f)"

definition subscriber_page :: "string \<Rightarrow> string" where
  "subscriber_page imsi = ''/admin/ui/subscribers/'' @ quote imsi"

definition subscriber_update :: "AppState \<Rightarrow> HttpRequest \<Rightarrow> string \<Rightarrow> string \<Rightarrow> UpdateForm \<Rightarrow> HttpResponse api" where
  "subscriber_update app rq csrf imsi f = guarded_subscriber app rq csrf imsi (\<lambda>sub s.
     case update_fields app f sub of
       Inl message \<Rightarrow> (Inr (flash_to (subscriber_page imsi) message True), s)
     | Inr sub' \<Rightarrow> (Inr (flash_to (subscriber_page imsi) ''Saved.'' False), put_subscriber sub' (assign_live imsi sub' s)))"

text \<open>Only catalogued keys are accepted.\<close>

definition catalogued :: "AppState \<Rightarrow> Subscriber \<Rightarrow> api_error + string list" where
  "catalogued app sub =
     (case app_get_catalog app (str_or (sub_rcs_profile sub) (set_default_rcs_profile (app_settings app))) of
        Inl e \<Rightarrow> Inl (Unhandled ''CatalogError'')
      | Inr entries \<Rightarrow>
          (case app_get_tree app of
             Inl e \<Rightarrow> Inl (Unhandled ''CatalogError'')
           | Inr tree \<Rightarrow> Inr (map entry_key entries @ map mo_uri (all_nodes tree))))"

definition subscriber_override :: "AppState \<Rightarrow> HttpRequest \<Rightarrow> string \<Rightarrow> string \<Rightarrow> string \<Rightarrow> string \<Rightarrow> string \<Rightarrow>
    HttpResponse api" where
  "subscriber_override app rq csrf imsi key dm_key value = guarded_subscriber app rq csrf imsi (\<lambda>sub s.
     (let chosen = py_strip (str_or key dm_key);
          to_page = flash_to (subscriber_page imsi)
      in if chosen = [] then (Inr (to_page ''Choose a parameter or a management node.'' True), s)
         else bind_step (catalogued app sub, s) (\<lambda>valid s.
           if chosen \<notin> set valid then (Inr (to_page ''That key is not in either catalogue.'' True), s)
           else if py_strip value \<noteq> []
           then (Inr (to_page ''Override set.'' False),
                 put_subscriber (sub\<lparr>sub_overrides := dict_put chosen (py_strip value) (sub_overrides sub)\<rparr>) s)
           else if dict_get (sub_overrides sub) chosen \<noteq> None
           then (Inr (to_page ''Override removed.'' False),
                 put_subscriber (sub\<lparr>sub_overrides := dict_pop chosen (sub_overrides sub)\<rparr>) s)
           else (Inr (to_page ''Nothing to remove.'' True), s))))"

definition subscriber_action :: "AppState \<Rightarrow> HttpRequest \<Rightarrow> string \<Rightarrow> string \<Rightarrow> string \<Rightarrow> HttpResponse api" where
  "subscriber_action app rq csrf imsi action = guarded_subscriber app rq csrf imsi (\<lambda>sub s.
     (let to_page = flash_to (subscriber_page imsi)
      in if action = ''invalidate'' then
           (let sub' = sub\<lparr>sub_provisioning_version := next_version (sub_provisioning_version sub), sub_forced_vers := None\<rparr>
            in (Inr (to_page (''Version bumped to '' @ str_of_int (sub_provisioning_version sub') @ ''.'') False),
                put_subscriber sub' s))
         else if action = ''enable'' then
           (Inr (to_page ''Enabled and version bumped.'' False),
            put_subscriber (sub\<lparr>sub_forced_vers := None, sub_entitled := True,
              sub_provisioning_version := next_version (sub_provisioning_version sub)\<rparr>) s)
         else if action = ''revoke-tokens'' then
           (case revoke_tokens_for_imsi imsi s of (revoked, s') \<Rightarrow>
              (Inr (to_page (str_of_int revoked @ '' token(s) revoked; the client must re-authenticate.'') False), s'))
         else if action = ''issue-token'' then
           (case issue_token put_token (app_sha app) (app_token app) (app_clock app) imsi None
                   (set_token_ttl_seconds (app_settings app)) False s of
              (issued, s') \<Rightarrow> (Inr (to_page (''Token issued (shown once): '' @ issued) False), s'))
         else if action = ''delete'' then
           (Inr (flash_to ''/admin/ui/subscribers'' ''Subscriber deleted.'' False),
            delete_subscriber imsi (snd (revoke_tokens_for_imsi imsi s)))
         else (Inr (to_page (''Unknown action '' @ action @ ''.'') True), s)))"

datatype console_op =
  ConsoleCreate CreateForm
| ConsoleUpdate string UpdateForm
| ConsoleOverride string string string string
| ConsoleAction string string

fun console_post :: "AppState \<Rightarrow> HttpRequest \<Rightarrow> string \<Rightarrow> console_op \<Rightarrow> HttpResponse api" where
  "console_post app rq csrf (ConsoleCreate f) = subscriber_create app rq csrf f"
| "console_post app rq csrf (ConsoleUpdate imsi f) = subscriber_update app rq csrf imsi f"
| "console_post app rq csrf (ConsoleOverride imsi key dm_key value) = subscriber_override app rq csrf imsi key dm_key value"
| "console_post app rq csrf (ConsoleAction imsi action) = subscriber_action app rq csrf imsi action"


section \<open>Sessions cannot be forged and end\<close>

lemma rpartition_at: "c \<notin> set b \<Longrightarrow> py_rpartition c (a @ c # b) = (a, True, b)"
  using py_partition_first [of c "rev b" "rev a"] by (simp add: py_rpartition_def py_partition_def)

lemma rpartition_join: "py_rpartition c s = (a, True, b) \<Longrightarrow> s = a @ c # b"
proof -
  assume p: "py_rpartition c s = (a, True, b)"
  then have "c \<in> set (rev s)" by (simp add: py_rpartition_def split: if_splits)
  then obtain x y where s: "rev s = x @ c # y" "c \<notin> set x" by (metis split_list_first)
  then have "s = rev y @ c # rev x" by (metis rev_append rev.simps(2) rev_rev_ident append.assoc append_Cons append_Nil)
  with rpartition_at [of c "rev x" "rev y"] s(2) p show ?thesis by simp
qed

text \<open>
  C19. Console sessions are stateless but not forgeable, and they end. A session made at time \<open>t\<close> is
  accepted exactly until an hour later (base64 decodes what it encoded; HMAC hex digests are not empty
  and contain no colon). Whatever is accepted decodes to an expiry time that has not passed, followed
  by its signature under the admin token; so changing the token ends every session whose signature
  the new token does not reproduce.
\<close>

theorem console_session_sound:
  assumes "secret \<noteq> []" and "0 < t" and "0 < now"
    and "\<And>x. app_b64decode app (app_b64encode app x) = Some x" and "\<And>x. x \<noteq> [] \<Longrightarrow> app_b64encode app x \<noteq> []"
    and "\<And>k x. app_hmac app k x \<noteq> [] \<and> list_all is_ascii (app_hmac app k x) \<and> CHR '':'' \<notin> set (app_hmac app k x)"
    and "length (str_of_nat (nat t + 3600)) \<le> int_max_str_digits"
  shows "session_valid app (Some (make_session app secret (Some t))) secret (Some now) = Inr (now < t + 3600) \<and>
    (\<forall>cookie. session_valid app cookie secret (Some now) = Inr True \<longrightarrow>
      (\<exists>payload expires. app_b64decode app (the cookie) = Some (payload @ '':'' @ console_sign (app_hmac app) payload secret) \<and>
         py_int payload = Some expires \<and> now < expires)) \<and>
    (\<forall>other. console_sign (app_hmac app) (str_of_int (t + 3600)) other \<noteq> console_sign (app_hmac app) (str_of_int (t + 3600)) secret \<longrightarrow>
      session_valid app (Some (make_session app other (Some t))) secret (Some now) = Inr False)"
proof -
  let ?p = "str_of_nat (nat t + 3600)"
  have payload: "str_of_int (t + 3600) = ?p" using assms(2) by (simp add: str_of_int_def nat_add_distrib)
  have sign: "console_sign (app_hmac app) x k \<noteq> []" "list_all is_ascii (console_sign (app_hmac app) x k)"
      "CHR '':'' \<notin> set (console_sign (app_hmac app) x k)" for x k
    using assms(6) [of k x] by (auto simp: console_sign_def list_all_iff dest: in_set_takeD)
  have made: "session_valid app (Some (make_session app k (Some t))) secret (Some now) =
      (if console_sign (app_hmac app) ?p secret = console_sign (app_hmac app) ?p k then Inr (now < t + 3600) else Inr False)" for k
    using assms(1-3,5) sign [of ?p]
    by (simp add: session_valid_def make_session_def Let_def SESSION_TTL_SECONDS_def payload truthy_def assms(4)
        rpartition_at py_isdigit_str_of_nat py_int_str_of_nat [OF assms(7)] compare_digest_def)
  have sound: "\<exists>payload expires. app_b64decode app (the cookie) = Some (payload @ '':'' @ console_sign (app_hmac app) payload secret) \<and>
         py_int payload = Some expires \<and> now < expires"
    if v: "session_valid app cookie secret (Some now) = Inr True" for cookie
  proof -
    obtain raw where raw: "app_b64decode app (the cookie) = Some raw"
      using v by (auto simp: session_valid_def split: if_splits option.splits)
    obtain payload found sig where r: "py_rpartition CHR '':'' raw = (payload, found, sig)"
      by (cases "py_rpartition CHR '':'' raw") auto
    from v raw r assms(3) have sig: "compare_digest (console_sign (app_hmac app) payload secret) sig = Some True"
        and d: "py_isdigit payload" and e: "\<exists>expires. py_int payload = Some expires \<and> now < expires"
      by (auto simp: session_valid_def split: if_splits option.splits)
    have found using r d by (cases found) (auto simp: py_rpartition_def py_isdigit_def split: if_splits)
    with r have "raw = payload @ CHR '':'' # sig" by (auto dest: rpartition_join)
    with raw e compare_digest_True [OF sig] show ?thesis by auto
  qed
  show ?thesis using made sound payload by auto
qed

definition demo_console :: AppState where
  "demo_console = demo_app\<lparr>app_hmac := (\<lambda>k x. ''d''), app_clock := 5\<rparr>"

theorem console_session_sound_witness:
  "session_valid demo_console (Some (make_session demo_console ''k'' (Some 1000))) ''k'' (Some 4599) = Inr True \<and>
   session_valid demo_console (Some (make_session demo_console ''k'' (Some 1000))) ''k'' (Some 4600) = Inr False"
proof -
  have len: "length (str_of_nat (nat 1000 + 3600)) \<le> int_max_str_digits"
    by (simp add: int_max_str_digits_def str_of_nat.simps)
  have b64: "app_b64decode demo_console = Some" "app_b64encode demo_console = (\<lambda>x. x)"
      and hmac: "app_hmac demo_console = (\<lambda>k x. ''d'')"
    by (simp_all add: demo_console_def demo_app_def)
  have "session_valid demo_console (Some (make_session demo_console ''k'' (Some 1000))) ''k'' (Some now) =
      Inr (now < 1000 + 3600)" if "0 < now" for now
    using console_session_sound [of "''k''" 1000 now demo_console] that len
    by (simp add: b64 hmac is_ascii_def code_of_def)
  then show ?thesis by simp
qed


section \<open>Nothing changes without a session and its form token\<close>

lemma console_guard_Inr:
  assumes "console_guard app rq csrf = Inr ()"
  shows "set_admin_token (app_settings app) \<noteq> [] \<and>
    session_valid app (dict_get (rq_cookies rq) SESSION_COOKIE) (set_admin_token (app_settings app)) None = Inr True \<and>
    csrf \<noteq> [] \<and> dict_get (rq_cookies rq) CSRF_COOKIE = Some csrf"
proof -
  obtain c where c: "require_console app rq = Inr c" "check_csrf csrf (Some c) = Inr ()"
    using assms by (auto simp: console_guard_def bind_err_Inr)
  from c(2) have csrf: "c \<noteq> []" "csrf = c"
    by (auto simp: check_csrf_def truthy_def split: if_splits option.splits dest: compare_digest_True)
  from c(1) have "set_admin_token (app_settings app) \<noteq> []"
      "session_valid app (dict_get (rq_cookies rq) SESSION_COOKIE) (set_admin_token (app_settings app)) None = Inr True"
      "c = dict_get_or (rq_cookies rq) CSRF_COOKIE []"
    by (auto simp: require_console_def bind_err_Inr split: if_splits)
  with csrf show ?thesis by (auto simp: dict_get_or_def dict_get_def split: option.splits)
qed

lemma console_post_guarded:
  "console_guard app rq csrf = Inl e \<Longrightarrow> console_post app rq csrf op s = (Inl e, s)"
  by (cases op) (simp_all add: subscriber_create_def subscriber_update_def subscriber_override_def subscriber_action_def
      guarded_subscriber_def)

text \<open>
  C18. Every form of the console that changes something is protected twice: the store changes, or a form
  is answered, only if an admin token is configured, the request carries a session that is valid under
  it, and the form carries the very token that the CSRF cookie holds. Anything else leaves the store
  as it was: without a configured token the answer is 503, without a session the way to sign-in.
\<close>

theorem console_gate:
  assumes "console_post app rq csrf op s = (r, s')"
  shows "(s' \<noteq> s \<or> (\<exists>a. r = Inr a) \<longrightarrow> set_admin_token (app_settings app) \<noteq> [] \<and>
      session_valid app (dict_get (rq_cookies rq) SESSION_COOKIE) (set_admin_token (app_settings app)) None = Inr True \<and>
      csrf \<noteq> [] \<and> dict_get (rq_cookies rq) CSRF_COOKIE = Some csrf) \<and>
    (set_admin_token (app_settings app) = [] \<longrightarrow>
      r = Inl (HTTPException 503 ''console disabled: ACS_ADMIN_TOKEN is not configured'') \<and> s' = s) \<and>
    (set_admin_token (app_settings app) \<noteq> [] \<and> dict_get (rq_cookies rq) SESSION_COOKIE = None \<longrightarrow>
      r = Inl (SignInRedirect (''/admin/ui/login?next='' @ quote (rq_path rq))) \<and> s' = s)"
proof -
  let ?g = "console_guard app rq csrf"
  have "?g = Inr ()" if "s' \<noteq> s \<or> (\<exists>a. r = Inr a)"
    using that assms console_post_guarded [of app rq csrf _ op s] by (cases ?g) auto
  moreover have "?g = Inl (HTTPException 503 ''console disabled: ACS_ADMIN_TOKEN is not configured'')"
    if "set_admin_token (app_settings app) = []"
    using that by (simp add: console_guard_def require_console_def)
  moreover have "?g = Inl (SignInRedirect (''/admin/ui/login?next='' @ quote (rq_path rq)))"
    if "set_admin_token (app_settings app) \<noteq> []" "dict_get (rq_cookies rq) SESSION_COOKIE = None"
    using that by (simp add: console_guard_def require_console_def session_valid_def truthy_def)
  ultimately show ?thesis
    using assms console_guard_Inr [of app rq csrf] console_post_guarded [of app rq csrf _ op s] by fastforce
qed

definition demo_console_request :: HttpRequest where
  "demo_console_request = \<lparr>rq_method = ''POST'', rq_scheme = ''https'', rq_path = ''/admin/ui/subscribers'', rq_query = [],
     rq_headers = [], rq_cookies = [(CSRF_COOKIE, ''tok''), (SESSION_COOKIE, ''60:d'')], rq_client = None\<rparr>"

lemma demo_guard: "console_guard demo_console demo_console_request ''tok'' = Inr ()"
proof -
  have "py_rpartition CHR '':'' ''60:d'' = (''60'', True, ''d'')" "py_isdigit ''60''"
      "list_all is_ascii ''d''" "list_all is_ascii ''tok''"
    by code_simp+
  moreover have "str_of_nat 60 = ''60''" by code_simp
  then have "py_int ''60'' = Some 60"
    using py_int_str_of_nat [of 60] by (simp add: int_max_str_digits_def)
  ultimately show ?thesis
    by (simp add: console_guard_def require_console_def session_valid_def check_csrf_def truthy_def compare_digest_def
        console_sign_def demo_console_def demo_app_def demo_console_request_def dict_get_def dict_get_or_def
        SESSION_COOKIE_def CSRF_COOKIE_def)
qed

theorem console_gate_witness:
  "\<exists>r s'. console_post demo_console demo_console_request ''tok'' (ConsoleAction ''450051234567890'' ''delete'') demo_admin_store
      = (Inr r, s') \<and> get_subscriber s' ''450051234567890'' = None \<and>
     dict_get (rq_cookies demo_console_request) CSRF_COOKIE = Some ''tok''"
proof -
  have "\<exists>r s'. console_post demo_console demo_console_request ''tok'' (ConsoleAction ''450051234567890'' ''delete'')
      demo_admin_store = (Inr r, s') \<and> get_subscriber s' ''450051234567890'' = None"
    by (simp add: subscriber_action_def guarded_subscriber_def demo_guard with_subscriber_def load_subscriber_def
        demo_admin_store_ok get_subscriber_delete Let_def)
  then obtain r s' where p: "console_post demo_console demo_console_request ''tok''
      (ConsoleAction ''450051234567890'' ''delete'') demo_admin_store = (Inr r, s')" "get_subscriber s' ''450051234567890'' = None"
    by blast
  with console_gate [OF p(1)] show ?thesis by auto
qed


section \<open>The console and the admin interface agree\<close>

text \<open>
  C36. The buttons of the console do what the JSON interface does. For an operator who is signed in, the
  actions that bump the version, enable, revoke tokens and delete leave exactly the store that the
  corresponding requests of the admin interface leave, whether or not the subscriber exists.
\<close>

theorem console_matches_admin:
  assumes "console_guard app rq csrf = Inr ()"
  shows "snd (console_post app rq csrf (ConsoleAction imsi ''invalidate'') s) = snd (admin_handler app (Invalidate imsi) s) \<and>
    snd (console_post app rq csrf (ConsoleAction imsi ''enable'') s) = snd (admin_handler app (Enable imsi) s) \<and>
    snd (console_post app rq csrf (ConsoleAction imsi ''revoke-tokens'') s) = snd (admin_handler app (RevokeTokens imsi) s) \<and>
    snd (console_post app rq csrf (ConsoleAction imsi ''delete'') s) = snd (admin_handler app (DeleteSubscriber imsi) s)"
  using assms
  by (cases "get_subscriber s imsi")
    (simp_all add: subscriber_action_def guarded_subscriber_def with_subscriber_def load_subscriber_def answer_with_def
      admin_invalidate_def admin_enable_def admin_revoke_tokens_def admin_delete_subscriber_def Let_def split: prod.split)

theorem console_matches_admin_witness:
  "snd (console_post demo_console demo_console_request ''tok'' (ConsoleAction ''450051234567890'' ''enable'') demo_admin_store)
     = snd (admin_handler demo_console (Enable ''450051234567890'') demo_admin_store)"
  using console_matches_admin [OF demo_guard] by blast

text \<open>Issuing a token is where they differ: the admin interface refuses a subscriber who is not entitled,
  the console does not ask.\<close>

lemma console_issues_without_entitlement:
  assumes "console_guard app rq csrf = Inr ()" and "get_subscriber s imsi = Some sub" and "\<not> sub_entitled sub"
  shows "snd (admin_handler app (IssueToken imsi imei) s) = s"
    and "get_token (snd (console_post app rq csrf (ConsoleAction imsi ''issue-token'') s)) (app_sha app (app_token app)) \<noteq> None"
  using assms
  by (simp_all add: subscriber_action_def guarded_subscriber_def with_subscriber_def load_subscriber_def answer_with_def
      admin_issue_token_def issue_token_def hash_token_def put_token_def get_token_def Let_def)

section \<open>Overrides\<close>

text \<open>
  An override is always of something that exists. The form changes nothing of a subscriber but its
  overrides, and of those only the key that was chosen, which is a parameter of the subscriber's
  catalogue or a node of the management tree; a value that is not blank is stored without its
  surrounding white space, a blank one removes the override. The number index stays exact and other
  subscribers are not touched.
\<close>

theorem console_override_catalogued:
  assumes "index_ok s" and "get_subscriber s imsi = Some sub" and "catalogued app sub = Inr valid"
    and "console_post app rq csrf (ConsoleOverride imsi key dm_key value) s = (Inr r, s')"
  shows "\<exists>sub'. get_subscriber s' imsi = Some sub' \<and> sub' = sub\<lparr>sub_overrides := sub_overrides sub'\<rparr> \<and> index_ok s' \<and>
    (\<forall>other. other \<noteq> imsi \<longrightarrow> get_subscriber s' other = get_subscriber s other) \<and>
    (\<forall>k. dict_get (sub_overrides sub') k \<noteq> dict_get (sub_overrides sub) k \<longrightarrow>
       k \<in> set valid \<and> k = py_strip (str_or key dm_key) \<and>
       dict_get (sub_overrides sub') k = (if py_strip value = [] then None else Some (py_strip value)))"
proof -
  let ?k = "py_strip (str_or key dm_key)" and ?v = "py_strip value"
  have i: "sub_imsi sub = imsi" using index_okD(1) [OF assms(1,2)] by simp
  note put = put_same_number_index_ok [OF assms(1,2)]
  have "console_guard app rq csrf = Inr ()"
    using assms(4) console_post_guarded [of app rq csrf _ "ConsoleOverride imsi key dm_key value" s]
    by (cases "console_guard app rq csrf") auto
  with assms(2-4) consider "s' = s"
    | "?k \<in> set valid" "?v \<noteq> []" "s' = put_subscriber (sub\<lparr>sub_overrides := dict_put ?k ?v (sub_overrides sub)\<rparr>) s"
    | "?k \<in> set valid" "?v = []" "s' = put_subscriber (sub\<lparr>sub_overrides := dict_pop ?k (sub_overrides sub)\<rparr>) s"
    by (auto simp: subscriber_override_def guarded_subscriber_def with_subscriber_def load_subscriber_def Let_def
        split: if_splits)
  then show ?thesis
  proof cases
    case 1
    with assms(1,2) show ?thesis by simp
  next
    case 2
    with i put [of "sub\<lparr>sub_overrides := dict_put ?k ?v (sub_overrides sub)\<rparr>"] show ?thesis
      by (auto simp: get_subscriber_put)
  next
    case 3
    with i put [of "sub\<lparr>sub_overrides := dict_pop ?k (sub_overrides sub)\<rparr>"] show ?thesis
      by (auto simp: get_subscriber_put)
  qed
qed

theorem console_override_catalogued_witness:
  "\<exists>r s' sub'. console_post demo_console demo_console_request ''tok''
       (ConsoleOverride ''450051234567890'' ''./DevInfo/Man'' [] ''Acme'') demo_admin_store = (Inr r, s') \<and>
     get_subscriber s' ''450051234567890'' = Some sub' \<and> dict_get (sub_overrides sub') ''./DevInfo/Man'' = Some ''Acme'' \<and>
     index_ok s'"
proof -
  let ?sub = "demo_subscriber ''450051234567890'' ''+82''"
  have valid: "\<exists>valid. catalogued demo_console ?sub = Inr valid \<and> ''./DevInfo/Man'' \<in> set valid"
    by (simp add: catalogued_def demo_console_def demo_app_def demo_catalog_def demo_tree_def all_nodes_def)
  then obtain valid where v: "catalogued demo_console ?sub = Inr valid" "''./DevInfo/Man'' \<in> set valid" by blast
  have strip: "py_strip ''./DevInfo/Man'' = ''./DevInfo/Man''" "py_strip ''Acme'' = ''Acme''" by code_simp+
  let ?s = "put_subscriber (?sub\<lparr>sub_overrides := dict_put ''./DevInfo/Man'' ''Acme'' (sub_overrides ?sub)\<rparr>) demo_admin_store"
  have "\<exists>r. console_post demo_console demo_console_request ''tok''
      (ConsoleOverride ''450051234567890'' ''./DevInfo/Man'' [] ''Acme'') demo_admin_store = (Inr r, ?s)"
    using v by (simp add: subscriber_override_def guarded_subscriber_def demo_guard with_subscriber_def load_subscriber_def
        demo_admin_store_ok str_or_def strip Let_def)
  then obtain r where r: "console_post demo_console demo_console_request ''tok''
      (ConsoleOverride ''450051234567890'' ''./DevInfo/Man'' [] ''Acme'') demo_admin_store = (Inr r, ?s)" ..
  have "dict_get (sub_overrides (the (get_subscriber ?s ''450051234567890''))) ''./DevInfo/Man'' = Some ''Acme''"
    by (simp add: get_subscriber_put demo_subscriber_def)
  with console_override_catalogued [OF demo_admin_store_ok v(1) r] r show ?thesis by auto
qed

section \<open>Changing the number\<close>

text \<open>Because the memory store hands out its own objects, \<open>put_subscriber\<close> compares the new number with
  itself and leaves the old one in the index: after a subscriber was renumbered in the console, the
  old number still leads to it.\<close>

lemma console_update_keeps_old_number:
  assumes "index_ok s" and "get_subscriber s imsi = Some sub" and "console_guard app rq csrf = Inr ()"
    and "update_fields app f sub = Inr sub'" and "sub_msisdn sub' \<noteq> sub_msisdn sub"
    and "console_post app rq csrf (ConsoleUpdate imsi f) s = (Inr r, s')"
  shows "get_subscriber_by_msisdn s' (sub_msisdn sub) = Some sub' \<and> \<not> index_ok s'"
proof -
  have i: "sub_imsi sub = imsi" "imsi \<noteq> []" "dict_get (st_msisdn_index s) (sub_msisdn sub) = Some imsi"
    using index_okD(1) [OF assms(1,2)] by simp_all
  have i': "sub_imsi sub' = imsi"
    using assms(4) i(1) by (auto simp: update_fields_def bind_err_Inr split: option.splits)
  have "s' = put_subscriber sub' (assign_live imsi sub' s)"
    using assms(2,3,4,6)
    by (simp add: subscriber_update_def guarded_subscriber_def with_subscriber_def load_subscriber_def)
  then have "get_subscriber s' imsi = Some sub'" "dict_get (st_msisdn_index s') (sub_msisdn sub) = Some imsi"
    using i i' assms(5) by (simp_all add: get_subscriber_put index_put) (simp add: assign_live_def get_subscriber_def)
  then have *: "get_subscriber_by_msisdn s' (sub_msisdn sub) = Some sub'"
    using i(2) by (simp add: get_subscriber_by_msisdn_def get_subscriber_def)
  moreover have "\<not> index_ok s'" using index_ok_lookup [of s' "sub_msisdn sub" sub'] * assms(5) by auto
  ultimately show ?thesis by blast
qed

section \<open>Signing in\<close>

text \<open>A session cookie is handed out only for the admin token, and the way on stays inside the console.\<close>

lemma login_needs_token:
  assumes "login app rq token csrf next_page = Inr response" and "rs_cookies response \<noteq> []"
  shows "token = set_admin_token (app_settings app) \<and> token \<noteq> [] \<and> dict_get (rq_cookies rq) CSRF_COOKIE = Some csrf \<and>
    (\<exists>destination. dict_get (rs_headers response) ''Location'' = Some destination \<and> py_startswith destination ''/admin/ui'') \<and>
    (\<forall>c\<in>set (rs_cookies response). \<exists>k. c = SetCookie k \<and> ck_httponly k \<and> ck_samesite k = ''strict'' \<and>
       (rq_scheme rq = ''https'' \<longrightarrow> ck_secure k))"
proof -
  let ?e = "set_admin_token (app_settings app)"
  have e: "?e \<noteq> []" using assms(1) by (auto simp: login_def)
  then have c: "check_csrf csrf (dict_get (rq_cookies rq) CSRF_COOKIE) = Inr ()"
    using assms(1) by (cases "check_csrf csrf (dict_get (rq_cookies rq) CSRF_COOKIE)") (auto simp: login_def)
  then have csrf: "dict_get (rq_cookies rq) CSRF_COOKIE = Some csrf"
    by (auto simp: check_csrf_def truthy_def split: if_splits option.splits dest: compare_digest_True)
  have "compare_digest token ?e = Some True"
    using assms e c
    by (auto simp: login_def Let_def html_response_def split: option.splits if_splits)
  with e c csrf assms(1) compare_digest_True [OF this] show ?thesis
    by (auto simp: login_def Let_def see_other_def plain_response_def dict_get_def console_cookie_def py_startswith_def)
qed

end
