(* ===== verification/Console_Pages.thy ===== *)
theory Console_Pages
  imports Console
begin

text \<open>
  The pages of \<^verbatim>\<open>src/src/acs/api/console.py\<close>: overview, numbers, one number, devices, one device, the
  parameter catalogues and the conformance registry. They read the store and change nothing. What the
  templates interpolate, operator input as well as what a handset reported, is shown as text: the
  markup of a page does not depend on it.
\<close>

section \<open>Times\<close>

text \<open>\<open>strftime("%Y-%m-%d %H:%M")\<close>.\<close>

definition utc_minute :: "int \<Rightarrow> string" where
  "utc_minute t = (case civil_date (t div 86400) of (year, month, day) \<Rightarrow>
     str_of_int year @ ''-'' @ two_digits month @ ''-'' @ two_digits day @ '' '' @
     two_digits (t mod 86400 div 3600) @ '':'' @ two_digits (t mod 3600 div 60))"

section \<open>Helpers\<close>

fun traverse :: "('a \<Rightarrow> 'e + 'b) \<Rightarrow> 'a list \<Rightarrow> 'e + 'b list" where
  "traverse f [] = Inr []"
| "traverse f (x # xs) = bind_err (f x) (\<lambda>y. bind_err (traverse f xs) (\<lambda>ys. Inr (y # ys)))"

definition shown :: "string \<Rightarrow> string" where
  "shown v = esc (utf8 v)"

definition shown_or_dash :: "string \<Rightarrow> string" where
  "shown_or_dash v = (if v \<noteq> [] then shown v else em_dash)"

definition mono :: "string \<Rightarrow> string" where
  \<open>mono v = ''<span class="mono">'' @ v @ ''</span>''\<close>

definition device_link :: "string \<Rightarrow> string \<Rightarrow> string" where
  \<open>device_link device_id label = ''<a href="/admin/ui/devices/'' @ quote device_id @ ''">'' @ label @ ''</a>''\<close>

definition subscriber_link :: "string \<Rightarrow> string \<Rightarrow> string" where
  \<open>subscriber_link imsi label = ''<a href="/admin/ui/subscribers/'' @ quote imsi @ ''">'' @ label @ ''</a>''\<close>

definition catalog_or :: "AppState \<Rightarrow> string \<Rightarrow> api_error + CatalogEntry list" where
  "catalog_or app profile = (case app_get_catalog app profile of Inl e \<Rightarrow> Inl (Unhandled ''CatalogError'') | Inr c \<Rightarrow> Inr c)"

definition tree_or :: "AppState \<Rightarrow> api_error + MoTree" where
  "tree_or app = (case app_get_tree app of Inl e \<Rightarrow> Inl (Unhandled ''CatalogError'') | Inr t \<Rightarrow> Inr t)"

definition newest_first :: "Device list \<Rightarrow> Device list" where
  "newest_first devices = sort_key (\<lambda>d. - dev_last_seen_at d) devices"

section \<open>Overview\<close>

definition attention :: "'a list \<Rightarrow> string" where
  "attention xs = str_of_nat (length xs) @ '' '' @ (if xs \<noteq> [] then pill ''attention'' ''warn'' else pill ''none'' ''ok'')"

definition overview_body :: "AppState \<Rightarrow> CatalogEntry list \<Rightarrow> MoTree \<Rightarrow> MemoryStore \<Rightarrow> string" where
  \<open>overview_body app catalog tree s =
     (let subscribers = list_subscribers s 500;
          devices = list_devices s 500;
          cards = definition_list [
            (''Numbers'', str_of_nat (length subscribers)),
            (''Not entitled'', attention (filter (\<lambda>x. \<not> sub_entitled x) subscribers)),
            (''Forced disable / dormant'', attention (filter (\<lambda>x. sub_forced_vers x \<noteq> None) subscribers)),
            (''With parameter overrides'', str_of_nat (length (filter (\<lambda>x. sub_overrides x \<noteq> []) subscribers))),
            (''Devices seen'', str_of_nat (length devices)),
            (''OMA-CP parameters available'', str_of_nat (length catalog)),
            (''OMA-DM nodes available'', str_of_nat (length (all_nodes tree))),
            (''Default profile'', shown (set_default_rcs_profile (app_settings app))),
            (''Store backend'', shown (set_store_backend (app_settings app))),
            (''SMS provider'', shown (app_sms_name app))];
          recent = html_table [''Device'', ''Model'', ''Software'', ''DM nodes'', ''Last seen'']
            (map (\<lambda>d. [device_link (dev_device_id d) (shown (dev_device_id d)), shown_or_dash (dev_model d),
               shown_or_dash (dev_sw_version d), str_of_nat (length (dev_mo_values d)),
               shown (utc_minute (dev_last_seen_at d))]) (take 10 (newest_first devices)))
            ''Most recently seen devices'' ''No device has contacted the server yet.'' [3]
      in ''<h2>Overview</h2>'' @
         ''<p class="hint">Manage subscribers by number, their provisioning '' @
         ''parameters, and the devices that have contacted this server.</p>'' @
         ''<form method="get" action="/admin/ui/subscribers">'' @
         text_field ''q'' ''Find a number or IMSI'' (plain_field\<lparr>tf_hint := ''Enter a full or partial MSISDN or IMSI.'',
           tf_placeholder := ''+821012345678''\<rparr>) @
         ''<button type="submit">Search</button></form>'' @ ''<h3>Status</h3>'' @ cards @ ''<h3>Devices</h3>'' @ recent)\<close>

definition overview :: "AppState \<Rightarrow> HttpRequest \<Rightarrow> MemoryStore \<Rightarrow> api_error + HttpResponse" where
  "overview app rq s =
     bind_err (require_console app rq) (\<lambda>csrf.
     bind_err (catalog_or app (set_default_rcs_profile (app_settings app))) (\<lambda>catalog.
     bind_err (tree_or app) (\<lambda>tree.
     Inr (render_page rq app csrf ''Overview'' (overview_body app catalog tree s) ''overview''))))"

section \<open>Numbers\<close>

definition subscriber_state :: "Subscriber \<Rightarrow> api_error + string" where
  "subscriber_state sub =
     (if \<not> sub_entitled sub then Inr (pill ''not entitled'' ''bad'')
      else (case sub_forced_vers sub of
        None \<Rightarrow> Inr (pill ''active'' ''ok'')
      | Some forced \<Rightarrow>
          (case rule_for forced of
             Inl e \<Rightarrow> Inl (Unhandled ''ValueError'')
           | Inr rule \<Rightarrow> Inr (pill (str_of_int forced @ '' '' @ action_value (vr_action rule)) ''warn''))))"

definition subscriber_row :: "Subscriber \<Rightarrow> api_error + string list" where
  "subscriber_row sub = bind_err (subscriber_state sub) (\<lambda>state.
     Inr [subscriber_link (sub_imsi sub) (shown (sub_msisdn sub)), mono (shown (sub_imsi sub)), state,
          shown (str_or (sub_rcs_profile sub) ''(default)''),
          (if sub_volte_enabled sub then pill ''on'' ''ok'' else pill ''off'' []),
          str_of_int (sub_provisioning_version sub), str_of_nat (length (sub_overrides sub))])"

definition matching_subscribers :: "string \<Rightarrow> Subscriber list \<Rightarrow> Subscriber list" where
  "matching_subscribers needle subscribers =
     (if needle = [] then subscribers
      else (let digits = filter py_isdigit_char needle
            in filter (\<lambda>x. digits \<noteq> [] \<and> (contains digits (sub_msisdn x) \<or> contains digits (sub_imsi x))) subscribers))"

definition profile_options :: "AppState \<Rightarrow> (string \<times> string) list" where
  "profile_options app = ([], ''(server default)'') # map (\<lambda>p. (utf8 p, utf8 p)) (app_profiles app)"

definition add_form :: "AppState \<Rightarrow> string \<Rightarrow> string" where
  \<open>add_form app csrf =
     ''<h3>Add a number</h3>'' @ ''<form method="post" action="/admin/ui/subscribers">'' @ hidden ''csrf'' (utf8 csrf) @
     ''<div class="row"><div>'' @
     text_field ''imsi'' ''IMSI'' (plain_field\<lparr>tf_required := True, tf_hint := ''5 to 15 digits.''\<rparr>) @ ''</div><div>'' @
     text_field ''msisdn'' ''Number (MSISDN)'' (plain_field\<lparr>tf_required := True, tf_placeholder := ''+821012345678''\<rparr>) @
     ''</div><div>'' @ select_field ''rcs_profile'' ''RCS profile'' (profile_options app) [] [] @ ''</div></div>'' @
     checkbox_field ''entitled'' ''Entitled to RCS'' True @ checkbox_field ''volte_enabled'' ''VoLTE enabled'' True @
     ''<button type="submit">Add</button></form>''\<close>

definition subscriber_list :: "AppState \<Rightarrow> HttpRequest \<Rightarrow> string \<Rightarrow> MemoryStore \<Rightarrow> api_error + HttpResponse" where
  \<open>subscriber_list app rq q s =
     bind_err (require_console app rq) (\<lambda>csrf.
     (let needle = py_strip q;
          subscribers = matching_subscribers needle (list_subscribers s 500)
      in bind_err (traverse subscriber_row (sort_key sub_msisdn subscribers)) (\<lambda>rows.
         (let listing = html_table [''Number'', ''IMSI'', ''State'', ''Profile'', ''VoLTE'', ''Version'', ''Overrides''] rows
                (str_of_nat (length subscribers) @ (if needle \<noteq> [] then '' matching'' else '' total''))
                (if needle \<noteq> [] then ''No subscriber matched.'' else ''No subscribers yet. Add one below.'') [5, 6]
          in Inr (render_page rq app csrf ''Numbers''
               (''<h2>Numbers</h2>'' @ ''<form method="get" action="/admin/ui/subscribers">'' @
                text_field ''q'' ''Search'' (plain_field\<lparr>tf_value := utf8 needle, tf_hint := ''Full or partial MSISDN or IMSI.''\<rparr>) @
                ''<button type="submit">Search</button></form>'' @ listing @ add_form app csrf) ''subscribers'')))))\<close>

section \<open>One number\<close>

definition forced_options :: "(string \<times> string) list" where
  "forced_options = ([], ''not forced (serve configuration)'') #
     map (\<lambda>v. (str_of_int v, str_of_int v @ '' '' @ em_dash @ '' '' @
       (case rule_for v of Inr rule \<Rightarrow> action_value (vr_action rule) | Inl e \<Rightarrow> []))) FORCEABLE_VERSIONS"

definition core_form :: "AppState \<Rightarrow> string \<Rightarrow> Subscriber \<Rightarrow> string" where
  \<open>core_form app csrf sub =
     ''<h3>Number</h3>'' @ ''<form method="post" action="'' @ ''/admin/ui/subscribers/'' @ quote (sub_imsi sub) @ ''">'' @
     hidden ''csrf'' (utf8 csrf) @ ''<div class="row"><div>'' @
     text_field ''msisdn'' ''Number (MSISDN)'' (plain_field\<lparr>tf_value := utf8 (sub_msisdn sub), tf_required := True\<rparr>) @
     ''</div><div>'' @ select_field ''rcs_profile'' ''RCS profile'' (profile_options app) (utf8 (sub_rcs_profile sub)) [] @
     ''</div><div>'' @ select_field ''forced_vers'' ''Force a configuration version'' forced_options
       (case sub_forced_vers sub of None \<Rightarrow> [] | Some v \<Rightarrow> str_of_int v)
       ''-2 and -4 stop the client asking again until a factory reset or SIM swap.'' @ ''</div></div>'' @
     text_field ''imei_allowlist'' ''IMEI allowlist'' (plain_field\<lparr>tf_value := utf8 (py_join '', '' (sub_imei_allowlist sub)),
       tf_hint := ''Comma separated. Empty means any handset.''\<rparr>) @
     checkbox_field ''entitled'' ''Entitled to RCS'' (sub_entitled sub) @
     checkbox_field ''volte_enabled'' ''VoLTE enabled'' (sub_volte_enabled sub) @ ''<button type="submit">Save</button></form>''\<close>

definition subscriber_facts :: "string \<Rightarrow> Subscriber \<Rightarrow> Device list \<Rightarrow> string" where
  \<open>subscriber_facts profile sub devices = definition_list [
     (''IMSI'', mono (shown (sub_imsi sub))),
     (''Configuration version'', str_of_int (sub_provisioning_version sub)),
     (''Effective profile'', shown profile @ (if sub_rcs_profile sub = [] then '' '' @ pill ''from server default'' [] else [])),
     (''OMA-DM bootstrapped'', (if sub_dm_password sub \<noteq> [] then pill ''yes'' ''ok'' else pill ''not yet'' [])),
     (''Devices seen'', (if devices = [] then em_dash
        else py_join '', '' (map (\<lambda>d. device_link (dev_device_id d) (shown (dev_device_id d))) devices))),
     (''Last updated'', shown (utc_minute (sub_updated_at sub) @ '' UTC''))]\<close>

definition action_button :: "string \<Rightarrow> Subscriber \<Rightarrow> string \<times> string \<times> bool \<Rightarrow> string" where
  \<open>action_button csrf sub b = (case b of (action, label, danger) \<Rightarrow>
     ''<form class="inline" method="post" action="'' @ ''/admin/ui/subscribers/'' @ quote (sub_imsi sub) @ ''/action">'' @
     hidden ''csrf'' (utf8 csrf) @ hidden ''action'' action @
     ''<button type="submit"'' @ (if danger then '' class="danger"'' else []) @ ''>'' @ esc label @ ''</button></form> '')\<close>

definition action_forms :: "string \<Rightarrow> Subscriber \<Rightarrow> string" where
  \<open>action_forms csrf sub =
     ''<h3>Actions</h3>'' @
     concat (map (action_button csrf sub) [
       (''invalidate'', ''Bump version (force re-provision)'', False), (''enable'', ''Enable'', False),
       (''revoke-tokens'', ''Revoke tokens'', True), (''issue-token'', ''Issue a token'', False),
       (''delete'', ''Delete subscriber'', True)]) @
     ''<p class="hint">Bumping the version makes the next request return a full '' @
     ''document. Clients pick it up when their validity expires, not instantly.</p>''\<close>

text \<open>One row of the override table; a key of neither catalogue is marked.\<close>

definition override_row :: "CatalogEntry list \<Rightarrow> MoTree \<Rightarrow> string \<Rightarrow> Subscriber \<Rightarrow> string \<times> string \<Rightarrow> string list" where
  \<open>override_row catalog tree csrf sub kv = (case kv of (key, value) \<Rightarrow>
     (let kind_default =
        (case map_of (rev (map (\<lambda>e. (entry_key e, e)) catalog)) key of
           Some entry \<Rightarrow> (esc ''OMA-CP'', utf8 (str_or (ce_default entry) ''(omitted)''))
         | None \<Rightarrow>
             (case map_of (rev (map (\<lambda>n. (mo_uri n, n)) (all_nodes tree))) key of
                Some n \<Rightarrow> (esc ''OMA-DM'', utf8 (str_or (mo_default n) ''(none)''))
              | None \<Rightarrow> (pill ''unknown key'' ''bad'', em_dash)));
          delete_form = ''<form class="inline" method="post" action="'' @ ''/admin/ui/subscribers/'' @ quote (sub_imsi sub) @
            ''/override">'' @ hidden ''csrf'' (utf8 csrf) @ hidden ''key'' (utf8 key) @ hidden ''value'' [] @
            ''<button class="danger" type="submit">Remove</button></form>''
      in [mono (shown key), fst kind_default, mono (shown value), mono (esc (snd kind_default)), delete_form]))\<close>

definition cp_options :: "CatalogEntry list \<Rightarrow> string \<Rightarrow> (string \<times> string) list" where
  "cp_options catalog profile = ([], em_dash @ '' choose an OMA-CP parameter '' @ em_dash) #
     map (\<lambda>e. (utf8 (entry_key e), utf8 (entry_key e @ ''  ['' @ ce_type e @
       (if ce_unit e \<noteq> [] then '' '' @ ce_unit e else []) @ '']''))) (for_profile catalog profile)"

definition dm_options :: "MoTree \<Rightarrow> (string \<times> string) list" where
  "dm_options tree = ([], em_dash @ '' choose an OMA-DM node '' @ em_dash) #
     map (\<lambda>n. (utf8 (mo_uri n), utf8 (mo_uri n @ ''  ['' @ mo_format n @ '']''))) (server_nodes tree [''rcs'', ''volte''])"

definition overrides_section :: "CatalogEntry list \<Rightarrow> MoTree \<Rightarrow> string \<Rightarrow> string \<Rightarrow> Subscriber \<Rightarrow> string" where
  \<open>overrides_section catalog tree profile csrf sub =
     ''<h3>Parameter overrides</h3>'' @
     ''<p class="hint">An override replaces the catalogue default for this '' @
     ''subscriber only, on either plane. Everything else comes from the profile.</p>'' @
     html_table [''Parameter'', ''Plane'', ''Override'', ''Catalogue default'', []]
       (map (override_row catalog tree csrf sub) (sort (sub_overrides sub))) []
       ''No overrides. This subscriber gets the profile defaults.'' [] @
     ''<form method="post" action="'' @ ''/admin/ui/subscribers/'' @ quote (sub_imsi sub) @ ''/override">'' @
     hidden ''csrf'' (utf8 csrf) @ select_field ''key'' ''OMA-CP provisioning parameter'' (cp_options catalog profile) [] [] @
     select_field ''dm_key'' ''or OMA-DM management node'' (dm_options tree) [] [] @
     text_field ''value'' ''Value'' (plain_field\<lparr>tf_hint := ''Leave empty to remove an existing override.''\<rparr>) @
     ''<button type="submit">Set override</button></form>''\<close>

definition dm_summary :: "Device option \<Rightarrow> string" where
  \<open>dm_summary device = (case device of
     None \<Rightarrow> []
   | Some d \<Rightarrow>
       if dev_mo_values d = [] then []
       else ''<h3>Last reported by the handset</h3>'' @ html_table [''Management node'', ''Value'']
         (map (\<lambda>(k, v). [mono (shown k), shown v]) (sort (dev_mo_values d))) ''Collected over OMA-DM'' ''Nothing to show.'' [])\<close>

definition subscriber_detail :: "AppState \<Rightarrow> HttpRequest \<Rightarrow> string \<Rightarrow> MemoryStore \<Rightarrow> api_error + HttpResponse" where
  \<open>subscriber_detail app rq imsi s =
     bind_err (require_console app rq) (\<lambda>csrf.
     bind_err (load_subscriber imsi s) (\<lambda>sub.
     (let profile = str_or (sub_rcs_profile sub) (set_default_rcs_profile (app_settings app))
      in bind_err (catalog_or app profile) (\<lambda>catalog.
         bind_err (tree_or app) (\<lambda>tree.
         (let devices = filter (\<lambda>d. dev_imsi d = sub_imsi sub) (list_devices s 500);
              body = ''<h2>'' @ shown (sub_msisdn sub) @ ''</h2>'' @
                ''<p class="hint"><a href="/admin/ui/subscribers">Back to numbers</a></p>'' @
                subscriber_facts profile sub devices @ core_form app csrf sub @
                overrides_section catalog tree profile csrf sub @ action_forms csrf sub @
                dm_summary (get_device s (sub_imsi sub))
          in Inr (render_page rq app csrf (utf8 (sub_msisdn sub)) body ''subscribers'')))))))\<close>

section \<open>Devices\<close>

definition matching_devices :: "string \<Rightarrow> Device list \<Rightarrow> Device list" where
  "matching_devices needle devices =
     (if needle = [] then devices
      else (let lowered = py_lower needle
            in filter (\<lambda>d. contains lowered (py_lower (dev_device_id d)) \<or> contains lowered (py_lower (dev_model d)) \<or>
                 contains lowered (py_lower (dev_manufacturer d)) \<or> contains lowered (dev_imsi d)) devices))"

definition device_subscriber :: "Device \<Rightarrow> MemoryStore \<Rightarrow> Subscriber option" where
  "device_subscriber d s = (if dev_imsi d \<noteq> [] then get_subscriber s (dev_imsi d) else None)"

definition device_row :: "MemoryStore \<Rightarrow> Device \<Rightarrow> string list" where
  "device_row s d = [device_link (dev_device_id d) (mono (shown (dev_device_id d))),
     (case device_subscriber d s of Some sub \<Rightarrow> subscriber_link (sub_imsi sub) (shown (sub_msisdn sub)) | None \<Rightarrow> em_dash),
     shown_or_dash (dev_manufacturer d), shown_or_dash (dev_model d), shown_or_dash (dev_sw_version d),
     shown_or_dash (dev_client_version d), str_of_nat (length (dev_mo_values d)), shown (utc_minute (dev_last_seen_at d))]"

definition device_list :: "AppState \<Rightarrow> HttpRequest \<Rightarrow> string \<Rightarrow> MemoryStore \<Rightarrow> api_error + HttpResponse" where
  \<open>device_list app rq q s =
     bind_err (require_console app rq) (\<lambda>csrf.
     (let needle = py_strip q;
          devices = matching_devices needle (list_devices s 500);
          body = ''<h2>Devices</h2>'' @ ''<p class="hint">Built from RCC.14 request parameters and from what each '' @
            ''handset reported over OMA-DM.</p>'' @ ''<form method="get" action="/admin/ui/devices">'' @
            text_field ''q'' ''Search'' (plain_field\<lparr>tf_value := utf8 needle, tf_hint := ''Device id, model, vendor or IMSI.''\<rparr>) @
            ''<button type="submit">Search</button></form>'' @
            html_table [''Device id'', ''Number'', ''Vendor'', ''Model'', ''Software'', ''RCS client'', ''DM nodes'', ''Last seen'']
              (map (device_row s) (newest_first devices)) (str_of_nat (length devices) @ '' device(s)'')
              ''No device has contacted the server yet.'' [6]
      in Inr (render_page rq app csrf ''Devices'' body ''devices'')))\<close>

definition reported_row :: "MoTree \<Rightarrow> string \<times> string \<Rightarrow> string list" where
  "reported_row tree kv = (case kv of (uri, value) \<Rightarrow>
     [mono (shown uri), shown (case tree_node tree uri of Some n \<Rightarrow> mo_format n | None \<Rightarrow> ''?''), shown value,
      shown (case tree_node tree uri of Some n \<Rightarrow> mo_spec n | None \<Rightarrow> ''not in any loaded management object'')])"

definition device_body :: "MoTree \<Rightarrow> Subscriber option \<Rightarrow> Device \<Rightarrow> string" where
  \<open>device_body tree subscriber d =
     ''<h2>'' @ shown (dev_device_id d) @ ''</h2>'' @
     ''<p class="hint"><a href="/admin/ui/devices">Back to devices</a></p>'' @
     definition_list [
       (''Device id'', mono (shown (dev_device_id d))),
       (''Number'', (case subscriber of Some sub \<Rightarrow> subscriber_link (sub_imsi sub) (shown (sub_msisdn sub))
          | None \<Rightarrow> em_dash @ '' not linked to a subscriber'')),
       (''Manufacturer'', shown_or_dash (dev_manufacturer d)), (''Model'', shown_or_dash (dev_model d)),
       (''Software'', shown_or_dash (dev_sw_version d)),
       (''RCS client'', shown_or_dash (py_strip (dev_client_vendor d @ '' '' @ dev_client_version d))),
       (''DM client version'', shown_or_dash (dev_dm_client_version d)),
       (''Last seen'', shown (utc_minute (dev_last_seen_at d) @ '' UTC''))] @
     ''<h3>Reported management nodes</h3>'' @
     html_table [''Node'', ''Format'', ''Value'', ''Reference''] (map (reported_row tree) (sort (dev_mo_values d)))
       ''Values this handset returned over OMA-DM'' ''This device has not completed an OMA-DM session yet.'' [] @
     (case subscriber of
        Some sub \<Rightarrow> ''<h3>Parameters</h3>'' @ ''<p class="hint">Parameters are set per number. '' @
          ''<a href="/admin/ui/subscribers/'' @ quote (sub_imsi sub) @ ''">'' @ ''Manage '' @ shown (sub_msisdn sub) @ ''</a>.</p>''
      | None \<Rightarrow> [])\<close>

definition device_detail :: "AppState \<Rightarrow> HttpRequest \<Rightarrow> string \<Rightarrow> MemoryStore \<Rightarrow> api_error + HttpResponse" where
  "device_detail app rq device_id s =
     bind_err (require_console app rq) (\<lambda>csrf.
     (case get_device s device_id of
        None \<Rightarrow> Inl (HTTPException 404 ''device not found'')
      | Some d \<Rightarrow> bind_err (tree_or app) (\<lambda>tree.
          Inr (render_page rq app csrf (utf8 (dev_device_id d)) (device_body tree (device_subscriber d s) d) ''devices''))))"


section \<open>Catalogues\<close>

definition yes_no :: "bool \<Rightarrow> string" where
  "yes_no b = (if b then pill ''yes'' ''ok'' else pill ''no'' [])"

definition catalog_row :: "CatalogEntry \<Rightarrow> string list" where
  "catalog_row e = [mono (shown (ce_path e)), mono (shown (ce_parm e)),
     shown (ce_type e @ (if ce_unit e \<noteq> [] then '' ('' @ ce_unit e @ '')'' else [])),
     mono (shown (str_or (ce_default e) ''(omitted)'')), shown (ce_spec e), yes_no (ce_verified e)]"

definition node_row :: "MoNode \<Rightarrow> string list" where
  "node_row n = [mono (shown (mo_uri n)), shown (mo_format n), shown (mo_source n), mono (shown_or_dash (mo_default n)),
     shown_or_dash (mo_feature n), yes_no (mo_verified n)]"

definition catalog_body :: "AppState \<Rightarrow> string \<Rightarrow> string \<Rightarrow> CatalogEntry list \<Rightarrow> MoTree \<Rightarrow> string" where
  \<open>catalog_body app chosen q catalog tree =
     (let needle = py_lower (py_strip q);
          cp_entries = filter (\<lambda>e. needle = [] \<or> contains needle (py_lower (entry_key e)) \<or>
            contains needle (py_lower (ce_spec e))) (for_profile catalog chosen);
          dm_nodes = filter (\<lambda>n. needle = [] \<or> contains needle (py_lower (mo_uri n)) \<or>
            contains needle (py_lower (mo_spec n))) (all_nodes tree)
      in ''<h2>Parameters</h2>'' @
         ''<p class="hint">Everything this server can send. Values are declared in '' @
         ''YAML, so adding a parameter or a management object is a data change. '' @
         ''<code>verified</code> means cross-checked against a specification edition '' @
         em_dash @ '' see docs/spec-coverage.md for what that currently means.</p>'' @
         ''<form method="get" action="/admin/ui/catalog">'' @
         select_field ''profile'' ''RCS profile'' (map (\<lambda>p. (utf8 p, utf8 p)) (app_profiles app)) (utf8 chosen) [] @
         text_field ''q'' ''Filter'' (plain_field\<lparr>tf_value := utf8 q, tf_hint := ''Match on parameter path or reference.''\<rparr>) @
         ''<button type="submit">Apply</button></form>'' @
         ''<h3>OMA-CP provisioning parameters</h3>'' @
         html_table [''Path'', ''Parameter'', ''Type'', ''Default'', ''Reference'', ''Verified''] (map catalog_row cp_entries)
           (str_of_nat (length cp_entries) @ '' of '' @ str_of_nat (length catalog) @ '' parameters, '' @
            str_of_nat (verified_count catalog) @ '' cross-checked overall, profile '' @ utf8 chosen) ''Nothing matched.'' [] @
         ''<h3>OMA-DM management nodes</h3>'' @
         html_table [''Node'', ''Format'', ''Owner'', ''Default'', ''Feature'', ''Verified''] (map node_row dm_nodes)
           (str_of_nat (length dm_nodes) @ '' of '' @ str_of_nat (length (all_nodes tree)) @ '' nodes across '' @
            str_of_nat (length tree) @ '' management objects'') ''Nothing matched.'' [])\<close>

definition catalog_view :: "AppState \<Rightarrow> HttpRequest \<Rightarrow> string \<Rightarrow> string \<Rightarrow> api_error + HttpResponse" where
  "catalog_view app rq profile q =
     bind_err (require_console app rq) (\<lambda>csrf.
     (let chosen = str_or profile (set_default_rcs_profile (app_settings app))
      in bind_err (catalog_or app chosen) (\<lambda>catalog.
         bind_err (tree_or app) (\<lambda>tree.
         Inr (render_page rq app csrf ''Parameters'' (catalog_body app chosen q catalog tree) ''catalog'')))))"

section \<open>Conformance\<close>

definition requirement_row :: "Requirement \<Rightarrow> string list" where
  "requirement_row r = [mono (shown (cr_id r)), shown (cr_title r), shown (cr_level r),
     (if cr_status r \<noteq> ''not-implemented''
      then pill (utf8 (cr_status r)) (if cr_status r = ''implemented'' then ''ok'' else ''warn'')
      else pill (utf8 (cr_status r)) ''bad''),
     shown (cr_verification r)]"

definition family_section :: "RequirementSet \<Rightarrow> string" where
  \<open>family_section f =
     (let tally = (\<lambda>k. str_of_nat (dict_get_or (requirement_counts f) k 0))
      in ''<h3>'' @ shown (rset_title f) @ ''</h3>'' @
         ''<p class="hint">'' @ shown (rset_spec f) @ '' '' @ em_dash @ '' edition pinned: '' @
         (if rset_edition_pinned f then ''yes'' else ''no'') @ ''</p>'' @
         html_table [''Id'', ''Requirement'', ''Level'', ''Status'', ''Evidence''] (map requirement_row (rset_requirements f))
           (tally ''implemented'' @ '' implemented, '' @ tally ''partial'' @ '' partial, '' @
            tally ''not-implemented'' @ '' not implemented, '' @ str_of_nat (length (mandatory_gaps f)) @ '' mandatory gaps'')
           ''Nothing to show.'' [])\<close>

definition pending_row :: "SpecFamily \<Rightarrow> string list" where
  \<open>pending_row f = [mono (shown (sf_id f)) @ ''<br>'' @ shown (sf_title f), shown (sf_jurisdiction f),
     pill ''not assessed'' ''bad'', py_join ''<br>'' (map shown (sf_open_questions f))]\<close>

definition unassessed_section :: "SpecFamily list \<Rightarrow> string" where
  \<open>unassessed_section pending =
     (if pending = [] then []
      else ''<h3>Specification families not assessed</h3>'' @
        ''<p class="hint">Asked for, but the document is not held, so no '' @
        ''requirement can be stated. These deliberately carry no requirement '' @
        ''rows '' @ em_dash @ '' a row would imply a requirement had been read.</p>'' @
        html_table [''Family'', ''Jurisdiction'', ''State'', ''What only the document can answer''] (map pending_row pending)
          (str_of_nat (length pending) @ '' family(ies) awaiting a document'') ''Nothing to show.'' [])\<close>

definition conformance_view :: "AppState \<Rightarrow> HttpRequest \<Rightarrow> api_error + HttpResponse" where
  \<open>conformance_view app rq =
     bind_err (require_console app rq) (\<lambda>csrf.
     (case app_registry app of
        Inl e \<Rightarrow> Inl (Unhandled ''CatalogError'')
      | Inr families \<Rightarrow>
          (case app_families app of
             Inl e \<Rightarrow> Inl (Unhandled ''CatalogError'')
           | Inr scope \<Rightarrow> Inr (render_page rq app csrf ''Conformance''
               (''<h2>Conformance</h2>'' @ ''<p class="hint">Requirement by requirement, for both specifications. '' @
                ''Levels are this project&#39;s engineering judgement, not citations. '' @
                ''<strong>Nothing here is certified</strong> and no real handset has been '' @ ''tested.</p>'' @
                unassessed_section (filter blocks_assessment scope) @ concat (map family_section families)) ''conformance''))))\<close>

section \<open>What is shown is text\<close>

lemma marks_shown [simp, marks_simps]: "marks (shown v) = []"
  by (simp add: shown_def)

lemma marks_shown_or_dash [simp, marks_simps]: "marks (shown_or_dash v) = []"
  by (simp add: shown_or_dash_def)

lemma marks_mono [simp, marks_simps]: \<open>marks (mono v) = ''<"">'' @ marks v @ ''<>''\<close>
  by (simp add: mono_def marks_append mark_def)

lemma marks_device_link [simp, marks_simps]: \<open>marks (device_link i l) = ''<"">'' @ marks l @ ''<>''\<close>
  by (simp add: device_link_def marks_append mark_def)

lemma marks_subscriber_link [simp, marks_simps]: \<open>marks (subscriber_link i l) = ''<"">'' @ marks l @ ''<>''\<close>
  by (simp add: subscriber_link_def marks_append mark_def)

lemma marks_reported_row: \<open>map marks (reported_row tree kv) = [''<""><>'', [], [], []]\<close>
  by (simp add: reported_row_def split: prod.split)

lemma marks_device_body:
  assumes "length (dev_mo_values d) = length (dev_mo_values d')" and "subscriber = None \<longleftrightarrow> subscriber' = None"
  shows "marks (device_body tree subscriber d) = marks (device_body tree' subscriber' d')"
proof -
  have rows: \<open>map (map marks) (map (reported_row t) (sort xs)) = replicate (length xs) [''<""><>'', [], [], []]\<close> for t xs
    using marks_reported_row [of t] by (simp add: comp_def map_replicate_const length_sort)
  have table: "marks (html_table h (map (reported_row tree) (sort (dev_mo_values d))) c n []) =
      marks (html_table h (map (reported_row tree') (sort (dev_mo_values d'))) c n [])" for h c n
    by (rule marks_table) (simp_all only: rows assms(1))
  show ?thesis
  proof (cases subscriber)
    case None
    with assms(2) have "subscriber' = None" by simp
    with None show ?thesis
      unfolding device_body_def
      by (simp add: marks_append table del: append.simps marks_Cons) (rule marks_definition_list, simp add: mark_def)
  next
    case (Some sub)
    with assms(2) obtain sub' where "subscriber' = Some sub'" by auto
    with Some show ?thesis
      unfolding device_body_def
      by (simp add: marks_append table del: append.simps marks_Cons) (rule marks_definition_list, simp add: mark_def)
  qed
qed

text \<open>
  C29. What a handset reports cannot become markup. On the page of a device every value it sent, its
  identifier, model and software, its management nodes and their values, as well as the flash message
  that comes with the URL, is text: the sequence of angle brackets and quotation marks of the page is
  the same for any two devices that reported equally many nodes, whatever they contain.
\<close>

theorem device_page_inert:
  assumes "device_detail app rq i s = Inr page" and "device_detail app rq' j s = Inr page'"
    and "get_device s i = Some d" and "get_device s j = Some d'"
    and "length (dev_mo_values d) = length (dev_mo_values d')"
    and "device_subscriber d s = None \<longleftrightarrow> device_subscriber d' s = None"
    and "query_get rq ''m'' \<notin> {None, Some []} \<longleftrightarrow> query_get rq' ''m'' \<notin> {None, Some []}"
  shows "marks (rs_body page) = marks (rs_body page') \<and> dict_get (rs_headers page) ''Content-Security-Policy'' = Some CSP"
proof -
  obtain csrf tree where p: "page = render_page rq app csrf (utf8 (dev_device_id d)) (device_body tree (device_subscriber d s) d) ''devices''"
    using assms(1,3) by (auto simp: device_detail_def bind_err_Inr)
  obtain csrf' tree' where p': "page' = render_page rq' app csrf' (utf8 (dev_device_id d')) (device_body tree' (device_subscriber d' s) d') ''devices''"
    using assms(2,4) by (auto simp: device_detail_def bind_err_Inr)
  have utf8_Nil: "utf8 m = [] \<longleftrightarrow> m = []" for m by (cases m) (auto simp: utf8_def Let_def)
  have "marks (rs_body page) = marks (rs_body page')"
    unfolding p p' render_page_def html_response_def
    using assms(7) by (auto intro!: marks_page marks_device_body assms(5,6) simp: utf8_Nil split: option.splits)
  moreover have "dict_get (rs_headers page) ''Content-Security-Policy'' = Some CSP"
    by (simp add: p render_page_def html_response_def SECURITY_HEADERS_def dict_get_def)
  ultimately show ?thesis by blast
qed


definition demo_device :: "string \<Rightarrow> string \<Rightarrow> Device" where
  "demo_device i reported = \<lparr>dev_device_id = i, dev_imsi = [], dev_manufacturer = reported, dev_model = reported,
     dev_sw_version = [], dev_client_vendor = [], dev_client_version = [], dev_dm_client_version = [],
     dev_last_seen_at = 1000, dev_mo_values = [(''./DevInfo/Man'', reported)]\<rparr>"

theorem device_page_inert_witness:
  \<open>let s = put_device (demo_device ''a'' ''<script>alert("x")</script>'') (put_device (demo_device ''b'' ''Acme'') empty_store)
   in \<exists>page page'. device_detail demo_console demo_console_request ''a'' s = Inr page \<and>
     device_detail demo_console demo_console_request ''b'' s = Inr page' \<and> marks (rs_body page) = marks (rs_body page')\<close>
proof -
  let ?e = \<open>demo_device ''a'' ''<script>alert("x")</script>''\<close> and ?d = \<open>demo_device ''b'' ''Acme''\<close>
  let ?s = \<open>put_device ?e (put_device ?d empty_store)\<close>
  have get: "get_device ?s ''a'' = Some ?e" "get_device ?s ''b'' = Some ?d"
    by (simp_all add: get_device_def put_device_def demo_device_def)
  obtain c where "require_console demo_console demo_console_request = Inr c"
    using demo_guard by (auto simp: console_guard_def bind_err_Inr)
  moreover have "tree_or demo_console = Inr demo_tree" by (simp add: tree_or_def demo_console_def demo_app_def)
  ultimately have "\<exists>page. device_detail demo_console demo_console_request ''a'' ?s = Inr page"
      "\<exists>page. device_detail demo_console demo_console_request ''b'' ?s = Inr page"
    by (simp_all add: device_detail_def get)
  then obtain page page' where p: "device_detail demo_console demo_console_request ''a'' ?s = Inr page"
      "device_detail demo_console demo_console_request ''b'' ?s = Inr page'" by blast
  have "length (dev_mo_values ?e) = length (dev_mo_values ?d)"
      "device_subscriber ?e ?s = None \<longleftrightarrow> device_subscriber ?d ?s = None"
    by (simp_all add: demo_device_def device_subscriber_def)
  from device_page_inert [OF p get this refl] p show ?thesis unfolding Let_def by blast
qed

end
