(* ===== verification/Msisdn_Ui.thy ===== *)
theory Msisdn_Ui
  imports Provisioning Http
begin

text \<open>
  \<^verbatim>\<open>src/src/acs/api/msisdn_ui.py\<close>: the pages on which a user types the phone number and then the code. The
  surroundings are those of the provisioning service, which shares its challenges; the fresh CSRF token
  is an argument. The texts are ASCII: the number that is interpolated is a plus and digits, the token is
  URL-safe base64. Logging is left out.
\<close>

section \<open>Definitions\<close>

definition MSISDN_CSRF_COOKIE :: string where
  "MSISDN_CSRF_COOKIE = ''acs_csrf''"

definition MSISDN_SECURITY_HEADERS :: "(string, string) dict" where
  \<open>MSISDN_SECURITY_HEADERS = [
     (''Content-Security-Policy'', ''default-src 'none'; style-src 'unsafe-inline'; form-action 'self'' @ [CHR 0x27]),
     (''X-Content-Type-Options'', ''nosniff''), (''Referrer-Policy'', ''no-referrer''), (''Cache-Control'', ''no-store'')]\<close>

definition MSISDN_STYLE :: string where
  \<open>MSISDN_STYLE =
     ''body{font-family:system-ui,sans-serif;max-width:32rem;margin:2rem auto;padding:0 1rem}'' @
     ''label{display:block;font-weight:600;margin-top:1rem}'' @
     ''input{width:100%;padding:.5rem;font-size:1rem;margin-top:.25rem}'' @
     ''button{margin-top:1.5rem;padding:.6rem 1.2rem;font-size:1rem}'' @ ''.error{color:#b00020}''\<close>

definition msisdn_page :: "string \<Rightarrow> string \<Rightarrow> string" where
  \<open>msisdn_page title body =
     ''<!DOCTYPE html><html lang="en"><head><meta charset="utf-8">'' @
     ''<meta name="viewport" content="width=device-width,initial-scale=1">'' @
     ''<title>'' @ title @ ''</title><style>'' @ MSISDN_STYLE @ ''</style></head>'' @
     ''<body><main><h1>'' @ title @ ''</h1>'' @ body @ ''</main></body></html>''\<close>

definition msisdn_html :: "string \<Rightarrow> string option \<Rightarrow> int \<Rightarrow> bool \<Rightarrow> HttpResponse" where
  "msisdn_html content csrf status secure_cookie =
     \<lparr>rs_status = status, rs_headers = MSISDN_SECURITY_HEADERS, rs_media_type = Some ''text/html; charset=utf-8'',
      rs_body = content,
      rs_cookies = (if truthy csrf
        then [SetCookie \<lparr>ck_name = MSISDN_CSRF_COOKIE, ck_value = the csrf, ck_httponly = True, ck_samesite = ''strict'',
               ck_secure = secure_cookie, ck_max_age = 900, ck_path = ''/''\<rparr>]
        else [])\<rparr>"

definition msisdn_check_csrf :: "string \<Rightarrow> string option \<Rightarrow> api_error + bool" where
  "msisdn_check_csrf form_token cookie_token =
     (if \<not> truthy cookie_token then Inr False
      else (case compare_digest form_token (the cookie_token) of None \<Rightarrow> Inl RaisedTypeError | Some same \<Rightarrow> Inr same))"

definition msisdn_form :: "string \<Rightarrow> HttpRequest \<Rightarrow> HttpResponse" where
  \<open>msisdn_form csrf rq =
     msisdn_html (msisdn_page ''Activate messaging''
       (''<p>Enter the phone number of the SIM in this device to activate messaging.</p>'' @
        ''<form method="post" action="/msisdn">'' @ ''<input type="hidden" name="csrf" value="'' @ csrf @ ''">'' @
        ''<label for="msisdn">Phone number (international format)</label>'' @
        ''<input id="msisdn" name="msisdn" type="tel" inputmode="tel" autocomplete="tel" '' @
        ''placeholder="+821012345678" required aria-describedby="msisdn-help">'' @
        ''<p id="msisdn-help">Include the country code, for example +821012345678.</p>'' @
        ''<button type="submit">Send code</button></form>''))
       (Some csrf) 200 (rq_scheme rq = ''https'')\<close>

text \<open>Sending a code to a subscriber: what is caught is only logged, so the caller learns nothing.\<close>

definition msisdn_challenge :: "('ip, 'net) Env \<Rightarrow> Settings \<Rightarrow> string \<Rightarrow> Subscriber \<Rightarrow> MemoryStore \<Rightarrow>
    (api_error + unit) \<times> MemoryStore" where
  "msisdn_challenge env st normalised sub s =
     (if env_store_contended env then (Inr (), s)
      else (case create_challenge issue_otp (env_sha env) (env_draws env) (env_challenge_id env) (env_clock env)
              normalised (sub_imsi sub) (policy_from_settings st) None None s of
        (Inl blocked, s') \<Rightarrow> (Inr (), s')
      | (Inr (chal, clear_otp), s') \<Rightarrow>
          (case py_format [(''otp'', clear_otp)] (set_sms_otp_template st) of
             Inl e \<Rightarrow> (Inl (Unhandled ''KeyError''), s')
           | Inr body \<Rightarrow>
               (case env_send env \<lparr>sr_msisdn = normalised, sr_body = body, sr_sms_port = None,
                       sr_sender_id = set_sms_sender_id st\<rparr> s' of
                  (Inl failed, s'') \<Rightarrow> (Inr (), snd (discard_challenge get_otp replace_otp chal s''))
                | (Inr _, s'') \<Rightarrow> (Inr (), s'')))))"

definition code_page :: "string \<Rightarrow> string \<Rightarrow> HttpRequest \<Rightarrow> HttpResponse" where
  \<open>code_page new_csrf normalised rq =
     msisdn_html (msisdn_page ''Enter your code''
       (''<p>If that number is eligible, a code has been sent to it.</p>'' @
        ''<form method="post" action="/msisdn/verify">'' @ ''<input type="hidden" name="csrf" value="'' @ new_csrf @ ''">'' @
        ''<input type="hidden" name="msisdn" value="'' @ normalised @ ''">'' @ ''<label for="otp">Activation code</label>'' @
        ''<input id="otp" name="otp" type="text" inputmode="numeric" autocomplete="one-time-code" '' @
        ''pattern="[0-9]*" required aria-describedby="otp-help">'' @
        ''<p id="otp-help">The code expires in a few minutes.</p>'' @ ''<button type="submit">Verify</button></form>''))
       (Some new_csrf) 200 (rq_scheme rq = ''https'')\<close>

definition msisdn_submit :: "('ip, 'net) Env \<Rightarrow> Settings \<Rightarrow> string \<Rightarrow> HttpRequest \<Rightarrow> string \<Rightarrow> string \<Rightarrow> MemoryStore \<Rightarrow>
    (api_error + HttpResponse) \<times> MemoryStore" where
  \<open>msisdn_submit env st new_csrf rq msisdn csrf s =
     (case msisdn_check_csrf csrf (dict_get (rq_cookies rq) MSISDN_CSRF_COOKIE) of
        Inl e \<Rightarrow> (Inl e, s)
      | Inr False \<Rightarrow> (Inr (msisdn_html (msisdn_page ''Activate messaging''
            ''<p class="error">Session expired. Please start again.</p>'') None 400 True), s)
      | Inr True \<Rightarrow>
          (case normalise_msisdn (Some msisdn) (set_default_country_code st) (set_national_trunk_prefix st) of
             None \<Rightarrow> (Inr (msisdn_html (msisdn_page ''Activate messaging''
               (''<p class="error" id="err">That does not look like a valid number.</p>'' @
                ''<p><a href="/msisdn">Try again</a></p>'')) None 400 True), s)
           | Some normalised \<Rightarrow>
               bind_step (case get_subscriber_by_msisdn s normalised of
                   None \<Rightarrow> (Inr (), s) | Some sub \<Rightarrow> msisdn_challenge env st normalised sub s)
                 (\<lambda>_ s'. (Inr (code_page new_csrf normalised rq), s'))))\<close>

definition msisdn_verify :: "('ip, 'net) Env \<Rightarrow> Settings \<Rightarrow> HttpRequest \<Rightarrow> string \<Rightarrow> string \<Rightarrow> string \<Rightarrow> MemoryStore \<Rightarrow>
    (api_error + HttpResponse) \<times> MemoryStore" where
  \<open>msisdn_verify env st rq msisdn otp csrf s =
     (case msisdn_check_csrf csrf (dict_get (rq_cookies rq) MSISDN_CSRF_COOKIE) of
        Inl e \<Rightarrow> (Inl e, s)
      | Inr False \<Rightarrow> (Inr (msisdn_html (msisdn_page ''Enter your code''
            ''<p class="error">Session expired. Please start again.</p>'') None 400 True), s)
      | Inr True \<Rightarrow>
          (case normalise_msisdn (Some msisdn) (set_default_country_code st) (set_national_trunk_prefix st) of
             None \<Rightarrow> (Inr (msisdn_html (msisdn_page ''Enter your code'' ''<p class="error">Invalid submission.</p>'') None 400 True), s)
           | Some normalised \<Rightarrow>
               if \<not> py_isalnum otp
               then (Inr (msisdn_html (msisdn_page ''Enter your code'' ''<p class="error">Invalid submission.</p>'') None 400 True), s)
               else (case verify_challenge get_otp replace_otp (env_sha env) (env_clock env) normalised otp
                       (policy_from_settings st) None s of
                 (result, s') \<Rightarrow>
                   if result = VERIFIED
                   then (Inr (msisdn_html (msisdn_page ''Verified''
                     (''<p>Your number is verified. Messaging will finish setting up on this device '' @ ''shortly.</p>''))
                     None 200 True), s')
                   else (Inr (msisdn_html (msisdn_page ''Enter your code''
                     (''<p class="error">That code was not accepted.</p><p><a href="/msisdn">Start again</a></p>''))
                     None 400 True), s'))))\<close>

section \<open>Properties\<close>

lemma msisdn_challenge_quiet:
  assumes "\<And>otp. \<exists>body. py_format [(''otp'', otp)] (set_sms_otp_template st) = Inr body"
  shows "fst (msisdn_challenge env st m sub s) = Inr ()"
proof (cases "env_store_contended env")
  case False
  let ?cr = "create_challenge issue_otp (env_sha env) (env_draws env) (env_challenge_id env) (env_clock env)
    m (sub_imsi sub) (policy_from_settings st) None None s"
  show ?thesis
  proof (cases "fst ?cr")
    case (Inl blocked)
    then show ?thesis using False by (cases ?cr) (simp add: msisdn_challenge_def)
  next
    case (Inr p)
    obtain chal otp where p: "p = (chal, otp)" by (cases p)
    obtain body where "py_format [(''otp'', otp)] (set_sms_otp_template st) = Inr body" using assms by blast
    with False Inr p show ?thesis
      by (cases ?cr) (auto simp: msisdn_challenge_def split: prod.splits sum.splits)
  qed
qed (simp add: msisdn_challenge_def)

text \<open>
  C27. The number page does not tell which numbers exist. Whatever the store contains, whether the number
  is known, has asked too often, cannot be reached by SMS or the store is busy, a submission is answered
  with the same page, the same status and the same cookies, provided that the configured SMS text can be
  filled in; and a submission without its CSRF token, or of something that is not a number, leaves the
  store alone.
\<close>

theorem msisdn_page_reveals_nothing:
  assumes "\<And>otp. \<exists>body. py_format [(''otp'', otp)] (set_sms_otp_template st) = Inr body"
  shows "fst (msisdn_submit env st new_csrf rq msisdn csrf s) = fst (msisdn_submit env' st new_csrf rq msisdn csrf s') \<and>
    (msisdn_check_csrf csrf (dict_get (rq_cookies rq) MSISDN_CSRF_COOKIE) \<noteq> Inr True \<or>
     normalise_msisdn (Some msisdn) (set_default_country_code st) (set_national_trunk_prefix st) = None \<longrightarrow>
       snd (msisdn_submit env st new_csrf rq msisdn csrf s) = s)"
proof -
  have quiet: "fst (bind_step (case get_subscriber_by_msisdn t m of None \<Rightarrow> (Inr (), t) | Some sub \<Rightarrow> msisdn_challenge e st m sub t)
      (\<lambda>_ t'. (Inr page, t'))) = Inr page" for t m page and e :: "('x, 'y) Env"
  proof (cases "get_subscriber_by_msisdn t m")
    case (Some sub)
    then show ?thesis using msisdn_challenge_quiet [OF assms, of e m sub t]
      by (cases "msisdn_challenge e st m sub t") simp
  qed simp
  show ?thesis
    by (cases "msisdn_check_csrf csrf (dict_get (rq_cookies rq) MSISDN_CSRF_COOKIE)";
        cases "normalise_msisdn (Some msisdn) (set_default_country_code st) (set_national_trunk_prefix st)")
      (simp_all add: msisdn_submit_def quiet split: bool.split)
qed


definition demo_number_request :: HttpRequest where
  "demo_number_request = \<lparr>rq_method = ''POST'', rq_scheme = ''https'', rq_path = ''/msisdn'', rq_query = [], rq_headers = [],
     rq_cookies = [(MSISDN_CSRF_COOKIE, ''t'')], rq_client = None\<rparr>"

lemma demo_template: "\<exists>body. py_format [(''otp'', otp)] (set_sms_otp_template demo_settings) = Inr body"
  by (simp add: demo_settings_def py_format_def plain_name_def name_start_def dict_get_def code_of_def py_startswith_def)

theorem msisdn_page_reveals_nothing_witness:
  "fst (msisdn_submit demo_env demo_settings ''n'' demo_number_request ''+8210'' ''t'' demo_service_store) =
   fst (msisdn_submit demo_env demo_settings ''n'' demo_number_request ''+8210'' ''t'' empty_store)"
  using msisdn_page_reveals_nothing [OF demo_template] by blast

text \<open>A code that never left is not waited for, as in the RCC.14 flow.\<close>

lemma msisdn_failed_delivery:
  assumes "otp_keyed s" and "sms_port (env_send env)" and "\<not> env_store_contended env"
    and "create_challenge issue_otp (env_sha env) (env_draws env) (env_challenge_id env) (env_clock env)
      m (sub_imsi sub) (policy_from_settings st) None None s = (Inr (c, otp), s1)"
    and "py_format [(''otp'', otp)] (set_sms_otp_template st) = Inr body"
    and "env_send env \<lparr>sr_msisdn = m, sr_body = body, sr_sms_port = None, sr_sender_id = set_sms_sender_id st\<rparr> s1 = (Inl e, s2)"
  shows "get_otp (snd (msisdn_challenge env st m sub s)) m' = (if m' = m then None else get_otp s m')"
proof -
  have st: "otp_keyed s1 \<and> oc_msisdn c = m \<and> get_otp s1 x = (if x = m then Some c else get_otp s x)" for x
    by (rule create_challenge_stored [OF assms(4,1)])
  have "s2 = s1" using sms_port.send_failed [OF assms(2)] assms(6) by (metis fst_conv snd_conv)
  with assms(3-6) have "snd (msisdn_challenge env st m sub s) = snd (discard_challenge get_otp replace_otp c s1)"
    by (simp add: msisdn_challenge_def)
  with discard_stored [of s1 m c m'] st [of m] st [of m'] show ?thesis by simp
qed

text \<open>The code page accepts what the provisioning flow would, once; all that remains of a success is that
  the challenge is gone: nothing records that the number was verified.\<close>

lemma replace_otp_only_challenges: "\<exists>d. snd (replace_otp e r s) = s\<lparr>st_otp := d\<rparr>"
  by (auto simp: replace_otp_def split: option.split intro: exI [of _ "st_otp s"])

lemma verify_only_challenges:
  "\<exists>d. snd (verify_rounds n get_otp replace_otp sha clock m otp policy current s) = s\<lparr>st_otp := d\<rparr>"
proof (induction n arbitrary: s)
  case 0
  show ?case by (auto intro: exI [of _ "st_otp s"])
next
  case (Suc n)
  have "\<exists>d. snd (verify_rounds n get_otp replace_otp sha clock m otp policy current (snd (replace_otp c r s))) = s\<lparr>st_otp := d\<rparr>" for c r
    using Suc.IH [of "snd (replace_otp c r s)"] replace_otp_only_challenges [of c r s] by auto
  then show ?case
    using replace_otp_only_challenges
    by (auto split: verify_action.splits prod.splits bool.splits intro: exI [of _ "st_otp s"])
      (metis snd_conv)+
qed

lemma msisdn_verify_effect:
  assumes "msisdn_verify env st rq msisdn otp csrf s = (Inr page, s')"
  shows "(\<exists>d. s' = s\<lparr>st_otp := d\<rparr>) \<and>
    (rs_status page = 200 \<longleftrightarrow> (\<exists>m. msisdn_check_csrf csrf (dict_get (rq_cookies rq) MSISDN_CSRF_COOKIE) = Inr True \<and>
       normalise_msisdn (Some msisdn) (set_default_country_code st) (set_national_trunk_prefix st) = Some m \<and> py_isalnum otp \<and>
       fst (verify_challenge get_otp replace_otp (env_sha env) (env_clock env) m otp (policy_from_settings st) None s) = VERIFIED))"
proof -
  have "\<exists>d. s = s\<lparr>st_otp := d\<rparr>" by (rule exI [of _ "st_otp s"]) simp
  moreover have "\<exists>d. snd (verify_challenge get_otp replace_otp sha clock m otp policy now s) = s\<lparr>st_otp := d\<rparr>" for sha clock m policy now
    unfolding verify_challenge_def by (rule verify_only_challenges)
  ultimately show ?thesis
    using assms
    by (auto simp: msisdn_verify_def msisdn_html_def split: sum.splits bool.splits option.splits if_splits prod.splits)
      (metis snd_conv)+
qed

end
