(* ===== verification/Observability.thy ===== *)
theory Observability
  imports Pii Config Http
begin

text \<open>
  \<^verbatim>\<open>src/src/acs/observability.py\<close>: log lines and metric documents. \<open>json.dumps\<close> is defined on the values the
  code passes to it (no floating-point number is); what a formatter or a metric writes is one line
  whatever a client sent, and an identifier reaches it only redacted. The standard library's logging is
  represented by its root logger (handlers, level) and by the rule that \<open>extra\<close> must not name an attribute
  of a record. The time of a record and the correlation id are arguments.
\<close>

section \<open>JSON\<close>

datatype json = JNull | JBool bool | JInt int | JStr string | JArr "json list" | JObj "(string \<times> json) list"

definition hex_lower :: "nat \<Rightarrow> char" where
  "hex_lower n = char_of (if n < 10 then 48 + n else 87 + n)"

text \<open>One character of a string; \<open>ascii\<close> is \<open>ensure_ascii\<close>.\<close>

definition json_char :: "bool \<Rightarrow> char \<Rightarrow> string" where
  "json_char ascii c = (let n = code_of c in
     if n = 34 then [CHR 0x5C, c]
     else if n = 92 then [CHR 0x5C, c]
     else if n = 8 then CHR 0x5C # ''b''
     else if n = 9 then CHR 0x5C # ''t''
     else if n = 10 then CHR 0x5C # ''n''
     else if n = 12 then CHR 0x5C # ''f''
     else if n = 13 then CHR 0x5C # ''r''
     else if n < 32 \<or> (ascii \<and> 126 < n) then CHR 0x5C # ''u00'' @ [hex_lower (n div 16), hex_lower (n mod 16)]
     else [c])"

definition json_string :: "bool \<Rightarrow> string \<Rightarrow> string" where
  "json_string ascii s = CHR 0x22 # concat (map (json_char ascii) s) @ [CHR 0x22]"

fun json_dumps :: "bool \<Rightarrow> json \<Rightarrow> string" where
  "json_dumps ascii JNull = ''null''"
| "json_dumps ascii (JBool b) = (if b then ''true'' else ''false'')"
| "json_dumps ascii (JInt i) = str_of_int i"
| "json_dumps ascii (JStr s) = json_string ascii s"
| "json_dumps ascii (JArr xs) = ''['' @ py_join '', '' (map (json_dumps ascii) xs) @ '']''"
| "json_dumps ascii (JObj kvs) =
     ''{'' @ py_join '', '' (map (\<lambda>(k, v). json_string ascii k @ '': '' @ json_dumps ascii v) kvs) @ ''}''"

definition dict_update :: "('k, 'v) dict \<Rightarrow> ('k, 'v) dict \<Rightarrow> ('k, 'v) dict" where
  "dict_update d new = fold (\<lambda>(k, v) out. dict_put k v out) new d"

section \<open>Log records\<close>

definition EXTRA_KEY :: string where
  "EXTRA_KEY = ''acs_extra''"

text \<open>A record as \<open>format\<close> reads it; \<open>lr_fields\<close> is the attribute \<open>EXTRA_KEY\<close> when it is a dictionary.\<close>

record LogRecord =
  lr_created :: int
  lr_msecs :: int
  lr_levelname :: string
  lr_name :: string
  lr_message :: string
  lr_fields :: "(string, json log_value) dict option"
  lr_exception :: "string option"

record JsonFormatter =
  jf_service :: string
  jf_pii_mode :: string
  jf_pii_secret :: string

definition three_digits :: "int \<Rightarrow> string" where
  "three_digits n = (if n < 100 then ''0'' @ two_digits n else str_of_int n)"

definition log_timestamp :: "int \<Rightarrow> int \<Rightarrow> string" where
  "log_timestamp created msecs = (case civil_date (created div 86400) of (year, month, day) \<Rightarrow>
     str_of_int year @ ''-'' @ two_digits month @ ''-'' @ two_digits day @ ''T'' @
     two_digits (created mod 86400 div 3600) @ '':'' @ two_digits (created mod 3600 div 60) @ '':'' @
     two_digits (created mod 60) @ ''.'' @ three_digits msecs @ ''Z'')"

fun log_json :: "json log_value \<Rightarrow> json" where
  "log_json (LogStr s) = JStr s"
| "log_json (LogOther j) = j"

definition log_base :: "JsonFormatter \<Rightarrow> string \<Rightarrow> LogRecord \<Rightarrow> (string, json) dict" where
  "log_base f request_id r =
     [(''ts'', JStr (log_timestamp (lr_created r) (lr_msecs r))), (''level'', JStr (lr_levelname r)),
      (''service'', JStr (jf_service f)), (''logger'', JStr (lr_name r)), (''message'', JStr (lr_message r)),
      (''request_id'', JStr request_id)]"

definition log_payload :: "(string \<Rightarrow> string \<Rightarrow> string) \<Rightarrow> JsonFormatter \<Rightarrow> string \<Rightarrow> LogRecord \<Rightarrow>
    pii_error + (string, json) dict" where
  "log_payload hmac f request_id r =
     bind_err (case lr_fields r of
         Some given \<Rightarrow> if given = [] then Inr [] else redact_mapping hmac given (jf_pii_mode f) (jf_pii_secret f)
       | None \<Rightarrow> Inr []) (\<lambda>redacted.
     let payload = dict_update (log_base f request_id r) (map (\<lambda>(k, v). (k, log_json v)) redacted)
     in Inr (case lr_exception r of None \<Rightarrow> payload | Some e \<Rightarrow> dict_put ''exception'' (JStr e) payload))"

definition format_record :: "(string \<Rightarrow> string \<Rightarrow> string) \<Rightarrow> JsonFormatter \<Rightarrow> string \<Rightarrow> LogRecord \<Rightarrow> pii_error + string" where
  "format_record hmac f request_id r =
     bind_err (log_payload hmac f request_id r) (\<lambda>payload. Inr (json_dumps False (JObj payload)))"

text \<open>\<open>Logger.makeRecord\<close> refuses an \<open>extra\<close> key that is an attribute of the record.\<close>

definition RECORD_ATTRIBUTES :: "string list" where
  "RECORD_ATTRIBUTES = [''name'', ''msg'', ''args'', ''levelname'', ''levelno'', ''pathname'', ''filename'', ''module'',
     ''exc_info'', ''exc_text'', ''stack_info'', ''lineno'', ''funcName'', ''created'', ''msecs'', ''relativeCreated'',
     ''thread'', ''threadName'', ''processName'', ''process'', ''taskName'', ''message'', ''asctime'']"

definition make_record_extra :: "(string, 'a) dict \<Rightarrow> string + (string, 'a) dict" where
  "make_record_extra extra =
     (case List.find (\<lambda>(k, v). k \<in> set RECORD_ATTRIBUTES) extra of
        Some (k, v) \<Rightarrow> Inl k
      | None \<Rightarrow> Inr extra)"

text \<open>\<open>StructuredLogger.process\<close>: the \<open>extra\<close> it hands on.\<close>

definition process_extra :: "(string, 'a) dict option \<Rightarrow> (string, (string, 'a) dict) dict" where
  "process_extra given = [(EXTRA_KEY, case given of None \<Rightarrow> [] | Some d \<Rightarrow> d)]"

section \<open>Configuration of the root logger\<close>

datatype log_handler = StdoutHandler JsonFormatter | OtherHandler string

record RootLogger =
  rl_handlers :: "log_handler list"
  rl_level :: string
  rl_access_disabled :: bool

definition configure_logging :: "Settings \<Rightarrow> RootLogger \<Rightarrow> RootLogger" where
  "configure_logging st root =
     (let cleared = fold (\<lambda>existing. rl_handlers_update (remove1 existing)) (rl_handlers root) root
      in cleared\<lparr>rl_handlers := rl_handlers cleared @
             [StdoutHandler \<lparr>jf_service = set_service_name st, jf_pii_mode = set_pii_log_mode st,
                jf_pii_secret = set_pii_hash_secret st\<rparr>],
           rl_level := set_log_level st, rl_access_disabled := True\<rparr>)"

section \<open>Metrics\<close>

record Metrics =
  mt_namespace :: string
  mt_environment :: string

definition metric_dims :: "Metrics \<Rightarrow> (string, string) dict option \<Rightarrow> (string, string) dict" where
  "metric_dims m dimensions =
     (case dimensions of
        None \<Rightarrow> [(''Environment'', mt_environment m)]
      | Some d \<Rightarrow> dict_update [(''Environment'', mt_environment m)] d)"

definition metric_document :: "Metrics \<Rightarrow> int \<Rightarrow> string \<Rightarrow> int \<Rightarrow> string \<Rightarrow> (string, string) dict option \<Rightarrow>
    (string, json) dict option \<Rightarrow> (string, json) dict" where
  "metric_document m now_ms name value unit dimensions properties =
     (let dims = metric_dims m dimensions;
          aws = JObj [(''Timestamp'', JInt now_ms),
            (''CloudWatchMetrics'', JArr [JObj [(''Namespace'', JStr (mt_namespace m)),
               (''Dimensions'', JArr [JArr (map (JStr \<circ> fst) dims)]),
               (''Metrics'', JArr [JObj [(''Name'', JStr name), (''Unit'', JStr unit)]])]])];
          doc = dict_update (dict_put name (JInt value) [(''_aws'', aws)]) (map (\<lambda>(k, v). (k, JStr v)) dims)
      in case properties of None \<Rightarrow> doc | Some p \<Rightarrow> dict_update doc p)"

definition metric_line :: "Metrics \<Rightarrow> int \<Rightarrow> string \<Rightarrow> int \<Rightarrow> string \<Rightarrow> (string, string) dict option \<Rightarrow>
    (string, json) dict option \<Rightarrow> string" where
  "metric_line m now_ms name value unit dimensions properties =
     json_dumps True (JObj (metric_document m now_ms name value unit dimensions properties)) @ [newline]"

text \<open>The process-wide instance.\<close>

definition get_metrics :: "Settings \<Rightarrow> Metrics option \<Rightarrow> Metrics \<times> Metrics option" where
  "get_metrics st cached = (case cached of
     None \<Rightarrow> (let m = \<lparr>mt_namespace = set_metrics_namespace st, mt_environment = set_env st\<rparr> in (m, Some m))
   | Some m \<Rightarrow> (m, Some m))"

definition reset_metrics :: "Metrics option \<Rightarrow> Metrics option" where
  "reset_metrics cached = None"

section \<open>One line, whatever the text\<close>

definition one_line :: "string \<Rightarrow> bool" where
  "one_line s \<longleftrightarrow> list_all (\<lambda>c. 32 \<le> code_of c) s"

lemma one_line_simps [simp]:
  "one_line []" "one_line (c # s) \<longleftrightarrow> 32 \<le> code_of c \<and> one_line s" "one_line (s @ t) \<longleftrightarrow> one_line s \<and> one_line t"
  by (simp_all add: one_line_def)

lemma one_line_concat: "(\<And>x. x \<in> set xs \<Longrightarrow> one_line x) \<Longrightarrow> one_line (concat xs)"
  by (induction xs) auto

lemma one_line_join: "(\<And>x. x \<in> set xs \<Longrightarrow> one_line x) \<Longrightarrow> one_line sep \<Longrightarrow> one_line (py_join sep xs)"
  by (induction sep xs rule: py_join.induct) auto

lemma hex_lower_code: "n < 16 \<Longrightarrow> 48 \<le> code_of (hex_lower n) \<and> code_of (hex_lower n) < 127"
  by (auto simp: hex_lower_def code_of_def)

lemma one_line_char: "one_line (json_char ascii c)"
proof -
  have "code_of c div 16 < 16" "code_of c mod 16 < 16" using code_of_less [of c] by simp_all
  then have h: "32 \<le> code_of (hex_lower (code_of c div 16))" "32 \<le> code_of (hex_lower (code_of c mod 16))"
    using hex_lower_code [of "code_of c div 16"] hex_lower_code [of "code_of c mod 16"] by simp_all
  have k: "32 \<le> code_of x" if "x \<in> {CHR 0x5C, CHR ''b'', CHR ''t'', CHR ''n'', CHR ''f'', CHR ''r'', CHR ''u'', CHR ''0''}" for x
    using that by (auto simp: code_of_def)
  show ?thesis unfolding json_char_def Let_def using h k by simp
qed

lemma one_line_string: "one_line (json_string ascii s)"
  unfolding json_string_def using one_line_char by (auto simp: code_of_def intro!: one_line_concat)

lemma one_line_nat: "one_line (str_of_nat n)"
  by (induction n rule: str_of_nat.induct) (subst str_of_nat.simps, auto simp: digit_char_def code_of_def)

lemma one_line_int: "one_line (str_of_int i)"
  using one_line_nat by (simp add: str_of_int_def code_of_def)

lemma one_line_json: "one_line (json_dumps ascii j)"
proof (induction j)
  case (JArr xs)
  then show ?case by (auto simp: code_of_def intro!: one_line_join)
next
  case (JObj kvs)
  then show ?case
    by (auto simp: code_of_def one_line_string intro!: one_line_join)
qed (simp_all add: code_of_def one_line_string one_line_int)

section \<open>A text is read back as it was\<close>

text \<open>How a JSON reader takes the characters of a string up to its closing quotation mark.\<close>

definition unescape :: "char \<Rightarrow> char option" where
  "unescape e = map_of [(CHR 0x22, CHR 0x22), (CHR 0x5C, CHR 0x5C), (CHR ''/'', CHR ''/''), (CHR ''b'', CHR 0x08),
     (CHR ''t'', CHR 0x09), (CHR ''n'', CHR 0x0A), (CHR ''f'', CHR 0x0C), (CHR ''r'', CHR 0x0D)] e"

function read_chars :: "string \<Rightarrow> (string \<times> string) option" where
  "read_chars [] = None"
| "read_chars (c # cs) =
     (if c = CHR 0x22 then Some ([], cs)
      else if c \<noteq> CHR 0x5C then map_option (apfst (Cons c)) (read_chars cs)
      else if take 3 cs = ''u00'' then
        (case drop 3 cs of
           h # l # rest \<Rightarrow>
             (case (hex_value h, hex_value l) of
                (Some a, Some b) \<Rightarrow> map_option (apfst (Cons (char_of (16 * a + b)))) (read_chars rest)
              | _ \<Rightarrow> None)
         | _ \<Rightarrow> None)
      else (case cs of
              [] \<Rightarrow> None
            | e # rest \<Rightarrow>
                (case unescape e of None \<Rightarrow> None | Some x \<Rightarrow> map_option (apfst (Cons x)) (read_chars rest))))"
  by pat_completeness auto
termination
  by (relation "measure length") (auto dest: arg_cong [where f = length])

lemma hex_value_lower: "n < 16 \<Longrightarrow> hex_value (hex_lower n) = Some n"
  by (auto simp: hex_value_def hex_lower_def code_of_def Let_def)

lemma char_code_eq: "(c :: char) = d \<longleftrightarrow> code_of c = code_of d"
  by (metis char_of_code)

lemma escaped_read:
  assumes "c \<in> {CHR 0x22, CHR 0x5C, CHR 0x08, CHR 0x09, CHR 0x0A, CHR 0x0C, CHR 0x0D}"
  shows "read_chars (json_char ascii c @ rest) = map_option (apfst (Cons c)) (read_chars rest)"
proof -
  have "\<exists>e. json_char ascii c = [CHR 0x5C, e] \<and> e \<noteq> CHR ''u'' \<and> unescape e = Some c"
    using assms by (elim insertE emptyE) (simp_all add: json_char_def code_of_def unescape_def)
  then show ?thesis by auto
qed

lemma read_char: "read_chars (json_char ascii c @ rest) = map_option (apfst (Cons c)) (read_chars rest)"
proof -
  have "code_of c div 16 < 16" "code_of c mod 16 < 16" using code_of_less [of c] by simp_all
  then have hex: "hex_value (hex_lower (code_of c div 16)) = Some (code_of c div 16)"
      "hex_value (hex_lower (code_of c mod 16)) = Some (code_of c mod 16)"
    by (simp_all add: hex_value_lower)
  have whole: "char_of (16 * (code_of c div 16) + code_of c mod 16) = c" by simp
  consider "code_of c \<in> {34, 92, 8, 9, 10, 12, 13}" | "code_of c \<notin> {34, 92, 8, 9, 10, 12, 13}" by blast
  then show ?thesis
  proof cases
    case 1
    then have "c \<in> {CHR 0x22, CHR 0x5C, CHR 0x08, CHR 0x09, CHR 0x0A, CHR 0x0C, CHR 0x0D}"
      unfolding insert_iff empty_iff char_code_eq by (simp add: code_of_def)
    then show ?thesis by (rule escaped_read)
  next
    case 2
    then have "c \<noteq> CHR 0x22" "c \<noteq> CHR 0x5C" by (auto simp: code_of_def)
    with 2 hex whole show ?thesis by (simp add: json_char_def Let_def del: mult_div_mod_eq)
  qed
qed

lemma read_json_string: "read_chars (drop 1 (json_string ascii s) @ rest) = Some (s, rest)"
proof -
  have "read_chars (concat (map (json_char ascii) s) @ CHR 0x22 # rest) = Some (s, rest)"
    by (induction s) (simp_all add: read_char del: read_chars.simps(2), simp)
  then show ?thesis by (simp add: json_string_def)
qed

section \<open>What a log line shows\<close>

lemma redact_items_mask:
  "mode \<noteq> ''none'' \<Longrightarrow> mode \<noteq> ''hash'' \<Longrightarrow> \<exists>out'. redact_items hmac mode secret out data = Inr out'"
  by (induction data arbitrary: out) (auto simp: redact_mask split: log_value.split)

lemma log_payload_mask:
  assumes "jf_pii_mode f \<noteq> ''none''" and "jf_pii_mode f \<noteq> ''hash''"
  shows "\<exists>payload. log_payload hmac f request_id r = Inr payload"
proof (cases "lr_fields r")
  case (Some given)
  with redact_items_mask [OF assms, of hmac "jf_pii_secret f" "[]" given] show ?thesis
    by (auto simp: log_payload_def redact_mapping_def bind_err_def Let_def)
qed (simp add: log_payload_def bind_err_def Let_def)

lemma structured_extra_accepted: "make_record_extra (process_extra given) = Inr (process_extra given)"
  by (simp add: make_record_extra_def process_extra_def EXTRA_KEY_def RECORD_ATTRIBUTES_def)

lemma configure_logging_one_handler:
  "rl_handlers (configure_logging st root) =
     [StdoutHandler \<lparr>jf_service = set_service_name st, jf_pii_mode = set_pii_log_mode st, jf_pii_secret = set_pii_hash_secret st\<rparr>]"
proof -
  have "rl_handlers (fold (\<lambda>h. rl_handlers_update (remove1 h)) hs r) = fold remove1 hs (rl_handlers r)" for hs and r :: RootLogger
    by (induction hs arbitrary: r) simp_all
  moreover have "fold remove1 hs (hs @ ks) = ks" for hs ks :: "log_handler list"
    by (induction hs) simp_all
  from this [of "rl_handlers root" "[]"] have "fold remove1 (rl_handlers root) (rl_handlers root) = []" by simp
  ultimately show ?thesis by (simp add: configure_logging_def Let_def)
qed

lemma configure_logging_idempotent: "configure_logging st (configure_logging st root) = configure_logging st root"
  by (rule RootLogger.equality)
     (simp_all only: configure_logging_one_handler, simp_all add: configure_logging_def Let_def)

text \<open>
  C28. Log lines can be trusted and do not give identifiers away. Whatever a client put into a header, a
  parameter or a correlation id, a formatted record is one line without control characters; a string
  of it, the correlation id and the message among them, is read back by a JSON reader as it was, so no
  text can end its field and add another. In mask mode a record is always formatted, and records that
  differ only in the characters of sensitive values before the last four give the same line.
\<close>

theorem log_line_safe:
  "(\<forall>hmac f request_id r line. format_record hmac f request_id r = Inr line \<longrightarrow> one_line line) \<and>
   (\<forall>given rest. read_chars (drop 1 (json_string False given) @ rest) = Some (given, rest)) \<and>
   (\<forall>hmac f request_id r data data'. jf_pii_mode f \<noteq> ''none'' \<longrightarrow> jf_pii_mode f \<noteq> ''hash'' \<longrightarrow> list_all2 same_visible data data' \<longrightarrow>
      (\<exists>line. format_record hmac f request_id (r\<lparr>lr_fields := Some data\<rparr>) = Inr line \<and>
         format_record hmac f request_id (r\<lparr>lr_fields := Some data'\<rparr>) = Inr line))"
proof (intro conjI allI impI)
  fix hmac f request_id r line
  assume "format_record hmac f request_id r = Inr line"
  then show "one_line line" by (auto simp: format_record_def bind_err_Inr one_line_json simp del: json_dumps.simps)
next
  fix given rest show "read_chars (drop 1 (json_string False given) @ rest) = Some (given, rest)"
    by (rule read_json_string)
next
  fix hmac request_id and f :: JsonFormatter and r :: LogRecord and data data' :: "(string, json log_value) dict"
  assume mode: "jf_pii_mode f \<noteq> ''none''" "jf_pii_mode f \<noteq> ''hash''" and same: "list_all2 same_visible data data'"
  have "redact_mapping hmac data (jf_pii_mode f) (jf_pii_secret f) = redact_mapping hmac data' (jf_pii_mode f) (jf_pii_secret f)"
    using redact_items_same_visible [OF same mode] by (simp add: redact_mapping_def)
  moreover have "data = [] \<longleftrightarrow> data' = []" using same by auto
  ultimately have "log_payload hmac f request_id (r\<lparr>lr_fields := Some data\<rparr>) = log_payload hmac f request_id (r\<lparr>lr_fields := Some data'\<rparr>)"
    by (simp add: log_payload_def log_base_def)
  then show "\<exists>line. format_record hmac f request_id (r\<lparr>lr_fields := Some data\<rparr>) = Inr line \<and>
         format_record hmac f request_id (r\<lparr>lr_fields := Some data'\<rparr>) = Inr line"
    using log_payload_mask [OF mode, of hmac request_id "r\<lparr>lr_fields := Some data'\<rparr>"]
    by (auto simp: format_record_def bind_err_def)
qed

definition demo_formatter :: JsonFormatter where
  "demo_formatter = \<lparr>jf_service = ''acs'', jf_pii_mode = ''mask'', jf_pii_secret = []\<rparr>"

definition demo_record :: "string \<Rightarrow> LogRecord" where
  "demo_record imsi = \<lparr>lr_created = 951782400, lr_msecs = 7, lr_levelname = ''INFO'', lr_name = ''acs'', lr_message = ''m'',
     lr_fields = Some [(''imsi'', LogStr imsi)], lr_exception = None\<rparr>"

definition demo_line :: string where
  \<open>demo_line = ''{"ts": "2000-02-29T00:00:00.007Z", "level": "INFO", "service": "acs", "logger": "acs", '' @
     ''"message": "m", "request_id": "a'' @ [CHR 0x5C] @ ''nb", "imsi": "***********7890"}''\<close>

definition demo_payload :: "(string, json) dict" where
  "demo_payload = [(''ts'', JStr ''2000-02-29T00:00:00.007Z''), (''level'', JStr ''INFO''), (''service'', JStr ''acs''),
     (''logger'', JStr ''acs''), (''message'', JStr ''m''), (''request_id'', JStr (''a'' @ newline # ''b'')),
     (''imsi'', JStr ''***********7890'')]"

lemma demo_timestamp: "log_timestamp 951782400 7 = ''2000-02-29T00:00:00.007Z''"
proof -
  have "digit_char 2 = CHR ''2''" "digit_char 0 = CHR ''0''" by code_simp+
  then have "str_of_int 2000 = ''2000''" by (simp add: str_of_int_def str_of_nat.simps)
  moreover have "two_digits 0 = ''00''" "two_digits 2 = ''02''" "two_digits 29 = ''29''" "three_digits 7 = ''007''" by code_simp+
  ultimately show ?thesis by (simp add: log_timestamp_def civil_date_examples)
qed

lemma demo_payload:
  "log_payload (\<lambda>k v. v) demo_formatter (''a'' @ newline # ''b'') (demo_record ''450051234567890'') = Inr demo_payload"
proof -
  have "redact_mapping (\<lambda>k v. v) [(''imsi'', LogStr ''450051234567890'')] ''mask'' [] = Inr [(''imsi'', LogStr ''***********7890'' :: json log_value)]"
    by code_simp
  then show ?thesis
    by (simp add: log_payload_def demo_formatter_def demo_record_def demo_payload_def log_base_def demo_timestamp
        dict_update_def dict_put_def bind_err_def Let_def)
qed

lemma demo_payload_text: "json_dumps False (JObj demo_payload) = demo_line"
  by code_simp

theorem log_line_safe_witness:
  "format_record (\<lambda>k v. v) demo_formatter (''a'' @ newline # ''b'') (demo_record ''450051234567890'') = Inr demo_line \<and>
   format_record (\<lambda>k v. v) demo_formatter (''a'' @ newline # ''b'') (demo_record ''001019999997890'') = Inr demo_line \<and>
   one_line demo_line"
proof -
  let ?f = "format_record (\<lambda>k v. v) demo_formatter (''a'' @ newline # ''b'')"
  let ?fields = "\<lambda>imsi. [(''imsi'', LogStr imsi)] :: (string, json log_value) dict"
  have line: "?f (demo_record ''450051234567890'') = Inr demo_line"
    by (simp only: format_record_def demo_payload bind_err_def sum.case demo_payload_text)
  have "py_lower ''imsi'' \<in> SENSITIVE_KEYS" by code_simp
  then have "list_all2 same_visible (?fields ''450051234567890'') (?fields ''001019999997890'')"
    by (simp add: same_visible_def)
  moreover have "jf_pii_mode demo_formatter \<noteq> ''none''" "jf_pii_mode demo_formatter \<noteq> ''hash''"
    by (simp_all add: demo_formatter_def)
  ultimately have "?f (demo_record []\<lparr>lr_fields := Some (?fields ''450051234567890'')\<rparr>)
      = ?f (demo_record []\<lparr>lr_fields := Some (?fields ''001019999997890'')\<rparr>)"
    using log_line_safe [THEN conjunct2, THEN conjunct2, rule_format,
        of demo_formatter "?fields ''450051234567890''" "?fields ''001019999997890''" "\<lambda>k v. v" "''a'' @ newline # ''b''" "demo_record []"]
    by auto
  moreover have "demo_record []\<lparr>lr_fields := Some (?fields imsi)\<rparr> = demo_record imsi" for imsi
    by (simp add: demo_record_def)
  ultimately have "?f (demo_record ''001019999997890'') = Inr demo_line" using line by simp
  moreover have "one_line demo_line" using log_line_safe line by blast
  ultimately show ?thesis using line by simp
qed

section \<open>Metric documents\<close>

lemma dict_update_get: "dict_get (dict_update d new) k = (case dict_get (rev new) k of None \<Rightarrow> dict_get d k | Some v \<Rightarrow> Some v)"
proof (induction new arbitrary: d)
  case (Cons kv new)
  obtain k' v where kv: "kv = (k', v)" by fastforce
  have "dict_get (dict_update d (kv # new)) k = dict_get (dict_update (dict_put k' v d) new) k"
    by (simp add: dict_update_def kv)
  moreover have "dict_get (rev (kv # new)) k = (case dict_get (rev new) k of None \<Rightarrow> if k = k' then Some v else None | Some w \<Rightarrow> Some w)"
    by (auto simp: dict_get_def kv map_add_def split: option.split)
  ultimately show ?case by (simp add: Cons.IH split: option.split)
qed (simp add: dict_update_def dict_get_def)

lemma metric_document_members:
  assumes "distinct (map fst (metric_dims m dimensions))"
  shows "list_all (\<lambda>(k, v). dict_get (metric_document m now_ms name value unit dimensions None) k = Some (JStr v)) (metric_dims m dimensions)"
    and "name \<notin> fst ` set (metric_dims m dimensions) \<Longrightarrow>
      dict_get (metric_document m now_ms name value unit dimensions None) name = Some (JInt value)"
proof -
  let ?dims = "metric_dims m dimensions"
  have rev: "dict_get (rev (map (\<lambda>(k, v). (k, JStr v)) ?dims)) k = map_option JStr (dict_get ?dims k)" for k
  proof -
    have "distinct (map fst (map (\<lambda>(k, v). (k, JStr v)) ?dims))"
      using assms by (simp add: case_prod_beta comp_def)
    then have "map_of (rev (map (\<lambda>(k, v). (k, JStr v)) ?dims)) = map_of (map (\<lambda>(k, v). (k, JStr v)) ?dims)"
      by (intro map_of_inject_set [THEN iffD2]) (simp_all only: rev_map [symmetric] distinct_rev set_rev)
    then have "dict_get (rev (map (\<lambda>(k, v). (k, JStr v)) ?dims)) k = dict_get (map (\<lambda>(k, v). (k, JStr v)) ?dims) k"
      by (simp only: dict_get_def)
    then show ?thesis by (simp add: dict_get_def map_of_map)
  qed
  show "list_all (\<lambda>(k, v). dict_get (metric_document m now_ms name value unit dimensions None) k = Some (JStr v)) ?dims"
  proof -
    have "dict_get ?dims k = Some v" if "(k, v) \<in> set ?dims" for k v using assms that by (simp add: dict_get_def)
    then show ?thesis by (auto simp: list_all_iff metric_document_def Let_def dict_update_get rev)
  qed
  show "dict_get (metric_document m now_ms name value unit dimensions None) name = Some (JInt value)"
    if "name \<notin> fst ` set ?dims"
  proof -
    have "dict_get ?dims name = None" using that by (simp add: dict_get_def map_of_eq_None_iff)
    then show ?thesis by (simp add: metric_document_def Let_def dict_update_get rev)
  qed
qed

lemma metric_line_one_line: "\<exists>line. metric_line m now_ms name value unit dimensions properties = line @ [newline] \<and> one_line line"
  using one_line_json by (auto simp: metric_line_def simp del: json_dumps.simps)

end
