(* ===== verification/Endpoints.thy ===== *)
theory Endpoints
  imports Observability Admin Dm_Session
begin

text \<open>
  The endpoints a device talks to: \<^verbatim>\<open>src/src/acs/api/provisioning.py\<close> (the RCC.14 request),
  \<^verbatim>\<open>src/src/acs/api/dm.py\<close> (the OMA-DM session), \<^verbatim>\<open>src/src/acs/api/health.py\<close> and
  \<^verbatim>\<open>src/src/acs/api/dev.py\<close>. A handler returns its answer, the store and what it logged and measured. The
  decoded form, the stream of body chunks, the serialisation of a document and the reachability of the
  store are arguments: they are the framework's, lxml's and the table's.
\<close>

section \<open>What a handler reports\<close>

datatype app_event =
  MetricEvent string int string "(string, string) dict option"
| LogEvent string "(string, json log_value) dict"

definition log_opt :: "string option \<Rightarrow> json log_value" where
  "log_opt v = (case v of None \<Rightarrow> LogOther JNull | Some s \<Rightarrow> LogStr s)"

definition log_int_opt :: "int option \<Rightarrow> json log_value" where
  "log_int_opt v = LogOther (case v of None \<Rightarrow> JNull | Some i \<Rightarrow> JInt i)"

definition redactable :: "ConfigQuery \<Rightarrow> (string, json log_value) dict" where
  "redactable q =
     [(''vers'', LogOther (JInt (cq_vers q))), (''imsi'', log_opt (cq_imsi q)), (''imei'', log_opt (cq_imei q)),
      (''msisdn'', log_opt (cq_msisdn q)), (''token'', log_opt (cq_token q)),
      (''terminal_vendor'', log_opt (cq_terminal_vendor q)), (''terminal_model'', log_opt (cq_terminal_model q)),
      (''client_vendor'', log_opt (cq_client_vendor q)), (''client_version'', log_opt (cq_client_version q)),
      (''rcs_profile'', log_opt (cq_rcs_profile q)), (''rcs_state'', log_int_opt (cq_rcs_state q)),
      (''apps'', LogOther (JArr (map JStr (cq_apps q))))]"

section \<open>The configuration endpoint\<close>

text \<open>A field of a decoded form: a text or an uploaded file.\<close>

datatype form_part = FormText string | FormFile

definition group_one :: "string \<Rightarrow> string \<Rightarrow> (string, string list) dict \<Rightarrow> (string, string list) dict" where
  "group_one key value grouped = dict_put key (dict_get_or grouped key [] @ [value]) grouped"

definition has_form :: "HttpRequest \<Rightarrow> bool" where
  "has_form rq \<longleftrightarrow> rq_method rq = ''POST'' \<and>
     (let content_type = dict_get_or (rq_headers rq) ''content-type'' []
      in contains ''application/x-www-form-urlencoded'' content_type \<or> contains ''multipart/'' content_type)"

definition multi_items :: "HttpRequest \<Rightarrow> (string \<times> form_part) list \<Rightarrow> (string, string list) dict" where
  "multi_items rq form =
     (let grouped = fold (\<lambda>(key, value). group_one key value) (rq_query rq) []
      in if has_form rq
         then fold (\<lambda>(key, raw) d. case raw of FormText t \<Rightarrow> group_one key t d | FormFile \<Rightarrow> d) form grouped
         else grouped)"

definition upper_field :: "string \<Rightarrow> string" where
  "upper_field s = map (\<lambda>c. if 97 \<le> code_of c \<and> code_of c \<le> 122 then char_of (code_of c - 32) else c) s"

fun malformed_text :: "MalformedRequest \<Rightarrow> string" where
  "malformed_text (Repeated wire_name) = ''parameter '' @ wire_name @ '' must not be repeated''"
| "malformed_text (TooLong wire_name limit) = ''parameter '' @ wire_name @ '' exceeds '' @ str_of_nat limit @ '' characters''"
| "malformed_text (NotInteger field) = field @ '' must be an integer''"
| "malformed_text (BelowMinimum field low) = field @ '' must be >= '' @ str_of_int low"
| "malformed_text (AboveMaximum field high) = field @ '' must be <= '' @ str_of_int high"
| "malformed_text BadImsi = ''IMSI must be 5-15 digits''"
| "malformed_text (BadDeviceId field) = upper_field field @ '' must be 14-16 digits''"
| "malformed_text BadMsisdn = ''msisdn is not a valid E.164 number''"
| "malformed_text BadOtp = ''OTP must be alphanumeric''"

definition set_default :: "'k \<Rightarrow> 'v \<Rightarrow> ('k, 'v) dict \<Rightarrow> ('k, 'v) dict" where
  "set_default k v d = (if dict_get d k = None then dict_put k v d else d)"

text \<open>An exception that the handler leaves to the application.\<close>

datatype endpoint_error = ServiceRaised service_error | DmRaised dm_error

type_synonym endpoint_result = "(endpoint_error + HttpResponse) \<times> MemoryStore \<times> app_event list"

definition config_response :: "(ProvisioningDoc \<Rightarrow> string) \<Rightarrow> ProvisioningOutcome \<Rightarrow> HttpResponse" where
  "config_response to_bytes oc =
     (let body = (case po_body oc of None \<Rightarrow> [] | Some doc \<Rightarrow> to_bytes doc)
      in if body = [] then plain_response (po_status_code oc) (set_default ''Content-Length'' ''0'' (po_headers oc))
         else \<lparr>rs_status = po_status_code oc, rs_headers = po_headers oc,
               rs_media_type = (if po_content_type oc = [] then None else Some (po_content_type oc)),
               rs_body = body, rs_cookies = []\<rparr>)"

definition config_events :: "(ProvisioningDoc \<Rightarrow> string) \<Rightarrow> ConfigQuery \<Rightarrow> ProvisioningOutcome \<Rightarrow> app_event list" where
  "config_events to_bytes q oc =
     (let body = (case po_body oc of None \<Rightarrow> [] | Some doc \<Rightarrow> to_bytes doc)
      in [MetricEvent (str_or (po_metric oc) ''ConfigRequest'') 1 ''Count'' (Some [(''Outcome'', str_or (po_metric oc) ''unknown'')])] @
         (if body = [] then [] else [MetricEvent ''ConfigBytes'' (int (length body)) ''Bytes'' None]) @
         [LogEvent ''configuration request handled''
            ([(''status'', LogOther (JInt (po_status_code oc))), (''outcome'', LogStr (po_metric oc)), (''detail'', LogStr (po_detail oc)),
              (''version'', log_int_opt (po_version oc))] @ redactable q)])"

definition parsed_query :: "Settings \<Rightarrow> HttpRequest \<Rightarrow> (string \<times> form_part) list \<Rightarrow> MalformedRequest + ConfigQuery" where
  "parsed_query st rq form = parse_config_query (multi_items rq form) (dict_get_or (rq_headers rq) ''user-agent'' [])
     (set_max_query_value_length st) (set_default_country_code st) (set_national_trunk_prefix st)"

definition handle_configuration_request :: "('ip, 'net) Env \<Rightarrow> Settings \<Rightarrow> (ProvisioningDoc \<Rightarrow> string) \<Rightarrow> HttpRequest \<Rightarrow>
    (string \<times> form_part) list \<Rightarrow> MemoryStore \<Rightarrow> endpoint_result" where
  "handle_configuration_request env st to_bytes rq form s =
     (case parsed_query st rq form of
        Inl exc \<Rightarrow> (Inr (plain_response (set_malformed_request_status st) []), s,
          [MetricEvent ''MalformedRequest'' 1 ''Count'' None,
           LogEvent ''malformed configuration request'' [(''reason'', LogStr (malformed_text exc))]])
      | Inr q \<Rightarrow>
          (let unknown = (if cq_unknown q = [] then []
             else [LogEvent ''unknown configuration parameters'' [(''names'', LogOther (JArr (map JStr (cq_unknown q))))]])
           in case handle env st q (rq_headers rq) (rq_client rq) (rq_method rq) s of
                (Inl e, s') \<Rightarrow> (Inl (ServiceRaised e), s', unknown)
              | (Inr oc, s') \<Rightarrow> (Inr (config_response to_bytes oc), s', unknown @ config_events to_bytes q oc)))"

record Route =
  rt_path :: string
  rt_method :: string
  rt_name :: string
  rt_in_schema :: bool

definition register_config_paths :: "string list \<Rightarrow> Route list" where
  "register_config_paths paths = concat (map (\<lambda>path.
     let normalised = (if py_startswith path ''/'' then path else ''/'' @ path)
     in [\<lparr>rt_path = normalised, rt_method = ''GET'', rt_name = ''configuration:'' @ normalised, rt_in_schema = (normalised = ''/config'')\<rparr>,
         \<lparr>rt_path = normalised, rt_method = ''POST'', rt_name = ''configuration-post:'' @ normalised, rt_in_schema = False\<rparr>]) paths)"

section \<open>The device-management endpoint\<close>

definition MAX_BODY_BYTES :: nat where
  "MAX_BODY_BYTES = 512 * 1024"

text \<open>The request's stream, event by event; a client may go on sending forever.\<close>

datatype stream_event = Chunk string | EndOfStream | ClientDisconnect

datatype body_outcome = Body string | TooLarge | Disconnected

partial_function (option) read_body :: "(nat \<Rightarrow> stream_event) \<Rightarrow> nat \<Rightarrow> string \<Rightarrow> body_outcome option" where
  "read_body stream i payload =
     (case stream i of
        Chunk chunk \<Rightarrow>
          if int (length chunk) > int MAX_BODY_BYTES - int (length payload) then Some TooLarge
          else read_body stream (Suc i) (payload @ chunk)
      | EndOfStream \<Rightarrow> Some (Body payload)
      | ClientDisconnect \<Rightarrow> Some Disconnected)"

definition dm_http_response :: "DmResponse \<Rightarrow> HttpResponse" where
  "dm_http_response oc =
     (let headers = [(''Cache-Control'', ''no-store''), (''X-Content-Type-Options'', ''nosniff'')]
      in if dr_body oc = [] then plain_response (dr_status_code oc) (set_default ''Content-Length'' ''0'' headers)
         else \<lparr>rs_status = dr_status_code oc, rs_headers = headers,
               rs_media_type = Some (str_or (dr_content_type oc) CONTENT_TYPE_XML), rs_body = dr_body oc, rs_cookies = []\<rparr>)"

definition dm_events :: "DmResponse \<Rightarrow> app_event list" where
  "dm_events oc =
     [MetricEvent (str_or (dr_metric oc) ''DmRequest'') 1 ''Count'' (Some [(''Outcome'', str_or (dr_metric oc) ''unknown'')]),
      LogEvent ''dm package handled'' [(''status'', LogOther (JInt (dr_status_code oc))), (''outcome'', LogStr (dr_metric oc)),
        (''detail'', LogStr (dr_detail oc)), (''finished'', LogOther (JBool (dr_session_finished oc)))]]"

definition dm_answer :: "(dm_error + DmResponse) \<times> MemoryStore \<Rightarrow> endpoint_result" where
  "dm_answer r = (case r of
     (Inl e, s') \<Rightarrow> (Inl (DmRaised e), s', [])
   | (Inr oc, s') \<Rightarrow> (Inr (dm_http_response oc), s', dm_events oc))"

definition dm_session :: "DmEnv \<Rightarrow> Settings \<Rightarrow> MoTree \<Rightarrow> (nat \<Rightarrow> stream_event) \<Rightarrow> HttpRequest \<Rightarrow> MemoryStore \<Rightarrow> endpoint_result option" where
  "dm_session env st tree stream rq s =
     map_option (\<lambda>read. case read of
         TooLarge \<Rightarrow> (Inr (plain_response 413 []), s, [])
       | Disconnected \<Rightarrow> (Inr (plain_response 400 []), s, [LogEvent ''dm client disconnected before the body was complete'' []])
       | Body payload \<Rightarrow> dm_answer (dm_handle env st tree payload (dict_get_or (rq_headers rq) ''content-type'' []) s))
       (read_body stream 0 [])"

record ManagementObjectOut =
  mx_id :: string
  mx_urn :: string
  mx_root :: string
  mx_title :: string
  mx_spec :: string
  mx_nodes :: nat

record ManagementObjects =
  ms_objects :: "ManagementObjectOut list"
  ms_total_nodes :: nat
  ms_verified_nodes :: nat

definition list_management_objects :: "mo_error + MoTree \<Rightarrow> api_error + ManagementObjects" where
  "list_management_objects get_tree = (case get_tree of
     Inl e \<Rightarrow> Inl (Unhandled ''CatalogError'')
   | Inr tree \<Rightarrow> Inr \<lparr>ms_objects = map (\<lambda>mo. \<lparr>mx_id = mb_id mo, mx_urn = mb_urn mo, mx_root = mb_root mo, mx_title = mb_title mo,
         mx_spec = mb_spec mo, mx_nodes = length (mb_nodes mo)\<rparr>) tree,
       ms_total_nodes = length (all_nodes tree), ms_verified_nodes = tree_verified_count tree\<rparr>)"

section \<open>Health\<close>

definition version :: string where
  "version = ''1.4.0''"

definition healthz :: "AppState \<Rightarrow> (string, json) dict" where
  "healthz app = [(''status'', JStr ''ok''), (''service'', JStr (set_service_name (app_settings app))), (''version'', JStr version),
     (''env'', JStr (set_env (app_settings app)))]"

datatype catalogue_error = CpCatalogue CatalogError | DmCatalogue mo_error

definition warm_catalogues :: "AppState \<Rightarrow> catalogue_error + nat \<times> nat" where
  "warm_catalogues app =
     (case app_get_catalog app (set_default_rcs_profile (app_settings app)) of
        Inl e \<Rightarrow> Inl (CpCatalogue e)
      | Inr catalog \<Rightarrow> (case app_get_tree app of
          Inl e \<Rightarrow> Inl (DmCatalogue e)
        | Inr tree \<Rightarrow> Inr (length catalog, length (all_nodes tree))))"

text \<open>\<open>Store.health\<close>: the memory store's, and the table's, which turns the service's own errors into \<open>False\<close> and
  leaves others to the caller.\<close>

datatype table_status = TableDescribed | TableClientError | TableOtherError string

definition memory_health :: "string + bool" where
  "memory_health = Inr True"

definition dynamo_health :: "table_status \<Rightarrow> string + bool" where
  "dynamo_health t = (case t of TableDescribed \<Rightarrow> Inr True | TableClientError \<Rightarrow> Inr False | TableOtherError cls \<Rightarrow> Inl cls)"

text \<open>\<open>describe\<close> is the message of an exception.\<close>

definition readyz :: "AppState \<Rightarrow> (catalogue_error \<Rightarrow> string) \<Rightarrow> string + bool \<Rightarrow> int \<times> (string, json) dict" where
  "readyz app describe health =
     (let store = (case health of Inr up \<Rightarrow> if up then ''ok'' else ''unavailable'' | Inl cls \<Rightarrow> ''error: '' @ cls);
          catalogues = (case warm_catalogues app of
             Inr (entries, nodes) \<Rightarrow> [(''omacp_parameters'', JInt (int entries)), (''omadm_nodes'', JInt (int nodes))]
           | Inl exc \<Rightarrow> [(''catalog'', JStr (''error: '' @ describe exc))]);
          checks = [(''store'', JStr store)] @ catalogues @
            [(''sms_provider'', JStr (app_sms_name app)), (''store_backend'', JStr (set_store_backend (app_settings app))),
             (''dm_enabled'', JBool (set_dm_enabled (app_settings app)))];
          ready = (dict_get checks ''store'' = Some (JStr ''ok'') \<and> dict_get checks ''catalog'' = None)
      in (if ready then 200 else 503,
          [(''status'', JStr (if ready then ''ready'' else ''not_ready'')), (''checks'', JObj checks)]))"

section \<open>The development outbox\<close>

definition require_dev :: "Settings \<Rightarrow> api_error + unit" where
  "require_dev st = (if \<not> set_dev_endpoints_enabled st \<or> is_prod st then Inl (HTTPException 404 ''not found'') else Inr ())"

definition sms_out :: "SmsMessage \<Rightarrow> (string, json) dict" where
  "sms_out m = [(''msisdn'', JStr (sm_msisdn m)), (''body'', JStr (sm_body m)),
     (''sms_port'', case sm_sms_port m of None \<Rightarrow> JNull | Some p \<Rightarrow> JInt p), (''binary'', JBool (sm_binary m)),
     (''provider'', JStr (sm_provider m)), (''sent_at'', JInt (sm_sent_at m))]"

definition dev_list_sms :: "Settings \<Rightarrow> string \<Rightarrow> int \<Rightarrow> MemoryStore \<Rightarrow> api_error + (string, json) dict list" where
  "dev_list_sms st msisdn limit s =
     bind_err (require_dev st) (\<lambda>_.
     if \<not> (1 \<le> limit \<and> limit \<le> 100) then Inl ValidationFailed
     else Inr (map sms_out (list_sms s (if msisdn = [] then None else Some msisdn) limit)))"

section \<open>Grouping\<close>

lemma group_one_get [simp]:
  "dict_get (group_one k v d) k' = (if k' = k then Some (dict_get_or d k [] @ [v]) else dict_get d k')"
  by (simp add: group_one_def)

text \<open>Every value of a name, in order: first the query string's, then the form's texts.\<close>

definition values_of :: "(string \<times> string) list \<Rightarrow> string \<Rightarrow> string list" where
  "values_of pairs k = map snd (filter (\<lambda>(k', v). k' = k) pairs)"

definition form_texts :: "(string \<times> form_part) list \<Rightarrow> (string \<times> string) list" where
  "form_texts form = concat (map (\<lambda>(k, p). case p of FormText t \<Rightarrow> [(k, t)] | FormFile \<Rightarrow> []) form)"

lemma dict_get_or_get: "dict_get_or d k v = (case dict_get d k of None \<Rightarrow> v | Some w \<Rightarrow> w)"
  by (simp add: dict_get_or_def dict_get_def)

lemma group_one_get_or:
  "dict_get_or (group_one k v d) k' [] = (if k' = k then dict_get_or d k [] @ [v] else dict_get_or d k' [])"
  by (simp add: dict_get_or_get)

lemma dict_get_empty [simp]: "dict_get [] k = None"
  by (simp add: dict_get_def)

lemma group_all:
  "dict_get (fold (\<lambda>(key, value). group_one key value) pairs d) k =
     (if values_of pairs k = [] then dict_get d k else Some (dict_get_or d k [] @ values_of pairs k))"
  by (induction pairs arbitrary: d) (auto simp: values_of_def group_one_get_or dict_get_or_get)

lemma group_form:
  "fold (\<lambda>(key, raw) d. case raw of FormText t \<Rightarrow> group_one key t d | FormFile \<Rightarrow> d) form d =
   fold (\<lambda>(key, value). group_one key value) (form_texts form) d"
  by (induction form arbitrary: d) (auto simp: form_texts_def split: form_part.split)

lemma multi_items_values:
  "dict_get (multi_items rq form) k =
     (let vals = values_of (rq_query rq @ (if has_form rq then form_texts form else [])) k
      in if vals = [] then None else Some vals)"
proof -
  have "multi_items rq form =
      fold (\<lambda>(key, value). group_one key value) (rq_query rq @ (if has_form rq then form_texts form else [])) []"
    by (simp add: multi_items_def Let_def group_form)
  then show ?thesis by (simp only: group_all dict_get_or_def Let_def map_of.simps option.case append_Nil dict_get_empty)
qed

section \<open>Reading a body\<close>

definition chunk_text :: "stream_event \<Rightarrow> string" where
  "chunk_text e = (case e of Chunk c \<Rightarrow> c | _ \<Rightarrow> [])"

abbreviation received :: "(nat \<Rightarrow> stream_event) \<Rightarrow> nat \<Rightarrow> nat \<Rightarrow> string" where
  "received stream i n \<equiv> concat (map (\<lambda>j. chunk_text (stream j)) [i..<n])"

lemma received_Cons: "i < n \<Longrightarrow> received stream i n = chunk_text (stream i) @ received stream (Suc i) n"
  by (simp add: upt_conv_Cons)

text \<open>What the loop returns when it stops at an event, having received \<open>b\<close>.\<close>

definition stop_outcome :: "stream_event \<Rightarrow> string \<Rightarrow> body_outcome" where
  "stop_outcome e b = (case e of Chunk c \<Rightarrow> TooLarge | EndOfStream \<Rightarrow> Body b | ClientDisconnect \<Rightarrow> Disconnected)"

text \<open>Where it stops, from any point: every chunk it takes has at least one octet, so it stops before it
  has taken more chunks than there is room for octets.\<close>

lemma read_body_stops:
  assumes "\<And>j. stream j \<noteq> Chunk []" and "length payload \<le> MAX_BODY_BYTES"
  obtains n where "i \<le> n" and "n \<le> i + (MAX_BODY_BYTES - length payload)" and "\<And>j. i \<le> j \<Longrightarrow> j < n \<Longrightarrow> \<exists>c. stream j = Chunk c"
    and "length (payload @ received stream i n) \<le> MAX_BODY_BYTES"
    and "\<And>c. stream n = Chunk c \<Longrightarrow> MAX_BODY_BYTES < length (payload @ received stream i n) + length c"
    and "read_body stream i payload = Some (stop_outcome (stream n) (payload @ received stream i n))"
  using assms(2)
proof (induction "MAX_BODY_BYTES - length payload" arbitrary: i payload thesis rule: less_induct)
  case less
  note unroll = read_body.simps [of stream i payload]
  show ?case
  proof (cases "\<exists>c. stream i = Chunk c \<and> length payload + length c \<le> MAX_BODY_BYTES")
    case False
    show ?thesis
    proof (rule less.prems(1) [of i])
      show "read_body stream i payload = Some (stop_outcome (stream i) (payload @ received stream i i))"
        using False less.prems(2) by (auto simp: unroll stop_outcome_def split: stream_event.split)
    qed (use False less.prems(2) in auto)
  next
    case True
    then obtain c where c: "stream i = Chunk c" "length payload + length c \<le> MAX_BODY_BYTES" by blast
    then have "c \<noteq> []" using assms(1) [of i] by auto
    with c(2) have smaller: "MAX_BODY_BYTES - length (payload @ c) < MAX_BODY_BYTES - length payload"
        "length (payload @ c) \<le> MAX_BODY_BYTES" "1 \<le> length c"
      by (cases c; simp)+
    have step: "read_body stream i payload = read_body stream (Suc i) (payload @ c)" using c by (simp add: unroll)
    show ?thesis
    proof (rule less.hyps [OF smaller(1) _ smaller(2), of "Suc i"])
      fix n
      assume n: "Suc i \<le> n" "n \<le> Suc i + (MAX_BODY_BYTES - length (payload @ c))"
        "\<And>j. Suc i \<le> j \<Longrightarrow> j < n \<Longrightarrow> \<exists>c. stream j = Chunk c"
        "length ((payload @ c) @ received stream (Suc i) n) \<le> MAX_BODY_BYTES"
        "\<And>c'. stream n = Chunk c' \<Longrightarrow> MAX_BODY_BYTES < length ((payload @ c) @ received stream (Suc i) n) + length c'"
        "read_body stream (Suc i) (payload @ c) = Some (stop_outcome (stream n) ((payload @ c) @ received stream (Suc i) n))"
      have same: "payload @ received stream i n = (payload @ c) @ received stream (Suc i) n"
        using n(1) received_Cons [of i n stream] by (simp add: c(1) chunk_text_def [of "Chunk c"])
      have "\<exists>c. stream j = Chunk c" if "i \<le> j" "j < n" for j
        using n(3) [of j] c(1) that by (cases "j = i") auto
      moreover have "i \<le> n" "n \<le> i + (MAX_BODY_BYTES - length payload)" using n(1,2) smaller(3) c(2) by simp_all
      ultimately show ?thesis using n(4,5,6) less.prems(1) [of n] unfolding step same by blast
    qed
  qed
qed

text \<open>
  C15. The device-management endpoint always comes to an end and holds at most \<open>MAX_BODY_BYTES\<close> octets,
  whatever a device sends: even a stream that never ends is read for at most \<open>MAX_BODY_BYTES\<close> chunks and
  one event more. A chunk that does not fit is answered with 413 and a broken connection with 400, the
  store untouched in both cases; a complete body reaches the session service octet for octet. (The
  framework yields no empty chunk before the end.)
\<close>

theorem dm_session_terminates:
  assumes "\<And>j. stream j \<noteq> Chunk []"
  shows "\<exists>n \<le> MAX_BODY_BYTES. (\<forall>j < n. \<exists>c. stream j = Chunk c) \<and> length (received stream 0 n) \<le> MAX_BODY_BYTES \<and>
    (case stream n of
       Chunk c \<Rightarrow> MAX_BODY_BYTES < length (received stream 0 n) + length c \<and>
         dm_session env st tree stream rq s = Some (Inr (plain_response 413 []), s, [])
     | ClientDisconnect \<Rightarrow> dm_session env st tree stream rq s =
         Some (Inr (plain_response 400 []), s, [LogEvent ''dm client disconnected before the body was complete'' []])
     | EndOfStream \<Rightarrow> dm_session env st tree stream rq s =
         Some (dm_answer (dm_handle env st tree (received stream 0 n) (dict_get_or (rq_headers rq) ''content-type'' []) s)))"
proof -
  obtain n where n: "n \<le> MAX_BODY_BYTES" "\<And>j. j < n \<Longrightarrow> \<exists>c. stream j = Chunk c"
    "length (received stream 0 n) \<le> MAX_BODY_BYTES"
    "\<And>c. stream n = Chunk c \<Longrightarrow> MAX_BODY_BYTES < length (received stream 0 n) + length c"
    "read_body stream 0 [] = Some (stop_outcome (stream n) (received stream 0 n))"
    by (rule read_body_stops [of stream "[]" 0, OF assms]) simp_all
  then show ?thesis
    by (intro exI [of _ n]) (auto simp: dm_session_def stop_outcome_def split: stream_event.split)
qed

text \<open>A device that sends one octet at a time and never stops.\<close>

theorem dm_session_terminates_witness:
  "\<forall>env st tree rq s. dm_session env st tree (\<lambda>j. Chunk ''x'') rq s = Some (Inr (plain_response 413 []), s, [])"
proof (intro allI)
  fix env st tree rq s
  show "dm_session env st tree (\<lambda>j. Chunk ''x'') rq s = Some (Inr (plain_response 413 []), s, [])"
    using dm_session_terminates [of "\<lambda>j. Chunk ''x''" env st tree rq s] by auto
qed

section \<open>Repeated parameters\<close>

lemma group_distinct: "distinct (map fst d) \<Longrightarrow> distinct (map fst (fold (\<lambda>(key, value). group_one key value) pairs d))"
  by (induction pairs arbitrary: d) (auto simp: group_one_def dict_put_def distinct_update)

lemma dict_get_member: "dict_get d k = Some v \<Longrightarrow> (k, v) \<in> set d"
  by (simp add: dict_get_def map_of_SomeD)

text \<open>
  C26. No identity can be smuggled past the first one. If the version, an identity, the token or the code
  occurs twice under one of the names that must not be repeated, whether in the query string, in a
  posted form or once in each, the request is refused with the configured status, an empty body and an
  unchanged store; an uploaded file never counts as a value.
\<close>

theorem repeated_identity_refused:
  assumes "name \<in> set SINGLE_VALUE_ONLY"
    and "1 < length (values_of (rq_query rq @ (if has_form rq then form_texts form else [])) name)"
  shows "\<exists>events. handle_configuration_request env st to_bytes rq form s =
    (Inr (plain_response (set_malformed_request_status st) []), s, events)"
proof -
  let ?vals = "values_of (rq_query rq @ (if has_form rq then form_texts form else [])) name"
  have "dict_get (multi_items rq form) name = Some ?vals"
    using assms(2) by (auto simp: multi_items_values Let_def)
  then have member: "(name, ?vals) \<in> set (multi_items rq form)" by (rule dict_get_member)
  have "parsed_query st rq form \<noteq> Inr q" for q
  proof
    assume "parsed_query st rq form = Inr q"
    then obtain r where "collect_params (set_max_query_value_length st) (multi_items rq form) [] [] [] = Inr r"
      by (auto simp: parsed_query_def parse_config_query_def bind_err_Inr)
    moreover obtain raw apps unknown where "r = (raw, apps, unknown)" by (cases r)
    ultimately show False
      using collect_params_ok [of _ "multi_items rq form" "[]" "[]" "[]" raw apps unknown] member assms
      by (fastforce simp: fields_ok_def)
  qed
  then obtain exc where "parsed_query st rq form = Inl exc" by (cases "parsed_query st rq form") auto
  then show ?thesis by (simp add: handle_configuration_request_def)
qed

definition demo_config_request :: HttpRequest where
  "demo_config_request = \<lparr>rq_method = ''POST'', rq_scheme = ''https'', rq_path = ''/config'',
     rq_query = [(''vers'', ''0''), (''IMSI'', ''450051234567890'')],
     rq_headers = [(''content-type'', ''application/x-www-form-urlencoded'')], rq_cookies = [], rq_client = None\<rparr>"

theorem repeated_identity_refused_witness:
  "\<exists>events. handle_configuration_request demo_env demo_settings (\<lambda>d. ''<x/>'') demo_config_request
     [(''file'', FormFile), (''IMSI'', FormText ''450051234567891'')] demo_service_store
   = (Inr (plain_response 400 []), demo_service_store, events)"
proof -
  have "''IMSI'' \<in> set SINGLE_VALUE_ONLY" by code_simp
  moreover have "1 < length (values_of (rq_query demo_config_request @
      (if has_form demo_config_request then form_texts [(''file'', FormFile), (''IMSI'', FormText ''450051234567891'')] else [])) ''IMSI'')"
    by code_simp
  moreover have "set_malformed_request_status demo_settings = 400" by (simp add: demo_settings_def)
  ultimately show ?thesis using repeated_identity_refused [of "''IMSI''" demo_config_request] by metis
qed

section \<open>Other answers\<close>

lemma code_not_logged: "config_events to_bytes (q\<lparr>cq_otp := otp\<rparr>) oc = config_events to_bytes q oc"
  by (simp add: config_events_def redactable_def)

lemma empty_answer_has_length:
  "po_body oc = None \<Longrightarrow> dict_get (rs_headers (config_response to_bytes oc)) ''Content-Length'' \<noteq> None"
  by (simp add: config_response_def plain_response_def set_default_def Let_def)

lemma readyz_iff:
  "fst (readyz app describe health) = (if health = Inr True \<and> (\<exists>n. warm_catalogues app = Inr n) then 200 else 503)"
proof -
  have "''error: '' @ cls \<noteq> ''ok''" for cls by simp
  then show ?thesis
    by (auto simp: readyz_def Let_def dict_get_def split: sum.split prod.split)
qed

lemma outbox_closed:
  "is_prod st \<or> \<not> set_dev_endpoints_enabled st \<Longrightarrow> dev_list_sms st msisdn limit s = Inl (HTTPException 404 ''not found'')"
  by (auto simp: dev_list_sms_def require_dev_def bind_err_def)

end
