(* ===== verification/App.thy ===== *)
theory App
  imports Endpoints Smpp Gba
begin

text \<open>
  How the server is put together: \<^verbatim>\<open>src/src/acs/app.py\<close>, \<^verbatim>\<open>src/src/acs/api/deps.py\<close>, the factories
  \<^verbatim>\<open>src/src/acs/store/__init__.py\<close> and \<^verbatim>\<open>src/src/acs/sms/__init__.py\<close>, and the status table of
  \<^verbatim>\<open>src/src/acs/errors.py\<close>. Construction either raises or gives the state the routers share; the
  middleware and the exception handlers are functions of what the inner application returned or
  raised. How the framework routes a request and how it answers its own exceptions is not modelled.
\<close>

section \<open>Domain errors\<close>

datatype AcsError =
  MalformedRequestError | SubscriberNotEntitled | IdentityUnresolved | OtpChallengeIssued | OtpRejected
| RateLimited | ServiceBusy | GbaChallengeRequired | AdminUnavailable | DmProtocolError | DmAuthRequired

fun error_status :: "AcsError \<Rightarrow> int" where
  "error_status MalformedRequestError = 400"
| "error_status SubscriberNotEntitled = 403"
| "error_status IdentityUnresolved = 511"
| "error_status OtpChallengeIssued = 200"
| "error_status OtpRejected = 511"
| "error_status RateLimited = 429"
| "error_status ServiceBusy = 503"
| "error_status GbaChallengeRequired = 401"
| "error_status AdminUnavailable = 503"
| "error_status DmProtocolError = 400"
| "error_status DmAuthRequired = 401"

fun error_reason :: "AcsError \<Rightarrow> string" where
  "error_reason MalformedRequestError = ''malformed_request''"
| "error_reason SubscriberNotEntitled = ''not_entitled''"
| "error_reason IdentityUnresolved = ''network_authentication_required''"
| "error_reason OtpChallengeIssued = ''otp_pending''"
| "error_reason OtpRejected = ''otp_rejected''"
| "error_reason RateLimited = ''rate_limited''"
| "error_reason ServiceBusy = ''service_busy''"
| "error_reason GbaChallengeRequired = ''gba_challenge''"
| "error_reason AdminUnavailable = ''admin_disabled''"
| "error_reason DmProtocolError = ''dm_protocol_error''"
| "error_reason DmAuthRequired = ''dm_auth_required''"

section \<open>Factories\<close>

datatype store_choice = DynamoDbStore string string string | MemoryBackend

definition build_store :: "Settings \<Rightarrow> store_choice" where
  "build_store st =
     (if set_store_backend st = ''dynamodb''
      then DynamoDbStore (set_table_name st) (set_aws_region st) (set_dynamodb_endpoint_url st)
      else MemoryBackend)"

datatype sms_choice =
  EndUserMessagingSender string string
| SnsSmsSender string string
| SmppSender SmppSmsSender
| MockSmsSender

text \<open>\<open>key\<close> is the random reference key of the SMPP sender; its port and TLS options reach only the
  connection, which is a parameter of the SMPP model.\<close>

definition build_sms_sender :: "string \<Rightarrow> Settings \<Rightarrow> string + sms_choice" where
  "build_sms_sender key st =
     (if set_sms_provider st = ''eum''
      then Inr (EndUserMessagingSender (set_aws_region st) (set_sms_origination_identity st))
      else if set_sms_provider st = ''sns'' then Inr (SnsSmsSender (set_aws_region st) (set_sms_sender_id st))
      else if set_sms_provider st = ''smpp''
      then bind_err (new_smpp_sender (set_smpp_system_id st) (set_smpp_password st) (set_smpp_system_type st) (set_smpp_source_addr st)
          \<lparr>sn_host = set_smpp_host st, sn_bind_body = [], sn_source_addr = [],
           sn_source_ton = set_smpp_source_addr_ton st, sn_source_npi = set_smpp_source_addr_npi st,
           sn_dest_ton = set_smpp_dest_addr_ton st, sn_dest_npi = set_smpp_dest_addr_npi st,
           sn_timeout = Some (fst (set_smpp_timeout_seconds st)), sn_timeout_text = snd (set_smpp_timeout_seconds st),
           sn_has_store = True, sn_reference_key = key\<rparr>) (\<lambda>sender. Inr (SmppSender sender))
      else Inr MockSmsSender)"

definition sender_name :: "sms_choice \<Rightarrow> string" where
  "sender_name c = (case c of EndUserMessagingSender r i \<Rightarrow> ''eum'' | SnsSmsSender r i \<Rightarrow> ''sns'' | SmppSender s \<Rightarrow> ''smpp''
     | MockSmsSender \<Rightarrow> ''mock'')"

text \<open>What the chosen sender does with a request; the AWS calls and the SMPP connection are its arguments.\<close>

definition sender_send :: "(string \<Rightarrow> string \<Rightarrow> string \<Rightarrow> string + string) \<Rightarrow> (string \<Rightarrow> string \<Rightarrow> string \<Rightarrow> string + string) \<Rightarrow>
    SmppEnv \<Rightarrow> int \<Rightarrow> nat \<Rightarrow> sms_choice \<Rightarrow> sms_sender" where
  "sender_send send_text_message publish env clock counter c = (case c of
     EndUserMessagingSender region identity \<Rightarrow> eum_send send_text_message identity clock
   | SnsSmsSender region sender_id \<Rightarrow> sns_send publish sender_id clock
   | SmppSender sender \<Rightarrow> smpp_send env sender
   | MockSmsSender \<Rightarrow> mock_send clock counter)"

interpretation built_sender: sms_port "sender_send send_text_message publish env clock counter c"
  by (cases c)
     (simp_all add: sender_send_def eum_send_def sns_send_def aws_port.sms_port_axioms smpp_port.sms_port_axioms
       mock_port.sms_port_axioms)

section \<open>Construction\<close>

text \<open>\<open>AppState\<close> as \<open>build\<close> constructs it; \<open>AppState\<close> of the administration theory is what its handlers read of it.\<close>

record BuiltState =
  bs_settings :: Settings
  bs_store :: store_choice
  bs_sms :: sms_choice
  bs_metrics :: Metrics
  bs_bsf :: "bsf_client option"
  bs_tree :: MoTree

datatype startup_error =
  InvalidConfiguration "startup_problem list"
| SenderRefused string
| CatalogueRefused catalogue_error

text \<open>What construction consults: the catalogues, a random key, the cached metrics and the root logger.\<close>

record StartEnv =
  se_get_catalog :: "string \<Rightarrow> CatalogError + CatalogEntry list"
  se_get_tree :: "mo_error + MoTree"
  se_reference_key :: string

definition build_state :: "StartEnv \<Rightarrow> Settings \<Rightarrow> store_choice option \<Rightarrow> Metrics option \<Rightarrow> startup_error + BuiltState \<times> Metrics option" where
  "build_state env st store cached =
     (let store' = (case store of Some given \<Rightarrow> given | None \<Rightarrow> build_store st)
      in case build_sms_sender (se_reference_key env) st of
           Inl e \<Rightarrow> Inl (SenderRefused e)
         | Inr sms \<Rightarrow> (case get_metrics st cached of (metrics, cached') \<Rightarrow>
             (case se_get_tree env of
                Inl e \<Rightarrow> Inl (CatalogueRefused (DmCatalogue e))
              | Inr tree \<Rightarrow> Inr (\<lparr>bs_settings = st, bs_store = store', bs_sms = sms, bs_metrics = metrics,
                  bs_bsf = build_bsf_client (set_gba_enabled st) (is_prod st), bs_tree = tree\<rparr>, cached'))))"

datatype router = HealthRouter | AdminRouter | ConsoleRouter | MsisdnRouter | DmRouter | DevRouter | ConfigRouter "Route list"

record WebApp =
  wa_settings :: Settings
  wa_docs_url :: "string option"
  wa_openapi_url :: "string option"
  wa_routers :: "router list"

definition create_app :: "Settings \<Rightarrow> RootLogger \<Rightarrow> (startup_error + WebApp) \<times> RootLogger" where
  "create_app st root =
     (let problems = validate_startup st; root' = configure_logging st root
      in if problems \<noteq> [] then (Inl (InvalidConfiguration problems), root')
         else (Inr \<lparr>wa_settings = st,
             wa_docs_url = (if is_prod st then None else Some ''/docs''),
             wa_openapi_url = (if is_prod st then None else Some ''/openapi.json''),
             wa_routers = [HealthRouter, AdminRouter, ConsoleRouter, MsisdnRouter] @
               (if set_dm_enabled st then [DmRouter] else []) @
               (if set_dev_endpoints_enabled st \<and> \<not> is_prod st then [DevRouter] else []) @
               [ConfigRouter (register_config_paths (config_path_list st))]\<rparr>, root'))"

text \<open>\<open>lifespan\<close>: the state is built and both catalogues are loaded before the first request.\<close>

definition lifespan :: "StartEnv \<Rightarrow> WebApp \<Rightarrow> store_choice option \<Rightarrow> Metrics option \<Rightarrow> startup_error + BuiltState \<times> nat \<times> nat" where
  "lifespan env app store cached =
     bind_err (build_state env (wa_settings app) store cached) (\<lambda>(state, cached').
     case se_get_catalog env (set_default_rcs_profile (wa_settings app)) of
       Inl e \<Rightarrow> Inl (CatalogueRefused (CpCatalogue e))
     | Inr catalog \<Rightarrow> Inr (state, length catalog, length (all_nodes (bs_tree state))))"

section \<open>Middleware and exception handlers\<close>

text \<open>Header names are compared without case and stored in lower case; setting one replaces its first
  occurrence and drops the others.\<close>

definition same_header :: "string \<Rightarrow> string \<times> string \<Rightarrow> bool" where
  "same_header name kv \<longleftrightarrow> py_lower (fst kv) = py_lower name"

definition header_get :: "string \<Rightarrow> (string, string) dict \<Rightarrow> string option" where
  "header_get name hs = map_option snd (List.find (same_header name) hs)"

definition header_set :: "string \<Rightarrow> string \<Rightarrow> (string, string) dict \<Rightarrow> (string, string) dict" where
  "header_set name value hs =
     takeWhile (\<lambda>h. \<not> same_header name h) hs @ [(py_lower name, value)] @
     filter (\<lambda>h. \<not> same_header name h) (dropWhile (\<lambda>h. \<not> same_header name h) hs)"

definition header_setdefault :: "string \<Rightarrow> string \<Rightarrow> (string, string) dict \<Rightarrow> (string, string) dict" where
  "header_setdefault name value hs = (if header_get name hs = None then hs @ [(py_lower name, value)] else hs)"

text \<open>The middleware: \<open>call_next\<close> runs with the correlation id in the context variable, whose old value is put
  back whether it returns or raises. The result carries the variable's value afterwards.\<close>

definition request_id :: "HttpRequest \<Rightarrow> string \<Rightarrow> string" where
  "request_id rq fresh = opt_or (dict_get (rq_headers rq) ''x-request-id'') fresh"

definition correlate :: "HttpRequest \<Rightarrow> string \<Rightarrow> string \<Rightarrow> (string \<Rightarrow> 'e + HttpResponse) \<Rightarrow> string \<Rightarrow> ('e + HttpResponse) \<times> string" where
  "correlate rq fresh elapsed call_next var =
     ((case call_next (request_id rq fresh) of
         Inl e \<Rightarrow> Inl e
       | Inr resp \<Rightarrow> Inr (resp\<lparr>rs_headers :=
           header_set ''Server-Timing'' (''app;dur='' @ elapsed)
             (header_setdefault ''Strict-Transport-Security'' ''max-age=31536000''
               (header_setdefault ''X-Content-Type-Options'' ''nosniff''
                 (header_set ''X-Request-Id'' (request_id rq fresh) (rs_headers resp))))\<rparr>)), var)"

definition console_redirect :: "string \<Rightarrow> HttpResponse" where
  "console_redirect location = plain_response 303 [(''Location'', location)]"

definition acs_error_handler :: "AcsError \<Rightarrow> HttpResponse \<times> app_event list" where
  "acs_error_handler exc =
     (if error_status exc = 200 then plain_response 200 [(''Content-Length'', ''0'')] else plain_response (error_status exc) [],
      [LogEvent ''domain error'' [(''reason'', LogStr (error_reason exc)), (''status'', LogOther (JInt (error_status exc)))]])"

definition unhandled :: "HttpRequest \<Rightarrow> HttpResponse \<times> app_event list" where
  \<open>unhandled rq =
     (\<lparr>rs_status = 500, rs_headers = [], rs_media_type = Some ''application/json'',
       rs_body = ''{"error":"internal_error"}'', rs_cookies = []\<rparr>,
      [LogEvent ''unhandled error'' [(''path'', LogStr (rq_path rq))]])\<close>

section \<open>Starting in production\<close>

text \<open>The values that the settings class admits for its enumerated fields.\<close>

definition settings_typed :: "Settings \<Rightarrow> bool" where
  "settings_typed st \<longleftrightarrow> set_env st \<in> {''dev'', ''test'', ''staging'', ''prod''} \<and> set_store_backend st \<in> {''memory'', ''dynamodb''} \<and>
     set_sms_provider st \<in> {''mock'', ''sns'', ''eum'', ''smpp''} \<and> set_pii_log_mode st \<in> {''mask'', ''hash'', ''none''}"

lemma build_sms_sender_name:
  assumes "build_sms_sender key st = Inr c" and "set_sms_provider st \<in> {''mock'', ''sns'', ''eum'', ''smpp''}"
  shows "sender_name c = set_sms_provider st"
  using assms by (auto simp: build_sms_sender_def sender_name_def bind_err_Inr split: if_splits)

lemma lifespan_Inr:
  assumes "lifespan env app store cached = Inr (state, entries, nodes)"
  obtains cached' catalog where "build_state env (wa_settings app) store cached = Inr (state, cached')"
    and "se_get_catalog env (set_default_rcs_profile (wa_settings app)) = Inr catalog" and "entries = length catalog"
    and "nodes = length (all_nodes (bs_tree state))"
  using assms that
  by (cases "build_state env (wa_settings app) store cached"; cases "se_get_catalog env (set_default_rcs_profile (wa_settings app))")
     (auto simp: lifespan_def bind_err_def)

lemma build_state_Inr:
  assumes "build_state env st None cached = Inr (state, cached')"
  obtains "bs_store state = build_store st" and "build_sms_sender (se_reference_key env) st = Inr (bs_sms state)"
    and "bs_bsf state = build_bsf_client (set_gba_enabled st) (is_prod st)" and "se_get_tree env = Inr (bs_tree state)"
  using assms that
  by (cases "build_sms_sender (se_reference_key env) st"; cases "se_get_tree env")
     (auto simp: build_state_def Let_def split: prod.splits)

text \<open>The formatter that log lines go through after construction.\<close>

definition settings_formatter :: "Settings \<Rightarrow> JsonFormatter" where
  "settings_formatter st = \<lparr>jf_service = set_service_name st, jf_pii_mode = set_pii_log_mode st, jf_pii_secret = set_pii_hash_secret st\<rparr>"

lemma log_payload_keyed:
  assumes "jf_pii_mode f \<noteq> ''none''" and "jf_pii_mode f = ''hash'' \<Longrightarrow> jf_pii_secret f \<noteq> []"
  shows "\<exists>payload. log_payload hmac f rid r = Inr payload"
proof (cases "jf_pii_mode f = ''hash''")
  case False
  then show ?thesis using log_payload_mask [OF assms(1)] by blast
next
  case True
  have "\<exists>out'. redact_items hmac ''hash'' secret out data = Inr out'" if "secret \<noteq> []"
    for secret out and data :: "(string, json log_value) dict"
    using that by (induction data arbitrary: out) (auto simp: redact_def hash_id_def split: log_value.split)
  with assms(2) True have "\<exists>out'. redact_mapping hmac given (jf_pii_mode f) (jf_pii_secret f) = Inr out'"
    for given :: "(string, json log_value) dict"
    by (simp add: redact_mapping_def)
  then show ?thesis
    by (cases "lr_fields r") (auto simp: log_payload_def bind_err_def Let_def split: sum.split, metis sum.distinct(1))
qed

text \<open>
  C16. A server that starts in staging or production is the real thing. If construction does not raise and
  the lifespan hook completes without an injected store, then it runs on the shared table, sends
  through a real provider, authenticates no bootstrap with the test double, mounts neither the
  development router nor the interactive documentation, has loaded both catalogues, and every log
  record is formatted, with its identifiers masked or keyed.
\<close>

theorem production_start_fails_closed:
  assumes "settings_typed st" and "is_prod st" and "create_app st root = (Inr app, root')"
    and "lifespan env app None cached = Inr (state, entries, nodes)"
  shows "(\<exists>table region endpoint. bs_store state = DynamoDbStore table region endpoint) \<and>
    sender_name (bs_sms state) \<in> {''sns'', ''eum'', ''smpp''} \<and> bs_bsf state \<noteq> Some MockBsf \<and>
    DevRouter \<notin> set (wa_routers app) \<and> wa_docs_url app = None \<and> wa_openapi_url app = None \<and>
    (\<exists>catalog. se_get_catalog env (set_default_rcs_profile st) = Inr catalog \<and> entries = length catalog) \<and>
    (\<exists>tree. se_get_tree env = Inr tree \<and> nodes = length (all_nodes tree)) \<and>
    rl_handlers root' = [StdoutHandler (settings_formatter st)] \<and> jf_pii_mode (settings_formatter st) \<in> {''mask'', ''hash''} \<and>
    (\<forall>hmac rid r. \<exists>line. format_record hmac (settings_formatter st) rid r = Inr line \<and> one_line line)"
proof -
  have ok: "validate_startup st = []" and app: "wa_settings app = st" "wa_docs_url app = None" "wa_openapi_url app = None"
      "DevRouter \<notin> set (wa_routers app)" and root: "root' = configure_logging st root"
    using assms(2,3) by (auto simp: create_app_def Let_def split: if_splits)
  have closed: "set_store_backend st = ''dynamodb''" "set_sms_provider st \<in> {''sns'', ''eum'', ''smpp''}" "set_pii_log_mode st \<in> {''mask'', ''hash''}"
      "set_pii_log_mode st = ''hash'' \<Longrightarrow> set_pii_hash_secret st \<noteq> []"
    using ok assms(1,2) by (auto simp: validate_startup_def settings_typed_def split: if_splits)
  obtain cached' catalog where built: "build_state env st None cached = Inr (state, cached')"
      and loaded: "se_get_catalog env (set_default_rcs_profile st) = Inr catalog" "entries = length catalog"
        "nodes = length (all_nodes (bs_tree state))"
    by (rule lifespan_Inr [OF assms(4)]) (simp add: app(1))
  obtain state: "bs_store state = build_store st" "build_sms_sender (se_reference_key env) st = Inr (bs_sms state)"
      "bs_bsf state = build_bsf_client (set_gba_enabled st) (is_prod st)" "se_get_tree env = Inr (bs_tree state)"
    by (rule build_state_Inr [OF built])
  have "sender_name (bs_sms state) = set_sms_provider st"
    using build_sms_sender_name [OF state(2)] closed(2) by auto
  moreover have "\<exists>line. format_record hmac (settings_formatter st) rid r = Inr line \<and> one_line line" for hmac rid r
    using log_payload_keyed [of "settings_formatter st" hmac rid r] closed(3,4)
    by (auto simp: settings_formatter_def format_record_def bind_err_def one_line_json simp del: json_dumps.simps)
  moreover have "rl_handlers root' = [StdoutHandler (settings_formatter st)]"
    by (simp add: root configure_logging_one_handler settings_formatter_def)
  ultimately show ?thesis
    using closed(1-3) app state loaded assms(2) by (auto simp: build_store_def build_bsf_client_def settings_formatter_def)
qed

definition demo_start :: StartEnv where
  "demo_start = \<lparr>se_get_catalog = demo_catalog, se_get_tree = Inr demo_tree, se_reference_key = ''k''\<rparr>"

definition demo_root :: RootLogger where
  "demo_root = \<lparr>rl_handlers = [OtherHandler ''lastResort''], rl_level = ''WARNING'', rl_access_disabled = False\<rparr>"

theorem production_start_fails_closed_witness:
  "\<exists>app root' state. create_app demo_settings demo_root = (Inr app, root') \<and>
     lifespan demo_start app None None = Inr (state, 2, 1) \<and> bs_store state = DynamoDbStore ''rcs-acs'' ''ap-northeast-2'' [] \<and>
     sender_name (bs_sms state) \<noteq> ''mock'' \<and> DevRouter \<notin> set (wa_routers app) \<and>
     (\<exists>line. format_record (\<lambda>k v. v) (settings_formatter demo_settings) ''-'' (demo_record ''45005'') = Inr line \<and> one_line line)"
proof -
  have typed: "settings_typed demo_settings" and prod: "is_prod demo_settings" and ok: "validate_startup demo_settings = []"
    by (simp_all add: settings_typed_def validate_startup_def is_prod_def demo_settings_def)
  then obtain app where app: "create_app demo_settings demo_root = (Inr app, configure_logging demo_settings demo_root)"
      "wa_settings app = demo_settings"
    by (simp add: create_app_def Let_def)
  have "build_sms_sender ''k'' demo_settings = Inr (SnsSmsSender ''ap-northeast-2'' ''RCS'')"
    by (simp add: build_sms_sender_def demo_settings_def)
  moreover have "build_store demo_settings = DynamoDbStore ''rcs-acs'' ''ap-northeast-2'' []"
    by (simp add: build_store_def demo_settings_def)
  ultimately obtain state where state: "lifespan demo_start app None None = Inr (state, 2, 1)"
      "bs_store state = DynamoDbStore ''rcs-acs'' ''ap-northeast-2'' []"
    by (simp add: lifespan_def build_state_def demo_start_def app(2) bind_err_def Let_def get_metrics_def demo_catalog_def
        demo_tree_def all_nodes_def)
  from production_start_fails_closed [OF typed prod app(1) state(1)] state app(1) show ?thesis by auto
qed

section \<open>Every answer is correlated\<close>

lemma py_lower_idem: "py_lower (py_lower s) = py_lower s"
proof -
  have "py_lower_char (py_lower_char c) = py_lower_char c" for c
    using code_of_less [of c] by (auto simp: py_lower_char_def Let_def code_of_char_of)
  then show ?thesis by (simp add: py_lower_def)
qed

lemma find_takeWhile: "List.find P (takeWhile (\<lambda>x. \<not> P x) xs @ ys) = List.find P ys"
  by (induction xs) auto

lemma header_get_set: "header_get name (header_set name value hs) = Some value"
  by (simp add: header_get_def header_set_def find_takeWhile) (simp add: same_header_def py_lower_idem)

lemma header_get_append: "header_get name (hs @ ks) = (case header_get name hs of Some v \<Rightarrow> Some v | None \<Rightarrow> header_get name ks)"
  by (induction hs) (auto simp: header_get_def)

lemma header_get_setdefault: "header_get name (header_setdefault name value hs) = Some (case header_get name hs of Some v \<Rightarrow> v | None \<Rightarrow> value)"
proof -
  have "header_get name [(py_lower name, value)] = Some value"
    by (simp add: header_get_def same_header_def py_lower_idem)
  then show ?thesis by (auto simp: header_setdefault_def header_get_append split: option.split)
qed

lemma header_get_set_other:
  assumes "py_lower name \<noteq> py_lower other"
  shows "header_get name (header_set other value hs) = header_get name hs"
proof -
  let ?q = "\<lambda>h. \<not> same_header other h"
  have skip: "header_get name (filter ?q ks) = header_get name ks" for ks
    using assms by (induction ks) (auto simp: header_get_def same_header_def)
  have "header_get name [(py_lower other, value)] = None"
    using assms by (simp add: header_get_def same_header_def py_lower_idem)
  then have "header_get name (header_set other value hs) = header_get name (takeWhile ?q hs @ dropWhile ?q hs)"
    by (simp only: header_set_def header_get_append skip option.case)
  then show ?thesis by simp
qed

lemma header_get_setdefault_other:
  "py_lower name \<noteq> py_lower other \<Longrightarrow> header_get name (header_setdefault other value hs) = header_get name hs"
  by (simp add: header_setdefault_def header_get_append split: option.split)
     (simp add: header_get_def same_header_def py_lower_idem)

text \<open>An answer that the inner application returned carries the correlation id and the two protective headers;
  what it raised passes through without them, and the variable is restored in both cases.\<close>

lemma correlate_answer:
  assumes "call_next (request_id rq fresh) = Inr resp"
  obtains resp' where "correlate rq fresh elapsed call_next var = (Inr resp', var)" and "rs_status resp' = rs_status resp"
    and "rs_body resp' = rs_body resp" and "header_get ''X-Request-Id'' (rs_headers resp') = Some (request_id rq fresh)"
    and "header_get ''X-Content-Type-Options'' (rs_headers resp') =
      Some (case header_get ''X-Content-Type-Options'' (rs_headers resp) of Some v \<Rightarrow> v | None \<Rightarrow> ''nosniff'')"
    and "header_get ''Strict-Transport-Security'' (rs_headers resp') \<noteq> None"
proof -
  have names: "py_lower ''X-Request-Id'' = ''x-request-id''" "py_lower ''X-Content-Type-Options'' = ''x-content-type-options''"
      "py_lower ''Strict-Transport-Security'' = ''strict-transport-security''" "py_lower ''Server-Timing'' = ''server-timing''"
    by code_simp+
  show thesis
    by (rule that, simp only: correlate_def assms sum.case)
       (simp_all add: header_get_set header_get_set_other header_get_setdefault header_get_setdefault_other names)
qed

lemma correlate_raised:
  "call_next (request_id rq fresh) = Inl e \<Longrightarrow> correlate rq fresh elapsed call_next var = (Inl e, var)"
  by (simp add: correlate_def)

text \<open>The answer to an exception nobody handled says nothing about it.\<close>

lemma unhandled_says_nothing: "rs_body (fst (unhandled rq)) = rs_body (fst (unhandled rq'))" "rs_status (fst (unhandled rq)) = 500"
  by (simp_all add: unhandled_def)

end
