(* ===== verification/Rcs_Client.thy ===== *)
theory Rcs_Client
  imports Endpoints
begin

text \<open>
  \<^verbatim>\<open>src/tools/rcs_client_sim.py\<close>: the simulated RCS client, which keeps a version and a token, sends the
  RCC.14 request, reads the document and obeys it, and the scenarios that check a server's answers.
  The server is an argument, a function of the request on a world that it changes; in the theorems at the
  end it is the endpoint of \<^verbatim>\<open>src/src/acs/api/provisioning.py\<close>. Parsing XML and JSON text is an argument;
  what is printed and the state file are left out.
\<close>

section \<open>The client\<close>

record RcsClientSimulator =
  sim_base_url :: string
  sim_imsi :: string
  sim_imei :: string
  sim_msisdn :: string
  sim_profile :: string
  sim_vendor :: string
  sim_model :: string
  sim_sw_version :: string
  sim_client_version :: string
  sim_config_path :: string
  sim_version :: int
  sim_token :: string
  sim_phase :: string
  sim_validity :: "int option"

definition new_client :: "string \<Rightarrow> string \<Rightarrow> string \<Rightarrow> RcsClientSimulator" where
  "new_client base_url imsi imei = \<lparr>sim_base_url = py_rstrip_chars ''/'' base_url, sim_imsi = imsi, sim_imei = imei,
     sim_msisdn = [], sim_profile = ''UP_2.4'', sim_vendor = ''Sim'', sim_model = ''SimPhone'', sim_sw_version = ''1.0'',
     sim_client_version = ''RCSAndrd-1.0-Sim-6.0'', sim_config_path = ''/config'', sim_version = 0, sim_token = [],
     sim_phase = ''unprovisioned'', sim_validity = None\<rparr>"

definition sim_user_agent :: "RcsClientSimulator \<Rightarrow> string" where
  "sim_user_agent c = ''IM-client/OMA1.0 '' @ sim_vendor c @ ''-'' @ sim_model c @ ''/'' @ sim_sw_version c @
     '' RCS-client/'' @ sim_client_version c"

text \<open>The HTTP client writes a number in decimal.\<close>

definition sim_query :: "(string, string option) dict \<Rightarrow> RcsClientSimulator \<Rightarrow> (string, string) dict" where
  "sim_query extra c =
     (let params = [(''vers'', str_of_int (sim_version c)), (''IMSI'', sim_imsi c), (''IMEI'', sim_imei c),
            (''terminal_vendor'', sim_vendor c), (''terminal_model'', sim_model c),
            (''terminal_sw_version'', sim_sw_version c), (''client_vendor'', sim_vendor c),
            (''client_version'', sim_client_version c), (''rcs_version'', ''9.0''), (''rcs_profile'', sim_profile c),
            (''rcs_state'', ''0''), (''default_sms_app'', ''1''), (''provisioning_version'', ''1'')];
          params = (if sim_msisdn c \<noteq> [] then dict_put ''msisdn'' (sim_msisdn c) params else params);
          params = (if sim_token c \<noteq> [] then dict_put ''token'' (sim_token c) params else params)
      in fold (\<lambda>(k, v) d. case v of None \<Rightarrow> d | Some w \<Rightarrow> dict_put k w d) extra params)"

record http_get =
  hg_url :: string
  hg_params :: "(string, string) dict"
  hg_headers :: "(string, string) dict"

datatype client_error =
  SpecViolation string
| HttpError string
| ParseError
| ValueError
| OutboxError

type_synonym 'w server = "http_get \<Rightarrow> 'w \<Rightarrow> (client_error + HttpResponse) \<times> 'w"

definition config_get :: "(string, string option) dict \<Rightarrow> RcsClientSimulator \<Rightarrow> http_get" where
  "config_get extra c = \<lparr>hg_url = sim_base_url c @ sim_config_path c, hg_params = sim_query extra c,
     hg_headers = [(''User-Agent'', sim_user_agent c), (''Accept'', ''text/xml'')]\<rparr>"

definition request_configuration :: "'w server \<Rightarrow> (string, string option) dict \<Rightarrow> RcsClientSimulator \<Rightarrow> 'w \<Rightarrow>
    (client_error + HttpResponse) \<times> 'w" where
  "request_configuration server extra c w = server (config_get extra c) w"

definition first_body :: "json \<Rightarrow> client_error + string option" where
  "first_body messages = (case messages of
     JArr [] \<Rightarrow> Inr None
   | JArr (JObj m # _) \<Rightarrow> (case dict_get m ''body'' of Some (JStr body) \<Rightarrow> Inr (Some body) | _ \<Rightarrow> Inl OutboxError)
   | _ \<Rightarrow> Inl OutboxError)"

definition fetch_otp :: "'w server \<Rightarrow> (string \<Rightarrow> json option) \<Rightarrow> string \<Rightarrow> RcsClientSimulator \<Rightarrow> 'w \<Rightarrow>
    (client_error + string option) \<times> 'w" where
  "fetch_otp server read_json msisdn c w =
     bind_step (server \<lparr>hg_url = sim_base_url c @ ''/dev/sms'', hg_params = [(''msisdn'', msisdn)], hg_headers = []\<rparr> w)
       (\<lambda>response w.
          if rs_status response \<noteq> 200 then (Inr None, w)
          else (case read_json (rs_body response) of
             None \<Rightarrow> (Inl OutboxError, w)
           | Some messages \<Rightarrow> (bind_err (first_body messages) (\<lambda>found. Inr (case found of
                 None \<Rightarrow> None
               | Some body \<Rightarrow> (let digits = filter py_isdigit_char body in if digits = [] then None else Some digits))), w)))"

section \<open>Reading a document\<close>

definition show_opt :: "string option \<Rightarrow> string" where
  "show_opt v = (case v of None \<Rightarrow> ''None'' | Some s \<Rightarrow> s)"

definition parse_document :: "(string \<Rightarrow> element option) \<Rightarrow> string \<Rightarrow> client_error + element" where
  "parse_document parse payload = (case parse payload of
     None \<Rightarrow> Inl ParseError
   | Some root \<Rightarrow>
       if el_tag root \<noteq> ''wap-provisioningdoc''
       then Inl (SpecViolation (''root element is '' @ el_tag root @ '', expected wap-provisioningdoc''))
       else if dict_get (el_attrs root) ''version'' \<noteq> Some ''1.1''
       then Inl (SpecViolation (''unexpected wap-provisioningdoc version '' @ show_opt (dict_get (el_attrs root) ''version'')))
       else Inr root)"

text \<open>\<open>find\<close> with a path of steps \<open>tag[@attribute='value']\<close>: the first match in document order.\<close>

definition step_matches :: "string \<times> string \<times> string \<Rightarrow> element \<Rightarrow> bool" where
  "step_matches step e = (case step of (tag, attr, value) \<Rightarrow> el_tag e = tag \<and> dict_get (el_attrs e) attr = Some value)"

primrec find_elements :: "(string \<times> string \<times> string) list \<Rightarrow> element \<Rightarrow> element list" where
  "find_elements [] e = [e]"
| "find_elements (step # steps) e = concat (map (find_elements steps) (filter (step_matches step) (el_children e)))"

definition find_first :: "(string \<times> string \<times> string) list \<Rightarrow> element \<Rightarrow> element option" where
  "find_first steps e = (case find_elements steps e of [] \<Rightarrow> None | x # xs \<Rightarrow> Some x)"

abbreviation char_step :: "string \<Rightarrow> string \<times> string \<times> string" where
  "char_step t \<equiv> (''characteristic'', ''type'', t)"

abbreviation parm_step :: "string \<Rightarrow> string \<times> string \<times> string" where
  "parm_step n \<equiv> (''parm'', ''name'', n)"

definition read_vers :: "element \<Rightarrow> client_error + int \<times> int" where
  "read_vers root = (case find_first [char_step ''VERS''] root of
     None \<Rightarrow> Inl (SpecViolation ''VERS characteristic is missing'')
   | Some node \<Rightarrow>
       (case (find_first [parm_step ''version''] node, find_first [parm_step ''validity''] node) of
          (Some vnode, Some dnode) \<Rightarrow>
            (case (py_int (dict_get_or (el_attrs vnode) ''value'' ''0''), py_int (dict_get_or (el_attrs dnode) ''value'' ''0'')) of
               (Some v, Some d) \<Rightarrow> Inr (v, d)
             | _ \<Rightarrow> Inl ValueError)
        | _ \<Rightarrow> Inl (SpecViolation ''VERS must carry both version and validity'')))"

definition read_token :: "element \<Rightarrow> string" where
  "read_token root = (case find_first [char_step ''TOKEN'', parm_step ''token''] root of
     None \<Rightarrow> [] | Some node \<Rightarrow> dict_get_or (el_attrs node) ''value'' [])"

definition application :: "element \<Rightarrow> string \<Rightarrow> element option" where
  "application root app_id = List.find (\<lambda>characteristic. case find_first [parm_step ''AppID''] characteristic of
     None \<Rightarrow> False | Some p \<Rightarrow> dict_get (el_attrs p) ''value'' = Some app_id)
     (find_elements [char_step ''APPLICATION''] root)"

definition apply_document :: "element \<Rightarrow> RcsClientSimulator \<Rightarrow> (client_error + int) \<times> RcsClientSimulator" where
  "apply_document root c = (case read_vers root of
     Inl e \<Rightarrow> (Inl e, c)
   | Inr (vers, validity) \<Rightarrow>
       if vers \<le> 0
       then (let c = (if vers = -1 \<or> vers = -2 then c\<lparr>sim_token := []\<rparr> else c)
             in (Inr vers, c\<lparr>sim_version := (if vers = -3 then vers else 0), sim_phase := ''disabled''\<rparr>))
       else (let token = read_token root;
                 c = (if token \<noteq> [] then c\<lparr>sim_token := token\<rparr> else c)
             in (Inr vers, c\<lparr>sim_version := vers, sim_validity := Some validity, sim_phase := ''provisioned''\<rparr>)))"

section \<open>Checks and scenarios\<close>

record Checker =
  ck_passed :: nat
  ck_failures :: "string list"

definition new_checker :: Checker where
  "new_checker = \<lparr>ck_passed = 0, ck_failures = []\<rparr>"

definition check_condition :: "bool \<Rightarrow> string \<Rightarrow> Checker \<Rightarrow> Checker" where
  "check_condition condition description k =
     (if condition then k\<lparr>ck_passed := ck_passed k + 1\<rparr> else k\<lparr>ck_failures := ck_failures k @ [description]\<rparr>)"

definition summary_ok :: "Checker \<Rightarrow> bool" where
  "summary_ok k \<longleftrightarrow> ck_failures k = []"

text \<open>A scenario runs on the client, the checker and the world together.\<close>

record 'w run =
  run_sim :: RcsClientSimulator
  run_checker :: Checker
  run_world :: 'w

definition do_check :: "bool \<Rightarrow> string \<Rightarrow> 'w run \<Rightarrow> (client_error + bool) \<times> 'w run" where
  "do_check condition description r = (Inr condition, r\<lparr>run_checker := check_condition condition description (run_checker r)\<rparr>)"

definition do_request :: "'w server \<Rightarrow> (string, string option) dict \<Rightarrow> 'w run \<Rightarrow> (client_error + HttpResponse) \<times> 'w run" where
  "do_request server extra r = (case request_configuration server extra (run_sim r) (run_world r) of
     (res, w) \<Rightarrow> (res, r\<lparr>run_world := w\<rparr>))"

definition do_apply :: "element \<Rightarrow> 'w run \<Rightarrow> (client_error + int) \<times> 'w run" where
  "do_apply root r = (case apply_document root (run_sim r) of (res, c) \<Rightarrow> (res, r\<lparr>run_sim := c\<rparr>))"

definition do_fetch :: "'w server \<Rightarrow> (string \<Rightarrow> json option) \<Rightarrow> string \<Rightarrow> 'w run \<Rightarrow> (client_error + string option) \<times> 'w run" where
  "do_fetch server read_json msisdn r = (case fetch_otp server read_json msisdn (run_sim r) (run_world r) of
     (res, w) \<Rightarrow> (res, r\<lparr>run_world := w\<rparr>))"

fun do_checks :: "(bool \<times> string) list \<Rightarrow> 'w run \<Rightarrow> (client_error + unit) \<times> 'w run" where
  "do_checks [] r = (Inr (), r)"
| "do_checks ((condition, description) # rest) r = bind_step (do_check condition description r) (\<lambda>_. do_checks rest)"

definition has_path :: "(string \<times> string \<times> string) list \<Rightarrow> element \<Rightarrow> bool" where
  "has_path steps e \<longleftrightarrow> find_first steps e \<noteq> None"

definition impi_derived :: "RcsClientSimulator \<Rightarrow> element \<Rightarrow> bool" where
  "impi_derived c ims = (case find_first [parm_step ''Private_User_Identity''] ims of
     None \<Rightarrow> False | Some p \<Rightarrow> contains (sim_imsi c) (opt_or (dict_get (el_attrs p) ''value'') []))"

definition ims_checks :: "bool \<Rightarrow> RcsClientSimulator \<Rightarrow> element \<Rightarrow> (bool \<times> string) list" where
  "ims_checks smsoip c root = (case application root ''ap2001'' of
     None \<Rightarrow> []
   | Some ims \<Rightarrow>
       [(impi_derived c ims, ''IMPI derived from the IMSI''),
        (has_path [parm_step ''Voice_Domain_Preference_E_UTRAN''] ims, ''VoLTE voice domain preference present'')] @
       (if smsoip then [(has_path [parm_step ''SMS_Over_IP_Networks_Indication''] ims, ''SMSoIP indication present'')] else []))"

definition rcs_checks :: "element \<Rightarrow> (bool \<times> string) list" where
  "rcs_checks root = (case application root ''ap2002'' of
     None \<Rightarrow> []
   | Some rcs \<Rightarrow>
       [(has_path [char_step ''MESSAGING'', char_step ''CHAT''] rcs, ''MESSAGING/CHAT subtree present''),
        (has_path [char_step ''MESSAGING'', char_step ''FT''] rcs, ''MESSAGING/FT subtree present''),
        (has_path [char_step ''OTHER'', char_step ''TRANSPORTPROTO''] rcs, ''OTHER/TRANSPORTPROTO subtree present'')])"

definition application_checks :: "bool \<Rightarrow> RcsClientSimulator \<Rightarrow> element \<Rightarrow> (bool \<times> string) list" where
  "application_checks smsoip c root =
     [(application root ''ap2001'' \<noteq> None, ''IMS application (ap2001) present''),
      (application root ''ap2002'' \<noteq> None, ''RCS application (ap2002) present'')] @
     ims_checks smsoip c root @ rcs_checks root @
     [(application root ''w7'' \<noteq> None, ''OMA-DM account (w7) bootstrapped in the CP document'')]"

text \<open>The revalidation that ends both provisioning scenarios.\<close>

definition revalidate :: "'w server \<Rightarrow> (string \<Rightarrow> element option) \<Rightarrow> int \<Rightarrow> 'w run \<Rightarrow> (client_error + unit) \<times> 'w run" where
  "revalidate server parse expected r =
     bind_step (do_request server [] r) (\<lambda>response r.
     bind_step (do_check (rs_status response = 200) ''revalidation answered 200'' r) (\<lambda>_ r.
     bind_step (parse_document parse (rs_body response), r) (\<lambda>root r.
     bind_step (read_vers root, r) (\<lambda>(version, _) r.
     do_checks [(version = expected, ''server reports the same version''),
       (application root ''ap2002'' = None,
        ''server sent a VERS-only document instead of re-provisioning everything'')] r))))"

definition scenario_full :: "'w server \<Rightarrow> (string \<Rightarrow> json option) \<Rightarrow> (string \<Rightarrow> element option) \<Rightarrow> string \<Rightarrow> 'w run \<Rightarrow>
    (client_error + unit) \<times> 'w run" where
  "scenario_full server read_json parse msisdn r =
     bind_step (do_request server [] r) (\<lambda>response r.
     bind_step (do_check (rs_status response = 200 \<or> rs_status response = 511)
       (''first request answered 200 (OTP pending) or 511, got '' @ str_of_int (rs_status response)) r) (\<lambda>_ r.
     bind_step (if rs_status response = 511
         then (let r = r\<lparr>run_sim := (run_sim r)\<lparr>sim_msisdn := msisdn\<rparr>\<rparr> in do_request server [] r)
         else (Inr response, r)) (\<lambda>response r.
     bind_step (do_check (rs_status response = 200 \<and> rs_body response = [])
       ''OTP challenge answered with 200 and an empty body (RCC.14 pending signal)'' r) (\<lambda>_ r.
     bind_step (do_fetch server read_json msisdn r) (\<lambda>otp r.
     bind_step (do_check (truthy otp) ''OTP was delivered to the simulated handset'' r) (\<lambda>delivered r.
     if \<not> delivered then (Inr (), r)
     else
     bind_step (do_request server [(''OTP'', otp)] r) (\<lambda>response r.
     bind_step (do_checks [(rs_status response = 200, ''OTP accepted, got '' @ str_of_int (rs_status response)),
       (rs_body response \<noteq> [], ''configuration document returned'')] r) (\<lambda>_ r.
     bind_step (parse_document parse (rs_body response), r) (\<lambda>root r.
     bind_step (do_apply root r) (\<lambda>version r.
     bind_step (do_checks ([(version = 1, ''first configuration version is 1, got '' @ str_of_int version),
         (sim_token (run_sim r) \<noteq> [], ''TOKEN characteristic issued for reconfiguration'')] @
         application_checks False (run_sim r) root) r) (\<lambda>_ r.
     revalidate server parse 1 r)))))))))))"

definition scenario_token :: "'w server \<Rightarrow> (string \<Rightarrow> element option) \<Rightarrow> string \<Rightarrow> 'w run \<Rightarrow> (client_error + unit) \<times> 'w run" where
  "scenario_token server parse token r =
     (let r = r\<lparr>run_sim := (run_sim r)\<lparr>sim_token := token, sim_version := 0\<rparr>\<rparr>
      in bind_step (do_request server [] r) (\<lambda>response r.
         bind_step (do_check (rs_status response = 200) (''token accepted, got '' @ str_of_int (rs_status response)) r) (\<lambda>accepted r.
         if \<not> accepted then (Inr (), r)
         else
         bind_step (do_check (rs_body response \<noteq> []) ''configuration document returned'' r) (\<lambda>returned r.
         if \<not> returned then (Inr (), r)
         else
         bind_step (parse_document parse (rs_body response), r) (\<lambda>root r.
         bind_step (do_apply root r) (\<lambda>version r.
         bind_step (do_checks ((version > 0, ''a valid configuration version was served, got '' @ str_of_int version) #
             application_checks True (run_sim r) root) r) (\<lambda>_ r.
         revalidate server parse version r)))))))"

definition scenario_disabled :: "'w server \<Rightarrow> (string \<Rightarrow> element option) \<Rightarrow> 'w run \<Rightarrow> (client_error + unit) \<times> 'w run" where
  "scenario_disabled server parse r =
     bind_step (do_request server [] r) (\<lambda>response r.
     if rs_status response = 403
     then do_checks [(True, ''server answered 403 for a non-entitled subscriber'')] r
     else
     bind_step (do_check (rs_status response = 200) ''disable answered with 200 and a document'' r) (\<lambda>_ r.
     bind_step (parse_document parse (rs_body response), r) (\<lambda>root r.
     bind_step (do_apply root r) (\<lambda>version r.
     do_checks [(version \<le> 0, ''disable value returned, got VERS='' @ str_of_int version),
       (application root ''ap2002'' = None, ''a disabling document carries no service configuration'')] r))))"

text \<open>The part of \<open>main\<close> after the command line: the exit status, or the exception that is not caught.\<close>

definition main_status :: "(client_error + unit) \<times> 'w run \<Rightarrow> client_error + int" where
  "main_status result = (case result of
     (Inl (SpecViolation text), r) \<Rightarrow> Inr (if summary_ok (check_condition False text (run_checker r)) then 0 else 1)
   | (Inl (HttpError _), r) \<Rightarrow> Inr 2
   | (Inl e, r) \<Rightarrow> Inl e
   | (Inr _, r) \<Rightarrow> Inr (if summary_ok (run_checker r) then 0 else 1))"

definition main_run :: "'w server \<Rightarrow> (string \<Rightarrow> json option) \<Rightarrow> (string \<Rightarrow> element option) \<Rightarrow> string \<Rightarrow> string \<Rightarrow>
    RcsClientSimulator \<Rightarrow> 'w \<Rightarrow> client_error + int" where
  "main_run server read_json parse scenario msisdn c w =
     main_status (if scenario = ''full''
       then scenario_full server read_json parse msisdn \<lparr>run_sim = c, run_checker = new_checker, run_world = w\<rparr>
       else scenario_disabled server parse \<lparr>run_sim = c\<lparr>sim_msisdn := msisdn\<rparr>, run_checker = new_checker, run_world = w\<rparr>)"

end
