(* ===== verification/Rcs_Converges.thy ===== *)
theory Rcs_Converges
  imports Rcs_Client Msisdn_Ui
begin

text \<open>
  The simulated client against the server's own endpoint. First what the server reads in a request of the
  client, and what the client reads in a document of the server; then the two together: once a client
  holds what it was given, asking again changes neither side.
\<close>

section \<open>The client's request at the server\<close>

text \<open>The request as the framework hands it to the router: header names in lower case.\<close>

definition as_request :: "string option \<Rightarrow> http_get \<Rightarrow> HttpRequest" where
  "as_request peer g = \<lparr>rq_method = ''GET'', rq_scheme = ''http'', rq_path = hg_url g, rq_query = hg_params g,
     rq_headers = map (\<lambda>(k, v). (py_lower k, v)) (hg_headers g), rq_cookies = [], rq_client = peer\<rparr>"

definition client_names :: "string list" where
  "client_names = [''vers'', ''IMSI'', ''IMEI'', ''terminal_vendor'', ''terminal_model'', ''terminal_sw_version'',
     ''client_vendor'', ''client_version'', ''rcs_version'', ''rcs_profile'', ''rcs_state'', ''default_sms_app'',
     ''provisioning_version'', ''msisdn'', ''token'', ''OTP'']"

definition field_of :: "string \<Rightarrow> string" where
  "field_of w = the (dict_get PARAMETER_ALIASES w)"

definition fits :: "nat \<Rightarrow> string \<Rightarrow> string \<Rightarrow> bool" where
  "fits maxlen w v \<longleftrightarrow> length v \<le> maxlen \<and>
     (case dict_get FIELD_MAX_LENGTH (field_of w) of None \<Rightarrow> True | Some n \<Rightarrow> length v \<le> n)"

abbreviation singles :: "(string, string) dict \<Rightarrow> (string, string list) dict" where
  "singles ps \<equiv> map (\<lambda>(k, v). (k, [v])) ps"

lemma client_names_known:
  "w \<in> set client_names \<Longrightarrow> w \<noteq> ''app'' \<and> dict_get PARAMETER_ALIASES w = Some (field_of w)"
proof -
  assume "w \<in> set client_names"
  moreover have "list_all (\<lambda>w. w \<noteq> ''app'' \<and> dict_get PARAMETER_ALIASES w \<noteq> None) client_names" by code_simp
  ultimately show ?thesis by (auto simp: list_all_iff field_of_def)
qed

lemma field_of_inj: "inj_on field_of (set client_names)"
proof -
  have "distinct (map field_of client_names)" by code_simp
  then show ?thesis by (simp add: distinct_map)
qed

lemma dict_put_new: "k \<notin> fst ` set d \<Longrightarrow> dict_put k v d = d @ [(k, v)]"
  by (induction d) (auto simp: dict_put_def)

lemma group_singles:
  "distinct (map fst (d @ ps)) \<Longrightarrow> fold (\<lambda>(key, value). group_one key value) ps (singles d) = singles (d @ ps)"
proof (induction ps arbitrary: d)
  case Nil
  show ?case by simp
next
  case (Cons p ps)
  obtain k v where p: "p = (k, v)" by (cases p)
  have "k \<notin> fst ` set (singles d)" using Cons.prems by (force simp: p)
  then have "group_one k v (singles d) = singles d @ [(k, [v])]"
    by (simp add: group_one_def dict_put_new dict_get_or_def map_of_eq_None_iff [THEN iffD2])
  then show ?case using Cons.IH [of "d @ [(k, v)]"] Cons.prems by (simp add: p)
qed

text \<open>One parameter of the client in the collecting loop.\<close>

lemma collect_known:
  assumes "w \<in> set client_names"
  shows "collect_params maxlen ((w, [v]) # ps) raw apps unknown = Inr r \<longleftrightarrow> fits maxlen w v \<and>
    collect_params maxlen ps (if dict_get raw (field_of w) = None then dict_put (field_of w) v raw else raw) apps unknown = Inr r"
  using client_names_known [OF assms]
  by (auto simp: one_value_def fits_def split: option.split)

lemma collect_succeeds:
  assumes "set ps \<subseteq> {(w, v). w \<in> set client_names \<and> fits maxlen w v}"
  shows "\<exists>r. collect_params maxlen (singles ps) raw apps unknown = Inr r"
  using assms
proof (induction ps arbitrary: raw)
  case Nil
  show ?case by simp
next
  case (Cons p ps)
  then obtain w v where p: "p = (w, v)" "w \<in> set client_names" "fits maxlen w v" by auto
  with Cons show ?case by (simp add: collect_known del: collect_params.simps)
qed

lemma collect_lookup:
  assumes "collect_params maxlen (singles ps) raw apps unknown = Inr r" and "fst ` set ps \<subseteq> set client_names"
    and "w \<in> set client_names"
  shows "dict_get (fst r) (field_of w) = (case dict_get raw (field_of w) of None \<Rightarrow> dict_get ps w | Some v \<Rightarrow> Some v)"
  using assms(1,2)
proof (induction ps arbitrary: raw)
  case Nil
  then show ?case by (auto split: option.split)
next
  case (Cons p ps)
  then obtain x v where p: "p = (x, v)" "x \<in> set client_names" by (cases p) auto
  have same: "field_of w = field_of x \<longleftrightarrow> w = x"
    using field_of_inj assms(3) p(2) by (auto simp: inj_on_def)
  let ?raw = "if dict_get raw (field_of x) = None then dict_put (field_of x) v raw else raw"
  have "collect_params maxlen (singles ps) ?raw apps unknown = Inr r"
    using Cons.prems(1) p by (simp add: collect_known del: collect_params.simps)
  from Cons.IH [OF this] Cons.prems(2) show ?case
    by (auto simp: p(1) same dict_get_def [of "_ # _"] dict_get_def [of ps, symmetric] split: option.split)
qed

lemma collect_other:
  assumes "collect_params maxlen (singles ps) raw apps unknown = Inr r" and "fst ` set ps \<subseteq> set client_names"
    and "f \<notin> field_of ` set client_names"
  shows "dict_get (fst r) f = dict_get raw f"
  using assms(1,2)
proof (induction ps arbitrary: raw)
  case Nil
  then show ?case by auto
next
  case (Cons p ps)
  then obtain x v where p: "p = (x, v)" "x \<in> set client_names" by (cases p) auto
  let ?raw = "if dict_get raw (field_of x) = None then dict_put (field_of x) v raw else raw"
  have "collect_params maxlen (singles ps) ?raw apps unknown = Inr r"
    using Cons.prems(1) p by (simp add: collect_known del: collect_params.simps)
  from Cons.IH [OF this] Cons.prems(2) assms(3) p(2) show ?case by auto
qed

lemma fold_put_distinct:
  "distinct (map fst d) \<Longrightarrow> distinct (map fst (fold (\<lambda>(k, v) d. case v of None \<Rightarrow> d | Some w \<Rightarrow> dict_put k w d) extra d))"
  by (induction extra arbitrary: d) (auto simp: dict_put_distinct split: option.split)

lemma sim_query_distinct: "distinct (map fst (sim_query extra c))"
  unfolding sim_query_def Let_def by (intro fold_put_distinct) (simp add: dict_put_distinct)

abbreviation otp_extra :: "string option \<Rightarrow> (string, string option) dict" where
  "otp_extra otp \<equiv> [(''OTP'', otp)]"

lemma sim_query_names: "fst ` set (sim_query (otp_extra otp) c) \<subseteq> set client_names"
  by (cases otp) (simp_all add: sim_query_def Let_def dict_keys_put client_names_def)

lemma sim_query_get:
  "dict_get (sim_query (otp_extra otp) c) ''vers'' = Some (str_of_int (sim_version c))"
  "dict_get (sim_query (otp_extra otp) c) ''IMSI'' = Some (sim_imsi c)"
  "dict_get (sim_query (otp_extra otp) c) ''IMEI'' = Some (sim_imei c)"
  "dict_get (sim_query (otp_extra otp) c) ''rcs_state'' = Some ''0''"
  "dict_get (sim_query (otp_extra otp) c) ''default_sms_app'' = Some ''1''"
  "dict_get (sim_query (otp_extra otp) c) ''msisdn'' = (if sim_msisdn c = [] then None else Some (sim_msisdn c))"
  "dict_get (sim_query (otp_extra otp) c) ''token'' = (if sim_token c = [] then None else Some (sim_token c))"
  "dict_get (sim_query (otp_extra otp) c) ''OTP'' = otp"
  by (cases otp; simp add: sim_query_def Let_def; simp add: dict_get_def)+

lemma no_form: "has_form (as_request peer g) = False"
  by (simp add: has_form_def as_request_def)

lemma client_multi_items:
  "multi_items (as_request peer (config_get extra c)) form = singles (sim_query extra c)"
proof -
  have "rq_query (as_request peer (config_get extra c)) = sim_query extra c"
    by (simp add: config_get_def as_request_def)
  then show ?thesis
    using group_singles [of "[]" "sim_query extra c"] by (simp add: multi_items_def no_form sim_query_distinct)
qed

section \<open>Numerals\<close>

lemma length_str_of_nat_digits: "n < 10 ^ k \<Longrightarrow> 0 < k \<Longrightarrow> length (str_of_nat n) \<le> k"
proof (induction k arbitrary: n)
  case (Suc k)
  show ?case
  proof (cases "n < 10")
    case True
    then show ?thesis by (simp add: str_of_nat.simps [of n])
  next
    case False
    have "n div 10 < 10 ^ k" using Suc.prems(1) by (simp add: less_mult_imp_div_less mult.commute)
    moreover from this False have "0 < k" by (cases k) auto
    ultimately show ?thesis using Suc.IH False by (simp add: str_of_nat.simps [of n])
  qed
qed simp

lemma py_strip_minus: "py_strip (CHR ''-'' # str_of_nat n) = CHR ''-'' # str_of_nat n"
proof -
  have "is_decimal (last (str_of_nat n))"
    using str_of_nat_decimal [of n] last_in_set [of "str_of_nat n"] by (simp add: list_all_iff)
  then have "\<not> py_isspace_char (last (CHR ''-'' # str_of_nat n))" by (simp add: decimal_not_space)
  moreover have "\<not> py_isspace_char CHR ''-''" by (simp add: py_isspace_char_def code_of_def)
  ultimately show ?thesis unfolding py_strip_def by (intro strip_by_id) simp_all
qed

lemma py_nat_str_of_nat_iff:
  "py_nat (str_of_nat n) = (if length (str_of_nat n) \<le> int_max_str_digits then Some n else None)"
  using py_nat_str_of_nat [of n] by (simp add: py_nat_def filter_decimal_str_of_nat)

lemma py_int_str_of_int:
  "py_int (str_of_int i) = (if length (str_of_nat (nat \<bar>i\<bar>)) \<le> int_max_str_digits then Some i else None)"
proof (cases "i < 0")
  case True
  then show ?thesis by (simp add: py_int_def str_of_int_def py_strip_minus py_nat_str_of_nat_iff)
next
  case False
  obtain c cs where c: "str_of_nat (nat i) = c # cs" by (cases "str_of_nat (nat i)") auto
  then have "c \<noteq> CHR ''-''" "c \<noteq> CHR ''+''"
    using str_of_nat_decimal [of "nat i"] by (auto simp: is_decimal_def code_of_def)
  with False py_nat_str_of_nat_iff [of "nat i"] show ?thesis
    by (simp add: py_int_def py_strip_str_of_int) (simp add: str_of_int_def c)
qed

lemma str_of_int_short: "\<bar>i\<bar> < 10 ^ 8 \<Longrightarrow> length (str_of_int i) \<le> 9 \<and> py_int (str_of_int i) = Some i"
proof -
  assume "\<bar>i\<bar> < 10 ^ 8"
  then have "length (str_of_nat (nat \<bar>i\<bar>)) \<le> 8" by (intro length_str_of_nat_digits) simp_all
  moreover from this have "length (str_of_int i) \<le> 9" by (auto simp: str_of_int_def)
  ultimately show ?thesis by (simp add: py_int_str_of_int int_max_str_digits_def)
qed

section \<open>A well-formed client is understood\<close>

text \<open>Of the fields that do not change: the identities have the specified form, the descriptions are within
  the limits of the server.\<close>

definition client_ok :: "Settings \<Rightarrow> RcsClientSimulator \<Rightarrow> bool" where
  "client_ok st c \<longleftrightarrow> 20 \<le> set_max_query_value_length st \<and>
     DIGITS (sim_imsi c) \<and> 5 \<le> length (sim_imsi c) \<and> length (sim_imsi c) \<le> 15 \<and>
     DIGITS (sim_imei c) \<and> 14 \<le> length (sim_imei c) \<and> length (sim_imei c) \<le> 16 \<and>
     length (sim_vendor c) \<le> 8 \<and>
     list_all (\<lambda>v. length v \<le> 32 \<and> length v \<le> set_max_query_value_length st)
       [sim_model c, sim_sw_version c, sim_client_version c, sim_profile c] \<and>
     (sim_msisdn c = [] \<or> length (sim_msisdn c) \<le> 20 \<and>
        normalise_msisdn (Some (sim_msisdn c)) (set_default_country_code st) (set_national_trunk_prefix st) \<noteq> None)"

definition token_fits :: "Settings \<Rightarrow> string \<Rightarrow> bool" where
  "token_fits st token \<longleftrightarrow> length token \<le> 256 \<and> length token \<le> set_max_query_value_length st"

lemma field_limits:
  "map (\<lambda>w. dict_get FIELD_MAX_LENGTH (field_of w)) client_names =
   [None, Some 15, Some 16, Some 8, Some 32, Some 32, Some 8, Some 32, Some 16, Some 32, None, None, None,
    Some 20, Some 256, Some 16]"
  by code_simp

lemma fits_names:
  "fits m ''vers'' v \<longleftrightarrow> length v \<le> m"
  "fits m ''IMSI'' v \<longleftrightarrow> length v \<le> m \<and> length v \<le> 15"
  "fits m ''IMEI'' v \<longleftrightarrow> length v \<le> m \<and> length v \<le> 16"
  "fits m ''terminal_vendor'' v \<longleftrightarrow> length v \<le> m \<and> length v \<le> 8"
  "fits m ''terminal_model'' v \<longleftrightarrow> length v \<le> m \<and> length v \<le> 32"
  "fits m ''terminal_sw_version'' v \<longleftrightarrow> length v \<le> m \<and> length v \<le> 32"
  "fits m ''client_vendor'' v \<longleftrightarrow> length v \<le> m \<and> length v \<le> 8"
  "fits m ''client_version'' v \<longleftrightarrow> length v \<le> m \<and> length v \<le> 32"
  "fits m ''rcs_version'' v \<longleftrightarrow> length v \<le> m \<and> length v \<le> 16"
  "fits m ''rcs_profile'' v \<longleftrightarrow> length v \<le> m \<and> length v \<le> 32"
  "fits m ''rcs_state'' v \<longleftrightarrow> length v \<le> m"
  "fits m ''default_sms_app'' v \<longleftrightarrow> length v \<le> m"
  "fits m ''provisioning_version'' v \<longleftrightarrow> length v \<le> m"
  "fits m ''msisdn'' v \<longleftrightarrow> length v \<le> m \<and> length v \<le> 20"
  "fits m ''token'' v \<longleftrightarrow> length v \<le> m \<and> length v \<le> 256"
  "fits m ''OTP'' v \<longleftrightarrow> length v \<le> m \<and> length v \<le> 16"
  using field_limits by (simp_all add: fits_def client_names_def)

definition param_ok :: "nat \<Rightarrow> string \<times> string \<Rightarrow> bool" where
  "param_ok m p \<longleftrightarrow> fst p \<in> set client_names \<and> fits m (fst p) (snd p)"

lemma param_ok_names: "w \<in> set client_names \<Longrightarrow> param_ok m (w, v) = fits m w v"
  by (simp add: param_ok_def)

lemma client_name_members [simp]:
  "''vers'' \<in> set client_names"
  "''IMSI'' \<in> set client_names"
  "''IMEI'' \<in> set client_names"
  "''terminal_vendor'' \<in> set client_names"
  "''terminal_model'' \<in> set client_names"
  "''terminal_sw_version'' \<in> set client_names"
  "''client_vendor'' \<in> set client_names"
  "''client_version'' \<in> set client_names"
  "''rcs_version'' \<in> set client_names"
  "''rcs_profile'' \<in> set client_names"
  "''rcs_state'' \<in> set client_names"
  "''default_sms_app'' \<in> set client_names"
  "''provisioning_version'' \<in> set client_names"
  "''msisdn'' \<in> set client_names"
  "''token'' \<in> set client_names"
  "''OTP'' \<in> set client_names"
  by (simp_all add: client_names_def)

lemma sim_query_fits:
  assumes "client_ok st c" and "-99 \<le> sim_version c" and "sim_version c \<le> 10000000" and "token_fits st (sim_token c)"
  shows "list_all (param_ok (set_max_query_value_length st)) (sim_query (otp_extra None) c)"
proof -
  have v: "length (str_of_int (sim_version c)) \<le> 9" using str_of_int_short [of "sim_version c"] assms(2,3) by simp
  show ?thesis
    using assms(1,4) v unfolding sim_query_def Let_def
    by (cases "sim_msisdn c = []"; cases "sim_token c = []")
      (simp_all add: list_all_dict_put param_ok_names fits_names client_ok_def token_fits_def)
qed

lemma client_field_names:
  "map field_of client_names = [''vers'', ''imsi'', ''imei'', ''terminal_vendor'', ''terminal_model'', ''terminal_sw_version'',
     ''client_vendor'', ''client_version'', ''rcs_version'', ''rcs_profile'', ''rcs_state'', ''default_sms_app'',
     ''provisioning_version'', ''msisdn'', ''token'', ''otp'']"
  by code_simp

text \<open>The fields that the loop collects from the client's parameters.\<close>

lemma client_fields:
  assumes "collect_params maxlen (singles (sim_query (otp_extra otp) c)) [] [] [] = Inr (raw, apps, unknown)"
  shows "dict_get raw ''vers'' = Some (str_of_int (sim_version c))" "dict_get raw ''imsi'' = Some (sim_imsi c)"
    "dict_get raw ''imei'' = Some (sim_imei c)" "dict_get raw ''rcs_state'' = Some ''0''"
    "dict_get raw ''default_sms_app'' = Some ''1''" "dict_get raw ''otp'' = otp"
    "dict_get raw ''msisdn'' = (if sim_msisdn c = [] then None else Some (sim_msisdn c))"
    "dict_get raw ''token'' = (if sim_token c = [] then None else Some (sim_token c))"
    "dict_get raw ''imeisv'' = None" "dict_get raw ''sms_port'' = None" "dict_get raw ''default_vvm_app'' = None"
proof -
  have get: "dict_get raw (field_of w) = dict_get (sim_query (otp_extra otp) c) w" if "w \<in> set client_names" for w
    using collect_lookup [OF assms sim_query_names that] by simp
  show "dict_get raw ''vers'' = Some (str_of_int (sim_version c))" "dict_get raw ''imsi'' = Some (sim_imsi c)"
      "dict_get raw ''imei'' = Some (sim_imei c)" "dict_get raw ''rcs_state'' = Some ''0''"
      "dict_get raw ''default_sms_app'' = Some ''1''" "dict_get raw ''otp'' = otp"
      "dict_get raw ''msisdn'' = (if sim_msisdn c = [] then None else Some (sim_msisdn c))"
      "dict_get raw ''token'' = (if sim_token c = [] then None else Some (sim_token c))"
    using get [of "''vers''"] get [of "''IMSI''"] get [of "''IMEI''"] get [of "''rcs_state''"] get [of "''default_sms_app''"]
      get [of "''OTP''"] get [of "''msisdn''"] get [of "''token''"] client_field_names
    by (simp_all add: sim_query_get client_names_def)
  have "field_of ` set client_names = set [''vers'', ''imsi'', ''imei'', ''terminal_vendor'', ''terminal_model'',
     ''terminal_sw_version'', ''client_vendor'', ''client_version'', ''rcs_version'', ''rcs_profile'', ''rcs_state'',
     ''default_sms_app'', ''provisioning_version'', ''msisdn'', ''token'', ''otp'']"
    by (metis client_field_names list.set_map)
  then show "dict_get raw ''imeisv'' = None" "dict_get raw ''sms_port'' = None" "dict_get raw ''default_vvm_app'' = None"
    using collect_other [OF assms sim_query_names] by simp_all
qed

lemma client_parse:
  assumes "client_ok st c" and "-99 \<le> sim_version c" and "sim_version c \<le> 10000000" and "token_fits st (sim_token c)"
  obtains q where "parsed_query st (as_request peer (config_get (otp_extra None) c)) [] = Inr q"
    and "cq_vers q = sim_version c" and "cq_imei q = Some (sim_imei c)"
    and "cq_token q = (if sim_token c = [] then None else Some (sim_token c))"
proof -
  let ?ps = "sim_query (otp_extra None) c"
  have "set ?ps \<subseteq> {(w, v). w \<in> set client_names \<and> fits (set_max_query_value_length st) w v}"
    using sim_query_fits [OF assms] by (auto simp: list_all_iff param_ok_def)
  from collect_succeeds [OF this, of "[]" "[]" "[]"] obtain raw apps unknown where
    r: "collect_params (set_max_query_value_length st) (singles ?ps) [] [] [] = Inr (raw, apps, unknown)" by (metis surj_pair)
  note known = client_fields [OF r]
  have digits: "py_int ''0'' = Some 0" "py_int ''1'' = Some 1" by code_simp+
  have vers: "parse_vers raw = Inr (sim_version c)"
    using assms(2,3) str_of_int_short [of "sim_version c"] by (simp add: parse_vers_def known(1) as_int_def)
  have "\<exists>m. parse_msisdn (set_default_country_code st) (set_national_trunk_prefix st) raw = Inr m"
    using assms(1) by (auto simp: parse_msisdn_def known client_ok_def)
  then obtain m where m: "parse_msisdn (set_default_country_code st) (set_national_trunk_prefix st) raw = Inr m" by blast
  have ids: "parse_imsi raw = Inr (Some (sim_imsi c))" "parse_device ''imei'' raw = Inr (Some (sim_imei c))"
      "parse_device ''imeisv'' raw = Inr None" "parse_otp raw = Inr None" "parse_opt_int ''sms_port'' ''SMS_port'' 0 65535 raw = Inr None"
      "parse_opt_int ''default_sms_app'' ''default_sms_app'' (-4) 99 raw = Inr (Some 1)"
      "parse_opt_int ''default_vvm_app'' ''default_vvm_app'' (-4) 99 raw = Inr None"
      "parse_opt_int ''rcs_state'' ''rcs_state'' (-4) 99 raw = Inr (Some 0)"
    using assms(1) by (simp_all add: parse_imsi_def parse_device_def parse_otp_def parse_opt_int_def as_int_def known digits client_ok_def)
  have "\<exists>q. parsed_query st (as_request peer (config_get (otp_extra None) c)) [] = Inr q \<and> cq_vers q = sim_version c \<and>
      cq_imei q = Some (sim_imei c) \<and> cq_token q = (if sim_token c = [] then None else Some (sim_token c))"
    by (simp add: parsed_query_def parse_config_query_def client_multi_items r vers m ids known)
  with that show ?thesis by blast
qed

text \<open>What a request of the client that was accepted says.\<close>

lemma client_parsed_imei:
  assumes "parsed_query st (as_request peer (config_get (otp_extra otp) c)) form = Inr q" and "client_ok st c"
  shows "cq_imei q = Some (sim_imei c)"
proof -
  obtain raw apps unknown where
    r: "collect_params (set_max_query_value_length st) (singles (sim_query (otp_extra otp) c)) [] [] [] = Inr (raw, apps, unknown)"
    using assms(1) by (auto simp: parsed_query_def parse_config_query_def client_multi_items bind_err_Inr)
  then have "parse_device ''imei'' raw = Inr (Some (sim_imei c))"
    using assms(2) by (simp add: parse_device_def client_fields client_ok_def)
  with assms(1) show ?thesis
    by (auto simp: parsed_query_def parse_config_query_def client_multi_items bind_err_Inr r)
qed

section \<open>The server's document at the client\<close>

abbreviation parm_element :: "Parm \<Rightarrow> element" where
  "parm_element p \<equiv> Element ''parm'' [(''name'', pm_name p), (''value'', pm_value p)] []"

lemma step_matches_simps [simp]:
  "step_matches (char_step t) (characteristic_element c) \<longleftrightarrow> ch_type c = t"
  "step_matches (parm_step n) (characteristic_element c) = False"
  "step_matches (char_step t) (parm_element p) = False"
  "step_matches (parm_step n) (parm_element p) \<longleftrightarrow> pm_name p = n"
  by (cases c; simp add: step_matches_def dict_get_def)+

lemma el_children_simps [simp]:
  "el_children (to_element d) = map characteristic_element (doc_characteristics d)"
  "el_children (characteristic_element c) = map parm_element (ch_parms c) @ map characteristic_element (ch_children c)"
  by (simp add: to_element_def, cases c, simp)

lemma filter_steps [simp]:
  "filter (step_matches (char_step t)) (map characteristic_element cs) = map characteristic_element (filter (\<lambda>c. ch_type c = t) cs)"
  "filter (step_matches (char_step t)) (map parm_element ps) = []"
  "filter (step_matches (parm_step n)) (map characteristic_element cs) = []"
  "filter (step_matches (parm_step n)) (map parm_element ps) = map parm_element (filter (\<lambda>p. pm_name p = n) ps)"
  by (simp_all add: filter_map comp_def)

lemma find_parm_element:
  "find_first [parm_step n] (characteristic_element c) = map_option parm_element (find_parm c n)"
proof -
  have "(case map parm_element (filter (\<lambda>p. pm_name p = n) ps) of [] \<Rightarrow> None | x # xs \<Rightarrow> Some x)
      = map_option parm_element (List.find (\<lambda>p. pm_name p = n) ps)" for ps
    by (induction ps) auto
  then show ?thesis by (simp add: find_first_def find_parm_def comp_def concat_map_singleton)
qed

text \<open>The token comes second, right after \<open>VERS\<close>.\<close>

definition token_second :: "string \<Rightarrow> ProvisioningDoc \<Rightarrow> bool" where
  "token_second token d \<longleftrightarrow> (\<exists>c ps ks cs. ch_type c = ''VERS'' \<and>
     doc_characteristics d = c # Characteristic ''TOKEN'' (parm ''token'' token # ps) ks # cs)"

lemma token_second_kept:
  "token_second token d \<Longrightarrow> token_second token (ensure_path_add path n v d)"
  "token_second token d \<Longrightarrow> token_second token (apply_default_sms_app_policy q d)"
  "token_second token d \<Longrightarrow> token_second token (doc_add c d)"
proof -
  have type: "ch_type (add_at segs n v c) = ch_type c" for segs c by simp
  assume d: "token_second token d"
  then show "token_second token (ensure_path_add path n v d)"
    by (cases "tl (py_split CHR ''/'' path)")
      (auto simp: token_second_def ensure_path_add_def Let_def add_parm_def is_application_def)
  show "token_second token (apply_default_sms_app_policy q d)"
    using d by (auto simp: token_second_def apply_default_sms_app_policy_def is_application_def)
  show "token_second token (doc_add c d)" using d by (auto simp: token_second_def doc_add_def)
qed

lemma built_token_second:
  assumes "build_document get_catalog st q imsi msisdn vers validity profile (Some token) overrides pw host = Inr doc"
    and "token \<noteq> []"
  shows "token_second token doc"
proof (rule build_document_stages [OF assms(1)])
  fix catalog ctx d
  assume s: "add_entries ctx overrides (selected_entries catalog
      (str_or profile (opt_or (cq_rcs_profile q) (set_default_rcs_profile st))) (cq_apps q))
      (start_document vers validity (Some token)) = Inr d"
    "doc = (if set_dm_bootstrap_in_cp st \<and> set_dm_enabled st \<and> pw \<noteq> []
      then doc_add (dm_account_characteristic st ctx pw) (apply_default_sms_app_policy q d)
      else apply_default_sms_app_policy q d)"
  have "token_second token (start_document vers validity (Some token))"
    using assms(2) by (simp add: token_second_def start_document_def truthy_def doc_add_def empty_doc_def Let_def
        token_characteristic_def vers_characteristic_def)
  then have "token_second token d"
    by (rule add_entries_invariant [OF s(1)]) (rule token_second_kept)
  then show ?thesis by (simp add: s(2) token_second_kept)
qed

lemma read_token_served: "token_second token d \<Longrightarrow> read_token (to_element d) = token"
  by (auto simp: token_second_def read_token_def find_first_def dict_get_or_def dict_get_def parm_def step_matches_def
      [of "parm_step ''token''" "Element ''parm'' _ _"] simp del: characteristic_element.simps)

lemma read_vers_served:
  assumes "vers_first vers validity d"
  shows "read_vers (to_element d) = (case (py_int (str_of_int vers), py_int (str_of_int validity)) of
     (Some v, Some w) \<Rightarrow> Inr (v, w) | _ \<Rightarrow> Inl ValueError)"
proof -
  obtain c cs where c: "doc_characteristics d = c # cs" "ch_type c = ''VERS''"
      "find_parm c ''version'' = Some (parm ''version'' (str_of_int vers))"
      "find_parm c ''validity'' = Some (parm ''validity'' (str_of_int validity))"
    using assms by (auto simp: vers_first_def find_parm_def parm_def)
  then have "find_first [char_step ''VERS''] (to_element d) = Some (characteristic_element c)"
    by (simp add: find_first_def)
  then show ?thesis
    by (simp add: read_vers_def find_parm_element c dict_get_or_def parm_def)
qed

lemma vers_only_first: "vers_first vers validity (build_vers_only_document vers validity)"
  by (simp add: vers_first_def build_vers_only_document_def doc_add_def empty_doc_def vers_characteristic_def)

lemma vers_only_no_token: "read_token (to_element (build_vers_only_document vers validity)) = []"
  by (simp add: read_token_def find_first_def build_vers_only_document_def doc_add_def empty_doc_def vers_characteristic_def
      del: characteristic_element.simps)

section \<open>The subscriber after an answer\<close>

lemma resolve_keeps_subscribers:
  assumes "resolve_identity env st q headers peer method s = (r, t)"
  shows "get_subscriber t = get_subscriber s"
proof -
  have "get_subscriber (snd (verify_challenge get_otp replace_otp sha clock m otp policy now s)) = get_subscriber s"
    for sha clock m otp policy now
    using verify_only_challenges [of VERIFY_ROUNDS sha clock m otp policy "time_or now clock" s]
    by (auto simp: verify_challenge_def get_subscriber_def fun_eq_iff)
  then have "get_subscriber (snd (resolve_claim env st q s)) = get_subscriber s"
    by (simp add: resolve_claim_def split: option.split prod.split) (metis snd_conv)
  then show ?thesis
    using assms by (auto simp: resolve_identity_def split: if_splits sum.splits option.splits prod.splits)
qed

lemma get_subscriber_record_device: "get_subscriber (record_device clock sub q s) = get_subscriber s"
  by (simp add: record_device_def put_device_def get_subscriber_def Let_def fun_eq_iff)

lemma get_subscriber_put_token: "get_subscriber (snd (issue_token put_token sha token now imsi imei ttl bind s)) = get_subscriber s"
  by (simp add: issue_token_def put_token_def get_subscriber_def fun_eq_iff)

lemma serve_full_subscriber:
  assumes "serve_full env st sub vers q how s = (Inr out, s')" and "get_subscriber s (sub_imsi sub) = Some sub"
  shows "\<exists>pw. get_subscriber s' (sub_imsi sub) = Some (sub\<lparr>sub_dm_password := pw\<rparr>)"
proof -
  have same: "sub\<lparr>sub_dm_password := sub_dm_password sub\<rparr> = sub" by simp
  show ?thesis
    using assms get_subscriber_put_token [of "env_sha env" "env_token env" "env_clock env" "sub_imsi sub" "cq_imei q"
        "set_token_ttl_seconds st" "set_token_bind_imei st" s]
    by (auto simp: serve_full_def Let_def get_subscriber_record_device get_subscriber_put split: sum.splits prod.splits if_splits)
      (metis same)+
qed

lemma serve_configuration_subscriber:
  assumes "serve_configuration env st sub q how s = (Inr out, s')" and "get_subscriber s (sub_imsi sub) = Some sub"
    and "sub_forced_vers sub = None"
  obtains v pw where "0 < v" and "get_subscriber s' (sub_imsi sub) = Some (sub\<lparr>sub_provisioning_version := v, sub_dm_password := pw\<rparr>)"
    and "out = config_outcome st (build_vers_only_document v (set_provisioning_validity_seconds st)) ''ConfigUnchanged'' ''vers_only'' v \<or>
      (\<exists>s1. serve_full env st (sub\<lparr>sub_provisioning_version := v\<rparr>) v q how s1 = (Inr out, s'))"
proof -
  let ?v = "if sub_provisioning_version sub \<le> 0 then next_version (sub_provisioning_version sub) else sub_provisioning_version sub"
  let ?sub = "sub\<lparr>sub_provisioning_version := ?v\<rparr>"
  let ?s = "if sub_provisioning_version sub \<le> 0 then put_subscriber ?sub s else s"
  have s1: "get_subscriber ?s (sub_imsi ?sub) = Some ?sub" using assms(2) by (simp add: get_subscriber_put)
  have pos: "0 < ?v" by simp
  show ?thesis
  proof (cases "client_holds_current (cq_vers q) ?v")
    case True
    with assms(1,3) have "out = config_outcome st (build_vers_only_document ?v (set_provisioning_validity_seconds st))
        ''ConfigUnchanged'' ''vers_only'' ?v" "s' = ?s"
      by (simp_all add: serve_configuration_def Let_def)
    with s1 pos that [of ?v "sub_dm_password sub"] show ?thesis by simp
  next
    case False
    with assms(1,3) have full: "serve_full env st ?sub ?v q how ?s = (Inr out, s')"
      by (simp add: serve_configuration_def Let_def)
    from serve_full_subscriber [OF full s1] full pos that [of ?v] show ?thesis by auto
  qed
qed

section \<open>One answer, applied\<close>

lemma answered_with_document:
  assumes "handle_configuration_request env st to_bytes rq form s = (Inr resp, s1, ev)" and "rs_body resp \<noteq> []"
  obtains q out doc where "parsed_query st rq form = Inr q"
    and "handle env st q (rq_headers rq) (rq_client rq) (rq_method rq) s = (Inr out, s1)"
    and "po_body out = Some doc" and "rs_body resp = to_bytes doc"
proof (cases "parsed_query st rq form")
  case (Inl e)
  with assms show ?thesis by (auto simp: handle_configuration_request_def plain_response_def)
next
  case (Inr q)
  with assms(1) obtain out where out: "handle env st q (rq_headers rq) (rq_client rq) (rq_method rq) s = (Inr out, s1)"
      "resp = config_response to_bytes out"
    by (auto simp: handle_configuration_request_def Let_def split: prod.splits sum.splits)
  with assms(2) obtain doc where "po_body out = Some doc" "rs_body resp = to_bytes doc"
    by (cases "po_body out") (auto simp: config_response_def plain_response_def Let_def split: if_splits)
  with Inr out that show ?thesis by blast
qed

lemma verify_token_same:
  "st_tokens x = st_tokens y \<Longrightarrow> verify_token get_token sha clock t imei b x = verify_token get_token sha clock t imei b y"
  by (simp add: verify_token_def get_token_def)

text \<open>A document with a token is a full one: its subscriber is stored with the version, the token is his.\<close>

lemma token_document_served:
  assumes "handle env st q headers peer method s = (Inr out, s1)" and "po_body out = Some doc"
    and "read_token (to_element doc) \<noteq> []" and "index_ok s" and "env_token env \<noteq> []"
  obtains sub v where "get_subscriber s1 (sub_imsi sub) = Some sub" and "sub_entitled sub" and "sub_forced_vers sub = None"
    and "sub_provisioning_version sub = v" and "0 < v"
    and "vers_first v (set_provisioning_validity_seconds st) doc" and "token_second (env_token env) doc"
    and "\<forall>clock < env_clock env + set_token_ttl_seconds st.
      \<exists>r. verify_token get_token (env_sha env) clock (Some (env_token env)) (cq_imei q) (set_token_bind_imei st) s1 = Some r \<and>
        tr_imsi r = sub_imsi sub"
proof -
  obtain i t where i: "resolve_identity env st q headers peer method s = (Inr i, t)" "id_decision i = AUTHENTICATED"
      "serve_configuration env st (the (id_subscriber i)) q (id_method i) t = (Inr out, s1)"
    using handle_body [OF assms(1,2)] by metis
  obtain sub where sub: "id_subscriber i = Some sub" "sub_entitled sub" "evidence env st q headers peer method s (id_method i) sub"
    using resolve_identity_authenticated [OF i(1,2)] by metis
  have serve: "serve_configuration env st sub q (id_method i) t = (Inr out, s1)" using i(3) sub(1) by simp
  have stored: "get_subscriber t (sub_imsi sub) = Some sub"
    using evidence_stored [OF assms(4) sub(3)] resolve_keeps_subscribers [OF i(1)] by simp
  have forced: "sub_forced_vers sub = None"
    using serve assms(2,3)
    by (cases "sub_forced_vers sub") (auto simp: serve_configuration_def Let_def vers_only_no_token split: sum.splits)
  obtain v pw s2 where v: "0 < v"
      "get_subscriber s1 (sub_imsi sub) = Some (sub\<lparr>sub_provisioning_version := v, sub_dm_password := pw\<rparr>)"
      "serve_full env st (sub\<lparr>sub_provisioning_version := v\<rparr>) v q (id_method i) s2 = (Inr out, s1)"
  proof (rule serve_configuration_subscriber [OF serve stored forced])
    fix v pw
    assume a: "0 < v" "get_subscriber s1 (sub_imsi sub) = Some (sub\<lparr>sub_provisioning_version := v, sub_dm_password := pw\<rparr>)"
      "out = config_outcome st (build_vers_only_document v (set_provisioning_validity_seconds st)) ''ConfigUnchanged'' ''vers_only'' v \<or>
       (\<exists>s2. serve_full env st (sub\<lparr>sub_provisioning_version := v\<rparr>) v q (id_method i) s2 = (Inr out, s1))"
    moreover have "out \<noteq> config_outcome st (build_vers_only_document v (set_provisioning_validity_seconds st))
        ''ConfigUnchanged'' ''vers_only'' v"
      using assms(2,3) by (auto simp: vers_only_no_token)
    ultimately show thesis using that by blast
  qed
  obtain doc' pw' where built: "out = config_outcome st doc' ''ConfigServed'' (method_value (id_method i)) v"
      "build_document (env_get_catalog env) st q (sub_imsi sub) (sub_msisdn sub) v (set_provisioning_validity_seconds st)
        (str_or (sub_rcs_profile sub) (opt_or (cq_rcs_profile q) (set_default_rcs_profile st)))
        (Some (env_token env)) (sub_overrides sub) pw' [] = Inr doc'"
      "st_tokens s1 = st_tokens (snd (issue_token put_token (env_sha env) (env_token env) (env_clock env)
        (sub_imsi sub) (cq_imei q) (set_token_ttl_seconds st) (set_token_bind_imei st) s2))"
    by (rule serve_full_served [OF v(3)]) simp
  have doc: "doc' = doc" using assms(2) built(1) by simp
  have "\<exists>r. verify_token get_token (env_sha env) clock (Some (env_token env)) (cq_imei q) (set_token_bind_imei st) s1 = Some r \<and>
        tr_imsi r = sub_imsi sub" if "clock < env_clock env + set_token_ttl_seconds st" for clock
    using memory_token.issued_verifies [OF _ assms(5), of "env_sha env" "env_clock env" "sub_imsi sub" "cq_imei q"
        "set_token_ttl_seconds st" "set_token_bind_imei st" s2 _ _ clock "cq_imei q" "set_token_bind_imei st",
        OF prod.collapse [symmetric]] verify_token_same [OF built(3)] that
    by simp
  moreover have "vers_first v (set_provisioning_validity_seconds st) doc" "token_second (env_token env) doc"
    using built_vers_first [OF built(2)] built_token_second [OF built(2) assms(5)] doc by simp_all
  ultimately show ?thesis
    using that [of "sub\<lparr>sub_provisioning_version := v, sub_dm_password := pw\<rparr>" v] v sub(2) forced by simp
qed

lemma apply_served:
  assumes "vers_first vers validity d" and "apply_document (to_element d) c = (Inr v, c1)" and "0 < vers"
  shows "v = vers \<and> c1 = c\<lparr>sim_token := (if read_token (to_element d) = [] then sim_token c else read_token (to_element d)),
      sim_version := vers, sim_validity := Some validity, sim_phase := ''provisioned''\<rparr> \<and>
    (\<forall>d'. vers_first vers validity d' \<longrightarrow> read_vers (to_element d') = Inr (vers, validity))"
proof -
  have r: "read_vers (to_element d') = Inr (vers, validity)" if "vers_first vers validity d'" for d'
    using read_vers_served [OF that] read_vers_served [OF assms(1)] assms(2)
    by (auto simp: apply_document_def py_int_str_of_int split: if_splits)
  with assms show ?thesis by (auto simp: apply_document_def r [OF assms(1)] Let_def)
qed

text \<open>A stored subscriber who asks with a valid token and the version he holds.\<close>

lemma current_client_answered:
  assumes "verify_token get_token (env_sha env) (env_clock env) (cq_token q) (cq_imei q) (set_token_bind_imei st) s = Some r"
    and "get_subscriber s (tr_imsi r) = Some sub" and "sub_entitled sub" and "sub_forced_vers sub = None"
    and "0 < sub_provisioning_version sub" and "cq_vers q = sub_provisioning_version sub"
  shows "handle env st q headers peer method s =
    (Inr (config_outcome st (build_vers_only_document (cq_vers q) (set_provisioning_validity_seconds st))
       ''ConfigUnchanged'' ''vers_only'' (cq_vers q)), s)"
proof -
  have "truthy (cq_token q)" using assms(1) by (simp add: verify_token_Some)
  with assms have "resolve_identity env st q headers peer method s = (Inr (authenticated sub TOKEN), s)"
    by (simp add: resolve_identity_def)
  with assms(4-6) show ?thesis by (simp add: handle_def serve_configuration_def client_holds_current_def Let_def)
qed

lemma sim_query_no_extra: "config_get [] c = config_get (otp_extra None) c"
  by (simp add: config_get_def sim_query_def)

lemma converged:
  assumes "client_ok st c" and "index_ok s" and "env_token env \<noteq> []" and "token_fits st (env_token env)"
    and "handle_configuration_request env st to_bytes (as_request peer (config_get [(''OTP'', otp)] c)) [] s = (Inr resp, s1, ev)"
    and "rs_body resp \<noteq> []" and "parse_document parse (rs_body resp) = Inr root" and "read_token root \<noteq> []"
    and "apply_document root c = (Inr v, c1)" and "v \<le> 10000000"
    and "\<And>d e. parse (to_bytes d) = Some e \<Longrightarrow> e = to_element d"
    and "env_sha env' = env_sha env" and "env_clock env' < env_clock env + set_token_ttl_seconds st"
  shows "sim_token c1 = env_token env \<and> sim_version c1 = v \<and> sim_phase c1 = ''provisioned'' \<and>
    (\<exists>resp' ev'. handle_configuration_request env' st to_bytes (as_request peer' (config_get [] c1)) [] s1 = (Inr resp', s1, ev') \<and>
       rs_status resp' = 200 \<and>
       rs_body resp' = to_bytes (build_vers_only_document v (set_provisioning_validity_seconds st))) \<and>
    apply_document (to_element (build_vers_only_document v (set_provisioning_validity_seconds st))) c1 = (Inr v, c1)"
proof -
  obtain q out doc where q: "parsed_query st (as_request peer (config_get (otp_extra otp) c)) [] = Inr q"
    and out: "handle env st q (rq_headers (as_request peer (config_get (otp_extra otp) c)))
        (rq_client (as_request peer (config_get (otp_extra otp) c))) (rq_method (as_request peer (config_get (otp_extra otp) c))) s
        = (Inr out, s1)" "po_body out = Some doc" "rs_body resp = to_bytes doc"
    by (rule answered_with_document [OF assms(5,6)])
  have root: "root = to_element doc"
    using assms(7,11) by (auto simp: out(3) parse_document_def split: option.splits if_splits)
  obtain sub w where sub: "get_subscriber s1 (sub_imsi sub) = Some sub" "sub_entitled sub" "sub_forced_vers sub = None"
      "sub_provisioning_version sub = w" "0 < w"
    and doc: "vers_first w (set_provisioning_validity_seconds st) doc" "token_second (env_token env) doc"
    and tok: "\<forall>clock < env_clock env + set_token_ttl_seconds st.
      \<exists>r. verify_token get_token (env_sha env) clock (Some (env_token env)) (cq_imei q) (set_token_bind_imei st) s1 = Some r \<and>
        tr_imsi r = sub_imsi sub"
    by (rule token_document_served [OF out(1,2) assms(8) [unfolded root] assms(2,3)])
  have c1: "v = w" "c1 = c\<lparr>sim_token := env_token env, sim_version := w,
        sim_validity := Some (set_provisioning_validity_seconds st), sim_phase := ''provisioned''\<rparr>"
      "\<And>d. vers_first w (set_provisioning_validity_seconds st) d \<Longrightarrow>
        read_vers (to_element d) = Inr (w, set_provisioning_validity_seconds st)"
    using apply_served [OF doc(1) assms(9) [unfolded root] sub(5)] assms(3) by (simp_all add: read_token_served [OF doc(2)])
  have ok: "client_ok st c1" using assms(1) by (simp add: c1(2) client_ok_def)
  obtain q' where q': "parsed_query st (as_request peer' (config_get (otp_extra None) c1)) [] = Inr q'"
      "cq_vers q' = w" "cq_imei q' = Some (sim_imei c1)" "cq_token q' = Some (env_token env)"
    using client_parse [OF ok, of peer'] assms(3,4,10) sub(5) by (auto simp: c1)
  have imei: "cq_imei q' = cq_imei q" using q'(3) client_parsed_imei [OF q assms(1)] by (simp add: c1(2))
  obtain r where r: "verify_token get_token (env_sha env') (env_clock env') (cq_token q') (cq_imei q') (set_token_bind_imei st) s1 = Some r"
      "tr_imsi r = sub_imsi sub"
    using tok assms(13) imei by (auto simp: q'(4) assms(12))
  have again: "handle env' st q' headers p m s1 = (Inr (config_outcome st
      (build_vers_only_document w (set_provisioning_validity_seconds st)) ''ConfigUnchanged'' ''vers_only'' w), s1)" for headers p m
    using current_client_answered [OF r(1), of sub headers p m] r(2) sub q'(2) by simp
  have "apply_document (to_element (build_vers_only_document w (set_provisioning_validity_seconds st))) c1 = (Inr w, c1)"
    using c1(3) [OF vers_only_first] sub(5) by (simp add: apply_document_def vers_only_no_token c1(2))
  moreover have "\<exists>resp' ev'. handle_configuration_request env' st to_bytes (as_request peer' (config_get [] c1)) [] s1
      = (Inr resp', s1, ev') \<and> rs_status resp' = 200 \<and>
        rs_body resp' = to_bytes (build_vers_only_document w (set_provisioning_validity_seconds st))"
    by (simp add: handle_configuration_request_def sim_query_no_extra q'(1) again Let_def config_response_def plain_response_def)
  ultimately show ?thesis by (simp add: c1(1,2))
qed

text \<open>
  C9. Client and server agree. A client asks, with or without a one-time password, is given a document with a
  token, and applies it. From then on, until the token expires, every request of that client is answered with the
  document that holds only \<open>VERS\<close>, of exactly the version that the client applied, the server's store does not
  change, and applying the answer leaves the client as it is: the two have converged. (The client's
  identities and descriptions are within the server's limits, the version is one that a request may name,
  the reader does not misread what the writer wrote.)
\<close>

theorem client_converges:
  assumes "client_ok st c" and "index_ok s" and "env_token env \<noteq> []" and "token_fits st (env_token env)"
    and "handle_configuration_request env st to_bytes (as_request peer (config_get [(''OTP'', otp)] c)) [] s = (Inr resp, s1, ev)"
    and "rs_body resp \<noteq> []" and "parse_document parse (rs_body resp) = Inr root" and "read_token root \<noteq> []"
    and "apply_document root c = (Inr v, c1)" and "v \<le> 10000000"
    and "\<And>d e. parse (to_bytes d) = Some e \<Longrightarrow> e = to_element d"
    and "env_sha env' = env_sha env" and "env_clock env' < env_clock env + set_token_ttl_seconds st"
  shows "sim_token c1 = env_token env \<and> sim_version c1 = v \<and> sim_phase c1 = ''provisioned'' \<and>
    (\<exists>resp' ev'. handle_configuration_request env' st to_bytes (as_request peer' (config_get [] c1)) [] s1 = (Inr resp', s1, ev') \<and>
       rs_status resp' = 200 \<and>
       rs_body resp' = to_bytes (build_vers_only_document v (set_provisioning_validity_seconds st))) \<and>
    apply_document (to_element (build_vers_only_document v (set_provisioning_validity_seconds st))) c1 = (Inr v, c1)"
  by (rule converged [OF assms])

definition demo_client :: RcsClientSimulator where
  "demo_client = (new_client ''http://127.0.0.1:8080/'' ''450051234567890'' ''356938035643809'')\<lparr>sim_token := ''abc''\<rparr>"

abbreviation demo_get :: HttpRequest where
  "demo_get \<equiv> as_request None (config_get [(''OTP'', None)] demo_client)"

definition minute_settings :: Settings where
  "minute_settings = demo_settings\<lparr>set_provisioning_validity_seconds := 60\<rparr>"

lemma demo_client_served:
  "case parsed_query minute_settings demo_get [] of Inl _ \<Rightarrow> False | Inr q \<Rightarrow>
     (case fst (handle demo_env minute_settings q (rq_headers demo_get) (rq_client demo_get) (rq_method demo_get) demo_service_store) of
        Inl _ \<Rightarrow> False
      | Inr out \<Rightarrow> (case po_body out of None \<Rightarrow> False | Some d \<Rightarrow>
          read_token (to_element d) = ''tok2'' \<and> doc_version d = ''1.1'' \<and>
          (case fst (apply_document (to_element d) demo_client) of Inl _ \<Rightarrow> False | Inr v \<Rightarrow> v \<le> 10000000)))"
  by code_simp

lemma demo_service_store_index_ok: "index_ok demo_service_store"
proof -
  have "index_ok (put_subscriber (demo_subscriber ''450051234567890'' ''+8210'') empty_store)"
    by (rule put_subscriber_index_ok) (auto simp: index_ok_def get_subscriber_def empty_store_def msisdn_free_for_def
        get_subscriber_by_msisdn_def demo_subscriber_def)
  then show ?thesis
    by (simp add: demo_service_store_def issue_token_def put_token_def index_ok_def get_subscriber_def)
qed

lemma demo_client_ok: "client_ok minute_settings demo_client"
  by code_simp

text \<open>The demonstration client presents a token of its subscriber; the writer is one that tells the document
  it is given from all others. A later request reaches the server at another time and from another peer.\<close>

theorem client_converges_witness:
  "\<exists>D resp s1 ev v c1 resp' ev'. let to_bytes = (\<lambda>d. if d = D then ''full'' else ''other'') in
     handle_configuration_request demo_env minute_settings to_bytes demo_get [] demo_service_store = (Inr resp, s1, ev) \<and>
     rs_body resp = ''full'' \<and> apply_document (to_element D) demo_client = (Inr v, c1) \<and> sim_token c1 = ''tok2'' \<and>
     handle_configuration_request (demo_env\<lparr>env_clock := 9000\<rparr>) minute_settings to_bytes
       (as_request (Some ''10.0.0.9'') (config_get [] c1)) [] s1 = (Inr resp', s1, ev') \<and>
     rs_status resp' = 200 \<and> rs_body resp' = to_bytes (build_vers_only_document v 60)"
proof -
  let ?h = "\<lambda>q. handle demo_env minute_settings q (rq_headers demo_get) (rq_client demo_get) (rq_method demo_get) demo_service_store"
  from case_InrD [OF demo_client_served] obtain q where q: "parsed_query minute_settings demo_get [] = Inr q"
    and "case fst (?h q) of Inl _ \<Rightarrow> False | Inr out \<Rightarrow> (case po_body out of None \<Rightarrow> False | Some d \<Rightarrow>
          read_token (to_element d) = ''tok2'' \<and> doc_version d = ''1.1'' \<and>
          (case fst (apply_document (to_element d) demo_client) of Inl _ \<Rightarrow> False | Inr v \<Rightarrow> v \<le> 10000000))" by blast
  from case_InrD [OF this(2)] obtain out where o: "fst (?h q) = Inr out"
    and "case po_body out of None \<Rightarrow> False | Some d \<Rightarrow> read_token (to_element d) = ''tok2'' \<and> doc_version d = ''1.1'' \<and>
          (case fst (apply_document (to_element d) demo_client) of Inl _ \<Rightarrow> False | Inr v \<Rightarrow> v \<le> 10000000)" by blast
  then obtain D where po: "po_body out = Some D" and D: "read_token (to_element D) = ''tok2''" "doc_version D = ''1.1''"
    and "case fst (apply_document (to_element D) demo_client) of Inl _ \<Rightarrow> False | Inr v \<Rightarrow> v \<le> 10000000"
    by (cases "po_body out") simp_all
  from case_InrD [OF this(4)] obtain v c1 where v: "apply_document (to_element D) demo_client = (Inr v, c1)" "v \<le> 10000000"
    by (metis prod.collapse)
  obtain s1 where out: "?h q = (Inr out, s1)" using o by (metis prod.collapse)
  let ?b = "\<lambda>d. if d = D then ''full'' else ''other''"
  let ?p = "\<lambda>s. if s = ''full'' then Some (to_element D) else None"
  obtain resp ev where first: "handle_configuration_request demo_env minute_settings ?b demo_get [] demo_service_store = (Inr resp, s1, ev)"
      "rs_body resp = ''full''"
    by (simp add: handle_configuration_request_def q out po Let_def config_response_def)
  have root: "parse_document ?p (rs_body resp) = Inr (to_element D)"
    by (simp add: first(2) parse_document_def to_element_def dict_get_def D(2))
  have reads: "?p (?b d) = Some e \<Longrightarrow> e = to_element d" for d e by (auto split: if_splits)
  have facts: "env_token demo_env \<noteq> []" "token_fits minute_settings (env_token demo_env)"
      "env_clock (demo_env\<lparr>env_clock := 9000\<rparr>) < env_clock demo_env + set_token_ttl_seconds minute_settings"
      "set_provisioning_validity_seconds minute_settings = 60"
    by (simp_all add: demo_env_def minute_settings_def demo_settings_def token_fits_def)
  have "rs_body resp \<noteq> []" "read_token (to_element D) \<noteq> []" using first(2) D(1) by simp_all
  from client_converges [OF demo_client_ok demo_service_store_index_ok facts(1,2) first(1) this(1) root this(2) v reads _ facts(3),
      of "Some ''10.0.0.9''"] first v(1) show ?thesis
    by (fastforce simp: Let_def facts(4) demo_env_def)
qed

section \<open>The scenarios\<close>

text \<open>The endpoint as the simulator reaches it; an exception that the endpoint does not catch is a 500.\<close>

definition acs_server :: "('ip, 'net) Env \<Rightarrow> Settings \<Rightarrow> (ProvisioningDoc \<Rightarrow> string) \<Rightarrow> string option \<Rightarrow> MemoryStore server" where
  "acs_server env st to_bytes peer g s = (case handle_configuration_request env st to_bytes (as_request peer g) [] s of
     (Inr resp, s', ev) \<Rightarrow> (Inr resp, s')
   | (Inl e, s', ev) \<Rightarrow> (Inr (plain_response 500 []), s'))"

lemma vers_only_no_application: "application (to_element (build_vers_only_document v validity)) app = None"
  by (simp add: application_def build_vers_only_document_def doc_add_def empty_doc_def vers_characteristic_def
      del: characteristic_element.simps)

lemma parse_vers_only:
  "parse (to_bytes d) = Some (to_element d) \<Longrightarrow> doc_version d = ''1.1'' \<Longrightarrow> parse_document parse (to_bytes d) = Inr (to_element d)"
  by (simp add: parse_document_def to_element_def dict_get_def)

text \<open>The revalidation at the end of both provisioning scenarios passes its three checks against this server.\<close>

lemma revalidation_passes:
  assumes "request_configuration (acs_server env st to_bytes peer) [] (run_sim r) (run_world r) = (Inr resp, run_world r)"
    and "rs_status resp = 200" and "rs_body resp = to_bytes (build_vers_only_document v validity)"
    and "apply_document (to_element (build_vers_only_document v validity)) (run_sim r) = (Inr v, run_sim r)"
    and "\<And>d. parse (to_bytes d) = Some (to_element d)"
  shows "revalidate (acs_server env st to_bytes peer) parse v r =
    (Inr (), r\<lparr>run_checker := (run_checker r)\<lparr>ck_passed := ck_passed (run_checker r) + 3\<rparr>\<rparr>)"
proof -
  let ?d = "build_vers_only_document v validity"
  have "doc_version ?d = ''1.1''" by (simp add: build_vers_only_document_def doc_add_def empty_doc_def)
  then have root: "parse_document parse (rs_body resp) = Inr (to_element ?d)"
    using assms(3,5) parse_vers_only [of parse to_bytes ?d] by simp
  obtain w where "read_vers (to_element ?d) = Inr (v, w)"
    using assms(4) by (auto simp: apply_document_def Let_def split: sum.splits prod.splits if_splits)
  then show ?thesis
    by (simp add: revalidate_def do_request_def assms(1,2) root do_check_def check_condition_def vers_only_no_application)
qed

text \<open>The exit status is zero exactly for a run that ended without a violation and without a failed check.\<close>

lemma exit_zero_iff: "main_status result = Inr 0 \<longleftrightarrow> (\<exists>r. result = (Inr (), r) \<and> ck_failures (run_checker r) = [])"
proof (cases result)
  case (Pair res r)
  show ?thesis
  proof (cases res)
    case (Inl e)
    with Pair show ?thesis by (cases e) (simp_all add: main_status_def summary_ok_def check_condition_def)
  next
    case (Inr u)
    with Pair show ?thesis by (simp add: main_status_def summary_ok_def)
  qed
qed

text \<open>The client does with its token what the version table prescribes.\<close>

lemma client_obeys_table:
  assumes "rule_for v = Inr rule" and "apply_document (to_element (build_vers_only_document v validity)) c = (Inr w, c1)"
  shows "w = v \<and> sim_phase c1 = (if vr_client_disabled rule then ''disabled'' else ''provisioned'') \<and>
    sim_token c1 = (if vr_delete_config rule then [] else sim_token c)"
proof -
  have w: "read_vers (to_element (build_vers_only_document v validity)) = Inr (v, validity)"
    using read_vers_served [OF vers_only_first, of v validity] assms(2)
    by (auto simp: apply_document_def py_int_str_of_int split: if_splits)
  show ?thesis
  proof (cases "0 < v")
    case True
    with assms w show ?thesis by (auto simp: apply_document_def rule_for_def vers_only_no_token)
  next
    case False
    with assms(1) have "v \<in> {0, -1, -2, -3, -4}" using rule_for_Inr [of v] by (auto simp: FORCEABLE_VERSIONS_eq)
    with assms w show ?thesis
      by (auto simp: apply_document_def rule_for_def BY_VERSION_def VERS_RULES_def dict_get_def Let_def)
  qed
qed

end
