(* ===== verification/Dm_Client.thy ===== *)
theory Dm_Client
  imports Rcs_Client Dm_Delivery
begin

text \<open>
  \<^verbatim>\<open>src/tools/dm_client_sim.py\<close>: the simulated OMA-DM client. It builds SyncML messages, follows a server's
  package to its \<open>Final\<close> by asking for more with \<open>Alert\<close> 1222, reads the server's commands, and checks a
  whole session. A message is its element tree, the default namespace not written in the tags. The server,
  writing and parsing XML, MD5 and base64 are arguments; the WBXML codec is the server's own module. The
  loop that follows a package may not end with a server that never sends \<open>Final\<close>, so a run that does not
  return is the value \<^const>\<open>None\<close>. The class \<open>Checker\<close> is the one of the other simulator; what is printed
  is left out.
\<close>

section \<open>The client\<close>

record DmClientSimulator =
  dc_base_url :: string
  dc_dm_path :: string
  dc_imsi :: string
  dc_imei :: string
  dc_password :: string
  dc_auth :: string
  dc_wbxml :: bool
  dc_max_msg_size :: int
  dc_largest_message :: int
  dc_session_id :: string
  dc_msg_id :: int
  dc_nonce :: string
  dc_node_values :: "(string, string) dict"
  dc_received :: "(string, string) dict"

definition new_dm_client :: "string \<Rightarrow> string \<Rightarrow> string \<Rightarrow> string \<Rightarrow> string \<Rightarrow> string \<Rightarrow> string \<Rightarrow> string \<Rightarrow> string \<Rightarrow> bool \<Rightarrow> int \<Rightarrow>
    DmClientSimulator" where
  "new_dm_client base_url imsi imei password dm_path auth manufacturer model sw_version wbxml max_size =
     \<lparr>dc_base_url = py_rstrip_chars ''/'' base_url, dc_dm_path = dm_path, dc_imsi = imsi, dc_imei = imei,
      dc_password = password, dc_auth = auth, dc_wbxml = wbxml, dc_max_msg_size = max_size, dc_largest_message = 0,
      dc_session_id = ''42'', dc_msg_id = 0, dc_nonce = [],
      dc_node_values = [(''./DevInfo/DevId'', ''IMEI:'' @ imei), (''./DevInfo/Man'', manufacturer), (''./DevInfo/Mod'', model),
        (''./DevInfo/DmV'', ''1.2''), (''./DevInfo/Lang'', ''en''), (''./DevDetail/DevTyp'', ''phone''),
        (''./DevDetail/OEM'', manufacturer), (''./DevDetail/FwV'', sw_version), (''./DevDetail/SwV'', sw_version),
        (''./DevDetail/HwV'', ''rev1''), (''./DevDetail/LrgObj'', ''true''), (''./DevDetail/URI/MaxDepth'', ''16''),
        (''./DevDetail/URI/MaxTotLen'', ''512''), (''./DevDetail/URI/MaxSegLen'', ''64'')],
      dc_received = []\<rparr>"

text \<open>What the client gets from outside.\<close>

record DmClientEnv =
  dce_md5 :: "string \<Rightarrow> string"
  dce_b64encode :: "string \<Rightarrow> string"
  dce_tostring :: "xml \<Rightarrow> string"
  dce_fromstring :: "string \<Rightarrow> xml option"
  dce_expat :: "string \<Rightarrow> (bool \<times> et) option"

definition credential :: "DmClientEnv \<Rightarrow> DmClientSimulator \<Rightarrow> string \<times> string" where
  "credential ce c =
     (if dc_auth c = ''md5''
      then (let inner = dce_md5 ce (utf8 (dc_imsi c @ '':'' @ dc_password c));
                digest = dce_md5 ce (dce_b64encode ce inner @ '':'' @ utf8 (dc_nonce c))
            in (''syncml:auth-md5'', dce_b64encode ce digest))
      else (''syncml:auth-basic'', dce_b64encode ce (utf8 (dc_imsi c @ '':'' @ dc_password c))))"

section \<open>Messages of the client\<close>

text \<open>\<open>_envelope\<close> counts the message and makes the header; the callers fill the body.\<close>

definition count_message :: "DmClientSimulator \<Rightarrow> DmClientSimulator" where
  "count_message c = c\<lparr>dc_msg_id := dc_msg_id c + 1\<rparr>"

definition envelope :: "DmClientEnv \<Rightarrow> bool \<Rightarrow> DmClientSimulator \<Rightarrow> xml list \<Rightarrow> xml" where
  "envelope ce with_credentials c body = branch ''SyncML''
     [branch ''SyncHdr''
        ([leaf ''VerDTD'' ''1.2'', leaf ''VerProto'' ''DM/1.2'', leaf ''SessionID'' (dc_session_id c),
          leaf ''MsgID'' (str_of_int (dc_msg_id c)),
          branch ''Target'' [leaf ''LocURI'' (dc_base_url c @ dc_dm_path c)],
          branch ''Source'' [leaf ''LocURI'' (''IMEI:'' @ dc_imei c), leaf ''LocName'' (dc_imsi c)]] @
         (if with_credentials
          then [branch ''Cred'' [branch ''Meta'' [metinf_leaf ''Format'' ''b64'', metinf_leaf ''Type'' (fst (credential ce c))],
                  leaf ''Data'' (snd (credential ce c))]]
          else []) @
         [branch ''Meta'' [metinf_leaf ''MaxMsgSize'' (str_of_int (dc_max_msg_size c))]]),
      branch ''SyncBody'' body]"

definition dc_alert :: "int \<Rightarrow> string \<Rightarrow> xml" where
  "dc_alert cmd_id code = branch ''Alert'' [leaf ''CmdID'' (str_of_int cmd_id), leaf ''Data'' code]"

definition dc_replace :: "DmClientSimulator \<Rightarrow> int \<Rightarrow> string list \<Rightarrow> xml" where
  "dc_replace c cmd_id uris = branch ''Replace'' (leaf ''CmdID'' (str_of_int cmd_id) #
     map (\<lambda>uri. branch ''Item'' [branch ''Source'' [leaf ''LocURI'' uri],
       branch ''Meta'' [metinf_leaf ''Format'' ''chr'', metinf_leaf ''Type'' ''text/plain''],
       leaf ''Data'' (dict_get_or (dc_node_values c) uri [])]) uris)"

definition dc_results :: "DmClientSimulator \<Rightarrow> int \<Rightarrow> string \<Rightarrow> string list \<Rightarrow> xml" where
  "dc_results c cmd_id cmd_ref uris = branch ''Results'' ([leaf ''CmdID'' (str_of_int cmd_id),
     leaf ''MsgRef'' (str_of_int (dc_msg_id c - 1)), leaf ''CmdRef'' cmd_ref] @
     map (\<lambda>uri. branch ''Item'' [branch ''Source'' [leaf ''LocURI'' uri],
       leaf ''Data'' (dict_get_or (dc_node_values c) uri [])]) uris)"

text \<open>A command reference that is Python's \<open>None\<close> gives an element without a text.\<close>

definition dc_status :: "int \<Rightarrow> string \<Rightarrow> string option \<Rightarrow> string \<Rightarrow> xml" where
  "dc_status cmd_id msg_ref cmd_ref cmd = branch ''Status'' [leaf ''CmdID'' (str_of_int cmd_id), leaf ''MsgRef'' msg_ref,
     Xml (Some ''CmdRef'') cmd_ref [], leaf ''Cmd'' cmd, leaf ''Data'' ''200'']"

definition dc_final :: xml where
  "dc_final = branch ''Final'' []"

section \<open>Posting\<close>

datatype dm_client_error = DmHttpError string | DmWbxmlError | DmXmlError

record http_post =
  hp_url :: string
  hp_content :: string
  hp_headers :: "(string, string) dict"

type_synonym 'w dm_server = "http_post \<Rightarrow> 'w \<Rightarrow> (dm_client_error + HttpResponse) \<times> 'w"

definition dm_content_type :: "DmClientSimulator \<Rightarrow> string" where
  "dm_content_type c = (if dc_wbxml c then ''application/vnd.syncml.dm+wbxml'' else ''application/vnd.syncml.dm+xml'')"

definition dm_post :: "DmClientEnv \<Rightarrow> 'w dm_server \<Rightarrow> DmClientSimulator \<Rightarrow> string \<Rightarrow> 'w \<Rightarrow> (dm_client_error + HttpResponse) \<times> 'w" where
  "dm_post ce server c payload w =
     (case (if dc_wbxml c then wbxml_encode (dce_expat ce) payload 3 NoPublicId False False else Inr payload) of
        Inl _ \<Rightarrow> (Inl DmWbxmlError, w)
      | Inr content \<Rightarrow>
          bind_step (server \<lparr>hp_url = dc_base_url c @ dc_dm_path c, hp_content = content,
              hp_headers = [(''Content-Type'', dm_content_type c), (''Accept'', dm_content_type c)]\<rparr> w) (\<lambda>response w.
            if dc_wbxml c \<and> py_lower (py_strip (py_before CHR '';'' (opt_or (rs_media_type response) []))) \<noteq> ''application/vnd.syncml.dm+wbxml''
            then (Inl DmWbxmlError, w) else (Inr response, w)))"

section \<open>Reading an answer\<close>

record parsed_package =
  pk_statuses :: "(string \<times> string \<times> bool) list"
  pk_gets :: "string list"
  pk_replaces :: "(string, string) dict"
  pk_final :: bool
  pk_challenge :: string
  pk_replace_cmd_ref :: "string option option"

definition empty_package :: parsed_package where
  "empty_package = \<lparr>pk_statuses = [], pk_gets = [], pk_replaces = [], pk_final = False, pk_challenge = [],
     pk_replace_cmd_ref = None\<rparr>"

abbreviation own_name :: "xml \<Rightarrow> string" where
  "own_name e \<equiv> local_name (xml_tag e)"

abbreviation own_text :: "xml \<Rightarrow> string" where
  "own_text e \<equiv> text_of (Some e)"

text \<open>The last text of a name in a list of elements.\<close>

definition last_text :: "string \<Rightarrow> xml list \<Rightarrow> string \<Rightarrow> string" where
  "last_text name es dflt = fold (\<lambda>e t. if own_name e = name then own_text e else t) es dflt"

definition read_status :: "xml \<Rightarrow> parsed_package \<Rightarrow> parsed_package" where
  "read_status e p =
     p\<lparr>pk_challenge := last_text ''NextNonce'' (concat (map xml_iter (filter (\<lambda>c. own_name c = ''Chal'') (xml_children e)))) (pk_challenge p),
       pk_statuses := pk_statuses p @ [(last_text ''Cmd'' (xml_children e) [], last_text ''Data'' (xml_children e) [],
         list_ex (\<lambda>c. own_name c = ''Chal'') (xml_children e))]\<rparr>"

definition read_get :: "xml \<Rightarrow> parsed_package \<Rightarrow> parsed_package" where
  "read_get e p = p\<lparr>pk_gets := pk_gets p @ concat (map (\<lambda>item. map own_text (filter (\<lambda>s. own_name s = ''LocURI'') (xml_iter item)))
     (filter (\<lambda>c. own_name c = ''Item'') (xml_children e)))\<rparr>"

definition read_replace_item :: "xml \<Rightarrow> (string, string) dict \<Rightarrow> (string, string) dict" where
  "read_replace_item item d =
     (let uri = last_text ''LocURI'' (xml_iter item) []; data = last_text ''Data'' (xml_iter item) []
      in if uri \<noteq> [] then dict_put uri data d else d)"

definition read_replace :: "xml \<Rightarrow> parsed_package \<Rightarrow> parsed_package" where
  "read_replace e p =
     p\<lparr>pk_replaces := fold read_replace_item (filter (\<lambda>c. own_name c = ''Item'') (xml_children e)) (pk_replaces p),
       pk_replace_cmd_ref := Some (Some (last_text ''CmdID'' (xml_children e) []))\<rparr>"

definition read_element :: "xml \<Rightarrow> parsed_package \<Rightarrow> parsed_package" where
  "read_element e p =
     (if own_name e = ''Final'' then p\<lparr>pk_final := True\<rparr>
      else if own_name e = ''Status'' then read_status e p
      else if own_name e = ''Get'' then read_get e p
      else if own_name e = ''Replace'' then read_replace e p
      else p)"

definition read_tree :: "xml \<Rightarrow> parsed_package" where
  "read_tree root = fold read_element (xml_iter root) empty_package"

definition parse_answer :: "DmClientEnv \<Rightarrow> DmClientSimulator \<Rightarrow> string \<Rightarrow> dm_client_error + parsed_package" where
  "parse_answer ce c payload =
     (case (if dc_wbxml c then wbxml_decode payload else Inr payload) of
        Inl _ \<Rightarrow> Inl DmWbxmlError
      | Inr text \<Rightarrow> (case dce_fromstring ce text of None \<Rightarrow> Inl DmXmlError | Some root \<Rightarrow> Inr (read_tree root)))"

section \<open>Following a package\<close>

definition note_size :: "HttpResponse \<Rightarrow> DmClientSimulator \<Rightarrow> DmClientSimulator" where
  "note_size response c = c\<lparr>dc_largest_message := max (dc_largest_message c) (int (length (rs_body response)))\<rparr>"

text \<open>One message and its answer: the client after it keeps what it counted even if an exception ends it.\<close>

definition send_message :: "DmClientEnv \<Rightarrow> 'w dm_server \<Rightarrow> DmClientSimulator \<Rightarrow> xml list \<Rightarrow> 'w \<Rightarrow>
    (dm_client_error + HttpResponse \<times> parsed_package) \<times> DmClientSimulator \<times> 'w" where
  "send_message ce server c body w =
     (case dm_post ce server c (dce_tostring ce (envelope ce True c body)) w of
        (Inl e, w') \<Rightarrow> (Inl e, c, w')
      | (Inr response, w') \<Rightarrow>
          (bind_err (parse_answer ce c (rs_body response)) (\<lambda>p. Inr (response, p)), note_size response c, w'))"

definition merge_package :: "parsed_package \<Rightarrow> parsed_package \<Rightarrow> parsed_package" where
  "merge_package parsed following =
     \<lparr>pk_statuses = pk_statuses parsed @ pk_statuses following, pk_gets = pk_gets parsed @ pk_gets following,
      pk_replaces = fold (\<lambda>(k, v) d. dict_put k v d) (pk_replaces following) (pk_replaces parsed),
      pk_final = pk_final following, pk_challenge = str_or (pk_challenge following) (pk_challenge parsed),
      pk_replace_cmd_ref = Some (case pk_replace_cmd_ref following of
          Some ref \<Rightarrow> ref
        | None \<Rightarrow> (case pk_replace_cmd_ref parsed of Some ref \<Rightarrow> ref | None \<Rightarrow> None))\<rparr>"

definition more_body :: "DmClientSimulator \<Rightarrow> xml list" where
  "more_body c = [dc_status 1 (str_of_int (dc_msg_id c - 1)) (Some ''0'') ''SyncHdr'', dc_alert 2 ''1222'']"

definition ask_more :: "DmClientEnv \<Rightarrow> 'w dm_server \<Rightarrow> DmClientSimulator \<Rightarrow> 'w \<Rightarrow>
    (dm_client_error + HttpResponse \<times> parsed_package) \<times> DmClientSimulator \<times> 'w" where
  "ask_more ce server c w = (let c' = count_message c in send_message ce server c' (more_body c') w)"

partial_function (option) follow :: "DmClientEnv \<Rightarrow> 'w dm_server \<Rightarrow> DmClientSimulator \<Rightarrow> HttpResponse \<Rightarrow> parsed_package \<Rightarrow> 'w \<Rightarrow>
    ((dm_client_error + HttpResponse \<times> parsed_package) \<times> DmClientSimulator \<times> 'w) option" where
  "follow ce server c response parsed w =
     (if rs_status response = 200 \<and> \<not> pk_final parsed
      then (case ask_more ce server c w of
          (Inl e, c', w') \<Rightarrow> Some (Inl e, c', w')
        | (Inr (response', following), c', w') \<Rightarrow> follow ce server c' response' (merge_package parsed following) w')
      else Some (Inr (response, parsed), c, w))"

text \<open>\<open>exchange\<close>: the message whose body is given, and the rest of the answer.\<close>

definition exchange :: "DmClientEnv \<Rightarrow> 'w dm_server \<Rightarrow> DmClientSimulator \<Rightarrow> xml list \<Rightarrow> 'w \<Rightarrow>
    ((dm_client_error + HttpResponse \<times> parsed_package) \<times> DmClientSimulator \<times> 'w) option" where
  "exchange ce server c body w = (case send_message ce server c body w of
     (Inl e, c', w') \<Rightarrow> Some (Inl e, c', w')
   | (Inr (response, parsed), c', w') \<Rightarrow> follow ce server c' response parsed w')"

section \<open>A session\<close>

record 'w dm_run =
  dmr_sim :: DmClientSimulator
  dmr_checker :: Checker
  dmr_world :: 'w

type_synonym ('w, 'a) dm_step = "((dm_client_error + 'a) \<times> 'w dm_run) option"

definition dm_bind :: "('w, 'a) dm_step \<Rightarrow> ('a \<Rightarrow> 'w dm_run \<Rightarrow> ('w, 'b) dm_step) \<Rightarrow> ('w, 'b) dm_step" where
  "dm_bind m f = (case m of None \<Rightarrow> None | Some (Inl e, r) \<Rightarrow> Some (Inl e, r) | Some (Inr a, r) \<Rightarrow> f a r)"

definition dm_exchange_step :: "DmClientEnv \<Rightarrow> 'w dm_server \<Rightarrow> (DmClientSimulator \<Rightarrow> xml list) \<Rightarrow> 'w dm_run \<Rightarrow>
    ('w, HttpResponse \<times> parsed_package) dm_step" where
  "dm_exchange_step ce server body r =
     (let c = count_message (dmr_sim r)
      in map_option (\<lambda>(res, c', w'). (res, r\<lparr>dmr_sim := c', dmr_world := w'\<rparr>)) (exchange ce server c (body c) (dmr_world r)))"

definition dm_checks :: "(bool \<times> string) list \<Rightarrow> 'w dm_run \<Rightarrow> ('w, unit) dm_step" where
  "dm_checks checks r = Some (Inr (), r\<lparr>dmr_checker := fold (\<lambda>(condition, description). check_condition condition description)
     checks (dmr_checker r)\<rparr>)"

definition header_code :: "parsed_package \<Rightarrow> string option" where
  "header_code p = map_option (\<lambda>(cmd, code, chal). code) (List.find (\<lambda>(cmd, code, chal). cmd = ''SyncHdr'') (pk_statuses p))"

definition challenged :: "parsed_package \<Rightarrow> bool" where
  "challenged p \<longleftrightarrow> pk_challenge p \<noteq> [] \<or> list_ex (\<lambda>(cmd, code, chal). code = ''401'') (pk_statuses p)"

definition init_body :: "string list \<Rightarrow> DmClientSimulator \<Rightarrow> xml list" where
  "init_body uris c = [dc_alert 1 ''1201'', dc_replace c 2 uris, dc_final]"

definition results_body :: "string list \<Rightarrow> DmClientSimulator \<Rightarrow> xml list" where
  "results_body requested c = [dc_status 1 (str_of_int (dc_msg_id c - 1)) (Some ''0'') ''SyncHdr'', dc_results c 2 ''2'' requested, dc_final]"

definition closing_body :: "parsed_package \<Rightarrow> DmClientSimulator \<Rightarrow> xml list" where
  "closing_body p c = [dc_status 1 (str_of_int (dc_msg_id c - 1)) (Some ''0'') ''SyncHdr'',
     dc_status 2 (str_of_int (dc_msg_id c - 1)) (case pk_replace_cmd_ref p of None \<Rightarrow> Some ''1'' | Some ref \<Rightarrow> ref) ''Replace'', dc_final]"

definition answer_challenge :: "parsed_package \<Rightarrow> DmClientSimulator \<Rightarrow> DmClientSimulator" where
  "answer_challenge p c = c\<lparr>dc_nonce := pk_challenge p, dc_auth := (if pk_challenge p \<noteq> [] then ''md5'' else dc_auth c)\<rparr>"

definition configuration_checks :: "DmClientSimulator \<Rightarrow> (bool \<times> string) list" where
  "configuration_checks c =
     (let received = dc_received c
      in [(received \<noteq> [], ''server pushed configuration with Replace''),
          (list_ex (\<lambda>(uri, v). py_startswith uri ''./3GPP_IMS/'') received, ''3GPP IMS management object nodes pushed''),
          (dict_get received ''./3GPP_IMS/1/Voice_Domain_Preference_E_UTRAN'' \<noteq> None, ''VoLTE voice domain preference pushed over OMA-DM''),
          (dict_get received ''./3GPP_IMS/1/SMS_Over_IP_Networks_Indication'' \<noteq> None, ''SMSoIP indication pushed over OMA-DM''),
          (contains (dc_imsi c) (dict_get_or received ''./3GPP_IMS/1/Private_User_Identity'' []), ''IMPI in the DM push derives from the IMSI''),
          (list_ex (\<lambda>(uri, v). py_startswith uri ''./RCS/'') received, ''RCS extension management object nodes pushed'')])"

definition run_session :: "DmClientEnv \<Rightarrow> 'w dm_server \<Rightarrow> 'w dm_run \<Rightarrow> ('w, unit) dm_step" where
  "run_session ce server r =
     dm_bind (dm_exchange_step ce server (init_body
       [''./DevInfo/DevId'', ''./DevInfo/Man'', ''./DevInfo/Mod'', ''./DevInfo/DmV'', ''./DevInfo/Lang'']) r) (\<lambda>(response, parsed) r.
     dm_bind (dm_checks [(rs_status response = 200, ''server answered 200, got '' @ str_of_int (rs_status response))] r) (\<lambda>_ r.
     dm_bind (if challenged parsed
         then dm_exchange_step ce server (init_body [''./DevInfo/DevId'', ''./DevInfo/Man'', ''./DevInfo/Mod''])
                (r\<lparr>dmr_sim := answer_challenge parsed (dmr_sim r)\<rparr>)
         else Some (Inr (response, parsed), r)) (\<lambda>(response, parsed) r.
     dm_bind (dm_checks [(header_code parsed = Some ''200'' \<or> header_code parsed = Some ''212'',
           ''SyncHdr acknowledged with 200/212, got '' @ (case header_code parsed of None \<Rightarrow> ''none'' | Some code \<Rightarrow> code)),
         (pk_gets parsed \<noteq> [], ''server requested the device inventory with Get''),
         (pk_final parsed, ''server package ended with Final'')] r) (\<lambda>_ r.
     dm_bind (dm_exchange_step ce server (results_body (pk_gets parsed)) r) (\<lambda>(response, parsed) r.
     dm_bind (dm_checks [(rs_status response = 200, ''server answered 200 to the results package'')] r) (\<lambda>_ r.
     let r = r\<lparr>dmr_sim := (dmr_sim r)\<lparr>dc_received := pk_replaces parsed\<rparr>\<rparr> in
     dm_bind (dm_checks (configuration_checks (dmr_sim r)) r) (\<lambda>_ r.
     dm_bind (dm_exchange_step ce server (closing_body parsed) r) (\<lambda>(response, parsed) r.
     dm_checks [(rs_status response = 200, ''server answered 200 to the final package''),
       (pk_final parsed, ''server closed the session with Final and no new commands''),
       (pk_gets parsed = [], ''no further commands were issued''),
       (dc_largest_message (dmr_sim r) \<le> dc_max_msg_size (dmr_sim r),
        ''no server message exceeded MaxMsgSize '' @ str_of_int (dc_max_msg_size (dmr_sim r)) @
        '' (largest '' @ str_of_int (dc_largest_message (dmr_sim r)) @ '' bytes)'')] r))))))))"

text \<open>The part of \<open>main\<close> after the command line.\<close>

definition dm_main_status :: "('w, unit) dm_step \<Rightarrow> (dm_client_error + int) option" where
  "dm_main_status result = map_option (\<lambda>res. case res of
     (Inl (DmHttpError _), r) \<Rightarrow> Inr 2
   | (Inl DmWbxmlError, r) \<Rightarrow> Inr 1
   | (Inl DmXmlError, r) \<Rightarrow> Inl DmXmlError
   | (Inr _, r) \<Rightarrow> Inr (if summary_ok (dmr_checker r) then 0 else 1)) result"

end
