(* ===== verification/Dm_Follow.thy ===== *)
theory Dm_Follow
  imports Dm_Client
begin

text \<open>
  The simulated OMA-DM client against the server's session service. What the client reads in a message that
  the server built is what the entries of the package say; each request for more is one that the server
  understands and answers with the next part; so the client's loop ends, and at its end the client holds the
  whole package.
\<close>

section \<open>Reading a tree that was written\<close>

text \<open>XML does not tell an empty text from none: what is read back is the tree in this form.\<close>

fun canon :: "xml \<Rightarrow> xml" where
  "canon (Xml t x cs) = Xml t (if x = Some [] then None else x) (map canon cs)"

lemma canon_simps [simp]:
  "xml_tag (canon e) = xml_tag e" "xml_children (canon e) = map canon (xml_children e)"
  "text_of (Some (canon e)) = own_text e"
  by (cases e; simp add: text_of_def)+

lemma xml_iter_canon: "xml_iter (canon e) = map canon (xml_iter e)"
proof (induction e)
  case (Xml t x cs)
  then have "concat (map xml_iter (map canon cs)) = map canon (concat (map xml_iter cs))"
    by (induction cs) auto
  then show ?case by simp
qed

lemma find_canon: "List.find (\<lambda>c. own_name c = n) (map canon es) = map_option canon (List.find (\<lambda>c. own_name c = n) es)"
  by (induction es) auto

lemma text_of_canon: "text_of (map_option canon x) = text_of x"
  by (cases x) simp_all

lemma lookup_canon [simp]:
  "find_child (canon e) n = map_option canon (find_child e n)"
  "find_all (canon e) n = map canon (find_all e n)"
  "deep_text (canon e) n = deep_text e n"
  "deep_text_opt (map_option canon x) n = deep_text_opt x n"
proof -
  show deep: "deep_text (canon e) n = deep_text e n" for e
    by (simp add: deep_text_def xml_iter_canon find_canon text_of_canon)
  show "find_child (canon e) n = map_option canon (find_child e n)" by (simp add: find_child_def find_canon)
  show "find_all (canon e) n = map canon (find_all e n)" by (simp add: find_all_def filter_map comp_def)
  show "deep_text_opt (map_option canon x) n = deep_text_opt x n" by (cases x) (simp_all add: deep_text_opt_def deep)
qed

lemma parse_canon: "parse_syncml (canon root) = parse_syncml root"
proof -
  have item: "parse_item (canon e) = parse_item e" for e by (simp add: parse_item_def text_of_canon)
  have command: "parse_command n (canon e) = parse_command n e" for n e
    by (simp add: parse_command_def text_of_canon comp_def item)
  have body: "parse_body (map canon es) = parse_body es" for es
    by (induction es) (simp_all add: command Let_def)
  have cred: "map_option parse_credentials (map_option canon x) = map_option parse_credentials x" for x
    by (cases x) (simp_all add: parse_credentials_def)
  have header: "parse_header (canon e) = parse_header e" for e
    by (cases "find_child e ''Meta''") (simp_all add: parse_header_def text_of_canon cred)
  show ?thesis
    by (cases "find_child root ''SyncHdr''"; cases "find_child root ''SyncBody''")
      (simp_all add: parse_syncml_def header body)
qed

lemma last_text_canon: "last_text n (map canon es) d = last_text n es d"
  by (induction es arbitrary: d) (simp_all add: last_text_def)

lemma read_element_canon: "read_element (canon e) = read_element e"
proof -
  have iters: "concat (map (\<lambda>e. map canon (xml_iter e)) es) = map canon (concat (map xml_iter es))" for es
    by (simp add: map_concat comp_def)
  have filters: "filter (\<lambda>c. own_name c = n) (map canon es) = map canon (filter (\<lambda>c. own_name c = n) es)" for n es
    by (simp add: filter_map comp_def)
  have "read_replace_item (canon i) = read_replace_item i" for i
    by (simp add: read_replace_item_def fun_eq_iff xml_iter_canon last_text_canon)
  then have replaces: "fold read_replace_item (map canon es) d = fold read_replace_item es d" for es d
    by (induction es arbitrary: d) simp_all
  have locs: "map own_text (filter (\<lambda>s. own_name s = n) (map canon es)) = map own_text (filter (\<lambda>s. own_name s = n) es)" for n es
    by (simp add: filters comp_def)
  have "list_ex P (map canon es) = list_ex (P \<circ> canon) es" for P es by (induction es) simp_all
  then show ?thesis
    by (simp add: fun_eq_iff read_element_def read_status_def read_get_def read_replace_def filters iters last_text_canon
        replaces comp_def xml_iter_canon locs)
qed

lemma read_tree_canon: "read_tree (canon root) = read_tree root"
proof -
  have "fold read_element (map canon es) p = fold read_element es p" for es p
    by (induction es arbitrary: p) (simp_all add: read_element_canon)
  then show ?thesis by (simp add: read_tree_def xml_iter_canon)
qed

text \<open>A parser also turns the ends of lines into newlines.\<close>

definition carriage_return :: char where
  "carriage_return = CHR 0x0D"

fun xml_newlines :: "string \<Rightarrow> string" where
  "xml_newlines [] = []"
| "xml_newlines [c] = [if c = carriage_return then newline else c]"
| "xml_newlines (c # d # s) =
     (if c = carriage_return then newline # xml_newlines (if d = newline then s else d # s) else c # xml_newlines (d # s))"

fun normal :: "xml \<Rightarrow> xml" where
  "normal (Xml t x cs) = Xml t (map_option xml_newlines x) (map normal cs)"

text \<open>Elements with the names SyncML has: letters only, perhaps in the namespace of the meta information. A tree
  of such elements, once written, is read back or not at all.\<close>

definition letters :: "string \<Rightarrow> bool" where
  "letters n \<longleftrightarrow> n \<noteq> [] \<and> list_all (\<lambda>c. 65 \<le> code_of c \<and> code_of c \<le> 90 \<or> 97 \<le> code_of c \<and> code_of c \<le> 122) n"

definition syncml_tag :: "string option \<Rightarrow> bool" where
  "syncml_tag t \<longleftrightarrow> (case t of None \<Rightarrow> False | Some n \<Rightarrow>
     letters (if py_startswith n ''{syncml:metinf}'' then drop (length ''{syncml:metinf}'') n else n))"

fun named :: "xml \<Rightarrow> bool" where
  "named (Xml t x cs) \<longleftrightarrow> syncml_tag t \<and> list_all named cs"

lemma xml_newlines_id: "carriage_return \<notin> set s \<Longrightarrow> xml_newlines s = s"
  by (induction s rule: xml_newlines.induct) auto

lemma xml_newlines_Nil [simp]: "xml_newlines s = [] \<longleftrightarrow> s = []"
  by (cases s rule: xml_newlines.cases) simp_all

declare xml_newlines.simps [simp del]

lemma normal_simps [simp]:
  "normal (leaf n t) = leaf n (xml_newlines t)" "normal (metinf_leaf n t) = metinf_leaf n (xml_newlines t)"
  "normal (branch n cs) = branch n (map normal cs)"
  by (simp_all add: leaf_def metinf_leaf_def branch_def)

lemma named_simps [simp]:
  "named (leaf n t) \<longleftrightarrow> syncml_tag (Some n)" "named (metinf_leaf n t) \<longleftrightarrow> syncml_tag (metinf n)"
  "named (branch n cs) \<longleftrightarrow> syncml_tag (Some n) \<and> list_all named cs"
  by (simp_all add: leaf_def metinf_leaf_def branch_def)

lemma tags [simp]:
  "syncml_tag (Some ''CmdID'')" "syncml_tag (Some ''MsgRef'')" "syncml_tag (Some ''CmdRef'')"
  "syncml_tag (Some ''Cmd'')" "syncml_tag (Some ''TargetRef'')" "syncml_tag (Some ''Data'')"
  "syncml_tag (Some ''Status'')" "syncml_tag (Some ''Chal'')" "syncml_tag (Some ''Meta'')"
  "syncml_tag (Some ''Item'')" "syncml_tag (Some ''Target'')" "syncml_tag (Some ''LocURI'')"
  "syncml_tag (Some ''Get'')" "syncml_tag (Some ''Add'')" "syncml_tag (Some ''Replace'')"
  "syncml_tag (Some ''SyncML'')" "syncml_tag (Some ''SyncHdr'')" "syncml_tag (Some ''SyncBody'')"
  "syncml_tag (Some ''VerDTD'')" "syncml_tag (Some ''VerProto'')" "syncml_tag (Some ''SessionID'')"
  "syncml_tag (Some ''MsgID'')" "syncml_tag (Some ''Source'')" "syncml_tag (Some ''LocName'')"
  "syncml_tag (Some ''Cred'')" "syncml_tag (Some ''Final'')" "syncml_tag (Some ''Alert'')"
  "syncml_tag (Some ''{syncml:metinf}Format'')" "syncml_tag (Some ''{syncml:metinf}Type'')"
  "syncml_tag (Some ''{syncml:metinf}NextNonce'')" "syncml_tag (Some ''{syncml:metinf}MaxMsgSize'')"
  by code_simp+

section \<open>What the client reads in a server's message\<close>

definition inert :: "xml \<Rightarrow> bool" where
  "inert e \<longleftrightarrow> own_name e \<notin> {''Final'', ''Status'', ''Get'', ''Replace''}"

lemma read_inert: "list_all inert es \<Longrightarrow> fold read_element es p = p"
  by (induction es arbitrary: p) (simp_all add: inert_def read_element_def)

text \<open>An entry of a package as the client takes it.\<close>

definition wire_get :: "Entry \<Rightarrow> string list" where
  "wire_get e = (case e of Item c u d f t \<Rightarrow> if c = ''Get'' then [py_strip (xml_newlines u)] else [] | Status _ _ _ _ _ \<Rightarrow> [])"

definition wire_put :: "Entry \<Rightarrow> (string, string) dict \<Rightarrow> (string, string) dict" where
  "wire_put e r = (case e of
     Item c u d f t \<Rightarrow> if c = ''Replace'' \<and> py_strip (xml_newlines u) \<noteq> []
     then dict_put (py_strip (xml_newlines u)) (py_strip (xml_newlines d)) r else r
   | Status _ _ _ _ _ \<Rightarrow> r)"

definition takes :: "xml list \<Rightarrow> Entry list \<Rightarrow> bool" where
  "takes xs es \<longleftrightarrow> list_all named xs \<and> (\<forall>p. let p' = fold read_element (concat (map xml_iter (map normal xs))) p in
     pk_gets p' = pk_gets p @ concat (map wire_get es) \<and> pk_replaces p' = fold wire_put es (pk_replaces p) \<and>
     pk_final p' = pk_final p)"

lemma takes_Nil: "takes [] []"
  by (simp add: takes_def)

lemma takes_append: "takes xs es \<Longrightarrow> takes ys fs \<Longrightarrow> takes (xs @ ys) (es @ fs)"
  by (simp add: takes_def Let_def)

lemma read_command_element:
  assumes "list_all inert (concat (map xml_iter cs))"
  shows "fold read_element (xml_iter (branch n cs)) p = read_element (branch n cs) p"
  using read_inert [OF assms] by simp

lemma inert_names:
  "CHR ''}'' \<notin> set n \<Longrightarrow> n \<notin> {''Final'', ''Status'', ''Get'', ''Replace''} \<Longrightarrow> inert (leaf n t)"
  "CHR ''}'' \<notin> set n \<Longrightarrow> n \<notin> {''Final'', ''Status'', ''Get'', ''Replace''} \<Longrightarrow> inert (metinf_leaf n t)"
  "CHR ''}'' \<notin> set n \<Longrightarrow> n \<notin> {''Final'', ''Status'', ''Get'', ''Replace''} \<Longrightarrow> inert (branch n cs)"
  by (simp_all add: inert_def local_name_plain)

text \<open>A command is read at its own element: the elements inside it say nothing.\<close>

lemma takes_branch:
  assumes "syncml_tag (Some n)" "list_all named cs" "list_all inert (concat (map xml_iter (map normal cs)))"
    "\<And>p. let p' = read_element (branch n (map normal cs)) p in pk_gets p' = pk_gets p @ concat (map wire_get es) \<and>
       pk_replaces p' = fold wire_put es (pk_replaces p) \<and> pk_final p' = pk_final p"
  shows "takes [branch n cs] es"
proof -
  have "fold read_element (concat (map xml_iter (map normal [branch n cs]))) p = read_element (branch n (map normal cs)) p" for p
    using read_command_element [OF assms(3)] by (simp del: xml_iter.simps branch_simps(4))
  with assms show ?thesis unfolding takes_def by simp
qed

lemma takes_status:
  "\<exists>x. status_command b cmd mr cr code tr chl = b\<lparr>sb_commands := sb_commands b @ [x], sb_next_cmd_id := sb_next_cmd_id b + 1\<rparr> \<and>
     takes [x] [Status cmd mr cr code tr]"
proof -
  define cs where "cs = leaf ''CmdID'' (str_of_int (sb_next_cmd_id b)) # [leaf ''MsgRef'' (str_or mr ''1''), leaf ''CmdRef'' (str_or cr ''0''), leaf ''Cmd'' cmd] @
      (if tr \<noteq> [] then [leaf ''TargetRef'' tr] else []) @ (case chl of None \<Rightarrow> [] | Some c \<Rightarrow> [chal c]) @ [leaf ''Data'' code]"
  have "list_all named cs" "list_all inert (concat (map xml_iter (map normal cs)))"
    by (cases chl; simp add: cs_def inert_names chal_def)+
  then have "takes [branch ''Status'' cs] [Status cmd mr cr code tr]"
    by (intro takes_branch)
      (simp_all add: wire_get_def wire_put_def read_element_def local_name_plain read_status_def Let_def)
  then show ?thesis by (auto simp: status_command_def append_command_def cs_def)
qed

lemma normal_items [simp]:
  "normal (target_uri u) = target_uri (xml_newlines u)"
  "normal (replace_item (u, d, f, t)) = replace_item (xml_newlines u, xml_newlines d, xml_newlines f, xml_newlines t)"
  by (simp_all add: target_uri_def replace_item_def meta_def)

lemma named_items [simp]: "named (target_uri u)" "named (replace_item v)" "named (add_item v)"
  by (cases v; simp add: target_uri_def replace_item_def add_item_def meta_def)+

lemma inert_items: "list_all inert (xml_iter (branch ''Item'' [target_uri u]))"
  "list_all inert (xml_iter (replace_item v))" "list_all inert (xml_iter (add_item v))"
  by (cases v; simp add: inert_names target_uri_def replace_item_def add_item_def meta_def)+

lemma inert_normal [simp]: "list_all inert (xml_iter (normal e)) = list_all inert (xml_iter e)"
proof (induction e)
  case (Xml t x cs)
  then have "list_all inert (concat (map xml_iter (map normal cs))) = list_all inert (concat (map xml_iter cs))"
    by (induction cs) auto
  moreover have "inert (Xml t (map_option xml_newlines x) (map normal cs)) = inert (Xml t x cs)" by (simp add: inert_def)
  ultimately show ?case by simp
qed

lemma inert_command: "(\<And>i. i \<in> set is \<Longrightarrow> list_all inert (xml_iter (f i))) \<Longrightarrow>
    list_all inert (concat (map xml_iter (leaf ''CmdID'' n # map f is)))"
  by (auto simp: inert_names list_all_iff)

lemma item_elements:
  "(\<And>i. i \<in> set is \<Longrightarrow> own_name (f i) = ''Item'') \<Longrightarrow>
    filter (\<lambda>c. own_name c = ''Item'') (leaf ''CmdID'' n # map f is) = map f is"
  by (simp add: local_name_plain filter_map filter_id_conv)

lemma locations_of_item:
  "map own_text (filter (\<lambda>s. own_name s = ''LocURI'') (xml_iter (branch ''Item'' [target_uri u]))) = [py_strip u]"
  by (simp add: target_uri_def local_name_plain)

lemma read_built_item:
  "read_replace_item (replace_item (u, d, f, t)) r = (if py_strip u \<noteq> [] then dict_put (py_strip u) (py_strip d) r else r)"
  by (simp add: read_replace_item_def replace_item_def target_uri_def meta_def last_text_def local_name_plain Let_def)

lemma replace_item_name: "own_name (replace_item v) = ''Item''"
  by (cases v) (simp add: replace_item_def local_name_plain)

text \<open>The three kinds of items that a package has.\<close>

abbreviation entry_value :: "Entry \<Rightarrow> node_value" where
  "entry_value i \<equiv> (en_uri i, en_data i, en_fmt i, en_type i)"

lemma takes_get:
  assumes "\<And>i. i \<in> set items \<Longrightarrow> \<exists>u d f t. i = Item ''Get'' u d f t"
  shows "takes [branch ''Get'' (leaf ''CmdID'' n # map (\<lambda>i. branch ''Item'' [target_uri (en_uri i)]) items)] items"
proof (rule takes_branch)
  let ?f = "\<lambda>i. branch ''Item'' [target_uri (xml_newlines (en_uri i))]"
  have cs: "map normal (leaf ''CmdID'' n # map (\<lambda>i. branch ''Item'' [target_uri (en_uri i)]) items)
      = leaf ''CmdID'' (xml_newlines n) # map ?f items" by simp
  show "list_all inert (concat (map xml_iter (map normal (leaf ''CmdID'' n # map (\<lambda>i. branch ''Item'' [target_uri (en_uri i)]) items))))"
    unfolding cs by (rule inert_command) (rule inert_items)
  have "concat (map wire_get items) = map (\<lambda>i. py_strip (xml_newlines (en_uri i))) items" "fold wire_put items r = r" for r
    using assms by (induction items arbitrary: r) (force simp: wire_get_def wire_put_def)+
  then show "let p' = read_element (branch ''Get'' (map normal (leaf ''CmdID'' n # map (\<lambda>i. branch ''Item'' [target_uri (en_uri i)]) items))) p
      in pk_gets p' = pk_gets p @ concat (map wire_get items) \<and> pk_replaces p' = fold wire_put items (pk_replaces p) \<and> pk_final p' = pk_final p"
    for p unfolding cs using item_elements [of items ?f "xml_newlines n"]
    by (simp add: read_element_def read_get_def Let_def local_name_plain comp_def locations_of_item del: xml_iter.simps branch_simps(4) filter.simps)
qed (simp_all add: list_all_iff)

lemma takes_add:
  assumes "\<And>i. i \<in> set items \<Longrightarrow> \<exists>u d f t. i = Item ''Add'' u d f t"
  shows "takes [branch ''Add'' (leaf ''CmdID'' n # map (\<lambda>i. add_item (entry_value i)) items)] items"
proof (rule takes_branch)
  show "list_all inert (concat (map xml_iter (map normal (leaf ''CmdID'' n # map (\<lambda>i. add_item (entry_value i)) items))))"
    using inert_items(3) by (simp add: inert_names list_all_iff)
      (metis inert_normal inert_items(3) list_all_iff)
  have "concat (map wire_get items) = []" "fold wire_put items r = r" for r
    using assms by (induction items arbitrary: r) (force simp: wire_get_def wire_put_def)+
  then show "let p' = read_element (branch ''Add'' (map normal (leaf ''CmdID'' n # map (\<lambda>i. add_item (entry_value i)) items))) p
      in pk_gets p' = pk_gets p @ concat (map wire_get items) \<and> pk_replaces p' = fold wire_put items (pk_replaces p) \<and> pk_final p' = pk_final p"
    for p by (simp add: read_element_def local_name_plain)
qed (simp_all add: list_all_iff)

lemma takes_replace:
  assumes "\<And>i. i \<in> set items \<Longrightarrow> \<exists>u d f t. i = Item ''Replace'' u d f t"
  shows "takes [branch ''Replace'' (leaf ''CmdID'' n # map (\<lambda>i. replace_item (entry_value i)) items)] items"
proof (rule takes_branch)
  let ?f = "\<lambda>i. replace_item (xml_newlines (en_uri i), xml_newlines (en_data i), xml_newlines (en_fmt i), xml_newlines (en_type i))"
  have cs: "map normal (leaf ''CmdID'' n # map (\<lambda>i. replace_item (entry_value i)) items)
      = leaf ''CmdID'' (xml_newlines n) # map ?f items" by simp
  show "list_all inert (concat (map xml_iter (map normal (leaf ''CmdID'' n # map (\<lambda>i. replace_item (entry_value i)) items))))"
    unfolding cs by (rule inert_command) (rule inert_items)
  have "concat (map wire_get items) = []" "fold read_replace_item (map ?f items) r = fold wire_put items r" for r
    using assms by (induction items arbitrary: r) (force simp: wire_get_def wire_put_def read_built_item)+
  then show "let p' = read_element (branch ''Replace'' (map normal (leaf ''CmdID'' n # map (\<lambda>i. replace_item (entry_value i)) items))) p
      in pk_gets p' = pk_gets p @ concat (map wire_get items) \<and> pk_replaces p' = fold wire_put items (pk_replaces p) \<and> pk_final p' = pk_final p"
    for p unfolding cs using item_elements [of items ?f "xml_newlines n"]
    by (simp add: read_element_def read_replace_def Let_def replace_item_name local_name_plain del: xml_iter.simps branch_simps(4) filter.simps)
qed (simp_all add: list_all_iff)

lemma takes_items:
  assumes "item_command b command items = Inr b'" "list_all (same_command command) items" "items \<noteq> []"
  shows "\<exists>x. b' = b\<lparr>sb_commands := sb_commands b @ [x], sb_next_cmd_id := sb_next_cmd_id b + 1\<rparr> \<and> takes [x] items"
proof -
  have it: "\<exists>u d f t. i = Item command u d f t" if "i \<in> set items" for i
    using assms(2) that by (cases i) (auto simp: list_all_iff)
  consider "command = ''Get''" | "command = ''Add''" | "command = ''Replace''"
    using assms(1) by (auto simp: item_command_def Let_def split: if_splits)
  then show ?thesis
  proof cases
    case 1
    with assms takes_get [of items] it show ?thesis
      by (auto simp: item_command_def get_command_def append_command_def Let_def comp_def)
  next
    case 2
    with assms takes_add [of items] it show ?thesis
      by (auto simp: item_command_def add_command_def append_command_def Let_def comp_def)
  next
    case 3
    with assms takes_replace [of items] it show ?thesis
      by (auto simp: item_command_def replace_command_def append_command_def Let_def comp_def)
  qed
qed

lemma apply_entries_takes:
  assumes "apply_entries b es = Inr b'"
  shows "\<exists>xs n. b' = b\<lparr>sb_commands := sb_commands b @ xs, sb_next_cmd_id := n\<rparr> \<and> takes xs es"
  using assms
proof (induction b es rule: apply_entries.induct)
  case (1 b)
  then show ?case by (intro exI [of _ "[]"] exI [of _ "sb_next_cmd_id b"]) (simp add: takes_Nil)
next
  case (2 b cmd mr cr code tr es)
  obtain x where x: "status_command b cmd mr cr code tr None = b\<lparr>sb_commands := sb_commands b @ [x], sb_next_cmd_id := sb_next_cmd_id b + 1\<rparr>"
      "takes [x] [Status cmd mr cr code tr]"
    using takes_status by blast
  from 2 x(1) obtain xs n where "b' = b\<lparr>sb_commands := sb_commands b @ [x] @ xs, sb_next_cmd_id := n\<rparr>" "takes xs es" by auto
  with takes_append [OF x(2)] show ?case by fastforce
next
  case (3 b command uri data fmt type es)
  let ?items = "Item command uri data fmt type # takeWhile (same_command command) es"
  let ?rest = "dropWhile (same_command command) es"
  obtain b1 where b1: "item_command b command ?items = Inr b1" and rest: "apply_entries b1 ?rest = Inr b'"
    using 3(2) by (auto simp: bind_err_Inr)
  have "list_all (same_command command) ?items" by (auto simp: list_all_iff dest: set_takeWhileD)
  from takes_items [OF b1 this] obtain x where
    x: "b1 = b\<lparr>sb_commands := sb_commands b @ [x], sb_next_cmd_id := sb_next_cmd_id b + 1\<rparr>" "takes [x] ?items" by auto
  from 3(1) [OF b1 rest] x(1) obtain xs n where "b' = b\<lparr>sb_commands := sb_commands b @ [x] @ xs, sb_next_cmd_id := n\<rparr>" "takes xs ?rest"
    by auto
  with takes_append [OF x(2)] show ?case by fastforce
qed

text \<open>The whole message: header elements say nothing, the body ends with \<open>Final\<close> or not.\<close>

lemma read_built_message:
  assumes "apply_entries (status_command (new_builder sid mid tgt src mx) cmd mr cr code tr chl) es = Inr b"
  shows "named (build_message b final) \<and>
    pk_gets (read_tree (normal (build_message b final))) = concat (map wire_get es) \<and>
    pk_replaces (read_tree (normal (build_message b final))) = fold wire_put es [] \<and>
    pk_final (read_tree (normal (build_message b final))) = final"
proof -
  let ?b0 = "new_builder sid mid tgt src mx"
  obtain x where x: "status_command ?b0 cmd mr cr code tr chl = ?b0\<lparr>sb_commands := sb_commands ?b0 @ [x], sb_next_cmd_id := sb_next_cmd_id ?b0 + 1\<rparr>"
      "takes [x] [Status cmd mr cr code tr]"
    using takes_status by blast
  from apply_entries_takes [OF assms] x(1) obtain xs n where
    b: "b = ?b0\<lparr>sb_commands := [x] @ xs, sb_next_cmd_id := n\<rparr>" and xs: "takes xs es"
    by (auto simp: new_builder_def)
  have reads: "takes ([x] @ xs) (Status cmd mr cr code tr # es)" using takes_append [OF x(2) xs] by simp
  define hdr where "hdr = branch ''SyncHdr'' [leaf ''VerDTD'' ''1.2'', leaf ''VerProto'' ''DM/1.2'', leaf ''SessionID'' sid, leaf ''MsgID'' (str_of_int mid),
      target_uri tgt, branch ''Source'' [leaf ''LocURI'' src], branch ''Meta'' [metinf_leaf ''MaxMsgSize'' (str_of_int mx)]]"
  have "list_all inert (xml_iter (normal hdr))" by (simp add: hdr_def inert_names target_uri_def)
  then have hdr: "fold read_element (xml_iter (normal hdr)) p = p" for p by (rule read_inert)
  have message: "build_message b final = branch ''SyncML'' [hdr, branch ''SyncBody'' (([x] @ xs) @ (if final then [branch ''Final'' []] else []))]"
    by (simp add: build_message_def b new_builder_def hdr_def)
  have "named hdr" by (simp add: hdr_def)
  then have names: "named (build_message b final)" using reads by (simp add: message takes_def)
  have top: "read_element (branch n cs) p = p" if "n \<in> {''SyncML'', ''SyncBody''}" for n cs p
    using that by (auto simp: read_element_def local_name_plain)
  have "read_tree (normal (build_message b final)) =
      (let p = fold read_element (concat (map xml_iter (map normal ([x] @ xs)))) empty_package in if final then p\<lparr>pk_final := True\<rparr> else p)"
    using hdr [of empty_package]
    by (simp add: read_tree_def message top Let_def) (simp add: read_element_def local_name_plain)
  with names reads [unfolded takes_def, THEN conjunct2, rule_format, of empty_package] show ?thesis
    by (simp add: Let_def empty_package_def wire_get_def wire_put_def)
qed

section \<open>What the server reads in a request for more\<close>

text \<open>The session service as the client reaches it: the endpoint's answer once the body is complete.\<close>

definition dm_acs :: "DmEnv \<Rightarrow> Settings \<Rightarrow> MoTree \<Rightarrow> MemoryStore dm_server" where
  "dm_acs env st tree post s = (case dm_handle env st tree (hp_content post) (dict_get_or (hp_headers post) ''Content-Type'' []) s of
     (Inl e, s') \<Rightarrow> (Inr (plain_response 500 []), s')
   | (Inr oc, s') \<Rightarrow> (Inr (dm_http_response oc), s'))"

text \<open>A client with the credentials of a stored subscriber, over XML. Base64 text has no white space at its ends
  and is not empty, and superfluous padding does not disturb its decoder; what one side writes the other side
  reads back or fails to read.\<close>

definition client_ready :: "DmEnv \<Rightarrow> DmClientEnv \<Rightarrow> string \<Rightarrow> (string \<rightharpoonup> Subscriber) \<Rightarrow> DmClientSimulator \<Rightarrow> bool" where
  "client_ready env ce key subs c \<longleftrightarrow>
     \<not> dc_wbxml c \<and> dc_auth c \<noteq> ''md5'' \<and> py_strip (dc_session_id c) \<noteq> [] \<and>
     carriage_return \<notin> set (dc_session_id c) \<union> set (dc_imei c) \<and>
     session_key (device_id_from (py_strip (''IMEI:'' @ dc_imei c))) (py_strip (dc_session_id c)) = key \<and>
     CHR '':'' \<notin> set (dc_imsi c) \<and> dc_imsi c \<noteq> [] \<and> dc_password c \<noteq> [] \<and>
     (\<exists>sub. subs (dc_imsi c) = Some sub \<and> sub_dm_password sub = dc_password c) \<and>
     (let token = dce_b64encode ce (utf8 (dc_imsi c @ '':'' @ dc_password c))
      in token \<noteq> [] \<and> py_strip token = token \<and> carriage_return \<notin> set token \<and>
         de_b64decode env (token @ ''=='') = Some (dc_imsi c @ '':'' @ dc_password c))"

definition same_xml :: "DmEnv \<Rightarrow> DmClientEnv \<Rightarrow> bool" where
  "same_xml env ce \<longleftrightarrow> (\<forall>t u. named t \<and> de_parse_xml env (dce_tostring ce t) = Some u \<longrightarrow> u = canon (normal t)) \<and>
     (\<forall>t u. named t \<and> dce_fromstring ce (de_tostring env t) = Some u \<longrightarrow> u = canon (normal t))"

lemma client_ready_count [simp]:
  "client_ready env ce key subs (count_message c) = client_ready env ce key subs c"
  "client_ready env ce key subs (note_size r c) = client_ready env ce key subs c"
  by (simp_all add: client_ready_def count_message_def note_size_def)

lemma digits_stay: "xml_newlines (str_of_int n) = str_of_int n"
proof -
  have "carriage_return \<notin> set (str_of_nat k)" for k
    using str_of_nat_decimal [of k] by (auto simp: list_all_iff is_decimal_def carriage_return_def code_of_def)
  then show ?thesis by (intro xml_newlines_id) (auto simp: str_of_int_def carriage_return_def)
qed

lemma more_named: "named (envelope ce True c (more_body c))"
  by (simp add: envelope_def more_body_def dc_status_def dc_alert_def)

lemma more_parsed:
  assumes "parse_syncml (normal (envelope ce True c (more_body c))) = Inr m" "client_ready env ce key subs c"
  shows "sh_session_id (ms_header m) = py_strip (dc_session_id c)" "sh_msg_id (ms_header m) = py_strip (str_of_int (dc_msg_id c))"
    "sh_source (ms_header m) = py_strip (''IMEI:'' @ dc_imei c)"
    "sh_credentials (ms_header m) = Some \<lparr>cr_type = AUTH_BASIC, cr_format = ''b64'',
       cr_data = py_strip (dce_b64encode ce (utf8 (dc_imsi c @ '':'' @ dc_password c)))\<rparr>"
    "map co_name (ms_commands m) = [''Status'', ''Alert'']" "map co_data (ms_commands m) = [''200'', ''1222'']"
proof -
  have strips: "py_strip ''200'' = ''200''" "py_strip ''1222'' = ''1222''" "py_strip AUTH_BASIC = AUTH_BASIC" "py_strip ''b64'' = ''b64''"
      "py_strip (str_of_int 1) = ''1''" "py_strip (str_of_int 2) = ''2''" "parse_integer ''1'' = Inr 1" "parse_integer ''2'' = Inr 2"
      "xml_newlines ''200'' = ''200''" "xml_newlines ''1222'' = ''1222''" "xml_newlines AUTH_BASIC = AUTH_BASIC" "xml_newlines ''b64'' = ''b64''"
    by code_simp+
  have texts: "xml_newlines (dc_session_id c) = dc_session_id c" "xml_newlines (''IMEI:'' @ dc_imei c) = ''IMEI:'' @ dc_imei c"
      "xml_newlines (dce_b64encode ce (utf8 (dc_imsi c @ '':'' @ dc_password c))) = dce_b64encode ce (utf8 (dc_imsi c @ '':'' @ dc_password c))"
    and md5: "dc_auth c \<noteq> ''md5''"
    using assms(2) by (auto simp: client_ready_def Let_def carriage_return_def intro!: xml_newlines_id)
  note reads = assms(1) [unfolded envelope_def parse_syncml_def find_child_def more_body_def dc_status_def dc_alert_def credential_def]
  show "sh_session_id (ms_header m) = py_strip (dc_session_id c)" "sh_msg_id (ms_header m) = py_strip (str_of_int (dc_msg_id c))"
    "sh_source (ms_header m) = py_strip (''IMEI:'' @ dc_imei c)"
    "sh_credentials (ms_header m) = Some \<lparr>cr_type = AUTH_BASIC, cr_format = ''b64'',
       cr_data = py_strip (dce_b64encode ce (utf8 (dc_imsi c @ '':'' @ dc_password c)))\<rparr>"
    "map co_name (ms_commands m) = [''Status'', ''Alert'']" "map co_data (ms_commands m) = [''200'', ''1222'']"
    using reads md5 texts
    by (auto simp: local_name_plain bind_err_Inr parse_header_def parse_command_def find_child_def deep_text_opt_def deep_text_def
        parse_credentials_def str_or_def strips digits_stay Let_def)
qed

end
