(* ===== verification/Dm_Converges.thy ===== *)
theory Dm_Converges
  imports Dm_Follow
begin

text \<open>
  The simulated OMA-DM client's loop against the server's session service: every request for more is one that
  the server accepts, each answer hands over the next entries of the package, so the loop ends and the client
  then holds the whole package.
\<close>

section \<open>The server understands a request for more\<close>

lemma py_strip_not_Nil: "c \<in> set s \<Longrightarrow> \<not> py_isspace_char c \<Longrightarrow> py_strip s \<noteq> []"
  using set_dropWhileD [of _ py_isspace_char s]
  by (auto simp: py_strip_def strip_by_def dropWhile_eq_Nil_conv) (metis dropWhile_eq_Nil_conv hd_dropWhile hd_in_set)

lemma py_strip_number: "py_strip (str_of_int n) \<noteq> []"
proof -
  obtain k where k: "set (str_of_nat k) \<subseteq> set (str_of_int n)" 
    by (rule that [of "nat \<bar>n\<bar>"]) (auto simp: str_of_int_def)
  from str_of_nat_decimal [of k] have "\<forall>c \<in> set (str_of_nat k). \<not> py_isspace_char c"
    by (auto simp: list_all_iff is_decimal_def py_isspace_char_def)
  with k show ?thesis by (metis hd_in_set str_of_nat_not_Nil subsetD py_strip_not_Nil)
qed

lemma decode_sent_credentials:
  assumes "client_ready env ce key subs c"
  shows "decode_basic (de_b64decode env) \<lparr>cr_type = AUTH_BASIC, cr_format = ''b64'',
       cr_data = py_strip (dce_b64encode ce (utf8 (dc_imsi c @ '':'' @ dc_password c)))\<rparr> = Some (dc_imsi c, dc_password c)"
  using assms by (auto simp: client_ready_def decode_basic_def Let_def py_partition_first)

lemma basic_password_accepted:
  assumes "decode_basic unb64 cr = Some (u, p)" "cr_type cr = AUTH_BASIC" "lookup u = Some p" "p \<noteq> []"
  shows "ar_authenticated (authenticate unb64 fresh (Some cr) AUTH_BASIC lookup nonce)"
proof -
  have "cr_data cr \<noteq> []" using assms(1) by (auto simp: decode_basic_def split: if_splits)
  with assms show ?thesis by (simp add: authenticate_def truthy_def Let_def)
qed

lemma more_asks:
  assumes "parse_syncml (normal (envelope ce True c (more_body c))) = Inr m" "client_ready env ce key subs c"
  shows "asks_more env st tree key subs m"
proof -
  note read = more_parsed [OF assms]
  have id: "py_strip (str_of_int (dc_msg_id c)) \<noteq> []" by (rule py_strip_number)
  obtain c1 c2 where cs: "ms_commands m = [c1, c2]" "co_name c1 = ''Status''" "co_name c2 = ''Alert''" "co_data c2 = ''1222''"
    using read(5,6) by (auto simp: map_eq_Cons_conv)
  have "ar_authenticated (authenticate_message env st m session t)" if "get_subscriber t = subs" for session t
  proof (cases "set_dm_auth_scheme st = ''none''")
    case True
    then show ?thesis by (simp add: authenticate_message_def authenticate_def)
  next
    case False
    have "lookup_password t (dc_imsi c) = Some (dc_password c)" "dc_password c \<noteq> []"
      using assms(2) that by (auto simp: client_ready_def lookup_password_def)
    with basic_password_accepted [OF decode_sent_credentials [OF assms(2)]] False show ?thesis
      by (simp add: authenticate_message_def read(4))
  qed
  with assms(2) id show ?thesis
    by (simp add: asks_more_def read(1-3) client_ready_def has_alert_def alert_codes_def of_names_def cs acks_def
        MAX_ACKNOWLEDGED_COMMANDS_def)
qed


section \<open>One request for more\<close>

lemma acks_say_nothing: "\<forall>e \<in> set (acks tree m). wire_get e = []" "fold wire_put (acks tree m) r = r"
proof -
  have "fold wire_put (map (\<lambda>c. Status (f c) x (g c) (h c) (u c)) cs) r = r" for f x g h u r and cs :: "Command list"
    by (induction cs arbitrary: r) (simp_all add: wire_put_def)
  then show "fold wire_put (acks tree m) r = r" by (simp add: acks_def)
  show "\<forall>e \<in> set (acks tree m). wire_get e = []" by (auto simp: acks_def wire_get_def)
qed

lemma read_carried:
  assumes "body_carries env st m Inr body (acks tree m @ sent) final" "same_xml env ce" "\<not> dc_wbxml c"
    "parse_answer ce c body = Inr f"
  shows "pk_gets f = concat (map wire_get sent) \<and> pk_replaces f = fold wire_put sent [] \<and> pk_final f = final"
proof -
  from assms(1) obtain session header b where
    b: "apply_entries (status_command (builder_for st m session) ''SyncHdr'' (sh_msg_id (ms_header m)) ''0'' (fst header)
       (sh_target (ms_header m)) (snd header)) (acks tree m @ sent) = Inr b"
    and body: "body = de_tostring env (build_message b final)" by (auto simp: body_carries_def)
  from assms(3,4) obtain u where "dce_fromstring ce body = Some u" "f = read_tree u"
    by (auto simp: parse_answer_def split: option.splits)
  with assms(2) body read_built_message [OF b [unfolded builder_for_def], of final]
  have "f = read_tree (normal (build_message b final))" by (metis same_xml_def read_tree_canon)
  with read_built_message [OF b [unfolded builder_for_def], of final] show ?thesis by (simp add: acks_say_nothing)
qed

lemma xml_media_type: "py_lower (py_strip (py_before CHR '';'' ''application/vnd.syncml.dm+xml'')) = ''application/vnd.syncml.dm+xml''"
  by code_simp

lemma handled_is_exchange:
  assumes "dm_handle env st tree payload ''application/vnd.syncml.dm+xml'' s = (Inr oc, t)" "dr_status_code oc = 200"
  shows "\<exists>u m. de_parse_xml env payload = Some u \<and> parse_syncml u = Inr m \<and> dm_exchange env st tree Inr m s = (Inr oc, t)"
proof -
  have errors: "answer_error e = Inr x \<Longrightarrow> dr_status_code x \<noteq> 200" for e x
    by (cases e) (auto simp: answer_error_def dm_response_def)
  have enc: "message_encoder env False payload = Inr" by (simp add: message_encoder_def fun_eq_iff)
  from assms obtain m where m: "parse_payload env False payload = Some m"
    by (auto simp: dm_handle_def Let_def xml_media_type dm_response_def split: if_splits option.splits)
  obtain hr s1 where h: "handle_message env st tree m Inr s = (hr, s1)" by fastforce
  have "dm_exchange env st tree Inr m s = (Inr oc, t)"
    using assms errors m h
    by (cases hr) (auto simp: dm_handle_def Let_def xml_media_type enc dm_response_def dm_exchange_def split: if_splits)
  moreover from m(1) have "\<exists>u. de_parse_xml env payload = Some u \<and> parse_syncml u = Inr m"
    by (auto simp: parse_payload_def split: option.splits sum.splits)
  ultimately show ?thesis by blast
qed

text \<open>What is left after a request for more: the client counted one message; if it was answered with 200 and
  the answer could be read, the answer is the next part of the package.\<close>

definition next_part :: "DmEnv \<Rightarrow> string \<Rightarrow> Entry list \<Rightarrow> parsed_package \<Rightarrow> MemoryStore \<Rightarrow> Entry list \<Rightarrow> Entry list \<Rightarrow> bool" where
  "next_part env key es f t sent rest \<longleftrightarrow> es = sent @ rest \<and> sent \<noteq> [] \<and> pk_gets f = concat (map wire_get sent) \<and>
     pk_replaces f = fold wire_put sent [] \<and> pk_final f = (rest = []) \<and> (rest \<noteq> [] \<longrightarrow> (\<exists>ses. waiting env key t ses rest))"

lemma ask_more_step:
  assumes "waiting env key s ses es" "list_all storable es" "es \<noteq> []"
    "client_ready env ce key (get_subscriber s) c" "same_xml env ce"
    "ask_more ce (dm_acs env st tree) c s = (res, c', t)"
  shows "dc_msg_id c' = dc_msg_id c + 1 \<and> client_ready env ce key (get_subscriber s) c' \<and>
    (\<forall>resp f. res = Inr (resp, f) \<and> rs_status resp = 200 \<longrightarrow>
       get_subscriber t = get_subscriber s \<and> (\<exists>sent rest. next_part env key es f t sent rest))"
proof -
  let ?c = "count_message c" and ?server = "dm_acs env st tree :: MemoryStore dm_server"
  let ?payload = "dce_tostring ce (envelope ce True ?c (more_body ?c))"
  have ready: "client_ready env ce key (get_subscriber s) ?c" using assms(4) by simp
  then have xml: "\<not> dc_wbxml ?c" by (simp add: client_ready_def)
  obtain r s' where h: "dm_handle env st tree ?payload ''application/vnd.syncml.dm+xml'' s = (r, s')" by fastforce
  have post: "dm_post ce ?server ?c ?payload s = (Inr (case r of Inl _ \<Rightarrow> plain_response 500 [] | Inr oc \<Rightarrow> dm_http_response oc), s')"
    using xml h by (cases r) (simp_all add: dm_post_def dm_acs_def dm_content_type_def bind_step_def dict_get_or_def)
  let ?resp = "case r of Inl _ \<Rightarrow> plain_response 500 [] | Inr oc \<Rightarrow> dm_http_response oc"
  have sent: "res = bind_err (parse_answer ce ?c (rs_body ?resp)) (\<lambda>p. Inr (?resp, p))" "c' = note_size ?resp ?c" "t = s'"
    using assms(6) by (simp_all add: ask_more_def Let_def send_message_def post)
  have part: "get_subscriber t = get_subscriber s \<and> (\<exists>sent rest. next_part env key es f t sent rest)"
    if "res = Inr (resp, f)" "rs_status resp = 200" for resp f
  proof -
    from that sent(1) have resp: "resp = ?resp" and f: "parse_answer ce ?c (rs_body ?resp) = Inr f" by (auto simp: bind_err_Inr)
    from that(2) resp obtain oc where oc: "r = Inr oc" by (cases r) (auto simp: plain_response_def)
    have status: "dr_status_code oc = 200" and body: "rs_body ?resp = dr_body oc"
      using that(2) resp oc by (auto simp: dm_http_response_def plain_response_def Let_def split: if_splits)
    from handled_is_exchange [OF h [unfolded oc] status] obtain u m where
      m: "de_parse_xml env ?payload = Some u" "parse_syncml u = Inr m" "dm_exchange env st tree Inr m s = (Inr oc, s')" by blast
    from m(1,2) assms(5) have "parse_syncml (normal (envelope ce True ?c (more_body ?c))) = Inr m"
      using more_named by (metis same_xml_def parse_canon)
    from exchange_delivers [OF assms(1-3) more_asks [OF this ready] m(3) status]
    show ?thesis using read_carried [OF _ assms(5) xml f [unfolded body]] sent(3) unfolding next_part_def by blast
  qed
  have "dc_msg_id c' = dc_msg_id c + 1" by (simp add: sent(2) note_size_def count_message_def)
  moreover have "client_ready env ce key (get_subscriber s) c'" using ready sent(2) by simp
  ultimately show ?thesis using part by blast
qed

section \<open>The loop\<close>

lemma dict_get_fold_put:
  "distinct (map fst xs) \<Longrightarrow> dict_get (fold (\<lambda>(k, v) d. dict_put k v d) xs d) u = (case map_of xs u of None \<Rightarrow> dict_get d u | Some v \<Rightarrow> Some v)"
proof (induction xs arbitrary: d)
  case (Cons kv xs)
  obtain k v where kv: "kv = (k, v)" by fastforce
  have "map_of xs k = None" using Cons.prems by (simp add: kv map_of_eq_None_iff)
  with Cons show ?case by (simp add: kv split: option.split)
qed simp

lemma wire_put_distinct: "distinct (map fst d) \<Longrightarrow> distinct (map fst (fold wire_put es d))"
proof (induction es arbitrary: d)
  case (Cons e es)
  have "distinct (map fst (wire_put e d))" using Cons.prems by (auto simp: wire_put_def dict_put_distinct split: Entry.split)
  with Cons.IH show ?case by simp
qed simp

lemma wire_put_get: "dict_get (fold wire_put es d) u = (case dict_get (fold wire_put es []) u of None \<Rightarrow> dict_get d u | Some v \<Rightarrow> Some v)"
proof (induction es rule: rev_induct)
  case (snoc e es)
  then show ?case by (auto simp: wire_put_def split: Entry.split option.split)
qed simp

lemma merge_gets: "dict_get (fold (\<lambda>(k, v) d. dict_put k v d) (fold wire_put es []) d) u = dict_get (fold wire_put es d) u"
  using dict_get_fold_put [OF wire_put_distinct [of "[]" es], of d u] wire_put_get [of es d u]
  by (simp add: dict_get_def)

lemma wire_put_cong:
  assumes "\<And>u. dict_get d u = dict_get d' u"
  shows "dict_get (fold wire_put es d) u = dict_get (fold wire_put es d') u"
  using wire_put_get [of es d u] wire_put_get [of es d' u] assms by (simp split: option.split)

text \<open>A package with the entries of another one appended.\<close>

definition holds_package :: "parsed_package \<Rightarrow> parsed_package \<Rightarrow> Entry list \<Rightarrow> bool" where
  "holds_package p' p es \<longleftrightarrow> pk_final p' \<and> pk_gets p' = pk_gets p @ concat (map wire_get es) \<and>
     (\<forall>u. dict_get (pk_replaces p') u = dict_get (fold wire_put es (pk_replaces p)) u)"

lemma holds_merged:
  assumes "next_part env key es f t sent rest" "holds_package p' (merge_package p f) rest"
  shows "holds_package p' p es"
  using assms wire_put_cong [of "fold (\<lambda>(k, v) d. dict_put k v d) (fold wire_put sent []) (pk_replaces p)"
      "fold wire_put sent (pk_replaces p)" rest, OF merge_gets]
  by (auto simp: next_part_def holds_package_def merge_package_def)

lemma holds_last:
  assumes "next_part env key es f t sent []"
  shows "holds_package (merge_package p f) p es"
  using assms by (auto simp: next_part_def holds_package_def merge_package_def merge_gets)

lemma follow_ends:
  assumes "waiting env key s ses es" "list_all storable es" "es \<noteq> []"
    "client_ready env ce key (get_subscriber s) c" "same_xml env ce" "rs_status response = 200" "\<not> pk_final parsed"
  shows "\<exists>res c' t. follow ce (dm_acs env st tree) c response parsed s = Some (res, c', t) \<and>
    dc_msg_id c' \<le> dc_msg_id c + int (length es) \<and>
    (\<forall>resp p. res = Inr (resp, p) \<and> rs_status resp = 200 \<longrightarrow> holds_package p parsed es)"
  using assms
proof (induction "length es" arbitrary: es s ses c response parsed rule: less_induct)
  case less
  let ?server = "dm_acs env st tree :: MemoryStore dm_server"
  obtain res c1 t where a: "ask_more ce ?server c s = (res, c1, t)" by (cases "ask_more ce ?server c s") auto
  note step = ask_more_step [OF less.prems(1-5) a]
  have len: "1 \<le> int (length es)" using less.prems(3) by (cases es) auto
  have unfold: "follow ce ?server c response parsed s = (case res of Inl e \<Rightarrow> Some (Inl e, c1, t)
      | Inr (response', following) \<Rightarrow> follow ce ?server c1 response' (merge_package parsed following) t)"
    using less.prems(6,7) by (subst follow.simps) (simp add: a split: sum.split prod.split)
  show ?case
  proof (cases res)
    case (Inl e)
    then show ?thesis using step len by (simp add: unfold)
  next
    case (Inr rf)
    then obtain resp f where rf: "res = Inr (resp, f)" by (cases rf) simp
    let ?p = "merge_package parsed f"
    show ?thesis
    proof (cases "rs_status resp = 200")
      case False
      then show ?thesis using step len by (simp add: unfold rf follow.simps [of ce ?server c1 resp ?p])
    next
      case True
      with step rf obtain sent rest where part: "next_part env key es f t sent rest" and subs: "get_subscriber t = get_subscriber s"
        by blast
      have c1: "dc_msg_id c1 = dc_msg_id c + 1" "client_ready env ce key (get_subscriber t) c1" using step subs by simp_all
      show ?thesis
      proof (cases "rest = []")
        case True
        then show ?thesis using part holds_last [of env key es f t sent parsed] c1 len
          by (simp add: unfold rf follow.simps [of ce ?server c1 resp ?p]) (simp add: merge_package_def next_part_def)
      next
        case False
        from part False obtain ses' where w: "waiting env key t ses' rest" and es: "es = sent @ rest" "sent \<noteq> []"
          and open_package: "\<not> pk_final ?p" by (auto simp: next_part_def merge_package_def)
        have shorter: "length rest < length es" "int (length rest) + 1 \<le> int (length es)" using es by (cases sent; simp)+
        from less.prems(2) es have "list_all storable rest" by simp
        from less.hyps [OF shorter(1) w this False c1(2) less.prems(5) True open_package]
        show ?thesis using holds_merged [OF part] shorter(2) c1(1) by (fastforce simp: unfold rf)
      qed
    qed
  qed
qed


definition follow_client :: DmClientSimulator where
  "follow_client = (new_dm_client ''https://acs'' ''001'' ''35'' ''pw'' ''/dm'' ''basic'' ''Acme'' ''One'' ''1'' False 16384)
     \<lparr>dc_session_id := ''7'', dc_msg_id := 1\<rparr>"

text \<open>The writers and parsers of the example know the request, and the answer in one message.\<close>

definition follow_request :: "DmClientEnv \<Rightarrow> xml" where
  "follow_request ce = envelope ce True (count_message follow_client) (more_body (count_message follow_client))"

definition follow_answer :: xml where
  "follow_answer = build_message 
     (get_command (status_command (status_command (new_builder ''7'' 2 ''IMEI:35'' ''https://acs/dm'' 16384)
        ''SyncHdr'' ''2'' ''0'' ''200'' ''https://acs/dm'' None) ''Alert'' ''2'' ''2'' ''200'' [] None)
        [''./DevInfo/Man'', ''./DevInfo/Mod'']) True"

definition plain_client_env :: DmClientEnv where
  "plain_client_env = \<lparr>dce_md5 = id, dce_b64encode = id, dce_tostring = \<lambda>_. [], dce_fromstring = \<lambda>_. None, dce_expat = \<lambda>_. None\<rparr>"

definition follow_client_env :: DmClientEnv where
  "follow_client_env = plain_client_env\<lparr>dce_tostring := \<lambda>t. if t = follow_request plain_client_env then ''q'' else [],
     dce_fromstring := \<lambda>x. if x = ''a'' then Some (canon (normal follow_answer)) else None\<rparr>"

definition follow_env :: DmEnv where
  "follow_env = demo_dm_env\<lparr>de_b64decode := \<lambda>x. Some (take (length x - 2) x),
     de_parse_xml := \<lambda>x. if x = ''q'' then Some (canon (normal (follow_request plain_client_env))) else None,
     de_tostring := \<lambda>t. if t = follow_answer then ''a'' else []\<rparr>"

definition follow_store :: MemoryStore where
  "follow_store = put_subscriber ((demo_subscriber ''001'' ''+82'')\<lparr>sub_dm_password := ''pw''\<rparr>) demo_dm_store"

lemma follow_waiting: "waiting follow_env ''35:7'' follow_store demo_dm_session demo_dm_rest"
  by (simp add: waiting_def follow_env_def follow_store_def put_subscriber_def demo_dm_defs get_dm_session_def get_dm_pending_def
      put_dm_session_def put_dm_pending_def empty_store_def)

lemma follow_client_ready: "client_ready follow_env follow_client_env ''35:7'' (get_subscriber follow_store) follow_client"
proof -
  have strips: "py_strip ''7'' = ''7''" "py_strip ''IMEI:35'' = ''IMEI:35''" "py_strip ''001:pw'' = ''001:pw''" "utf8 ''001:pw'' = ''001:pw''"
    by code_simp+
  have sub: "get_subscriber follow_store ''001'' = Some ((demo_subscriber ''001'' ''+82'')\<lparr>sub_dm_password := ''pw''\<rparr>)"
    by (simp add: follow_store_def get_subscriber_put demo_subscriber_def)
  show ?thesis
    by (simp add: client_ready_def follow_client_def new_dm_client_def strips demo_key sub follow_client_env_def plain_client_env_def follow_env_def Let_def
        carriage_return_def)
qed

lemma follow_same_xml: "same_xml follow_env follow_client_env"
  by (auto simp: same_xml_def follow_env_def follow_client_env_def split: if_splits)


end
