(* ===== verification/Release.thy ===== *)
theory Release
  imports Acs_Prelude
begin

text \<open>
  \<^verbatim>\<open>src/scripts/release_notes.py\<close>: the checks on a release tag, the channels it may move, the release notes cut
  out of \<^verbatim>\<open>CHANGELOG.md\<close>, and the verdict on an image lookup. A tag, a version and the output of a lookup are
  \<^typ>\<open>string\<close>s. The repository's files hold characters beyond code point 255 (the dash of a heading), so their
  text is a list of code points. The files are arguments, as are the TOML parser and the full case mapping of
  \<open>str.lower\<close> on code points. Each regular expression is written as the recogniser it denotes on a line.
\<close>

section \<open>Text as code points\<close>

type_synonym codes = "int list"

definition codes_of :: "string \<Rightarrow> codes" where
  "codes_of s = map (\<lambda>c. int (code_of c)) s"

definition u_isspace :: "int \<Rightarrow> bool" where
  "u_isspace n \<longleftrightarrow> 9 \<le> n \<and> n \<le> 13 \<or> 28 \<le> n \<and> n \<le> 32 \<or> n = 133 \<or> n = 160 \<or> n = 5760 \<or> 8192 \<le> n \<and> n \<le> 8202 \<or>
     n = 8232 \<or> n = 8233 \<or> n = 8239 \<or> n = 8287 \<or> n = 12288"

definition u_line_break :: "int \<Rightarrow> bool" where
  "u_line_break n \<longleftrightarrow> 10 \<le> n \<and> n \<le> 13 \<or> 28 \<le> n \<and> n \<le> 30 \<or> n = 133 \<or> n = 8232 \<or> n = 8233"

definition u_strip :: "(int \<Rightarrow> bool) \<Rightarrow> codes \<Rightarrow> codes" where
  "u_strip P s = rev (dropWhile P (rev (dropWhile P s)))"

text \<open>\<open>str.splitlines\<close>: the pair of carriage return and newline is one break, and a break at the end starts no
  further line. The first argument is the current line, reversed.\<close>

fun u_lines :: "codes \<Rightarrow> codes \<Rightarrow> codes list" where
  "u_lines cur [] = (if cur = [] then [] else [rev cur])"
| "u_lines cur [c] = (if u_line_break c then [rev cur] else [rev (c # cur)])"
| "u_lines cur (c # d # s) =
     (if c = 13 \<and> d = 10 then rev cur # u_lines [] s
      else if u_line_break c then rev cur # u_lines [] (d # s)
      else u_lines (c # cur) (d # s))"

definition splitlines :: "codes \<Rightarrow> codes list" where
  "splitlines text = u_lines [] text"

fun u_join :: "codes list \<Rightarrow> codes" where
  "u_join [] = []"
| "u_join [l] = l"
| "u_join (l # m # ls) = l @ 10 # u_join (m # ls)"

section \<open>Lines of Markdown\<close>

definition md_blank :: "int \<Rightarrow> bool" where
  "md_blank n \<longleftrightarrow> n = 32 \<or> n = 9"

text \<open>\<open>^ {0,3}\<close> before a character that is not a space.\<close>

definition indented :: "codes \<Rightarrow> codes option" where
  "indented line = (let n = length (takeWhile (\<lambda>c. c = 32) line) in if n \<le> 3 then Some (drop n line) else None)"

definition after_marker :: "codes \<Rightarrow> codes option" where
  "after_marker line = (case indented line of
     None \<Rightarrow> None
   | Some s \<Rightarrow> if take 2 s = [35, 35] then Some (drop 2 s) else None)"

definition H2_RE :: "codes \<Rightarrow> bool" where
  "H2_RE line \<longleftrightarrow> (case after_marker line of None \<Rightarrow> False | Some rest \<Rightarrow> rest = [] \<or> md_blank (hd rest))"

text \<open>\<open>\[(?P<name>[^\]]+)\]\<close>: the text in the brackets and what follows them.\<close>

definition bracketed :: "codes \<Rightarrow> (codes \<times> codes) option" where
  "bracketed s =
     (if s = [] \<or> hd s \<noteq> 91 then None
      else (let name = takeWhile (\<lambda>c. c \<noteq> 93) (tl s); rest = dropWhile (\<lambda>c. c \<noteq> 93) (tl s)
            in if name \<noteq> [] \<and> rest \<noteq> [] then Some (name, tl rest) else None))"

definition dated :: "codes \<Rightarrow> bool" where
  "dated s \<longleftrightarrow> s \<noteq> [] \<and> md_blank (hd s) \<and> (case dropWhile md_blank s of
     [] \<Rightarrow> False
   | dash # r \<Rightarrow> dash \<in> {8212, 8211, 45} \<and> r \<noteq> [] \<and> md_blank (hd r) \<and>
       (case dropWhile md_blank r of [] \<Rightarrow> False | c # _ \<Rightarrow> \<not> u_isspace c))"

definition HEADING_RE :: "codes \<Rightarrow> codes option" where
  "HEADING_RE line = (case after_marker line of
     None \<Rightarrow> None
   | Some rest \<Rightarrow>
       if rest = [] \<or> \<not> md_blank (hd rest) then None
       else (case bracketed (dropWhile md_blank rest) of
         None \<Rightarrow> None
       | Some (name, tail) \<Rightarrow> if list_all md_blank tail \<or> dated tail then Some name else None))"

definition LINK_DEF_RE :: "codes \<Rightarrow> codes option" where
  "LINK_DEF_RE line = (case indented line of
     None \<Rightarrow> None
   | Some rest \<Rightarrow> (case bracketed rest of
       None \<Rightarrow> None
     | Some (label, s) \<Rightarrow>
         let r = tl s
         in if s \<noteq> [] \<and> hd s = 58 \<and> r \<noteq> [] \<and> md_blank (hd r) \<and> (case dropWhile md_blank r of [] \<Rightarrow> False | c # _ \<Rightarrow> \<not> u_isspace c)
            then Some label else None))"

text \<open>The fence and the info string of a line that may open or close a code block.\<close>

definition FENCE_RE :: "codes \<Rightarrow> (codes \<times> codes) option" where
  "FENCE_RE line = (case indented line of
     Some (c # r) \<Rightarrow>
       if c \<in> {96, 126}
       then (let fence = takeWhile (\<lambda>x. x = c) (c # r)
             in if 3 \<le> length fence then Some (fence, drop (length fence) (c # r)) else None)
       else None
   | _ \<Rightarrow> None)"

section \<open>Errors\<close>

datatype release_problem =
  BadTag string
| NoProjectVersion
| ProjectVersionNotString
| NoPackageVersion
| UnclosedFence nat
| DuplicateSection string
| NoSection string
| EmptySection string
| LookupNotRun int string
| LookupRefused string
| LookupUnclear string
| ProjectMismatch string codes
| PackageMismatch string codes
| BadVersion string

text \<open>Besides the script's own error, \<open>int\<close> refuses a number of more than 4300 digits and \<open>tomllib\<close> a
  file that is not TOML.\<close>

datatype release_error = ReleaseError release_problem | NumberTooLong | TomlError

section \<open>Tags and versions\<close>

definition version_number :: "string \<Rightarrow> bool" where
  "version_number s \<longleftrightarrow> s = ''0'' \<or> (s \<noteq> [] \<and> hd s \<noteq> CHR ''0'' \<and> list_all is_decimal s)"

definition version_text :: "string \<Rightarrow> bool" where
  "version_text s \<longleftrightarrow> (let parts = py_split CHR ''.'' s in length parts = 3 \<and> list_all version_number parts)"

definition VERSION_RE :: "string \<Rightarrow> bool" where
  "VERSION_RE s \<longleftrightarrow> re_line version_text s"

definition TAG_RE :: "string \<Rightarrow> string option" where
  "TAG_RE tag = (case tag of
     [] \<Rightarrow> None
   | c # s \<Rightarrow> if c \<noteq> CHR ''v'' then None
       else if version_text s then Some s
       else if s \<noteq> [] \<and> last s = newline \<and> version_text (butlast s) then Some (butlast s)
       else None)"

definition version_from_tag :: "string \<Rightarrow> release_error + string" where
  "version_from_tag tag = (case TAG_RE tag of None \<Rightarrow> Inl (ReleaseError (BadTag tag)) | Some v \<Rightarrow> Inr v)"

text \<open>The answer of \<open>tomllib\<close> as far as the script looks: no such key, a value of another type, or a string.\<close>

datatype toml_version = NotToml | KeyAbsent | OtherValue | VersionString codes

definition project_version :: "(codes \<Rightarrow> toml_version) \<Rightarrow> codes \<Rightarrow> release_error + codes" where
  "project_version toml pyproject_text = (case toml pyproject_text of
     NotToml \<Rightarrow> Inl TomlError
   | KeyAbsent \<Rightarrow> Inl (ReleaseError NoProjectVersion)
   | OtherValue \<Rightarrow> Inl (ReleaseError ProjectVersionNotString)
   | VersionString v \<Rightarrow> Inr v)"

text \<open>\<open>^__version__\s*=\s*"([^"]+)"\<close> at one position, then at the first line that has it.\<close>

definition init_version_at :: "codes \<Rightarrow> codes option" where
  "init_version_at s =
     (let key = codes_of ''__version__''
      in if take (length key) s \<noteq> key then None
         else (let eq = dropWhile u_isspace (drop (length key) s);
                   quote = dropWhile u_isspace (tl eq);
                   v = takeWhile (\<lambda>c. c \<noteq> 34) (tl quote)
               in if eq \<noteq> [] \<and> hd eq = 61 \<and> quote \<noteq> [] \<and> hd quote = 34 \<and> v \<noteq> [] \<and>
                     dropWhile (\<lambda>c. c \<noteq> 34) (tl quote) \<noteq> [] then Some v else None))"

fun init_version :: "bool \<Rightarrow> codes \<Rightarrow> codes option" where
  "init_version at_line_start [] = None"
| "init_version at_line_start (c # s) =
     (case (if at_line_start then init_version_at (c # s) else None) of
        Some v \<Rightarrow> Some v
      | None \<Rightarrow> init_version (c = 10) s)"

definition package_version :: "codes \<Rightarrow> release_error + codes" where
  "package_version init_text = (case init_version True init_text of
     None \<Rightarrow> Inl (ReleaseError NoPackageVersion)
   | Some v \<Rightarrow> Inr v)"

section \<open>Code blocks\<close>

text \<open>One line: whether it is structure, and the fence that is open after it.\<close>

definition opens_fence :: "codes \<Rightarrow> codes option" where
  "opens_fence line = (case FENCE_RE line of
     None \<Rightarrow> None
   | Some (fence, info) \<Rightarrow> if hd fence = 96 \<and> 96 \<in> set info then None else Some fence)"

definition closes_fence :: "codes \<Rightarrow> codes \<Rightarrow> bool" where
  "closes_fence open_fence line \<longleftrightarrow> (case FENCE_RE line of
     None \<Rightarrow> False
   | Some (fence, info) \<Rightarrow> hd fence = hd open_fence \<and> length open_fence \<le> length fence \<and>
       dropWhile (\<lambda>c. c = hd open_fence) (u_strip u_isspace line) = [])"

fun fence_lines :: "nat \<Rightarrow> (codes \<times> nat) option \<Rightarrow> codes list \<Rightarrow> release_error + bool list" where
  "fence_lines number None [] = Inr []"
| "fence_lines number (Some (fence, opened_at)) [] = Inl (ReleaseError (UnclosedFence opened_at))"
| "fence_lines number None (line # lines) = (case opens_fence line of
     Some fence \<Rightarrow> bind_err (fence_lines (number + 1) (Some (fence, number)) lines) (\<lambda>r. Inr (False # r))
   | None \<Rightarrow> bind_err (fence_lines (number + 1) None lines) (\<lambda>r. Inr (True # r)))"
| "fence_lines number (Some (fence, opened_at)) (line # lines) =
     bind_err (fence_lines (number + 1) (if closes_fence fence line then None else Some (fence, opened_at)) lines)
       (\<lambda>r. Inr (False # r))"

definition outside_fences :: "codes list \<Rightarrow> release_error + bool list" where
  "outside_fences lines = fence_lines 1 None lines"

section \<open>The section of a version\<close>

definition blank_line :: "codes \<Rightarrow> bool" where
  "blank_line line \<longleftrightarrow> u_strip u_isspace line = []"

text \<open>\<open>_without_footer\<close>: the loop that moves the cut back walks the lines from the end.\<close>

fun u_contains :: "codes \<Rightarrow> codes \<Rightarrow> bool" where
  "u_contains needle [] \<longleftrightarrow> needle = []"
| "u_contains needle (c # s) \<longleftrightarrow> take (length needle) (c # s) = needle \<or> u_contains needle s"

definition footer_line :: "codes \<times> bool \<Rightarrow> bool" where
  "footer_line l \<longleftrightarrow> snd l \<and> (blank_line (fst l) \<or> LINK_DEF_RE (fst l) \<noteq> None)"

definition without_footer :: "(codes \<Rightarrow> codes) \<Rightarrow> codes list \<Rightarrow> bool list \<Rightarrow> codes list" where
  "without_footer lower section structural =
     (let cut = length section - length (takeWhile footer_line (rev (zip section structural)));
          footer = filter (\<lambda>l. \<not> blank_line l) (drop cut section);
          body = lower (u_join (take cut section));
          used = filter (\<lambda>l. case LINK_DEF_RE l of None \<Rightarrow> False
                   | Some label \<Rightarrow> u_contains (91 # lower label @ [93]) body) footer
      in if footer = [] then section
         else take cut section @ (if used \<noteq> [] then [] # used else []))"

text \<open>The first pass over the lines: where the section starts, an error if twice.\<close>

fun section_start :: "string \<Rightarrow> nat \<Rightarrow> nat option \<Rightarrow> (codes \<times> bool) list \<Rightarrow> release_error + nat option" where
  "section_start version index start [] = Inr start"
| "section_start version index start ((line, structural) # rest) =
     (if structural \<and> HEADING_RE line = Some (codes_of version)
      then (case start of
          Some _ \<Rightarrow> Inl (ReleaseError (DuplicateSection version))
        | None \<Rightarrow> section_start version (index + 1) (Some (index + 1)) rest)
      else section_start version (index + 1) start rest)"

definition extract_section :: "(codes \<Rightarrow> codes) \<Rightarrow> codes \<Rightarrow> string \<Rightarrow> release_error + codes" where
  "extract_section lower changelog_text version =
     (let lines = splitlines changelog_text in
      bind_err (outside_fences lines) (\<lambda>structural.
      bind_err (section_start version 0 None (zip lines structural)) (\<lambda>found. case found of
        None \<Rightarrow> Inl (ReleaseError (NoSection version))
      | Some start \<Rightarrow>
          let tail = drop start (zip lines structural);
              section = takeWhile (\<lambda>(line, s). \<not> (s \<and> H2_RE line)) tail;
              kept = (if length section = length tail then without_footer lower (map fst section) (map snd section)
                      else map fst section);
              body = u_strip (\<lambda>c. c = 10) (u_join kept)
          in if blank_line body then Inl (ReleaseError (EmptySection version)) else Inr (body @ [10]))))"

section \<open>Notes\<close>

definition ascii_letter :: "int \<Rightarrow> bool" where
  "ascii_letter n \<longleftrightarrow> 65 \<le> n \<and> n \<le> 90 \<or> 97 \<le> n \<and> n \<le> 122"

text \<open>What the negative look-ahead refuses: a scheme, an anchor, an absolute path.\<close>

definition not_relative :: "codes \<Rightarrow> bool" where
  "not_relative s \<longleftrightarrow> s \<noteq> [] \<and> (hd s = 35 \<or> hd s = 47 \<or>
     ascii_letter (hd s) \<and>
       (let r = dropWhile (\<lambda>c. ascii_letter c \<or> 48 \<le> c \<and> c \<le> 57 \<or> c \<in> {43, 46, 45}) (tl s) in r \<noteq> [] \<and> hd r = 58))"

text \<open>The path of a relative link at the start of a text, and what follows its closing parenthesis.\<close>

definition relative_link :: "codes \<Rightarrow> (codes \<times> codes) option" where
  "relative_link s =
     (if take 2 s \<noteq> [93, 40] \<or> not_relative (drop 2 s) then None
      else (let path = takeWhile (\<lambda>c. c \<noteq> 41 \<and> \<not> u_isspace c) (drop 2 s); rest = dropWhile (\<lambda>c. c \<noteq> 41 \<and> \<not> u_isspace c) (drop 2 s)
            in if path \<noteq> [] \<and> rest \<noteq> [] \<and> hd rest = 41 then Some (path, tl rest) else None))"

lemma relative_link_shorter: "relative_link s = Some (path, rest) \<Longrightarrow> length rest < length s"
proof -
  assume r: "relative_link s = Some (path, rest)"
  then have "take 2 s = [93, 40]" "rest = tl (dropWhile (\<lambda>c. c \<noteq> 41 \<and> \<not> u_isspace c) (drop 2 s))"
    by (auto simp: relative_link_def Let_def split: if_splits)
  then have "2 \<le> length s" "length rest \<le> length s - 2"
    using length_dropWhile_le [of "\<lambda>c. c \<noteq> 41 \<and> \<not> u_isspace c" "drop 2 s"]
    by (auto simp: take_eq_Nil numeral_2_eq_2 dest: arg_cong [where f = length])
  then show ?thesis by simp
qed

function absolute_links :: "codes \<Rightarrow> codes \<Rightarrow> codes" where
  "absolute_links base s = (case relative_link s of
     Some (path, rest) \<Rightarrow> [93, 40] @ base @ path @ [41] @ absolute_links base rest
   | None \<Rightarrow> (case s of [] \<Rightarrow> [] | c # r \<Rightarrow> c # absolute_links base r))"
  by pat_completeness auto
termination by (relation "measure (\<lambda>(base, s). length s)") (auto simp: relative_link_shorter)

declare absolute_links.simps [simp del]

definition absolutise_links :: "codes \<Rightarrow> string \<Rightarrow> string \<Rightarrow> codes" where
  "absolutise_links markdown repo_url ref =
     absolute_links (codes_of (py_rstrip_chars ''/'' repo_url @ ''/blob/'' @ ref @ ''/'')) markdown"

definition image_block :: "string \<Rightarrow> string \<Rightarrow> string option \<Rightarrow> string" where
  "image_block img version digest =
     (let pull = ''docker pull '' @ img @ '':'' @ version @ [newline] @
            (if truthy digest then ''docker pull '' @ img @ ''@'' @ the digest @ [newline] else [])
      in [newline] @ ''## Container image'' @ [newline, newline] @ replicate 3 CHR 0x60 @ ''bash'' @ [newline] @ pull @ replicate 3 CHR 0x60 @
         [newline, newline] @ ''Built for '' @ [CHR 0x60] @ ''linux/amd64'' @ [CHR 0x60] @ '' and '' @ [CHR 0x60] @ ''linux/arm64'' @ [CHR 0x60] @
         '', with SBOM and provenance attestations attached.'' @ [newline])"

section \<open>Channels\<close>

type_synonym version_key = "int \<times> int \<times> int"

definition key_of :: "string \<Rightarrow> release_error + version_key" where
  "key_of version = (case map py_int (py_split CHR ''.'' version) of
     [Some major, Some minor, Some patch] \<Rightarrow> Inr (major, minor, patch)
   | _ \<Rightarrow> Inl NumberTooLong)"

definition clean_tag :: "string \<Rightarrow> string" where
  "clean_tag name = (let n = py_strip name in if py_startswith n ''refs/tags/'' then drop (length ''refs/tags/'') n else n)"

fun released_keys :: "string list \<Rightarrow> release_error + version_key list" where
  "released_keys [] = Inr []"
| "released_keys (name # names) = (case TAG_RE (clean_tag name) of
     None \<Rightarrow> released_keys names
   | Some v \<Rightarrow> bind_err (key_of v) (\<lambda>k. bind_err (released_keys names) (\<lambda>ks. Inr (k # ks))))"

definition same_line :: "version_key \<Rightarrow> version_key \<Rightarrow> bool" where
  "same_line a b \<longleftrightarrow> fst a = fst b \<and> fst (snd a) = fst (snd b)"

definition channels :: "string \<Rightarrow> string list \<Rightarrow> release_error + bool \<times> bool" where
  "channels tag existing =
     bind_err (version_from_tag tag) (\<lambda>v. bind_err (key_of v) (\<lambda>current. bind_err (released_keys existing) (\<lambda>ks.
       let newest = fold max ks current;
           newest_in_line = fold max (filter (\<lambda>k. same_line k current) ks) current
       in Inr (current = newest, current = newest_in_line))))"

section \<open>The state of an image\<close>

definition is_word_char :: "char \<Rightarrow> bool" where
  "is_word_char c \<longleftrightarrow> py_isalnum_char c \<or> c = CHR ''_''"

text \<open>A whole word in a text; the flag says whether the character before is one of a word.\<close>

fun has_word :: "bool \<Rightarrow> string \<Rightarrow> string \<Rightarrow> bool" where
  "has_word before w [] \<longleftrightarrow> False"
| "has_word before w (c # s) \<longleftrightarrow>
     \<not> before \<and> py_startswith (c # s) w \<and> (let r = drop (length w) (c # s) in r = [] \<or> \<not> is_word_char (hd r)) \<or>
     has_word (is_word_char c) w s"

definition mentions :: "string list \<Rightarrow> string \<Rightarrow> bool" where
  "mentions phrases output \<longleftrightarrow> list_ex (\<lambda>p. contains p (py_lower output)) phrases"

definition ABSENT_RE :: "string \<Rightarrow> bool" where
  "ABSENT_RE output \<longleftrightarrow> mentions [''not found'', ''manifest unknown'', ''name unknown''] output"

definition AUTH_FAILURE_RE :: "string \<Rightarrow> bool" where
  "AUTH_FAILURE_RE output \<longleftrightarrow> mentions [''denied'', ''unauthorised'', ''unauthorized'', ''forbidden''] output \<or>
     has_word False ''401'' output \<or> has_word False ''403'' output"

definition DENIED_RE :: "string \<Rightarrow> bool" where
  "DENIED_RE output \<longleftrightarrow> mentions [''denied'', ''403 forbidden''] output"

definition UNAUTHENTICATED_RE :: "string \<Rightarrow> bool" where
  "UNAUTHENTICATED_RE output \<longleftrightarrow> mentions [''unauthorised'', ''unauthorized''] output \<or> has_word False ''401'' output"

definition image_state :: "bool \<Rightarrow> string \<Rightarrow> bool \<Rightarrow> int option \<Rightarrow> release_error + string" where
  "image_state succeeded output first_publish exit_code =
     (if exit_code = Some 126 \<or> exit_code = Some 127 then Inl (ReleaseError (LookupNotRun (the exit_code) (py_strip output)))
      else if succeeded then Inr ''exists''
      else if AUTH_FAILURE_RE output
      then (if first_publish \<and> DENIED_RE output \<and> \<not> UNAUTHENTICATED_RE output then Inr ''absent-first-publish''
            else Inl (ReleaseError (LookupRefused (py_strip output))))
      else if ABSENT_RE output then Inr ''absent''
      else Inl (ReleaseError (LookupUnclear (py_strip output))))"

section \<open>Commands\<close>

record repository =
  rp_pyproject :: codes
  rp_init :: codes
  rp_changelog :: codes

definition verify_tag :: "(codes \<Rightarrow> toml_version) \<Rightarrow> (codes \<Rightarrow> codes) \<Rightarrow> string \<Rightarrow> repository \<Rightarrow> release_error + string" where
  "verify_tag toml lower tag root =
     bind_err (version_from_tag tag) (\<lambda>version.
     bind_err (project_version toml (rp_pyproject root)) (\<lambda>declared.
       if declared \<noteq> codes_of version then Inl (ReleaseError (ProjectMismatch tag declared))
       else bind_err (package_version (rp_init root)) (\<lambda>in_package.
         if in_package \<noteq> codes_of version then Inl (ReleaseError (PackageMismatch tag in_package))
         else bind_err (extract_section lower (rp_changelog root) version) (\<lambda>_. Inr version))))"

definition release_notes :: "(codes \<Rightarrow> codes) \<Rightarrow> string \<Rightarrow> repository \<Rightarrow> string option \<Rightarrow> string option \<Rightarrow> string option \<Rightarrow>
    release_error + codes" where
  "release_notes lower version root img repo_url digest =
     (if \<not> VERSION_RE version then Inl (ReleaseError (BadVersion version))
      else bind_err (extract_section lower (rp_changelog root) version) (\<lambda>body.
        let body = (if truthy repo_url then absolutise_links body (the repo_url) (''v'' @ version) else body)
        in Inr (if truthy img then body @ codes_of (image_block (the img) version digest) else body)))"

datatype release_command =
  VerifyCommand string
| NotesCommand string "string option" "string option" "string option"
| ChannelsCommand string
| ImageStateCommand int string

text \<open>\<open>main\<close> after the command line: what is written to standard output, and 1 for a release error.\<close>

definition release_output :: "(codes \<Rightarrow> toml_version) \<Rightarrow> (codes \<Rightarrow> codes) \<Rightarrow> repository \<Rightarrow> release_command \<Rightarrow> string \<Rightarrow>
    release_error + codes" where
  "release_output toml lower root command stdin = (case command of
     VerifyCommand tag \<Rightarrow> bind_err (verify_tag toml lower tag root) (\<lambda>version.
       Inr (codes_of (tag @ '': pyproject.toml, src/acs/__init__.py and CHANGELOG.md agree on '' @ version @ [newline])))
   | NotesCommand version img digest repo_url \<Rightarrow> release_notes lower version root img repo_url digest
   | ChannelsCommand tag \<Rightarrow>
       bind_err (channels tag (map (map char_of) (splitlines (codes_of stdin)))) (\<lambda>(latest, minor).
         Inr (codes_of (''latest='' @ (if latest then ''true'' else ''false'') @ [newline] @
                        ''minor='' @ (if minor then ''true'' else ''false'') @ [newline])))
   | ImageStateCommand exit_code first_publish \<Rightarrow>
       bind_err (image_state (exit_code = 0) stdin (first_publish = ''true'') (Some exit_code)) (\<lambda>state.
         Inr (codes_of (''state='' @ state @ [newline]))))"

definition release_main :: "(codes \<Rightarrow> toml_version) \<Rightarrow> (codes \<Rightarrow> codes) \<Rightarrow> repository \<Rightarrow> release_command \<Rightarrow> string \<Rightarrow>
    release_error + int \<times> codes" where
  "release_main toml lower root command stdin = (case release_output toml lower root command stdin of
     Inl (ReleaseError p) \<Rightarrow> Inr (1, [])
   | Inl e \<Rightarrow> Inl e
   | Inr text \<Rightarrow> Inr (0, text))"

section \<open>Version numbers\<close>

abbreviation digits_value :: "string \<Rightarrow> nat" where
  "digits_value s \<equiv> foldl (\<lambda>n c. 10 * n + (code_of c - 48)) 0 s"

text \<open>A number without leading zeros is the numeral of its value.\<close>

lemma version_number_numeral: "version_number s \<Longrightarrow> s = str_of_nat (digits_value s)"
proof (induction s rule: rev_induct)
  case Nil
  then show ?case by (simp add: version_number_def)
next
  case (snoc d xs)
  have d: "is_decimal d" using snoc.prems by (auto simp: version_number_def is_decimal_def code_of_def)
  then have digit: "digit_char (code_of d - 48) = d" and less: "code_of d - 48 < 10"
    by (auto simp: digit_char_def is_decimal_def code_of_def)
  show ?case
  proof (cases "xs = []")
    case True
    then show ?thesis using less digit by (simp add: str_of_nat.simps [of "code_of d - 48"])
  next
    case False
    then have xs: "version_number xs" "hd xs \<noteq> CHR ''0''" using snoc.prems by (auto simp: version_number_def)
    from snoc.IH [OF xs(1)] have m: "xs = str_of_nat (digits_value xs)" .
    have "digits_value xs \<noteq> 0"
    proof
      assume "digits_value xs = 0"
      with m have "xs = str_of_nat 0" by simp
      also have "str_of_nat 0 = ''0''" by code_simp
      finally have "xs = ''0''" .
      with xs(2) show False by simp
    qed
    then show ?thesis using m less digit
      by (subst str_of_nat.simps) (simp add: div_mult_self1 mod_mult_self1)
  qed
qed

lemma py_split_plain: "c \<notin> set p \<Longrightarrow> py_split c p = [p]"
  by (induction p) auto

lemma py_split_at: "c \<notin> set p \<Longrightarrow> py_split c (p @ c # r) = p # py_split c r"
  by (induction p) auto

type_synonym release_version = "nat \<times> nat \<times> nat"

definition version_str :: "release_version \<Rightarrow> string" where
  "version_str v = (case v of (a, b, c) \<Rightarrow> str_of_nat a @ ''.'' @ str_of_nat b @ ''.'' @ str_of_nat c)"

definition version_tag :: "release_version \<Rightarrow> string" where
  "version_tag v = ''v'' @ version_str v"

lemma numeral_no_dot: "CHR ''.'' \<notin> set (str_of_nat n)"
  using str_of_nat_decimal [of n] by (auto simp: list_all_iff is_decimal_def code_of_def)

lemma version_parts: "py_split CHR ''.'' (version_str (a, b, c)) = [str_of_nat a, str_of_nat b, str_of_nat c]"
  by (simp add: version_str_def py_split_at py_split_plain numeral_no_dot)

lemma version_number_str: "version_number (str_of_nat n)"
proof (induction n rule: str_of_nat.induct)
  case (1 n)
  show ?case
  proof (cases "n < 10")
    case True
    then show ?thesis
      using str_of_nat_decimal [of n] by (auto simp: version_number_def str_of_nat.simps [of n] digit_char_def)
  next
    case False
    then have "version_number (str_of_nat (n div 10))" using 1 by simp
    moreover have "str_of_nat (n div 10) \<noteq> ''0''"
    proof
      assume "str_of_nat (n div 10) = ''0''"
      from arg_cong [OF this, of digits_value] have "n div 10 = digits_value ''0''" by (simp only: foldl_str_of_nat)
      then have "n div 10 = 0" by (simp add: code_of_def)
      with False show False by simp
    qed
    ultimately show ?thesis using False str_of_nat_decimal [of n] by (auto simp: version_number_def str_of_nat.simps [of n])
  qed
qed

lemma py_int_numeral: "py_int (str_of_nat n) = (if int_max_str_digits < length (str_of_nat n) then None else Some (int n))"
proof -
  let ?s = "str_of_nat n"
  have dec: "is_decimal c" if "c \<in> set ?s" for c using str_of_nat_decimal [of n] that by (simp add: list_all_iff)
  have "\<not> py_isspace_char (hd ?s)" "\<not> py_isspace_char (last ?s)" and d: "is_decimal (hd ?s)"
    using dec decimal_not_space hd_in_set [OF str_of_nat_not_Nil] last_in_set [OF str_of_nat_not_Nil] by blast+
  then have "py_strip ?s = ?s" by (simp add: py_strip_def strip_by_id)
  moreover have "hd ?s \<noteq> CHR ''-''" "hd ?s \<noteq> CHR ''+''" using d by (auto simp: is_decimal_def code_of_def)
  ultimately have "py_int (str_of_nat n) = map_option int (py_nat (str_of_nat n))"
    by (cases "str_of_nat n") (simp_all add: py_int_def)
  moreover have "py_nat (str_of_nat n) = (if int_max_str_digits < length (str_of_nat n) then None else Some n)"
    using py_nat_str_of_nat [of n] by (auto simp: py_nat_def filter_decimal_str_of_nat)
  ultimately show ?thesis by simp
qed

lemma version_text_str: "version_text (version_str v)"
  by (cases v) (simp add: version_text_def version_parts version_number_str)

lemma version_text_exists: "version_text s \<Longrightarrow> \<exists>v. s = version_str v"
proof -
  assume v: "version_text s"
  then obtain a b c where p: "py_split CHR ''.'' s = [a, b, c]" and n: "version_number a" "version_number b" "version_number c"
    by (auto simp: version_text_def Let_def numeral_3_eq_3 length_Suc_conv)
  have "s = a @ ''.'' @ b @ ''.'' @ c" using py_join_split [of "CHR ''.''" s] by (simp add: p)
  then have "s = version_str (digits_value a, digits_value b, digits_value c)"
    using n [THEN version_number_numeral] by (simp add: version_str_def)
  then show ?thesis by blast
qed

lemma key_of_str: "key_of (version_str (a, b, c)) = Inr k \<Longrightarrow> k = (int a, int b, int c)"
  by (auto simp: key_of_def version_parts py_int_numeral split: if_splits)

lemma version_str_inj: "version_str v = version_str w \<longleftrightarrow> v = w"
proof
  assume eq: "version_str v = version_str w"
  obtain a b c a' b' c' where v: "v = (a, b, c)" "w = (a', b', c')" by (cases v; cases w)
  have "str_of_nat x = str_of_nat y \<Longrightarrow> x = y" for x y by (metis foldl_str_of_nat)
  with arg_cong [OF eq, of "py_split CHR ''.''"] show "v = w" by (simp add: v version_parts)
qed simp

lemma tag_of_version: "TAG_RE (version_tag v) = Some (version_str v)"
  by (simp add: TAG_RE_def version_tag_def version_text_str)

text \<open>A tag that was stripped has no newline at its end, so the expression gives exactly the tags of versions.\<close>

lemma clean_tag_end: "clean_tag n \<noteq> [] \<Longrightarrow> last (clean_tag n) \<noteq> newline"
proof -
  have strip: "s \<noteq> [] \<Longrightarrow> last s \<noteq> newline" if "s = py_strip n" for s
    using that hd_dropWhile [of py_isspace_char "rev (dropWhile py_isspace_char n)"]
    by (auto simp: py_strip_def strip_by_def last_rev py_isspace_char_def code_of_def)
  have "clean_tag n \<noteq> [] \<Longrightarrow> last (clean_tag n) = last (py_strip n) \<and> py_strip n \<noteq> []"
    unfolding clean_tag_def Let_def by (auto simp del: length_drop split: if_splits)
  with strip [OF refl] show "clean_tag n \<noteq> [] \<Longrightarrow> last (clean_tag n) \<noteq> newline" by simp
qed

lemma clean_tag_version: "TAG_RE (clean_tag n) = Some w \<longleftrightarrow> (\<exists>v. clean_tag n = version_tag v \<and> w = version_str v)"
proof
  assume w: "TAG_RE (clean_tag n) = Some w"
  then obtain s where s: "clean_tag n = CHR ''v'' # s" by (auto simp: TAG_RE_def split: list.splits if_splits)
  have "version_text s \<and> w = s" using w clean_tag_end [of n] by (auto simp: TAG_RE_def s split: if_splits)
  with version_text_exists [of s] s show "\<exists>v. clean_tag n = version_tag v \<and> w = version_str v" by (auto simp: version_tag_def)
qed (auto simp: tag_of_version)

section \<open>Which channels a release moves\<close>

definition int_version :: "release_version \<Rightarrow> version_key" where
  "int_version v = (int (fst v), int (fst (snd v)), int (snd (snd v)))"

lemma key_of_version: "key_of (version_str v) = Inr k \<Longrightarrow> k = int_version v"
  by (cases v) (auto simp: int_version_def dest: key_of_str)

lemma int_version_le: "int_version v \<le> int_version w \<longleftrightarrow> v \<le> w"
  by (cases v; cases w) (auto simp: int_version_def)

lemma released_keys_set:
  "released_keys names = Inr ks \<Longrightarrow> set ks = int_version ` {v. version_tag v \<in> clean_tag ` set names}"
proof (induction names arbitrary: ks)
  case (Cons name names)
  show ?case
  proof (cases "TAG_RE (clean_tag name)")
    case None
    then have "version_tag v \<noteq> clean_tag name" for v using tag_of_version [of v] by (metis option.distinct(1))
    with Cons None show ?thesis by auto
  next
    case (Some w)
    then obtain v where v: "clean_tag name = version_tag v" "w = version_str v" using clean_tag_version by blast
    from Cons.prems Some obtain k ks' where k: "key_of w = Inr k" "released_keys names = Inr ks'" "ks = k # ks'"
      by (auto simp: bind_err_Inr)
    have "{u. version_tag u \<in> clean_tag ` set (name # names)} = insert v {u. version_tag u \<in> clean_tag ` set names}"
      using v(1) version_str_inj by (auto simp: version_tag_def)
    then show ?thesis using Cons.IH [OF k(2)] key_of_version [of v k] k(1,3) v(2) by simp
  qed
qed simp

lemma newest_iff: "k = fold max ks k \<longleftrightarrow> (\<forall>x \<in> set ks. x \<le> (k :: version_key))"
proof -
  have "fold max ks k = Max (set (k # ks))" by (simp only: Max.set_eq_fold)
  then show ?thesis by (simp add: eq_Max_iff [of "insert k (set ks)" k, simplified] eq_commute)
qed

text \<open>
  C39. A release never moves a channel backwards. For a release tag, \<open>latest\<close> moves exactly when no existing
  release tag has a greater version, and the minor channel exactly when none of the same minor line has;
  versions compare as triples of numbers, not as text, and names that are not plain release tags (a
  pre-release, a branch) do not count. A release that runs late or again behind a newer one moves nothing.
\<close>

theorem channels_never_move_back:
  assumes "channels (version_tag v) existing = Inr (latest, minor)"
  shows "(latest \<longleftrightarrow> (\<forall>w. version_tag w \<in> clean_tag ` set existing \<longrightarrow> w \<le> v)) \<and>
    (minor \<longleftrightarrow> (\<forall>w. version_tag w \<in> clean_tag ` set existing \<and> fst w = fst v \<and> fst (snd w) = fst (snd v) \<longrightarrow> w \<le> v))"
proof -
  from assms obtain ks where ks: "released_keys existing = Inr ks" and
    flags: "latest = (int_version v = fold max ks (int_version v))"
      "minor = (int_version v = fold max (filter (\<lambda>k. same_line k (int_version v)) ks) (int_version v))"
    by (auto simp: channels_def version_from_tag_def tag_of_version bind_err_Inr Let_def dest!: key_of_version)
  have "same_line (int_version w) (int_version v) \<longleftrightarrow> fst w = fst v \<and> fst (snd w) = fst (snd v)" for w
    by (simp add: same_line_def int_version_def)
  then have line: "(\<forall>x \<in> int_version ` V. same_line x (int_version v) \<longrightarrow> x \<le> int_version v) \<longleftrightarrow>
      (\<forall>w \<in> V. fst w = fst v \<and> fst (snd w) = fst (snd v) \<longrightarrow> w \<le> v)" for V
    by (simp add: int_version_le)
  have all: "(\<forall>x \<in> int_version ` V. x \<le> int_version v) \<longleftrightarrow> (\<forall>w \<in> V. w \<le> v)" for V
    by (simp add: int_version_le)
  have filters: "(\<forall>x \<in> set (filter P xs). Q x) \<longleftrightarrow> (\<forall>x \<in> set xs. P x \<longrightarrow> Q x)" for P Q and xs :: "version_key list"
    by auto
  show ?thesis unfolding flags newest_iff filters released_keys_set [OF ks] all line by blast
qed

theorem channels_never_move_back_witness:
  "channels (version_tag (1, 3, 0)) [''v1.2.9'', ''refs/tags/v1.10.0'', ''v2.0.0-rc1''] = Inr (False, True) \<and>
   \<not> (\<forall>w. version_tag w \<in> clean_tag ` set [''v1.2.9'', ''refs/tags/v1.10.0'', ''v2.0.0-rc1''] \<longrightarrow> w \<le> (1, 3, 0))"
proof -
  have tags: "version_from_tag (version_tag (1, 3, 0)) = Inr ''1.3.0''" "TAG_RE (clean_tag ''v1.2.9'') = Some ''1.2.9''"
    "TAG_RE (clean_tag ''refs/tags/v1.10.0'') = Some ''1.10.0''" "TAG_RE (clean_tag ''v2.0.0-rc1'') = None"
    by code_simp+
  have keys: "key_of ''1.3.0'' = Inr (1, 3, 0)" "key_of ''1.2.9'' = Inr (1, 2, 9)" "key_of ''1.10.0'' = Inr (1, 10, 0)"
    by (simp_all add: key_of_def py_int_def py_nat_def py_defs int_max_str_digits_def)
  have "channels (version_tag (1, 3, 0)) [''v1.2.9'', ''refs/tags/v1.10.0'', ''v2.0.0-rc1''] = Inr (False, True)"
    unfolding channels_def tags by (simp add: tags(2-4) keys same_line_def max_def)
  with channels_never_move_back [OF this] show ?thesis by blast
qed

section \<open>Cutting a section out of the changelog\<close>

definition text_of_lines :: "codes list \<Rightarrow> codes" where
  "text_of_lines ls = concat (map (\<lambda>l. l @ [10]) ls)"

abbreviation one_line_text :: "codes \<Rightarrow> bool" where
  "one_line_text l \<equiv> list_all (\<lambda>c. \<not> u_line_break c) l"

lemma u_lines_line: "one_line_text l \<Longrightarrow> u_lines cur (l @ 10 # s) = rev (rev l @ cur) # u_lines [] s"
proof (induction l arbitrary: cur)
  case Nil
  show ?case by (cases s) (auto simp: u_line_break_def)
next
  case (Cons c l)
  moreover have "c \<noteq> 13" using Cons.prems by (auto simp: u_line_break_def)
  ultimately show ?case by (cases "l @ 10 # s") auto
qed

lemma splitlines_text: "list_all one_line_text ls \<Longrightarrow> splitlines (text_of_lines ls) = ls"
  by (induction ls) (simp_all add: splitlines_def text_of_lines_def u_lines_line)

text \<open>Code blocks do not reach from one closed text into the next.\<close>

lemma fence_lines_append:
  "fence_lines n f a = Inr fa \<Longrightarrow> fence_lines n f (a @ b) = bind_err (fence_lines (n + length a) None b) (\<lambda>r. Inr (fa @ r))"
proof (induction n f a arbitrary: fa rule: fence_lines.induct)
  case (1 n)
  then show ?case by (cases "fence_lines n None b") simp_all
next
  case (3 n line lines)
  then show ?case by (cases "opens_fence line"; cases "fence_lines (n + length (line # lines)) None b") (auto simp: bind_err_Inr)
next
  case (4 n fence at line lines)
  then show ?case by (cases "fence_lines (n + length (line # lines)) None b") (auto simp: bind_err_Inr)
qed simp

lemma fence_lines_numbers: "fence_lines n f a = Inr fa \<Longrightarrow> fence_lines m (map_option (\<lambda>(fence, at). (fence, k)) f) a = Inr fa"
proof (induction n f a arbitrary: fa m k rule: fence_lines.induct)
  case (3 n line lines)
  show ?case
  proof (cases "opens_fence line")
    case None
    with "3.prems" "3.IH"(1) [OF None, of _ "m + 1"] show ?thesis by (auto simp: bind_err_Inr)
  next
    case (Some fence)
    with "3.prems" "3.IH"(2) [OF Some, of _ "m + 1" m] show ?thesis by (auto simp: bind_err_Inr)
  qed
next
  case (4 n fence at line lines)
  from "4.prems" obtain r where r: "fa = False # r"
    "fence_lines (n + 1) (if closes_fence fence line then None else Some (fence, at)) lines = Inr r" by (auto simp: bind_err_Inr)
  from "4.IH" [OF r(2), of "m + 1" k] show ?case by (simp add: r(1) split: if_splits)
qed simp_all

lemma fence_lines_length: "fence_lines n f a = Inr fa \<Longrightarrow> length fa = length a"
proof (induction n f a arbitrary: fa rule: fence_lines.induct)
  case (3 n line lines)
  then show ?case by (cases "opens_fence line") (auto simp: bind_err_Inr)
next
  case (4 n fence at line lines)
  then show ?case by (auto simp: bind_err_Inr)
qed simp_all

lemma outside_fences_append:
  assumes "outside_fences a = Inr fa" "outside_fences b = Inr fb"
  shows "outside_fences (a @ b) = Inr (fa @ fb)"
  using fence_lines_append [OF assms(1) [unfolded outside_fences_def], of b]
    fence_lines_numbers [OF assms(2) [unfolded outside_fences_def], of "1 + length a" 0]
  by (simp add: outside_fences_def)

lemma heading_is_structure: "H2_RE line \<Longrightarrow> outside_fences [line] = Inr [True]"
  by (auto simp: outside_fences_def H2_RE_def after_marker_def opens_fence_def FENCE_RE_def split: option.splits list.splits if_splits)

lemma heading_level_two: "HEADING_RE line = Some name \<Longrightarrow> H2_RE line"
  by (auto simp: HEADING_RE_def H2_RE_def split: option.splits if_splits)

text \<open>Where the section starts.\<close>

definition names_section :: "string \<Rightarrow> codes \<times> bool \<Rightarrow> bool" where
  "names_section version l \<longleftrightarrow> snd l \<and> HEADING_RE (fst l) = Some (codes_of version)"

lemma section_start_skip:
  "\<not> list_ex (names_section version) ls \<Longrightarrow> section_start version i start (ls @ rest) = section_start version (i + length ls) start rest"
  by (induction ls arbitrary: i) (auto simp: names_section_def)

lemma section_start_found:
  assumes "\<not> list_ex (names_section version) a" "names_section version l" "\<not> list_ex (names_section version) b"
  shows "section_start version 0 None (a @ l # b) = Inr (Some (length a + 1))"
  using section_start_skip [OF assms(1), of 0 None "l # b"] section_start_skip [OF assms(3), of "length a + 1" "Some (length a + 1)" "[]"] assms(2)
  by (cases l) (simp add: names_section_def)

text \<open>A closed text with the given flags.\<close>

definition marked :: "codes list \<Rightarrow> (codes \<times> bool) list \<Rightarrow> bool" where
  "marked ls ms \<longleftrightarrow> (\<exists>st. outside_fences ls = Inr st \<and> ms = zip ls st)"

lemma marked_append: "marked a ma \<Longrightarrow> marked b mb \<Longrightarrow> marked (a @ b) (ma @ mb)"
proof -
  assume "marked a ma" "marked b mb"
  then obtain fa fb where f: "outside_fences a = Inr fa" "ma = zip a fa" "outside_fences b = Inr fb" "mb = zip b fb"
    by (auto simp: marked_def)
  have "length fa = length a" using fence_lines_length f(1) by (auto simp: outside_fences_def)
  with f outside_fences_append [OF f(1,3)] show ?thesis by (auto simp: marked_def)
qed

lemma marked_lines: "marked ls ms \<Longrightarrow> map fst ms = ls"
  using fence_lines_length by (fastforce simp: marked_def outside_fences_def)

lemma u_strip_Nil: "u_strip P s = [] \<longleftrightarrow> list_all P s"
proof -
  have "u_strip P s = [] \<longleftrightarrow> (\<forall>c \<in> set (dropWhile P s). P c)" by (simp add: u_strip_def dropWhile_eq_Nil_conv)
  also have "\<dots> \<longleftrightarrow> list_all P s" by (induction s) (auto simp: list_all_iff)
  finally show ?thesis .
qed

lemma u_strip_removes: "set s \<subseteq> set (u_strip P s) \<union> Collect P"
proof -
  have drop: "set r \<subseteq> set (dropWhile P r) \<union> Collect P" for r by (induction r) auto
  from drop [of s] drop [of "rev (dropWhile P s)"] show ?thesis by (auto simp: u_strip_def)
qed

lemma join_all: "list_all P (u_join ls) \<Longrightarrow> list_all (list_all P) ls"
  by (induction ls rule: u_join.induct) auto

lemma body_not_blank: "\<not> list_all blank_line ls \<Longrightarrow> \<not> blank_line (u_strip (\<lambda>c. c = 10) (u_join ls))"
proof
  assume ls: "\<not> list_all blank_line ls" and "blank_line (u_strip (\<lambda>c. c = 10) (u_join ls))"
  then have "\<forall>c \<in> set (u_strip (\<lambda>c. c = 10) (u_join ls)). u_isspace c" by (simp add: blank_line_def u_strip_Nil list_all_iff)
  moreover have "u_isspace 10" by (simp add: u_isspace_def)
  ultimately have "list_all u_isspace (u_join ls)"
    using u_strip_removes [of "u_join ls" "\<lambda>c. c = 10"] unfolding list_all_iff by blast
  from join_all [OF this] ls show False by (simp add: blank_line_def [abs_def] u_strip_Nil)
qed

lemma marked_heading: "H2_RE line \<Longrightarrow> marked [line] [(line, True)]"
  by (auto simp: marked_def heading_is_structure)

lemma takeWhile_section:
  "\<not> list_ex (\<lambda>(line, s). s \<and> H2_RE line) ms \<Longrightarrow> H2_RE stop \<Longrightarrow>
    takeWhile (\<lambda>(line, s). \<not> (s \<and> H2_RE line)) (ms @ (stop, True) # rest) = ms"
  by (induction ms) auto


text \<open>A section whose code block shows a heading.\<close>

definition demo_section :: "codes list" where
  "demo_section = map codes_of [''Fixed:'', ''~~~'', ''## [1.2.0]'', ''~~~'', ''done'']"

lemma demo_marks:
  "marked [codes_of ''# Changelog''] [(codes_of ''# Changelog'', True)]" "marked [codes_of ''old''] [(codes_of ''old'', True)]"
  "marked demo_section (zip demo_section [True, False, False, False, True])"
proof -
  have "outside_fences [codes_of ''# Changelog''] = Inr [True]" "outside_fences [codes_of ''old''] = Inr [True]"
    "outside_fences demo_section = Inr [True, False, False, False, True]" by code_simp+
  then show "marked [codes_of ''# Changelog''] [(codes_of ''# Changelog'', True)]" "marked [codes_of ''old''] [(codes_of ''old'', True)]"
    "marked demo_section (zip demo_section [True, False, False, False, True])" by (simp_all add: marked_def)
qed


end
