(* ===== verification/Gen_Docs.thy ===== *)
theory Gen_Docs
  imports Release Conformance Motree Vers
begin

text \<open>
  The generators of the two documents that state the coverage: \<^verbatim>\<open>src/scripts/gen_conformance.py\<close> (the registry
  of requirements) and \<^verbatim>\<open>src/scripts/gen_spec_coverage.py\<close> (the catalogues). A document is a text of code points,
  since both use a dash beyond code point 255. The fixed text at the top of a document is an argument, as are the
  loaded registry and catalogues and the present content of the file. A failed look-up in a dictionary is
  \<^const>\<open>None\<close>. What the scripts print is left out.
\<close>

abbreviation doc_dash :: codes where
  "doc_dash \<equiv> [8212]"

abbreviation ticked :: "string \<Rightarrow> string" where
  "ticked s \<equiv> [CHR 0x60] @ s @ [CHR 0x60]"

definition str_len :: "'a list \<Rightarrow> string" where
  "str_len xs = str_of_nat (length xs)"

section \<open>The conformance registry\<close>

definition STATUS_MARK :: "(string, string) dict" where
  "STATUS_MARK = [(''implemented'', ''yes''), (''partial'', ''partial''), (''not-implemented'', ''no''), (''not-applicable'', ''n/a'')]"

definition with_status :: "string \<Rightarrow> Requirement list \<Rightarrow> Requirement list" where
  "with_status status rs = filter (\<lambda>r. cr_status r = status) rs"

definition summary_row :: "RequirementSet \<Rightarrow> string option" where
  "summary_row s =
     (let counts = requirement_counts s in
      case (dict_get counts ''implemented'', dict_get counts ''partial'', dict_get counts ''not-implemented'') of
        (Some i, Some p, Some n) \<Rightarrow> Some (''| '' @ rset_title s @ '' | '' @ str_len (rset_requirements s) @ '' | '' @ str_of_nat i @
          '' | '' @ str_of_nat p @ '' | '' @ str_of_nat n @ '' | '' @ str_len (mandatory_gaps s) @ '' |'')
      | _ \<Rightarrow> None)"

definition summary_table :: "RequirementSet list \<Rightarrow> SpecFamily list \<Rightarrow> codes list option" where
  "summary_table sets families = map_option (\<lambda>rows.
     (let rs = all_requirements sets;
          gaps = filter blocks_conformance rs;
          pending = filter blocks_assessment families
      in map codes_of ([''## Summary'' @ [newline],
           ''| Specification | Requirements | Implemented | Partial | Not implemented | Mandatory gaps |'',
           ''| --- | --- | --- | --- | --- | --- |''] @ rows @
         [''| **Total** | **'' @ str_len rs @ ''** | **'' @ str_len (with_status ''implemented'' rs) @ ''** | **'' @
            str_len (with_status ''partial'' rs) @ ''** | **'' @ str_len (with_status ''not-implemented'' rs) @ ''** | **'' @
            str_len gaps @ ''** |'',
          [],
          ''**Overall: not fully conformant.** '' @ str_len gaps @
            '' requirements this project classifies as mandatory are not fully implemented, and '' @ str_len pending @
            '' further specification families could not be assessed at all because the documents are not held. Both are listed below, and '' @
            ticked ''scripts/gen_conformance.py --strict'' @ '' exits non-zero for each reason separately.'' @ [newline]])))
     (those (map summary_row sets))"

definition family_lines :: "SpecFamily \<Rightarrow> codes list" where
  "family_lines f =
     [codes_of (''### '' @ ticked (sf_id f) @ '' '') @ doc_dash @ codes_of ('' '' @ sf_title f @ [newline])] @
     map codes_of ([''* Jurisdiction: '' @ sf_jurisdiction f, ''* State: **not assessed**, document not held'',
         ''* Why in scope: '' @ sf_why_in_scope f, ''* How to obtain: '' @ sf_obtain_from f] @
       (if sf_publicly_knowable f \<noteq> []
        then ''* Knowable without the document:'' # map (\<lambda>item. ''  * '' @ item) (sf_publicly_knowable f) else []) @
       [''* Only the document can answer:''] @ map (\<lambda>item. ''  * '' @ item) (sf_open_questions f) @
       (if sf_related_gaps f \<noteq> []
        then [''* Existing gaps an assessment would most likely touch: '' @ py_join '', '' (map (\<lambda>gap. ticked gap) (sf_related_gaps f))]
        else []) @
       (if sf_note f \<noteq> [] then [''* Note: '' @ sf_note f] else []) @ [[]])"

definition doc_unassessed :: "SpecFamily list \<Rightarrow> codes list" where
  "doc_unassessed families =
     (let pending = filter blocks_assessment families
      in codes_of (''## Specification families not assessed'' @ [newline]) #
         (if pending = [] then [codes_of (''None: every declared family has been assessed.'' @ [newline])]
          else codes_of (''These were asked for and **cannot be assessed here, because the document is not held**. They deliberately carry no requirement rows: a row would imply a requirement had been read. Counting them separately keeps the numbers above meaningful.'' @ [newline]) #
            concat (map family_lines pending)))"

definition gap_lines :: "Requirement \<Rightarrow> codes list" where
  "gap_lines r =
     [codes_of (''### '' @ ticked (cr_id r) @ '' '') @ doc_dash @ codes_of ('' '' @ cr_title r @ [newline])] @
     map codes_of [''* Status: **'' @ cr_status r @ ''** ('' @ cr_verification r @ '')'', ''* Reference: '' @ cr_spec r,
       ''* Gap: '' @ py_strip (cr_gap r), ''* Impact: '' @ py_strip (cr_impact r) @ [newline]]"

definition gap_section :: "RequirementSet list \<Rightarrow> codes list" where
  "gap_section sets =
     (let gaps = filter blocks_conformance (all_requirements sets)
      in codes_of (''## Mandatory gaps'' @ [newline]) #
         (if gaps = [] then [codes_of (''None.'' @ [newline])] else concat (map gap_lines gaps)))"

text \<open>\<open>t.split("::")[-1]\<close>; the first argument is the current part, reversed.\<close>

fun last_colon_part :: "string \<Rightarrow> string \<Rightarrow> string" where
  "last_colon_part cur [] = rev cur"
| "last_colon_part cur [c] = rev (c # cur)"
| "last_colon_part cur (c # d # s) =
     (if c = CHR '':'' \<and> d = CHR '':'' then last_colon_part [] s else last_colon_part (c # cur) (d # s))"

definition or_dash :: "string \<Rightarrow> codes" where
  "or_dash s = (if s \<noteq> [] then codes_of s else doc_dash)"

definition requirement_rows :: "Requirement \<Rightarrow> codes option" where
  "requirement_rows r =
     (let tests = py_join ''<br>'' (map (\<lambda>t. ticked (last_colon_part [] t)) (cr_tests r));
          detail = str_or (py_strip (cr_gap r)) (py_strip (cr_note r))
      in map_option (\<lambda>mark. codes_of (''| '' @ ticked (cr_id r) @ '' | '' @ cr_title r @ '' | '' @ cr_level r @ '' | '' @ mark @ '' | '' @
            cr_verification r @ '' | '') @ or_dash tests @ codes_of '' | '' @ or_dash detail @ codes_of '' |'')
          (dict_get STATUS_MARK (cr_status r)))"

definition doc_family :: "RequirementSet \<Rightarrow> codes list option" where
  "doc_family s = map_option (\<lambda>rows.
     map codes_of [''## '' @ rset_title s @ [newline], ''* Specification: '' @ rset_spec s, ''* Role audited: '' @ rset_role s,
       ''* Edition pinned: '' @ (if rset_edition_pinned s then ''yes'' else ''**no**'') @ [newline],
       ''| Id | Requirement | Level | Status | Evidence | Tests | Gap or note |'', ''| --- | --- | --- | --- | --- | --- | --- |''] @
     rows @ [[]]) (those (map requirement_rows (rset_requirements s)))"

definition render_conformance :: "codes \<Rightarrow> RequirementSet list \<Rightarrow> SpecFamily list \<Rightarrow> codes option" where
  "render_conformance preamble sets families =
     (case (summary_table sets families, those (map doc_family sets)) of
        (Some summary, Some details) \<Rightarrow> Some (u_join ([preamble] @ summary @ doc_unassessed families @ gap_section sets @ concat details @
          map codes_of [''## Extending this registry'' @ [newline],
            ''Add a row to '' @ ticked ''src/acs/catalog/conformance/omadm.yaml'' @ '' or '' @ ticked ''rcc14.yaml'' @
            '', name the test that proves it, and run '' @ ticked ''make conformance-doc'' @
            ''. The loader refuses a row that claims a status without evidence, and refuses compliance wording outright.'' @ [newline]]))
      | _ \<Rightarrow> None)"

text \<open>The exit status of \<open>main\<close> and the file after it.\<close>

definition conformance_main :: "bool \<Rightarrow> bool \<Rightarrow> codes \<Rightarrow> RequirementSet list \<Rightarrow> SpecFamily list \<Rightarrow> codes option \<Rightarrow>
    (int \<times> codes option) option" where
  "conformance_main strict check preamble sets families output =
     (let gaps = filter blocks_conformance (all_requirements sets);
          pending = filter blocks_assessment families
      in if strict then Some (if gaps \<noteq> [] \<or> pending \<noteq> [] then 1 else 0, output)
         else map_option (\<lambda>content.
           if check then (if output \<noteq> Some content then 1 else 0, output) else (0, Some content))
           (render_conformance preamble sets families))"

section \<open>The coverage of the specifications\<close>

text \<open>\<open>round\<close> and the format \<open>.0f\<close> on a quotient: to the nearest integer, a half to the even one. For the
  sizes of a catalogue the quotient in binary floating point rounds as the exact one does.\<close>

definition half_even :: "nat \<Rightarrow> nat \<Rightarrow> nat" where
  "half_even n d =
     (let q = n div d; r = n mod d
      in if 2 * r < d then q else if d < 2 * r then q + 1 else if even q then q else q + 1)"

definition coverage_bar :: "nat \<Rightarrow> nat \<Rightarrow> string" where
  "coverage_bar verified whole =
     (if whole = 0 then ''n/a''
      else (let filled = half_even (20 * verified) whole
            in ticked (replicate filled CHR ''#'' @ replicate (20 - filled) CHR ''.'') @ '' '' @ str_of_nat verified @ ''/'' @
               str_of_nat whole @ '' ('' @ str_of_nat (half_even (100 * verified) whole) @ ''%)''))"

definition doc_yes_no :: "bool \<Rightarrow> string" where
  "doc_yes_no b = (if b then ''yes'' else ''no'')"

definition doc_action :: "VersAction \<Rightarrow> string" where
  "doc_action a = (case a of APPLY \<Rightarrow> ''apply'' | DISABLE_KEEP \<Rightarrow> ''disable_keep''
     | DISABLE_DELETE_RETRY \<Rightarrow> ''disable_delete_retry'' | DISABLE_DELETE_NO_RETRY \<Rightarrow> ''disable_delete_no_retry''
     | DORMANT \<Rightarrow> ''dormant'' | BLOCKED \<Rightarrow> ''blocked'')"

definition rule_row :: "VersRule \<Rightarrow> string" where
  "rule_row r = ''| '' @ ticked (str_of_int (vr_version r)) @ '' | '' @ doc_action (vr_action r) @ '' | '' @ doc_yes_no (vr_delete_config r) @
     '' | '' @ doc_yes_no (vr_may_requery r) @ '' | '' @ vr_spec_ref r @ '' | '' @ doc_yes_no (vr_verified r) @ '' |''"

text \<open>\<open>setdefault(path, []).append(entry)\<close> over the entries: the paths in the order of their first entries.\<close>

definition grouped_entries :: "CatalogEntry list \<Rightarrow> (string, CatalogEntry list) dict" where
  "grouped_entries entries = fold (\<lambda>e d. dict_put (ce_path e) (dict_get_or d (ce_path e) [] @ [e]) d) entries []"

definition doc_entry_row :: "CatalogEntry \<Rightarrow> string" where
  "doc_entry_row e =
     (let shown = (if ce_default e \<noteq> [] then ticked (ce_default e) else ''_(omitted)_'') @
            (if ce_unit e \<noteq> [] then '' '' @ ce_unit e else [])
      in ''| '' @ ticked (ce_parm e) @ '' | '' @ ce_type e @ '' | '' @ shown @ '' | '' @ ce_spec e @ '' | '' @ doc_yes_no (ce_verified e) @ '' |'')"

definition path_lines :: "string \<times> CatalogEntry list \<Rightarrow> string list" where
  "path_lines g = (case g of (path, entries) \<Rightarrow>
     [''### '' @ ticked path @ [newline], ''| Parameter | Type | Default | Reference | Cross-checked |'',
      ''| --- | --- | --- | --- | --- |''] @ map doc_entry_row entries @ [[]])"

definition doc_node_row :: "MoNode \<Rightarrow> string" where
  "doc_node_row n = ''| '' @ ticked (mo_uri n) @ '' | '' @ mo_format n @ '' | '' @ mo_source n @ '' | '' @
     (if mo_default n \<noteq> [] then ticked (mo_default n) else ''_(none)_'') @ '' | '' @ str_or (mo_feature n) ''-'' @ '' | '' @
     doc_yes_no (mo_verified n) @ '' |''"

definition object_lines :: "ManagementObject \<Rightarrow> string list" where
  "object_lines mo = [''### '' @ mb_title mo @ [newline], ''* URN: '' @ ticked (mb_urn mo), ''* Root: '' @ ticked (mb_root mo),
     ''* Reference: '' @ str_or (mb_spec mo) ''n/a'' @ [newline],
     ''| Node | Format | Owner | Default | Feature | Cross-checked |'', ''| --- | --- | --- | --- | --- | --- |''] @
     map doc_node_row (mb_nodes mo) @ [[]]"

definition render_coverage :: "codes \<Rightarrow> CatalogEntry list \<Rightarrow> MoTree \<Rightarrow> string list \<Rightarrow> codes" where
  "render_coverage header catalog tree profiles = u_join ([header] @ map codes_of (
     [''## Summary'' @ [newline], ''| Surface | Entries | Cross-checked |'', ''| --- | --- | --- |'',
      ''| OMA-CP parameters | '' @ str_len catalog @ '' | '' @ coverage_bar (verified_count catalog) (length catalog) @ '' |'',
      ''| OMA-DM nodes | '' @ str_len (all_nodes tree) @ '' | '' @ coverage_bar (tree_verified_count tree) (length (all_nodes tree)) @ '' |'',
      ''| Version semantics rows | '' @ str_len VERS_RULES @ '' | '' @
        coverage_bar (length (filter vr_verified VERS_RULES)) (length VERS_RULES) @ '' |'', [],
      ''Available RCS profiles: '' @ py_join '', '' (map (\<lambda>p. ticked p) profiles) @ [newline],
      ''## Configuration version semantics'' @ [newline],
      ''| '' @ ticked ''VERS/version'' @ '' | Client action | Deletes config | May re-query | Reference | Cross-checked |'',
      ''| --- | --- | --- | --- | --- | --- |''] @ map rule_row VERS_RULES @
     [[], ''> The interpretation of '' @ ticked ''-1'' @ '' to '' @ ticked ''-4'' @
        '' differs between RCC.14 releases and between vendor implementations. It is encoded as a single reviewable table in '' @
        ticked ''src/acs/protocol/vers.py'' @ '' for exactly that reason.'' @ [newline],
      ''## OMA-CP parameters'' @ [newline]] @ concat (map path_lines (grouped_entries catalog)) @
     [''## OMA-DM management objects'' @ [newline]] @ concat (map object_lines tree) @ [''## Extending coverage'' @ [newline]]) @
     [codes_of (''Adding a parameter is a data change: append an entry to '' @ ticked ''src/acs/catalog/omacp/base.yaml'' @
        '' (or a profile overlay) and regenerate this document. Adding a whole new managed service '') @ doc_dash @
      codes_of ('' VoLTE extensions, firmware update, a vendor MO '') @ doc_dash @
      codes_of ('' means dropping a YAML file into '' @ ticked ''src/acs/catalog/omadm/'' @
        ''. Neither requires touching server code.'' @ [newline])])"

definition coverage_main :: "bool \<Rightarrow> codes \<Rightarrow> CatalogEntry list \<Rightarrow> MoTree \<Rightarrow> string list \<Rightarrow> codes option \<Rightarrow> int \<times> codes option" where
  "coverage_main check header catalog tree profiles output =
     (let content = render_coverage header catalog tree profiles
      in if check then (if output \<noteq> Some content then 1 else 0, output) else (0, Some content))"

section \<open>The gates\<close>

lemma those_total: "(\<And>x. x \<in> set xs \<Longrightarrow> \<exists>y. f x = Some y) \<Longrightarrow> \<exists>ys. those (map f xs) = Some ys"
proof (induction xs)
  case (Cons x xs)
  then obtain y ys where "f x = Some y" "those (map f xs) = Some ys" by fastforce
  then show ?case by simp
qed simp

lemma bump_keeps: "dict_get d k \<noteq> None \<Longrightarrow> dict_get (bump d k') k \<noteq> None"
  by (simp add: bump_def)

lemma counts_have: "k \<in> set STATUSES \<Longrightarrow> \<exists>n. dict_get (requirement_counts s) k = Some n"
proof -
  assume k: "k \<in> set STATUSES"
  have "dict_get (fold (\<lambda>r out. bump out (cr_status r)) rs d) k \<noteq> None" if "dict_get d k \<noteq> None" for rs d
    using that by (induction rs arbitrary: d) (simp_all add: bump_keeps del: not_None_eq)
  moreover have "dict_get (map (\<lambda>k. (k, 0 :: nat)) STATUSES) k \<noteq> None"
    using k by (auto simp: dict_get_def map_of_eq_None_iff image_iff)
  ultimately show ?thesis by (simp add: requirement_counts_def)
qed

lemma conformance_renders:
  assumes "list_all requirement_ok (all_requirements sets)"
  shows "\<exists>doc. render_conformance preamble sets families = Some doc"
proof -
  have "\<exists>row. summary_row s = Some row" for s
  proof -
    have keys: "''implemented'' \<in> set STATUSES" "''partial'' \<in> set STATUSES" "''not-implemented'' \<in> set STATUSES" by (simp_all add: STATUSES_def)
    from counts_have [OF keys(1), of s] counts_have [OF keys(2), of s] counts_have [OF keys(3), of s]
    obtain i p n where "dict_get (requirement_counts s) ''implemented'' = Some i" "dict_get (requirement_counts s) ''partial'' = Some p"
      "dict_get (requirement_counts s) ''not-implemented'' = Some n" by blast
    then show ?thesis by (simp add: summary_row_def Let_def)
  qed
  then obtain rows where rows: "those (map summary_row sets) = Some rows" using those_total [of sets summary_row] by blast
  have "\<exists>ls. doc_family s = Some ls" if "s \<in> set sets" for s
  proof -
    have "\<exists>row. requirement_rows r = Some row" if "r \<in> set (rset_requirements s)" for r
    proof -
      have "cr_status r \<in> set STATUSES"
        using assms \<open>s \<in> set sets\<close> that by (auto simp: list_all_iff all_requirements_def requirement_ok_def)
      then obtain mark where "dict_get STATUS_MARK (cr_status r) = Some mark"
        by (auto simp: STATUSES_def STATUS_MARK_def dict_get_def)
      then show ?thesis by (simp add: requirement_rows_def Let_def)
    qed
    from those_total [OF this] show ?thesis by (auto simp: doc_family_def)
  qed
  from those_total [of sets doc_family, OF this] obtain details where details: "those (map doc_family sets) = Some details" by blast
  obtain summary where summary: "summary_table sets families = Some summary"
    unfolding summary_table_def rows option.map by blast
  show ?thesis unfolding render_conformance_def details summary by simp
qed

text \<open>
  The gates of the conformance document. For a registry that loads, the document is produced; right after
  it was written the check passes, and it fails for every other content of the file. The strict gate passes
  exactly when every mandatory requirement is implemented or not applicable and no family is left unassessed,
  and neither gate writes the file.
\<close>

theorem conformance_gates:
  assumes "load_registry directory = Inr sets"
  shows "\<exists>doc. conformance_main False False preamble sets families old = Some (0, Some doc) \<and>
    (\<forall>output. conformance_main False True preamble sets families output = Some (if output = Some doc then 0 else 1, output)) \<and>
    (\<forall>output. conformance_main True check preamble sets families output =
       Some (if (\<forall>r \<in> set (all_requirements sets). cr_level r = ''mandatory'' \<longrightarrow> cr_status r \<in> {''implemented'', ''not-applicable''}) \<and>
                (\<forall>f \<in> set families. sf_state f \<noteq> ''not-assessed'') then 0 else 1, output))"
proof -
  have ok: "list_all requirement_ok (all_requirements sets)"
  proof -
    from assms obtain files where f: "files \<noteq> []" "load_sets files = Inr sets"
      by (auto simp: load_registry_def checked_Inr split: option.splits)
    from load_sets_ok [OF f(2)] show ?thesis by (auto simp: all_requirements_def set_ok_def list_all_iff)
  qed
  obtain doc where doc: "render_conformance preamble sets families = Some doc" using conformance_renders [OF ok] by blast
  have "cr_status r \<in> {''partial'', ''not-implemented''} \<longleftrightarrow> cr_status r \<notin> {''implemented'', ''not-applicable''}"
    if "r \<in> set (all_requirements sets)" for r
    using ok that by (auto simp: list_all_iff requirement_ok_def STATUSES_def)
  then have "filter blocks_conformance (all_requirements sets) = [] \<longleftrightarrow>
      (\<forall>r \<in> set (all_requirements sets). cr_level r = ''mandatory'' \<longrightarrow> cr_status r \<in> {''implemented'', ''not-applicable''})"
    by (simp add: filter_empty_conv blocks_conformance_def)
  moreover have "filter blocks_assessment families = [] \<longleftrightarrow> (\<forall>f \<in> set families. sf_state f \<noteq> ''not-assessed'')"
    by (simp add: filter_empty_conv blocks_assessment_def)
  ultimately show ?thesis by (intro exI [of _ doc]) (auto simp: conformance_main_def doc Let_def)
qed

theorem conformance_gates_witness:
  "\<exists>sets doc. load_registry (Some demo_registry) = Inr sets \<and>
    conformance_main False False [] sets [] None = Some (0, Some doc) \<and>
    conformance_main False True [] sets [] (Some doc) = Some (0, Some doc)"
proof -
  have "case load_registry (Some demo_registry) of Inl _ \<Rightarrow> False | Inr sets \<Rightarrow> True" by code_simp
  from case_InrD [OF this] obtain sets where s: "load_registry (Some demo_registry) = Inr sets" by blast
  from conformance_gates [OF s, of "[]" "[]" None False] s show ?thesis by fastforce
qed

text \<open>The bar of the coverage document has twenty cells, full exactly for full coverage of up to forty entries.\<close>

lemma half_even_le: "n \<le> k * d \<Longrightarrow> 0 < d \<Longrightarrow> half_even n d \<le> k"
proof -
  assume n: "n \<le> k * d" "0 < d"
  have q: "n div d \<le> k" using n by (metis div_le_mono nonzero_mult_div_cancel_right not_gr0)
  have "n div d + 1 \<le> k" if "n mod d \<noteq> 0"
  proof (rule ccontr)
    assume "\<not> n div d + 1 \<le> k"
    with q have "n div d = k" by simp
    with n that div_mult_mod_eq [of n d] show False by simp
  qed
  with q n(2) show ?thesis by (auto simp: half_even_def Let_def)
qed

lemma coverage_bar_cells:
  assumes "verified \<le> n" "0 < n"
  shows "half_even (20 * verified) n \<le> 20 \<and> half_even (100 * verified) n \<le> 100"
  using assms half_even_le [of "20 * verified" 20 n] half_even_le [of "100 * verified" 100 n] by simp

lemma coverage_check_after_write:
  "coverage_main False header catalog tree profiles old = (0, new) \<and> coverage_main True header catalog tree profiles new = (0, new)"
  if "new = Some (render_coverage header catalog tree profiles)"
  using that by (simp add: coverage_main_def Let_def)

end
