(* ===== verification/Verify_Stack.thy ===== *)
theory Verify_Stack
  imports Dm_Client
begin

text \<open>
  \<^verbatim>\<open>src/scripts/verify_stack.py\<close>: the deployment gate. It waits for a server to be healthy, seeds a subscriber,
  runs the simulated RCS client by OTP or by a minted token, takes the OMA-DM password out of the document it was
  served, and runs two sessions of the simulated OMA-DM client, the second with messages so small that the
  server has to split its packages. The server as seen over HTTP, the clock and the parsers are arguments. A run
  that does not end is \<^const>\<open>None\<close>; a \<open>SystemExit\<close> or an exception that is not caught is a value on the
  left. What is printed is left out, except that printing a field of an answer needs the field.
\<close>

section \<open>The deployment\<close>

datatype stack_error = SystemExit string | Uncaught client_error | UncaughtDm dm_client_error | BadAnswer

type_synonym ('w, 'a) stack_step = "((stack_error + 'a) \<times> 'w) option"

record 'w Deployment =
  dep_get :: "'w server"
  dep_put :: "string \<Rightarrow> (string, string) dict \<Rightarrow> json \<Rightarrow> 'w \<Rightarrow> (client_error + HttpResponse) \<times> 'w"
  dep_post :: "string \<Rightarrow> (string, string) dict \<Rightarrow> (string, string) dict \<Rightarrow> 'w \<Rightarrow> (client_error + HttpResponse) \<times> 'w"
  dep_dm :: "'w dm_server"
  dep_json :: "string \<Rightarrow> json option"
  dep_parse :: "string \<Rightarrow> element option"
  dep_dm_env :: DmClientEnv
  dep_now :: "'w \<Rightarrow> int"
  dep_sleep :: "int \<Rightarrow> 'w \<Rightarrow> 'w"

definition DEMO_IMSI :: string where
  "DEMO_IMSI = ''001010000000001''"

definition DEMO_MSISDN :: string where
  "DEMO_MSISDN = ''+821012345678''"

definition DEMO_IMEI :: string where
  "DEMO_IMEI = ''356938035643809''"

definition stack_bind :: "('w, 'a) stack_step \<Rightarrow> ('a \<Rightarrow> 'w \<Rightarrow> ('w, 'b) stack_step) \<Rightarrow> ('w, 'b) stack_step" where
  "stack_bind m f = (case m of None \<Rightarrow> None | Some (Inl e, w) \<Rightarrow> Some (Inl e, w) | Some (Inr a, w) \<Rightarrow> f a w)"

definition http_step :: "(client_error + 'a) \<times> 'w \<Rightarrow> ('w, 'a) stack_step" where
  "http_step x = Some (case fst x of Inl e \<Rightarrow> Inl (Uncaught e) | Inr a \<Rightarrow> Inr a, snd x)"

definition bearer :: "string \<Rightarrow> (string, string) dict" where
  "bearer admin_token = [(''Authorization'', ''Bearer '' @ admin_token)]"

definition plain_get :: "string \<Rightarrow> http_get" where
  "plain_get url = \<lparr>hg_url = url, hg_params = [], hg_headers = []\<rparr>"

section \<open>Health and readiness\<close>

partial_function (option) wait_until :: "'w Deployment \<Rightarrow> string \<Rightarrow> int \<Rightarrow> int \<Rightarrow> string \<Rightarrow> 'w \<Rightarrow> ('w, unit) stack_step" where
  "wait_until dep base_url timeout deadline last_seen w =
     (if dep_now dep w < deadline
      then (case dep_get dep (plain_get (base_url @ ''/healthz'')) w of
          (Inl (HttpError name), w') \<Rightarrow> wait_until dep base_url timeout deadline name (dep_sleep dep 2 w')
        | (Inl e, w') \<Rightarrow> Some (Inl (Uncaught e), w')
        | (Inr response, w') \<Rightarrow>
            if rs_status response = 200
            then Some (if dep_json dep (rs_body response) = None then Inl BadAnswer else Inr (), w')
            else wait_until dep base_url timeout deadline (''HTTP '' @ str_of_int (rs_status response)) (dep_sleep dep 2 w'))
      else Some (Inl (SystemExit (''ACS did not become healthy within '' @ str_of_int timeout @ ''s ('' @ last_seen @ '')'')), w))"

definition wait_for_health :: "'w Deployment \<Rightarrow> string \<Rightarrow> int \<Rightarrow> 'w \<Rightarrow> ('w, unit) stack_step" where
  "wait_for_health dep base_url timeout w = wait_until dep base_url timeout (dep_now dep w + timeout) [] w"

text \<open>\<open>(body.get("checks") or {}).items()\<close> needs an object, or a value that is false.\<close>

definition readable_checks :: "json \<Rightarrow> bool" where
  "readable_checks body \<longleftrightarrow> (case body of
     JObj kvs \<Rightarrow> (case dict_get kvs ''checks'' of
         None \<Rightarrow> True
       | Some (JObj _) \<Rightarrow> True
       | Some v \<Rightarrow> v = JNull \<or> v = JBool False \<or> v = JInt 0 \<or> v = JStr [] \<or> v = JArr [])
   | _ \<Rightarrow> False)"

definition report_readiness :: "'w Deployment \<Rightarrow> string \<Rightarrow> 'w \<Rightarrow> ('w, unit) stack_step" where
  "report_readiness dep base_url w =
     stack_bind (http_step (dep_get dep (plain_get (base_url @ ''/readyz'')) w)) (\<lambda>response w.
       case dep_json dep (rs_body response) of
         None \<Rightarrow> Some (Inl BadAnswer, w)
       | Some body \<Rightarrow>
           if \<not> readable_checks body then Some (Inl BadAnswer, w)
           else if rs_status response \<noteq> 200 then Some (Inl (SystemExit ''ACS is not ready''), w)
           else Some (Inr (), w))"

section \<open>The administrator's calls\<close>

definition demo_profile :: json where
  "demo_profile = JObj [(''msisdn'', JStr DEMO_MSISDN), (''entitled'', JBool True), (''rcs_profile'', JStr ''UP_2.4''),
     (''provisioning_version'', JInt 1), (''volte_enabled'', JBool True)]"

definition seed_subscriber :: "'w Deployment \<Rightarrow> string \<Rightarrow> string \<Rightarrow> 'w \<Rightarrow> ('w, unit) stack_step" where
  "seed_subscriber dep base_url admin_token w =
     (if admin_token = [] then Some (Inr (), w)
      else stack_bind (http_step (dep_put dep (base_url @ ''/admin/subscribers/'' @ DEMO_IMSI) (bearer admin_token) demo_profile w))
        (\<lambda>response w.
          if rs_status response \<noteq> 200
          then Some (Inl (SystemExit (''failed to seed the demo subscriber: '' @ str_of_int (rs_status response) @ '' '' @ rs_body response)), w)
          else Some (Inr (), w)))"

definition otp_outbox_available :: "'w Deployment \<Rightarrow> string \<Rightarrow> 'w \<Rightarrow> ('w, bool) stack_step" where
  "otp_outbox_available dep base_url w =
     (case dep_get dep \<lparr>hg_url = base_url @ ''/dev/sms'', hg_params = [(''msisdn'', DEMO_MSISDN)], hg_headers = []\<rparr> w of
        (Inl (HttpError _), w') \<Rightarrow> Some (Inr False, w')
      | (Inl e, w') \<Rightarrow> Some (Inl (Uncaught e), w')
      | (Inr response, w') \<Rightarrow> Some (Inr (rs_status response = 200), w'))"

text \<open>\<open>str(response.json()["token"])\<close> for a token that is a string, as the endpoint gives it.\<close>

definition answered_token :: "json option \<Rightarrow> stack_error + string" where
  "answered_token body = (case body of
     Some (JObj kvs) \<Rightarrow> (case dict_get kvs ''token'' of Some (JStr t) \<Rightarrow> Inr t | _ \<Rightarrow> Inl BadAnswer)
   | _ \<Rightarrow> Inl BadAnswer)"

definition mint_token :: "'w Deployment \<Rightarrow> string \<Rightarrow> string \<Rightarrow> 'w \<Rightarrow> ('w, string) stack_step" where
  "mint_token dep base_url admin_token w =
     stack_bind (http_step (dep_post dep (base_url @ ''/admin/subscribers/'' @ DEMO_IMSI @ ''/issue-token'') [(''imei'', DEMO_IMEI)]
         (bearer admin_token) w)) (\<lambda>response w.
       if rs_status response \<noteq> 200
       then Some (Inl (SystemExit (''failed to mint a token: '' @ str_of_int (rs_status response) @ '' '' @ rs_body response)), w)
       else Some (answered_token (dep_json dep (rs_body response)), w))"

definition dm_password_from :: "(string \<Rightarrow> element option) \<Rightarrow> string \<Rightarrow> client_error + string" where
  "dm_password_from parse payload = bind_err (parse_document parse payload) (\<lambda>root.
     Inr (case application root ''w7'' of
        None \<Rightarrow> []
      | Some account \<Rightarrow> (case find_first [parm_step ''AAUTHSECRET''] account of
          None \<Rightarrow> []
        | Some secret \<Rightarrow> opt_or (dict_get (el_attrs secret) ''value'') [])))"

definition has_fields :: "string list \<Rightarrow> json option \<Rightarrow> bool" where
  "has_fields names v \<longleftrightarrow> (case v of Some (JObj kvs) \<Rightarrow> list_all (\<lambda>n. dict_get kvs n \<noteq> None) names | _ \<Rightarrow> False)"

definition coverage_readable :: "json option \<Rightarrow> bool" where
  "coverage_readable body \<longleftrightarrow> (case body of
     Some (JObj kvs) \<Rightarrow> has_fields [''parameters'', ''verified'', ''profile''] (dict_get kvs ''omacp'') \<and>
       has_fields [''management_objects'', ''nodes'', ''verified''] (dict_get kvs ''omadm'')
   | _ \<Rightarrow> False)"

definition report_coverage :: "'w Deployment \<Rightarrow> string \<Rightarrow> string \<Rightarrow> 'w \<Rightarrow> ('w, unit) stack_step" where
  "report_coverage dep base_url admin_token w =
     (if admin_token = [] then Some (Inr (), w)
      else stack_bind (http_step (dep_get dep \<lparr>hg_url = base_url @ ''/admin/coverage'', hg_params = [], hg_headers = bearer admin_token\<rparr> w))
        (\<lambda>response w.
          if rs_status response \<noteq> 200 then Some (Inr (), w)
          else Some (if coverage_readable (dep_json dep (rs_body response)) then Inr () else Inl BadAnswer, w)))"

section \<open>The two planes\<close>

definition scenario_step :: "(client_error + unit) \<times> 'w run \<Rightarrow> ('w, RcsClientSimulator \<times> Checker) stack_step" where
  "scenario_step x = (case x of (res, r) \<Rightarrow>
     Some (case res of Inl e \<Rightarrow> Inl (Uncaught e) | Inr _ \<Rightarrow> Inr (run_sim r, run_checker r), run_world r))"

definition rcs_scenario :: "'w Deployment \<Rightarrow> string \<Rightarrow> string \<Rightarrow> bool \<Rightarrow> 'w \<Rightarrow> ('w, RcsClientSimulator \<times> Checker) stack_step" where
  "rcs_scenario dep base_url admin_token use_otp w =
     (let start = (\<lambda>w. \<lparr>run_sim = new_client base_url DEMO_IMSI DEMO_IMEI, run_checker = new_checker, run_world = w\<rparr>)
      in if use_otp then scenario_step (scenario_full (dep_get dep) (dep_json dep) (dep_parse dep) DEMO_MSISDN (start w))
         else stack_bind (mint_token dep base_url admin_token w) (\<lambda>token w.
           scenario_step (scenario_token (dep_get dep) (dep_parse dep) token (start w))))"

text \<open>The password out of a fresh document: an invalidation, a request, and the OTP if it is asked for again.\<close>

definition harvest_password :: "'w Deployment \<Rightarrow> string \<Rightarrow> string \<Rightarrow> bool \<Rightarrow> RcsClientSimulator \<Rightarrow> 'w \<Rightarrow> ('w, string) stack_step" where
  "harvest_password dep base_url admin_token use_otp sim w =
     stack_bind (if admin_token = [] then Some (Inr (), w)
         else stack_bind (http_step (dep_post dep (base_url @ ''/admin/subscribers/'' @ DEMO_IMSI @ ''/invalidate'') [] (bearer admin_token) w))
           (\<lambda>_ w. Some (Inr (), w))) (\<lambda>_ w.
     stack_bind (http_step (request_configuration (dep_get dep) [] sim w)) (\<lambda>response w.
     stack_bind (if rs_status response = 200 \<and> rs_body response = [] \<and> use_otp
         then stack_bind (http_step (fetch_otp (dep_get dep) (dep_json dep) DEMO_MSISDN sim w)) (\<lambda>otp w.
           if truthy otp then http_step (request_configuration (dep_get dep) [(''OTP'', otp)] sim w) else Some (Inr response, w))
         else Some (Inr response, w)) (\<lambda>response w.
     if rs_body response \<noteq> [] then http_step (dm_password_from (dep_parse dep) (rs_body response), w)
     else Some (Inr [], w))))"

fun dm_sessions :: "'w Deployment \<Rightarrow> string \<Rightarrow> string \<Rightarrow> int list \<Rightarrow> Checker \<Rightarrow> 'w \<Rightarrow> ('w, Checker) stack_step" where
  "dm_sessions dep base_url password [] checker w = Some (Inr checker, w)"
| "dm_sessions dep base_url password (max_size # sizes) checker w =
     (let c = new_dm_client base_url DEMO_IMSI DEMO_IMEI password ''/dm'' ''basic'' ''SimCorp'' ''SimPhone'' ''SIM-1.0'' False max_size
      in case run_session (dep_dm_env dep) (dep_dm dep) \<lparr>dmr_sim = c, dmr_checker = checker, dmr_world = w\<rparr> of
           None \<Rightarrow> None
         | Some (Inl e, r) \<Rightarrow> Some (Inl (UncaughtDm e), dmr_world r)
         | Some (Inr _, r) \<Rightarrow> dm_sessions dep base_url password sizes (dmr_checker r) (dmr_world r))"

definition dm_plane :: "'w Deployment \<Rightarrow> string \<Rightarrow> string \<Rightarrow> 'w \<Rightarrow> ('w, bool) stack_step" where
  "dm_plane dep base_url password w =
     (if password = [] then Some (Inr False, w)
      else stack_bind (dm_sessions dep base_url password [16384, 1500] new_checker w) (\<lambda>checker w. Some (Inr (summary_ok checker), w)))"

definition verify_stack :: "'w Deployment \<Rightarrow> string \<Rightarrow> string \<Rightarrow> bool \<Rightarrow> 'w \<Rightarrow> ('w, int) stack_step" where
  "verify_stack dep url admin_token skip_dm w =
     (let base_url = py_rstrip_chars ''/'' url in
      stack_bind (wait_for_health dep base_url 90 w) (\<lambda>_ w.
      stack_bind (report_readiness dep base_url w) (\<lambda>_ w.
      stack_bind (seed_subscriber dep base_url admin_token w) (\<lambda>_ w.
      stack_bind (otp_outbox_available dep base_url w) (\<lambda>use_otp w.
      if \<not> use_otp \<and> admin_token = [] then Some (Inr 1, w)
      else
      stack_bind (rcs_scenario dep base_url admin_token use_otp w) (\<lambda>(sim, checker) w.
      stack_bind (harvest_password dep base_url admin_token use_otp sim w) (\<lambda>password w.
      stack_bind (if skip_dm then Some (Inr True, w) else dm_plane dep base_url password w) (\<lambda>dm_ok w.
      stack_bind (report_coverage dep base_url admin_token w) (\<lambda>_ w.
      Some (Inr (if summary_ok checker \<and> dm_ok then 0 else 1), w))))))))))"

section \<open>Demo subscribers\<close>

text \<open>\<^verbatim>\<open>src/scripts/seed_demo_data.py\<close>: the subscribers and the loop that stores them; the IMSI is taken out of the
  body and goes into the path.\<close>

definition DEMO_SUBSCRIBERS :: "(string \<times> (string \<times> json) list) list" where
  "DEMO_SUBSCRIBERS =
     [(''001010000000001'', [(''msisdn'', JStr ''+821012345678''), (''entitled'', JBool True), (''rcs_profile'', JStr ''UP_2.4''),
        (''volte_enabled'', JBool True)]),
      (''001010000000002'', [(''msisdn'', JStr ''+821012345679''), (''entitled'', JBool True), (''rcs_profile'', JStr ''UP_1.0''),
        (''volte_enabled'', JBool True)]),
      (''001010000000003'', [(''msisdn'', JStr ''+821012345680''), (''entitled'', JBool True), (''rcs_profile'', JStr ''joyn_blackbird''),
        (''volte_enabled'', JBool False)]),
      (''001010000000009'', [(''msisdn'', JStr ''+821012345689''), (''entitled'', JBool False), (''rcs_profile'', JStr ''UP_2.4'')]),
      (''001010000000010'', [(''msisdn'', JStr ''+821012345690''), (''entitled'', JBool True), (''forced_vers'', JInt (-2)),
        (''rcs_profile'', JStr ''UP_2.4'')]),
      (''001010000000011'', [(''msisdn'', JStr ''+821012345691''), (''entitled'', JBool True), (''rcs_profile'', JStr ''UP_2.4''),
        (''overrides'', JObj [(''APPLICATION:ap2002/MESSAGING/FT/MaxSizeFileTr'', JStr ''2048'')])])]"

fun seed_all :: "'w Deployment \<Rightarrow> string \<Rightarrow> string \<Rightarrow> (string \<times> (string \<times> json) list) list \<Rightarrow> nat \<Rightarrow> 'w \<Rightarrow> ('w, nat) stack_step" where
  "seed_all dep base_url admin_token [] failures w = Some (Inr failures, w)"
| "seed_all dep base_url admin_token ((imsi, entry) # rest) failures w =
     stack_bind (http_step (dep_put dep (base_url @ ''/admin/subscribers/'' @ imsi) (bearer admin_token) (JObj entry) w)) (\<lambda>response w.
       seed_all dep base_url admin_token rest (if rs_status response = 200 then failures else failures + 1) w)"

definition seed_main :: "'w Deployment \<Rightarrow> string \<Rightarrow> string \<Rightarrow> 'w \<Rightarrow> ('w, int) stack_step" where
  "seed_main dep url admin_token w =
     (if admin_token = [] then Some (Inr 2, w)
      else stack_bind (seed_all dep (py_rstrip_chars ''/'' url) admin_token DEMO_SUBSCRIBERS 0 w) (\<lambda>failures w.
        Some (Inr (if failures \<noteq> 0 then 1 else 0), w)))"

section \<open>The gate\<close>

text \<open>If the clock does not run backwards and a sleep passes its time, waiting ends, whatever the server does.\<close>

lemma wait_until_ends:
  assumes "\<And>rq w. dep_now dep w \<le> dep_now dep (snd (dep_get dep rq w))" "\<And>w. dep_now dep w + 2 \<le> dep_now dep (dep_sleep dep 2 w)"
  shows "\<exists>res. wait_until dep base_url timeout deadline last_seen w = Some res"
proof (induction "nat (deadline - dep_now dep w)" arbitrary: w last_seen rule: less_induct)
  case less
  obtain r w' where g: "dep_get dep (plain_get (base_url @ ''/healthz'')) w = (r, w')" by fastforce
  have "dep_now dep w \<le> dep_now dep w'" using assms(1) [of w "plain_get (base_url @ ''/healthz'')"] by (simp add: g)
  with assms(2) [of w'] have "dep_now dep w + 2 \<le> dep_now dep (dep_sleep dep 2 w')" by simp
  then have again: "\<exists>res. wait_until dep base_url timeout deadline l (dep_sleep dep 2 w') = Some res" if "dep_now dep w < deadline" for l
    using less [of "dep_sleep dep 2 w'" l] that by simp
  show ?case
    using again by (subst wait_until.simps) (auto simp: g split: sum.split client_error.split)
qed

text \<open>The waiting is over only for an answer 200.\<close>

lemma stack_bind_Inr: "stack_bind m f = Some (Inr b, w') \<longleftrightarrow> (\<exists>a w. m = Some (Inr a, w) \<and> f a w = Some (Inr b, w'))"
  by (auto simp: stack_bind_def split: option.splits sum.splits)

lemma http_step_Inr: "http_step x = Some (Inr a, w) \<longleftrightarrow> x = (Inr a, w)"
  by (cases x) (auto simp: http_step_def split: sum.splits)

lemma wait_until_healthy:
  assumes "wait_until dep base_url timeout deadline last_seen w = Some res"
  shows "fst res = Inr u \<longrightarrow>
    (\<exists>v response. dep_get dep (plain_get (base_url @ ''/healthz'')) v = (Inr response, snd res) \<and> rs_status response = 200)"
proof (rule wait_until.raw_induct [OF _ assms, of "\<lambda>dep base_url timeout deadline last_seen w res. fst res = Inr u \<longrightarrow>
    (\<exists>v response. dep_get dep (plain_get (base_url @ ''/healthz'')) v = (Inr response, snd res) \<and> rs_status response = 200)"], goal_cases)
  case (1 f dep base_url timeout deadline last_seen w res)
  note answer = 1(2)
  obtain r w' where g: "dep_get dep (plain_get (base_url @ ''/healthz'')) w = (r, w')" by fastforce
  show ?case
  proof (cases r)
    case (Inl e)
    then show ?thesis using 1(1) answer by (cases e) (auto simp: g split: if_splits)
  next
    case (Inr response)
    show ?thesis
    proof (cases "dep_now dep w < deadline \<and> rs_status response = 200")
      case True
      with g Inr answer show ?thesis by (intro impI exI [of _ w] exI [of _ response]) (auto split: if_splits)
    next
      case False
      with 1(1) g Inr answer show ?thesis by (auto split: if_splits)
    qed
  qed
qed

text \<open>
  The deployment gate is sound. If the whole run returns zero with the OMA-DM plane included, then the
  health check answered 200, the scenario of the RCS client ran to its end with no failed check, the document it
  was then served had an OMA-DM password, and the sessions of the OMA-DM client with large and with small
  messages both ran to their ends with no failed check.
\<close>

lemma stack_gate_sound:
  fixes dep :: "'w Deployment"
  assumes "verify_stack dep url admin_token False w = Some (Inr 0, w')"
  shows "\<exists>base_url. base_url = py_rstrip_chars ''/'' url \<and>
    (\<exists>v v' response. dep_get dep (plain_get (base_url @ ''/healthz'')) v = (Inr response, v') \<and> rs_status response = 200) \<and>
    (\<exists>use_otp sim checker password dm_checker w1 w2 w3 w4.
       rcs_scenario dep base_url admin_token use_otp w1 = Some (Inr (sim, checker), w2) \<and> ck_failures checker = [] \<and>
       harvest_password dep base_url admin_token use_otp sim w2 = Some (Inr password, w3) \<and> password \<noteq> [] \<and>
       dm_sessions dep base_url password [16384, 1500] new_checker w3 = Some (Inr dm_checker, w4) \<and> ck_failures dm_checker = [])"
proof -
  let ?base = "py_rstrip_chars ''/'' url"
  from assms obtain w0 u use_otp w1 sim checker w2 password w3 dm_ok w4 where
    health: "wait_for_health dep ?base 90 w = Some (Inr u, w0)" and
    rcs: "rcs_scenario dep ?base admin_token use_otp w1 = Some (Inr (sim, checker), w2)" and
    pw: "harvest_password dep ?base admin_token use_otp sim w2 = Some (Inr password, w3)" and
    dm: "dm_plane dep ?base password w3 = Some (Inr dm_ok, w4)" and ok: "summary_ok checker" "dm_ok"
    by (auto simp: verify_stack_def Let_def stack_bind_Inr split: if_splits)
  from wait_until_healthy [OF health [unfolded wait_for_health_def], of u]
  have healthy: "\<exists>v v' response. dep_get dep (plain_get (?base @ ''/healthz'')) v = (Inr response, v') \<and> rs_status response = 200" by fastforce
  have "password \<noteq> []" using dm ok(2) by (auto simp: dm_plane_def)
  have "\<exists>dm_checker w5. dm_sessions dep ?base password [16384, 1500] new_checker w3 = Some (Inr dm_checker, w5) \<and> summary_ok dm_checker"
  proof -
    from dm \<open>password \<noteq> []\<close> have "stack_bind (dm_sessions dep ?base password [16384, 1500] new_checker w3)
        (\<lambda>checker w. Some (Inr (summary_ok checker), w)) = Some (Inr dm_ok, w4)" unfolding dm_plane_def by (simp only: if_False)
    then obtain a w5 where "dm_sessions dep ?base password [16384, 1500] new_checker w3 = Some (Inr a, w5)"
      "Some (Inr (summary_ok a), w5) = (Some (Inr dm_ok, w4) :: ('w, bool) stack_step)" unfolding stack_bind_Inr by blast
    with ok(2) show ?thesis by blast
  qed
  then obtain dm_checker w5 where "dm_sessions dep ?base password [16384, 1500] new_checker w3 = Some (Inr dm_checker, w5)"
    "ck_failures dm_checker = []" by (auto simp only: summary_ok_def)
  with rcs pw ok(1) \<open>password \<noteq> []\<close> have "rcs_scenario dep ?base admin_token use_otp w1 = Some (Inr (sim, checker), w2) \<and> ck_failures checker = [] \<and>
       harvest_password dep ?base admin_token use_otp sim w2 = Some (Inr password, w3) \<and> password \<noteq> [] \<and>
       dm_sessions dep ?base password [16384, 1500] new_checker w3 = Some (Inr dm_checker, w5) \<and> ck_failures dm_checker = []"
    unfolding summary_ok_def by (intro conjI)
  with healthy show ?thesis by (intro exI [of _ ?base] conjI refl) (assumption, intro exI, assumption)
qed

end
