(* ===== verification/Spec2Isabelle.thy ===== *)
theory Spec2Isabelle
  imports Otp_Concurrency Provisioning Dm_Retry Wbxml_Roundtrip Smpp Dynamo_Refines Console_Pages Msisdn_Ui App
    Rcs_Converges Dm_Converges Gen_Docs Verify_Stack
begin

text \<open>
  A model of the auto-configuration server under \<^verbatim>\<open>src/src/acs\<close>, its client simulators and its scripts: a service that RCS clients ask for their
  configuration (GSMA RCC.14 over HTTP, an OMA-CP document as the answer) and that manages devices
  over OMA-DM (SyncML, as XML or WBXML), with an operator's interface beside it.

  \<^bold>\<open>How the parts interact.\<close> The application (\<open>App\<close>) checks the settings (\<open>Config\<close>), builds a store, an SMS
  sender and a BSF client, loads the two catalogues and mounts the routers. A configuration request
  reaches \<open>handle_configuration_request\<close> (\<open>Endpoints\<close>), which parses it (\<open>Request\<close>) and calls the provisioning
  service (\<open>Provisioning.handle\<close>): the identity chain tries a token (\<open>Token\<close>), the enriched header of a trusted
  proxy (\<open>Enrichment\<close>), GBA (\<open>Gba\<close>) and a one-time password (\<open>Otp\<close>), and an identified, entitled subscriber gets a
  document (\<open>Omacp_Builder\<close> over \<open>Omacp_Catalog\<close>, \<open>Ims_Identity\<close>, \<open>Vers\<close>). A device-management request is read
  chunk by chunk (\<open>dm_session\<close>), decoded (\<open>Wbxml\<close>, \<open>Syncml\<close>), authenticated (\<open>Dm_Auth\<close>) and answered by the session
  service (\<open>Dm_Session\<close>), which splits packages (\<open>Dm_Package\<close>) and keeps the rest in the store. Operators use the
  JSON interface (\<open>Admin\<close>) or the console (\<open>Console\<close>, \<open>Console_Pages\<close>, \<open>Html\<close>); a user without a known number uses
  the pages of \<open>Msisdn_Ui\<close>. All of them share one store: \<open>Memory_Store\<close> or the table of \<open>Dynamo\<close>.

  \<^bold>\<open>State and operations.\<close> Classes are records with a short prefix per record (\<open>sub_\<close> for \<open>Subscriber\<close>, \<open>oc_\<close> for
  \<open>OtpChallenge\<close>, \<open>cq_\<close> for \<open>ConfigQuery\<close>, \<open>set_\<close> for \<open>Settings\<close>); enumerations and error classes are datatypes with
  the source's names; dictionaries are association lists in insertion order; a method that changes the
  store takes and returns \<open>MemoryStore\<close>; an exception is \<open>Inl\<close> of an error value. Definitions carry the
  source's names, with a prefix where two modules use one name (\<open>admin_\<close>, \<open>dyn_\<close>, \<open>msisdn_\<close>, \<open>dm_\<close>). Text is a
  list of characters up to U+00FF; octets are characters too, and \<open>utf8\<close> marks the encoding. The release and
  document scripts work on text beyond that range, a list of code points (\<open>codes\<close>).

  \<^bold>\<open>Theories.\<close>
  \<^item> \<open>Acs_Prelude\<close>: Python's string, number and dictionary operations, error sequencing. \<open>Http\<close>: requests,
    answers, percent encoding, dates.
  \<^item> \<open>Pii\<close> (\<^verbatim>\<open>security/pii.py\<close>), \<open>Models\<close> (\<^verbatim>\<open>domain/models.py\<close>), \<open>Config\<close> (\<^verbatim>\<open>config.py\<close>), \<open>Vers\<close> (\<^verbatim>\<open>protocol/vers.py\<close>),
    \<open>Ims_Identity\<close> (\<^verbatim>\<open>protocol/identity.py\<close>), \<open>Request\<close> (\<^verbatim>\<open>protocol/request.py\<close>).
  \<^item> \<open>Store_Base\<close>: the persistence port as locales; \<open>Memory_Store\<close> (\<^verbatim>\<open>store/memory.py\<close>) and \<open>Dynamo\<close>
    (\<^verbatim>\<open>store/dynamodb.py\<close>) provide it; \<open>Dynamo_Refines\<close> shows that histories on the table give the memory
    store's answers and that issuing a challenge is atomic under interference.
  \<^item> \<open>Otp\<close> (\<^verbatim>\<open>auth/otp.py\<close>) with its outcome table \<open>verify_spec\<close>, and \<open>Otp_Concurrency\<close>: the same operations split at
    their store calls and interleaved by an inductive step relation; single use and the daily cap hold in
    every reachable state. \<open>Token\<close> (\<^verbatim>\<open>auth/token.py\<close>), \<open>Enrichment\<close>, \<open>Gba\<close>.
  \<^item> \<open>Sms\<close> (\<^verbatim>\<open>sms/base.py\<close>, \<^verbatim>\<open>sms/aws.py\<close>): the sender's contract as the locale \<open>sms_port\<close>, interpreted on the mock, the
    AWS senders, \<open>Smpp\<close> (\<^verbatim>\<open>sms/smpp.py\<close>: units on 32-bit words, the read loop, the session) and the sender that the
    factory built (\<open>App\<close>).
  \<^item> \<open>Omacp_Document\<close>, \<open>Omacp_Catalog\<close>, \<open>Omacp_Builder\<close> (\<^verbatim>\<open>protocol/omacp\<close>): documents, their catalogue, the builder.
  \<^item> \<open>Provisioning\<close> (\<^verbatim>\<open>auth/identity.py\<close>, \<^verbatim>\<open>domain/service.py\<close>): who is served, and what.
  \<^item> \<open>Wbxml\<close>, \<open>Syncml\<close>, \<open>Motree\<close>, \<open>Dm_Auth\<close>, \<open>Dm_Package\<close>, \<open>Dm_Session\<close> (\<^verbatim>\<open>protocol/omadm\<close>): the device-management
    plane. \<open>Wbxml_Roundtrip\<close> relates encoder and decoder, \<open>Dm_Delivery\<close> shows that packages arrive whole and
    within the device's limits, \<open>Dm_Retry\<close> that an interrupted commit is repaired by repeating the message.
  \<^item> \<open>Conformance\<close> (\<^verbatim>\<open>conformance.py\<close>, \<^verbatim>\<open>specscope.py\<close>): the requirement registry and the specification scope.
  \<^item> \<open>Observability\<close> (\<^verbatim>\<open>observability.py\<close>), \<open>Endpoints\<close> (\<^verbatim>\<open>api/provisioning.py\<close>, \<^verbatim>\<open>api/dm.py\<close>, \<^verbatim>\<open>api/health.py\<close>,
    \<^verbatim>\<open>api/dev.py\<close>), \<open>Admin\<close> (\<^verbatim>\<open>api/admin.py\<close>), \<open>Html\<close>, \<open>Console\<close>, \<open>Console_Pages\<close> (\<^verbatim>\<open>api/html.py\<close>, \<^verbatim>\<open>api/console.py\<close>),
    \<open>Msisdn_Ui\<close> (\<^verbatim>\<open>api/msisdn_ui.py\<close>), \<open>App\<close> (\<^verbatim>\<open>app.py\<close>, \<^verbatim>\<open>api/deps.py\<close>, \<^verbatim>\<open>errors.py\<close>, the factories).
  \<^item> \<open>Rcs_Client\<close> (\<^verbatim>\<open>src/tools/rcs_client_sim.py\<close>) and \<open>Dm_Client\<close> (\<^verbatim>\<open>src/tools/dm_client_sim.py\<close>): the simulated clients, each
    with a server as an argument. \<open>Rcs_Converges\<close> runs the first against the configuration endpoint: after one
    document with a token, client and server agree and stay so. \<open>Dm_Follow\<close> relates what the server writes to what
    the second client reads, and \<open>Dm_Converges\<close> shows that its loop over a split package ends with the whole package.
  \<^item> \<open>Release\<close> (\<^verbatim>\<open>src/scripts/release_notes.py\<close>), \<open>Gen_Docs\<close> (\<^verbatim>\<open>gen_conformance.py\<close>, \<^verbatim>\<open>gen_spec_coverage.py\<close>) and \<open>Verify_Stack\<close>
    (\<^verbatim>\<open>verify_stack.py\<close>, \<^verbatim>\<open>seed_demo_data.py\<close>): the scripts that release, document and check a deployment. A release never
    moves a channel back and its notes are the changelog's section; the gates of the documents pass exactly for
    what was generated; the deployment gate passes only after both simulated clients ran without a failed check.

  \<^bold>\<open>Bounds.\<close> Verifying a code retries a lost race at most \<open>VERIFY_ROUNDS\<close> = 5 times and issuing one on the table
  at most \<open>OTP_WRITE_ROUNDS\<close> = 5 times, as the code does; running out is the outcome the code gives it. A
  package is split over at most \<open>MAX_MESSAGES_PER_PACKAGE\<close> = 128 messages. The WBXML limits (size, depth,
  elements) are the code's. The SMPP read loop terminates because every turn consumes an event of the
  connection; the loop that reads a device-management body is a partial function and is proved to
  return within \<open>MAX_BODY_BYTES\<close> chunks of any stream. The DM client's loop and the wait for a healthy deployment
  are partial functions too: the first returns against the server's session service after at most one message
  per entry, the second whenever the clock runs. No other fuel is used.

  \<^bold>\<open>Parameters.\<close> Code that is not in the repository is an argument, with what the server relies on as
  hypotheses where a theorem needs it: SHA-256, HMAC, MD5, base64, randomness and the clock; lxml and
  expat; \<open>ipaddress\<close>; the YAML parser (loaders work on parsed values); the DynamoDB table (\<open>DynamoTable\<close>
  with the promises of \<open>Dynamo_Refines\<close>); the AWS SMS calls and the SMPP connection; the form and stream
  decoding of the web framework. Each such hypothesis is discharged on a concrete function by a witness.

  \<^bold>\<open>Live objects.\<close> The memory store hands out the objects it stores. Every caller writes an object back after
  changing it, so copying is faithful, except that \<open>subscriber_update\<close> of the console changes the number
  first; there the assignment is a step of its own (\<open>assign_live\<close>).

  \<^bold>\<open>Not modelled.\<close> Request routing, content negotiation and the default error pages of the web framework, the
  reading of settings from the environment, file access, sockets and threads: they are the libraries'.
  \<open>Decimal\<close> numbers of DynamoDB items are integers. Of the simulators and scripts, argument parsing, printing, the
  state file of the RCS client and the fixed text at the top of the generated documents are left out.
\<close>

end
